(* ===== verification/Prelude.thy ===== *)
theory Prelude
  imports Main "HOL-Library.Multiset"
begin

text \<open>
  Shared vocabulary of the development: the effect type in which the asynchronous,
  throwing and file-writing operations of the code are translated (explicit state passing
  with an error as a value), the sequential loops over it, the frame rules that carry the
  "this operation leaves that part of the state alone" proofs, and generic facts on lists,
  options and multisets that several components use.
\<close>

named_theorems eff_defs \<open>definitions of the effect combinators\<close>
named_theorems frame_intros \<open>introduction rules for state-frame properties\<close>
named_theorems js_simps \<open>rewrite rules for the JavaScript library functions\<close>

section \<open>Effects: state and exceptions\<close>

text \<open>
  An operation takes the state it may change and gives back either the thrown error
  (\<open>Inl\<close>) or its value (\<open>Inr\<close>), together with the state at that moment: changes made
  before a \<open>throw\<close> stay made, as they do in the code.
\<close>

type_synonym ('e, 's, 'a) eff = "'s \<Rightarrow> ('e + 'a) \<times> 's"

definition ret :: "'a \<Rightarrow> ('e, 's, 'a) eff" where
  [eff_defs]: "ret x = (\<lambda>s. (Inr x, s))"

definition throw :: "'e \<Rightarrow> ('e, 's, 'a) eff" where
  [eff_defs]: "throw e = (\<lambda>s. (Inl e, s))"

definition lift :: "'e + 'a \<Rightarrow> ('e, 's, 'a) eff" where
  [eff_defs]: "lift r = (\<lambda>s. (r, s))"

definition bindE :: "('e, 's, 'a) eff \<Rightarrow> ('a \<Rightarrow> ('e, 's, 'b) eff) \<Rightarrow> ('e, 's, 'b) eff" where
  [eff_defs]: "bindE m f = (\<lambda>s. case m s of (Inl e, s') \<Rightarrow> (Inl e, s') | (Inr x, s') \<Rightarrow> f x s')"

definition catchE :: "('e, 's, 'a) eff \<Rightarrow> ('e \<Rightarrow> ('e, 's, 'a) eff) \<Rightarrow> ('e, 's, 'a) eff" where
  [eff_defs]: "catchE m h = (\<lambda>s. case m s of (Inl e, s') \<Rightarrow> h e s' | (Inr x, s') \<Rightarrow> (Inr x, s'))"

text \<open>A \<open>for\<close> loop that collects one value per element, and one that threads an accumulator.\<close>

primrec mapE :: "('a \<Rightarrow> ('e, 's, 'b) eff) \<Rightarrow> 'a list \<Rightarrow> ('e, 's, 'b list) eff" where
  "mapE f [] = ret []"
| "mapE f (x # xs) = bindE (f x) (\<lambda>y. bindE (mapE f xs) (\<lambda>ys. ret (y # ys)))"

primrec foldE :: "('a \<Rightarrow> 'b \<Rightarrow> ('e, 's, 'b) eff) \<Rightarrow> 'a list \<Rightarrow> 'b \<Rightarrow> ('e, 's, 'b) eff" where
  "foldE f [] acc = ret acc"
| "foldE f (x # xs) acc = bindE (f x acc) (\<lambda>acc'. foldE f xs acc')"

text \<open>Pure code that may throw, over plain sums.\<close>

definition bindS :: "'e + 'a \<Rightarrow> ('a \<Rightarrow> 'e + 'b) \<Rightarrow> 'e + 'b" where
  "bindS m f = (case m of Inl e \<Rightarrow> Inl e | Inr x \<Rightarrow> f x)"

primrec mapS :: "('a \<Rightarrow> 'e + 'b) \<Rightarrow> 'a list \<Rightarrow> 'e + 'b list" where
  "mapS f [] = Inr []"
| "mapS f (x # xs) = bindS (f x) (\<lambda>y. bindS (mapS f xs) (\<lambda>ys. Inr (y # ys)))"

primrec foldS :: "('a \<Rightarrow> 'b \<Rightarrow> 'e + 'b) \<Rightarrow> 'a list \<Rightarrow> 'b \<Rightarrow> 'e + 'b" where
  "foldS f [] acc = Inr acc"
| "foldS f (x # xs) acc = bindS (f x acc) (foldS f xs)"

lemma bindS_simps [simp]:
  "bindS (Inl e) f = Inl e"
  "bindS (Inr x) f = f x"
  by (simp_all add: bindS_def)

lemma map_sum_Inr_eq: "map_sum f g z = Inr r \<longleftrightarrow> (\<exists>c. z = Inr c \<and> r = g c)"
  by (cases z) auto

lemma bindS_Inr_iff: "bindS m f = Inr y \<longleftrightarrow> (\<exists>x. m = Inr x \<and> f x = Inr y)"
  by (cases m) auto

lemma mapS_total:
  assumes "\<And>x. x \<in> set xs \<Longrightarrow> \<exists>y. f x = Inr y"
  shows "\<exists>ys. mapS f xs = Inr ys"
  using assms
proof (induction xs)
  case Nil
  then show ?case by simp
next
  case (Cons x xs)
  then obtain y ys where "f x = Inr y" "mapS f xs = Inr ys" by (meson list.set_intros)
  then show ?case by simp
qed

lemma mapS_list_all2: "mapS f xs = Inr ys \<longleftrightarrow> list_all2 (\<lambda>x y. f x = Inr y) xs ys"
proof (induction xs arbitrary: ys)
  case Nil
  then show ?case by auto
next
  case (Cons x xs)
  then show ?case by (auto simp: bindS_Inr_iff list_all2_Cons1)
qed

lemma bindE_ret [simp]: "bindE (ret x) f = f x"
  by (simp add: eff_defs fun_eq_iff)

lemma bindE_throw [simp]: "bindE (throw e) f = throw e"
  by (simp add: eff_defs fun_eq_iff)

lemma catchE_ret [simp]: "catchE (ret x) h = ret x"
  by (simp add: eff_defs fun_eq_iff)

lemma catchE_throw [simp]: "catchE (throw e) h = h e"
  by (simp add: eff_defs fun_eq_iff)

lemma bindE_apply:
  "bindE m f s = (case m s of (Inl e, s') \<Rightarrow> (Inl e, s') | (Inr x, s') \<Rightarrow> f x s')"
  by (simp add: bindE_def)

lemma bindE_InrE:
  assumes "bindE m f s = (Inr y, s'')"
  obtains x s' where "m s = (Inr x, s')" and "f x s' = (Inr y, s'')"
  using assms by (auto simp: bindE_def split: prod.splits sum.splits)

lemma ret_apply [simp]: "ret x s = (Inr x, s)"
  by (simp add: ret_def)

lemma throw_apply [simp]: "throw e s = (Inl e, s)"
  by (simp add: throw_def)

lemma lift_apply [simp]: "lift r s = (r, s)"
  by (simp add: lift_def)

lemma lift_Inr [simp]: "lift (Inr x) = ret x"
  by (simp add: eff_defs)

lemma lift_Inl [simp]: "lift (Inl e) = throw e"
  by (simp add: eff_defs)

section \<open>Frames\<close>

text \<open>
  \<open>keeps P m\<close>: running \<open>m\<close> from a state with \<open>P\<close>, to its value or to its error, ends in a
  state with \<open>P\<close>. \<open>quiet m\<close>: \<open>m\<close> never changes the state. \<open>nothrow m\<close>: \<open>m\<close> always
  returns a value.
\<close>

definition keeps :: "('s \<Rightarrow> bool) \<Rightarrow> ('e, 's, 'a) eff \<Rightarrow> bool" where
  "keeps P m \<longleftrightarrow> (\<forall>s. P s \<longrightarrow> P (snd (m s)))"

definition quiet :: "('e, 's, 'a) eff \<Rightarrow> bool" where
  "quiet m \<longleftrightarrow> (\<forall>s. snd (m s) = s)"

definition nothrow :: "('e, 's, 'a) eff \<Rightarrow> bool" where
  "nothrow m \<longleftrightarrow> (\<forall>s. \<exists>x. fst (m s) = Inr x)"

lemma keeps_ret [frame_intros]: "keeps P (ret x)"
  and keeps_throw [frame_intros]: "keeps P (throw e)"
  and keeps_lift [frame_intros]: "keeps P (lift r)"
  by (simp_all add: keeps_def eff_defs)

lemma keeps_bindE [frame_intros]:
  "keeps P m \<Longrightarrow> (\<And>x. keeps P (f x)) \<Longrightarrow> keeps P (bindE m f)"
  by (fastforce simp: keeps_def bindE_def split: prod.splits sum.splits)

lemma keeps_catchE [frame_intros]:
  "keeps P m \<Longrightarrow> (\<And>e. keeps P (h e)) \<Longrightarrow> keeps P (catchE m h)"
  by (fastforce simp: keeps_def catchE_def split: prod.splits sum.splits)

lemma keeps_mapE [frame_intros]: "(\<And>x. keeps P (f x)) \<Longrightarrow> keeps P (mapE f xs)"
  by (induction xs) (auto intro: frame_intros)

lemma keeps_foldE [frame_intros]: "(\<And>x a. keeps P (f x a)) \<Longrightarrow> keeps P (foldE f xs acc)"
  by (induction xs arbitrary: acc) (auto intro: frame_intros)

lemma keeps_if [frame_intros]:
  "(b \<Longrightarrow> keeps P m) \<Longrightarrow> (\<not> b \<Longrightarrow> keeps P n) \<Longrightarrow> keeps P (if b then m else n)"
  by simp

lemma quiet_iff_keeps: "quiet m \<longleftrightarrow> (\<forall>s0. keeps (\<lambda>s. s = s0) m)"
  by (auto simp: quiet_def keeps_def)

lemma quiet_bindE: "quiet m \<Longrightarrow> (\<And>x. quiet (f x)) \<Longrightarrow> quiet (bindE m f)"
  by (simp add: quiet_iff_keeps keeps_bindE)

lemma keeps_quiet: "quiet m \<Longrightarrow> keeps P m"
  by (simp add: quiet_def keeps_def)

lemma nothrow_ret [simp]: "nothrow (ret x)"
  by (simp add: nothrow_def)

lemma nothrow_bindE: "nothrow m \<Longrightarrow> (\<And>x. nothrow (f x)) \<Longrightarrow> nothrow (bindE m f)"
  by (simp add: nothrow_def bindE_def split: prod.splits sum.splits)
     (metis fst_conv old.sum.distinct(1) sum.distinct(1))

lemma nothrow_catchE: "(\<And>e. nothrow (h e)) \<Longrightarrow> nothrow (catchE m h)"
  by (auto simp: nothrow_def catchE_def split: prod.splits sum.splits)

lemma nothrow_foldE: "(\<And>x a. nothrow (f x a)) \<Longrightarrow> nothrow (foldE f xs acc)"
  by (induction xs arbitrary: acc) (auto intro: nothrow_bindE)

text \<open>An invariant of the accumulator of a loop that returns.\<close>

lemma foldE_invariant:
  assumes "foldE f xs acc s = (Inr r, s')"
    and "I [] acc"
    and "\<And>ys x a a' t t'. I ys a \<Longrightarrow> f x a t = (Inr a', t') \<Longrightarrow> I (ys @ [x]) a'"
  shows "I xs r"
proof -
  have "foldE f xs acc s = (Inr r, s') \<Longrightarrow> I ys acc \<Longrightarrow> I (ys @ xs) r" for ys
  proof (induction xs arbitrary: acc s ys)
    case Nil
    then show ?case by simp
  next
    case (Cons x xs)
    from Cons.prems(1) obtain a' t' where a': "f x acc s = (Inr a', t')"
      and r: "foldE f xs a' t' = (Inr r, s')"
      by (auto elim: bindE_InrE)
    from assms(3)[OF Cons.prems(2) a'] have "I (ys @ [x]) a'" .
    from Cons.IH[OF r this] show ?case by simp
  qed
  from this[OF assms(1), of "[]"] assms(2) show ?thesis by simp
qed

text \<open>A loop whose step never throws returns, with an invariant of the accumulator.\<close>

lemma foldE_total:
  assumes "I [] acc"
    and "\<And>ys x a t. I ys a \<Longrightarrow> \<exists>a' t'. f x a t = (Inr a', t') \<and> I (ys @ [x]) a'"
  shows "\<exists>r s'. foldE f xs acc s = (Inr r, s') \<and> I xs r"
proof -
  have "I ys acc \<Longrightarrow> \<exists>r s'. foldE f xs acc s = (Inr r, s') \<and> I (ys @ xs) r" for ys
  proof (induction xs arbitrary: acc s ys)
    case Nil
    then show ?case by simp
  next
    case (Cons x xs)
    from assms(2) [OF Cons.prems] obtain a t where
      f: "f x acc s = (Inr a, t)" and I: "I (ys @ [x]) a" by blast
    from Cons.IH [OF I] f show ?case by (simp add: bindE_apply)
  qed
  from this [of "[]"] assms(1) show ?thesis by simp
qed

section \<open>Lists, options, multisets\<close>

lemma filter_id_iff: "filter P xs = xs \<longleftrightarrow> (\<forall>x\<in>set xs. P x)"
  by (rule filter_id_conv)

lemma mset_filter_split: "mset (filter P xs) + mset (filter (\<lambda>x. \<not> P x) xs) = mset xs"
  by (induction xs) auto

lemma map_of_filter_key: "map_of (filter (\<lambda>p. Q (fst p)) xs) k = (if Q k then map_of xs k else None)"
  by (induction xs) (auto split: prod.splits)

lemma concat_map_singleton [simp]: "concat (map (\<lambda>x. [f x]) xs) = map f xs"
  by (induction xs) auto

lemma sum_list_length_concat: "sum_list (map (\<lambda>x. length (f x)) xs) = length (concat (map f xs))"
  by (induction xs) auto

lemma mset_concat_map_add:
  "mset (concat (map f xs)) + mset (concat (map g xs)) = mset (concat (map (\<lambda>x. f x @ g x) xs))"
  by (induction xs) auto

section \<open>Operations that may not return\<close>

text \<open>
  The part of the code that follows require directives can recurse for ever. Its operations
  give \<open>None\<close> when the fuel of the recursion is used up, and a result as above otherwise.
\<close>

type_synonym ('e, 's, 'a) peff = "'s \<Rightarrow> (('e + 'a) \<times> 's) option"

definition liftP :: "('e, 's, 'a) eff \<Rightarrow> ('e, 's, 'a) peff" where
  [eff_defs]: "liftP m = (\<lambda>s. Some (m s))"

definition bindP :: "('e, 's, 'a) peff \<Rightarrow> ('a \<Rightarrow> ('e, 's, 'b) peff) \<Rightarrow> ('e, 's, 'b) peff" where
  [eff_defs]: "bindP m f = (\<lambda>s. case m s of None \<Rightarrow> None
     | Some (Inl e, s') \<Rightarrow> Some (Inl e, s') | Some (Inr x, s') \<Rightarrow> f x s')"

definition catchP :: "('e, 's, 'a) peff \<Rightarrow> ('e \<Rightarrow> ('e, 's, 'a) peff) \<Rightarrow> ('e, 's, 'a) peff" where
  [eff_defs]: "catchP m h = (\<lambda>s. case m s of None \<Rightarrow> None
     | Some (Inl e, s') \<Rightarrow> h e s' | Some (Inr x, s') \<Rightarrow> Some (Inr x, s'))"

primrec foldP :: "('a \<Rightarrow> 'b \<Rightarrow> ('e, 's, 'b) peff) \<Rightarrow> 'a list \<Rightarrow> 'b \<Rightarrow> ('e, 's, 'b) peff" where
  "foldP f [] acc = liftP (ret acc)"
| "foldP f (x # xs) acc = bindP (f x acc) (foldP f xs)"

definition keepsP :: "('s \<Rightarrow> bool) \<Rightarrow> ('e, 's, 'a) peff \<Rightarrow> bool" where
  "keepsP P m \<longleftrightarrow> (\<forall>s r s'. P s \<longrightarrow> m s = Some (r, s') \<longrightarrow> P s')"

lemma liftP_apply [simp]: "liftP m s = Some (m s)"
  by (simp add: liftP_def)

lemma bindP_liftP_ret [simp]: "bindP (liftP (ret x)) f = f x"
  by (simp add: eff_defs fun_eq_iff)

lemma bindP_liftP_throw [simp]: "bindP (liftP (throw e)) f = liftP (throw e)"
  by (simp add: eff_defs fun_eq_iff)

lemma bindP_SomeE:
  assumes "bindP m f s = Some (Inr y, s'')"
  obtains x s' where "m s = Some (Inr x, s')" and "f x s' = Some (Inr y, s'')"
  using assms by (auto simp: bindP_def split: option.splits prod.splits sum.splits)

lemma keepsP_liftP [frame_intros]: "keeps P m \<Longrightarrow> keepsP P (liftP m)"
  by (auto simp: keepsP_def keeps_def)

lemma keepsP_bindP [frame_intros]:
  "keepsP P m \<Longrightarrow> (\<And>x. keepsP P (f x)) \<Longrightarrow> keepsP P (bindP m f)"
proof -
  assume m: "keepsP P m" and k: "\<And>x. keepsP P (f x)"
  show ?thesis
    unfolding keepsP_def
  proof (intro allI impI)
    fix s r s' assume s: "P s" and e: "bindP m f s = Some (r, s')"
    show "P s'"
    proof (cases "m s")
      case None
      with e show ?thesis by (simp add: bindP_def)
    next
      case (Some p)
      obtain q t where p: "p = (q, t)" by fastforce
      with m s Some have t: "P t" unfolding keepsP_def by blast
      show ?thesis
      proof (cases q)
        case (Inl y)
        with e Some p t show ?thesis by (simp add: bindP_def)
      next
        case (Inr y)
        with e Some p have "f y t = Some (r, s')" by (simp add: bindP_def)
        with k t show ?thesis unfolding keepsP_def by blast
      qed
    qed
  qed
qed

lemma keepsP_catchP [frame_intros]:
  "keepsP P m \<Longrightarrow> (\<And>e. keepsP P (h e)) \<Longrightarrow> keepsP P (catchP m h)"
proof -
  assume m: "keepsP P m" and k: "\<And>x. keepsP P (h x)"
  show ?thesis
    unfolding keepsP_def
  proof (intro allI impI)
    fix s r s' assume s: "P s" and e: "catchP m h s = Some (r, s')"
    show "P s'"
    proof (cases "m s")
      case None
      with e show ?thesis by (simp add: catchP_def)
    next
      case (Some p)
      obtain q t where p: "p = (q, t)" by fastforce
      with m s Some have t: "P t" unfolding keepsP_def by blast
      show ?thesis
      proof (cases q)
        case (Inr y)
        with e Some p t show ?thesis by (simp add: catchP_def)
      next
        case (Inl y)
        with e Some p have "h y t = Some (r, s')" by (simp add: catchP_def)
        with k t show ?thesis unfolding keepsP_def by blast
      qed
    qed
  qed
qed

lemma keepsP_foldP [frame_intros]: "(\<And>x a. keepsP P (f x a)) \<Longrightarrow> keepsP P (foldP f xs acc)"
  by (induction xs arbitrary: acc) (auto intro: frame_intros)

lemma keepsP_if [frame_intros]:
  "(b \<Longrightarrow> keepsP P m) \<Longrightarrow> (\<not> b \<Longrightarrow> keepsP P n) \<Longrightarrow> keepsP P (if b then m else n)"
  by simp

lemma keeps_case_prod [frame_intros]:
  "(\<And>a b. keeps P (f a b)) \<Longrightarrow> keeps P (case x of (a, b) \<Rightarrow> f a b)"
  "(\<And>a b. keepsP P (g a b)) \<Longrightarrow> keepsP P (case x of (a, b) \<Rightarrow> g a b)"
  by (simp_all split: prod.splits)

lemma keeps_Let [frame_intros]:
  "(\<And>y. keeps P (f y)) \<Longrightarrow> keeps P (Let x f)"
  "(\<And>y. keepsP P (g y)) \<Longrightarrow> keepsP P (Let x g)"
  by (simp_all add: Let_def)

lemma keepsPD: "keepsP P m \<Longrightarrow> P s \<Longrightarrow> m s = Some (r, s') \<Longrightarrow> P s'"
  unfolding keepsP_def by blast

text \<open>
  A loop over \<open>xs\<close> whose step adds one unit per element to a measure of the accumulator.
\<close>

lemma foldP_count:
  assumes step: "\<And>x a s a' s'. f x a s = Some (Inr a', s') \<Longrightarrow> g a' = g a + h x"
  shows "foldP f xs acc s = Some (Inr r, s') \<Longrightarrow> g r = g acc + (\<Sum>x\<leftarrow>xs. h x)"
proof (induction xs arbitrary: acc s)
  case Nil
  then show ?case by simp
next
  case (Cons x xs)
  from Cons.prems obtain a t where "f x acc s = Some (Inr a, t)" "foldP f xs a t = Some (Inr r, s')"
    by (auto elim: bindP_SomeE)
  with Cons.IH step show ?case by (simp add: add.assoc)
qed

text \<open>A loop that sorts elements into two lists.\<close>

lemma foldl_three_way:
  "foldl (\<lambda>(u, d) x. if P x then (u @ [f x], d) else if Q x then (u, d @ [f x]) else (u, d)) (a, b) xs =
     (a @ map f (filter P xs), b @ map f (filter (\<lambda>x. \<not> P x \<and> Q x) xs))"
  by (induction xs arbitrary: a b) auto

section \<open>What a return guarantees\<close>

text \<open>\<open>ensures P m\<close>: whenever \<open>m\<close> returns, it returns in a state with \<open>P\<close>.\<close>

definition ensures :: "('s \<Rightarrow> bool) \<Rightarrow> ('e, 's, 'a) eff \<Rightarrow> bool" where
  "ensures P m \<longleftrightarrow> (\<forall>s y s'. m s = (Inr y, s') \<longrightarrow> P s')"

lemma ensuresD: "ensures P m \<Longrightarrow> m s = (Inr y, s') \<Longrightarrow> P s'"
  unfolding ensures_def by blast

lemma keepsD: "keeps P m \<Longrightarrow> P s \<Longrightarrow> m s = (r, s') \<Longrightarrow> P s'"
  unfolding keeps_def by (metis snd_conv)

lemma ensures_first: "ensures P m \<Longrightarrow> (\<And>x. keeps P (f x)) \<Longrightarrow> ensures P (bindE m f)"
  unfolding ensures_def by (metis bindE_InrE keepsD)

lemma ensures_then: "(\<And>x. ensures P (f x)) \<Longrightarrow> ensures P (bindE m f)"
  unfolding ensures_def by (metis bindE_InrE)

end
