(* ===== verification/JsString.thy ===== *)
theory JsString
  imports Prelude
begin

text \<open>
  The operations of JavaScript strings the code uses. A string is a list of code units; the
  Isabelle type \<open>char\<close> holds the code units 0 to 255, so strings with larger code units
  are outside the model. Every function here is total, as its JavaScript original is.
\<close>

section \<open>Prefixes, suffixes, search\<close>

definition js_startsWith :: "string \<Rightarrow> string \<Rightarrow> bool" where
  "js_startsWith s p = (take (length p) s = p)"

definition js_endsWith :: "string \<Rightarrow> string \<Rightarrow> bool" where
  "js_endsWith s p = js_startsWith (rev s) (rev p)"

fun js_includes :: "string \<Rightarrow> string \<Rightarrow> bool" where
  "js_includes [] p = (p = [])"
| "js_includes (c # s) p = (js_startsWith (c # s) p \<or> js_includes s p)"

lemma js_startsWith_append [simp]: "js_startsWith (p @ s) p"
  by (simp add: js_startsWith_def)

lemma js_startsWith_iff: "js_startsWith s p \<longleftrightarrow> (\<exists>t. s = p @ t)"
  by (auto simp: js_startsWith_def) (metis append_take_drop_id)

lemma js_endsWith_iff: "js_endsWith s p \<longleftrightarrow> (\<exists>t. s = t @ p)"
  by (auto simp: js_endsWith_def js_startsWith_iff) (metis rev_append rev_rev_ident)+

lemma js_endsWith_append [simp]: "js_endsWith (s @ p) p"
  by (auto simp: js_endsWith_iff)

lemma js_startsWith_self [simp]: "js_startsWith s s"
  by (simp add: js_startsWith_def)

lemma js_startsWith_Nil [simp]: "js_startsWith s []"
  by (simp add: js_startsWith_def)

lemma js_startsWith_Cons [simp]:
  "js_startsWith (c # s) (d # p) \<longleftrightarrow> c = d \<and> js_startsWith s p"
  "\<not> js_startsWith [] (d # p)"
  by (auto simp: js_startsWith_def)

lemma js_includes_iff: "js_includes s p \<longleftrightarrow> (\<exists>u v. s = u @ p @ v)"
proof (induction s)
  case Nil
  then show ?case by simp
next
  case (Cons c s)
  show ?case
    by (simp add: Cons.IH js_startsWith_iff Cons_eq_append_conv) blast
qed

section \<open>Splitting and joining\<close>

text \<open>\<open>s.split(c)\<close> for a separator of one code unit, and \<open>xs.join(sep)\<close>.\<close>

fun js_split :: "char \<Rightarrow> string \<Rightarrow> string list" where
  "js_split c [] = [[]]"
| "js_split c (x # s) =
     (if x = c then [] # js_split c s
      else (case js_split c s of [] \<Rightarrow> [[x]] | w # ws \<Rightarrow> (x # w) # ws))"

fun js_join :: "string \<Rightarrow> string list \<Rightarrow> string" where
  "js_join sep [] = []"
| "js_join sep [w] = w"
| "js_join sep (w # v # ws) = w @ sep @ js_join sep (v # ws)"

lemma js_split_neq_Nil [simp]: "js_split c s \<noteq> []"
  by (cases s) (auto split: list.splits)

lemma js_split_no_sep: "c \<notin> set s \<Longrightarrow> js_split c s = [s]"
  by (induction s) auto

lemma js_split_append: "c \<notin> set u \<Longrightarrow> js_split c (u @ c # v) = u # js_split c v"
  by (induction u) auto

lemma js_split_at: "js_split c (u @ c # v) = js_split c u @ js_split c v"
  by (induction u) (auto split: list.splits)

lemma js_split_parts: "w \<in> set (js_split c s) \<Longrightarrow> c \<notin> set w"
  by (induction s arbitrary: w) (auto split: if_splits list.splits)

lemma js_join_Cons: "ws \<noteq> [] \<Longrightarrow> js_join sep (w # ws) = w @ sep @ js_join sep ws"
  by (cases ws) auto

lemma js_join_split [simp]: "js_join [c] (js_split c s) = s"
proof (induction s)
  case Nil
  then show ?case by simp
next
  case (Cons x s)
  then show ?case
    by (cases "js_split c s") (auto simp: js_join_Cons split: list.splits, metis append_Cons js_join.elims js_join_Cons js_join.simps(2) list.discI list.inject)
qed

lemma js_split_join:
  assumes "ws \<noteq> []" and "\<And>w. w \<in> set ws \<Longrightarrow> c \<notin> set w"
  shows "js_split c (js_join [c] ws) = ws"
  using assms
proof (induction "[c]" ws rule: js_join.induct)
  case (3 w v ws)
  then show ?case by (simp add: js_split_append)
qed (auto simp: js_split_no_sep)

lemma hd_js_split: "hd (js_split c s) = takeWhile (\<lambda>x. x \<noteq> c) s"
  by (induction s) (auto split: list.splits)

section \<open>Replacement, case, whitespace\<close>

text \<open>\<open>s.replace(p, r)\<close> with string arguments replaces the first occurrence only.\<close>

fun js_replace_first :: "string \<Rightarrow> string \<Rightarrow> string \<Rightarrow> string" where
  "js_replace_first p r [] = (if p = [] then r else [])"
| "js_replace_first p r (c # s) =
     (if js_startsWith (c # s) p then r @ drop (length p) (c # s)
      else c # js_replace_first p r s)"

text \<open>\<open>s.replace(/[cs]/g, r)\<close>: every code unit of a class is replaced.\<close>

definition js_replace_all_in :: "char list \<Rightarrow> string \<Rightarrow> string \<Rightarrow> string" where
  "js_replace_all_in cs r s = concat (map (\<lambda>x. if x \<in> set cs then r else [x]) s)"

text \<open>
  \<open>toLowerCase\<close> on the code units of the model: the ASCII capitals and the Latin-1 capitals
  (192 to 222 but for 215, the multiplication sign) move up by 32.
\<close>

definition js_lower_char :: "char \<Rightarrow> char" where
  "js_lower_char c =
     (let n = (of_char c :: nat) in
      if (65 \<le> n \<and> n \<le> 90) \<or> (192 \<le> n \<and> n \<le> 222 \<and> n \<noteq> 215) then char_of (n + 32) else c)"

definition js_lower :: "string \<Rightarrow> string" where
  "js_lower s = map js_lower_char s"

text \<open>White space and line terminators among the code units of the model.\<close>

definition js_ws :: "char \<Rightarrow> bool" where
  "js_ws c = ((of_char c :: nat) \<in> {9, 10, 11, 12, 13, 32, 160})"

definition js_lt :: "char \<Rightarrow> bool" where
  "js_lt c = ((of_char c :: nat) \<in> {10, 13})"

definition js_digit :: "char \<Rightarrow> bool" where
  "js_digit c = (48 \<le> (of_char c :: nat) \<and> (of_char c :: nat) \<le> 57)"

definition js_trimStart :: "string \<Rightarrow> string" where
  "js_trimStart s = dropWhile js_ws s"

definition js_trimEnd :: "string \<Rightarrow> string" where
  "js_trimEnd s = rev (dropWhile js_ws (rev s))"

definition js_trim :: "string \<Rightarrow> string" where
  "js_trim s = js_trimEnd (js_trimStart s)"

lemma js_lower_idem [simp]: "js_lower (js_lower s) = js_lower s"
proof -
  have "js_lower_char (js_lower_char c) = js_lower_char c" for c
    by (auto simp: js_lower_char_def Let_def of_char_of)
  then show ?thesis by (simp add: js_lower_def)
qed

lemma js_lower_append [simp]: "js_lower (s @ t) = js_lower s @ js_lower t"
  by (simp add: js_lower_def)

lemma js_lower_Nil [simp]: "js_lower [] = []"
  by (simp add: js_lower_def)

lemma length_js_lower [simp]: "length (js_lower s) = length s"
  by (simp add: js_lower_def)

lemma js_lower_eq_Nil [simp]: "js_lower s = [] \<longleftrightarrow> s = []"
  by (simp add: js_lower_def)

lemma js_replace_first_absent: "\<not> js_includes s p \<Longrightarrow> js_replace_first p r s = s"
  by (induction s) (auto simp: js_startsWith_iff)

lemma js_replace_first_same: "js_replace_first p p s = s"
  by (induction s) (auto simp: js_startsWith_iff)

section \<open>Template literals\<close>

text \<open>
  A template literal prints an absent value as \<open>undefined\<close>; a string used as a condition is
  true when it is there and not empty.
\<close>

definition str_of_opt :: "string option \<Rightarrow> string" where
  "str_of_opt v = (case v of None \<Rightarrow> ''undefined'' | Some s \<Rightarrow> s)"

definition truthy :: "string option \<Rightarrow> bool" where
  "truthy v = (case v of None \<Rightarrow> False | Some s \<Rightarrow> s \<noteq> [])"

definition js_or :: "string option \<Rightarrow> string \<Rightarrow> string" where
  "js_or v d = (if truthy v then the v else d)"

lemma str_of_opt_simps [simp]: "str_of_opt None = ''undefined''" "str_of_opt (Some s) = s"
  by (simp_all add: str_of_opt_def)

lemma truthy_simps [simp]: "truthy None = False" "truthy (Some s) = (s \<noteq> [])"
  by (simp_all add: truthy_def)

lemma js_or_simps [simp]:
  "js_or None d = d" "js_or (Some s) d = (if s = [] then d else s)"
  by (simp_all add: js_or_def)

text \<open>\<open>xs[i]\<close> on an array: \<open>undefined\<close> out of range.\<close>

definition js_nth :: "'a list \<Rightarrow> nat \<Rightarrow> 'a option" where
  "js_nth xs i = (if i < length xs then Some (xs ! i) else None)"

lemma js_nth_simps [simp]:
  "js_nth [] i = None"
  "js_nth (x # xs) 0 = Some x"
  "js_nth (x # xs) (Suc i) = js_nth xs i"
  by (simp_all add: js_nth_def)

lemma js_nth_numeral [simp]: "js_nth (x # xs) (numeral n) = js_nth xs (pred_numeral n)"
  by (simp add: numeral_eq_Suc)

lemma js_nth_split_0 [simp]: "js_nth (js_split c s) 0 = Some (hd (js_split c s))"
  by (cases "js_split c s") auto

text \<open>\<open>Array.from(new Set(xs))\<close>: the first occurrences, in order.\<close>

definition unique_in_order :: "'a list \<Rightarrow> 'a list" where
  "unique_in_order xs = rev (remdups (rev xs))"

lemma unique_in_order_set [simp]: "set (unique_in_order xs) = set xs"
  by (simp add: unique_in_order_def)

lemma unique_in_order_distinct [simp]: "distinct (unique_in_order xs)"
  by (simp add: unique_in_order_def)

text \<open>Decimal printing of the numbers that reach a template literal.\<close>

definition digit_char :: "nat \<Rightarrow> char" where
  "digit_char d = char_of (48 + d)"

fun str_of_nat :: "nat \<Rightarrow> string" where
  "str_of_nat n = (if n < 10 then [digit_char n] else str_of_nat (n div 10) @ [digit_char (n mod 10)])"

declare str_of_nat.simps [simp del]

text \<open>\<open>parseInt(ds, 10)\<close> on a non-empty string of digits.\<close>

definition nat_of_digits :: "string \<Rightarrow> nat" where
  "nat_of_digits ds = foldl (\<lambda>n c. 10 * n + (of_char c - 48)) 0 ds"

lemma nat_of_digits_snoc: "nat_of_digits (ds @ [c]) = 10 * nat_of_digits ds + (of_char c - 48)"
  by (simp add: nat_of_digits_def)

lemma nat_of_digits_str_of_nat [simp]: "nat_of_digits (str_of_nat n) = n"
proof (induction n rule: str_of_nat.induct)
  case (1 n)
  show ?case
  proof (cases "n < 10")
    case True
    then show ?thesis
      by (subst str_of_nat.simps) (simp add: nat_of_digits_def digit_char_def of_char_of)
  next
    case False
    with 1 show ?thesis
      by (subst str_of_nat.simps)
         (simp add: nat_of_digits_snoc digit_char_def of_char_of)
  qed
qed

lemma str_of_nat_neq_Nil [simp]: "str_of_nat n \<noteq> []"
  by (subst str_of_nat.simps) simp

lemma str_of_nat_digits: "c \<in> set (str_of_nat n) \<Longrightarrow> js_digit c"
proof (induction n rule: str_of_nat.induct)
  case (1 n)
  have d: "m < 10 \<Longrightarrow> js_digit (digit_char m)" for m
    by (simp add: js_digit_def digit_char_def of_char_of)
  from 1 d show ?case
    by (cases "n < 10") (auto simp: str_of_nat.simps [of n])
qed

text \<open>The order of \<open>sort()\<close> on strings.\<close>

fun string_le :: "string \<Rightarrow> string \<Rightarrow> bool" where
  "string_le [] t = True"
| "string_le (c # s) [] = False"
| "string_le (c # s) (d # t) =
     (if c = d then string_le s t else (of_char c :: nat) < of_char d)"

end
