(* ===== verification/JsObject.thy ===== *)
theory JsObject
  imports JsString
begin

text \<open>
  JavaScript objects used as dictionaries. An object is the list of its own properties in the
  order \<open>Object.keys\<close> gives them: array-index keys first, in ascending order, then the other
  keys in the order of their first assignment. The properties an object inherits from
  \<open>Object.prototype\<close> (\<open>constructor\<close>, \<open>toString\<close>, ...) are outside the model: a lookup of
  a key that is not an own property gives \<open>undefined\<close>.
\<close>

type_synonym 'v obj = "(string \<times> 'v) list"

section \<open>Operations\<close>

definition is_array_index :: "string \<Rightarrow> bool" where
  "is_array_index k =
     (k \<noteq> [] \<and> list_all js_digit k \<and> (k = ''0'' \<or> hd k \<noteq> CHR ''0'') \<and>
      nat_of_digits k < 4294967295)"

definition obj_keys :: "'v obj \<Rightarrow> string list" where
  "obj_keys ob = map fst ob"

definition obj_values :: "'v obj \<Rightarrow> 'v list" where
  "obj_values ob = map snd ob"

definition obj_get :: "'v obj \<Rightarrow> string \<Rightarrow> 'v option" where
  "obj_get ob k = map_of ob k"

fun insert_index :: "string \<Rightarrow> 'v \<Rightarrow> 'v obj \<Rightarrow> 'v obj" where
  "insert_index k v [] = [(k, v)]"
| "insert_index k v ((a, b) # ob) =
     (if is_array_index a \<and> nat_of_digits a < nat_of_digits k then (a, b) # insert_index k v ob
      else (k, v) # (a, b) # ob)"

definition obj_set :: "string \<Rightarrow> 'v \<Rightarrow> 'v obj \<Rightarrow> 'v obj" where
  "obj_set k v ob =
     (if k \<in> set (obj_keys ob) then map (\<lambda>(a, b). if a = k then (a, v) else (a, b)) ob
      else if is_array_index k then insert_index k v ob
      else ob @ [(k, v)])"

text \<open>Object spread: \<open>{...o1, ...o2}\<close>.\<close>

definition obj_merge :: "'v obj \<Rightarrow> 'v obj \<Rightarrow> 'v obj" where
  "obj_merge o1 o2 = fold (\<lambda>(k, v) ob. obj_set k v ob) o2 o1"

definition wf_obj :: "'v obj \<Rightarrow> bool" where
  "wf_obj ob = distinct (obj_keys ob)"

section \<open>The dictionary interface\<close>

text \<open>
  What the rest of the code relies on: a lookup after an assignment, the keys after an
  assignment, and that keys stay distinct. The laws are proved once for the operations above;
  the lemmas about loops that fill an object are proved from the laws alone.
\<close>

locale js_dict =
  fixes get :: "'o \<Rightarrow> string \<Rightarrow> 'v option"
    and put :: "string \<Rightarrow> 'v \<Rightarrow> 'o \<Rightarrow> 'o"
    and keys :: "'o \<Rightarrow> string list"
    and ok :: "'o \<Rightarrow> bool"
  assumes get_put: "get (put k v ob) = (get ob)(k \<mapsto> v)"
    and keys_put: "set (keys (put k v ob)) = insert k (set (keys ob))"
    and ok_put: "ok ob \<Longrightarrow> ok (put k v ob)"
    and ok_distinct: "ok ob \<Longrightarrow> distinct (keys ob)"
    and dom_get: "dom (get ob) = set (keys ob)"
begin

lemma get_put_same [simp]: "get (put k v ob) k = Some v"
  by (simp add: get_put)

lemma get_put_other: "k \<noteq> k' \<Longrightarrow> get (put k v ob) k' = get ob k'"
  by (simp add: get_put)

lemma get_None_iff: "get ob k = None \<longleftrightarrow> k \<notin> set (keys ob)"
  using dom_get [of ob] by auto

lemma ok_fold_put: "ok ob \<Longrightarrow> ok (fold (\<lambda>x ob. put (f x) (g x) ob) xs ob)"
  by (induction xs arbitrary: ob) (auto intro: ok_put)

lemma keys_fold_put: "set (keys (fold (\<lambda>x ob. put (f x) (g x) ob) xs ob)) = f ` set xs \<union> set (keys ob)"
  by (induction xs arbitrary: ob) (auto simp: keys_put)

lemma get_fold_put_notin:
  "k \<notin> f ` set xs \<Longrightarrow> get (fold (\<lambda>x ob. put (f x) (g x) ob) xs ob) k = get ob k"
  by (induction xs arbitrary: ob) (auto simp: get_put)

lemma get_fold_put_in:
  "inj_on f (set xs) \<Longrightarrow> distinct xs \<Longrightarrow> x \<in> set xs \<Longrightarrow>
   get (fold (\<lambda>x ob. put (f x) (g x) ob) xs ob) (f x) = Some (g x)"
proof (induction xs arbitrary: ob)
  case Nil
  then show ?case by simp
next
  case (Cons y xs)
  show ?case
  proof (cases "x = y")
    case True
    with Cons.prems have "f x \<notin> f ` set xs" by (auto simp: inj_on_def)
    with True show ?thesis by (simp add: get_fold_put_notin)
  next
    case False
    with Cons.prems have "x \<in> set xs" "inj_on f (set xs)" "distinct xs" by auto
    then show ?thesis using Cons.IH by simp
  qed
qed

text \<open>A loop of assignments leaves for a key the value of the last assignment to it.\<close>

lemma get_fold_put_last:
  "get (fold (\<lambda>x ob. put (f x) (g x) ob) xs ob) k =
     (case filter (\<lambda>x. f x = k) xs of [] \<Rightarrow> get ob k | es \<Rightarrow> Some (g (last es)))"
  by (induction xs arbitrary: ob) (auto simp: get_put split: list.splits)

lemma length_keys_put: "ok ob \<Longrightarrow> k \<notin> set (keys ob) \<Longrightarrow> length (keys (put k v ob)) = Suc (length (keys ob))"
  using ok_distinct [OF ok_put] ok_distinct [of ob]
  by (metis List.finite_set card_insert_disjoint distinct_card keys_put)

end

lemma insert_index_props:
  "set (insert_index k v ob) = insert (k, v) (set ob)"
  "mset (insert_index k v ob) = add_mset (k, v) (mset ob)"
  by (induction ob) (auto split: if_splits)

lemma insert_index_map_of:
  "k \<notin> set (obj_keys ob) \<Longrightarrow> map_of (insert_index k v ob) = (map_of ob)(k \<mapsto> v)"
  by (induction ob) (auto simp: obj_keys_def fun_eq_iff)

lemma insert_index_distinct:
  "k \<notin> set (obj_keys ob) \<Longrightarrow> wf_obj ob \<Longrightarrow> wf_obj (insert_index k v ob)"
  by (induction ob) (auto simp: wf_obj_def obj_keys_def insert_index_props)

lemma map_of_overwrite:
  "k \<in> set (map fst ob) \<Longrightarrow>
   map_of (map (\<lambda>(a, b). if a = k then (a, v) else (a, b)) ob) = (map_of ob)(k \<mapsto> v)"
proof (induction ob)
  case Nil
  then show ?case by simp
next
  case (Cons p ob)
  obtain a b where p: "p = (a, b)" by fastforce
  have notin: "map (\<lambda>(a, b). if a = k then (a, v) else (a, b)) ob = ob" if "k \<notin> set (map fst ob)"
    using that by (induction ob) auto
  show ?case
  proof (cases "k \<in> set (map fst ob)")
    case True
    with Cons.IH p show ?thesis by (auto simp: fun_eq_iff)
  next
    case False
    with Cons.prems p notin show ?thesis by (auto simp: fun_eq_iff)
  qed
qed

lemma keys_overwrite: "obj_keys (map (\<lambda>(a, b). if a = k then (a, v) else (a, b)) ob) = obj_keys ob"
  by (induction ob) (auto simp: obj_keys_def)

lemma keys_insert_index: "set (obj_keys (insert_index k v ob)) = insert k (set (obj_keys ob))"
  by (simp add: obj_keys_def insert_index_props)

lemma keys_append_new: "obj_keys (ob @ [(k, v)]) = obj_keys ob @ [k]"
  by (simp add: obj_keys_def)

lemma map_of_append_new: "k \<notin> set (map fst ob) \<Longrightarrow> map_of (ob @ [(k, v)]) = (map_of ob)(k \<mapsto> v)"
  by (induction ob) (auto simp: fun_eq_iff simp del: map_of_append)

interpretation ob: js_dict obj_get obj_set obj_keys wf_obj
proof
  fix k :: string and v :: 'v and ob :: "'v obj"
  show "obj_get (obj_set k v ob) = (obj_get ob)(k \<mapsto> v)"
    by (cases "k \<in> set (obj_keys ob)"; cases "is_array_index k")
       (simp_all add: obj_get_def [abs_def] obj_set_def obj_keys_def map_of_overwrite
          insert_index_map_of map_of_append_new del: map_of_append)
  show "set (obj_keys (obj_set k v ob)) = insert k (set (obj_keys ob))"
    by (simp add: obj_set_def keys_overwrite keys_insert_index keys_append_new insert_absorb)
  show "wf_obj (obj_set k v ob)" if "wf_obj ob"
    using that insert_index_distinct [of k ob v]
    by (simp add: obj_set_def wf_obj_def keys_overwrite keys_append_new)
  show "distinct (obj_keys ob)" if "wf_obj ob"
    using that by (simp add: wf_obj_def)
  show "dom (obj_get ob) = set (obj_keys ob)"
    by (simp add: obj_get_def [abs_def] obj_keys_def dom_map_of_conv_image_fst)
qed

section \<open>Further laws\<close>

lemma obj_keys_simps [simp]: "obj_keys [] = []" "obj_keys ((k, v) # ob) = k # obj_keys ob"
  by (simp_all add: obj_keys_def)

lemma obj_get_Nil [simp]: "obj_get [] k = None"
  by (simp add: obj_get_def)

lemma obj_get_Cons [simp]: "obj_get ((a, b) # ob) k = (if a = k then Some b else obj_get ob k)"
  by (simp add: obj_get_def)

lemma wf_obj_Nil [simp]: "wf_obj []"
  by (simp add: wf_obj_def)

lemma obj_get_in: "wf_obj ob \<Longrightarrow> (k, v) \<in> set ob \<Longrightarrow> obj_get ob k = Some v"
  by (simp add: wf_obj_def obj_get_def obj_keys_def map_of_is_SomeI)

lemma obj_get_SomeD: "obj_get ob k = Some v \<Longrightarrow> (k, v) \<in> set ob"
  by (simp add: obj_get_def map_of_SomeD)

lemma obj_key_get: "k \<in> set (obj_keys ob) \<Longrightarrow> \<exists>v. obj_get ob k = Some v"
  using ob.get_None_iff by fastforce

lemma length_obj_keys: "length (obj_keys ob) = length ob"
  by (simp add: obj_keys_def)

text \<open>An assignment to a new key adds exactly one entry, wherever it is placed.\<close>

lemma mset_obj_set_new: "k \<notin> set (obj_keys ob) \<Longrightarrow> mset (obj_set k v ob) = add_mset (k, v) (mset ob)"
  by (simp add: obj_set_def insert_index_props)

lemma obj_merge_Nil [simp]: "obj_merge ob [] = ob"
  by (simp add: obj_merge_def)

lemma obj_merge_Cons: "obj_merge ob ((k, v) # r) = obj_merge (obj_set k v ob) r"
  by (simp add: obj_merge_def)

lemma obj_keys_merge: "set (obj_keys (obj_merge a b)) = set (obj_keys a) \<union> set (obj_keys b)"
  by (induction b arbitrary: a) (auto simp: obj_merge_Cons ob.keys_put)

lemma wf_obj_merge: "wf_obj a \<Longrightarrow> wf_obj (obj_merge a b)"
  by (induction b arbitrary: a) (simp_all add: obj_merge_Cons ob.ok_put split_paired_all)

text \<open>\<open>delete ob[k]\<close>\<close>

definition obj_delete :: "string \<Rightarrow> 'v obj \<Rightarrow> 'v obj" where
  "obj_delete k ob = filter (\<lambda>(a, b). a \<noteq> k) ob"

lemma obj_get_delete: "obj_get (obj_delete k ob) j = (if j = k then None else obj_get ob j)"
  by (induction ob) (auto simp: obj_get_def obj_delete_def)

section \<open>Parsed documents\<close>

text \<open>Values of unknown shape: parsed JSON or TOML, and fields the code only passes on.\<close>

datatype json =
    JUndef
  | JNull
  | JBool bool
  | JNum int
  | JDec int nat
  | JStr string
  | JArr "json list"
  | JObj "(string \<times> json) list"

text \<open>
  \<open>v.k\<close>: reading a property of \<open>undefined\<close> or \<open>null\<close> throws a TypeError (its message is the
  \<open>Inl\<close> value), a missing property is \<open>undefined\<close>.
\<close>

definition json_prop :: "json \<Rightarrow> string \<Rightarrow> string + json" where
  "json_prop v k =
     (case v of
        JUndef \<Rightarrow> Inl (''Cannot read properties of undefined (reading '' @ [CHR 0x27] @ k @ [CHR 0x27] @ '')'')
      | JNull \<Rightarrow> Inl (''Cannot read properties of null (reading '' @ [CHR 0x27] @ k @ [CHR 0x27] @ '')'')
      | JObj ps \<Rightarrow> Inr (case map_of ps k of None \<Rightarrow> JUndef | Some w \<Rightarrow> w)
      | _ \<Rightarrow> Inr JUndef)"

text \<open>\<open>v ?? {}\<close> and \<open>Object.keys(v)\<close> for a value that is not \<open>null\<close> or \<open>undefined\<close>.\<close>

definition json_or_empty :: "json \<Rightarrow> json" where
  "json_or_empty v = (case v of JUndef \<Rightarrow> JObj [] | JNull \<Rightarrow> JObj [] | _ \<Rightarrow> v)"

definition json_keys :: "json \<Rightarrow> string list" where
  "json_keys v =
     (case v of
        JObj ps \<Rightarrow> map fst ps
      | JArr vs \<Rightarrow> map str_of_nat [0..<length vs]
      | JStr s \<Rightarrow> map str_of_nat [0..<length s]
      | _ \<Rightarrow> [])"

end
