(* ===== verification/FixTypes.thy ===== *)
theory FixTypes
  imports JsObject
begin

text \<open>
  The data of the fix library: \<open>packages/vulnmap-fix/src/types.ts\<close>,
  \<open>plugins/types.ts\<close> and the error classes under \<open>lib/errors\<close>. An interface is a record, an
  interface that extends another a record extension, a union a datatype, an optional field an
  \<open>option\<close>. A field of type \<open>any\<close> or \<open>unknown\<close> is a \<open>json\<close> value.
\<close>

section \<open>Scan results\<close>

datatype target =
    GitTarget (remoteUrl: "string option") (branch: "string option")
  | ContainerTarget (image: string)
  | UnknownTarget (target_name: string)

record scan_identity =
  identity_type :: string
  targetFile :: "string option"
  identity_args :: "string obj option"

record scan_fact =
  fact_type :: string
  fact_data :: json

record scan_result =
  identity :: scan_identity
  facts :: "scan_fact list"
  scan_name :: "string option"
  policy :: "string option"
  scan_target :: "target option"

section \<open>Test results\<close>

datatype severity = LOW | MEDIUM | HIGH | CRITICAL

text \<open>The values of the enumeration, and their order from \<open>low\<close> to \<open>critical\<close>.\<close>

primrec severity_str :: "severity \<Rightarrow> string" where
  "severity_str LOW = ''low''"
| "severity_str MEDIUM = ''medium''"
| "severity_str HIGH = ''high''"
| "severity_str CRITICAL = ''critical''"

primrec severity_rank :: "severity \<Rightarrow> nat" where
  "severity_rank LOW = 0"
| "severity_rank MEDIUM = 1"
| "severity_rank HIGH = 2"
| "severity_rank CRITICAL = 3"

lemma severity_rank_inj: "severity_rank a = severity_rank b \<Longrightarrow> a = b"
  by (cases a; cases b) simp_all

instantiation severity :: linorder
begin

definition less_eq_severity :: "severity \<Rightarrow> severity \<Rightarrow> bool" where
  "less_eq_severity a b = (severity_rank a \<le> severity_rank b)"

definition less_severity :: "severity \<Rightarrow> severity \<Rightarrow> bool" where
  "less_severity a b = (severity_rank a < severity_rank b)"

instance
  by standard (auto simp: less_eq_severity_def less_severity_def intro: severity_rank_inj)

end

lemma severity_str_inj: "severity_str a = severity_str b \<Longrightarrow> a = b"
  by (cases a; cases b) simp_all

record upgrade_path_item =
  item_name :: string
  item_version :: string
  item_newVersion :: "string option"
  item_isDropped :: "bool option"

record upgrade_path =
  upgrade_path_items :: "upgrade_path_item list"

record fix_info =
  upgradePaths :: "upgrade_path list option"
  isPatchable :: "bool option"
  nearestFixedInVersion :: "string option"

record issue =
  pkgName :: string
  pkgVersion :: "string option"
  issueId :: string
  fixInfo :: fix_info

record issues_data_entry =
  issue_data_id :: string
  issue_data_severity :: severity
  issue_data_title :: string

text \<open>Remediation: \<open>Upgrade\<close>, \<open>UpgradeVulns\<close>, \<open>UpgradeRemediation\<close>, \<open>PinRemediation\<close>.\<close>

record upgrade =
  upgradeTo :: string

record upgrade_vulns = upgrade +
  vulns :: "string list"

record upgrade_remediation = upgrade_vulns +
  upgrades :: "string list"

record pin_remediation = upgrade_vulns +
  isTransitive :: bool

type_synonym patch_object = "string obj"

record patch_remediation =
  patch_paths :: "patch_object list"

record patch_data =
  patch_version :: string
  patch_id :: string
  patch_urls :: "string list"
  patch_modificationTime :: string

record issue_data =
  idata_id :: string
  idata_packageName :: string
  idata_version :: string
  idata_moduleName :: "string option"
  idata_below :: string
  idata_semver :: json
  idata_patches :: "patch_data list"
  idata_isNew :: bool
  idata_description :: string
  idata_title :: string
  idata_severity :: severity
  idata_fixedIn :: "string list"
  idata_legalInstructions :: "string option"

type_synonym dependency_pins = "pin_remediation obj"

record remediation_changes =
  unresolved :: "issue_data list"
  rem_upgrade :: "upgrade_remediation obj"
  rem_patch :: "patch_remediation obj"
  rem_ignore :: json
  pin :: dependency_pins

record test_result =
  issues :: "issue list"
  issuesData :: "issues_data_entry obj"
  depGraphData :: json
  remediation :: "remediation_changes option"

section \<open>Entities, options, changes\<close>

text \<open>
  A workspace is identified by its path: its \<open>readFile\<close> and \<open>writeFile\<close> are operations of
  the theory Workspace.
\<close>

record workspace =
  ws_path :: string

record test_options =
  packageManager :: "string option"
  command :: "string option"
  dev :: "bool option"

record entity =
  ent_workspace :: workspace
  scanResult :: scan_result
  testResult :: test_result
  ent_options :: test_options

record fix_options =
  dryRun :: bool
  quiet_opt :: bool
  stripAnsi :: bool
  sequentialFix :: bool

datatype fix_change =
    FixChangesSuccess (userMessage: string) (issueIds: "string list")
      (chg_from: "string option") (chg_to: "string option")
  | FixChangesError (userMessage: string) (reason: string) (chg_tip: "string option")
      (issueIds: "string list") (chg_from: "string option") (chg_to: "string option")

primrec success :: "fix_change \<Rightarrow> bool" where
  "success (FixChangesSuccess m ids f t) = True"
| "success (FixChangesError m r tip ids f t) = False"

section \<open>Errors\<close>

text \<open>
  The subclasses of \<open>CustomError\<close>, and the errors of the language and of Node's \<open>fs\<close>
  (\<open>OtherError\<close>, with the message).
\<close>

datatype fix_error =
    UnsupportedTypeError (scanType: string)
  | MissingRemediationDataError
  | MissingFileNameError
  | FailedToParseManifest
  | CommandFailedError string "string option"
  | NoFixesCouldBeAppliedError "string option" "string option"
  | OtherError string

fun error_message :: "fix_error \<Rightarrow> string" where
  "error_message (UnsupportedTypeError t) = ''Provided scan type is not supported''"
| "error_message MissingRemediationDataError = ''Remediation data is required to apply fixes''"
| "error_message MissingFileNameError = ''Filename is missing from test result''"
| "error_message FailedToParseManifest = ''Failed to parse manifest''"
| "error_message (CommandFailedError m c) = m"
| "error_message (NoFixesCouldBeAppliedError m t) = js_or m ''No fixes could be applied''"
| "error_message (OtherError m) = m"

text \<open>\<open>errorCode\<close>, which only a \<open>CustomError\<close> has.\<close>

fun errorCode :: "fix_error \<Rightarrow> string option" where
  "errorCode (UnsupportedTypeError t) = Some ''G10''"
| "errorCode MissingRemediationDataError = Some ''G11''"
| "errorCode MissingFileNameError = Some ''G12''"
| "errorCode FailedToParseManifest = Some ''G13''"
| "errorCode (CommandFailedError m c) = Some ''G14''"
| "errorCode (NoFixesCouldBeAppliedError m t) = Some ''G15''"
| "errorCode (OtherError m) = None"

text \<open>\<open>error.tip\<close> and \<open>error.command\<close>: absent on the classes that do not have the field.\<close>

fun error_tip :: "fix_error \<Rightarrow> string option" where
  "error_tip (NoFixesCouldBeAppliedError m t) = t"
| "error_tip e = None"

fun error_command :: "fix_error \<Rightarrow> string option" where
  "error_command (CommandFailedError m c) = c"
| "error_command e = None"

definition convertErrorToUserMessage :: "fix_error \<Rightarrow> string" where
  "convertErrorToUserMessage e =
     (case e of UnsupportedTypeError t \<Rightarrow> t @ '' is not supported.'' | _ \<Rightarrow> error_message e)"

definition reTryMessage :: string where
  "reTryMessage = ''Tip: Re-run in debug mode to see more information: DEBUG=*vulnmap* <COMMAND>''"

definition contactSupportMessage :: string where
  "contactSupportMessage = ''If the issue persists contact support@khulnasoft.io''"

section \<open>Results of a plugin\<close>

record with_changes =
  wc_original :: entity
  wc_changes :: "fix_change list"

record with_message =
  wm_original :: entity
  wm_message :: string

datatype failed_to_fix =
    FailedChanges (failed_original: entity) (failed_changes: "fix_change list")
  | FailedError (failed_original: entity) (failed_error: fix_error) (failed_tip: "string option")

primrec isWithError :: "failed_to_fix \<Rightarrow> bool" where
  "isWithError (FailedChanges e cs) = False"
| "isWithError (FailedError e er t) = True"

record plugin_response =
  succeeded :: "with_changes list"
  failed :: "failed_to_fix list"
  skipped :: "with_message list"

record fixed_cache_entry =
  fixedIn :: string
  cache_issueIds :: "string list"

definition empty_response :: plugin_response where
  "empty_response = \<lparr>succeeded = [], failed = [], skipped = []\<rparr>"

text \<open>\<open>push(...)\<close> of each list of one response onto another.\<close>

definition add_response :: "plugin_response \<Rightarrow> plugin_response \<Rightarrow> plugin_response" where
  "add_response a b =
     \<lparr>succeeded = succeeded a @ succeeded b, failed = failed a @ failed b,
      skipped = skipped a @ skipped b\<rparr>"

text \<open>
  The entities a response accounts for. The handlers promise that this multiset is the
  multiset of the entities they were given.
\<close>

definition accounted :: "plugin_response \<Rightarrow> entity multiset" where
  "accounted r = mset (map wc_original (succeeded r)) + mset (map failed_original (failed r)) +
                 mset (map wm_original (skipped r))"

lemma accounted_empty [simp]: "accounted empty_response = {#}"
  by (simp add: accounted_def empty_response_def)

lemma accounted_add [simp]: "accounted (add_response a b) = accounted a + accounted b"
  by (simp add: accounted_def add_response_def ac_simps)

lemma accounted_push:
  "accounted (r\<lparr>succeeded := succeeded r @ [w]\<rparr>) = add_mset (wc_original w) (accounted r)"
  "accounted (r\<lparr>failed := failed r @ [f]\<rparr>) = add_mset (failed_original f) (accounted r)"
  "accounted (r\<lparr>skipped := skipped r @ [m]\<rparr>) = add_mset (wm_original m) (accounted r)"
  by (simp_all add: accounted_def)

lemma add_response_empty [simp]:
  "add_response empty_response r = r" "add_response r empty_response = r"
  by (simp_all add: add_response_def empty_response_def)

end
