(* ===== verification/JsRegExp.thy ===== *)
theory JsRegExp
  imports JsString
begin

text \<open>
  Regular expressions with the matching semantics of ECMAScript: a backtracking matcher in
  continuation-passing form, as the language specification writes it. A pattern of the code is
  transcribed as a term of type \<open>re\<close>. Covered: character classes, sequences, alternatives
  (left first), greedy \<open>*\<close> (an iteration that matches the empty string is rejected),
  capture groups outside \<open>*\<close>, \<open>^\<close> and \<open>$\<close> with and without the flag \<open>m\<close>.
\<close>

section \<open>Patterns\<close>

datatype re =
    RCls "char \<Rightarrow> bool"
  | REmp
  | RSeq re re
  | RAlt re re
  | RStar re
  | RGrp nat re
  | RBeg
  | REnd

definition RPlus :: "re \<Rightarrow> re" where
  "RPlus r = RSeq r (RStar r)"

definition ROpt :: "re \<Rightarrow> re" where
  "ROpt r = RAlt r REmp"

definition RChr :: "char \<Rightarrow> re" where
  "RChr c = RCls (\<lambda>x. x = c)"

primrec RStr :: "string \<Rightarrow> re" where
  "RStr [] = REmp"
| "RStr (c # cs) = RSeq (RChr c) (RStr cs)"

primrec RSeqs :: "re list \<Rightarrow> re" where
  "RSeqs [] = REmp"
| "RSeqs (r # rs) = RSeq r (RSeqs rs)"

text \<open>The dot without the flag \<open>s\<close>: any code unit but a line terminator.\<close>

definition RDot :: re where
  "RDot = RCls (\<lambda>c. \<not> js_lt c)"

section \<open>Matching\<close>

text \<open>
  A matcher state is the subject to the left of the current position (nearest code unit
  first), the subject to the right of it, and the captures so far (last one first).
\<close>

type_synonym mst = "string \<times> string \<times> (nat \<times> string) list"

definition rest_len :: "mst \<Rightarrow> nat" where
  "rest_len st = length (fst (snd st))"

fun star_iter :: "(mst \<Rightarrow> (mst \<Rightarrow> mst option) \<Rightarrow> mst option) \<Rightarrow> nat \<Rightarrow>
    mst \<Rightarrow> (mst \<Rightarrow> mst option) \<Rightarrow> mst option" where
  "star_iter f 0 st k = k st"
| "star_iter f (Suc n) st k =
     (case f st (\<lambda>st'. if rest_len st' < rest_len st then star_iter f n st' k else None) of
        None \<Rightarrow> k st
      | Some x \<Rightarrow> Some x)"

primrec rmatch :: "bool \<Rightarrow> re \<Rightarrow> mst \<Rightarrow> (mst \<Rightarrow> mst option) \<Rightarrow> mst option" where
  "rmatch ml (RCls p) st k =
     (case st of (b, a, cs) \<Rightarrow>
        (case a of [] \<Rightarrow> None | c # a' \<Rightarrow> if p c then k (c # b, a', cs) else None))"
| "rmatch ml REmp st k = k st"
| "rmatch ml (RSeq r q) st k = rmatch ml r st (\<lambda>st'. rmatch ml q st' k)"
| "rmatch ml (RAlt r q) st k =
     (case rmatch ml r st k of None \<Rightarrow> rmatch ml q st k | Some x \<Rightarrow> Some x)"
| "rmatch ml (RStar r) st k = star_iter (rmatch ml r) (rest_len st) st k"
| "rmatch ml (RGrp n r) st k =
     rmatch ml r st (\<lambda>(b, a, cs). k (b, a, (n, take (rest_len st - length a) (fst (snd st))) # cs))"
| "rmatch ml RBeg st k =
     (case st of (b, a, cs) \<Rightarrow>
        if b = [] \<or> (ml \<and> js_lt (hd b)) then k st else None)"
| "rmatch ml REnd st k =
     (case st of (b, a, cs) \<Rightarrow>
        if a = [] \<or> (ml \<and> js_lt (hd a)) then k st else None)"

text \<open>
  \<open>re.exec(s)\<close>: the leftmost match. The result holds what lies before the match, the matched
  text, what lies behind it, and the captures.
\<close>

record re_result =
  re_before :: string
  re_text :: string
  re_after :: string
  re_caps :: "(nat \<times> string) list"

fun exec_from :: "bool \<Rightarrow> re \<Rightarrow> string \<Rightarrow> string \<Rightarrow> re_result option" where
  "exec_from ml r b a =
     (case rmatch ml r (b, a, []) Some of
        Some (b', a', cs) \<Rightarrow>
          Some \<lparr>re_before = rev b, re_text = take (length a - length a') a, re_after = a', re_caps = cs\<rparr>
      | None \<Rightarrow> (case a of [] \<Rightarrow> None | c # a' \<Rightarrow> exec_from ml r (c # b) a'))"

declare exec_from.simps [simp del]

definition re_exec :: "bool \<Rightarrow> re \<Rightarrow> string \<Rightarrow> re_result option" where
  "re_exec ml r s = exec_from ml r [] s"

definition re_test :: "bool \<Rightarrow> re \<Rightarrow> string \<Rightarrow> bool" where
  "re_test ml r s = (re_exec ml r s \<noteq> None)"

text \<open>\<open>m[i]\<close>: the whole match, or a capture (absent: \<open>undefined\<close>).\<close>

definition re_group :: "re_result \<Rightarrow> nat \<Rightarrow> string option" where
  "re_group m i = (if i = 0 then Some (re_text m) else map_of (re_caps m) i)"

text \<open>
  \<open>while ((m = re.exec(s)))\<close> with the flag \<open>g\<close>: each search starts where the last match
  ended. A pattern that matches the empty string would repeat for ever, so the loop has fuel;
  for a pattern whose matches are not empty the length of the subject is enough.
\<close>

fun exec_loop :: "nat \<Rightarrow> bool \<Rightarrow> re \<Rightarrow> string \<Rightarrow> string \<Rightarrow> re_result list option" where
  "exec_loop 0 ml r b a = None"
| "exec_loop (Suc n) ml r b a =
     (case exec_from ml r b a of
        None \<Rightarrow> Some []
      | Some m \<Rightarrow>
          map_option ((#) m) (exec_loop n ml r (rev (re_before m @ re_text m)) (re_after m)))"

section \<open>Denotation\<close>

text \<open>
  The relation a pattern denotes, without priorities: which states a match can end in. It
  splits a match proof into facts on the pattern's shape.
\<close>

inductive rden :: "bool \<Rightarrow> re \<Rightarrow> mst \<Rightarrow> mst \<Rightarrow> bool" where
  den_cls: "p c \<Longrightarrow> rden ml (RCls p) (b, c # a, cs) (c # b, a, cs)"
| den_emp: "rden ml REmp st st"
| den_seq: "rden ml r s t \<Longrightarrow> rden ml q t u \<Longrightarrow> rden ml (RSeq r q) s u"
| den_alt1: "rden ml r s t \<Longrightarrow> rden ml (RAlt r q) s t"
| den_alt2: "rden ml q s t \<Longrightarrow> rden ml (RAlt r q) s t"
| den_star0: "rden ml (RStar r) st st"
| den_star: "rden ml r s t \<Longrightarrow> rden ml (RStar r) t u \<Longrightarrow> rden ml (RStar r) s u"
| den_grp: "rden ml r (b, a, cs) (b', a', cs') \<Longrightarrow>
    rden ml (RGrp n r) (b, a, cs) (b', a', (n, take (length a - length a') a) # cs')"
| den_beg: "b = [] \<or> (ml \<and> js_lt (hd b)) \<Longrightarrow> rden ml RBeg (b, a, cs) (b, a, cs)"
| den_end: "a = [] \<or> (ml \<and> js_lt (hd a)) \<Longrightarrow> rden ml REnd (b, a, cs) (b, a, cs)"

inductive_cases den_clsE: "rden ml (RCls p) s t"
inductive_cases den_empE: "rden ml REmp s t"
inductive_cases den_seqE: "rden ml (RSeq r q) s t"
inductive_cases den_altE: "rden ml (RAlt r q) s t"
inductive_cases den_grpE: "rden ml (RGrp n r) s t"
inductive_cases den_begE: "rden ml RBeg s t"
inductive_cases den_endE: "rden ml REnd s t"

lemma star_iter_den:
  assumes step: "\<And>st k x. f st k = Some x \<Longrightarrow> \<exists>st'. rden ml r st st' \<and> k st' = Some x"
  shows "star_iter f n st k = Some x \<Longrightarrow> \<exists>st'. rden ml (RStar r) st st' \<and> k st' = Some x"
proof (induction n arbitrary: st)
  case 0
  then show ?case by (intro exI [of _ st]) (simp add: den_star0)
next
  case (Suc n)
  let ?k = "\<lambda>st'. if rest_len st' < rest_len st then star_iter f n st' k else None"
  show ?case
  proof (cases "f st ?k")
    case None
    with Suc.prems show ?thesis by (intro exI [of _ st]) (simp add: den_star0)
  next
    case (Some y)
    with Suc.prems have "f st ?k = Some x" by simp
    from step [OF this] obtain t where t: "rden ml r st t" and "?k t = Some x" by blast
    then have "star_iter f n t k = Some x" by (simp split: if_splits)
    from Suc.IH [OF this] t show ?thesis by (blast intro: den_star)
  qed
qed

theorem rmatch_den: "rmatch ml r st k = Some x \<Longrightarrow> \<exists>st'. rden ml r st st' \<and> k st' = Some x"
proof (induction r arbitrary: st k x)
  case (RStar r)
  from star_iter_den [OF RStar.IH] RStar.prems show ?case by simp
next
  case (RGrp n r)
  obtain b a cs where st: "st = (b, a, cs)" by (cases st) auto
  from RGrp.prems obtain st' where "rden ml r st st'"
    and k: "(\<lambda>(b, a, cs). k (b, a, (n, take (rest_len st - length a) (fst (snd st))) # cs)) st' = Some x"
    using RGrp.IH by fastforce
  moreover obtain b' a' cs' where "st' = (b', a', cs')" by (cases st') auto
  ultimately show ?case
    using den_grp [of ml r b a cs b' a' cs' n] st by (fastforce simp: rest_len_def)
next
  case (RSeq r q)
  from RSeq.prems obtain t where "rden ml r st t" and "rmatch ml q t k = Some x"
    using RSeq.IH(1) by fastforce
  with RSeq.IH(2) show ?case by (blast intro: den_seq)
next
  case (RAlt r q)
  show ?case
  proof (cases "rmatch ml r st k")
    case None
    with RAlt.prems have "rmatch ml q st k = Some x" by simp
    from RAlt.IH(2) [OF this] show ?thesis by (blast intro: den_alt2)
  next
    case (Some y)
    with RAlt.prems have "rmatch ml r st k = Some x" by simp
    from RAlt.IH(1) [OF this] show ?thesis by (blast intro: den_alt1)
  qed
next
  case (RCls p)
  then show ?case by (auto split: prod.splits list.splits if_splits intro: den_cls)
next
  case REmp
  then show ?case using den_emp by (metis rmatch.simps(2))
next
  case RBeg
  obtain b a cs where "st = (b, a, cs)" by (cases st) auto
  with RBeg den_beg [of b ml a cs] show ?case by (intro exI [of _ st]) (simp split: if_splits)
next
  case REnd
  obtain b a cs where "st = (b, a, cs)" by (cases st) auto
  with REnd den_end [of a ml b cs] show ?case by (intro exI [of _ st]) (simp split: if_splits)
qed

text \<open>A match consumes a prefix of what lies ahead and moves it behind the position.\<close>

lemma rden_consumes:
  "rden ml r st st' \<Longrightarrow> \<exists>w. fst (snd st) = w @ fst (snd st') \<and> fst st' = rev w @ fst st"
proof (induction rule: rden.induct)
  case (den_seq ml r s t q u)
  then obtain w w' where "fst (snd s) = w @ fst (snd t)" "fst t = rev w @ fst s"
    "fst (snd t) = w' @ fst (snd u)" "fst u = rev w' @ fst t" by blast
  then show ?case by (intro exI [of _ "w @ w'"]) simp
next
  case (den_star ml r s t u)
  then obtain w w' where "fst (snd s) = w @ fst (snd t)" "fst t = rev w @ fst s"
    "fst (snd t) = w' @ fst (snd u)" "fst u = rev w' @ fst t" by blast
  then show ?case by (intro exI [of _ "w @ w'"]) simp
qed auto

lemma exec_from_Some:
  assumes "exec_from ml r b a = Some m"
  shows "\<exists>u w. a = u @ re_text m @ re_after m \<and> re_before m = rev b @ u \<and>
           rden ml r (rev u @ b, re_text m @ re_after m, []) (w, re_after m, re_caps m)"
  using assms
proof (induction a arbitrary: b)
  case Nil
  then obtain b' a' cs where e: "rmatch ml r (b, [], []) Some = Some (b', a', cs)"
    and m: "m = \<lparr>re_before = rev b, re_text = [], re_after = a', re_caps = cs\<rparr>"
    by (auto simp: exec_from.simps [of _ _ _ "[]"] split: option.splits)
  from rmatch_den [OF e] have d: "rden ml r (b, [], []) (b', a', cs)" by auto
  with rden_consumes [OF this] m show ?case
    by (intro exI [of _ "[]"] exI [of _ b']) auto
next
  case (Cons c a)
  show ?case
  proof (cases "rmatch ml r (b, c # a, []) Some")
    case None
    with Cons.prems have "exec_from ml r (c # b) a = Some m"
      by (simp add: exec_from.simps [of _ _ _ "c # a"])
    from Cons.IH [OF this] obtain u w where
      "a = u @ re_text m @ re_after m" "re_before m = rev (c # b) @ u"
      "rden ml r (rev u @ c # b, re_text m @ re_after m, []) (w, re_after m, re_caps m)" by blast
    then show ?thesis by (intro exI [of _ "c # u"] exI [of _ w]) auto
  next
    case (Some st)
    obtain b' a' cs where st: "st = (b', a', cs)" by (cases st) auto
    from Some st have e: "rmatch ml r (b, c # a, []) Some = Some (b', a', cs)" by simp
    with Cons.prems have m: "m = \<lparr>re_before = rev b, re_text = take (length (c # a) - length a') (c # a),
        re_after = a', re_caps = cs\<rparr>"
      by (simp add: exec_from.simps [of _ _ _ "c # a"])
    from rmatch_den [OF e] have d: "rden ml r (b, c # a, []) (b', a', cs)" by auto
    from rden_consumes [OF d] obtain w where w: "c # a = w @ a'" by auto
    then have "take (length (c # a) - length a') (c # a) = w" by simp
    with d m w show ?thesis by (intro exI [of _ "[]"] exI [of _ b']) auto
  qed
qed

lemma re_exec_Some:
  assumes "re_exec ml r s = Some m"
  shows "s = re_before m @ re_text m @ re_after m"
    and "\<exists>w. rden ml r (rev (re_before m), re_text m @ re_after m, []) (w, re_after m, re_caps m)"
  using exec_from_Some [of ml r "[]" s m] assms by (auto simp: re_exec_def)

section \<open>Greedy stars over a class\<close>

text \<open>
  The longest run of a class is tried first: when the continuation succeeds behind it, that is
  the match.
\<close>

lemma star_iter_longest:
  assumes "\<And>b c a k. f (b, c # a, cs) k = (if p c then k (c # b, a, cs) else None)"
  shows "k (rev (takeWhile p a) @ b, dropWhile p a, cs) = Some x \<Longrightarrow>
    star_iter f (length a) (b, a, cs) k = Some x"
proof (induction a arbitrary: b)
  case Nil
  then show ?case by simp
next
  case (Cons c a)
  show ?case
  proof (cases "p c")
    case True
    with Cons.prems have "star_iter f (length a) (c # b, a, cs) k = Some x"
      by (intro Cons.IH) simp
    with True assms show ?thesis by (simp add: rest_len_def)
  next
    case False
    with Cons.prems assms show ?thesis by simp
  qed
qed

lemma star_cls_longest:
  assumes "k (rev (takeWhile p a) @ b, dropWhile p a, cs) = Some x"
  shows "rmatch ml (RStar (RCls p)) (b, a, cs) k = Some x"
proof -
  have "star_iter (rmatch ml (RCls p)) (length a) (b, a, cs) k = Some x"
    by (rule star_iter_longest [where p = p]) (use assms in simp_all)
  then show ?thesis by (simp add: rest_len_def)
qed

text \<open>When nothing in the class lies ahead, the star matches the empty string only.\<close>

lemma star_cls_none:
  assumes "a = [] \<or> \<not> p (hd a)"
  shows "rmatch ml (RStar (RCls p)) (b, a, cs) k = k (b, a, cs)"
  using assms by (cases a) (auto simp: rest_len_def split: option.splits)

lemma rden_star_cls:
  "rden ml (RStar (RCls p)) st st' \<Longrightarrow>
   \<exists>w. fst (snd st) = w @ fst (snd st') \<and> fst st' = rev w @ fst st \<and>
       list_all p w \<and> snd (snd st') = snd (snd st)"
proof (induction ml "RStar (RCls p)" st st' rule: rden.induct)
  case (den_star0 ml st)
  then show ?case by simp
next
  case (den_star ml s t u)
  from den_star.hyps(1) obtain c a b cs where "p c" "s = (b, c # a, cs)" "t = (c # b, a, cs)"
    by (auto elim: den_clsE)
  moreover from den_star.hyps(3) obtain w where "fst (snd t) = w @ fst (snd u)"
    "fst u = rev w @ fst t" "list_all p w" "snd (snd u) = snd (snd t)" by auto
  ultimately show ?case by (intro exI [of _ "c # w"]) auto
qed

lemma rmatch_RStr:
  "rmatch ml (RStr w) (b, a, cs) k =
     (if js_startsWith a w then k (rev w @ b, drop (length w) a, cs) else None)"
proof (induction w arbitrary: a b)
  case Nil
  then show ?case by simp
next
  case (Cons c w)
  show ?case by (cases a) (auto simp: RChr_def Cons.IH)
qed

section \<open>Captures\<close>

text \<open>A pattern without groups leaves the captures alone; a group adds the text it matched.\<close>

primrec no_grp :: "re \<Rightarrow> bool" where
  "no_grp (RCls p) = True"
| "no_grp REmp = True"
| "no_grp (RSeq r q) = (no_grp r \<and> no_grp q)"
| "no_grp (RAlt r q) = (no_grp r \<and> no_grp q)"
| "no_grp (RStar r) = no_grp r"
| "no_grp (RGrp n r) = False"
| "no_grp RBeg = True"
| "no_grp REnd = True"

lemma rden_no_grp: "rden ml r s t \<Longrightarrow> no_grp r \<Longrightarrow> snd (snd t) = snd (snd s)"
  by (induction rule: rden.induct) auto

lemma rden_grp:
  assumes "rden ml (RGrp n r) (b, a, cs) t" and "no_grp r"
  obtains w a' where "a = w @ a'" and "t = (rev w @ b, a', (n, w) # cs)"
    and "rden ml r (b, a, cs) (rev w @ b, a', cs)"
proof -
  from assms(1) obtain b' a' cs' where d: "rden ml r (b, a, cs) (b', a', cs')"
    and t: "t = (b', a', (n, take (length a - length a') a) # cs')"
    by (auto elim: den_grpE)
  from rden_consumes [OF d] obtain w where w: "a = w @ a'" "b' = rev w @ b" by auto
  from rden_no_grp [OF d assms(2)] have "cs' = cs" by simp
  with t w d that show ?thesis by simp
qed

lemma no_grp_RStr [simp]: "no_grp (RStr w)"
  by (induction w) (simp_all add: RChr_def)

lemma no_grp_RSeqs [simp]: "no_grp (RSeqs rs) = list_all no_grp rs"
  by (induction rs) simp_all

lemma no_grp_derived [simp]:
  "no_grp (ROpt r) = no_grp r" "no_grp (RPlus r) = no_grp r" "no_grp (RChr c)" "no_grp RDot"
  by (auto simp: ROpt_def RPlus_def RChr_def RDot_def)

lemma rden_RStr: "rden ml (RStr w) (b, a, cs) t \<Longrightarrow> \<exists>a'. a = w @ a' \<and> t = (rev w @ b, a', cs)"
proof (induction w arbitrary: b a)
  case Nil
  then show ?case by (auto elim: den_empE)
next
  case (Cons c w)
  from Cons.prems obtain u where u: "rden ml (RChr c) (b, a, cs) u" "rden ml (RStr w) u t"
    by (auto elim: den_seqE)
  from u(1) obtain a1 where "a = c # a1" "u = (c # b, a1, cs)"
    by (auto simp: RChr_def elim: den_clsE)
  with Cons.IH u(2) show ?case by fastforce
qed

primrec RAlts :: "re list \<Rightarrow> re" where
  "RAlts [] = RCls (\<lambda>c. False)"
| "RAlts (r # rs) = RAlt r (RAlts rs)"

lemma no_grp_RAlts [simp]: "no_grp (RAlts rs) = list_all no_grp rs"
  by (induction rs) simp_all

lemma rden_RAlts: "rden ml (RAlts rs) s t \<Longrightarrow> \<exists>r\<in>set rs. rden ml r s t"
  by (induction rs) (auto elim: den_clsE den_altE)

text \<open>The first alternative that is a prefix of what lies ahead decides, if the rest succeeds.\<close>

lemma rmatch_RAlts_hit:
  assumes "list_all (\<lambda>u. \<not> js_startsWith (w @ a) u) us" and "k (rev w @ b, a, cs) = Some x"
  shows "rmatch ml (RAlts (map RStr (us @ w # vs))) (b, w @ a, cs) k = Some x"
  using assms by (induction us) (simp_all add: rmatch_RStr)

section \<open>Runs\<close>

text \<open>
  \<open>runs ml r w a\<close>: in front of \<open>w @ a\<close> the pattern tries \<open>w\<close> so early that the whole match
  takes it whenever the continuation succeeds behind it.
\<close>

definition runs :: "bool \<Rightarrow> re \<Rightarrow> string \<Rightarrow> string \<Rightarrow> bool" where
  "runs ml r w a \<longleftrightarrow> (\<forall>b cs k x. k (rev w @ b, a, cs) = Some x \<longrightarrow>
     rmatch ml r (b, w @ a, cs) k = Some x)"

lemma runsD: "runs ml r w a \<Longrightarrow> k (rev w @ b, a, cs) = Some x \<Longrightarrow> rmatch ml r (b, w @ a, cs) k = Some x"
  unfolding runs_def by blast

lemma runs_emp: "runs ml REmp [] a"
  by (simp add: runs_def)

lemma runs_seq: "runs ml r w (v @ a) \<Longrightarrow> runs ml q v a \<Longrightarrow> runs ml (RSeq r q) (w @ v) a"
  by (simp add: runs_def)

lemma takeWhile_run: "list_all p w \<Longrightarrow> a = [] \<or> \<not> p (hd a) \<Longrightarrow> takeWhile p (w @ a) = w"
  by (cases a) (auto simp: takeWhile_append list_all_iff)

lemma dropWhile_run: "list_all p w \<Longrightarrow> a = [] \<or> \<not> p (hd a) \<Longrightarrow> dropWhile p (w @ a) = a"
  by (cases a) (auto simp: dropWhile_append list_all_iff)

lemma runs_star: "list_all p w \<Longrightarrow> a = [] \<or> \<not> p (hd a) \<Longrightarrow> runs ml (RStar (RCls p)) w a"
  unfolding runs_def
  by (intro allI impI star_cls_longest) (simp only: takeWhile_run dropWhile_run)

lemma runs_star_none: "a = [] \<or> \<not> p (hd a) \<Longrightarrow> runs ml (RStar (RCls p)) [] a"
  by (rule runs_star) simp_all

lemma runs_opt: "runs ml (ROpt (RChr c)) [c] a"
  by (simp add: runs_def ROpt_def RChr_def)

lemma runs_grp:
  assumes "runs ml r w a" and "k (rev w @ b, a, (n, w) # cs) = Some x"
  shows "rmatch ml (RGrp n r) (b, w @ a, cs) k = Some x"
  using assms by (auto simp: rest_len_def intro: runsD)

text \<open>A star finds a match whenever the continuation succeeds behind some run of its class.\<close>

lemma star_iter_some:
  assumes "\<And>b c a k. f (b, c # a, cs) k = (if p c then k (c # b, a, cs) else None)"
  shows "list_all p w \<Longrightarrow> k (rev w @ b, a, cs) \<noteq> None \<Longrightarrow>
    star_iter f (length (w @ a)) (b, w @ a, cs) k \<noteq> None"
proof (induction w arbitrary: b)
  case Nil
  then show ?case by (cases a) (auto split: option.splits)
next
  case (Cons c w)
  have "star_iter f (length (w @ a)) (c # b, w @ a, cs) k \<noteq> None"
    by (rule Cons.IH) (use Cons.prems in auto)
  with Cons.prems assms show ?case by (auto simp: rest_len_def split: option.splits)
qed

lemma star_cls_some:
  "list_all p w \<Longrightarrow> k (rev w @ b, a, cs) \<noteq> None \<Longrightarrow>
   rmatch ml (RStar (RCls p)) (b, w @ a, cs) k \<noteq> None"
  using star_iter_some [of "rmatch ml (RCls p)" cs p w k b a] by (simp add: rest_len_def)

lemma exec_from_here:
  assumes "rmatch ml r (b, a, []) Some = Some (b', a', cs)"
  shows "exec_from ml r b a =
    Some \<lparr>re_before = rev b, re_text = take (length a - length a') a, re_after = a', re_caps = cs\<rparr>"
  using assms by (subst exec_from.simps) simp

lemma exec_from_skip:
  "rmatch ml r (b, c # a, []) Some = None \<Longrightarrow> exec_from ml r b (c # a) = exec_from ml r (c # b) a"
  by (subst exec_from.simps) simp

text \<open>
  When the whole run is one code unit too long, the star gives that unit back.
\<close>

lemma star_iter_give_back:
  assumes f: "\<And>b c a k. f (b, c # a, cs) k = (if p c then k (c # b, a, cs) else None)"
    and stop: "f (c # rev w @ b, a, cs) = (\<lambda>k. None)"
  shows "list_all p w \<Longrightarrow> p c \<Longrightarrow> k (c # rev w @ b, a, cs) = None \<Longrightarrow> k (rev w @ b, c # a, cs) = Some x \<Longrightarrow>
    star_iter f (length (w @ c # a)) (b, w @ c # a, cs) k = Some x"
  using stop
proof (induction w arbitrary: b)
  case Nil
  have "star_iter f (length a) (c # b, a, cs) k = None"
    using Nil by (cases "length a") simp_all
  with Nil f show ?case by (simp add: rest_len_def)
next
  case (Cons d w)
  have "star_iter f (length (w @ c # a)) (d # b, w @ c # a, cs) k = Some x"
    by (rule Cons.IH) (use Cons.prems in simp_all)
  with Cons.prems f show ?case by (simp add: rest_len_def)
qed

lemma star_cls_give_back:
  assumes "list_all p w" "p c" "a = [] \<or> \<not> p (hd a)"
    and "k (c # rev w @ b, a, cs) = None" and "k (rev w @ b, c # a, cs) = Some x"
  shows "rmatch ml (RStar (RCls p)) (b, w @ c # a, cs) k = Some x"
proof -
  have "star_iter (rmatch ml (RCls p)) (length (w @ c # a)) (b, w @ c # a, cs) k = Some x"
    by (rule star_iter_give_back [where p = p])
       (use assms in \<open>auto simp: fun_eq_iff split: list.splits\<close>)
  then show ?thesis by (simp add: rest_len_def)
qed

end
