(* ===== verification/Requirements.thy ===== *)
theory Requirements
  imports FixTypes JsRegExp
begin

text \<open>
  The parser of pip requirements files:
  \<open>plugins/python/handlers/pip-requirements/update-dependencies/requirements-file-parser.ts\<close>
  and \<open>plugins/python/standardize-package-name.ts\<close> of \<open>packages/vulnmap-fix/src\<close>.
\<close>

section \<open>Package names\<close>

definition standardizePackageName :: "string \<Rightarrow> string" where
  "standardizePackageName name = js_lower (js_replace_first ''_'' ''-'' name)"

section \<open>Parsed requirements\<close>

record requirement =
  originalText :: string
  line :: nat
  req_name :: "string option"
  originalName :: "string option"
  versionComparator :: "string option"
  version :: "string option"
  extras :: "string option"

record parsed_requirements =
  requirements :: "requirement list"
  endsWithNewLine :: bool

abbreviation nl :: char where
  "nl \<equiv> CHR 0x0A"

text \<open>The classes \<open>[A-Z0-9-._]\<close> and \<open>[A-Z0-9]\<close> under the flag \<open>i\<close>.\<close>

definition alnum_char :: "char \<Rightarrow> bool" where
  "alnum_char c =
     (let n = (of_char c :: nat) in
      (65 \<le> n \<and> n \<le> 90) \<or> (97 \<le> n \<and> n \<le> 122) \<or> (48 \<le> n \<and> n \<le> 57))"

definition name_char :: "char \<Rightarrow> bool" where
  "name_char c = (alnum_char c \<or> c = CHR ''-'' \<or> c = CHR ''.'' \<or> c = CHR ''_'')"

definition comparators :: "string list" where
  "comparators = [''!='', ''==='', ''=='', ''>='', ''<='', ''>'', ''<'', ''~='']"

text \<open>
  \<open>/([A-Z0-9-._]*)(!=|===|==|>=|<=|>|<|~=)(\d*\.?\d*\.?\d*[A-Z0-9]*)(.*)/i\<close>
\<close>

definition version_re :: re where
  "version_re =
     RSeqs [RStar (RCls js_digit), ROpt (RChr (CHR ''.'')), RStar (RCls js_digit),
            ROpt (RChr (CHR ''.'')), RStar (RCls js_digit), RStar (RCls alnum_char)]"

definition requirement_re :: re where
  "requirement_re =
     RSeqs [RGrp 1 (RStar (RCls name_char)),
            RGrp 2 (RAlts (map RStr comparators)),
            RGrp 3 version_re,
            RGrp 4 (RStar RDot)]"

definition bare_requirement :: "string \<Rightarrow> nat \<Rightarrow> requirement" where
  "bare_requirement t n =
     \<lparr>originalText = t, line = n, req_name = None, originalName = None,
      versionComparator = None, version = None, extras = None\<rparr>"

text \<open>
  One line. The \<open>catch\<close> turns the only error of the \<open>try\<close> block, a line the pattern does not
  give a name and a version for, into the bare requirement.
\<close>

definition extractDependencyDataFromLine :: "string \<Rightarrow> nat \<Rightarrow> requirement" where
  "extractDependencyDataFromLine requirementText n =
     (let trimmedText = js_trim requirementText in
      if requirementText = [] \<or> js_startsWith trimmedText ''-e'' \<or>
         js_startsWith trimmedText ''#'' \<or> js_startsWith trimmedText ''file:''
      then bare_requirement requirementText n
      else
        (let requirement =
           (case re_exec False requirement_re requirementText of
              None \<Rightarrow> bare_requirement requirementText n
            | Some result \<Rightarrow>
                \<lparr>originalText = requirementText, line = n,
                 req_name = map_option standardizePackageName (re_group result 1),
                 originalName = re_group result 1,
                 versionComparator = re_group result 2,
                 version = re_group result 3,
                 extras = re_group result 4\<rparr>) in
         if \<not> (truthy (version requirement) \<and> truthy (req_name requirement))
         then bare_requirement requirementText n
         else requirement))"

definition parseRequirementsFile :: "string \<Rightarrow> parsed_requirements" where
  "parseRequirementsFile requirementsFile =
     (let ends = js_endsWith requirementsFile [nl];
          lines = js_split nl (if ends then butlast requirementsFile else requirementsFile) in
      \<lparr>requirements = map (\<lambda>(n, t). extractDependencyDataFromLine t n) (enumerate 0 lines),
       endsWithNewLine = ends\<rparr>)"

section \<open>Lines and numbers\<close>

lemma bare_requirement_sel [simp]:
  "originalText (bare_requirement t n) = t"
  "line (bare_requirement t n) = n"
  "req_name (bare_requirement t n) = None"
  "version (bare_requirement t n) = None"
  "versionComparator (bare_requirement t n) = None"
  "originalName (bare_requirement t n) = None"
  "extras (bare_requirement t n) = None"
  by (simp_all add: bare_requirement_def)

lemma extract_text [simp]: "originalText (extractDependencyDataFromLine t n) = t"
  by (simp add: extractDependencyDataFromLine_def Let_def split: option.splits)

lemma extract_line [simp]: "line (extractDependencyDataFromLine t n) = n"
  by (simp add: extractDependencyDataFromLine_def Let_def split: option.splits)

lemma parse_texts:
  "map originalText (requirements (parseRequirementsFile f)) =
     js_split nl (if js_endsWith f [nl] then butlast f else f)"
  by (simp add: parseRequirementsFile_def Let_def comp_def case_prod_unfold)

lemma parse_lines:
  "map line (requirements (parseRequirementsFile f)) =
     [0..<length (requirements (parseRequirementsFile f))]"
  by (simp add: parseRequirementsFile_def Let_def comp_def case_prod_unfold)

lemma endsWithNewLine_parse [simp]: "endsWithNewLine (parseRequirementsFile f) = js_endsWith f [nl]"
  by (simp add: parseRequirementsFile_def Let_def)

lemma endsWith_nl: "js_endsWith f [c] \<Longrightarrow> butlast f @ [c] = f"
  by (auto simp: js_endsWith_iff)

definition print_requirements :: "parsed_requirements \<Rightarrow> string" where
  "print_requirements p =
     js_join [nl] (map originalText (requirements p)) @ (if endsWithNewLine p then [nl] else [])"

lemma print_parse: "print_requirements (parseRequirementsFile f) = f"
  by (simp add: print_requirements_def parse_texts endsWith_nl)

section \<open>What the pattern gives\<close>

text \<open>The four captures of a match are consecutive pieces of the line.\<close>

lemma requirement_re_captures:
  assumes "re_exec False requirement_re t = Some m"
  obtains n c v e where
    "re_group m 1 = Some n" "re_group m 2 = Some c" "re_group m 3 = Some v" "re_group m 4 = Some e"
    "t = re_before m @ (n @ c @ v @ e) @ re_after m"
    "list_all name_char n" "c \<in> set comparators" "list_all (\<lambda>x. \<not> js_lt x) e"
proof -
  from re_exec_Some [OF assms] obtain w where t: "t = re_before m @ re_text m @ re_after m"
    and "rden False requirement_re (rev (re_before m), re_text m @ re_after m, [])
           (w, re_after m, re_caps m)" by blast
  then obtain s1 s2 s3 s4 where
    d: "rden False (RGrp 1 (RStar (RCls name_char))) (rev (re_before m), re_text m @ re_after m, []) s1"
       "rden False (RGrp 2 (RAlts (map RStr comparators))) s1 s2"
       "rden False (RGrp 3 version_re) s2 s3"
       "rden False (RGrp 4 (RStar RDot)) s3 s4"
    and s4: "s4 = (w, re_after m, re_caps m)"
    by (auto simp: requirement_re_def elim!: den_seqE den_empE)
  from d(1) obtain n a1 where n: "re_text m @ re_after m = n @ a1"
    "s1 = (rev n @ rev (re_before m), a1, [(1, n)])"
    "rden False (RStar (RCls name_char)) (rev (re_before m), re_text m @ re_after m, [])
       (rev n @ rev (re_before m), a1, [])"
    by (rule rden_grp) auto
  have ng: "no_grp (RAlts (map RStr comparators))" by (simp add: comparators_def)
  from d(2) n(2) obtain c a2 where c: "a1 = c @ a2"
    "s2 = (rev c @ rev n @ rev (re_before m), a2, [(2, c), (1, n)])"
    "rden False (RAlts (map RStr comparators)) (rev n @ rev (re_before m), a1, [(1, n)])
       (rev c @ rev n @ rev (re_before m), a2, [(1, n)])"
    by (auto intro: rden_grp [OF _ ng])
  have ngv: "no_grp version_re" by (simp add: version_re_def)
  from d(3) c(2) obtain v a3 where v: "a2 = v @ a3"
    "s3 = (rev v @ rev c @ rev n @ rev (re_before m), a3, [(3, v), (2, c), (1, n)])"
    by (auto intro: rden_grp [OF _ ngv])
  from d(4) v(2) obtain e a4 where e: "a3 = e @ a4"
    "s4 = (rev e @ rev v @ rev c @ rev n @ rev (re_before m), a4, [(4, e), (3, v), (2, c), (1, n)])"
    "rden False (RStar RDot) (rev v @ rev c @ rev n @ rev (re_before m), a3, [(3, v), (2, c), (1, n)])
       (rev e @ rev v @ rev c @ rev n @ rev (re_before m), a4, [(3, v), (2, c), (1, n)])"
    by (auto intro: rden_grp [of False 4 "RStar RDot"])
  from rden_star_cls [OF n(3)] have ln: "list_all name_char n" by auto
  from rden_star_cls [OF e(3) [unfolded RDot_def]] have le: "list_all (\<lambda>x. \<not> js_lt x) e" by auto
  from rden_RAlts [OF c(3)] have lc: "c \<in> set comparators" by (auto dest: rden_RStr)
  have "re_after m = a4" "re_caps m = [(4, e), (3, v), (2, c), (1, n)]" using s4 e(2) by auto
  with n(1) c(1) v(1) e(1) t ln le lc show ?thesis
    by (intro that [of n c v e]) (simp_all add: re_group_def)
qed

text \<open>
  A requirement with a name carries the pieces of its line; one without is bare.
\<close>

definition wf_requirement :: "requirement \<Rightarrow> bool" where
  "wf_requirement r \<longleftrightarrow>
     r = bare_requirement (originalText r) (line r) \<or>
     (\<exists>u n c v e z. originalText r = u @ n @ c @ v @ e @ z \<and>
        originalName r = Some n \<and> req_name r = Some (standardizePackageName n) \<and>
        versionComparator r = Some c \<and> version r = Some v \<and> extras r = Some e \<and>
        list_all name_char n \<and> standardizePackageName n \<noteq> [] \<and> c \<in> set comparators \<and> v \<noteq> [])"

lemma wf_extract: "wf_requirement (extractDependencyDataFromLine t i)"
proof (cases "re_exec False requirement_re t")
  case None
  then have "extractDependencyDataFromLine t i = bare_requirement t i"
    by (simp add: extractDependencyDataFromLine_def Let_def)
  then show ?thesis by (simp add: wf_requirement_def)
next
  case (Some m)
  from requirement_re_captures [OF Some] obtain n c v e where
    g: "re_group m 1 = Some n" "re_group m 2 = Some c" "re_group m 3 = Some v" "re_group m 4 = Some e"
    and t: "t = re_before m @ (n @ c @ v @ e) @ re_after m"
    and ok: "list_all name_char n" "c \<in> set comparators" .
  let ?f = "\<lparr>originalText = t, line = i, req_name = Some (standardizePackageName n),
     originalName = Some n, versionComparator = Some c, version = Some v, extras = Some e\<rparr>"
  have full: "wf_requirement ?f" if "v \<noteq> []" "standardizePackageName n \<noteq> []"
    unfolding wf_requirement_def using that ok t by auto
  have "extractDependencyDataFromLine t i = bare_requirement t i \<or>
        extractDependencyDataFromLine t i = ?f \<and> v \<noteq> [] \<and> standardizePackageName n \<noteq> []"
    using Some g by (simp add: extractDependencyDataFromLine_def Let_def)
  moreover have "wf_requirement (bare_requirement t i)"
    unfolding wf_requirement_def by simp
  ultimately show ?thesis using full by metis
qed

section \<open>Canonical lines\<close>

lemma digit_classes:
  assumes "js_digit d"
  shows "alnum_char d" "name_char d" "d \<noteq> CHR ''=''" "d \<noteq> CHR ''.''" "\<not> js_lt d"
  using assms by (auto simp: js_digit_def alnum_char_def name_char_def js_lt_def Let_def)

lemma version_run:
  assumes "list_all js_digit a1" "list_all js_digit a2" "list_all js_digit a3"
    and "e = [] \<or> \<not> alnum_char (hd e)"
  shows "runs ml version_re (a1 @ ''.'' @ a2 @ ''.'' @ a3) e"
proof -
  have stop: "e = [] \<or> \<not> js_digit (hd e)" using assms(4) digit_classes(1) by blast
  have dot: "\<not> js_digit (CHR ''.'')" by (simp add: js_digit_def)
  have "runs ml version_re (a1 @ ''.'' @ a2 @ ''.'' @ a3 @ [] @ []) e"
    unfolding version_re_def RSeqs.simps
    by (intro runs_seq runs_emp runs_star runs_opt assms(1,2,3)) (use stop dot assms(4) in simp_all)
  then show ?thesis by simp
qed

lemma comparator_run:
  assumes "c \<in> set comparators" and "js_digit d"
  shows "runs ml (RAlts (map RStr comparators)) c (d # a)"
proof -
  have d: "d \<noteq> CHR ''=''" by (rule digit_classes(3) [OF assms(2)])
  have hit: "runs ml (RAlts (map RStr (us @ c # vs))) c (d # a)"
    if "list_all (\<lambda>u. \<not> js_startsWith (c @ d # a) u) us" for us vs
    unfolding runs_def by (intro allI impI rmatch_RAlts_hit that)
  from assms(1) have cs: "c = ''!='' \<or> c = ''==='' \<or> c = ''=='' \<or> c = ''>='' \<or> c = ''<='' \<or>
      c = ''>'' \<or> c = ''<'' \<or> c = ''~=''"
    by (simp add: comparators_def)
  have ex: "\<exists>us vs. comparators = us @ c # vs \<and> list_all (\<lambda>u. \<not> js_startsWith (c @ d # a) u) us"
  proof (intro exI conjI)
    show "comparators = takeWhile (\<lambda>u. u \<noteq> c) comparators @ c # tl (dropWhile (\<lambda>u. u \<noteq> c) comparators)"
      using cs by (elim disjE) (simp_all add: comparators_def)
    show "list_all (\<lambda>u. \<not> js_startsWith (c @ d # a) u) (takeWhile (\<lambda>u. u \<noteq> c) comparators)"
      using cs by (elim disjE) (simp_all add: comparators_def d)
  qed
  then show ?thesis using hit by metis
qed

lemma comparator_not_name: "c \<in> set comparators \<Longrightarrow> \<not> name_char (hd (c @ a))"
  by (auto simp: comparators_def name_char_def alnum_char_def Let_def)

lemma requirement_match:
  assumes n: "list_all name_char n" and c: "c \<in> set comparators"
    and v: "runs False version_re v e" "js_digit (hd v)" "v \<noteq> []"
    and e: "list_all (\<lambda>x. \<not> js_lt x) e"
  shows "rmatch False requirement_re ([], n @ c @ v @ e, []) Some =
    Some (rev (n @ c @ v @ e), [], [(4, e), (3, v), (2, c), (1, n)])"
proof -
  obtain d v' where dv: "v = d # v'" using v(3) by (cases v) auto
  have rc: "runs False (RAlts (map RStr comparators)) c (v @ e)"
    using comparator_run [OF c, of d] v(2) by (simp add: dv)
  have rn: "runs False (RStar (RCls name_char)) n (c @ v @ e)"
    by (rule runs_star [OF n]) (simp add: comparator_not_name [OF c])
  have re: "runs False (RStar RDot) e []"
    unfolding RDot_def by (rule runs_star [OF e]) simp
  let ?k = "\<lambda>st'. rmatch False REmp st' Some"
  have 4: "rmatch False (RGrp 4 (RStar RDot)) (b, e, cs) ?k = Some (rev e @ b, [], (4, e) # cs)" for b cs
    using runs_grp [OF re, of ?k b 4 cs] by simp
  show ?thesis
    unfolding requirement_re_def RSeqs.simps rmatch.simps(3)
    apply (rule runs_grp [OF rn])
    apply (rule runs_grp [OF rc])
    apply (rule runs_grp [OF v(1)])
    by (simp only: 4) simp
qed

lemma trimEnd_prefix: "\<exists>z. s = js_trimEnd s @ z"
proof -
  have "rev s = takeWhile js_ws (rev s) @ dropWhile js_ws (rev s)" by simp
  then have "s = rev (dropWhile js_ws (rev s)) @ rev (takeWhile js_ws (rev s))"
    by (metis rev_append rev_rev_ident)
  then show ?thesis by (auto simp: js_trimEnd_def)
qed

lemma startsWith_trim: "\<not> js_ws (hd s) \<Longrightarrow> js_startsWith (js_trim s) p \<Longrightarrow> js_startsWith s p"
proof (cases s)
  case (Cons c cs)
  assume "\<not> js_ws (hd s)" and p: "js_startsWith (js_trim s) p"
  with Cons have "js_trim s = js_trimEnd s" by (simp add: js_trim_def js_trimStart_def)
  with p trimEnd_prefix [of s] show ?thesis by (metis append.assoc js_startsWith_iff)
qed (simp add: js_trim_def js_trimStart_def js_trimEnd_def)

lemma name_char_not_ws: "name_char c \<Longrightarrow> \<not> js_ws c"
  by (auto simp: name_char_def alnum_char_def js_ws_def Let_def)

text \<open>A line that starts with a name and a comparator is not one of the skipped kinds.\<close>

lemma not_skipped:
  assumes n: "n \<noteq> []" "list_all name_char n" "\<not> js_startsWith n ''-e''"
    and c: "c \<in> set comparators"
  shows "\<not> js_startsWith (js_trim (n @ c @ r)) ''-e''"
    and "\<not> js_startsWith (js_trim (n @ c @ r)) ''#''"
    and "\<not> js_startsWith (js_trim (n @ c @ r)) ''file:''"
proof -
  let ?t = "n @ c @ r"
  have ws: "\<not> js_ws (hd ?t)"
    using n(1,2) name_char_not_ws by (cases n) auto
  have run: "takeWhile name_char ?t = n"
    by (rule takeWhile_run [OF n(2)]) (simp add: comparator_not_name [OF c])
  have rest: "dropWhile name_char ?t = c @ r"
    by (rule dropWhile_run [OF n(2)]) (simp add: comparator_not_name [OF c])
  have nc: "name_char (CHR ''-'')" "name_char (CHR ''e'')" "\<not> name_char (CHR ''#'')"
    "name_char (CHR ''f'')" "name_char (CHR ''i'')" "name_char (CHR ''l'')" "\<not> name_char (CHR '':'')"
    by (simp_all add: name_char_def alnum_char_def)
  show "\<not> js_startsWith (js_trim ?t) ''-e''"
  proof
    assume "js_startsWith (js_trim ?t) ''-e''"
    then obtain z where "?t = ''-e'' @ z" using startsWith_trim [OF ws] js_startsWith_iff by blast
    with run nc have "n = ''-e'' @ takeWhile name_char z" by simp
    with n(3) show False by simp
  qed
  show "\<not> js_startsWith (js_trim ?t) ''#''"
  proof
    assume "js_startsWith (js_trim ?t) ''#''"
    then obtain z where "?t = ''#'' @ z" using startsWith_trim [OF ws] js_startsWith_iff by blast
    with run nc n(1) show False by simp
  qed
  show "\<not> js_startsWith (js_trim ?t) ''file:''"
  proof
    assume "js_startsWith (js_trim ?t) ''file:''"
    then obtain z where "?t = ''file:'' @ z" using startsWith_trim [OF ws] js_startsWith_iff by blast
    with rest nc have "c @ r = '':'' @ z" by simp
    with c show False by (auto simp: comparators_def)
  qed
qed

lemma extract_canonical:
  assumes n: "n \<noteq> []" "list_all name_char n" "\<not> js_startsWith n ''-e''"
    and c: "c \<in> set comparators"
    and v: "runs False version_re v e" "js_digit (hd v)" "v \<noteq> []"
    and e: "list_all (\<lambda>x. \<not> js_lt x) e"
  shows "extractDependencyDataFromLine (n @ c @ v @ e) i =
    \<lparr>originalText = n @ c @ v @ e, line = i, req_name = Some (standardizePackageName n),
     originalName = Some n, versionComparator = Some c, version = Some v, extras = Some e\<rparr>"
proof -
  have "re_exec False requirement_re (n @ c @ v @ e) =
    Some \<lparr>re_before = [], re_text = n @ c @ v @ e, re_after = [],
          re_caps = [(4, e), (3, v), (2, c), (1, n)]\<rparr>"
    using requirement_match [OF n(2) c v e] by (simp add: re_exec_def exec_from.simps)
  moreover have "standardizePackageName n \<noteq> []"
  proof (cases n)
    case Nil
    with n(1) show ?thesis by simp
  qed (simp add: standardizePackageName_def js_lower_def)
  ultimately show ?thesis
    using not_skipped [OF n c, of "v @ e"] n(1) v(3)
    by (simp add: extractDependencyDataFromLine_def re_group_def)
qed

section \<open>Properties\<close>

text \<open>C9: parsing loses nothing: the texts of the parsed lines, joined with new lines and ended as the
  file ended, are the file, for every file.\<close>

theorem requirements_roundtrip:
  "js_join [nl] (map originalText (requirements (parseRequirementsFile f))) @
     (if endsWithNewLine (parseRequirementsFile f) then [nl] else []) = f"
  using print_parse [of f] by (simp add: print_requirements_def)

text \<open>C10: every line of a file becomes one requirement with its line number, which is either bare or
  has all its fields cut, in order, out of the line's text, with a name over the name characters, one
  of the comparators and a version that is not empty.\<close>

theorem requirements_wf:
  "map line (requirements (parseRequirementsFile f)) =
     [0..<length (js_split nl (if js_endsWith f [nl] then butlast f else f))] \<and>
   list_all wf_requirement (requirements (parseRequirementsFile f))"
  by (auto simp: parseRequirementsFile_def Let_def comp_def case_prod_unfold list_all_iff wf_extract)

text \<open>a line of a name, a comparator, a version of three numbers and a tail parses to exactly these
  parts, with the name standardised.\<close>

theorem canonical_line_parse:
  assumes "n \<noteq> []" "list_all name_char n" "\<not> js_startsWith n ''-e''"
    and "c \<in> set comparators"
    and "list_all js_digit (d # xa)" "list_all js_digit xb" "list_all js_digit xc"
    and "e = [] \<or> \<not> alnum_char (hd e)" "list_all (\<lambda>x. \<not> js_lt x) e"
    and "v = (d # xa) @ ''.'' @ xb @ ''.'' @ xc"
  shows "extractDependencyDataFromLine (n @ c @ v @ e) i =
    \<lparr>originalText = n @ c @ v @ e, line = i, req_name = Some (standardizePackageName n),
     originalName = Some n, versionComparator = Some c, version = Some v, extras = Some e\<rparr>"
  using assms version_run [OF assms(5-8)] by (intro extract_canonical) auto

lemma canonical_line_parse_witness:
  "extractDependencyDataFromLine (''Flask_RESTful'' @ ''>='' @ ''0.12.3'' @ ''; python_version > 2'') 7 =
    \<lparr>originalText = ''Flask_RESTful'' @ ''>='' @ ''0.12.3'' @ ''; python_version > 2'', line = 7,
     req_name = Some (standardizePackageName ''Flask_RESTful''), originalName = Some ''Flask_RESTful'',
     versionComparator = Some ''>='', version = Some ''0.12.3'', extras = Some ''; python_version > 2''\<rparr>"
  by (rule canonical_line_parse [where d = "CHR ''0''" and xa = "[]" and xb = "''12''" and xc = "''3''"]) code_simp+

end
