(* ===== verification/UpdateRequirements.thy ===== *)
theory UpdateRequirements
  imports Requirements
begin

text \<open>
  Updating the text of one requirements file: the functions of
  \<open>plugins/python/handlers/pip-requirements/update-dependencies\<close> in
  \<open>packages/vulnmap-fix/src\<close>. All of them are pure; the only error is the one
  \<open>updateDependencies\<close> throws for a file without lines.
\<close>

section \<open>Names with versions\<close>

text \<open>\<open>s.split('@')[i]\<close>.\<close>

definition at_piece :: "string \<Rightarrow> nat \<Rightarrow> string option" where
  "at_piece s i = js_nth (js_split (CHR ''@'') s) i"

lemma at_piece_0 [simp]: "at_piece s 0 = Some (takeWhile (\<lambda>x. x \<noteq> CHR ''@'') s)"
  by (simp add: at_piece_def hd_js_split)

lemma at_piece_pair:
  assumes "CHR ''@'' \<notin> set a" "CHR ''@'' \<notin> set b"
  shows "at_piece (a @ ''@'' @ b) 0 = Some a" "at_piece (a @ ''@'' @ b) (Suc 0) = Some b"
  using assms by (simp_all add: at_piece_def js_split_append js_split_no_sep)

text \<open>
  \<open>const [pkgName, versionAndMore] = s.split('@')\<close> followed by the template
  \<open>standardizePackageName(pkgName)@versionAndMore\<close>.
\<close>

definition standardize_at :: "string \<Rightarrow> string" where
  "standardize_at s =
     standardizePackageName (str_of_opt (at_piece s 0)) @ ''@'' @ str_of_opt (at_piece s 1)"

section \<open>Which fixes concern a file\<close>

datatype fixes_type = DirectUpgrades | TransitivePins

definition topLevelDeps :: "requirement list \<Rightarrow> string list" where
  "topLevelDeps rs = List.map_filter req_name rs"

definition is_transitive :: "requirement list \<Rightarrow> string \<Rightarrow> bool" where
  "is_transitive rs update =
     (standardizePackageName (str_of_opt (at_piece update 0)) \<notin> set (topLevelDeps rs))"

definition standardized_update :: "pin_remediation \<Rightarrow> pin_remediation" where
  "standardized_update p = p\<lparr>upgradeTo := standardize_at (upgradeTo p)\<rparr>"

definition calculateRelevantFixes ::
    "requirement list \<Rightarrow> dependency_pins \<Rightarrow> fixes_type \<Rightarrow> dependency_pins" where
  "calculateRelevantFixes rs updates ty =
     fold (\<lambda>(update, p) lowerCased.
             if (case ty of TransitivePins \<Rightarrow> is_transitive rs update
                          | DirectUpgrades \<Rightarrow> \<not> is_transitive rs update)
             then obj_set update (standardized_update p) lowerCased else lowerCased)
       updates []"

section \<open>Pins\<close>

definition reference_note :: "string \<Rightarrow> string option \<Rightarrow> string" where
  "reference_note verb ref =
     (if truthy ref then '' ('' @ verb @ '' in '' @ the ref @ '')'' else [])"

definition pin_line :: "string \<Rightarrow> pin_remediation \<Rightarrow> string" where
  "pin_line pkgNameAtVersion p =
     standardizePackageName (str_of_opt (at_piece pkgNameAtVersion 0)) @ ''>='' @
     str_of_opt (at_piece (upgradeTo p) 1) @
     '' # not directly required, pinned by Vulnmap to avoid a vulnerability''"

definition pin_change :: "string option \<Rightarrow> string \<Rightarrow> pin_remediation \<Rightarrow> fix_change" where
  "pin_change ref pkgNameAtVersion p =
     (let pkgName = str_of_opt (at_piece pkgNameAtVersion 0);
          ver = str_of_opt (at_piece pkgNameAtVersion 1);
          newVersion = str_of_opt (at_piece (upgradeTo p) 1) in
      FixChangesSuccess
        (''Pinned '' @ standardizePackageName pkgName @ '' from '' @ ver @ '' to '' @ newVersion @
         reference_note ''pinned'' ref)
        (vulns p) (Some (pkgName @ ''@'' @ ver)) (Some (pkgName @ ''@'' @ newVersion)))"

definition generatePins ::
    "requirement list \<Rightarrow> dependency_pins \<Rightarrow> string option \<Rightarrow> string list \<times> fix_change list" where
  "generatePins rs updates ref =
     (let standardizedPins = calculateRelevantFixes rs updates TransitivePins in
      if standardizedPins = [] then ([], [])
      else (map (\<lambda>(k, p). pin_line k p) standardizedPins,
            map (\<lambda>(k, p). pin_change ref k p) standardizedPins))"

section \<open>Upgrades\<close>

text \<open>The key of the first relevant fix whose standardised form starts with the requirement.\<close>

definition find_upgrade :: "dependency_pins \<Rightarrow> string \<Rightarrow> string \<Rightarrow> string option" where
  "find_upgrade ups name ver =
     js_nth (filter (\<lambda>k. js_startsWith (standardize_at k) (standardizePackageName name @ ''@'' @ ver))
               (obj_keys ups)) 0"

definition upgrade_change :: "string option \<Rightarrow> string \<Rightarrow> string \<Rightarrow> pin_remediation \<Rightarrow> fix_change" where
  "upgrade_change ref oname ver p =
     (let newVersion = str_of_opt (at_piece (upgradeTo p) 1) in
      FixChangesSuccess
        (''Upgraded '' @ oname @ '' from '' @ ver @ '' to '' @ newVersion @ reference_note ''upgraded'' ref)
        (vulns p) (Some (oname @ ''@'' @ ver)) (Some (oname @ ''@'' @ newVersion)))"

text \<open>
  What one requirement contributes: nothing, or its new line and the change. The guard and the
  test \<open>!upgrade\<close> (absent, or the empty key) are the early returns of the callback.
\<close>

definition requirement_upgrade ::
    "dependency_pins \<Rightarrow> string option \<Rightarrow> requirement \<Rightarrow> (string \<times> fix_change) option" where
  "requirement_upgrade ups ref r =
     (case (req_name r, versionComparator r, version r) of
        (Some name, Some cmp, Some ver) \<Rightarrow>
          if originalText r = [] then None
          else
            (let found = find_upgrade ups name ver in
             if \<not> truthy found then None
             else
               (case obj_get ups (the found) of
                  None \<Rightarrow> None
                | Some p \<Rightarrow>
                    Some (str_of_opt (originalName r) @ cmp @ str_of_opt (at_piece (upgradeTo p) 1) @
                            js_or (extras r) [],
                          upgrade_change ref (str_of_opt (originalName r)) ver p)))
      | _ \<Rightarrow> None)"

definition generateUpgrades ::
    "requirement list \<Rightarrow> dependency_pins \<Rightarrow> string option \<Rightarrow> string obj \<times> fix_change list" where
  "generateUpgrades rs updates ref =
     (let normalizedUpgrades = calculateRelevantFixes rs updates DirectUpgrades in
      if normalizedUpgrades = [] then ([], [])
      else
        fold (\<lambda>r (updatedRequirements, changes).
                (case requirement_upgrade normalizedUpgrades ref r of
                   None \<Rightarrow> (updatedRequirements, changes)
                 | Some (new, c) \<Rightarrow>
                     (obj_set (originalText r) new updatedRequirements, changes @ [c])))
          rs ([], []))"

definition applyUpgrades :: "requirement list \<Rightarrow> string obj \<Rightarrow> string list" where
  "applyUpgrades rs upgraded = map (\<lambda>r. js_or (obj_get upgraded (originalText r)) (originalText r)) rs"

section \<open>The whole file\<close>

record updated_file =
  updatedManifest :: string
  file_changes :: "fix_change list"

definition updateDependencies ::
    "parsed_requirements \<Rightarrow> dependency_pins \<Rightarrow> bool \<Rightarrow> string option \<Rightarrow> fix_error + updated_file" where
  "updateDependencies parsed updates directUpgradesOnly ref =
     (let rs = requirements parsed in
      if rs = [] then Inl FailedToParseManifest
      else
        (let (updatedRequirements, upgradedChanges) = generateUpgrades rs updates ref;
             (pinnedRequirements, pinChanges) =
               (if \<not> directUpgradesOnly then generatePins rs updates ref else ([], []));
             manifest = js_join [nl] (applyUpgrades rs updatedRequirements @ pinnedRequirements) in
         Inr \<lparr>updatedManifest = (if endsWithNewLine parsed then manifest @ [nl] else manifest),
              file_changes = pinChanges @ upgradedChanges\<rparr>))"

section \<open>Each update is either an upgrade or a pin\<close>

lemma relevant_gen:
  assumes "distinct (obj_keys updates)" and "set (obj_keys updates) \<inter> set (obj_keys acc) = {}"
  shows "mset (fold (\<lambda>(k, p) ob. if P k then obj_set k (g p) ob else ob) updates acc) =
    mset acc + mset (map (\<lambda>(k, p). (k, g p)) (filter (\<lambda>(k, p). P k) updates))"
  using assms
proof (induction updates arbitrary: acc)
  case Nil
  then show ?case by simp
next
  case (Cons x updates)
  obtain k p where x: "x = (k, p)" by fastforce
  show ?case
  proof (cases "P k")
    case True
    have "set (obj_keys updates) \<inter> set (obj_keys (obj_set k (g p) acc)) = {}"
      using Cons.prems x by (auto simp: ob.keys_put)
    with Cons x True show ?thesis by (simp add: mset_obj_set_new)
  next
    case False
    with Cons x show ?thesis by simp
  qed
qed

definition relevant :: "requirement list \<Rightarrow> fixes_type \<Rightarrow> string \<Rightarrow> bool" where
  "relevant rs ty update =
     (case ty of TransitivePins \<Rightarrow> is_transitive rs update | DirectUpgrades \<Rightarrow> \<not> is_transitive rs update)"

lemma mset_relevant:
  assumes "wf_obj updates"
  shows "mset (calculateRelevantFixes rs updates ty) =
    mset (map (\<lambda>(k, p). (k, standardized_update p)) (filter (\<lambda>(k, p). relevant rs ty k) updates))"
  using relevant_gen [of updates "[]" "relevant rs ty" standardized_update] assms
  by (simp add: calculateRelevantFixes_def relevant_def wf_obj_def)

lemma keys_relevant:
  assumes "wf_obj updates"
  shows "mset (obj_keys (calculateRelevantFixes rs updates ty)) =
    filter_mset (relevant rs ty) (mset (obj_keys updates))"
proof -
  have "mset (obj_keys (calculateRelevantFixes rs updates ty)) =
      image_mset fst (mset (calculateRelevantFixes rs updates ty))"
    by (simp add: obj_keys_def)
  also have "\<dots> = filter_mset (relevant rs ty) (mset (obj_keys updates))"
    unfolding mset_relevant [OF assms]
    by (induction updates) (auto simp: obj_keys_def)
  finally show ?thesis .
qed

lemma relevant_empty: "calculateRelevantFixes rs [] ty = []"
  by (simp add: calculateRelevantFixes_def)

section \<open>Lines\<close>

text \<open>
  The parser gives equal lines equal data, so the object keyed by the text of the lines gives
  every line its own upgrade.
\<close>

lemma extract_renumber: "extractDependencyDataFromLine t n' = (extractDependencyDataFromLine t n)\<lparr>line := n'\<rparr>"
  by (auto simp: extractDependencyDataFromLine_def Let_def bare_requirement_def split: option.splits)

lemma upgrade_renumber: "requirement_upgrade ups ref (r\<lparr>line := n\<rparr>) = requirement_upgrade ups ref r"
  by (cases r) (simp add: requirement_upgrade_def Let_def split: option.splits)

definition line_upgrade :: "dependency_pins \<Rightarrow> string option \<Rightarrow> string \<Rightarrow> (string \<times> fix_change) option" where
  "line_upgrade ups ref t = requirement_upgrade ups ref (extractDependencyDataFromLine t 0)"

lemma upgrade_of_text:
  assumes "r \<in> set (requirements (parseRequirementsFile f))"
  shows "requirement_upgrade ups ref r = line_upgrade ups ref (originalText r)"
proof -
  from assms obtain t n where "r = extractDependencyDataFromLine t n"
    by (auto simp: parseRequirementsFile_def Let_def)
  then show ?thesis
    using extract_renumber [of t n 0] by (simp add: line_upgrade_def upgrade_renumber)
qed

definition upgrade_step ::
    "(requirement \<Rightarrow> (string \<times> fix_change) option) \<Rightarrow> requirement \<Rightarrow>
     string obj \<times> fix_change list \<Rightarrow> string obj \<times> fix_change list" where
  "upgrade_step F r acc =
     (case acc of (updatedRequirements, changes) \<Rightarrow>
        (case F r of
           None \<Rightarrow> (updatedRequirements, changes)
         | Some (new, c) \<Rightarrow> (obj_set (originalText r) new updatedRequirements, changes @ [c])))"

lemma upgrade_step_simps:
  "F r = None \<Longrightarrow> upgrade_step F r acc = acc"
  "F r = Some (new, c) \<Longrightarrow>
   upgrade_step F r acc = (obj_set (originalText r) new (fst acc), snd acc @ [c])"
  by (simp_all add: upgrade_step_def split: prod.splits)

lemma upgrade_fold_changes:
  "snd (fold (upgrade_step F) rs acc) = snd acc @ map snd (List.map_filter F rs)"
  by (induction rs arbitrary: acc)
     (auto simp: upgrade_step_def List.map_filter_simps split: option.splits prod.splits)

lemma upgrade_fold_get:
  assumes "\<And>r. r \<in> set rs \<Longrightarrow> F r = G (originalText r)"
  shows "obj_get (fst (fold (upgrade_step F) rs acc)) t =
    (case (if t \<in> originalText ` set rs then map_option fst (G t) else None) of
       None \<Rightarrow> obj_get (fst acc) t | Some x \<Rightarrow> Some x)"
  using assms
proof (induction rs arbitrary: acc)
  case Nil
  then show ?case by simp
next
  case (Cons r rs)
  have F: "F r = G (originalText r)" by (rule Cons.prems) simp
  have IH: "obj_get (fst (fold (upgrade_step F) rs acc')) t =
    (case (if t \<in> originalText ` set rs then map_option fst (G t) else None) of
       None \<Rightarrow> obj_get (fst acc') t | Some x \<Rightarrow> Some x)" for acc'
    by (rule Cons.IH) (simp add: Cons.prems)
  show ?case
  proof (cases "F r")
    case None
    with F have "G (originalText r) = None" by simp
    with None IH [of acc] show ?thesis
      by (cases "t = originalText r") (simp_all add: upgrade_step_simps split: option.splits)
  next
    case (Some x)
    obtain new c where x: "x = (new, c)" by fastforce
    with Some F have G: "G (originalText r) = Some (new, c)" by simp
    show ?thesis
      using IH [of "(obj_set (originalText r) new (fst acc), snd acc @ [c])"]
      by (cases "t = originalText r")
         (simp_all add: upgrade_step_simps(2) [of F r, OF Some [unfolded x]] G ob.get_put split: option.splits)
  qed
qed

lemma generateUpgrades_fold:
  "generateUpgrades rs updates ref =
     (let n = calculateRelevantFixes rs updates DirectUpgrades in
      if n = [] then ([], []) else fold (upgrade_step (requirement_upgrade n ref)) rs ([], []))"
  by (simp add: generateUpgrades_def upgrade_step_def [abs_def] case_prod_unfold Let_def)

section \<open>The updated file\<close>

lemma js_or_eq: "js_or v d = (case v of None \<Rightarrow> d | Some s \<Rightarrow> if s = [] then d else s)"
  by (cases v) simp_all

text \<open>An upgraded line is never empty: it contains the comparator.\<close>

lemma find_upgrade_key: "find_upgrade ups name ver = Some k \<Longrightarrow> k \<in> set (obj_keys ups)"
  by (cases "filter (\<lambda>k. js_startsWith (standardize_at k) (standardizePackageName name @ ''@'' @ ver))
       (obj_keys ups)") (auto simp: find_upgrade_def dest!: arg_cong [where f = set])

lemma line_upgrade_new_neq_Nil:
  assumes "line_upgrade ups ref t = Some (new, c)"
  shows "new \<noteq> []"
proof -
  let ?r = "extractDependencyDataFromLine t 0"
  from wf_extract [of t 0] have "versionComparator ?r = Some cmp \<Longrightarrow> cmp \<noteq> []" for cmp
    by (auto simp: wf_requirement_def comparators_def dest!: arg_cong [where f = versionComparator])
  with assms show ?thesis
    by (auto simp: line_upgrade_def requirement_upgrade_def Let_def split: option.splits if_splits)
qed

definition updated_line :: "dependency_pins \<Rightarrow> string option \<Rightarrow> string \<Rightarrow> string" where
  "updated_line ups ref t = (case line_upgrade ups ref t of None \<Rightarrow> t | Some (new, c) \<Rightarrow> new)"

lemma line_upgrade_no_fixes: "line_upgrade [] ref t = None"
  by (auto simp: line_upgrade_def requirement_upgrade_def find_upgrade_def Let_def split: option.splits)

lemma applyUpgrades_lines:
  assumes "rs = requirements (parseRequirementsFile f)"
  shows "applyUpgrades rs (fst (generateUpgrades rs updates ref)) =
    map (updated_line (calculateRelevantFixes rs updates DirectUpgrades) ref) (map originalText rs)"
proof (cases "calculateRelevantFixes rs updates DirectUpgrades = []")
  case True
  then show ?thesis
    by (simp add: generateUpgrades_def applyUpgrades_def updated_line_def line_upgrade_no_fixes)
next
  case False
  let ?n = "calculateRelevantFixes rs updates DirectUpgrades"
  have "obj_get (fst (generateUpgrades rs updates ref)) t = map_option fst (line_upgrade ?n ref t)"
    if "t \<in> originalText ` set rs" for t
    using upgrade_fold_get [of rs "requirement_upgrade ?n ref" "line_upgrade ?n ref" "([], [])" t]
      that upgrade_of_text assms False
    by (simp add: generateUpgrades_fold Let_def split: option.splits)
  then show ?thesis
    by (auto simp: applyUpgrades_def js_or_eq updated_line_def split: option.splits
        dest: line_upgrade_new_neq_Nil)
qed

lemma generateUpgrades_changes:
  assumes "rs = requirements (parseRequirementsFile f)"
  shows "snd (generateUpgrades rs updates ref) =
    map snd (List.map_filter (line_upgrade (calculateRelevantFixes rs updates DirectUpgrades) ref)
               (map originalText rs))"
proof -
  let ?n = "calculateRelevantFixes rs updates DirectUpgrades"
  have nof: "List.map_filter (line_upgrade [] ref) ts = []" for ts
    by (induction ts) (simp_all add: List.map_filter_simps line_upgrade_no_fixes)
  have "List.map_filter (requirement_upgrade n ref) xs = List.map_filter (line_upgrade n ref) (map originalText xs)"
    if "set xs \<subseteq> set (requirements (parseRequirementsFile f))" for xs n
    using that by (induction xs) (auto simp: List.map_filter_simps upgrade_of_text split: option.splits)
  from this [of rs ?n]
  have "List.map_filter (requirement_upgrade ?n ref) rs = List.map_filter (line_upgrade ?n ref) (map originalText rs)"
    by (simp add: assms)
  with assms show ?thesis
    by (cases "?n = []")
       (simp_all add: generateUpgrades_fold upgrade_fold_changes nof generateUpgrades_def)
qed

lemma generatePins_lists:
  "generatePins rs updates ref =
     (map (\<lambda>(k, p). pin_line k p) (calculateRelevantFixes rs updates TransitivePins),
      map (\<lambda>(k, p). pin_change ref k p) (calculateRelevantFixes rs updates TransitivePins))"
  by (simp add: generatePins_def Let_def)

text \<open>The lines and the pins of the result, and the changes that go with them.\<close>

definition updated_lines :: "string \<Rightarrow> dependency_pins \<Rightarrow> string option \<Rightarrow> string list" where
  "updated_lines f updates ref =
     (let rs = requirements (parseRequirementsFile f) in
      map (updated_line (calculateRelevantFixes rs updates DirectUpgrades) ref) (map originalText rs))"

definition pinned_lines :: "string \<Rightarrow> dependency_pins \<Rightarrow> string list" where
  "pinned_lines f updates =
     map (\<lambda>(k, p). pin_line k p)
       (calculateRelevantFixes (requirements (parseRequirementsFile f)) updates TransitivePins)"

lemma requirements_neq_Nil: "requirements (parseRequirementsFile f) \<noteq> []"
  by (simp add: parseRequirementsFile_def Let_def enumerate_eq_zip)

lemma updateDependencies_eq:
  "updateDependencies (parseRequirementsFile f) updates d ref =
     (let rs = requirements (parseRequirementsFile f);
          direct = calculateRelevantFixes rs updates DirectUpgrades;
          trans = (if d then [] else calculateRelevantFixes rs updates TransitivePins) in
      Inr \<lparr>updatedManifest = js_join [nl] (updated_lines f updates ref @
                              map (\<lambda>(k, p). pin_line k p) trans) @
                            (if js_endsWith f [nl] then [nl] else []),
           file_changes = map (\<lambda>(k, p). pin_change ref k p) trans @
             map snd (List.map_filter (line_upgrade direct ref) (map originalText rs))\<rparr>)"
proof -
  let ?p = "parseRequirementsFile f"
  have e: "endsWithNewLine ?p = js_endsWith f [nl]"
    by (simp add: parseRequirementsFile_def Let_def)
  obtain o' c' where g: "generateUpgrades (requirements ?p) updates ref = (o', c')" by fastforce
  have "applyUpgrades (requirements ?p) o' = updated_lines f updates ref"
    using applyUpgrades_lines [OF refl, of f updates ref] g by (simp add: updated_lines_def Let_def)
  moreover have "c' = map snd (List.map_filter (line_upgrade
      (calculateRelevantFixes (requirements ?p) updates DirectUpgrades) ref) (map originalText (requirements ?p)))"
    using generateUpgrades_changes [OF refl, of f updates ref] g by simp
  ultimately show ?thesis
    by (simp add: updateDependencies_def Let_def requirements_neq_Nil g generatePins_lists e)
qed

section \<open>Properties\<close>


text \<open>an update that reports no change gives back the text of the file it was given.\<close>

theorem update_no_change_identity:
  assumes "updateDependencies (parseRequirementsFile f) updates d ref = Inr u"
    and "file_changes u = []"
  shows "updatedManifest u = f"
proof -
  let ?rs = "requirements (parseRequirementsFile f)"
  let ?n = "calculateRelevantFixes ?rs updates DirectUpgrades"
  let ?t = "if d then [] else calculateRelevantFixes ?rs updates TransitivePins"
  have u: "u = \<lparr>updatedManifest = js_join [nl] (updated_lines f updates ref @
                              map (\<lambda>(k, p). pin_line k p) ?t) @
                            (if js_endsWith f [nl] then [nl] else []),
           file_changes = map (\<lambda>(k, p). pin_change ref k p) ?t @
             map snd (List.map_filter (line_upgrade ?n ref) (map originalText ?rs))\<rparr>"
    using assms(1) by (simp add: updateDependencies_eq Let_def del: map_map)
  with assms(2) have t: "?t = []" and none: "List.map_filter (line_upgrade ?n ref) (map originalText ?rs) = []"
    by (simp_all split: if_splits)
  have keep: "map (updated_line m ref) ts = ts" if "List.map_filter (line_upgrade m ref) ts = []" for ts m
    using that by (induction ts) (auto simp: List.map_filter_simps updated_line_def split: option.splits)
  have "updatedManifest u = print_requirements (parseRequirementsFile f)"
    using t keep [OF none] by (simp add: u updated_lines_def Let_def print_requirements_def del: map_map)
  then show ?thesis by (simp add: print_parse)
qed

text \<open>Every entry of the remediation is treated exactly once for a file: as an upgrade when its
  package is a requirement of the file, as a pin when it is not.\<close>

theorem updates_partition:
  assumes "wf_obj updates"
  shows "mset (obj_keys (calculateRelevantFixes rs updates DirectUpgrades)) +
         mset (obj_keys (calculateRelevantFixes rs updates TransitivePins)) = mset (obj_keys updates)"
  by (simp add: keys_relevant [OF assms] relevant_def)



definition sample_pin :: "string \<Rightarrow> bool \<Rightarrow> pin_remediation" where
  "sample_pin to tr = \<lparr>upgradeTo = to, vulns = [''V1''], isTransitive = tr\<rparr>"

lemma update_no_change_identity_witness:
  "updatedManifest \<lparr>updatedManifest = ''Foo==1.0.0'' @ [nl], file_changes = []\<rparr> = ''Foo==1.0.0'' @ [nl]"
proof (rule update_no_change_identity)
  show "updateDependencies (parseRequirementsFile (''Foo==1.0.0'' @ [nl]))
     [(''bar@1.0.0'', sample_pin ''bar@2.0.0'' True)] True None =
     Inr \<lparr>updatedManifest = ''Foo==1.0.0'' @ [nl], file_changes = []\<rparr>"
    by code_simp
qed simp

lemma updates_partition_witness:
  "mset (obj_keys (calculateRelevantFixes [extractDependencyDataFromLine ''a==1'' 0]
        [(''A@1'', sample_pin ''A@2'' False), (''b@1'', sample_pin ''b@2'' True)] DirectUpgrades)) +
   mset (obj_keys (calculateRelevantFixes [extractDependencyDataFromLine ''a==1'' 0]
        [(''A@1'', sample_pin ''A@2'' False), (''b@1'', sample_pin ''b@2'' True)] TransitivePins)) =
   mset [''A@1'', ''b@1'']"
  using updates_partition [of "[(''A@1'', sample_pin ''A@2'' False), (''b@1'', sample_pin ''b@2'' True)]"]
  by (simp add: wf_obj_def)


end
