(* ===== verification/JsPath.thy ===== *)
theory JsPath
  imports JsString
begin

text \<open>
  The functions of Node's \<open>path\<close> module the code uses, in their POSIX form (separator
  \<open>/\<close>). The current directory, which \<open>resolve\<close> and \<open>relative\<close> read, is an argument.
\<close>

section \<open>Segments\<close>

definition sep :: char where
  "sep = CHR ''/''"

definition path_abs :: "string \<Rightarrow> bool" where
  "path_abs p = js_startsWith p ''/''"

text \<open>
  \<open>normalizeString\<close>: the segments of a path with \<open>.\<close> dropped and \<open>..\<close> resolved against
  the segment before it. The accumulator holds the segments so far, last first;
  \<open>up\<close> says whether a leading \<open>..\<close> is kept (relative paths) or dropped.
\<close>

fun norm_segs :: "bool \<Rightarrow> string list \<Rightarrow> string list \<Rightarrow> string list" where
  "norm_segs up [] acc = rev acc"
| "norm_segs up (w # ws) acc =
     (if w = '''' \<or> w = ''.'' then norm_segs up ws acc
      else if w = ''..'' then
        (case acc of
           [] \<Rightarrow> norm_segs up ws (if up then [w] else [])
         | v # vs \<Rightarrow> if v = ''..'' then norm_segs up ws (if up then w # acc else acc)
                      else norm_segs up ws vs)
      else norm_segs up ws (w # acc))"

definition normalizeString :: "string \<Rightarrow> bool \<Rightarrow> string" where
  "normalizeString p up = js_join ''/'' (norm_segs up (js_split sep p) [])"

section \<open>The module's functions\<close>

definition path_normalize :: "string \<Rightarrow> string" where
  "path_normalize p =
     (if p = [] then ''.''
      else
        let n = normalizeString p (\<not> path_abs p);
            trailing = js_endsWith p ''/'' in
        if n = [] then
          (if path_abs p then ''/'' else if trailing then ''./'' else ''.'')
        else
          (let m = (if trailing then n @ ''/'' else n) in
           if path_abs p then ''/'' @ m else m))"

definition path_join :: "string list \<Rightarrow> string" where
  "path_join ps =
     (case filter (\<lambda>p. p \<noteq> []) ps of
        [] \<Rightarrow> ''.''
      | qs \<Rightarrow> path_normalize (js_join ''/'' qs))"

fun resolve_from :: "string list \<Rightarrow> string \<Rightarrow> string" where
  "resolve_from [] acc = acc"
| "resolve_from (p # ps) acc =
     (if p = [] then resolve_from ps acc
      else if path_abs p then p @ ''/'' @ acc
      else resolve_from ps (p @ ''/'' @ acc))"

definition path_resolve :: "string \<Rightarrow> string list \<Rightarrow> string" where
  "path_resolve cwd ps =
     (let r = resolve_from (rev ps @ [cwd]) [];
          n = normalizeString r (\<not> path_abs r) in
      if path_abs r then ''/'' @ n else if n = [] then ''.'' else n)"

definition path_segs :: "string \<Rightarrow> string list" where
  "path_segs p = filter (\<lambda>w. w \<noteq> []) (js_split sep p)"

fun common_prefix_len :: "string list \<Rightarrow> string list \<Rightarrow> nat" where
  "common_prefix_len (x # xs) (y # ys) = (if x = y then Suc (common_prefix_len xs ys) else 0)"
| "common_prefix_len _ _ = 0"

definition path_relative :: "string \<Rightarrow> string \<Rightarrow> string \<Rightarrow> string" where
  "path_relative cwd f t =
     (let fs = path_segs (path_resolve cwd [f]);
          ts = path_segs (path_resolve cwd [t]);
          n = common_prefix_len fs ts in
      js_join ''/'' (replicate (length fs - n) ''..'' @ drop n ts))"

text \<open>The path without its root slash and its trailing slashes, and the last segment of it.\<close>

definition path_body :: "string \<Rightarrow> string" where
  "path_body p = rev (dropWhile (\<lambda>c. c = sep) (rev (if path_abs p then tl p else p)))"

definition path_base :: "string \<Rightarrow> string" where
  "path_base p = rev (takeWhile (\<lambda>c. c \<noteq> sep) (rev (path_body p)))"

definition path_dir :: "string \<Rightarrow> string" where
  "path_dir p =
     (let pre = take (length (path_body p) - length (path_base p)) (path_body p);
          root = (if path_abs p then ''/'' else []) in
      if pre = [] then root else root @ butlast pre)"

text \<open>\<open>path.parse\<close>: the fields \<open>dir\<close> and \<open>base\<close> the code reads.\<close>

definition path_parse :: "string \<Rightarrow> string \<times> string" where
  "path_parse p = (path_dir p, path_base p)"

section \<open>Plain names\<close>

text \<open>A plain name is one path segment that is not \<open>.\<close> or \<open>..\<close>: the usual file name.\<close>

definition plain_name :: "string \<Rightarrow> bool" where
  "plain_name f \<longleftrightarrow> f \<noteq> [] \<and> sep \<notin> set f \<and> f \<noteq> ''.'' \<and> f \<noteq> ''..''"

lemma plain_nameD:
  assumes "plain_name f"
  shows "f \<noteq> []" "sep \<notin> set f" "f \<noteq> ''.''" "f \<noteq> ''..''"
  using assms by (auto simp: plain_name_def)

lemma not_path_abs_plain: "sep \<notin> set f \<Longrightarrow> \<not> path_abs f"
  by (cases f) (auto simp: path_abs_def sep_def)

lemma not_endsWith_plain: "sep \<notin> set f \<Longrightarrow> f \<noteq> [] \<Longrightarrow> \<not> js_endsWith f ''/''"
  by (cases f rule: rev_cases) (auto simp: js_endsWith_def sep_def)

lemma path_base_plain [simp]: "sep \<notin> set f \<Longrightarrow> path_base f = f"
proof -
  assume a: "sep \<notin> set f"
  then have "dropWhile (\<lambda>c. c = sep) (rev f) = rev f"
    by (cases "rev f") (auto simp: rev_eq_Cons_iff)
  with a have b: "path_body f = f" by (simp add: path_body_def not_path_abs_plain)
  from a have t: "takeWhile (\<lambda>c. c \<noteq> sep) (rev f) = rev f"
    by (intro takeWhile_eq_all_conv [THEN iffD2] ballI) auto
  show ?thesis unfolding path_base_def b t by simp
qed

lemma path_body_plain: "sep \<notin> set f \<Longrightarrow> path_body f = f"
  by (cases "rev f") (auto simp: path_body_def not_path_abs_plain rev_eq_Cons_iff)

lemma path_dir_plain [simp]: "sep \<notin> set f \<Longrightarrow> path_dir f = []"
  by (simp add: path_dir_def Let_def path_body_plain not_path_abs_plain)

lemma path_parse_plain: "plain_name f \<Longrightarrow> path_parse f = ([], f)"
  by (simp add: path_parse_def plain_name_def)

lemma norm_segs_plain: "plain_name f \<Longrightarrow> norm_segs up [f] acc = rev (f # acc)"
  by (auto simp: plain_name_def)

lemma normalizeString_plain: "plain_name f \<Longrightarrow> normalizeString f up = f"
  using plain_nameD [of f]
  by (simp add: normalizeString_def js_split_no_sep norm_segs_plain del: norm_segs.simps(2))

lemma path_normalize_plain [simp]: "plain_name f \<Longrightarrow> path_normalize f = f"
  using plain_nameD [of f]
  by (simp add: path_normalize_def normalizeString_plain not_path_abs_plain not_endsWith_plain Let_def)

lemma path_join_plain [simp]: "plain_name f \<Longrightarrow> path_join [[], f] = f"
  using plain_nameD [of f] by (simp add: path_join_def)

end
