(* ===== verification/Workspace.thy ===== *)
theory Workspace
  imports FixTypes JsPath
begin

text \<open>
  The state the fix library changes: the files on disk. A workspace reads and writes the file
  at \<open>path.resolve(root, path)\<close> (\<open>src/cli/commands/fix/convert-legacy-tests-results-to-fix-entities.ts\<close>).
  Reading an absent file and writing a path that cannot be written throw, as \<open>fs\<close> does.
\<close>

record world =
  cwd :: string
  files :: "string \<Rightarrow> string option"
  writable :: "string \<Rightarrow> bool"

type_synonym 'a io = "(fix_error, world, 'a) eff"

definition ws_file :: "string \<Rightarrow> workspace \<Rightarrow> string \<Rightarrow> string" where
  "ws_file wd ws p = path_resolve wd [ws_path ws, p]"

definition readFile :: "workspace \<Rightarrow> string \<Rightarrow> string io" where
  "readFile ws p = (\<lambda>w.
     (case files w (ws_file (cwd w) ws p) of
        Some t \<Rightarrow> Inr t
      | None \<Rightarrow> Inl (OtherError (''ENOENT: no such file or directory, open '' @ [CHR 0x27] @
                  ws_file (cwd w) ws p @ [CHR 0x27])), w))"

definition writeFile :: "workspace \<Rightarrow> string \<Rightarrow> string \<Rightarrow> unit io" where
  "writeFile ws p t = (\<lambda>w.
     if writable w (ws_file (cwd w) ws p)
     then (Inr (), w\<lparr>files := (files w)(ws_file (cwd w) ws p \<mapsto> t)\<rparr>)
     else (Inl (OtherError (''EACCES: permission denied, open '' @ [CHR 0x27] @
                  ws_file (cwd w) ws p @ [CHR 0x27])), w))"

section \<open>The store interface\<close>

text \<open>
  What the handlers rely on: a read does not change the state, and a write that returns is
  seen by the reads of that path and by no other.
\<close>

locale store =
  fixes loc :: "'s \<Rightarrow> 'p \<Rightarrow> 'k"
    and get :: "'p \<Rightarrow> 's \<Rightarrow> ('e + 'c) \<times> 's"
    and put :: "'p \<Rightarrow> 'c \<Rightarrow> 's \<Rightarrow> ('e + unit) \<times> 's"
  assumes get_quiet: "snd (get p s) = s"
    and put_get: "put p c s = (Inr (), s') \<Longrightarrow> loc s q = loc s p \<Longrightarrow> fst (get q s') = Inr c"
    and put_other: "put p c s = (Inr (), s') \<Longrightarrow> loc s q \<noteq> loc s p \<Longrightarrow> fst (get q s') = fst (get q s)"
    and put_fail: "put p c s = (Inl e, s') \<Longrightarrow> s' = s"
    and put_loc: "loc (snd (put p c s)) = loc s"
begin

lemma quiet_get: "quiet (get p)"
  by (simp add: quiet_def get_quiet)

lemma get_stable: "get p s = (r, s') \<Longrightarrow> s' = s"
  using get_quiet [of p s] by simp

lemma put_put:
  assumes "put p c s = (Inr (), s')" and "put q d s' = (Inr (), s'')" and "loc s q \<noteq> loc s p"
  shows "fst (get p s'') = Inr c"
proof -
  have "loc s' = loc s" using put_loc [of p c s] assms(1) by simp
  then have "fst (get p s'') = fst (get p s')"
    using put_other [OF assms(2), of p] assms(3) by metis
  with put_get [OF assms(1), of p] show ?thesis by simp
qed

lemma put_read_back: "put p c s = (Inr (), s') \<Longrightarrow> get p s' = (Inr c, s')"
  using put_get [of p c s s' p] get_quiet [of p s'] by (simp add: prod_eq_iff)

end

interpretation wsp: store "\<lambda>w (ws, p). ws_file (cwd w) ws p" "\<lambda>(ws, p). readFile ws p"
    "\<lambda>(ws, p). writeFile ws p"
  by unfold_locales
     (auto simp: readFile_def writeFile_def split: option.splits if_splits)

lemma quiet_readFile: "quiet (readFile ws p)"
  using wsp.quiet_get [of "(ws, p)"] by simp

lemma readFile_state: "snd (readFile ws p w) = w"
  using quiet_readFile by (simp add: quiet_def)

lemma keeps_readFile [frame_intros]: "keeps P (readFile ws p)"
  by (rule keeps_quiet [OF quiet_readFile])

lemma keeps_writeFile:
  "(\<And>w k t. P w \<Longrightarrow> P (w\<lparr>files := (files w)(k \<mapsto> t)\<rparr>)) \<Longrightarrow> keeps P (writeFile ws p t)"
  by (simp add: keeps_def writeFile_def)

lemma readFile_Inr_iff:
  "readFile ws p w = (Inr t, w') \<longleftrightarrow> w' = w \<and> files w (ws_file (cwd w) ws p) = Some t"
  by (auto simp: readFile_def split: option.splits)

lemma writeFile_Inr_iff:
  "writeFile ws p t w = (Inr u, w') \<longleftrightarrow>
     writable w (ws_file (cwd w) ws p) \<and> w' = w\<lparr>files := (files w)(ws_file (cwd w) ws p \<mapsto> t)\<rparr>"
  by (auto simp: writeFile_def)

end
