(* ===== verification/Provenance.thy ===== *)
theory Provenance
  imports UpdateRequirements Workspace
begin

text \<open>
  Which files a requirements file draws in:
  \<open>contains-require-directive.ts\<close> and \<open>extract-version-provenance.ts\<close> under
  \<open>packages/vulnmap-fix/src/plugins/python/handlers/pip-requirements\<close>.
\<close>

section \<open>Require directives\<close>

text \<open>\<open>/^[^\S\n]*-(r|c)\s+(.+)/gm\<close>\<close>

definition REQUIRE_PATTERN :: re where
  "REQUIRE_PATTERN =
     RSeqs [RBeg, RStar (RCls (\<lambda>c. js_ws c \<and> c \<noteq> nl)), RChr (CHR ''-''),
            RGrp 1 (RAlt (RChr (CHR ''r'')) (RChr (CHR ''c''))),
            RPlus (RCls js_ws), RGrp 2 (RPlus RDot)]"

text \<open>
  The search loop. A match is not empty, so one round per code unit and one more are enough
  (lemma \<open>getAllMatchedGroups_total\<close>).
\<close>

definition getAllMatchedGroups :: "re \<Rightarrow> string \<Rightarrow> re_result list option" where
  "getAllMatchedGroups r s = exec_loop (Suc (length s)) True r [] s"

definition containsRequireDirective :: "string \<Rightarrow> bool \<times> re_result list" where
  "containsRequireDirective requirementsTxt =
     (let allMatches = (case getAllMatchedGroups REQUIRE_PATTERN requirementsTxt of None \<Rightarrow> [] | Some ms \<Rightarrow> ms) in
      (allMatches \<noteq> [], allMatches))"

text \<open>\<open>match[2]\<close> of each match: the paths a file requires, in the order of its lines.\<close>

definition required_paths :: "string \<Rightarrow> string list" where
  "required_paths t = map (\<lambda>m. str_of_opt (re_group m 2)) (snd (containsRequireDirective t))"

section \<open>Provenance\<close>

type_synonym provenance = "parsed_requirements obj"

primrec foldO :: "('a \<Rightarrow> 'b \<Rightarrow> ('e + 'b) option) \<Rightarrow> 'a list \<Rightarrow> 'b \<Rightarrow> ('e + 'b) option" where
  "foldO f [] acc = Some (Inr acc)"
| "foldO f (x # xs) acc =
     (case f x acc of None \<Rightarrow> None | Some (Inl e) \<Rightarrow> Some (Inl e) | Some (Inr a) \<Rightarrow> foldO f xs a)"

text \<open>
  The recursion over the required files. The code has no bound on its depth, so the model has
  fuel: \<open>None\<close> for every fuel is a run that does not end. Reads leave the world as it is.
\<close>

primrec extractProvenance ::
    "nat \<Rightarrow> workspace \<Rightarrow> world \<Rightarrow> string \<Rightarrow> string \<Rightarrow> string \<Rightarrow> provenance \<Rightarrow>
     (fix_error + provenance) option" where
  "extractProvenance 0 ws w rootDir dir fileName prov = None"
| "extractProvenance (Suc n) ws w rootDir dir fileName prov =
     (let requirementsFileName = path_join [dir, fileName] in
      case fst (readFile ws requirementsFileName w) of
        Inl e \<Rightarrow> Some (Inl e)
      | Inr requirementsTxt \<Rightarrow>
          (let relativeTargetFileName =
                 js_replace_first [sep] ''/''
                   (path_normalize (path_relative (cwd w) rootDir requirementsFileName));
               prov1 = obj_set relativeTargetFileName (parseRequirementsFile requirementsTxt) prov;
               (containsRequire, matches) = containsRequireDirective requirementsTxt in
           if containsRequire then
             foldO (\<lambda>match p.
                 let requiredFilePath = str_of_opt (re_group match 2) in
                 if obj_get p requiredFilePath \<noteq> None then Some (Inr p)
                 else
                   (let (requireDir, base) = path_parse (path_join [dir, requiredFilePath]) in
                    case extractProvenance n ws w rootDir requireDir base p of
                      None \<Rightarrow> None
                    | Some (Inl e) \<Rightarrow> Some (Inl e)
                    | Some (Inr q) \<Rightarrow> Some (Inr (obj_merge p q))))
               matches prov1
           else Some (Inr prov1)))"

section \<open>The search loop ends\<close>

lemma exec_loop_total:
  assumes "\<And>b a m. exec_from ml r b a = Some m \<Longrightarrow> re_text m \<noteq> []"
  shows "length a < n \<Longrightarrow> \<exists>ms. exec_loop n ml r b a = Some ms"
proof (induction n arbitrary: a b)
  case 0
  then show ?case by simp
next
  case (Suc n)
  show ?case
  proof (cases "exec_from ml r b a")
    case None
    then show ?thesis by simp
  next
    case (Some m)
    from exec_from_Some [OF Some] obtain u where "a = u @ re_text m @ re_after m" by blast
    with assms [OF Some] have "length (re_after m) < length a" by (cases "re_text m") auto
    with Suc.prems have "length (re_after m) < n" by simp
    from Suc.IH [OF this] Some show ?thesis by fastforce
  qed
qed

lemma rden_RChr: "rden ml (RChr c) (b, a, cs) t \<Longrightarrow> \<exists>a'. a = c # a' \<and> t = (c # b, a', cs)"
  by (auto simp: RChr_def elim: den_clsE)

lemma require_match_text:
  assumes "exec_from True REQUIRE_PATTERN b a = Some m"
  shows "re_text m \<noteq> []"
proof
  assume empty: "re_text m = []"
  from exec_from_Some [OF assms] obtain u w where
    d: "rden True REQUIRE_PATTERN (rev u @ b, re_after m, []) (w, re_after m, re_caps m)"
    using empty by auto
  then obtain s1 s2 s3 where
    h: "rden True RBeg (rev u @ b, re_after m, []) s1"
    "rden True (RStar (RCls (\<lambda>c. js_ws c \<and> c \<noteq> nl))) s1 s2"
    "rden True (RChr (CHR ''-'')) s2 s3"
    "rden True (RSeqs [RGrp 1 (RAlt (RChr (CHR ''r'')) (RChr (CHR ''c''))),
            RPlus (RCls js_ws), RGrp 2 (RPlus RDot)]) s3 (w, re_after m, re_caps m)"
    unfolding REQUIRE_PATTERN_def RSeqs.simps(2) by (blast elim: den_seqE)
  obtain b2 a2 c2 where s2: "s2 = (b2, a2, c2)" by (cases s2) auto
  from h(3) s2 rden_RChr have "length (fst (snd s3)) < length a2" by fastforce
  moreover have "length a2 \<le> length (re_after m)"
    using rden_consumes [OF h(1)] rden_consumes [OF h(2)] s2 by auto
  moreover have "length (re_after m) \<le> length (fst (snd s3))"
    using rden_consumes [OF h(4)] by auto
  ultimately show False by simp
qed

lemma getAllMatchedGroups_total: "\<exists>ms. getAllMatchedGroups REQUIRE_PATTERN s = Some ms"
  unfolding getAllMatchedGroups_def
  by (rule exec_loop_total [OF require_match_text]) simp_all

section \<open>Plain workspaces\<close>

text \<open>
  The usual layout: the files lie in the directory they are named from, and require each other
  by plain names. There the key of a file is its name.
\<close>

lemma norm_segs_append: "norm_segs up (xs @ ys) acc = norm_segs up ys (rev (norm_segs up xs acc))"
  by (induction up xs acc rule: norm_segs.induct) (auto split: list.splits)

lemma set_norm_segs: "set (norm_segs up ws acc) \<subseteq> {w \<in> set ws. w \<noteq> ''''} \<union> set acc"
  by (induction up ws acc rule: norm_segs.induct) (auto split: list.splits if_splits)

lemma js_split_join_path:
  assumes "\<forall>w\<in>set ws. w \<noteq> [] \<and> sep \<notin> set w"
  shows "path_segs (''/'' @ js_join ''/'' ws) = ws"
proof (cases "ws = []")
  case True
  then show ?thesis by (simp add: path_segs_def sep_def)
next
  case False
  have "js_split sep (js_join [sep] ws) = ws"
    by (rule js_split_join) (use False assms in auto)
  then show ?thesis
    using assms by (simp add: path_segs_def sep_def filter_id_conv)
qed

lemma resolve_segs:
  assumes "path_abs wd"
  shows "path_segs (path_resolve wd [f]) =
    (if f = [] then norm_segs False (js_split sep wd) []
     else if path_abs f then norm_segs False (js_split sep f) []
     else norm_segs False (js_split sep wd @ js_split sep f) [])"
proof -
  have parts: "\<forall>v\<in>set (norm_segs False (js_split sep p) []). v \<noteq> [] \<and> sep \<notin> set v" for p
    by (auto dest!: subsetD [OF set_norm_segs] dest: js_split_parts)
  have slash: "norm_segs False (js_split sep (p @ ''/'')) [] = norm_segs False (js_split sep p) []" for p
    using js_split_at [of sep p "[]"] norm_segs_append [of False "js_split sep p" "['''']" "[]"]
    by (simp add: sep_def)
  have abs: "path_abs (p @ q)" if "path_abs p" for p q
    using that by (cases p) (simp_all add: path_abs_def)
  have wd: "wd \<noteq> []" using assms by (auto simp: path_abs_def)
  have seg: "path_segs (''/'' @ normalizeString p False) = norm_segs False (js_split sep p) []" for p
    unfolding normalizeString_def by (rule js_split_join_path [OF parts])
  have cat: "norm_segs False (js_split sep (wd @ ''/'' @ f @ ''/'')) [] =
      norm_segs False (js_split sep wd @ js_split sep f) []"
    using slash [of "wd @ ''/'' @ f"] js_split_at [of sep wd f] by (simp add: sep_def)
  show ?thesis
    using assms wd abs seg slash cat
    by (simp add: path_resolve_def Let_def)
qed

lemma path_relative_plain:
  assumes "path_abs wd" and "plain_name f"
  shows "path_relative wd [] f = f"
proof -
  let ?n = "norm_segs False (js_split sep wd) []"
  have nf: "\<not> path_abs f" "f \<noteq> []" "js_split sep f = [f]"
    using plain_nameD [OF assms(2)] by (simp_all add: not_path_abs_plain js_split_no_sep)
  have f: "path_segs (path_resolve wd [f]) = ?n @ [f]"
    using nf norm_segs_plain [OF assms(2), of False "rev ?n"]
    by (simp add: resolve_segs [OF assms(1)] norm_segs_append del: norm_segs.simps(2))
  have r: "path_segs (path_resolve wd [[]]) = ?n"
    by (simp add: resolve_segs [OF assms(1)])
  have "common_prefix_len xs (xs @ ys) = length xs" for xs ys
    by (induction xs) simp_all
  then show ?thesis by (simp add: path_relative_def f r)
qed

lemma plain_key:
  assumes "path_abs wd" and "plain_name f"
  shows "js_replace_first [sep] ''/'' (path_normalize (path_relative wd [] f)) = f"
  using assms js_replace_first_same [of "''/''" f]
  by (simp add: path_relative_plain sep_def)

definition plain_workspace :: "string list \<Rightarrow> workspace \<Rightarrow> world \<Rightarrow> bool" where
  "plain_workspace F ws w =
     (path_abs (cwd w) \<and>
      list_all (\<lambda>f. plain_name f \<and>
        (case files w (ws_file (cwd w) ws f) of
           None \<Rightarrow> False
         | Some t \<Rightarrow> list_all (\<lambda>r. r \<in> set F) (required_paths t))) F)"

lemma plain_workspaceD:
  assumes "plain_workspace F ws w"
  shows "path_abs (cwd w)"
    and "f \<in> set F \<Longrightarrow> plain_name f"
    and "f \<in> set F \<Longrightarrow> \<exists>t. files w (ws_file (cwd w) ws f) = Some t \<and> set (required_paths t) \<subseteq> set F"
  using assms by (fastforce simp: plain_workspace_def list_all_iff split: option.splits)+

lemma get_merge: "wf_obj b \<Longrightarrow> obj_get (obj_merge a b) k = (case obj_get b k of None \<Rightarrow> obj_get a k | Some v \<Rightarrow> Some v)"
proof (induction b arbitrary: a)
  case Nil
  then show ?case by simp
next
  case (Cons x b)
  obtain k' v where x: "x = (k', v)" by fastforce
  from Cons.prems x have "wf_obj b" "obj_get b k' = None"
    by (auto simp: wf_obj_def ob.get_None_iff)
  with Cons.IH [of "obj_set k' v a"] x show ?case
    by (auto simp: obj_merge_Cons ob.get_put split: option.splits)
qed

text \<open>
  The invariants of the traversal: every entry is the parsed text of its file, and the files
  added by a call have all their requirements in the result.
\<close>

definition prov_ok :: "string list \<Rightarrow> workspace \<Rightarrow> world \<Rightarrow> provenance \<Rightarrow> bool" where
  "prov_ok F ws w p \<longleftrightarrow> wf_obj p \<and> (\<forall>k\<in>set (obj_keys p). k \<in> set F \<and>
     obj_get p k = map_option parseRequirementsFile (files w (ws_file (cwd w) ws k)))"

definition prov_closed :: "workspace \<Rightarrow> world \<Rightarrow> provenance \<Rightarrow> provenance \<Rightarrow> bool" where
  "prov_closed ws w p q \<longleftrightarrow> set (obj_keys p) \<subseteq> set (obj_keys q) \<and>
     (\<forall>k\<in>set (obj_keys q) - set (obj_keys p). \<forall>t. files w (ws_file (cwd w) ws k) = Some t \<longrightarrow>
        set (required_paths t) \<subseteq> set (obj_keys q))"

lemma prov_closed_trans: "prov_closed ws w p q \<Longrightarrow> prov_closed ws w q r \<Longrightarrow> prov_closed ws w p r"
  unfolding prov_closed_def by blast

lemma prov_closed_refl: "prov_closed ws w p p"
  by (simp add: prov_closed_def)

lemma prov_ok_set:
  assumes "prov_ok F ws w p" "f \<in> set F" "files w (ws_file (cwd w) ws f) = Some t"
  shows "prov_ok F ws w (obj_set f (parseRequirementsFile t) p)"
  using assms by (auto simp: prov_ok_def ob.ok_put ob.keys_put ob.get_put)

lemma prov_ok_merge:
  assumes "prov_ok F ws w a" "prov_ok F ws w q" "set (obj_keys a) \<subseteq> set (obj_keys q)"
  shows "prov_ok F ws w (obj_merge a q)" "set (obj_keys (obj_merge a q)) = set (obj_keys q)"
proof -
  show k: "set (obj_keys (obj_merge a q)) = set (obj_keys q)"
    using assms(3) by (auto simp: obj_keys_merge)
  have "obj_get (obj_merge a q) x = obj_get q x" if "x \<in> set (obj_keys q)" for x
    using assms(2) obj_key_get [OF that] by (auto simp: prov_ok_def get_merge)
  with assms(1,2) k show "prov_ok F ws w (obj_merge a q)"
    by (simp add: prov_ok_def wf_obj_merge)
qed

definition require_step ::
    "(string \<Rightarrow> string \<Rightarrow> provenance \<Rightarrow> (fix_error + provenance) option) \<Rightarrow> string \<Rightarrow>
     re_result \<Rightarrow> provenance \<Rightarrow> (fix_error + provenance) option" where
  "require_step rec dir match p =
     (let requiredFilePath = str_of_opt (re_group match 2) in
      if obj_get p requiredFilePath \<noteq> None then Some (Inr p)
      else
        (let (requireDir, base) = path_parse (path_join [dir, requiredFilePath]) in
         case rec requireDir base p of
           None \<Rightarrow> None
         | Some (Inl e) \<Rightarrow> Some (Inl e)
         | Some (Inr q) \<Rightarrow> Some (Inr (obj_merge p q))))"

lemma extractProvenance_Suc:
  assumes "path_abs (cwd w)" "plain_name f" "files w (ws_file (cwd w) ws f) = Some t"
  shows "extractProvenance (Suc n) ws w [] [] f p =
    foldO (require_step (extractProvenance n ws w []) []) (snd (containsRequireDirective t))
      (obj_set f (parseRequirementsFile t) p)"
proof -
  have "fst (containsRequireDirective t) = (snd (containsRequireDirective t) \<noteq> [])"
    by (simp add: containsRequireDirective_def Let_def)
  then show ?thesis
    using assms
    by (cases "containsRequireDirective t")
       (auto simp: readFile_def plain_key require_step_def [abs_def] Let_def)
qed

lemma require_steps:
  assumes F: "plain_workspace F ws w"
    and rec: "\<And>r a. r \<in> set F \<Longrightarrow> r \<notin> set (obj_keys a) \<Longrightarrow> prov_ok F ws w a \<Longrightarrow>
      set (obj_keys p) \<subseteq> set (obj_keys a) \<Longrightarrow>
      \<exists>q. rec [] r a = Some (Inr q) \<and> prov_ok F ws w q \<and> prov_closed ws w a q \<and> r \<in> set (obj_keys q)"
  shows "(\<forall>m\<in>set ms. str_of_opt (re_group m 2) \<in> set F) \<Longrightarrow> prov_ok F ws w a \<Longrightarrow>
    set (obj_keys p) \<subseteq> set (obj_keys a) \<Longrightarrow>
    \<exists>q. foldO (require_step rec []) ms a = Some (Inr q) \<and> prov_ok F ws w q \<and> prov_closed ws w a q \<and>
      (\<forall>m\<in>set ms. str_of_opt (re_group m 2) \<in> set (obj_keys q))"
proof (induction ms arbitrary: a)
  case Nil
  then show ?case by (simp add: prov_closed_refl)
next
  case (Cons m ms)
  let ?r = "str_of_opt (re_group m 2)"
  have r: "?r \<in> set F" "plain_name ?r" using Cons.prems(1) plain_workspaceD(2) [OF F] by auto
  obtain b where b: "require_step rec [] m a = Some (Inr b)" "prov_ok F ws w b" "prov_closed ws w a b"
    "?r \<in> set (obj_keys b)"
  proof (cases "obj_get a ?r")
    case None
    then have new: "?r \<notin> set (obj_keys a)" by (simp add: ob.get_None_iff)
    from rec [OF r(1) new Cons.prems(2,3)] obtain q where q: "rec [] ?r a = Some (Inr q)"
      "prov_ok F ws w q" "prov_closed ws w a q" "?r \<in> set (obj_keys q)" by blast
    have sub: "set (obj_keys a) \<subseteq> set (obj_keys q)" using q(3) by (simp add: prov_closed_def)
    note mg = prov_ok_merge [OF Cons.prems(2) q(2) sub]
    have "require_step rec [] m a = Some (Inr (obj_merge a q))"
      using None q(1) path_parse_plain [OF r(2)] path_join_plain [OF r(2)]
      by (simp add: require_step_def)
    with mg q that show ?thesis by (simp add: prov_closed_def)
  next
    case (Some v)
    then have "?r \<in> set (obj_keys a)" using ob.get_None_iff [of a ?r] by auto
    with Some Cons.prems(2) that show ?thesis by (simp add: require_step_def prov_closed_refl)
  qed
  have "set (obj_keys p) \<subseteq> set (obj_keys b)" using b(3) Cons.prems(3) by (auto simp: prov_closed_def)
  with Cons.IH [of b] Cons.prems(1) b(2) obtain q where
    "foldO (require_step rec []) ms b = Some (Inr q)" "prov_ok F ws w q" "prov_closed ws w b q"
    "\<forall>m\<in>set ms. str_of_opt (re_group m 2) \<in> set (obj_keys q)" by auto
  moreover from this(3) b(4) have "?r \<in> set (obj_keys q)" by (auto simp: prov_closed_def)
  ultimately show ?case
    using b(1) prov_closed_trans [OF b(3)] by auto
qed

lemma extractProvenance_plain:
  assumes F: "plain_workspace F ws w"
  shows "f \<in> set F \<Longrightarrow> f \<notin> set (obj_keys p) \<Longrightarrow> prov_ok F ws w p \<Longrightarrow>
    card (set F - set (obj_keys p)) \<le> n \<Longrightarrow>
    \<exists>q. extractProvenance n ws w [] [] f p = Some (Inr q) \<and> prov_ok F ws w q \<and>
      prov_closed ws w p q \<and> f \<in> set (obj_keys q)"
proof (induction n arbitrary: f p)
  case 0
  then have "set F - set (obj_keys p) = {}" by simp
  with "0.prems"(1,2) show ?case by blast
next
  case (Suc n)
  from plain_workspaceD(3) [OF F Suc.prems(1)] obtain t where
    t: "files w (ws_file (cwd w) ws f) = Some t" "set (required_paths t) \<subseteq> set F" by blast
  let ?p1 = "obj_set f (parseRequirementsFile t) p"
  have k1: "set (obj_keys ?p1) = insert f (set (obj_keys p))" by (simp add: ob.keys_put)
  have ok1: "prov_ok F ws w ?p1" by (rule prov_ok_set [OF Suc.prems(3,1) t(1)])
  have rec: "\<exists>q. extractProvenance n ws w [] [] r a = Some (Inr q) \<and> prov_ok F ws w q \<and>
      prov_closed ws w a q \<and> r \<in> set (obj_keys q)"
    if "r \<in> set F" "r \<notin> set (obj_keys a)" "prov_ok F ws w a" "set (obj_keys ?p1) \<subseteq> set (obj_keys a)" for r a
  proof (rule Suc.IH [OF that(1,2,3)])
    have "set F - set (obj_keys a) \<subset> set F - set (obj_keys p)"
      using that(4) k1 Suc.prems(1,2) by auto
    then have "card (set F - set (obj_keys a)) < card (set F - set (obj_keys p))"
      by (intro psubset_card_mono) auto
    with Suc.prems(4) show "card (set F - set (obj_keys a)) \<le> n" by simp
  qed
  have ms: "\<forall>m\<in>set (snd (containsRequireDirective t)). str_of_opt (re_group m 2) \<in> set F"
    using t(2) by (auto simp: required_paths_def)
  from require_steps [where rec = "extractProvenance n ws w []" and p = ?p1 and a = ?p1, OF F rec ms ok1] obtain q where
    q: "foldO (require_step (extractProvenance n ws w []) []) (snd (containsRequireDirective t)) ?p1 = Some (Inr q)"
    "prov_ok F ws w q" "prov_closed ws w ?p1 q" "set (required_paths t) \<subseteq> set (obj_keys q)"
    by (auto simp: required_paths_def)
  have "set (obj_keys ?p1) \<subseteq> set (obj_keys q)" using q(3) by (simp add: prov_closed_def)
  with k1 have sub: "f \<in> set (obj_keys q)" "set (obj_keys p) \<subseteq> set (obj_keys q)" by auto
  have "set (required_paths u) \<subseteq> set (obj_keys q)"
    if "k \<in> set (obj_keys q) - set (obj_keys p)" "files w (ws_file (cwd w) ws k) = Some u" for k u
    using that q(3,4) t(1) unfolding prov_closed_def k1 by (cases "k = f") (simp, blast)
  with sub(2) have "prov_closed ws w p q" by (simp add: prov_closed_def)
  with sub(1) q(1,2) extractProvenance_Suc [OF plain_workspaceD(1) [OF F] plain_workspaceD(2) [OF F Suc.prems(1)] t(1)]
  show ?case by auto
qed

section \<open>Properties\<close>

text \<open>C4: in a plain workspace the collection of the provenance ends, with as much fuel as there are
  files, and is complete: the entry file is in it, every entry is the parsed text of its file,
  and every file an entry requires, directly or through others, is an entry too.\<close>

theorem provenance_complete:
  assumes "plain_workspace F ws w" and "f \<in> set F"
  shows "\<exists>q. extractProvenance (length F) ws w [] [] f [] = Some (Inr q) \<and> f \<in> set (obj_keys q) \<and>
    (\<forall>k\<in>set (obj_keys q). \<exists>t. files w (ws_file (cwd w) ws k) = Some t \<and>
       obj_get q k = Some (parseRequirementsFile t) \<and> set (required_paths t) \<subseteq> set (obj_keys q))"
proof -
  have "prov_ok F ws w []" by (simp add: prov_ok_def)
  from extractProvenance_plain [OF assms _ this, of "length F"] obtain q where
    q: "extractProvenance (length F) ws w [] [] f [] = Some (Inr q)" "prov_ok F ws w q"
    "prov_closed ws w [] q" "f \<in> set (obj_keys q)" by (auto simp: card_length)
  have "\<exists>t. files w (ws_file (cwd w) ws k) = Some t \<and>
       obj_get q k = Some (parseRequirementsFile t) \<and> set (required_paths t) \<subseteq> set (obj_keys q)"
    if "k \<in> set (obj_keys q)" for k
  proof -
    from that q(2) have "k \<in> set F"
      "obj_get q k = map_option parseRequirementsFile (files w (ws_file (cwd w) ws k))"
      by (auto simp: prov_ok_def)
    with plain_workspaceD(3) [OF assms(1), of k] q(3) that show ?thesis
      by (auto simp: prov_closed_def)
  qed
  with q(1,4) show ?thesis by blast
qed

definition sample_world :: world where
  "sample_world = \<lparr>cwd = ''/w'',
     files = [''/w/app/requirements.txt'' \<mapsto> ''-r base.txt'' @ [nl] @ ''foo==1.0.0'' @ [nl] @ ''bar==2.0.0'' @ [nl],
              ''/w/app/base.txt'' \<mapsto> ''baz==1.1.1'' @ [nl] @ '' -c requirements.txt''],
     writable = (\<lambda>_. True)\<rparr>"

definition sample_ws :: workspace where
  "sample_ws = \<lparr>ws_path = ''app''\<rparr>"

lemma sample_plain: "plain_workspace [''requirements.txt'', ''base.txt''] sample_ws sample_world"
  by code_simp

lemma provenance_complete_witness:
  "\<exists>q. extractProvenance (length [''requirements.txt'', ''base.txt'']) sample_ws sample_world [] []
         ''requirements.txt'' [] = Some (Inr q) \<and> ''requirements.txt'' \<in> set (obj_keys q)"
  using provenance_complete [OF sample_plain list.set_intros(1)] by blast

text \<open>the test for a recursive directive compares the path as it is written with the keys, so a
  file that requires itself as \<open>./r.txt\<close> is read again for ever: no fuel is enough.\<close>

theorem provenance_diverges:
  assumes "path_abs (cwd w)" and "files w (ws_file (cwd w) ws ''r.txt'') = Some ''-r ./r.txt''"
  shows "extractProvenance n ws w [] [] ''r.txt'' [] = None"
proof -
  have "required_paths ''-r ./r.txt'' = [''./r.txt'']" by code_simp
  then obtain m where m: "snd (containsRequireDirective ''-r ./r.txt'') = [m]"
    "str_of_opt (re_group m 2) = ''./r.txt''" by (auto simp: required_paths_def)
  have pl: "plain_name ''r.txt''" by code_simp
  have pp: "path_parse (path_join [[], ''./r.txt'']) = ([], ''r.txt'')" by code_simp
  have "set (obj_keys p) \<subseteq> {''r.txt''} \<Longrightarrow> extractProvenance n ws w [] [] ''r.txt'' p = None" for p
  proof (induction n arbitrary: p)
    case 0
    then show ?case by simp
  next
    case (Suc n)
    let ?p1 = "obj_set ''r.txt'' (parseRequirementsFile ''-r ./r.txt'') p"
    have k: "set (obj_keys ?p1) \<subseteq> {''r.txt''}" using Suc.prems by (auto simp: ob.keys_put)
    have "''./r.txt'' \<noteq> ''r.txt''" by simp
    with k have "''./r.txt'' \<notin> set (obj_keys ?p1)" by blast
    then have "obj_get ?p1 ''./r.txt'' = None" by (rule ob.get_None_iff [THEN iffD2])
    with Suc.IH [OF k] show ?case
      unfolding extractProvenance_Suc [OF assms(1) pl assms(2)] m(1)
      by (simp add: require_step_def m(2) pp)
  qed
  then show ?thesis by simp
qed

lemma provenance_diverges_witness:
  "extractProvenance 1000 \<lparr>ws_path = ''.''\<rparr>
     \<lparr>cwd = ''/w'', files = [''/w/r.txt'' \<mapsto> ''-r ./r.txt''], writable = (\<lambda>_. True)\<rparr> [] [] ''r.txt'' [] = None"
  by (rule provenance_diverges) code_simp+

end
