(* ===== verification/Tools.thy ===== *)
theory Tools
  imports Workspace
begin

text \<open>
  The code the fix library calls and does not contain: lodash, the packages that run pipenv and
  poetry, the TOML parser. They are parameters, fields of one record; the documented behaviour
  the proofs use is stated where it is used.
\<close>

record exec_result =
  exitCode :: int
  stdout :: string
  stderr :: string
  exec_command :: "string option"

text \<open>
  \<open>sortBy(_, 'dir')\<close> and \<open>groupBy(_, 'dir')\<close> work on entities paired with their directory. The
  package tools run a command on the disk, so they may change any part of the world.
\<close>

record tools =
  sortBy_dir :: "(string \<times> entity) list \<Rightarrow> (string \<times> entity) list"
  groupBy_dir :: "(string \<times> entity) list \<Rightarrow> (string \<times> entity) list obj"
  isPipenvInstalled :: "string option io"
  isPipenvSupportedVersion :: "string \<Rightarrow> bool \<times> string list"
  pipenvInstall :: "string \<Rightarrow> string list \<Rightarrow> string option \<Rightarrow> exec_result io"
  isPoetryInstalled :: "string option io"
  isPoetrySupportedVersion :: "string \<Rightarrow> bool \<times> string list"
  fix_poetryAdd :: "string \<Rightarrow> string list \<Rightarrow> bool option \<Rightarrow> string option \<Rightarrow> exec_result io"
  toml_parse :: "string \<Rightarrow> fix_error + json"

text \<open>
  Documented behaviour of lodash: \<open>sortBy\<close> returns a permutation of its argument, and the
  groups of \<open>groupBy\<close> together hold the elements of its argument.
\<close>

definition lodash_ok :: "tools \<Rightarrow> bool" where
  "lodash_ok tls \<longleftrightarrow>
     (\<forall>xs. mset (sortBy_dir tls xs) = mset xs) \<and>
     (\<forall>xs. mset (concat (obj_values (groupBy_dir tls xs))) = mset xs)"

text \<open>Concrete functions with this behaviour: insertion by directory, and grouping in order.\<close>

fun insert_dir :: "string \<times> entity \<Rightarrow> (string \<times> entity) list \<Rightarrow> (string \<times> entity) list" where
  "insert_dir x [] = [x]"
| "insert_dir x (y # ys) = (if string_le (fst x) (fst y) then x # y # ys else y # insert_dir x ys)"

definition sample_sortBy :: "(string \<times> entity) list \<Rightarrow> (string \<times> entity) list" where
  "sample_sortBy xs = foldr insert_dir xs []"

primrec sample_groupBy :: "(string \<times> entity) list \<Rightarrow> (string \<times> entity) list obj" where
  "sample_groupBy [] = []"
| "sample_groupBy (x # xs) =
     (case sample_groupBy xs of
        [] \<Rightarrow> [(fst x, [x])]
      | (k, g) # gs \<Rightarrow> if k = fst x then (k, x # g) # gs else (fst x, [x]) # (k, g) # gs)"

definition sample_exec :: "int \<Rightarrow> string \<Rightarrow> exec_result" where
  "sample_exec n err = \<lparr>exitCode = n, stdout = [], stderr = err, exec_command = Some ''cmd''\<rparr>"

definition sample_tools :: tools where
  "sample_tools =
     \<lparr>sortBy_dir = sample_sortBy, groupBy_dir = sample_groupBy,
      isPipenvInstalled = ret (Some ''2022.1''), isPipenvSupportedVersion = (\<lambda>_. (True, [])),
      pipenvInstall = (\<lambda>_ _ _. ret (sample_exec 0 [])),
      isPoetryInstalled = ret None, isPoetrySupportedVersion = (\<lambda>_. (True, [])),
      fix_poetryAdd = (\<lambda>_ _ _ _. ret (sample_exec 1 ''Locking failed'')),
      toml_parse = (\<lambda>_. Inr (JObj []))\<rparr>"

lemma mset_insert_dir: "mset (insert_dir x ys) = add_mset x (mset ys)"
  by (induction ys) auto

lemma mset_sample_sortBy: "mset (sample_sortBy xs) = mset xs"
  unfolding sample_sortBy_def by (induction xs) (auto simp: mset_insert_dir)

lemma mset_sample_groupBy: "mset (concat (obj_values (sample_groupBy xs))) = mset xs"
  by (induction xs) (auto simp: obj_values_def split: list.splits)

lemma lodash_sample: "lodash_ok sample_tools"
  by (simp add: lodash_ok_def sample_tools_def mset_sample_sortBy mset_sample_groupBy)

end
