(* ===== verification/HandlerCommon.thy ===== *)
theory HandlerCommon
  imports UpdateRequirements Tools
begin

text \<open>
  What the Python handlers of \<open>packages/vulnmap-fix/src\<close> share:
  \<open>plugins/python/handlers/validate-required-data.ts\<close>, \<open>is-supported.ts\<close>,
  \<open>attempted-changes-summary.ts\<close>, \<open>lib/output-formatters/format-display-name.ts\<close> and
  \<open>plugins/package-tool-supported.ts\<close>, and the contract every handler keeps.
\<close>

section \<open>Required data\<close>

text \<open>An entity always has a workspace, so the third guard of the function never fires.\<close>

definition validateRequiredData :: "entity \<Rightarrow> fix_error + (remediation_changes \<times> string \<times> workspace)" where
  "validateRequiredData e =
     (case remediation (testResult e) of
        None \<Rightarrow> Inl MissingRemediationDataError
      | Some rem \<Rightarrow>
          if \<not> truthy (targetFile (identity (scanResult e))) then Inl MissingFileNameError
          else Inr (rem, the (targetFile (identity (scanResult e))), ent_workspace e))"

definition formatDisplayName :: "string \<Rightarrow> string \<Rightarrow> string \<Rightarrow> string option \<Rightarrow> string" where
  "formatDisplayName wd path ty target =
     (if \<not> truthy target then ty @ '' project''
      else path_relative wd wd (path_join [path, the target]))"

section \<open>Which entities are fixable\<close>

text \<open>\<open>Some reason\<close> when the entity is not supported.\<close>

definition isSupported :: "entity \<Rightarrow> string option" where
  "isSupported e =
     (case remediation (testResult e) of
        None \<Rightarrow> Some ''No remediation data available''
      | Some rem \<Rightarrow>
          if obj_keys (pin rem) = [] then Some ''There is no actionable remediation to apply''
          else None)"

definition partitionByFixable :: "entity list \<Rightarrow> with_message list \<times> entity list" where
  "partitionByFixable es =
     foldl (\<lambda>(skip, fixable) e.
              (case isSupported e of
                 None \<Rightarrow> (skip, fixable @ [e])
               | Some why \<Rightarrow> (skip @ [\<lparr>wm_original = e, wm_message = why\<rparr>], fixable)))
       ([], []) es"

lemma partitionByFixable_eq:
  "partitionByFixable es =
     (map (\<lambda>e. \<lparr>wm_original = e, wm_message = the (isSupported e)\<rparr>) (filter (\<lambda>e. isSupported e \<noteq> None) es),
      filter (\<lambda>e. isSupported e = None) es)"
proof -
  have "foldl (\<lambda>(skip, fixable) e.
              (case isSupported e of
                 None \<Rightarrow> (skip, fixable @ [e])
               | Some why \<Rightarrow> (skip @ [\<lparr>wm_original = e, wm_message = why\<rparr>], fixable)))
       (a, b) es =
     (a @ map (\<lambda>e. \<lparr>wm_original = e, wm_message = the (isSupported e)\<rparr>) (filter (\<lambda>e. isSupported e \<noteq> None) es),
      b @ filter (\<lambda>e. isSupported e = None) es)" for a b
    by (induction es arbitrary: a b) (auto split: option.splits)
  then show ?thesis by (simp add: partitionByFixable_def)
qed

lemma partitionByFixable_mset:
  "partitionByFixable es = (skip, fixable) \<Longrightarrow> mset (map wm_original skip) + mset fixable = mset es"
  by (induction es arbitrary: skip fixable) (auto simp: partitionByFixable_eq)

section \<open>Changes of an attempted update\<close>

text \<open>\<open>attempted.map(u => u.replace('==', '@')).includes(pin.upgradeTo)\<close>.\<close>

definition attempted :: "string list \<Rightarrow> pin_remediation \<Rightarrow> bool" where
  "attempted ups p = (upgradeTo p \<in> set (map (js_replace_first ''=='' ''@'') ups))"

definition failed_change :: "fix_error \<Rightarrow> string option \<Rightarrow> string \<Rightarrow> pin_remediation \<Rightarrow> fix_change" where
  "failed_change err cmd k p =
     (let newVersion = str_of_opt (at_piece (upgradeTo p) 1);
          name = str_of_opt (at_piece k 0) in
      FixChangesError
        (''Failed to '' @ (if isTransitive p then ''pin'' else ''upgrade'') @ '' '' @ name @ '' from '' @
           str_of_opt (at_piece k 1) @ '' to '' @ newVersion)
        (error_message err)
        (if truthy cmd then Some (''Try running `'' @ the cmd @ ''`'') else None)
        (vulns p) (Some k) (Some (name @ ''@'' @ newVersion)))"

definition generateFailedChanges ::
    "string list \<Rightarrow> dependency_pins \<Rightarrow> fix_error \<Rightarrow> string option \<Rightarrow> fix_change list" where
  "generateFailedChanges ups pins err cmd =
     map (\<lambda>(k, p). failed_change err cmd k p) (filter (\<lambda>(k, p). attempted ups p) pins)"

definition successful_change :: "string \<Rightarrow> pin_remediation \<Rightarrow> fix_change" where
  "successful_change k p =
     (let newVersion = str_of_opt (at_piece (upgradeTo p) 1);
          name = str_of_opt (at_piece k 0) in
      FixChangesSuccess
        ((if isTransitive p then ''Pinned'' else ''Upgraded'') @ '' '' @ name @ '' from '' @
           str_of_opt (at_piece k 1) @ '' to '' @ newVersion)
        (vulns p) (Some k) (Some (name @ ''@'' @ newVersion)))"

definition generateSuccessfulChanges :: "string list \<Rightarrow> dependency_pins \<Rightarrow> fix_change list" where
  "generateSuccessfulChanges ups pins =
     map (\<lambda>(k, p). successful_change k p) (filter (\<lambda>(k, p). attempted ups p) pins)"

definition isSuccessfulChange :: "fix_change \<Rightarrow> bool" where
  "isSuccessfulChange c = success c"

lemma success_failed [simp]: "\<not> success (failed_change err cmd k p)"
  by (simp add: failed_change_def Let_def)

lemma success_successful [simp]: "success (successful_change k p)"
  by (simp add: successful_change_def Let_def)

text \<open>Both lists speak of the same packages: success or failure, the same changes are listed.\<close>

lemma changes_same_pins:
  "map chg_from (generateFailedChanges ups pins err cmd) = map chg_from (generateSuccessfulChanges ups pins)"
  "map chg_to (generateFailedChanges ups pins err cmd) = map chg_to (generateSuccessfulChanges ups pins)"
  "map issueIds (generateFailedChanges ups pins err cmd) = map issueIds (generateSuccessfulChanges ups pins)"
  by (auto simp: generateFailedChanges_def generateSuccessfulChanges_def failed_change_def
      successful_change_def Let_def)

section \<open>Package tools\<close>

datatype package_tool = Pipenv | Poetry

definition tool_installed :: "tools \<Rightarrow> package_tool \<Rightarrow> string option io" where
  "tool_installed tls t = (case t of Pipenv \<Rightarrow> isPipenvInstalled tls | Poetry \<Rightarrow> isPoetryInstalled tls)"

definition tool_supported :: "tools \<Rightarrow> package_tool \<Rightarrow> string \<Rightarrow> bool \<times> string list" where
  "tool_supported tls t =
     (case t of Pipenv \<Rightarrow> isPipenvSupportedVersion tls | Poetry \<Rightarrow> isPoetrySupportedVersion tls)"

primrec tool_name :: "package_tool \<Rightarrow> string" where
  "tool_name Pipenv = ''pipenv''"
| "tool_name Poetry = ''poetry''"

text \<open>
  The check never stops the fix: it gives the text the spinner is left with, if any. The colours
  of the text are the terminal's business and are left out.
\<close>

definition checkPackageToolSupported :: "tools \<Rightarrow> package_tool \<Rightarrow> string option io" where
  "checkPackageToolSupported tls t =
     bindE (tool_installed tls t) (\<lambda>ver.
       ret (if \<not> truthy ver
            then Some (''Could not detect '' @ tool_name t @
                       '' version, proceeding anyway. Some operations may fail.'')
            else
              (let (supported, versions) = tool_supported tls t (the ver) in
               if \<not> supported
               then Some ('' '' @ the ver @ '' '' @ tool_name t @
                          '' version detected. Currently the following '' @ tool_name t @
                          '' versions are supported: '' @ js_join '','' versions)
               else None)))"

section \<open>The handler contract\<close>

text \<open>
  What \<open>pythonFix\<close> relies on: a handler that returns has put every entity it was given in
  exactly one list of its response, and with \<open>dryRun\<close> it leaves the world as it was. \<open>ok\<close> is
  what the handler needs of the third-party code.
\<close>

type_synonym handler = "entity list \<Rightarrow> fix_options \<Rightarrow> (fix_error, world, plugin_response) peff"

locale fix_handler =
  fixes ok :: bool
    and handle :: handler
  assumes conserves: "ok \<Longrightarrow> handle es opts w = Some (Inr r, w') \<Longrightarrow> accounted r = mset es"
    and dry: "ok \<Longrightarrow> dryRun opts \<Longrightarrow> handle es opts w = Some (q, w') \<Longrightarrow> w' = w"
begin

text \<open>The entities come back, whatever the handler did with them.\<close>

lemma total_count:
  assumes ok "handle es opts w = Some (Inr r, w')"
  shows "length (succeeded r) + length (failed r) + length (skipped r) = length es"
proof -
  have "size (accounted r) = length es" using conserves [OF assms] by simp
  then show ?thesis by (simp add: accounted_def)
qed

text \<open>With the skipped entities of the partition the response accounts for the whole group.\<close>

lemma with_partition:
  assumes ok "partitionByFixable es = (skip, fixable)" "handle fixable opts w = Some (Inr r, w')"
  shows "accounted (add_response (empty_response\<lparr>skipped := skip\<rparr>) r) = mset es"
proof -
  have "accounted (empty_response\<lparr>skipped := skip\<rparr>) = mset (map wm_original skip)"
    by (simp add: accounted_def empty_response_def)
  with conserves [OF assms(1,3)] partitionByFixable_mset [OF assms(2)] show ?thesis by simp
qed

lemma no_loss:
  assumes ok "handle es opts w = Some (Inr r, w')" "e \<in> set es"
  shows "e \<in> wc_original ` set (succeeded r) \<or> e \<in> failed_original ` set (failed r) \<or>
         e \<in> wm_original ` set (skipped r)"
proof -
  have "set_mset (accounted r) = set es" using conserves [OF assms(1,2)] by simp
  with assms(3) show ?thesis by (auto simp: accounted_def)
qed

end

end
