(* ===== verification/PipRequirements.thy ===== *)
theory PipRequirements
  imports Provenance HandlerCommon
begin

text \<open>
  The handler of pip requirements files:
  \<open>plugins/python/handlers/pip-requirements/index.ts\<close> of \<open>packages/vulnmap-fix/src\<close>. The fuel
  \<open>n\<close> bounds the depth of the require directives it follows.
\<close>

section \<open>One file\<close>

definition fixIndividualRequirementsTxt ::
    "workspace \<Rightarrow> string \<Rightarrow> string \<Rightarrow> string \<Rightarrow> remediation_changes \<Rightarrow> parsed_requirements \<Rightarrow>
     fix_options \<Rightarrow> bool \<Rightarrow> fix_change list io" where
  "fixIndividualRequirementsTxt ws dir entryFileName fileName rem parsed opts directUpgradesOnly = (\<lambda>w.
     (let entryFilePath = path_normalize (path_join [dir, entryFileName]);
          fullFilePath = path_normalize (path_join [dir, fileName]);
          ref = (if entryFilePath \<noteq> fullFilePath
                 then Some (formatDisplayName (cwd w) (ws_path ws) ''pip'' (Some fullFilePath))
                 else None) in
      bindE (lift (updateDependencies parsed (pin rem) directUpgradesOnly ref)) (\<lambda>u.
        if file_changes u = [] then ret (file_changes u)
        else if \<not> dryRun opts then
          bindE (writeFile ws (path_join [dir, fileName]) (updatedManifest u)) (\<lambda>_.
            ret (file_changes u))
        else ret (file_changes u)) w))"

section \<open>What is left to pin\<close>

definition applied_remediation :: "fix_change list \<Rightarrow> string list" where
  "applied_remediation cs =
     List.map_filter
       (\<lambda>c. if success c \<and> truthy (chg_from c) then Some (standardize_at (the (chg_from c))) else None) cs"

definition filterOutAppliedUpgrades :: "remediation_changes \<Rightarrow> fix_change list \<Rightarrow> remediation_changes" where
  "filterOutAppliedUpgrades rem upgradeChanges =
     rem\<lparr>pin :=
       fold (\<lambda>(k, p) acc. if standardize_at k \<notin> set (applied_remediation upgradeChanges)
                          then obj_set k p acc else acc)
         (pin rem) []\<rparr>"

text \<open>\<open>m.includes(x)\<close> on a match: the whole text and the two captures.\<close>

definition match_includes :: "re_result \<Rightarrow> string \<Rightarrow> bool" where
  "match_includes m x = (Some x \<in> set [re_group m 0, re_group m 1, re_group m 2])"

definition selectFileForPinning :: "entity \<Rightarrow> (string \<times> string) io" where
  "selectFileForPinning e =
     (let target = the (targetFile (identity (scanResult e)));
          (dir, base) = path_parse target in
      bindE (readFile (ent_workspace e) target) (\<lambda>requirementsTxt.
        let (containsRequire, matches) = containsRequireDirective requirementsTxt;
            constraintsMatch = filter (\<lambda>m. match_includes m ''c'') matches in
        if containsRequire \<and> constraintsMatch \<noteq> [] then
          (let fileName = str_of_opt (re_group (hd constraintsMatch) 2) in
           bindE (readFile (ent_workspace e) (path_join [dir, fileName])) (\<lambda>t. ret (fileName, t)))
        else ret (base, requirementsTxt)))"

section \<open>One entity\<close>

text \<open>
  The upgrades of every file of the provenance, then the pins. The values of \<open>fixedMeta\<close> are
  all the one array \<open>upgradeChanges\<close>, so at the end every file has all the upgrade changes.
\<close>

definition upgrade_files ::
    "workspace \<Rightarrow> string \<Rightarrow> string \<Rightarrow> remediation_changes \<Rightarrow> fix_options \<Rightarrow> provenance \<Rightarrow>
     (fix_change list \<times> string list) io" where
  "upgrade_files ws dir base rem opts prov =
     foldE (\<lambda>(fileName, parsed) (upgradeChanges, fixedKeys).
        bindE (fixIndividualRequirementsTxt ws dir base fileName rem parsed opts True) (\<lambda>cs.
          ret (upgradeChanges @ cs, fixedKeys @ [path_normalize (path_join [dir, fileName])])))
       prov ([], [])"

definition applyAllFixes ::
    "nat \<Rightarrow> entity \<Rightarrow> fix_options \<Rightarrow>
     (fix_error, world, fix_change list \<times> fix_change list obj) peff" where
  "applyAllFixes n e opts = (\<lambda>w.
     (case validateRequiredData e of
        Inl err \<Rightarrow> Some (Inl err, w)
      | Inr (rem, entryFileName, ws) \<Rightarrow>
          (let (dir, base) = path_parse entryFileName in
           (case extractProvenance n ws w dir dir base [] of
              None \<Rightarrow> None
            | Some (Inl err) \<Rightarrow> Some (Inl err, w)
            | Some (Inr prov) \<Rightarrow>
                Some (bindE (upgrade_files ws dir base rem opts prov) (\<lambda>(upgradeChanges, fixedKeys).
                  let fixedMeta = fold (\<lambda>k. obj_set k upgradeChanges) fixedKeys [];
                      toPin = filterOutAppliedUpgrades rem upgradeChanges in
                  bindE (selectFileForPinning e) (\<lambda>(fileName, fileContent).
                  bindE (fixIndividualRequirementsTxt ws dir base fileName toPin
                           (parseRequirementsFile fileContent) opts False) (\<lambda>pinnedChanges.
                  ret (upgradeChanges @ pinnedChanges, fixedMeta)))) w)))))"

section \<open>The entities of a directory\<close>

type_synonym fixed_cache = "fixed_cache_entry obj"

definition getFixedEntityIssues :: "string list \<Rightarrow> issue list \<Rightarrow> string list" where
  "getFixedEntityIssues fixedIssueIds iss =
     filter (\<lambda>i. i \<in> set fixedIssueIds) (map issueId iss)"

definition fixed_through :: "string \<Rightarrow> entity \<Rightarrow> fixed_cache_entry \<Rightarrow> fix_change" where
  "fixed_through wd e entry =
     FixChangesSuccess
       (''Fixed through '' @ formatDisplayName wd (ws_path (ent_workspace e))
          (identity_type (identity (scanResult e))) (Some (fixedIn entry)))
       (getFixedEntityIssues (cache_issueIds entry) (issues (testResult e))) None None"

definition entity_path :: "entity \<Rightarrow> string" where
  "entity_path e =
     (let (dir, base) = path_parse (the (targetFile (identity (scanResult e)))) in
      path_normalize (path_join [dir, base]))"

text \<open>
  The body of the loop: a file that was fixed through another one, a fix, or the \<open>catch\<close>. An
  error leaves the writes made before it.
\<close>

definition fixEntity ::
    "nat \<Rightarrow> fix_options \<Rightarrow> entity \<Rightarrow> plugin_response \<times> fixed_cache \<Rightarrow>
     (fix_error, world, plugin_response \<times> fixed_cache) peff" where
  "fixEntity n opts e acc =
     (case acc of (r, cache) \<Rightarrow>
        (case obj_get cache (entity_path e) of
           Some entry \<Rightarrow>
             (\<lambda>w. Some (Inr (r\<lparr>succeeded := succeeded r @
                [\<lparr>wc_original = e, wc_changes = [fixed_through (cwd w) e entry]\<rparr>]\<rparr>, cache), w))
         | None \<Rightarrow>
             catchP
               (bindP (applyAllFixes n e opts) (\<lambda>(changes, fixedMeta).
                  if changes = [] then liftP (throw (NoFixesCouldBeAppliedError None None))
                  else
                    (let uniqueIssueIds = unique_in_order (concat (map issueIds changes));
                         entry = \<lparr>fixedIn = the (targetFile (identity (scanResult e))),
                                  cache_issueIds = uniqueIssueIds\<rparr> in
                     liftP (ret (r\<lparr>succeeded := succeeded r @
                                   [\<lparr>wc_original = e, wc_changes = changes\<rparr>]\<rparr>,
                                 fold (\<lambda>f. obj_set f entry) (obj_keys fixedMeta) cache)))))
               (\<lambda>err. liftP (ret (r\<lparr>failed := failed r @ [FailedError e err None]\<rparr>, cache)))))"

definition fixAll ::
    "nat \<Rightarrow> entity list \<Rightarrow> fix_options \<Rightarrow> fixed_cache \<Rightarrow>
     (fix_error, world, plugin_response \<times> fixed_cache) peff" where
  "fixAll n entities opts cache = foldP (fixEntity n opts) entities (empty_response, cache)"

section \<open>The handler\<close>

text \<open>\<open>path.parse\<close> of a target file that is \<open>undefined\<close> throws, outside of any \<open>try\<close>.\<close>

definition sortByDirectory :: "tools \<Rightarrow> entity list \<Rightarrow> fix_error + (string \<times> entity) list obj" where
  "sortByDirectory tls entities =
     bindS (mapS (\<lambda>e. case targetFile (identity (scanResult e)) of
                       None \<Rightarrow> Inl (OtherError ''The \"path\" argument must be of type string. Received undefined'')
                     | Some t \<Rightarrow> Inr (path_dir t, e)) entities)
       (\<lambda>mapped. Inr (groupBy_dir tls (sortBy_dir tls mapped)))"

definition pipRequirementsTxt :: "nat \<Rightarrow> tools \<Rightarrow> handler" where
  "pipRequirementsTxt n tls fixable opts =
     bindP (liftP (lift (sortByDirectory tls fixable))) (\<lambda>ordered.
       bindP
         (foldP (\<lambda>group (handlerResult, fixedFilesCache).
            bindP (fixAll n (map snd group) opts fixedFilesCache) (\<lambda>(r, fixedCache).
              liftP (ret (add_response handlerResult r, obj_merge fixedFilesCache fixedCache))))
           (obj_values ordered) (empty_response, []))
         (\<lambda>(handlerResult, _). liftP (ret handlerResult)))"

section \<open>Dry runs\<close>

lemma fixIndividual_dry:
  "dryRun opts \<Longrightarrow> snd (fixIndividualRequirementsTxt ws dir en fn rem parsed opts d w) = w"
  by (simp add: fixIndividualRequirementsTxt_def Let_def bindE_def split: sum.splits)

lemma keeps_of_snd: "(\<And>w. snd (m w) = w) \<Longrightarrow> keeps P m"
  by (simp add: keeps_def)

lemma keepsP_of_snd: "(\<And>w r w'. m w = Some (r, w') \<Longrightarrow> w' = w) \<Longrightarrow> keepsP P m"
  unfolding keepsP_def by blast

lemma keeps_selectFileForPinning: "keeps P (selectFileForPinning e)"
  unfolding selectFileForPinning_def Let_def case_prod_unfold by (intro frame_intros)

lemma applyAllFixes_keeps:
  assumes "\<And>fn rem parsed d. keeps P (fixIndividualRequirementsTxt (ent_workspace e)
      (path_dir (the (targetFile (identity (scanResult e)))))
      (path_base (the (targetFile (identity (scanResult e))))) fn rem parsed opts d)"
  shows "keepsP P (applyAllFixes n e opts)"
  unfolding keepsP_def
proof (intro allI impI)
  fix w r w' assume w: "P w" and e: "applyAllFixes n e opts w = Some (r, w')"
  show "P w'"
  proof (cases "validateRequiredData e")
    case (Inl err)
    with e w show ?thesis by (simp add: applyAllFixes_def)
  next
    case (Inr v)
    obtain rem t ws where v: "v = (rem, t, ws)" by (cases v) auto
    from Inr v have t: "t = the (targetFile (identity (scanResult e)))" "ws = ent_workspace e"
      by (auto simp: validateRequiredData_def split: option.splits if_splits)
    have up: "keeps P (upgrade_files ws (path_dir t) (path_base t) rem opts prov)" for prov rem
      unfolding upgrade_files_def case_prod_unfold t by (intro frame_intros assms)
    show ?thesis
    proof (cases "extractProvenance n ws w (path_dir t) (path_dir t) (path_base t) []")
      case None
      with e Inr v show ?thesis by (simp add: applyAllFixes_def path_parse_def)
    next
      case (Some q)
      show ?thesis
      proof (cases q)
        case (Inl err)
        with e Inr v Some w show ?thesis by (simp add: applyAllFixes_def path_parse_def)
      next
        case (Inr prov)
        let ?m = "bindE (upgrade_files ws (path_dir t) (path_base t) rem opts prov) (\<lambda>(upgradeChanges, fixedKeys).
                  let fixedMeta = fold (\<lambda>k. obj_set k upgradeChanges) fixedKeys [];
                      toPin = filterOutAppliedUpgrades rem upgradeChanges in
                  bindE (selectFileForPinning e) (\<lambda>(fileName, fileContent).
                  bindE (fixIndividualRequirementsTxt ws (path_dir t) (path_base t) fileName toPin
                           (parseRequirementsFile fileContent) opts False) (\<lambda>pinnedChanges.
                  ret (upgradeChanges @ pinnedChanges, fixedMeta))))"
        have km: "keeps P ?m"
          unfolding Let_def case_prod_unfold t
          by (intro frame_intros keeps_selectFileForPinning up [unfolded t] assms)
        have eqn: "Some (r, w') = Some (?m w)"
          using e \<open>validateRequiredData e = Inr v\<close> v Some Inr
          by (simp add: applyAllFixes_def path_parse_def)
        from km w have "P (snd (?m w))" unfolding keeps_def by blast
        moreover have "?m w = (r, w')" by (rule sym, rule option.inject [THEN iffD1], fact eqn)
        ultimately show ?thesis by (simp only: snd_conv)
      qed
    qed
  qed
qed

lemma fixEntity_keeps:
  assumes "keepsP P (applyAllFixes n e opts)"
  shows "keepsP P (fixEntity n opts e acc)"
proof -
  obtain r cache where acc: "acc = (r, cache)" by fastforce
  show ?thesis
  proof (cases "obj_get cache (entity_path e)")
    case None
    then show ?thesis
      unfolding fixEntity_def acc prod.case by (simp only: option.case) (intro frame_intros assms)
  next
    case (Some entry)
    then show ?thesis unfolding fixEntity_def acc by (auto simp: keepsP_def)
  qed
qed

lemma pip_keeps:
  assumes "\<And>e. keepsP P (applyAllFixes n e opts)"
  shows "keepsP P (pipRequirementsTxt n tls fixable opts)"
  unfolding pipRequirementsTxt_def fixAll_def case_prod_unfold
  by (intro frame_intros fixEntity_keeps assms)

lemma pip_dry:
  assumes "dryRun opts" "pipRequirementsTxt n tls es opts w = Some (r, w')"
  shows "w' = w"
proof -
  have "keepsP (\<lambda>s. s = w) (pipRequirementsTxt n tls es opts)"
    by (intro pip_keeps applyAllFixes_keeps keeps_of_snd fixIndividual_dry assms)
  from keepsPD [OF this refl assms(2)] show ?thesis .
qed

section \<open>Every entity is accounted for\<close>

lemma fixEntity_accounts:
  assumes "fixEntity n opts e acc w = Some (Inr acc', w')"
  shows "accounted (fst acc') = add_mset e (accounted (fst acc))"
proof -
  obtain r cache where acc: "acc = (r, cache)" by fastforce
  show ?thesis
  proof (cases "obj_get cache (entity_path e)")
    case None
    with assms show ?thesis
      by (auto simp: acc fixEntity_def catchP_def bindP_def Let_def accounted_push
          split: option.splits prod.splits sum.splits if_splits)
  next
    case (Some entry)
    with assms show ?thesis by (auto simp: acc fixEntity_def accounted_push)
  qed
qed

lemma fixEntity_returns: "fixEntity n opts e acc w \<noteq> Some (Inl err, w')"
  by (auto simp: fixEntity_def catchP_def split: option.splits prod.splits sum.splits)

lemma sum_list_single: "(\<Sum>x\<leftarrow>xs. {#f x#}) = mset (map f xs)"
  by (induction xs) simp_all

lemma fixAll_accounts:
  assumes "fixAll n es opts cache w = Some (Inr acc, w')"
  shows "accounted (fst acc) = mset es"
  using foldP_count [of "fixEntity n opts" "\<lambda>a. accounted (fst a)" "\<lambda>e. {#e#}"] assms
  by (auto simp: fixAll_def fixEntity_accounts sum_list_single [where f = "\<lambda>x. x", simplified])

lemma mapS_dirs:
  "mapS f es = Inr ys \<Longrightarrow> (\<And>e y. f e = Inr y \<Longrightarrow> snd y = e) \<Longrightarrow> map snd ys = es"
  by (induction es arbitrary: ys) (auto simp: bindS_Inr_iff)

lemma sortByDirectory_mset:
  assumes "lodash_ok tls" "sortByDirectory tls es = Inr ordered"
  shows "mset (concat (map (map snd) (obj_values ordered))) = mset es"
proof -
  from assms(2) obtain ys where ys: "map snd ys = es" "ordered = groupBy_dir tls (sortBy_dir tls ys)"
    by (auto simp: sortByDirectory_def bindS_Inr_iff dest!: mapS_dirs split: option.splits)
  have "mset (concat (obj_values ordered)) = mset ys"
    using assms(1) by (simp add: ys(2) lodash_ok_def)
  then have "image_mset snd (mset (concat (obj_values ordered))) = image_mset snd (mset ys)" by simp
  then show ?thesis by (simp flip: mset_map add: ys(1) map_concat)
qed

lemma pip_conserves:
  assumes ok: "lodash_ok tls" and run: "pipRequirementsTxt n tls es opts w = Some (Inr r, w')"
  shows "accounted r = mset es"
proof -
  let ?f = "\<lambda>group (handlerResult, fixedFilesCache).
            bindP (fixAll n (map snd group) opts fixedFilesCache) (\<lambda>(r, fixedCache).
              liftP (ret (add_response handlerResult r, obj_merge fixedFilesCache fixedCache)))"
  from run obtain ordered acc w1 where o: "sortByDirectory tls es = Inr ordered"
    and f: "foldP ?f (obj_values ordered) (empty_response, []) w = Some (Inr acc, w1)" and r: "r = fst acc"
    unfolding pipRequirementsTxt_def
    by (auto elim!: bindP_SomeE simp: case_prod_unfold)
  have step: "accounted (fst a') = accounted (fst a) + mset (map snd g)"
    if "?f g a s = Some (Inr a', s')" for g a s a' s'
    using that fixAll_accounts by (auto elim!: bindP_SomeE simp: case_prod_unfold)
  have "accounted (fst acc) = accounted (fst (empty_response, [] :: fixed_cache)) + (\<Sum>g\<leftarrow>obj_values ordered. mset (map snd g))"
    by (rule foldP_count [where f = ?f and g = "\<lambda>a. accounted (fst a)" and h = "\<lambda>g. mset (map snd g)"])
       (erule step, rule f)
  also have "(\<Sum>g\<leftarrow>gs. mset (map snd g)) = mset (concat (map (map snd) gs))" for gs :: "('a \<times> entity) list list"
    by (induction gs) auto
  finally show ?thesis using sortByDirectory_mset [OF ok o] r by simp
qed

interpretation pip: fix_handler "lodash_ok tls" "pipRequirementsTxt n tls" for tls n
  by unfold_locales (auto intro: pip_conserves pip_dry)

section \<open>Dry runs return\<close>

text \<open>
  An entity of a plain workspace with a target file: \<open>F\<close> lists the files its directives can
  reach, and the fuel covers them.
\<close>

definition plain_entity :: "string list \<Rightarrow> nat \<Rightarrow> world \<Rightarrow> entity \<Rightarrow> bool" where
  "plain_entity F n w e =
     (case targetFile (identity (scanResult e)) of
        None \<Rightarrow> False
      | Some f \<Rightarrow> f \<in> set F \<and> plain_workspace F (ent_workspace e) w \<and> length F \<le> n)"

lemma applyAllFixes_returns:
  assumes "plain_entity F n w e" "dryRun opts"
  shows "\<exists>x. applyAllFixes n e opts w = Some (x, w)"
proof -
  have "keepsP (\<lambda>s. s = w) (applyAllFixes n e opts)"
    by (intro applyAllFixes_keeps keeps_of_snd fixIndividual_dry assms)
  then have same: "w' = w" if "applyAllFixes n e opts w = Some (x, w')" for x w'
    using that unfolding keepsP_def by blast
  have "applyAllFixes n e opts w \<noteq> None"
  proof (cases "validateRequiredData e")
    case (Inl err)
    then show ?thesis by (simp add: applyAllFixes_def)
  next
    case (Inr v)
    obtain rem f ws where v: "v = (rem, f, ws)" by (cases v) auto
    from Inr v assms(1) have F: "f \<in> set F" "plain_workspace F ws w" "length F \<le> n"
      by (auto simp: validateRequiredData_def plain_entity_def split: option.splits if_splits)
    have "prov_ok F ws w []" by (simp add: prov_ok_def)
    from extractProvenance_plain [OF F(2,1) _ this, of n] F(3) obtain q where
      q: "extractProvenance n ws w [] [] f [] = Some (Inr q)"
      using card_length [of F] by auto
    have "path_parse f = ([], f)" by (rule path_parse_plain [OF plain_workspaceD(2) [OF F(2,1)]])
    with Inr v q show ?thesis by (simp add: applyAllFixes_def)
  qed
  then show ?thesis using same by fast
qed

lemma fixEntity_dry:
  assumes "plain_entity F n w e" "dryRun opts"
  shows "\<exists>acc'. fixEntity n opts e acc w = Some (Inr acc', w)"
proof -
  obtain r cache where acc: "acc = (r, cache)" by fastforce
  from applyAllFixes_returns [OF assms] obtain x where x: "applyAllFixes n e opts w = Some (x, w)" by blast
  show ?thesis
    using x by (cases x)
      (auto simp: acc fixEntity_def catchP_def bindP_def Let_def split: option.splits prod.splits)
qed

lemma foldP_returns:
  assumes "\<And>x a. x \<in> set xs \<Longrightarrow> \<exists>a'. f x a s = Some (Inr a', s)"
  shows "\<exists>r. foldP f xs acc s = Some (Inr r, s)"
  using assms
proof (induction xs arbitrary: acc)
  case Nil
  then show ?case by simp
next
  case (Cons x xs)
  from Cons.prems [of x acc] obtain a where a: "f x acc s = Some (Inr a, s)" by auto
  from Cons.IH [of a] Cons.prems obtain r where "foldP f xs a s = Some (Inr r, s)" by auto
  with a show ?case by (simp add: bindP_def)
qed

lemma sortByDirectory_returns:
  "(\<And>e. e \<in> set es \<Longrightarrow> targetFile (identity (scanResult e)) \<noteq> None) \<Longrightarrow>
   \<exists>o'. sortByDirectory tls es = Inr o'"
proof -
  assume t: "\<And>e. e \<in> set es \<Longrightarrow> targetFile (identity (scanResult e)) \<noteq> None"
  have "\<exists>ys. mapS (\<lambda>e. case targetFile (identity (scanResult e)) of
                       None \<Rightarrow> Inl (OtherError ''The \"path\" argument must be of type string. Received undefined'')
                     | Some t \<Rightarrow> Inr (path_dir t, e)) es = Inr ys"
  proof (rule mapS_total)
    fix e assume "e \<in> set es"
    from t [OF this] obtain f where "targetFile (identity (scanResult e)) = Some f" by blast
    then show "\<exists>y. (case targetFile (identity (scanResult e)) of
                       None \<Rightarrow> Inl (OtherError ''The \"path\" argument must be of type string. Received undefined'')
                     | Some t \<Rightarrow> Inr (path_dir t, e)) = Inr y" by simp
  qed
  then show ?thesis unfolding sortByDirectory_def by (elim exE) simp
qed

lemma pip_dry_returns:
  assumes "lodash_ok tls" "dryRun opts" and F: "\<And>e. e \<in> set es \<Longrightarrow> plain_entity (F e) n w e"
  shows "\<exists>r. pipRequirementsTxt n tls es opts w = Some (Inr r, w)"
proof -
  have "targetFile (identity (scanResult e)) \<noteq> None" if "e \<in> set es" for e
    using F [OF that] by (auto simp: plain_entity_def split: option.splits)
  from sortByDirectory_returns [OF this] obtain ordered where o: "sortByDirectory tls es = Inr ordered" by blast
  have "set_mset (mset (concat (map (map snd) (obj_values ordered)))) = set_mset (mset es)"
    by (simp only: sortByDirectory_mset [OF assms(1) o])
  then have set: "(\<Union>g\<in>set (obj_values ordered). snd ` set g) = set es" by simp
  have all: "\<exists>a. fixAll n (map snd g) opts cache w = Some (Inr a, w)"
    if "g \<in> set (obj_values ordered)" for g cache
    unfolding fixAll_def
  proof (rule foldP_returns)
    fix e a assume "e \<in> set (map snd g)"
    with that set have "e \<in> set es" by auto
    from fixEntity_dry [OF F [OF this] assms(2)] show "\<exists>a'. fixEntity n opts e a w = Some (Inr a', w)" .
  qed
  let ?f = "\<lambda>group (handlerResult, fixedFilesCache).
            bindP (fixAll n (map snd group) opts fixedFilesCache) (\<lambda>(r, fixedCache).
              liftP (ret (add_response handlerResult r, obj_merge fixedFilesCache fixedCache)))"
  have "\<exists>acc. foldP ?f (obj_values ordered) (empty_response, []) w = Some (Inr acc, w)"
  proof (rule foldP_returns)
    fix g and a :: "plugin_response \<times> fixed_cache" assume "g \<in> set (obj_values ordered)"
    then obtain x where "fixAll n (map snd g) opts (snd a) w = Some (Inr x, w)" using all by blast
    then show "\<exists>a'. ?f g a w = Some (Inr a', w)"
      by (cases a; cases x) (simp add: bindP_def)
  qed
  with o show ?thesis
    by (auto simp: pipRequirementsTxt_def bindP_def split: prod.splits)
qed

section \<open>Properties\<close>



definition sample_remediation :: remediation_changes where
  "sample_remediation =
     \<lparr>unresolved = [], rem_upgrade = [], rem_patch = [], rem_ignore = JNull,
      pin = [(''foo@1.0.0'', sample_pin ''foo@1.2.0'' False), (''dep@1.0.0'', sample_pin ''dep@2.0.0'' True)]\<rparr>"

definition sample_entity :: "string \<Rightarrow> string \<Rightarrow> entity" where
  "sample_entity ty f =
     \<lparr>ent_workspace = sample_ws,
      scanResult = \<lparr>identity = \<lparr>identity_type = ty, targetFile = Some f, identity_args = None\<rparr>,
        facts = [], scan_name = None, policy = None, scan_target = None\<rparr>,
      testResult =
        \<lparr>issues = [\<lparr>pkgName = ''foo'', pkgVersion = Some ''1.0.0'', issueId = ''V1'',
            fixInfo = \<lparr>upgradePaths = None, isPatchable = None, nearestFixedInVersion = None\<rparr>\<rparr>],
         issuesData = [(''V1'', \<lparr>issue_data_id = ''V1'', issue_data_severity = HIGH, issue_data_title = ''t''\<rparr>)],
         depGraphData = JNull, remediation = Some sample_remediation\<rparr>,
      ent_options = \<lparr>packageManager = None, command = None, dev = None\<rparr>\<rparr>"

definition sample_opts :: "bool \<Rightarrow> fix_options" where
  "sample_opts d = \<lparr>dryRun = d, quiet_opt = True, stripAnsi = False, sequentialFix = False\<rparr>"

abbreviation sample_es :: "entity list" where
  "sample_es \<equiv> [sample_entity ''pip'' ''requirements.txt'', sample_entity ''pip'' ''base.txt'']"

lemma sample_es_plain:
  "\<forall>e\<in>set sample_es. plain_entity [''requirements.txt'', ''base.txt''] 2 sample_world e"
  using sample_plain by (simp add: plain_entity_def sample_entity_def)



text \<open>a step of the requirements fix that returns changed at most one file, the one it was called
  for: without changes or in a dry run nothing is written, otherwise exactly the updated
  manifest.\<close>

theorem fixIndividual_effect:
  assumes "fixIndividualRequirementsTxt ws dir en fn rem parsed opts d w = (Inr cs, w')"
  shows "w' = (if cs = [] \<or> dryRun opts then w
               else w\<lparr>files := (files w)(ws_file (cwd w) ws (path_join [dir, fn]) \<mapsto>
                      updatedManifest (projr (updateDependencies parsed (pin rem) d
                        (if path_normalize (path_join [dir, en]) \<noteq> path_normalize (path_join [dir, fn])
                         then Some (formatDisplayName (cwd w) (ws_path ws) ''pip''
                                      (Some (path_normalize (path_join [dir, fn]))))
                         else None))))\<rparr>)"
  using assms
  by (auto simp: fixIndividualRequirementsTxt_def Let_def writeFile_Inr_iff
      elim!: bindE_InrE split: if_splits)

lemma fixIndividual_effect_witness:
  "files (snd (fixIndividualRequirementsTxt sample_ws [] ''r.txt'' ''r.txt'' sample_remediation
      (parseRequirementsFile ''foo==1.0.0'') (sample_opts False) True sample_world)) ''/w/app/r.txt'' =
   Some ''foo==1.2.0''"
proof -
  let ?run = "fixIndividualRequirementsTxt sample_ws [] ''r.txt'' ''r.txt'' sample_remediation
      (parseRequirementsFile ''foo==1.0.0'') (sample_opts False) True sample_world"
  have u: "map_sum id updatedManifest (updateDependencies (parseRequirementsFile ''foo==1.0.0'')
      (pin sample_remediation) True None) = Inr ''foo==1.2.0''" by code_simp
  have c: "map_sum id (\<lambda>u. length (file_changes u)) (updateDependencies (parseRequirementsFile ''foo==1.0.0'')
      (pin sample_remediation) True None) = Inr 1" by code_simp
  from u obtain x where x: "updateDependencies (parseRequirementsFile ''foo==1.0.0'')
      (pin sample_remediation) True None = Inr x" "updatedManifest x = ''foo==1.2.0''"
    by (cases "updateDependencies (parseRequirementsFile ''foo==1.0.0'') (pin sample_remediation) True None") auto
  with c have nz: "file_changes x \<noteq> []" by auto
  have k: "ws_file (cwd sample_world) sample_ws (path_join [[], ''r.txt'']) = ''/w/app/r.txt''" by code_simp
  have wr: "writable sample_world p" and nd: "\<not> dryRun (sample_opts False)" for p
    by (simp_all add: sample_world_def sample_opts_def)
  obtain w' where run: "?run = (Inr (file_changes x), w')"
    using nz nd wr
    by (simp add: fixIndividualRequirementsTxt_def Let_def x(1) bindE_def writeFile_def split: if_splits)
  from fixIndividual_effect [OF run] show ?thesis
    using nz nd x k run by simp
qed

text \<open>what is left to pin after the upgrades is exactly what no upgrade has applied: an entry of the
  remediation stays, unchanged, unless a successful change came from the same package and
  version.\<close>

theorem filterOutAppliedUpgrades_spec:
  assumes "wf_obj (pin rem)"
  shows "obj_get (pin (filterOutAppliedUpgrades rem cs)) k =
    (if \<exists>c\<in>set cs. success c \<and> truthy (chg_from c) \<and> standardize_at (the (chg_from c)) = standardize_at k
     then None else obj_get (pin rem) k)"
proof -
  let ?A = "applied_remediation cs"
  have A: "standardize_at k \<in> set ?A \<longleftrightarrow>
      (\<exists>c\<in>set cs. success c \<and> truthy (chg_from c) \<and> standardize_at (the (chg_from c)) = standardize_at k)"
    by (force simp: applied_remediation_def List.map_filter_def)
  have "obj_get (fold (\<lambda>(k, p) acc. if standardize_at k \<notin> set ?A then obj_set k p acc else acc) ps acc) k =
     (if standardize_at k \<notin> set ?A \<and> k \<in> set (obj_keys ps) then obj_get ps k else obj_get acc k)"
    if "distinct (obj_keys ps)" for ps acc
    using that
  proof (induction ps arbitrary: acc)
    case Nil
    then show ?case by simp
  next
    case (Cons x ps)
    obtain k' p where x: "x = (k', p)" by fastforce
    with Cons show ?case by (auto simp: ob.get_put)
  qed
  note fold_get = this [of "pin rem" "[]"]
  have none: "k \<notin> set (obj_keys (pin rem)) \<Longrightarrow> obj_get (pin rem) k = None"
    by (rule ob.get_None_iff [THEN iffD2])
  show ?thesis
    using assms none fold_get by (auto simp: filterOutAppliedUpgrades_def A wf_obj_def)
qed

lemma filterOutAppliedUpgrades_spec_witness:
  "obj_get (pin (filterOutAppliedUpgrades sample_remediation
     [FixChangesSuccess ''m'' [] (Some ''Foo@1.0.0'') None])) ''dep@1.0.0'' =
   obj_get (pin sample_remediation) ''dep@1.0.0''"
proof -
  have wf: "wf_obj (pin sample_remediation)" by (simp add: sample_remediation_def wf_obj_def)
  have "standardize_at ''Foo@1.0.0'' \<noteq> standardize_at ''dep@1.0.0''" by code_simp
  then show ?thesis by (simp add: filterOutAppliedUpgrades_spec [OF wf])
qed

end
