(* ===== verification/ToolHandlers.thy ===== *)
theory ToolHandlers
  imports PipRequirements
begin

text \<open>
  The handlers that let a package tool do the work, of \<open>packages/vulnmap-fix/src\<close>:
  \<open>plugins/python/handlers/pipenv-pipfile\<close> and \<open>plugins/python/handlers/poetry\<close>. The tools
  are the parameters of the theory Tools.
\<close>

section \<open>Error texts of the tools\<close>

text \<open>\<open>/SolverProblemError(.* version solving failed)/gms\<close>: with the flag \<open>s\<close> the dot is any
  code unit. \<open>/Python requirement (.*) is not compatible/gm\<close>.\<close>

definition SOLVER_PROBLEM :: re where
  "SOLVER_PROBLEM =
     RSeqs [RStr ''SolverProblemError'',
            RGrp 1 (RSeq (RStar (RCls (\<lambda>_. True))) (RStr '' version solving failed''))]"

definition INCOMPATIBLE_PYTHON :: re where
  "INCOMPATIBLE_PYTHON =
     RSeqs [RStr ''Python requirement '', RGrp 1 (RStar RDot), RStr '' is not compatible'']"

text \<open>\<open>a || b\<close> on matches.\<close>

definition re_or :: "re_result option \<Rightarrow> re_result option \<Rightarrow> re_result option" where
  "re_or a b = (case a of None \<Rightarrow> b | Some m \<Rightarrow> Some m)"

definition pipenv_bubble_up :: "string list" where
  "pipenv_bubble_up =
     [''There are incompatible versions in the resolved dependencies'', ''Locking failed'',
      ''Could not find a version that matches'']"

definition throwPipenvError :: "string \<Rightarrow> string \<Rightarrow> string option \<Rightarrow> fix_error" where
  "throwPipenvError err out cmd =
     (case find (\<lambda>m. js_includes (js_lower err) (js_lower m) \<or> js_includes (js_lower out) (js_lower m))
             pipenv_bubble_up of
        Some m \<Rightarrow> CommandFailedError m cmd
      | None \<Rightarrow>
          (case re_or (re_exec True SOLVER_PROBLEM err) (re_exec True SOLVER_PROBLEM out) of
             Some m \<Rightarrow> CommandFailedError (js_trim (re_text m)) cmd
           | None \<Rightarrow> NoFixesCouldBeAppliedError None None))"

definition throwPoetryError :: "string \<Rightarrow> string \<Rightarrow> string option \<Rightarrow> fix_error" where
  "throwPoetryError err out cmd =
     (case re_or (re_exec True INCOMPATIBLE_PYTHON err) (re_exec True SOLVER_PROBLEM out) of
        Some m \<Rightarrow>
          CommandFailedError
            (''The current project'' @ [CHR 0x27] @ ''s Python requirement '' @ str_of_opt (re_group m 1) @
             '' is not compatible with some of the required packages'') cmd
      | None \<Rightarrow>
          (case re_or (re_exec True SOLVER_PROBLEM err) (re_exec True SOLVER_PROBLEM out) of
             Some m \<Rightarrow> CommandFailedError (js_trim (re_text m)) cmd
           | None \<Rightarrow>
               if js_includes err ''No dependencies to install or update'' \<or>
                  js_includes out ''No dependencies to install or update''
               then CommandFailedError
                 ''No dependencies could be updated as they seem to be at the correct versions. Make sure installed dependencies in the environment match those in the lockfile by running `poetry update`''
                 cmd
               else NoFixesCouldBeAppliedError None None))"

section \<open>One run of a tool\<close>

text \<open>
  The common body of \<open>pipenvAdd\<close> and \<open>poetryAdd\<close>: the data is checked outside of the \<open>try\<close>;
  an error of the tool, or the error its output is turned into, makes failed changes, with the
  command only when the tool ran to its end.
\<close>

definition tool_add ::
    "(string \<Rightarrow> exec_result io) \<Rightarrow> (string \<Rightarrow> string \<Rightarrow> string option \<Rightarrow> fix_error) \<Rightarrow>
     entity \<Rightarrow> fix_options \<Rightarrow> string list \<Rightarrow> fix_change list io" where
  "tool_add run to_error e opts ups =
     bindE (lift (validateRequiredData e)) (\<lambda>(rem, target, _) w.
       let dir = path_dir (path_resolve (cwd w) [ws_path (ent_workspace e), target]) in
       if \<not> dryRun opts \<and> ups \<noteq> [] then
         (case run dir w of
            (Inl err, w') \<Rightarrow> (Inr (generateFailedChanges ups (pin rem) err None), w')
          | (Inr res, w') \<Rightarrow>
              (if exitCode res \<noteq> 0
               then (Inr (generateFailedChanges ups (pin rem)
                            (to_error (stderr res) (stdout res) (exec_command res)) (exec_command res)), w')
               else (Inr (generateSuccessfulChanges ups (pin rem)), w')))
       else (Inr (generateSuccessfulChanges ups (pin rem)), w))"

definition pipenvAdd :: "tools \<Rightarrow> entity \<Rightarrow> fix_options \<Rightarrow> string list \<Rightarrow> fix_change list io" where
  "pipenvAdd tls e opts ups =
     tool_add (\<lambda>dir. pipenvInstall tls dir ups (command (ent_options e))) throwPipenvError e opts ups"

definition poetryAdd ::
    "tools \<Rightarrow> entity \<Rightarrow> fix_options \<Rightarrow> string list \<Rightarrow> bool option \<Rightarrow> fix_change list io" where
  "poetryAdd tls e opts ups dev' =
     tool_add (\<lambda>dir. fix_poetryAdd tls dir ups dev' (command (ent_options e))) throwPoetryError e opts ups"

section \<open>Which upgrades\<close>

definition upgrade_spec :: "string \<Rightarrow> pin_remediation \<Rightarrow> string" where
  "upgrade_spec k p =
     standardizePackageName (str_of_opt (at_piece k 0)) @ ''=='' @ str_of_opt (at_piece (upgradeTo p) 1)"

definition pipenv_generateUpgrades :: "entity \<Rightarrow> fix_error + string list" where
  "pipenv_generateUpgrades e =
     bindS (validateRequiredData e) (\<lambda>(rem, _, _). Inr (map (\<lambda>(k, p). upgrade_spec k p) (pin rem)))"

text \<open>The names of the dependencies under a key of \<open>tool.poetry\<close>.\<close>

definition top_level_deps :: "json \<Rightarrow> string \<Rightarrow> fix_error + string list" where
  "top_level_deps toml key =
     (case bindS (bindS (json_prop toml ''tool'') (\<lambda>t. json_prop t ''poetry'')) (\<lambda>p. json_prop p key) of
        Inl m \<Rightarrow> Inl (OtherError m)
      | Inr deps \<Rightarrow> Inr (map standardizePackageName (json_keys (json_or_empty deps))))"

definition poetry_select :: "entity \<Rightarrow> string list \<Rightarrow> string list \<Rightarrow> dependency_pins \<Rightarrow> string list \<times> string list" where
  "poetry_select e prodTopLevelDeps devTopLevelDeps pins =
     foldl (\<lambda>(ups, devUpgrades) (k, p).
              (let name = str_of_opt (at_piece k 0); up = upgrade_spec k p in
               if isTransitive p \<or> name \<in> set prodTopLevelDeps then (ups @ [up], devUpgrades)
               else if name \<in> set prodTopLevelDeps then (ups @ [up], devUpgrades)
               else if dev (ent_options e) = Some True \<and> name \<in> set devTopLevelDeps
                 then (ups, devUpgrades @ [up])
               else (ups, devUpgrades)))
       ([], []) pins"

definition poetry_generateUpgrades :: "tools \<Rightarrow> entity \<Rightarrow> (string list \<times> string list) io" where
  "poetry_generateUpgrades tls e =
     bindE (lift (validateRequiredData e)) (\<lambda>(rem, target, ws) w.
       let dir = path_dir (path_resolve (cwd w) [ws_path (ent_workspace e), target]) in
       bindE (readFile ws (path_resolve (cwd w) [dir, ''pyproject.toml''])) (\<lambda>raw.
       bindE (lift (toml_parse tls raw)) (\<lambda>toml.
       bindE (lift (top_level_deps toml ''dependencies'')) (\<lambda>prod.
       bindE (lift (top_level_deps toml ''dev-dependencies'')) (\<lambda>dev'.
       ret (poetry_select e prod dev' (pin rem)))))) w)"

section \<open>One entity\<close>

text \<open>The end of every \<open>try\<close> block, and its \<open>catch\<close>.\<close>

definition settle :: "entity \<Rightarrow> fix_change list \<Rightarrow> plugin_response io" where
  "settle e changes =
     (if changes = [] then throw (NoFixesCouldBeAppliedError None None)
      else if \<not> list_ex isSuccessfulChange changes
        then ret (empty_response\<lparr>failed := [FailedChanges e changes]\<rparr>)
      else ret (empty_response\<lparr>succeeded := [\<lparr>wc_original = e, wc_changes = changes\<rparr>]\<rparr>))"

definition give_up :: "entity \<Rightarrow> fix_error \<Rightarrow> plugin_response io" where
  "give_up e err = ret (empty_response\<lparr>failed := [FailedError e err (error_tip err)]\<rparr>)"

abbreviation no_updates :: fix_error where
  "no_updates \<equiv> NoFixesCouldBeAppliedError (Some ''Failed to calculate package updates to apply'') None"

definition pipenv_fixAll :: "tools \<Rightarrow> entity \<Rightarrow> fix_options \<Rightarrow> plugin_response io" where
  "pipenv_fixAll tls e opts =
     catchE
       (bindE (lift (pipenv_generateUpgrades e)) (\<lambda>ups.
          if ups = [] then throw no_updates
          else bindE (pipenvAdd tls e opts ups) (settle e)))
       (give_up e)"

definition pipenv_fixSequentially :: "tools \<Rightarrow> entity \<Rightarrow> fix_options \<Rightarrow> plugin_response io" where
  "pipenv_fixSequentially tls e opts =
     bindE (lift (pipenv_generateUpgrades e)) (\<lambda>ups.
       catchE
         (if ups = [] then throw no_updates
          else bindE (mapE (\<lambda>up. pipenvAdd tls e opts [up]) ups) (\<lambda>css. settle e (concat css)))
         (give_up e))"

definition pipenv_updateDependencies :: "tools \<Rightarrow> entity \<Rightarrow> fix_options \<Rightarrow> plugin_response io" where
  "pipenv_updateDependencies tls e opts =
     (if sequentialFix opts then pipenv_fixSequentially tls e opts else pipenv_fixAll tls e opts)"

definition poetry_fixAll :: "tools \<Rightarrow> entity \<Rightarrow> fix_options \<Rightarrow> plugin_response io" where
  "poetry_fixAll tls e opts =
     bindE (poetry_generateUpgrades tls e) (\<lambda>(ups, devUpgrades).
       catchE
         (if ups @ devUpgrades = [] then throw no_updates
          else
            bindE (if ups \<noteq> [] then poetryAdd tls e opts ups None else ret []) (\<lambda>cs.
            bindE (if devUpgrades \<noteq> [] then poetryAdd tls e opts devUpgrades (Some True) else ret []) (\<lambda>ds.
            settle e (cs @ ds))))
         (give_up e))"

definition poetry_fixSequentially :: "tools \<Rightarrow> entity \<Rightarrow> fix_options \<Rightarrow> plugin_response io" where
  "poetry_fixSequentially tls e opts =
     bindE (poetry_generateUpgrades tls e) (\<lambda>(ups, devUpgrades).
       catchE
         (if ups @ devUpgrades = [] then throw no_updates
          else
            bindE (mapE (\<lambda>up. poetryAdd tls e opts [up] None) ups) (\<lambda>css.
            bindE (mapE (\<lambda>up. poetryAdd tls e opts [up] (Some True)) devUpgrades) (\<lambda>dss.
            settle e (concat css @ concat dss))))
         (give_up e))"

definition poetry_updateDependencies :: "tools \<Rightarrow> entity \<Rightarrow> fix_options \<Rightarrow> plugin_response io" where
  "poetry_updateDependencies tls e opts =
     (if sequentialFix opts then poetry_fixSequentially tls e opts else poetry_fixAll tls e opts)"

section \<open>The handlers\<close>

definition each_entity :: "(entity \<Rightarrow> plugin_response io) \<Rightarrow> entity list \<Rightarrow> plugin_response io" where
  "each_entity f es = foldE (\<lambda>e acc. bindE (f e) (\<lambda>r. ret (add_response acc r))) es empty_response"

definition pipenvPipfile :: "tools \<Rightarrow> entity list \<Rightarrow> fix_options \<Rightarrow> plugin_response io" where
  "pipenvPipfile tls fixable opts =
     bindE (checkPackageToolSupported tls Pipenv) (\<lambda>_.
       each_entity (\<lambda>e. pipenv_updateDependencies tls e opts) fixable)"

definition poetry :: "tools \<Rightarrow> entity list \<Rightarrow> fix_options \<Rightarrow> plugin_response io" where
  "poetry tls fixable opts =
     bindE (checkPackageToolSupported tls Poetry) (\<lambda>_.
       each_entity (\<lambda>e. poetry_updateDependencies tls e opts) fixable)"

section \<open>Outcome of a tool run\<close>

lemma tool_add_outcome:
  assumes "validateRequiredData e = Inr (rem, t, ws)"
  shows "\<exists>cs w'. tool_add run to_error e opts ups w = (Inr cs, w') \<and>
    (cs = generateSuccessfulChanges ups (pin rem) \<or>
     (\<exists>err cmd. cs = generateFailedChanges ups (pin rem) err cmd))"
  using assms by (auto simp: tool_add_def bindE_def Let_def split: prod.splits sum.splits)

lemma tool_add_invalid:
  "validateRequiredData e = Inl err \<Longrightarrow> tool_add run to_error e opts ups w = (Inl err, w)"
  by (simp add: tool_add_def bindE_def)

lemma tool_add_dry: "dryRun opts \<Longrightarrow> snd (tool_add run to_error e opts ups w) = w"
  by (cases "validateRequiredData e") (auto simp: tool_add_def bindE_def Let_def split: prod.splits)

lemma keeps_tool_add: "dryRun opts \<Longrightarrow> keeps P (tool_add run to_error e opts ups)"
  by (rule keeps_of_snd) (rule tool_add_dry)

section \<open>Every entity is accounted for\<close>

lemma accounted_settle: "settle e cs w = (Inr r, w') \<Longrightarrow> accounted r = {#e#}"
  by (auto simp: settle_def accounted_def empty_response_def split: if_splits)

lemma accounted_give_up: "give_up e err w = (Inr r, w') \<Longrightarrow> accounted r = {#e#}"
  by (auto simp: give_up_def accounted_def empty_response_def)

lemma catchE_InrE:
  assumes "catchE m h s = (Inr y, s'')"
  obtains "m s = (Inr y, s'')" | err s' where "m s = (Inl err, s')" and "h err s' = (Inr y, s'')"
  using assms by (auto simp: catchE_def split: prod.splits sum.splits)

lemma accounted_try:
  assumes "catchE m (give_up e) w = (Inr r, w')"
    and "\<And>w r w'. m w = (Inr r, w') \<Longrightarrow> accounted r = {#e#}"
  shows "accounted r = {#e#}"
  using assms(1) by (rule catchE_InrE) (auto dest: assms(2) accounted_give_up)

lemma accounted_pipenv:
  assumes "pipenv_updateDependencies tls e opts w = (Inr r, w')"
  shows "accounted r = {#e#}"
proof (cases "sequentialFix opts")
  case True
  have "accounted r = {#e#}" if "pipenv_fixSequentially tls e opts w = (Inr r, w')"
    using that unfolding pipenv_fixSequentially_def
    by (auto elim!: bindE_InrE accounted_try dest: accounted_settle split: if_splits)
  with assms True show ?thesis by (simp add: pipenv_updateDependencies_def)
next
  case False
  have "accounted r = {#e#}" if "pipenv_fixAll tls e opts w = (Inr r, w')"
    using that unfolding pipenv_fixAll_def
    by (auto elim!: accounted_try bindE_InrE dest: accounted_settle split: if_splits)
  with assms False show ?thesis by (simp add: pipenv_updateDependencies_def)
qed

lemma accounted_poetry:
  assumes "poetry_updateDependencies tls e opts w = (Inr r, w')"
  shows "accounted r = {#e#}"
proof (cases "sequentialFix opts")
  case True
  have "accounted r = {#e#}" if "poetry_fixSequentially tls e opts w = (Inr r, w')"
    using that unfolding poetry_fixSequentially_def case_prod_unfold
    by (auto elim!: bindE_InrE accounted_try dest: accounted_settle split: if_splits)
  with assms True show ?thesis by (simp add: poetry_updateDependencies_def)
next
  case False
  have "accounted r = {#e#}" if "poetry_fixAll tls e opts w = (Inr r, w')"
    using that unfolding poetry_fixAll_def case_prod_unfold
    by (auto elim!: bindE_InrE accounted_try dest: accounted_settle split: if_splits)
  with assms False show ?thesis by (simp add: poetry_updateDependencies_def)
qed

lemma foldE_count:
  assumes step: "\<And>x a s a' s'. f x a s = (Inr a', s') \<Longrightarrow> g a' = g a + h x"
  shows "foldE f xs acc s = (Inr r, s') \<Longrightarrow> g r = g acc + (\<Sum>x\<leftarrow>xs. h x)"
proof (induction xs arbitrary: acc s)
  case Nil
  then show ?case by simp
next
  case (Cons x xs)
  from Cons.prems obtain a t where "f x acc s = (Inr a, t)" "foldE f xs a t = (Inr r, s')"
    by (auto elim: bindE_InrE)
  with Cons.IH step show ?case by (simp add: add.assoc)
qed

lemma accounted_each_entity:
  assumes "each_entity f es w = (Inr r, w')"
    and "\<And>e w r w'. f e w = (Inr r, w') \<Longrightarrow> accounted r = {#e#}"
  shows "accounted r = mset es"
proof -
  have "accounted r = accounted empty_response + (\<Sum>e\<leftarrow>es. {#e#})"
    using assms(1) unfolding each_entity_def
    by (rule foldE_count [rotated, where g = accounted]) (auto elim!: bindE_InrE dest!: assms(2))
  then show ?thesis by (simp add: sum_list_single [where f = "\<lambda>x. x", simplified])
qed

section \<open>Dry runs\<close>

lemma keeps_settle: "keeps P (settle e cs)"
  unfolding settle_def by (intro frame_intros)

lemma keeps_give_up: "keeps P (give_up e err)"
  unfolding give_up_def by (intro frame_intros)

lemma keeps_poetry_generateUpgrades: "keeps P (poetry_generateUpgrades tls e)"
proof -
  have "quiet (poetry_generateUpgrades tls e)"
    by (auto simp: quiet_def poetry_generateUpgrades_def bindE_def Let_def readFile_def
        split: sum.splits prod.splits option.splits)
  then show ?thesis by (rule keeps_quiet)
qed

lemmas keeps_steps = frame_intros keeps_settle keeps_give_up keeps_poetry_generateUpgrades

lemma keeps_updateDependencies:
  assumes "dryRun opts"
  shows "keeps P (pipenv_updateDependencies tls e opts)" "keeps P (poetry_updateDependencies tls e opts)"
  unfolding pipenv_updateDependencies_def pipenv_fixAll_def pipenv_fixSequentially_def pipenvAdd_def
    poetry_updateDependencies_def poetry_fixAll_def poetry_fixSequentially_def poetryAdd_def
  by (intro keeps_steps keeps_tool_add [OF assms])+

lemma keeps_each_entity: "(\<And>e. keeps P (f e)) \<Longrightarrow> keeps P (each_entity f es)"
  unfolding each_entity_def by (intro frame_intros)

text \<open>What a dry run needs of a tool: asking it for its version changes nothing.\<close>

definition version_quiet :: "tools \<Rightarrow> package_tool \<Rightarrow> bool" where
  "version_quiet tls t = quiet (tool_installed tls t)"

lemma keeps_check: "version_quiet tls t \<Longrightarrow> keeps P (checkPackageToolSupported tls t)"
  unfolding checkPackageToolSupported_def version_quiet_def by (intro frame_intros keeps_quiet)

lemma tool_handlers_keep:
  assumes "dryRun opts"
  shows "version_quiet tls Pipenv \<Longrightarrow> keeps P (pipenvPipfile tls es opts)"
    and "version_quiet tls Poetry \<Longrightarrow> keeps P (poetry tls es opts)"
  unfolding pipenvPipfile_def poetry_def
  by (intro frame_intros keeps_check keeps_each_entity keeps_updateDependencies assms; assumption)+

lemma tool_handlers_account:
  "pipenvPipfile tls es opts w = (Inr r, w') \<Longrightarrow> accounted r = mset es"
  "poetry tls es opts w = (Inr r, w') \<Longrightarrow> accounted r = mset es"
  unfolding pipenvPipfile_def poetry_def
  by (auto elim!: bindE_InrE accounted_each_entity intro: accounted_pipenv accounted_poetry)

lemma keepsD_same:
  assumes "\<And>P. keeps P m" and "m w = (q, w')"
  shows "w' = w"
  using assms(1) [of "\<lambda>s. s = w"] assms(2) by (auto simp: keeps_def dest: spec [of _ w])

interpretation pipenv: fix_handler "version_quiet tls Pipenv" "\<lambda>es opts. liftP (pipenvPipfile tls es opts)" for tls
  by unfold_locales (auto intro: tool_handlers_account keepsD_same tool_handlers_keep)

interpretation poet: fix_handler "version_quiet tls Poetry" "\<lambda>es opts. liftP (poetry tls es opts)" for tls
  by unfold_locales (auto intro: tool_handlers_account keepsD_same tool_handlers_keep)

section \<open>Runs that return\<close>

lemma catchE_give_up_returns: "\<exists>r w'. catchE m (give_up e) w = (Inr r, w')"
  by (auto simp: catchE_def give_up_def split: prod.splits sum.splits)

lemma pipenv_update_returns:
  assumes "\<not> sequentialFix opts \<or> \<not> isl (validateRequiredData e)"
  shows "\<exists>r w'. pipenv_updateDependencies tls e opts w = (Inr r, w')"
proof (cases "sequentialFix opts")
  case True
  with assms obtain ups where u: "pipenv_generateUpgrades e = Inr ups"
    by (cases "validateRequiredData e") (auto simp: pipenv_generateUpgrades_def)
  with True show ?thesis
    unfolding pipenv_updateDependencies_def pipenv_fixSequentially_def
    by (simp add: u catchE_give_up_returns)
next
  case False
  then show ?thesis
    unfolding pipenv_updateDependencies_def pipenv_fixAll_def
    by (simp add: catchE_give_up_returns)
qed

lemma each_entity_returns:
  assumes "\<And>e w. e \<in> set es \<Longrightarrow> \<exists>r w'. f e w = (Inr r, w')"
  shows "\<exists>r w'. each_entity f es w = (Inr r, w')"
proof -
  have "\<exists>r w'. foldE (\<lambda>e acc. bindE (f e) (\<lambda>r. ret (add_response acc r))) es acc w = (Inr r, w')" for acc
    using assms
  proof (induction es arbitrary: acc w)
    case Nil
    then show ?case by simp
  next
    case (Cons e es)
    from Cons.prems [of e w] obtain r w' where r: "f e w = (Inr r, w')" by auto
    from Cons.IH [of "add_response acc r" w'] Cons.prems show ?case
      by (simp add: bindE_def r)
  qed
  then show ?thesis by (simp add: each_entity_def)
qed

section \<open>Properties\<close>



text \<open>the poetry handler loses no entity: whenever it returns, every entity it was given is in
  exactly one list of the response, in both modes.\<close>

theorem poetry_accounts_all:
  assumes "poetry tls es opts w = (Inr r, w')"
  shows "mset (map wc_original (succeeded r)) + mset (map failed_original (failed r)) +
         mset (map wm_original (skipped r)) = mset es"
  using tool_handlers_account(2) [OF assms] by (simp add: accounted_def)

lemma poetry_accounts_all_witness:
  "\<exists>r w'. poetry sample_tools [] (sample_opts False) sample_world = (Inr r, w') \<and>
     mset (map wc_original (succeeded r)) + mset (map failed_original (failed r)) +
     mset (map wm_original (skipped r)) = mset []"
proof -
  obtain r w' where r: "poetry sample_tools [] (sample_opts False) sample_world = (Inr r, w')"
    by (simp add: poetry_def each_entity_def checkPackageToolSupported_def tool_installed_def
        sample_tools_def bindE_def)
  from poetry_accounts_all [OF r] r show ?thesis by blast
qed

text \<open>a dry run of the Pipfile or the poetry handler runs no package command: apart from the
  version check nothing can change the world, which is the same after the run, returned or
  thrown.\<close>

theorem tool_handlers_dry_run:
  assumes "dryRun opts" "version_quiet tls Pipenv" "version_quiet tls Poetry"
  shows "snd (pipenvPipfile tls es opts w) = w \<and> snd (poetry tls es opts w) = w"
  using pipenv.dry [OF assms(2,1)] poet.dry [OF assms(3,1)] by (metis liftP_apply surjective_pairing)

lemma tool_handlers_dry_run_witness:
  "snd (pipenvPipfile sample_tools [sample_entity ''pip'' ''Pipfile''] (sample_opts True) sample_world) = sample_world \<and>
   snd (poetry sample_tools [sample_entity ''pip'' ''Pipfile''] (sample_opts True) sample_world) = sample_world"
  by (rule tool_handlers_dry_run)
     (simp_all add: sample_opts_def version_quiet_def tool_installed_def sample_tools_def quiet_def)

text \<open>a tool that ends with a code other than zero makes only failed changes, one for each
  remediation entry that was attempted, with the reason and the command of the error.\<close>

theorem pipenv_command_failure:
  assumes "validateRequiredData e = Inr (rem, t, ws)" "\<not> dryRun opts" "ups \<noteq> []"
    and "pipenvInstall tls (path_dir (path_resolve (cwd w) [ws_path (ent_workspace e), t])) ups
           (command (ent_options e)) w = (Inr res, w')"
    and "exitCode res \<noteq> 0"
  shows "\<exists>cs. pipenvAdd tls e opts ups w = (Inr cs, w') \<and> list_all (\<lambda>c. \<not> success c) cs \<and>
    map chg_from cs = map Some (obj_keys (filter (\<lambda>(k, p). attempted ups p) (pin rem))) \<and>
    list_all (\<lambda>c. reason c = error_message (throwPipenvError (stderr res) (stdout res) (exec_command res))) cs"
  using assms
  by (auto simp: pipenvAdd_def tool_add_def bindE_def Let_def generateFailedChanges_def list_all_iff
      failed_change_def obj_keys_def)

lemma pipenv_command_failure_witness:
  "\<exists>cs. pipenvAdd (sample_tools\<lparr>pipenvInstall := \<lambda>_ _ _. ret (sample_exec 1 ''Locking Failed!'')\<rparr>)
      (sample_entity ''pip'' ''Pipfile'') (sample_opts False) [''foo==1.2.0''] sample_world = (Inr cs, sample_world) \<and>
    list_all (\<lambda>c. \<not> success c) cs \<and>
    map chg_from cs = map Some (obj_keys (filter (\<lambda>(k, p). attempted [''foo==1.2.0''] p) (pin sample_remediation)))"
proof -
  have v: "validateRequiredData (sample_entity ''pip'' ''Pipfile'') = Inr (sample_remediation, ''Pipfile'', sample_ws)"
    by (simp add: validateRequiredData_def sample_entity_def)
  have nd: "\<not> dryRun (sample_opts False)" by (simp add: sample_opts_def)
  show ?thesis
    using pipenv_command_failure [OF v nd, of "[''foo==1.2.0'']"
        "sample_tools\<lparr>pipenvInstall := \<lambda>_ _ _. ret (sample_exec 1 ''Locking Failed!'')\<rparr>" sample_world
        "sample_exec 1 ''Locking Failed!''" sample_world]
    by (auto simp: sample_exec_def)
qed

text \<open>The poetry handler sorts each remediation entry at most once: production upgrades are the
  transitive entries and those whose name is a production dependency, development upgrades are
  the others named in the development dependencies when the option is on, in order.\<close>

theorem poetry_select_spec:
  "poetry_select e pd dv pins =
     (map (\<lambda>(k, p). upgrade_spec k p)
        (filter (\<lambda>(k, p). isTransitive p \<or> str_of_opt (at_piece k 0) \<in> set pd) pins),
      map (\<lambda>(k, p). upgrade_spec k p)
        (filter (\<lambda>(k, p). \<not> (isTransitive p \<or> str_of_opt (at_piece k 0) \<in> set pd) \<and>
                   dev (ent_options e) = Some True \<and> str_of_opt (at_piece k 0) \<in> set dv) pins))"
proof -
  let ?P = "\<lambda>(k, p). isTransitive p \<or> str_of_opt (at_piece k 0) \<in> set pd"
  let ?Q = "\<lambda>(k, p). dev (ent_options e) = Some True \<and> str_of_opt (at_piece k 0) \<in> set dv"
  let ?f = "\<lambda>(k, p). upgrade_spec k p"
  have "(\<lambda>(ups, devUpgrades) (k, p).
              (let name = str_of_opt (at_piece k 0); up = upgrade_spec k p in
               if isTransitive p \<or> name \<in> set pd then (ups @ [up], devUpgrades)
               else if name \<in> set pd then (ups @ [up], devUpgrades)
               else if dev (ent_options e) = Some True \<and> name \<in> set dv
                 then (ups, devUpgrades @ [up])
               else (ups, devUpgrades))) =
        (\<lambda>(u, d) x. if ?P x then (u @ [?f x], d) else if ?Q x then (u, d @ [?f x]) else (u, d))"
    by (auto simp: fun_eq_iff Let_def simp del: at_piece_0)
  then have "poetry_select e pd dv pins =
      ([] @ map ?f (filter ?P pins), [] @ map ?f (filter (\<lambda>x. \<not> ?P x \<and> ?Q x) pins))"
    unfolding poetry_select_def by (simp only: foldl_three_way)
  moreover have "filter (\<lambda>x. \<not> ?P x \<and> ?Q x) pins =
      filter (\<lambda>(k, p). \<not> (isTransitive p \<or> str_of_opt (at_piece k 0) \<in> set pd) \<and>
                   dev (ent_options e) = Some True \<and> str_of_opt (at_piece k 0) \<in> set dv) pins"
    by (rule filter_cong) (auto simp del: at_piece_0)
  ultimately show ?thesis by (simp only: append_Nil)
qed

text \<open>the list of changes compares the upgrade target as it is written with the standardised
  specifications that were installed, so a successful installation of a package whose target is
  written with a capital is reported as a failure.\<close>

theorem pipenv_capital_lost:
  assumes "validateRequiredData e = Inr (rem, t, ws)" "\<not> sequentialFix opts"
    and "pin rem = [(''Jinja2@2.7.2'', p)]" "upgradeTo p = ''Jinja2@2.7.3''"
    and "\<And>dir py w. pipenvInstall tls dir [''jinja2==2.7.3''] py w = (Inr (sample_exec 0 []), w)"
  shows "pipenv_updateDependencies tls e opts w =
    (Inr (empty_response\<lparr>failed := [FailedError e (NoFixesCouldBeAppliedError None None) None]\<rparr>), w)"
proof -
  have "standardizePackageName (str_of_opt (at_piece ''Jinja2@2.7.2'' 0)) = ''jinja2''" by code_simp
  moreover have "str_of_opt (at_piece ''Jinja2@2.7.3'' 1) = ''2.7.3''" by code_simp
  ultimately have "upgrade_spec ''Jinja2@2.7.2'' p = ''jinja2==2.7.3''"
    by (simp only: upgrade_spec_def assms(4)) simp
  then have ups: "pipenv_generateUpgrades e = Inr [''jinja2==2.7.3'']"
    using assms(1,3) by (simp add: pipenv_generateUpgrades_def)
  have "js_replace_first ''=='' ''@'' ''jinja2==2.7.3'' \<noteq> ''Jinja2@2.7.3''" by code_simp
  then have "generateSuccessfulChanges [''jinja2==2.7.3''] (pin rem) = []"
    using assms(3,4) by (simp add: generateSuccessfulChanges_def attempted_def)
  moreover have "exitCode (sample_exec 0 []) = 0" by (simp add: sample_exec_def)
  ultimately have "pipenvAdd tls e opts [''jinja2==2.7.3''] w = (Inr [], w)"
    using assms(1,5) by (simp add: pipenvAdd_def tool_add_def bindE_def Let_def)
  with ups assms(2) show ?thesis
    by (simp add: pipenv_updateDependencies_def pipenv_fixAll_def bindE_def catchE_def settle_def give_up_def)
qed

lemma pipenv_capital_lost_witness:
  "\<exists>e. pipenv_updateDependencies sample_tools e (sample_opts False) sample_world =
    (Inr (empty_response\<lparr>failed := [FailedError e (NoFixesCouldBeAppliedError None None) None]\<rparr>), sample_world)"
proof -
  let ?rem = "sample_remediation\<lparr>pin := [(''Jinja2@2.7.2'', sample_pin ''Jinja2@2.7.3'' False)]\<rparr>"
  let ?e = "(sample_entity ''pip'' ''Pipfile'')\<lparr>testResult :=
     (testResult (sample_entity ''pip'' ''Pipfile''))\<lparr>remediation := Some ?rem\<rparr>\<rparr>"
  have v: "validateRequiredData ?e = Inr (?rem, ''Pipfile'', sample_ws)"
    by (simp add: validateRequiredData_def sample_entity_def)
  have "pipenv_updateDependencies sample_tools ?e (sample_opts False) sample_world =
    (Inr (empty_response\<lparr>failed := [FailedError ?e (NoFixesCouldBeAppliedError None None) None]\<rparr>), sample_world)"
    by (rule pipenv_capital_lost [OF v, where p = "sample_pin ''Jinja2@2.7.3'' False"])
       (simp_all add: sample_opts_def sample_pin_def sample_tools_def)
  then show ?thesis by blast
qed

text \<open>A version solving failure that poetry prints on its standard output is reported as an
  incompatible Python requirement: the second test of the incompatibility uses the pattern of the
  solver problem.\<close>

theorem poetry_solver_misreported:
  "throwPoetryError [] ''SolverProblemError: a depends on b, version solving failed'' None =
     CommandFailedError
       (''The current project'' @ [CHR 0x27] @ ''s Python requirement : a depends on b, version solving failed is not compatible with some of the required packages'')
       None"
  by code_simp

end
