(* ===== verification/PythonPlugin.thy ===== *)
theory PythonPlugin
  imports ToolHandlers
begin

text \<open>
  The Python plugin of \<open>packages/vulnmap-fix/src/plugins/python\<close>: which handler an entity
  belongs to (\<open>get-handler-type.ts\<close>, \<open>supported-handler-types.ts\<close>), the grouping
  (\<open>map-entities-per-handler-type.ts\<close>), the choice of the handler (\<open>load-handler.ts\<close>) and the
  plugin itself (\<open>index.ts\<close>).
\<close>

section \<open>Handler types\<close>

datatype handler_type = REQUIREMENTS | PIPFILE | POETRY

primrec handler_type_str :: "handler_type \<Rightarrow> string" where
  "handler_type_str REQUIREMENTS = ''requirements.txt''"
| "handler_type_str PIPFILE = ''Pipfile''"
| "handler_type_str POETRY = ''pyproject.toml''"

definition isRequirementsTxtManifest :: "string \<Rightarrow> bool" where
  "isRequirementsTxtManifest target = js_endsWith target ''.txt''"

definition getTypeFromPackageManager :: "string \<Rightarrow> handler_type option" where
  "getTypeFromPackageManager pm =
     (if pm = ''pip'' then Some REQUIREMENTS
      else if pm = ''poetry'' then Some POETRY
      else None)"

definition getHandlerType :: "entity \<Rightarrow> handler_type option" where
  "getHandlerType e =
     (let target = targetFile (identity (scanResult e));
          override = packageManager (ent_options e) in
      if \<not> truthy target then None
      else if truthy override then getTypeFromPackageManager (the override)
      else
        (let base = snd (path_parse (the target)) in
         if isRequirementsTxtManifest (the target) then Some REQUIREMENTS
         else if base \<in> set [''Pipfile''] then Some PIPFILE
         else if base \<in> set [''pyproject.toml'', ''poetry.lock''] then Some POETRY
         else None))"

section \<open>Grouping\<close>

type_synonym entities_per_type = "(handler_type \<times> entity list) list"

definition push_type :: "handler_type \<Rightarrow> entity \<Rightarrow> entities_per_type \<Rightarrow> entities_per_type" where
  "push_type t e g = map (\<lambda>(u, es). if u = t then (u, es @ [e]) else (u, es)) g"

definition mapEntitiesPerHandlerType :: "entity list \<Rightarrow> with_message list \<times> entities_per_type" where
  "mapEntitiesPerHandlerType es =
     foldl (\<lambda>(skip, g) e.
              (case getHandlerType e of
                 Some t \<Rightarrow> (skip, push_type t e g)
               | None \<Rightarrow>
                   (skip @ [\<lparr>wm_original = e,
                             wm_message = str_of_opt (targetFile (identity (scanResult e))) @ '' is not supported''\<rparr>],
                    g)))
       ([], [(REQUIREMENTS, []), (PIPFILE, []), (POETRY, [])]) es"

section \<open>The plugin\<close>

definition loadHandler :: "nat \<Rightarrow> tools \<Rightarrow> handler_type \<Rightarrow> handler" where
  "loadHandler n tls t =
     (case t of
        REQUIREMENTS \<Rightarrow> pipRequirementsTxt n tls
      | PIPFILE \<Rightarrow> (\<lambda>es opts. liftP (pipenvPipfile tls es opts))
      | POETRY \<Rightarrow> (\<lambda>es opts. liftP (poetry tls es opts)))"

definition generateFailed :: "entity list \<Rightarrow> fix_error \<Rightarrow> failed_to_fix list" where
  "generateFailed projects err = map (\<lambda>p. FailedError p err None) projects"

text \<open>
  The callback of \<open>pMap\<close> for one type. The entities that are not fixable are pushed before the
  handler runs, so they stay when the \<open>catch\<close> adds the whole group to the failed ones.
\<close>

definition python_step ::
    "nat \<Rightarrow> tools \<Rightarrow> fix_options \<Rightarrow> entities_per_type \<Rightarrow> handler_type \<Rightarrow> plugin_response \<Rightarrow>
     (fix_error, world, plugin_response) peff" where
  "python_step n tls opts g t results =
     (let projectsToFix = (case map_of g t of None \<Rightarrow> [] | Some es \<Rightarrow> es) in
      if projectsToFix = [] then liftP (ret results)
      else
        (let (notFixable, fixable) = partitionByFixable projectsToFix;
             pushed = add_response results (empty_response\<lparr>skipped := notFixable\<rparr>) in
         catchP
           (bindP (loadHandler n tls t fixable opts) (\<lambda>r. liftP (ret (add_response pushed r))))
           (\<lambda>err. liftP (ret (add_response pushed
                     (empty_response\<lparr>failed := generateFailed projectsToFix err\<rparr>))))))"

text \<open>
  \<open>pMap\<close> runs the callbacks of all types; the model runs them one after the other in any order
  \<open>order\<close>, so the interleaving of two handlers on the disk is not modelled.
\<close>

definition pythonFix ::
    "nat \<Rightarrow> tools \<Rightarrow> handler_type list \<Rightarrow> entity list \<Rightarrow> fix_options \<Rightarrow>
     (fix_error, world, plugin_response obj) peff" where
  "pythonFix n tls order entities opts =
     (let (notSupported, entitiesPerType) = mapEntitiesPerHandlerType entities in
      bindP (foldP (python_step n tls opts entitiesPerType) order
               (add_response empty_response (empty_response\<lparr>skipped := notSupported\<rparr>)))
        (\<lambda>results. liftP (ret [(''python'', results)])))"

section \<open>The handlers keep the contract\<close>

definition tools_ok :: "tools \<Rightarrow> bool" where
  "tools_ok tls \<longleftrightarrow> lodash_ok tls \<and> version_quiet tls Pipenv \<and> version_quiet tls Poetry"

interpretation handlers: fix_handler "tools_ok tls" "loadHandler n tls t" for tls n t
proof
  fix es opts w r w' q
  assume ok: "tools_ok tls"
  show "accounted r = mset es" if "loadHandler n tls t es opts w = Some (Inr r, w')"
    using that ok pip.conserves [of tls n es opts w r w'] pipenv.conserves [of tls es opts w r w']
      poet.conserves [of tls es opts w r w']
    by (cases t) (auto simp: loadHandler_def tools_ok_def)
  show "w' = w" if "dryRun opts" "loadHandler n tls t es opts w = Some (q, w')"
    using that ok pip.dry [of tls opts n es w q w'] pipenv.dry [of tls opts es w q w']
      poet.dry [of tls opts es w q w']
    by (cases t) (auto simp: loadHandler_def tools_ok_def)
qed

section \<open>Groups\<close>

definition of_type :: "handler_type \<Rightarrow> entity list \<Rightarrow> entity list" where
  "of_type t es = filter (\<lambda>e. getHandlerType e = Some t) es"

lemma map_of_push: "map_of (push_type t e g) u =
   (if u = t then map_option (\<lambda>es. es @ [e]) (map_of g u) else map_of g u)"
  by (induction g) (auto simp: push_type_def)

lemma keys_push: "map fst (push_type t e g) = map fst g"
  by (induction g) (auto simp: push_type_def)

lemma mapEntities_gen:
  assumes "map fst g = [REQUIREMENTS, PIPFILE, POETRY]"
  shows "foldl (\<lambda>(skip, g) e.
              (case getHandlerType e of
                 Some t \<Rightarrow> (skip, push_type t e g)
               | None \<Rightarrow>
                   (skip @ [\<lparr>wm_original = e,
                             wm_message = str_of_opt (targetFile (identity (scanResult e))) @ '' is not supported''\<rparr>],
                    g))) (skip, g) es = (skip', g') \<Longrightarrow>
    map fst g' = [REQUIREMENTS, PIPFILE, POETRY] \<and>
    map wm_original skip' = map wm_original skip @ filter (\<lambda>e. getHandlerType e = None) es \<and>
    (\<forall>t. map_of g' t = map_option (\<lambda>xs. xs @ of_type t es) (map_of g t))"
  using assms
proof (induction es arbitrary: skip g)
  case Nil
  then show ?case by (auto simp: of_type_def option.map_ident)
next
  case (Cons e es)
  show ?case
  proof (cases "getHandlerType e")
    case None
    with Cons.IH [OF _ Cons.prems(2)] Cons.prems(1) show ?thesis by (force simp: of_type_def)
  next
    case (Some t)
    have k: "map fst (push_type t e g) = [REQUIREMENTS, PIPFILE, POETRY]"
      using Cons.prems(2) by (simp add: keys_push)
    from Cons.IH [OF _ k] Cons.prems(1) Some show ?thesis
      by (auto simp: of_type_def map_of_push option.map_comp comp_def)
  qed
qed

lemma mapEntities_spec:
  assumes "mapEntitiesPerHandlerType es = (skip, g)"
  shows "map wm_original skip = filter (\<lambda>e. getHandlerType e = None) es"
    and "map_of g t = Some (of_type t es)"
proof -
  note spec = mapEntities_gen [of "[(REQUIREMENTS, []), (PIPFILE, []), (POETRY, [])]" "[]" es skip g]
  show "map wm_original skip = filter (\<lambda>e. getHandlerType e = None) es"
    using spec assms by (simp add: mapEntitiesPerHandlerType_def)
  show "map_of g t = Some (of_type t es)"
    using spec assms by (cases t) (simp_all add: mapEntitiesPerHandlerType_def)
qed

lemma mset_of_types:
  "mset (filter (\<lambda>e. getHandlerType e = None) es) +
   (mset (of_type REQUIREMENTS es) + mset (of_type PIPFILE es) + mset (of_type POETRY es)) = mset es"
proof (induction es)
  case (Cons e es)
  show ?case
  proof (cases "getHandlerType e")
    case (Some t)
    with Cons show ?thesis by (cases t) (auto simp: of_type_def)
  qed (use Cons in \<open>auto simp: of_type_def\<close>)
qed (simp add: of_type_def)

section \<open>What the plugin accounts for\<close>

lemma accounted_skip [simp]: "accounted (empty_response\<lparr>skipped := s\<rparr>) = mset (map wm_original s)"
  by (simp add: accounted_def empty_response_def)

lemma accounted_generateFailed [simp]:
  "accounted (empty_response\<lparr>failed := generateFailed es err\<rparr>) = mset es"
  by (simp add: accounted_def empty_response_def generateFailed_def comp_def)

definition group_of :: "entities_per_type \<Rightarrow> handler_type \<Rightarrow> entity list" where
  "group_of g t = (case map_of g t of None \<Rightarrow> [] | Some es \<Rightarrow> es)"

text \<open>
  One step adds its group, and, when the handler throws, once more the entities of the group
  that are not fixable.
\<close>

lemma python_step_accounts:
  assumes "tools_ok tls" "python_step n tls opts g t r w = Some (Inr r', w')"
  shows "\<exists>X. X \<subseteq># mset (filter (\<lambda>e. isSupported e \<noteq> None) (group_of g t)) \<and>
    accounted r' = accounted r + mset (group_of g t) + X"
proof (cases "group_of g t = []")
  case True
  with assms(2) show ?thesis by (auto simp: python_step_def group_of_def Let_def)
next
  case False
  let ?es = "group_of g t"
  obtain skip fixable where p: "partitionByFixable ?es = (skip, fixable)" by fastforce
  from p have skip: "mset (map wm_original skip) = mset (filter (\<lambda>e. isSupported e \<noteq> None) ?es)"
    by (auto simp: partitionByFixable_eq comp_def multiset.map_comp)
  note part = partitionByFixable_mset [OF p]
  from assms(2) False p have
    c: "catchP (bindP (loadHandler n tls t fixable opts)
                  (\<lambda>q. liftP (ret (add_response (add_response r (empty_response\<lparr>skipped := skip\<rparr>)) q))))
       (\<lambda>err. liftP (ret (add_response (add_response r (empty_response\<lparr>skipped := skip\<rparr>))
                     (empty_response\<lparr>failed := generateFailed ?es err\<rparr>)))) w = Some (Inr r', w')"
    by (simp add: python_step_def group_of_def Let_def)
  show ?thesis
  proof (cases "loadHandler n tls t fixable opts w")
    case None
    with c show ?thesis by (simp add: catchP_def bindP_def)
  next
    case (Some y)
    obtain x w1 where y: "y = (x, w1)" by fastforce
    show ?thesis
    proof (cases x)
      case (Inl err)
      with c Some y have "accounted r' = accounted r + mset ?es + mset (map wm_original skip)"
        by (auto simp: catchP_def bindP_def ac_simps)
      with skip show ?thesis by auto
    next
      case (Inr q)
      with handlers.conserves [OF assms(1)] Some y have "accounted q = mset fixable" by simp
      moreover from c Some y Inr have "accounted r' = accounted r + mset (map wm_original skip) + accounted q"
        by (auto simp: catchP_def bindP_def)
      ultimately show ?thesis using part by (intro exI [of _ "{#}"]) (simp add: add.assoc)
    qed
  qed
qed

lemma python_step_returns: "python_step n tls opts g t r w \<noteq> Some (Inl err, w')"
  by (auto simp: python_step_def Let_def catchP_def bindP_def split: prod.splits option.splits sum.splits if_splits)

lemma python_fold_accounts:
  assumes "tools_ok tls"
  shows "foldP (python_step n tls opts g) order r w = Some (Inr r', w') \<Longrightarrow>
    \<exists>X. set_mset X \<subseteq> {e. isSupported e \<noteq> None \<and> (\<exists>t\<in>set order. e \<in> set (group_of g t))} \<and>
      accounted r' = accounted r + (\<Sum>t\<leftarrow>order. mset (group_of g t)) + X"
proof (induction order arbitrary: r w)
  case Nil
  then show ?case by (intro exI [of _ "{#}"]) simp
next
  case (Cons t order)
  from Cons.prems obtain a w1 where a: "python_step n tls opts g t r w = Some (Inr a, w1)"
    and rest: "foldP (python_step n tls opts g) order a w1 = Some (Inr r', w')"
    by (auto elim: bindP_SomeE)
  from python_step_accounts [OF assms a] obtain X where
    X: "X \<subseteq># mset (filter (\<lambda>e. isSupported e \<noteq> None) (group_of g t))"
    "accounted a = accounted r + mset (group_of g t) + X" by blast
  from Cons.IH [OF rest] obtain Y where
    Y: "set_mset Y \<subseteq> {e. isSupported e \<noteq> None \<and> (\<exists>t\<in>set order. e \<in> set (group_of g t))}"
    "accounted r' = accounted a + (\<Sum>t\<leftarrow>order. mset (group_of g t)) + Y" by blast
  have "set_mset X \<subseteq> {e. isSupported e \<noteq> None \<and> e \<in> set (group_of g t)}"
    using set_mset_mono [OF X(1)] by auto
  with X(2) Y show ?case by (intro exI [of _ "X + Y"]) (auto simp: ac_simps)
qed

lemma sum_order:
  assumes "mset order = mset [REQUIREMENTS, PIPFILE, POETRY]"
  shows "(\<Sum>t\<leftarrow>order. f t) = (f REQUIREMENTS + f PIPFILE + f POETRY :: 'a :: comm_monoid_add)"
proof -
  have "(\<Sum>t\<leftarrow>order. f t) = sum_mset (image_mset f (mset order))"
    by (metis mset_map sum_mset_sum_list)
  then show ?thesis by (simp add: assms ac_simps)
qed

lemma pythonFix_accounts:
  assumes ok: "tools_ok tls" and order: "mset order = mset [REQUIREMENTS, PIPFILE, POETRY]"
    and run: "pythonFix n tls order es opts w = Some (Inr rs, w')"
  shows "\<exists>r X. rs = [(''python'', r)] \<and> accounted r = mset es + X \<and>
    set_mset X \<subseteq> {e \<in> set es. isSupported e \<noteq> None}"
proof -
  obtain skip g where m: "mapEntitiesPerHandlerType es = (skip, g)" by fastforce
  from run m obtain r where rs: "rs = [(''python'', r)]"
    and f: "foldP (python_step n tls opts g) order (empty_response\<lparr>skipped := skip\<rparr>) w = Some (Inr r, w')"
    by (auto simp: pythonFix_def elim!: bindP_SomeE)
  have grp: "group_of g t = of_type t es" for t
    by (simp add: group_of_def mapEntities_spec(2) [OF m])
  from python_fold_accounts [OF ok f] obtain X where
    X: "set_mset X \<subseteq> {e. isSupported e \<noteq> None \<and> (\<exists>t\<in>set order. e \<in> set (of_type t es))}"
    and a: "accounted r = mset (map wm_original skip) + (\<Sum>t\<leftarrow>order. mset (of_type t es)) + X"
    by (auto simp: grp)
  have "accounted r = mset es + X"
    using a mset_of_types [of es]
    by (simp add: sum_order [OF order] mapEntities_spec(1) [OF m] ac_simps)
  moreover have "set_mset X \<subseteq> {e \<in> set es. isSupported e \<noteq> None}"
    using X by (auto simp: of_type_def)
  ultimately show ?thesis using rs by blast
qed

lemma pythonFix_never_throws: "pythonFix n tls order es opts w \<noteq> Some (Inl err, w')"
proof -
  have "foldP (python_step n tls opts g) order r w \<noteq> Some (Inl err, w')" for g r
  proof (induction order arbitrary: r w)
    case (Cons t order)
    then show ?case using python_step_returns [of n tls opts g t r w]
      by (auto simp: bindP_def split: option.splits prod.splits sum.splits)
  qed simp
  then show ?thesis
    by (auto simp: pythonFix_def bindP_def split: option.splits prod.splits sum.splits)
qed

section \<open>Dry runs\<close>

lemma python_step_keeps:
  assumes "\<And>es. keepsP P (loadHandler n tls t es opts)"
  shows "keepsP P (python_step n tls opts g t r)"
  unfolding python_step_def Let_def by (intro frame_intros assms)

lemma loadHandler_dry:
  assumes "tools_ok tls" "dryRun opts"
  shows "keepsP (\<lambda>s. s = w) (loadHandler n tls t es opts)"
  unfolding keepsP_def using handlers.dry [OF assms] by blast

section \<open>Properties\<close>

text \<open>An entity gets a handler exactly when it has a target file and either a package manager that
  is named and known, or no named one and a target that is a text file, a Pipfile or a poetry
  file; the three kinds exclude each other in this order.\<close>

theorem getHandlerType_spec:
  "getHandlerType e = Some t \<longleftrightarrow>
     (\<exists>f. targetFile (identity (scanResult e)) = Some f \<and> f \<noteq> [] \<and>
       (if truthy (packageManager (ent_options e))
        then (t = REQUIREMENTS \<and> packageManager (ent_options e) = Some ''pip'') \<or>
             (t = POETRY \<and> packageManager (ent_options e) = Some ''poetry'')
        else if js_endsWith f ''.txt'' then t = REQUIREMENTS
        else (t = PIPFILE \<and> path_base f = ''Pipfile'') \<or>
             (t = POETRY \<and> path_base f \<in> {''pyproject.toml'', ''poetry.lock''})))"
  by (cases "targetFile (identity (scanResult e))"; cases "packageManager (ent_options e)")
     (auto simp: getHandlerType_def Let_def getTypeFromPackageManager_def isRequirementsTxtManifest_def
        path_parse_def)


text \<open>a dry run of the plugin leaves the world as it was and does not throw.\<close>

theorem python_dry_run:
  assumes "tools_ok tls" "dryRun opts" "pythonFix n tls order es opts w = Some (q, w')"
  shows "w' = w \<and> \<not> isl q"
proof -
  have "keepsP (\<lambda>s. s = w) (pythonFix n tls order es opts)"
    unfolding pythonFix_def Let_def
    by (intro frame_intros python_step_keeps loadHandler_dry [OF assms(1,2)])
  from keepsPD [OF this refl assms(3)] pythonFix_never_throws [of n tls order es opts w] assms(3) show ?thesis
    by (cases q) auto
qed

lemma tools_ok_sample: "tools_ok sample_tools"
  unfolding tools_ok_def using lodash_sample
  by (simp add: version_quiet_def tool_installed_def) (simp add: sample_tools_def quiet_def)

lemma sample_type: "getHandlerType (sample_entity ty ''requirements.txt'') = Some REQUIREMENTS"
  by (simp add: getHandlerType_def sample_entity_def isRequirementsTxtManifest_def js_endsWith_def)

lemma sample_python_run:
  assumes "order = [REQUIREMENTS, PIPFILE, POETRY]" and "es = [sample_entity ty ''requirements.txt'']"
  shows "\<exists>r. pythonFix 2 sample_tools order es (sample_opts True) sample_world = Some (Inr [(''python'', r)], sample_world)"
proof -
  have d: "dryRun (sample_opts True)" by (simp add: sample_opts_def)
  have "\<forall>e\<in>set es. plain_entity [''requirements.txt'', ''base.txt''] 2 sample_world e"
    using sample_plain by (simp add: assms(2) plain_entity_def sample_entity_def)
  from pip_dry_returns [OF lodash_sample d bspec [OF this]] obtain r where
    r: "pipRequirementsTxt 2 sample_tools es (sample_opts True) sample_world = Some (Inr r, sample_world)" by blast
  have m: "mapEntitiesPerHandlerType es = ([], [(REQUIREMENTS, es), (PIPFILE, []), (POETRY, [])])"
    by (simp add: mapEntitiesPerHandlerType_def assms(2) sample_type push_type_def)
  have p: "partitionByFixable es = ([], es)"
    by (simp add: partitionByFixable_def assms(2) isSupported_def sample_entity_def sample_remediation_def)
  have "es \<noteq> []" by (simp add: assms(2))
  with r m p show ?thesis
    by (simp add: pythonFix_def assms(1) python_step_def Let_def loadHandler_def bindP_def catchP_def)
qed


lemma python_dry_run_witness:
  "\<exists>q. pythonFix 2 sample_tools [REQUIREMENTS, PIPFILE, POETRY] [sample_entity ''pip'' ''requirements.txt'']
        (sample_opts True) sample_world = Some (q, sample_world) \<and> \<not> isl q"
proof -
  from sample_python_run [OF refl refl] obtain r where
    run: "pythonFix 2 sample_tools [REQUIREMENTS, PIPFILE, POETRY] [sample_entity ''pip'' ''requirements.txt'']
        (sample_opts True) sample_world = Some (Inr [(''python'', r)], sample_world)" by blast
  have "dryRun (sample_opts True)" by (simp add: sample_opts_def)
  from python_dry_run [OF tools_ok_sample this run] run show ?thesis by blast
qed

text \<open>when a handler throws, the entities of its group that are not fixable are answered twice: the
  push of the skipped ones is made before, and the \<open>catch\<close> adds the whole group to the failed
  ones.\<close>

theorem python_double_report:
  assumes "getHandlerType a = Some POETRY" "isSupported a \<noteq> None"
    and "getHandlerType b = Some POETRY" "isSupported b = None"
    and "poetry tls [b] opts w = (Inl err, w')"
  shows "\<exists>r. pythonFix n tls [REQUIREMENTS, PIPFILE, POETRY] [a, b] opts w = Some (Inr [(''python'', r)], w') \<and>
    accounted r = {#a, a, b#}"
proof -
  have m: "mapEntitiesPerHandlerType [a, b] = ([], [(REQUIREMENTS, []), (PIPFILE, []), (POETRY, [a, b])])"
    by (simp add: mapEntitiesPerHandlerType_def assms(1,3) push_type_def)
  from assms(2) obtain why where "isSupported a = Some why" by blast
  with assms(4) have p: "partitionByFixable [a, b] = ([\<lparr>wm_original = a, wm_message = why\<rparr>], [b])"
    by (simp add: partitionByFixable_def)
  from m p assms(5) show ?thesis
    by (simp add: pythonFix_def python_step_def Let_def loadHandler_def bindP_def catchP_def add_mset_commute)
qed

lemma python_double_report_witness:
  "\<exists>a b r w'. pythonFix 2 sample_tools [REQUIREMENTS, PIPFILE, POETRY] [a, b] (sample_opts False) sample_world =
       Some (Inr [(''python'', r)], w') \<and> accounted r = {#a, a, b#}"
proof -
  let ?b = "sample_entity ''poetry'' ''pyproject.toml''"
  let ?a = "?b\<lparr>testResult := (testResult ?b)\<lparr>remediation := None\<rparr>\<rparr>"
  have tb: "getHandlerType ?b = Some POETRY"
    by (simp add: getHandlerType_def sample_entity_def isRequirementsTxtManifest_def js_endsWith_def
        path_parse_def sep_def)
  have ta: "getHandlerType ?a = getHandlerType ?b" by (simp add: getHandlerType_def)
  have v: "validateRequiredData ?b = Inr (sample_remediation, ''pyproject.toml'', sample_ws)"
    by (simp add: validateRequiredData_def sample_entity_def)
  have ws: "ws_path (ent_workspace ?b) = ''app''" by (simp add: sample_entity_def sample_ws_def)
  have "files sample_world (ws_file (cwd sample_world) sample_ws (path_resolve (cwd sample_world)
      [path_dir (path_resolve (cwd sample_world) [''app'', ''pyproject.toml'']), ''pyproject.toml''])) = None"
    by code_simp
  then obtain err where "poetry_generateUpgrades sample_tools ?b sample_world = (Inl err, sample_world)"
    by (simp add: poetry_generateUpgrades_def v ws bindE_def readFile_def Let_def)
  then have "poetry sample_tools [?b] (sample_opts False) sample_world = (Inl err, sample_world)"
    by (simp add: poetry_def each_entity_def checkPackageToolSupported_def tool_installed_def sample_tools_def
        poetry_updateDependencies_def poetry_fixAll_def sample_opts_def bindE_def)
  moreover have "isSupported ?b = None" "isSupported ?a \<noteq> None"
    by (simp_all add: isSupported_def sample_entity_def sample_remediation_def)
  ultimately show ?thesis
    using python_double_report [of ?a ?b sample_tools "sample_opts False" sample_world err sample_world 2] ta tb
    by (metis (no_types, lifting))
qed

end
