(* ===== verification/FixOutput.thy ===== *)
theory FixOutput
  imports HandlerCommon
begin

text \<open>
  Counting issues and the text of the summary: \<open>lib/issues\<close> and \<open>lib/output-formatters\<close> of
  \<open>packages/vulnmap-fix/src\<close>. The styles of \<open>chalk\<close> and \<open>strip-ansi\<close> are parameters. The two
  symbols outside Latin-1, U+2716 and U+2714, are written as their UTF-8 bytes.
\<close>

section \<open>Issues\<close>

type_synonym issues_data = "issues_data_entry obj"

definition getTotalIssueCount :: "issues_data list \<Rightarrow> nat" where
  "getTotalIssueCount issueData = foldl (\<lambda>total entry. total + length (obj_keys entry)) 0 issueData"

record severity_ids =
  low_ids :: "string list"
  medium_ids :: "string list"
  high_ids :: "string list"
  critical_ids :: "string list"

definition push_severity :: "issues_data_entry \<Rightarrow> severity_ids \<Rightarrow> severity_ids" where
  "push_severity i t =
     (case issue_data_severity i of
        LOW \<Rightarrow> t\<lparr>low_ids := low_ids t @ [issue_data_id i]\<rparr>
      | MEDIUM \<Rightarrow> t\<lparr>medium_ids := medium_ids t @ [issue_data_id i]\<rparr>
      | HIGH \<Rightarrow> t\<lparr>high_ids := high_ids t @ [issue_data_id i]\<rparr>
      | CRITICAL \<Rightarrow> t\<lparr>critical_ids := critical_ids t @ [issue_data_id i]\<rparr>)"

definition getIssueCountBySeverity :: "issues_data list \<Rightarrow> severity_ids" where
  "getIssueCountBySeverity issueData =
     foldl (\<lambda>t entry. foldl (\<lambda>t i. push_severity i t) t (obj_values entry))
       \<lparr>low_ids = [], medium_ids = [], high_ids = [], critical_ids = []\<rparr> issueData"

definition getUpgradableIssues :: "string list list \<Rightarrow> nat" where
  "getUpgradableIssues vs = length (concat vs)"

definition result_fixable :: "test_result \<Rightarrow> bool \<times> nat" where
  "result_fixable r =
     (case remediation r of
        None \<Rightarrow> (False, 0)
      | Some rem \<Rightarrow>
          (let ups = obj_keys (rem_upgrade rem); pins = obj_keys (pin rem); patches = obj_keys (rem_patch rem);
               byUpdate = (if pins \<noteq> [] \<or> ups \<noteq> []
                           then getUpgradableIssues
                                  (if pins \<noteq> [] then map vulns (obj_values (pin rem))
                                   else map vulns (obj_values (rem_upgrade rem)))
                           else 0);
               byPatch = (if patches \<noteq> [] then length patches else 0) in
           (pins \<noteq> [] \<or> ups \<noteq> [] \<or> patches \<noteq> [], byUpdate + byPatch)))"

definition hasFixableIssues :: "test_result list \<Rightarrow> bool \<times> nat" where
  "hasFixableIssues results =
     foldl (\<lambda>(hasFixes, count) r. let (h, c) = result_fixable r in (hasFixes \<or> h, count + c))
       (False, 0) results"

section \<open>Counting results\<close>

record exception_entry =
  originals :: "entity list"
  exc_userMessage :: string

type_synonym results_by_plugin = "plugin_response obj"
type_synonym errors_by_ecosystem = "exception_entry obj"

definition calculateFixed :: "results_by_plugin \<Rightarrow> nat" where
  "calculateFixed rs = foldl (\<lambda>n r. n + length (succeeded r)) 0 (obj_values rs)"

definition calculateFailed :: "results_by_plugin \<Rightarrow> errors_by_ecosystem \<Rightarrow> nat" where
  "calculateFailed rs exs =
     foldl (\<lambda>n x. n + length (originals x))
       (foldl (\<lambda>n r. n + (length (failed r) + length (skipped r))) 0 (obj_values rs))
       (obj_values exs)"

definition fixed_ids :: "with_changes \<Rightarrow> string list" where
  "fixed_ids w = unique_in_order (concat (map issueIds (filter success (wc_changes w))))"

definition calculateFixedIssues :: "results_by_plugin \<Rightarrow> nat" where
  "calculateFixedIssues rs =
     length (concat (map (\<lambda>r. concat (map fixed_ids (succeeded r))) (obj_values rs)))"

definition getTestResults :: "results_by_plugin \<Rightarrow> errors_by_ecosystem \<Rightarrow> test_result list" where
  "getTestResults rs exs =
     concat (map (\<lambda>r. map (\<lambda>i. testResult (wm_original i)) (skipped r) @
                      map (\<lambda>i. testResult (failed_original i)) (failed r) @
                      map (\<lambda>i. testResult (wc_original i)) (succeeded r)) (obj_values rs)) @
     concat (map (\<lambda>x. map testResult (originals x)) (obj_values exs))"

section \<open>Texts\<close>

record style =
  c_bold :: "string \<Rightarrow> string"
  c_red :: "string \<Rightarrow> string"
  c_green :: "string \<Rightarrow> string"
  c_bold_red :: "string \<Rightarrow> string"
  c_green_bold :: "string \<Rightarrow> string"
  c_grey :: "string \<Rightarrow> string"
  c_hex :: "string \<Rightarrow> string \<Rightarrow> string"
  strip_ansi :: "string \<Rightarrow> string"

definition cross_mark :: string where
  "cross_mark = [CHR 0xE2, CHR 0x9C, CHR 0x96]"

definition check_mark :: string where
  "check_mark = [CHR 0xE2, CHR 0x9C, CHR 0x94]"

abbreviation newline :: string where
  "newline \<equiv> [nl]"

definition PADDING_SPACE :: string where
  "PADDING_SPACE = ''  ''"

definition entity_name :: "string \<Rightarrow> entity \<Rightarrow> string" where
  "entity_name wd e =
     formatDisplayName wd (ws_path (ent_workspace e)) (identity_type (identity (scanResult e)))
       (targetFile (identity (scanResult e)))"

definition formatUnresolved :: "style \<Rightarrow> string \<Rightarrow> entity \<Rightarrow> string \<Rightarrow> string option \<Rightarrow> string" where
  "formatUnresolved st wd e msg tip =
     (let tipMessage = (if truthy tip then newline @ PADDING_SPACE @ ''Tip:     '' @ the tip else []);
          errorMessage = PADDING_SPACE @ entity_name wd e @ newline @ PADDING_SPACE @
            c_red st cross_mark @ '' '' @ c_red st msg in
      errorMessage @ tipMessage)"

definition formatAppliedChange :: "style \<Rightarrow> fix_change \<Rightarrow> string" where
  "formatAppliedChange st c =
     (case c of
        FixChangesSuccess msg ids f t \<Rightarrow> PADDING_SPACE @ c_green st check_mark @ '' '' @ msg
      | FixChangesError msg why tip ids f t \<Rightarrow>
          PADDING_SPACE @ c_red st ''x'' @ '' '' @ c_red st msg @ newline @ PADDING_SPACE @ ''Reason:'' @
          PADDING_SPACE @ why @
          (if truthy tip then ''.'' @ newline @ PADDING_SPACE @ ''Tip:     '' @ the tip else ''undefined''))"

definition formatChangesSummary :: "style \<Rightarrow> string \<Rightarrow> entity \<Rightarrow> fix_change list \<Rightarrow> string" where
  "formatChangesSummary st wd e changes =
     PADDING_SPACE @ entity_name wd e @ newline @ js_join newline (map (formatAppliedChange st) changes)"

definition formatFailed :: "style \<Rightarrow> string \<Rightarrow> failed_to_fix \<Rightarrow> string" where
  "formatFailed st wd f =
     (case f of
        FailedError e err tip \<Rightarrow> formatUnresolved st wd e (convertErrorToUserMessage err) tip
      | FailedChanges e changes \<Rightarrow> formatChangesSummary st wd e changes)"

definition generateSuccessfulFixesSummary :: "style \<Rightarrow> string \<Rightarrow> results_by_plugin \<Rightarrow> string" where
  "generateSuccessfulFixesSummary st wd rs =
     (let summary =
        foldl (\<lambda>s r. if succeeded r \<noteq> []
                     then s @ newline @ newline @
                       js_join (newline @ newline)
                         (map (\<lambda>x. formatChangesSummary st wd (wc_original x) (wc_changes x)) (succeeded r))
                     else s) [] (obj_values rs) in
      if summary \<noteq> [] then c_bold st ''Successful fixes:'' @ summary
      else c_red st ('' '' @ cross_mark @ '' No successful fixes'' @ newline))"

text \<open>The lines of one plugin: the skipped items, then the failed ones.\<close>

definition unresolved_step :: "style \<Rightarrow> string \<Rightarrow> plugin_response \<Rightarrow> string \<times> nat \<Rightarrow> string \<times> nat" where
  "unresolved_step st wd r acc =
     (let para = newline @ newline;
          (s', n') =
                (if skipped r \<noteq> []
                 then (fst acc @ para @ js_join para
                         (map (\<lambda>x. formatUnresolved st wd (wm_original x) (wm_message x) None) (skipped r)),
                       snd acc + length (skipped r))
                 else acc) in
              if failed r \<noteq> []
              then (s' @ para @ js_join para (map (formatFailed st wd) (failed r)), n' + length (failed r))
              else (s', n'))"

definition generateUnresolvedSummary ::
    "style \<Rightarrow> string \<Rightarrow> results_by_plugin \<Rightarrow> errors_by_ecosystem \<Rightarrow> string \<times> nat" where
  "generateUnresolvedSummary st wd rs exs =
     (let para = newline @ newline;
          (s2, n2) =
            foldl (\<lambda>(s, n) x.
              (s @ para @ js_join para
                 (map (\<lambda>e. formatUnresolved st wd e (exc_userMessage x) None) (originals x)),
               n + length (originals x)))
              (foldl (\<lambda>acc r. unresolved_step st wd r acc) ([], 0) (obj_values rs)) (obj_values exs) in
      if s2 \<noteq> [] then (para @ c_bold st ''Unresolved items:'' @ s2, n2) else ([], 0))"

definition severity_colour :: "style \<Rightarrow> severity \<Rightarrow> string \<Rightarrow> string" where
  "severity_colour st s =
     (case s of
        LOW \<Rightarrow> c_hex st ''#BCBBC8''
      | MEDIUM \<Rightarrow> c_hex st ''#EDD55E''
      | HIGH \<Rightarrow> c_hex st ''#FF872F''
      | CRITICAL \<Rightarrow> c_hex st ''#FF0B0B'')"

text \<open>A name that is not a severity gets the default colour.\<close>

definition getSeveritiesColour :: "style \<Rightarrow> string \<Rightarrow> string \<Rightarrow> string" where
  "getSeveritiesColour st name =
     (case find (\<lambda>s. severity_str s = name) [LOW, MEDIUM, HIGH, CRITICAL] of
        Some s \<Rightarrow> severity_colour st s
      | None \<Rightarrow> c_grey st)"

definition formatIssueCountBySeverity :: "style \<Rightarrow> nat \<Rightarrow> nat \<Rightarrow> nat \<Rightarrow> nat \<Rightarrow> string" where
  "formatIssueCountBySeverity st critical high medium low =
     js_join '' | ''
       ((if critical > 0 then [severity_colour st CRITICAL (str_of_nat critical @ '' Critical'')] else []) @
        (if high > 0 then [severity_colour st HIGH (str_of_nat high @ '' High'')] else []) @
        (if medium > 0 then [severity_colour st MEDIUM (str_of_nat medium @ '' Medium'')] else []) @
        (if low > 0 then [severity_colour st LOW (str_of_nat low @ '' Low'')] else []))"

definition generateIssueSummary :: "style \<Rightarrow> results_by_plugin \<Rightarrow> errors_by_ecosystem \<Rightarrow> string" where
  "generateIssueSummary st rs exs =
     (let testResults = getTestResults rs exs;
          issueData = map issuesData testResults;
          bySeverity = getIssueCountBySeverity issueData;
          bySeverityMessage = formatIssueCountBySeverity st (length (critical_ids bySeverity))
            (length (high_ids bySeverity)) (length (medium_ids bySeverity)) (length (low_ids bySeverity));
          totalIssueCount = getTotalIssueCount issueData;
          totalIssues =
            (if totalIssueCount > 0 then
               (if bySeverityMessage \<noteq> []
                then c_bold st (str_of_nat totalIssueCount) @ '' issues: '' @ bySeverityMessage @ newline
                else c_bold st (str_of_nat totalIssueCount) @ '' issues'' @ newline)
             else []);
          fixableCount = snd (hasFixableIssues testResults);
          fixableIssues =
            (if fixableCount > 0 then c_bold st (str_of_nat fixableCount) @ '' issues are fixable'' @ newline else []);
          fixedIssueCount = calculateFixedIssues rs;
          fixedIssues =
            (if fixedIssueCount > 0
             then c_bold st (str_of_nat fixedIssueCount) @ '' issues were successfully fixed'' @ newline else []) in
      newline @ PADDING_SPACE @ totalIssues @ PADDING_SPACE @ fixableIssues @ PADDING_SPACE @ fixedIssues)"

definition generateOverallSummary ::
    "style \<Rightarrow> results_by_plugin \<Rightarrow> errors_by_ecosystem \<Rightarrow> entity list \<Rightarrow> fix_options \<Rightarrow> string \<times> nat" where
  "generateOverallSummary st rs exs nothingToFix opts =
     (let fixed = calculateFixed rs;
          failed' = calculateFailed rs exs;
          dryRunText = (if dryRun opts
            then c_hex st ''#EDD55E'' (PADDING_SPACE @ ''Command run in '' @ c_bold st ''dry run'' @
                   '' mode. Fixes are not applied.'' @ newline) else []);
          notFixedMessage = (if failed' > 0
            then PADDING_SPACE @ c_bold_red st (str_of_nat failed') @ '' items were not fixed'' @ newline else []);
          fixedMessage = (if fixed > 0
            then PADDING_SPACE @ c_green_bold st (str_of_nat fixed) @ '' items were successfully fixed'' @ newline
            else []);
          vulnsSummary = generateIssueSummary st rs exs;
          notVulnerableSummary = (if nothingToFix \<noteq> []
            then PADDING_SPACE @ str_of_nat (length nothingToFix) @ '' items were not vulnerable'' @ newline else []) in
      (c_bold st ''Summary:'' @ newline @ newline @ dryRunText @ notFixedMessage @ fixedMessage @
         notVulnerableSummary @ vulnsSummary,
       fixed + failed'))"

definition showResultsSummary ::
    "style \<Rightarrow> string \<Rightarrow> entity list \<Rightarrow> results_by_plugin \<Rightarrow> errors_by_ecosystem \<Rightarrow> fix_options \<Rightarrow> nat \<Rightarrow> string" where
  "showResultsSummary st wd nothingToFix rs exs opts total_count =
     (let successful = generateSuccessfulFixesSummary st wd rs;
          (unresolvedSummary, unresolvedCount) = generateUnresolvedSummary st wd rs exs;
          (overallSummary, changedCount) = generateOverallSummary st rs exs nothingToFix opts;
          getHelpText = reTryMessage @ ''. '' @ contactSupportMessage;
          strip = (\<lambda>s. if stripAnsi opts then strip_ansi st s else s) in
      if total_count = 0 then strip (newline @ c_red st ('' '' @ cross_mark @ '' No successful fixes''))
      else if length nothingToFix = total_count \<and> unresolvedCount = 0
        then strip (newline @ c_green st (check_mark @ '' No vulnerable items to fix'') @ newline @ newline @
                    overallSummary)
      else strip (newline @ successful @ unresolvedSummary @
             (if unresolvedCount \<noteq> 0 \<or> changedCount \<noteq> 0 then newline @ newline @ overallSummary else []) @
             (if unresolvedSummary \<noteq> [] then newline @ newline @ getHelpText else [])))"

section \<open>Counts\<close>

lemma foldl_add: "foldl (\<lambda>n x. n + f x) (k :: nat) xs = k + (\<Sum>x\<leftarrow>xs. f x)"
  by (induction xs arbitrary: k) auto

lemma push_severity_lists:
  "low_ids (foldl (\<lambda>t i. push_severity i t) t is) =
     low_ids t @ map issue_data_id (filter (\<lambda>i. issue_data_severity i = LOW) is)"
  "medium_ids (foldl (\<lambda>t i. push_severity i t) t is) =
     medium_ids t @ map issue_data_id (filter (\<lambda>i. issue_data_severity i = MEDIUM) is)"
  "high_ids (foldl (\<lambda>t i. push_severity i t) t is) =
     high_ids t @ map issue_data_id (filter (\<lambda>i. issue_data_severity i = HIGH) is)"
  "critical_ids (foldl (\<lambda>t i. push_severity i t) t is) =
     critical_ids t @ map issue_data_id (filter (\<lambda>i. issue_data_severity i = CRITICAL) is)"
  by (induction "is" arbitrary: t) (simp_all add: push_severity_def split: severity.splits)

lemma foldl_concat: "foldl (\<lambda>t xs. foldl f t (g xs)) t xss = foldl f t (concat (map g xss))"
  by (induction xss arbitrary: t) auto

definition all_issues :: "issues_data list \<Rightarrow> issues_data_entry list" where
  "all_issues issueData = concat (map obj_values issueData)"

lemma getIssueCountBySeverity_eq:
  "getIssueCountBySeverity d =
     foldl (\<lambda>t i. push_severity i t) \<lparr>low_ids = [], medium_ids = [], high_ids = [], critical_ids = []\<rparr> (all_issues d)"
  by (simp add: getIssueCountBySeverity_def all_issues_def foldl_concat)

lemma severity_split:
  "length (filter (\<lambda>i. issue_data_severity i = LOW) is) + length (filter (\<lambda>i. issue_data_severity i = MEDIUM) is) +
   length (filter (\<lambda>i. issue_data_severity i = HIGH) is) + length (filter (\<lambda>i. issue_data_severity i = CRITICAL) is) =
   length is"
proof (induction "is")
  case (Cons i "is")
  then show ?case by (cases "issue_data_severity i") auto
qed simp

lemma getTotalIssueCount_eq: "getTotalIssueCount d = length (all_issues d)"
  by (simp add: getTotalIssueCount_def foldl_add all_issues_def length_concat comp_def length_obj_keys obj_values_def)

lemma hasFixableIssues_eq:
  "hasFixableIssues rs = (list_ex (\<lambda>r. fst (result_fixable r)) rs, \<Sum>r\<leftarrow>rs. snd (result_fixable r))"
proof -
  have "foldl (\<lambda>(hasFixes, count) r. let (h, c) = result_fixable r in (hasFixes \<or> h, count + c)) (b, k) rs =
     (b \<or> list_ex (\<lambda>r. fst (result_fixable r)) rs, k + (\<Sum>r\<leftarrow>rs. snd (result_fixable r)))" for b k
    by (induction rs arbitrary: b k) (auto simp: case_prod_unfold Let_def)
  then show ?thesis by (simp add: hasFixableIssues_def)
qed

lemma calculateFixed_eq: "calculateFixed rs = (\<Sum>r\<leftarrow>obj_values rs. length (succeeded r))"
  by (simp add: calculateFixed_def foldl_add)

lemma calculateFailed_eq:
  "calculateFailed rs exs = (\<Sum>r\<leftarrow>obj_values rs. length (failed r) + length (skipped r)) +
     (\<Sum>x\<leftarrow>obj_values exs. length (originals x))"
  by (simp add: calculateFailed_def foldl_add)

text \<open>All the entities a run answers for.\<close>

definition answered :: "results_by_plugin \<Rightarrow> errors_by_ecosystem \<Rightarrow> entity multiset" where
  "answered rs exs = (\<Sum>r\<leftarrow>obj_values rs. accounted r) + (\<Sum>x\<leftarrow>obj_values exs. mset (originals x))"

lemma size_sum_list: "size (\<Sum>x\<leftarrow>xs. f x) = (\<Sum>x\<leftarrow>xs. size (f x :: 'b multiset))"
  by (induction xs) auto

lemma size_accounted: "size (accounted r) = length (succeeded r) + (length (failed r) + length (skipped r))"
  by (simp add: accounted_def)

lemma fixed_failed_answered: "calculateFixed rs + calculateFailed rs exs = size (answered rs exs)"
  by (simp add: calculateFixed_eq calculateFailed_eq answered_def size_sum_list size_accounted sum_list_addf)

lemma unresolved_inner:
  "snd (foldl (\<lambda>(s, n) x. (s @ p @ h x, n + length (originals x))) (s, n) xs) = n + (\<Sum>x\<leftarrow>xs. length (originals x))"
  "p \<noteq> [] \<Longrightarrow> fst (foldl (\<lambda>(s, n) x. (s @ p @ h x, n + length (originals x))) (s, n) xs) = [] \<longleftrightarrow> s = [] \<and> xs = []"
  by (induction xs arbitrary: s n) auto

section \<open>Properties\<close>

text \<open>The issues are counted by severity without loss: each list holds, in order, the ids of the
  issues of its severity, and together they are as many as the total count says.\<close>

theorem severity_counts:
  "critical_ids (getIssueCountBySeverity d) = map issue_data_id (filter (\<lambda>i. issue_data_severity i = CRITICAL) (all_issues d)) \<and>
   high_ids (getIssueCountBySeverity d) = map issue_data_id (filter (\<lambda>i. issue_data_severity i = HIGH) (all_issues d)) \<and>
   medium_ids (getIssueCountBySeverity d) = map issue_data_id (filter (\<lambda>i. issue_data_severity i = MEDIUM) (all_issues d)) \<and>
   low_ids (getIssueCountBySeverity d) = map issue_data_id (filter (\<lambda>i. issue_data_severity i = LOW) (all_issues d)) \<and>
   length (critical_ids (getIssueCountBySeverity d)) + length (high_ids (getIssueCountBySeverity d)) +
   length (medium_ids (getIssueCountBySeverity d)) + length (low_ids (getIssueCountBySeverity d)) =
   getTotalIssueCount d"
  using severity_split [of "all_issues d"]
  by (simp add: getIssueCountBySeverity_eq push_severity_lists getTotalIssueCount_eq)

lemma unresolved_step_props:
  "snd (unresolved_step st wd r acc) = snd acc + (length (failed r) + length (skipped r))"
  "fst (unresolved_step st wd r acc) = [] \<longleftrightarrow> fst acc = [] \<and> failed r = [] \<and> skipped r = []"
  by (auto simp: unresolved_step_def Let_def split: prod.splits if_splits)

lemma unresolved_steps:
  "snd (foldl (\<lambda>a r. unresolved_step st wd r a) acc rs) =
     snd acc + (\<Sum>r\<leftarrow>rs. length (failed r) + length (skipped r))"
  "fst (foldl (\<lambda>a r. unresolved_step st wd r a) acc rs) = [] \<longleftrightarrow>
     fst acc = [] \<and> list_all (\<lambda>r. failed r = [] \<and> skipped r = []) rs"
  by (induction rs arbitrary: acc) (auto simp: unresolved_step_props)

text \<open>the summary's list of unresolved items counts exactly the items that are counted as failed:
  the failed and the skipped ones of every plugin and those of the scan types that threw.\<close>

theorem unresolved_count:
  "snd (generateUnresolvedSummary st wd rs exs) = calculateFailed rs exs"
proof -
  obtain s1 n1 where f1: "foldl (\<lambda>a r. unresolved_step st wd r a) ([], 0) (obj_values rs) = (s1, n1)"
    by fastforce
  from unresolved_steps [of st wd "([], 0)" "obj_values rs"] f1 have
    n1: "n1 = (\<Sum>r\<leftarrow>obj_values rs. length (failed r) + length (skipped r))" and
    s1: "s1 = [] \<longleftrightarrow> list_all (\<lambda>r. failed r = [] \<and> skipped r = []) (obj_values rs)" by simp_all
  let ?g = "\<lambda>(s, n) x. (s @ (newline @ newline) @ js_join (newline @ newline)
                 (map (\<lambda>e. formatUnresolved st wd e (exc_userMessage x) None) (originals x)),
               n + length (originals x))"
  obtain s2 n2 where f2: "foldl ?g (s1, n1) (obj_values exs) = (s2, n2)" by fastforce
  from unresolved_inner [of "newline @ newline"
      "\<lambda>x. js_join (newline @ newline) (map (\<lambda>e. formatUnresolved st wd e (exc_userMessage x) None) (originals x))"
      s1 n1 "obj_values exs"] f2 have
    n2: "n2 = n1 + (\<Sum>x\<leftarrow>obj_values exs. length (originals x))" and s2: "s2 = [] \<longleftrightarrow> s1 = [] \<and> obj_values exs = []"
    by simp_all
  have zero: "n2 = 0" if "s2 = []"
  proof -
    from that s1 s2 have "list_all (\<lambda>r. failed r = [] \<and> skipped r = []) (obj_values rs)" "obj_values exs = []"
      by simp_all
    then show ?thesis by (auto simp: n2 n1 list_all_iff)
  qed
  have "snd (generateUnresolvedSummary st wd rs exs) = n2"
    using f1 f2 zero by (simp add: generateUnresolvedSummary_def Let_def)
  then show ?thesis by (simp add: n2 n1 calculateFailed_eq)
qed

text \<open>The issues counted as fixed are the distinct issues of the successful changes, per fixed
  item: an issue fixed at several places of an item counts once.\<close>

theorem fixed_issues_unique:
  "calculateFixedIssues rs =
     (\<Sum>r\<leftarrow>obj_values rs. \<Sum>w\<leftarrow>succeeded r. card (set (concat (map issueIds (filter success (wc_changes w))))))"
proof -
  have "length (fixed_ids w) = card (set (concat (map issueIds (filter success (wc_changes w)))))" for w
    unfolding fixed_ids_def using distinct_card [OF unique_in_order_distinct] by (metis unique_in_order_set)
  then show ?thesis
    by (simp add: calculateFixedIssues_def length_concat comp_def del: set_concat)
qed

end
