(* ===== verification/FixMain.thy ===== *)
theory FixMain
  imports PythonPlugin FixOutput
begin

text \<open>
  The entry of the fix library: \<open>index.ts\<close>, \<open>partition-by-vulnerable.ts\<close> and
  \<open>plugins/load-plugin.ts\<close> of \<open>packages/vulnmap-fix/src\<close>.
\<close>

section \<open>Sorting the entities\<close>

definition partitionByVulnerable :: "entity list \<Rightarrow> entity list \<times> entity list" where
  "partitionByVulnerable es =
     foldl (\<lambda>(vulnerable, notVulnerable) e.
              if length (issues (testResult e)) > 0 then (vulnerable @ [e], notVulnerable)
              else (vulnerable, notVulnerable @ [e])) ([], []) es"

text \<open>The type of an entity is always there, so the default \<open>missing-type\<close> never applies.\<close>

definition scan_type :: "entity \<Rightarrow> string" where
  "scan_type e = identity_type (identity (scanResult e))"

definition groupEntitiesPerScanType :: "entity list \<Rightarrow> entity list obj" where
  "groupEntitiesPerScanType es =
     foldl (\<lambda>g e. case obj_get g (scan_type e) of
                    Some xs \<Rightarrow> obj_set (scan_type e) (xs @ [e]) g
                  | None \<Rightarrow> obj_set (scan_type e) [e] g) [] es"

section \<open>Plugins\<close>

definition loadPlugin ::
    "nat \<Rightarrow> tools \<Rightarrow> handler_type list \<Rightarrow> string \<Rightarrow>
     fix_error + (entity list \<Rightarrow> fix_options \<Rightarrow> (fix_error, world, results_by_plugin) peff)" where
  "loadPlugin n tls horder ty =
     (if ty = ''pip'' then Inr (pythonFix n tls horder)
      else if ty = ''poetry'' then Inr (pythonFix n tls horder)
      else Inl (UnsupportedTypeError ty))"

definition scan_type_step ::
    "nat \<Rightarrow> tools \<Rightarrow> handler_type list \<Rightarrow> fix_options \<Rightarrow> entity list obj \<Rightarrow> string \<Rightarrow>
     results_by_plugin \<times> errors_by_ecosystem \<Rightarrow>
     (fix_error, world, results_by_plugin \<times> errors_by_ecosystem) peff" where
  "scan_type_step n tls horder opts entitiesPerType sty acc =
     (case acc of (resultsByPlugin, exceptions) \<Rightarrow>
        (let es = (case obj_get entitiesPerType sty of None \<Rightarrow> [] | Some xs \<Rightarrow> xs) in
         catchP
           (bindP (liftP (lift (loadPlugin n tls horder sty))) (\<lambda>fixPlugin.
            bindP (fixPlugin es opts) (\<lambda>results.
            liftP (ret (obj_merge resultsByPlugin results, exceptions)))))
           (\<lambda>err. liftP (ret (resultsByPlugin,
              obj_set sty \<lparr>originals = es, exc_userMessage = convertErrorToUserMessage err\<rparr> exceptions)))))"

section \<open>The whole fix\<close>

record fixed_meta =
  meta_fixed :: nat
  meta_failed :: nat
  meta_fixableIssues :: nat
  meta_fixedIssues :: nat
  meta_totalIssues :: nat

definition extractMeta :: "results_by_plugin \<Rightarrow> errors_by_ecosystem \<Rightarrow> fixed_meta" where
  "extractMeta rs exs =
     (let testResults = getTestResults rs exs in
      \<lparr>meta_fixed = calculateFixed rs, meta_failed = calculateFailed rs exs,
       meta_fixableIssues = snd (hasFixableIssues testResults),
       meta_fixedIssues = calculateFixedIssues rs,
       meta_totalIssues = getTotalIssueCount (map issuesData testResults)\<rparr>)"

record fix_result =
  fr_results :: results_by_plugin
  fr_exceptions :: errors_by_ecosystem
  fr_meta :: fixed_meta
  fr_summary :: string

text \<open>
  \<open>order\<close> and \<open>horder\<close> are the orders in which the two \<open>pMap\<close> loops run, of the scan types and
  of the handlers.
\<close>

definition fix_fuel ::
    "nat \<Rightarrow> tools \<Rightarrow> style \<Rightarrow> string list \<Rightarrow> handler_type list \<Rightarrow> entity list \<Rightarrow> fix_options \<Rightarrow>
     (fix_error, world, fix_result) peff" where
  "fix_fuel n tls st order horder entities opts = (\<lambda>w.
     (let (vulnerable, nothingToFix) = partitionByVulnerable entities;
          entitiesPerType = groupEntitiesPerScanType vulnerable in
      bindP (foldP (scan_type_step n tls horder opts entitiesPerType) order ([], []))
        (\<lambda>(resultsByPlugin, exceptions).
           liftP (ret \<lparr>fr_results = resultsByPlugin, fr_exceptions = exceptions,
             fr_meta = extractMeta resultsByPlugin exceptions,
             fr_summary = showResultsSummary st (cwd w) nothingToFix resultsByPlugin exceptions opts
                            (length entities)\<rparr>)) w))"

section \<open>Groups\<close>

lemma partitionByVulnerable_eq:
  "partitionByVulnerable es =
     (filter (\<lambda>e. issues (testResult e) \<noteq> []) es, filter (\<lambda>e. issues (testResult e) = []) es)"
proof -
  have "foldl (\<lambda>(vulnerable, notVulnerable) e.
              if length (issues (testResult e)) > 0 then (vulnerable @ [e], notVulnerable)
              else (vulnerable, notVulnerable @ [e])) (a, b) es =
     (a @ filter (\<lambda>e. issues (testResult e) \<noteq> []) es, b @ filter (\<lambda>e. issues (testResult e) = []) es)" for a b
    by (induction es arbitrary: a b) auto
  then show ?thesis by (simp add: partitionByVulnerable_def)
qed

lemma group_gen:
  assumes "wf_obj g"
  shows "wf_obj (foldl (\<lambda>g e. case obj_get g (scan_type e) of
                    Some xs \<Rightarrow> obj_set (scan_type e) (xs @ [e]) g
                  | None \<Rightarrow> obj_set (scan_type e) [e] g) g es) \<and>
    (\<forall>t. obj_get (foldl (\<lambda>g e. case obj_get g (scan_type e) of
                    Some xs \<Rightarrow> obj_set (scan_type e) (xs @ [e]) g
                  | None \<Rightarrow> obj_set (scan_type e) [e] g) g es) t =
       (case obj_get g t of
          Some xs \<Rightarrow> Some (xs @ filter (\<lambda>e. scan_type e = t) es)
        | None \<Rightarrow> (if filter (\<lambda>e. scan_type e = t) es = [] then None
                   else Some (filter (\<lambda>e. scan_type e = t) es))))"
  using assms
proof (induction es arbitrary: g)
  case Nil
  then show ?case by (auto split: option.splits)
next
  case (Cons e es)
  show ?case
  proof (cases "obj_get g (scan_type e)")
    case None
    have "wf_obj (obj_set (scan_type e) [e] g)" using Cons.prems by (rule ob.ok_put)
    from Cons.IH [OF this] None show ?thesis
      by (auto simp: ob.get_put split: option.splits)
  next
    case (Some xs)
    have "wf_obj (obj_set (scan_type e) (xs @ [e]) g)" using Cons.prems by (rule ob.ok_put)
    from Cons.IH [OF this] Some show ?thesis
      by (auto simp: ob.get_put split: option.splits)
  qed
qed

lemma group_get:
  "obj_get (groupEntitiesPerScanType es) t =
     (if filter (\<lambda>e. scan_type e = t) es = [] then None else Some (filter (\<lambda>e. scan_type e = t) es))"
  using group_gen [of "[]" es] by (simp add: groupEntitiesPerScanType_def)

lemma wf_group: "wf_obj (groupEntitiesPerScanType es)"
  using group_gen [of "[]" es] by (simp add: groupEntitiesPerScanType_def)

lemma group_keys: "set (obj_keys (groupEntitiesPerScanType es)) = scan_type ` set es"
proof -
  have "t \<in> set (obj_keys (groupEntitiesPerScanType es)) \<longleftrightarrow> filter (\<lambda>e. scan_type e = t) es \<noteq> []" for t
    using ob.get_None_iff [of "groupEntitiesPerScanType es" t] by (auto simp: group_get split: if_splits)
  then show ?thesis by (auto simp: filter_empty_conv)
qed

section \<open>Steps of the outer loop\<close>

definition group_list :: "entity list obj \<Rightarrow> string \<Rightarrow> entity list" where
  "group_list g t = (case obj_get g t of None \<Rightarrow> [] | Some xs \<Rightarrow> xs)"

lemma step_unsupported:
  assumes "t \<noteq> ''pip''" "t \<noteq> ''poetry''"
  shows "scan_type_step n tls h opts g t (rs, exs) w =
    Some (Inr (rs, obj_set t \<lparr>originals = group_list g t, exc_userMessage = t @ '' is not supported.''\<rparr> exs), w)"
  using assms
  by (simp add: scan_type_step_def loadPlugin_def group_list_def Let_def catchP_def convertErrorToUserMessage_def)

lemma step_python:
  assumes "t = ''pip'' \<or> t = ''poetry''"
    and "scan_type_step n tls h opts g t (rs, exs) w = Some (x, w')"
  shows "\<exists>r. pythonFix n tls h (group_list g t) opts w = Some (Inr r, w') \<and> x = Inr (obj_merge rs r, exs)"
proof -
  have l: "loadPlugin n tls h t = Inr (pythonFix n tls h)"
    using assms(1) by (auto simp: loadPlugin_def)
  show ?thesis
    using assms(2) pythonFix_never_throws [of n tls h "group_list g t" opts w] unfolding group_list_def
    by (auto simp: scan_type_step_def l Let_def catchP_def bindP_def split: option.splits prod.splits sum.splits)
qed

lemma obj_merge_python:
  "obj_merge [] [(''python'', r)] = [(''python'', r)]"
  "obj_merge [(''python'', q)] [(''python'', r)] = [(''python'', r)]"
  by (simp_all add: obj_merge_Cons obj_set_def)

lemma sum_obj_values: "(\<Sum>x\<leftarrow>obj_values b. f x) = sum_mset (image_mset (\<lambda>p. f (snd p)) (mset b))"
  for f :: "'v \<Rightarrow> 'm :: comm_monoid_add"
  by (simp add: obj_values_def sum_mset_sum_list flip: mset_map) (simp add: comp_def)

lemma answered_simps:
  "answered [] [] = {#}"
  "answered [(''python'', r)] exs = accounted r + answered [] exs"
  "t \<notin> set (obj_keys exs) \<Longrightarrow> answered rs (obj_set t x exs) = answered rs exs + mset (originals x)"
  by (simp_all add: answered_def obj_values_def [of "[]"] obj_values_def [of "[(a, b)]" for a b]
      sum_obj_values [of _ "obj_set t x exs"] sum_obj_values [of _ exs] mset_obj_set_new)

lemma scan_fold_accounts:
  assumes ok: "tools_ok tls" and h: "mset h = mset [REQUIREMENTS, PIPFILE, POETRY]"
  shows "foldP (scan_type_step n tls h opts g) order (rs, exs) w = Some (Inr (rs', exs'), w') \<Longrightarrow>
    distinct order \<Longrightarrow> set order \<inter> set (obj_keys exs) = {} \<Longrightarrow> \<not> {''pip'', ''poetry''} \<subseteq> set order \<Longrightarrow>
    rs = [] \<or> set order \<inter> {''pip'', ''poetry''} = {} \<Longrightarrow>
    \<exists>X. set_mset X \<subseteq> (\<Union>t\<in>set order. set (group_list g t)) \<and>
      answered rs' exs' = answered rs exs + (\<Sum>t\<leftarrow>order. mset (group_list g t)) + X"
proof (induction order arbitrary: rs exs w)
  case Nil
  then show ?case by (intro exI [of _ "{#}"]) simp
next
  case (Cons t order)
  from Cons.prems(1) obtain rs1 exs1 w1 where
    s: "scan_type_step n tls h opts g t (rs, exs) w = Some (Inr (rs1, exs1), w1)" and
    f: "foldP (scan_type_step n tls h opts g) order (rs1, exs1) w1 = Some (Inr (rs', exs'), w')"
    by (auto elim: bindP_SomeE)
  show ?case
  proof (cases "t = ''pip'' \<or> t = ''poetry''")
    case True
    with Cons.prems(5) have rs: "rs = []" by auto
    from step_python [OF True s] obtain r where r: "pythonFix n tls h (group_list g t) opts w = Some (Inr r, w1)"
      "rs1 = obj_merge rs r" "exs1 = exs" by auto
    from pythonFix_accounts [OF ok h r(1)] obtain q X where
      q: "r = [(''python'', q)]" "accounted q = mset (group_list g t) + X"
      "set_mset X \<subseteq> set (group_list g t)" by blast
    have none: "set order \<inter> {''pip'', ''poetry''} = {}"
      using True Cons.prems(2,4) by auto
    with Cons.IH [OF f] Cons.prems(2,3) r(3) obtain Y where
      Y: "set_mset Y \<subseteq> (\<Union>t\<in>set order. set (group_list g t))"
      "answered rs' exs' = answered rs1 exs + (\<Sum>t\<leftarrow>order. mset (group_list g t)) + Y" by auto
    have "rs1 = [(''python'', q)]" using r(2) rs q(1) by (simp add: obj_merge_python)
    with Y q(2,3) rs show ?thesis
      by (intro exI [of _ "X + Y"]) (auto simp: answered_simps ac_simps)
  next
    case False
    then have e: "rs1 = rs"
      "exs1 = obj_set t \<lparr>originals = group_list g t, exc_userMessage = t @ '' is not supported.''\<rparr> exs"
      using step_unsupported [of t n tls h opts g rs exs w] s by auto
    have "set order \<inter> set (obj_keys exs1) = {}"
      using Cons.prems(2,3) by (auto simp: e(2) ob.keys_put)
    with Cons.IH [OF f] Cons.prems(2,4,5) e(1) obtain Y where
      Y: "set_mset Y \<subseteq> (\<Union>t\<in>set order. set (group_list g t))"
      "answered rs' exs' = answered rs exs1 + (\<Sum>t\<leftarrow>order. mset (group_list g t)) + Y" by auto
    have "t \<notin> set (obj_keys exs)" using Cons.prems(3) by auto
    with Y show ?thesis
      by (intro exI [of _ Y]) (auto simp: e(2) answered_simps ac_simps)
  qed
qed

lemma sum_groups:
  assumes "distinct ks" "f ` set xs \<subseteq> set ks"
  shows "(\<Sum>t\<leftarrow>ks. mset (filter (\<lambda>e. f e = t) xs)) = mset xs"
  using assms(2)
proof (induction xs)
  case Nil
  then show ?case by (simp add: sum_list_0)
next
  case (Cons x xs)
  have "(\<Sum>t\<leftarrow>ks. mset (filter (\<lambda>e. f e = t) (x # xs))) =
      (\<Sum>t\<leftarrow>ks. mset (filter (\<lambda>e. f e = t) xs) + (if f x = t then {#x#} else {#}))"
    by (intro arg_cong [where f = sum_list] map_cong) auto
  also have "\<dots> = mset xs + (\<Sum>t\<leftarrow>ks. if f x = t then {#x#} else {#})"
    using Cons by (simp add: sum_list_addf)
  also have "(\<Sum>t\<leftarrow>ks. if f x = t then {#x#} else {#}) = {#x#}"
  proof -
    have "(\<Sum>t\<leftarrow>ks. if f x = t then {#x#} else {#}) = (if f x \<in> set ks then {#x#} else {#})"
      using assms(1) by (induction ks) auto
    with Cons.prems show ?thesis by simp
  qed
  finally show ?case by simp
qed

lemma group_list_eq: "group_list (groupEntitiesPerScanType es) t = filter (\<lambda>e. scan_type e = t) es"
  by (auto simp: group_list_def group_get)

lemma fix_runE:
  assumes "fix_fuel n tls st order h es opts w = Some (Inr fr, w')"
  obtains "foldP (scan_type_step n tls h opts
        (groupEntitiesPerScanType (filter (\<lambda>e. issues (testResult e) \<noteq> []) es))) order ([], []) w =
      Some (Inr (fr_results fr, fr_exceptions fr), w')"
    and "fr_meta fr = extractMeta (fr_results fr) (fr_exceptions fr)"
  using assms
  by (auto simp: fix_fuel_def partitionByVulnerable_eq elim!: bindP_SomeE)

lemma scan_type_step_keeps:
  assumes "\<And>es. keepsP P (pythonFix n tls h es opts)"
  shows "keepsP P (scan_type_step n tls h opts g t acc)"
proof -
  obtain rs exs where acc: "acc = (rs, exs)" by fastforce
  show ?thesis
  proof (cases "t = ''pip'' \<or> t = ''poetry''")
    case True
    show ?thesis
      unfolding keepsP_def acc
    proof (intro allI impI)
      fix w x w' assume w: "P w" "scan_type_step n tls h opts g t (rs, exs) w = Some (x, w')"
      from step_python [OF True w(2)] obtain r where
        "pythonFix n tls h (group_list g t) opts w = Some (Inr r, w')" by blast
      from keepsPD [OF assms w(1) this] show "P w'" .
    qed
  next
    case False
    then show ?thesis unfolding acc by (auto simp: keepsP_def step_unsupported)
  qed
qed

section \<open>Properties\<close>

text \<open>The entities are grouped by their scan type: every type that occurs has one group, which
  holds the entities of that type in their order, and no other type has a group.\<close>

theorem group_partition:
  "distinct (obj_keys (groupEntitiesPerScanType es)) \<and>
   set (obj_keys (groupEntitiesPerScanType es)) = scan_type ` set es \<and>
   obj_get (groupEntitiesPerScanType es) t =
     (if t \<in> scan_type ` set es then Some (filter (\<lambda>e. scan_type e = t) es) else None)"
proof -
  have "filter (\<lambda>e. scan_type e = t) es = [] \<longleftrightarrow> t \<notin> scan_type ` set es"
    by (auto simp: filter_empty_conv)
  then show ?thesis using wf_group [of es] by (simp add: group_keys group_get wf_obj_def)
qed


text \<open>with entities of both scan types the results of the plugin that finishes first are lost: both
  types are served by the Python plugin, whose results are merged under the one key \<open>python\<close>, so
  only the entities of the type served last are answered for.\<close>

theorem fix_loses_first_plugin:
  assumes "tools_ok tls" "mset h = mset [REQUIREMENTS, PIPFILE, POETRY]"
    and "order = [''pip'', ''poetry''] \<or> order = [''poetry'', ''pip'']"
    and "fix_fuel n tls st order h es opts w = Some (Inr fr, w')"
  shows "set_mset (answered (fr_results fr) (fr_exceptions fr)) =
    {e \<in> set es. issues (testResult e) \<noteq> [] \<and> scan_type e = last order}"
proof -
  let ?g = "groupEntitiesPerScanType (filter (\<lambda>e. issues (testResult e) \<noteq> []) es)"
  obtain a b where o: "order = [a, b]" "a = ''pip'' \<or> a = ''poetry''" "b = ''pip'' \<or> b = ''poetry''"
    using assms(3) by auto
  from assms(4) have run: "foldP (scan_type_step n tls h opts ?g) order ([], []) w =
      Some (Inr (fr_results fr, fr_exceptions fr), w')" by (auto elim: fix_runE)
  then obtain rs1 exs1 w1 where s1: "scan_type_step n tls h opts ?g a ([], []) w = Some (Inr (rs1, exs1), w1)"
    and s2: "scan_type_step n tls h opts ?g b (rs1, exs1) w1 = Some (Inr (fr_results fr, fr_exceptions fr), w')"
    by (auto simp: o(1) elim!: bindP_SomeE)
  from step_python [OF o(2) s1] obtain r1 where
    r1: "pythonFix n tls h (group_list ?g a) opts w = Some (Inr r1, w1)" "rs1 = obj_merge [] r1" "exs1 = []" by auto
  from step_python [OF o(3) s2] obtain r2 where
    r2: "pythonFix n tls h (group_list ?g b) opts w1 = Some (Inr r2, w')"
    "fr_results fr = obj_merge rs1 r2" "fr_exceptions fr = exs1" by auto
  from pythonFix_accounts [OF assms(1,2) r1(1)] obtain q1 where q1: "r1 = [(''python'', q1)]" by blast
  from pythonFix_accounts [OF assms(1,2) r2(1)] obtain q2 X where q2: "r2 = [(''python'', q2)]"
    "accounted q2 = mset (group_list ?g b) + X" "set_mset X \<subseteq> set (group_list ?g b)" by blast
  have "fr_results fr = [(''python'', q2)]"
    by (simp add: r2(2) r1(2) q1 q2(1) obj_merge_python)
  then have "answered (fr_results fr) (fr_exceptions fr) = mset (group_list ?g b) + X"
    by (simp add: r2(3) r1(3) answered_simps q2(2))
  with q2(3) show ?thesis by (auto simp: o(1) group_list_eq)
qed

text \<open>a dry run of the whole fix leaves the world as it was.\<close>

theorem fix_dry_run:
  assumes "tools_ok tls" "dryRun opts" "fix_fuel n tls st order h es opts w = Some (q, w')"
  shows "w' = w"
proof -
  have "keepsP (\<lambda>s. s = w) (pythonFix n tls h vs opts)" for vs
    unfolding pythonFix_def Let_def
    by (intro frame_intros python_step_keeps loadHandler_dry [OF assms(1,2)])
  then have "keepsP (\<lambda>s. s = w) (foldP (scan_type_step n tls h opts g) order acc)" for g acc
    by (intro frame_intros scan_type_step_keeps)
  then have "w1 = w" if "foldP (scan_type_step n tls h opts g) order acc w = Some (x, w1)" for g acc x w1
    using that unfolding keepsP_def by blast
  with assms(3) show ?thesis
    by (auto simp: fix_fuel_def bindP_def Let_def split: prod.splits option.splits sum.splits)
qed

section \<open>Witnesses\<close>

definition sample_style :: style where
  "sample_style = \<lparr>c_bold = id, c_red = id, c_green = id, c_bold_red = id, c_green_bold = id,
     c_grey = id, c_hex = (\<lambda>_. id), strip_ansi = id\<rparr>"

abbreviation sample_order :: "handler_type list" where
  "sample_order \<equiv> [REQUIREMENTS, PIPFILE, POETRY]"

abbreviation sample_pair :: "entity list" where
  "sample_pair \<equiv> [sample_entity ''pip'' ''requirements.txt'', sample_entity ''poetry'' ''requirements.txt'']"

lemma sample_scan [simp]: "scan_type (sample_entity ty f) = ty" "issues (testResult (sample_entity ty f)) \<noteq> []"
  by (simp_all add: scan_type_def sample_entity_def)

lemma sample_step:
  assumes "t = ''pip'' \<or> t = ''poetry''" "group_list g t = [sample_entity t ''requirements.txt'']"
  shows "\<exists>acc'. scan_type_step 2 sample_tools sample_order (sample_opts True) g t acc sample_world =
    Some (Inr acc', sample_world)"
proof -
  obtain rs exs where acc: "acc = (rs, exs)" by fastforce
  from sample_python_run [OF refl refl, of t] obtain r where
    r: "pythonFix 2 sample_tools sample_order (group_list g t) (sample_opts True) sample_world =
        Some (Inr [(''python'', r)], sample_world)" by (auto simp: assms(2))
  have "loadPlugin 2 sample_tools sample_order t = Inr (pythonFix 2 sample_tools sample_order)"
    using assms(1) by (auto simp: loadPlugin_def)
  with r show ?thesis
    unfolding acc scan_type_step_def group_list_def Let_def by (simp add: catchP_def bindP_def)
qed

lemma sample_fix_run:
  assumes "es = sample_pair \<and> order = [''pip'', ''poetry''] \<or>
    es = [sample_entity ''pip'' ''requirements.txt''] \<and> order = [''pip'']"
  shows "\<exists>fr. fix_fuel 2 sample_tools sample_style order sample_order es (sample_opts True) sample_world =
    Some (Inr fr, sample_world)"
proof -
  let ?g = "groupEntitiesPerScanType es"
  have p: "partitionByVulnerable es = (es, [])"
    using assms by (auto simp: partitionByVulnerable_eq)
  have g: "group_list ?g t = [sample_entity t ''requirements.txt'']" if "t \<in> set order" for t
    using assms that by (auto simp: group_list_eq)
  have "\<exists>acc. foldP (scan_type_step 2 sample_tools sample_order (sample_opts True) ?g) order ([], []) sample_world =
      Some (Inr acc, sample_world)"
  proof (rule foldP_returns)
    fix t and a :: "results_by_plugin \<times> errors_by_ecosystem" assume "t \<in> set order"
    with assms have "t = ''pip'' \<or> t = ''poetry''" by auto
    from sample_step [OF this g [OF \<open>t \<in> set order\<close>]]
    show "\<exists>a'. scan_type_step 2 sample_tools sample_order (sample_opts True) ?g t a sample_world =
        Some (Inr a', sample_world)" .
  qed
  then obtain rs exs where "foldP (scan_type_step 2 sample_tools sample_order (sample_opts True) ?g) order ([], []) sample_world =
      Some (Inr (rs, exs), sample_world)" by auto
  then show ?thesis by (simp add: fix_fuel_def p bindP_def)
qed


lemma fix_loses_first_plugin_witness:
  "\<exists>fr. fix_fuel 2 sample_tools sample_style [''pip'', ''poetry''] sample_order sample_pair
        (sample_opts True) sample_world = Some (Inr fr, sample_world) \<and>
     sample_entity ''pip'' ''requirements.txt'' \<notin># answered (fr_results fr) (fr_exceptions fr)"
proof -
  from sample_fix_run obtain fr where
    run: "fix_fuel 2 sample_tools sample_style [''pip'', ''poetry''] sample_order sample_pair (sample_opts True) sample_world =
      Some (Inr fr, sample_world)" by blast
  from fix_loses_first_plugin [OF tools_ok_sample refl _ run] have
    "set_mset (answered (fr_results fr) (fr_exceptions fr)) =
      {e \<in> set sample_pair. issues (testResult e) \<noteq> [] \<and> scan_type e = ''poetry''}" by simp
  then have "sample_entity ''pip'' ''requirements.txt'' \<notin> set_mset (answered (fr_results fr) (fr_exceptions fr))"
    by simp
  with run show ?thesis by blast
qed

lemma fix_dry_run_witness:
  "\<exists>q. fix_fuel 2 sample_tools sample_style [''pip''] sample_order [sample_entity ''pip'' ''requirements.txt'']
     (sample_opts True) sample_world = Some (q, sample_world)"
proof -
  from sample_fix_run obtain fr where
    run: "fix_fuel 2 sample_tools sample_style [''pip''] sample_order [sample_entity ''pip'' ''requirements.txt'']
      (sample_opts True) sample_world = Some (Inr fr, sample_world)" by blast
  have "dryRun (sample_opts True)" by (simp add: sample_opts_def)
  from fix_dry_run [OF tools_ok_sample this run] run show ?thesis by blast
qed

end
