(* ===== verification/JsJson.thy ===== *)
theory JsJson
  imports JsObject
begin

text \<open>
  \<open>JSON.parse\<close>, \<open>JSON.stringify\<close> of a string, and the conversions of a parsed value the code
  relies on (template literals, iteration, strict equality, conditions). Numbers are exact:
  an integral number is \<open>JNum\<close>, any other is \<open>JDec m e\<close> for \<open>m / 10 ^ e\<close>; the rounding to
  a double is not modelled. An escape \<open>\u\<close> above the code units of the model reads as its
  low byte.
\<close>

section \<open>Reading JSON\<close>

definition json_ws :: "char \<Rightarrow> bool" where
  "json_ws c = ((of_char c :: nat) \<in> {9, 10, 13, 32})"

definition skip_ws :: "string \<Rightarrow> string" where
  "skip_ws s = dropWhile json_ws s"

definition hex_val :: "char \<Rightarrow> nat option" where
  "hex_val c =
     (let n = (of_char c :: nat) in
      if 48 \<le> n \<and> n \<le> 57 then Some (n - 48)
      else if 97 \<le> n \<and> n \<le> 102 then Some (n - 87)
      else if 65 \<le> n \<and> n \<le> 70 then Some (n - 55) else None)"

definition simple_escape :: "char \<Rightarrow> char option" where
  "simple_escape c =
     map_of [(CHR 0x22, CHR 0x22), (CHR 0x5C, CHR 0x5C), (CHR ''/'', CHR ''/''),
       (CHR ''b'', CHR 8), (CHR ''f'', CHR 12), (CHR ''n'', CHR 10),
       (CHR ''r'', CHR 13), (CHR ''t'', CHR 9)] c"

text \<open>The body of a string literal behind its opening quote: the text and what follows.\<close>

fun json_string :: "string \<Rightarrow> (string \<times> string) option" where
  "json_string [] = None"
| "json_string (c # s) =
     (if c = CHR 0x22 then Some ([], s)
      else if (of_char c :: nat) < 32 then None
      else if c = CHR 0x5C then
        (case s of
           [] \<Rightarrow> None
         | e # s1 \<Rightarrow>
             (if e = CHR ''u'' then
                (case s1 of
                   h1 # h2 # h3 # h4 # s2 \<Rightarrow>
                     (case (hex_val h1, hex_val h2, hex_val h3, hex_val h4) of
                        (Some _, Some _, Some n3, Some n4) \<Rightarrow>
                          map_option (\<lambda>(t, r). (char_of (16 * n3 + n4) # t, r)) (json_string s2)
                      | _ \<Rightarrow> None)
                 | _ \<Rightarrow> None)
              else
                (case simple_escape e of
                   None \<Rightarrow> None
                 | Some x \<Rightarrow> map_option (\<lambda>(t, r). (x # t, r)) (json_string s1))))
      else map_option (\<lambda>(t, r). (c # t, r)) (json_string s))"

text \<open>Numbers: sign, integer part without leading zeros, fraction, exponent.\<close>

fun norm_dec :: "nat \<Rightarrow> int \<Rightarrow> json" where
  "norm_dec 0 m = JNum m"
| "norm_dec (Suc k) m = (if m mod 10 = 0 then norm_dec k (m div 10) else JDec m (Suc k))"

definition json_number :: "string \<Rightarrow> (json \<times> string) option" where
  "json_number s =
     (let neg = js_startsWith s ''-'';
          s1 = (if neg then drop 1 s else s);
          ip = takeWhile js_digit s1;
          s2 = dropWhile js_digit s1;
          frac = js_startsWith s2 ''.'';
          fp = (if frac then takeWhile js_digit (drop 1 s2) else []);
          s3 = (if frac then dropWhile js_digit (drop 1 s2) else s2);
          ex = (s3 \<noteq> [] \<and> hd s3 \<in> {CHR ''e'', CHR ''E''});
          s4 = (if ex then drop 1 s3 else s3);
          eneg = (ex \<and> js_startsWith s4 ''-'');
          s5 = (if ex \<and> s4 \<noteq> [] \<and> hd s4 \<in> {CHR ''+'', CHR ''-''} then drop 1 s4 else s4);
          ep = (if ex then takeWhile js_digit s5 else []);
          s6 = (if ex then dropWhile js_digit s5 else s5);
          m = int (nat_of_digits (ip @ fp));
          v = (if neg then - m else m);
          e = nat_of_digits ep in
      if ip = [] \<or> (length ip > 1 \<and> hd ip = CHR ''0'') \<or> (frac \<and> fp = []) \<or> (ex \<and> ep = []) then None
      else Some (if eneg then norm_dec (length fp + e) v
                 else norm_dec (length fp - e) (v * 10 ^ (e - length fp)), s6))"

text \<open>
  Values, the elements of an array and the members of an object; the fuel bounds the nesting
  and the number of elements together, so one more than the length of the text is enough.
\<close>

fun json_value :: "nat \<Rightarrow> string \<Rightarrow> (json \<times> string) option"
  and json_elems :: "nat \<Rightarrow> string \<Rightarrow> (json list \<times> string) option"
  and json_members :: "nat \<Rightarrow> json obj \<Rightarrow> string \<Rightarrow> (json obj \<times> string) option" where
  "json_value 0 s = None"
| "json_value (Suc n) s =
     (let t = skip_ws s in
      if js_startsWith t ''null'' then Some (JNull, drop 4 t)
      else if js_startsWith t ''true'' then Some (JBool True, drop 4 t)
      else if js_startsWith t ''false'' then Some (JBool False, drop 5 t)
      else
        (case t of
           [] \<Rightarrow> None
         | c # r \<Rightarrow>
             (if c = CHR 0x22 then map_option (\<lambda>(x, q). (JStr x, q)) (json_string r)
              else if c = CHR ''['' then
                (let q = skip_ws r in
                 if js_startsWith q '']'' then Some (JArr [], drop 1 q)
                 else map_option (\<lambda>(x, q). (JArr x, q)) (json_elems n r))
              else if c = CHR ''{'' then
                (let q = skip_ws r in
                 if js_startsWith q ''}'' then Some (JObj [], drop 1 q)
                 else map_option (\<lambda>(x, q). (JObj x, q)) (json_members n [] r))
              else json_number t)))"
| "json_elems 0 s = None"
| "json_elems (Suc n) s =
     (case json_value n s of
        None \<Rightarrow> None
      | Some (v, r) \<Rightarrow>
          (let q = skip_ws r in
           if js_startsWith q '','' then
             map_option (\<lambda>(vs, z). (v # vs, z)) (json_elems n (drop 1 q))
           else if js_startsWith q '']'' then Some ([v], drop 1 q)
           else None))"
| "json_members 0 ob s = None"
| "json_members (Suc n) ob s =
     (case skip_ws s of
        [] \<Rightarrow> None
      | c # r \<Rightarrow>
          (if c \<noteq> CHR 0x22 then None
           else
             (case json_string r of
                None \<Rightarrow> None
              | Some (k, r1) \<Rightarrow>
                  (let q = skip_ws r1 in
                   if \<not> js_startsWith q '':'' then None
                   else
                     (case json_value n (drop 1 q) of
                        None \<Rightarrow> None
                      | Some (v, r2) \<Rightarrow>
                          (let q2 = skip_ws r2; ob2 = obj_set k v ob in
                           if js_startsWith q2 '','' then json_members n ob2 (drop 1 q2)
                           else if js_startsWith q2 ''}'' then Some (ob2, drop 1 q2)
                           else None))))))"

text \<open>\<open>JSON.parse(s)\<close>: the value, or \<open>None\<close> where a SyntaxError is thrown.\<close>

definition json_parse :: "string \<Rightarrow> json option" where
  "json_parse s =
     (case json_value (Suc (length s)) s of
        Some (v, r) \<Rightarrow> (if skip_ws r = [] then Some v else None)
      | None \<Rightarrow> None)"

section \<open>Printing and converting\<close>

definition hex_digit :: "nat \<Rightarrow> char" where
  "hex_digit n = (if n < 10 then char_of (48 + n) else char_of (87 + n))"

definition json_escape :: "char \<Rightarrow> string" where
  "json_escape c =
     (let n = (of_char c :: nat) in
      if n = 34 \<or> n = 92 then [CHR 0x5C, c]
      else if n = 8 then [CHR 0x5C, CHR ''b'']
      else if n = 9 then [CHR 0x5C, CHR ''t'']
      else if n = 10 then [CHR 0x5C, CHR ''n'']
      else if n = 12 then [CHR 0x5C, CHR ''f'']
      else if n = 13 then [CHR 0x5C, CHR ''r'']
      else if n < 32 then [CHR 0x5C, CHR ''u'', CHR ''0'', CHR ''0'', hex_digit (n div 16), hex_digit (n mod 16)]
      else [c])"

text \<open>\<open>JSON.stringify(s)\<close> for a string.\<close>

definition json_quote :: "string \<Rightarrow> string" where
  "json_quote s = CHR 0x22 # concat (map json_escape s) @ [CHR 0x22]"

definition str_of_int :: "int \<Rightarrow> string" where
  "str_of_int i = (if i < 0 then CHR ''-'' # str_of_nat (nat (- i)) else str_of_nat (nat i))"

text \<open>A value in a template literal. A decimal prints in positional notation.\<close>

definition pad_zeros :: "nat \<Rightarrow> string \<Rightarrow> string" where
  "pad_zeros n s = replicate (n - length s) (CHR ''0'') @ s"

definition str_of_dec :: "int \<Rightarrow> nat \<Rightarrow> string" where
  "str_of_dec m k =
     (let ds = pad_zeros (Suc k) (str_of_nat (nat (abs m))); i = length ds - k in
      (if m < 0 then ''-'' else []) @ take i ds @ ''.'' @ drop i ds)"

fun json_text :: "json \<Rightarrow> string" where
  "json_text JUndef = ''undefined''"
| "json_text JNull = ''null''"
| "json_text (JBool b) = (if b then ''true'' else ''false'')"
| "json_text (JNum i) = str_of_int i"
| "json_text (JDec m k) = str_of_dec m k"
| "json_text (JStr s) = s"
| "json_text (JArr vs) =
     js_join '','' (map (\<lambda>v. if v = JUndef \<or> v = JNull then [] else json_text v) vs)"
| "json_text (JObj ps) = ''[object Object]''"

text \<open>\<open>v?.k\<close>\<close>

definition field_opt :: "json \<Rightarrow> string \<Rightarrow> json" where
  "field_opt v k = (case json_prop v k of Inl t \<Rightarrow> JUndef | Inr x \<Rightarrow> x)"

text \<open>A value in a condition.\<close>

definition js_true :: "json \<Rightarrow> bool" where
  "js_true v = (v \<notin> {JUndef, JNull, JBool False, JNum 0, JStr []})"

text \<open>\<open>a === b\<close> on parsed values: two parsed arrays or objects are never the same object.\<close>

definition json_same :: "json \<Rightarrow> json \<Rightarrow> bool" where
  "json_same a b = (case a of JArr vs \<Rightarrow> False | JObj ps \<Rightarrow> False | _ \<Rightarrow> a = b)"

text \<open>\<open>for (const x of v)\<close>: arrays and strings can be iterated, anything else throws.\<close>

definition json_iter :: "json \<Rightarrow> json list option" where
  "json_iter v = (case v of JArr vs \<Rightarrow> Some vs | JStr s \<Rightarrow> Some (map (\<lambda>c. JStr [c]) s) | _ \<Rightarrow> None)"

section \<open>Strings come back\<close>

lemma hex_val_digit [simp]: "n < 16 \<Longrightarrow> hex_val (hex_digit n) = Some n"
  by (auto simp: hex_val_def hex_digit_def Let_def of_char_of)

lemma hex_digit_range: "n < 16 \<Longrightarrow> 32 \<le> (of_char (hex_digit n) :: nat)"
  by (auto simp: hex_digit_def of_char_of)

lemma json_string_plain:
  assumes "c \<noteq> CHR 0x22" "c \<noteq> CHR 0x5C" "32 \<le> (of_char c :: nat)"
  shows "json_string (c # s) = map_option (\<lambda>(t, r). (c # t, r)) (json_string s)"
  using assms by simp

lemma json_string_simple:
  "simple_escape e = Some x \<Longrightarrow> e \<noteq> CHR ''u'' \<Longrightarrow>
   json_string (CHR 0x5C # e # s) = map_option (\<lambda>(t, r). (x # t, r)) (json_string s)"
  by simp

lemma json_string_hex:
  assumes "a < 16" "b < 16"
  shows "json_string (CHR 0x5C # CHR ''u'' # CHR ''0'' # CHR ''0'' # hex_digit a # hex_digit b # s) =
    map_option (\<lambda>(t, r). (char_of (16 * a + b) # t, r)) (json_string s)"
proof -
  have "hex_val (CHR ''0'') = Some 0" by (simp add: hex_val_def)
  with assms show ?thesis by simp
qed

lemma json_string_escape:
  "json_string (json_escape c @ s) = map_option (\<lambda>(t, r). (c # t, r)) (json_string s)"
proof -
  obtain n where n: "(of_char c :: nat) = n" by blast
  have c: "c = char_of n" using n by (metis char_of_char)
  have n256: "n < 256" using nat_of_char_less_256 [of c] n by simp
  consider (esc) "n \<in> {34, 92, 8, 9, 10, 12, 13}" | (ctl) "n < 32" "n \<notin> {8, 9, 10, 12, 13}"
    | (plain) "32 \<le> n" "n \<noteq> 34" "n \<noteq> 92" by fastforce
  then show ?thesis
  proof cases
    case esc
    have "c \<in> {CHR 0x22, CHR 0x5C, CHR 8, CHR 9, CHR 10, CHR 12, CHR 13}"
    proof -
      have "(of_char c :: nat) \<in> of_char ` {CHR 0x22, CHR 0x5C, CHR 8, CHR 9, CHR 10, CHR 12, CHR 13}"
        using esc n by simp
      then show ?thesis by (simp only: inj_image_mem_iff [OF inj_of_char])
    qed
    then show ?thesis
      by (elim insertE emptyE) (simp_all add: json_escape_def simple_escape_def)
  next
    case ctl
    then have "json_escape c = [CHR 0x5C, CHR ''u'', CHR ''0'', CHR ''0'', hex_digit (n div 16), hex_digit (n mod 16)]"
      using n by (simp add: json_escape_def Let_def)
    moreover have "16 * (n div 16) + n mod 16 = n" by simp
    ultimately show ?thesis using json_string_hex [of "n div 16" "n mod 16" s] ctl c by simp
  next
    case plain
    then have "json_escape c = [c]" using n by (simp add: json_escape_def Let_def)
    moreover have "c \<noteq> CHR 0x22" "c \<noteq> CHR 0x5C" using plain n by auto
    ultimately show ?thesis using json_string_plain [of c s] plain n by simp
  qed
qed

lemma json_quote_parse: "json_string (drop 1 (json_quote s) @ r) = Some (s, r)"
  by (induction s) (simp_all add: json_quote_def json_string_escape)

lemma json_quote_cancel:
  assumes "json_quote v @ r = json_quote w @ t"
  shows "v = w" and "r = t"
proof -
  have "drop 1 (json_quote v) @ r = drop 1 (json_quote w) @ t"
    using arg_cong [OF assms, of "drop 1"] by (simp only: json_quote_def append_Cons drop_Suc_Cons drop_0 One_nat_def)
  then have "json_string (drop 1 (json_quote v) @ r) = json_string (drop 1 (json_quote w) @ t)"
    by (simp only:)
  then show "v = w" "r = t" unfolding json_quote_parse by simp_all
qed

text \<open>\<open>JSON.stringify(ws)\<close> for an array of strings; distinct arrays print differently.\<close>

definition json_array_text :: "string list \<Rightarrow> string" where
  "json_array_text ws = ''['' @ js_join '','' (map json_quote ws) @ '']''"

lemma json_quote_head: "json_quote w @ r \<noteq> CHR '']'' # t"
  by (simp add: json_quote_def)

lemma json_join_Cons:
  "js_join '','' (map json_quote (x # xs)) @ '']'' =
     json_quote x @ (if xs = [] then '']'' else CHR '','' # js_join '','' (map json_quote xs) @ '']'')"
  by (cases xs) simp_all

lemma json_join_inj:
  "js_join '','' (map json_quote vs) @ '']'' = js_join '','' (map json_quote ws) @ '']'' \<Longrightarrow> vs = ws"
proof (induction vs arbitrary: ws)
  case Nil
  show ?case
  proof (cases ws)
    case (Cons w ws')
    with Nil json_quote_head show ?thesis unfolding Cons json_join_Cons by (metis append_Nil js_join.simps(1) list.simps(8))
  qed simp
next
  case (Cons v vs)
  show ?case
  proof (cases ws)
    case Nil
    with Cons.prems json_quote_head show ?thesis
      unfolding Nil json_join_Cons by (metis append_Nil js_join.simps(1) list.simps(8))
  next
    case ws: (Cons w ws')
    have e: "json_quote v @ (if vs = [] then '']'' else CHR '','' # js_join '','' (map json_quote vs) @ '']'') =
        json_quote w @ (if ws' = [] then '']'' else CHR '','' # js_join '','' (map json_quote ws') @ '']'')"
      using Cons.prems unfolding ws json_join_Cons .
    from json_quote_cancel [OF e] have v: "v = w"
      and r: "(if vs = [] then '']'' else CHR '','' # js_join '','' (map json_quote vs) @ '']'') =
        (if ws' = [] then '']'' else CHR '','' # js_join '','' (map json_quote ws') @ '']'')" by blast+
    show ?thesis
    proof (cases "vs = []")
      case True
      with r have "ws' = []" by (simp split: if_splits)
      with True v ws show ?thesis by simp
    next
      case False
      with r have "ws' \<noteq> []" by (simp split: if_splits)
      with r False have "js_join '','' (map json_quote vs) @ '']'' = js_join '','' (map json_quote ws') @ '']''"
        by simp
      with Cons.IH v ws show ?thesis by blast
    qed
  qed
qed

lemma json_array_text_inj: "json_array_text vs = json_array_text ws \<longleftrightarrow> vs = ws"
  using json_join_inj by (auto simp: json_array_text_def)

end
