(* ===== verification/ProtectWorld.thy ===== *)
theory ProtectWorld
  imports JsJson JsPath
begin

text \<open>
  The data of the package \<open>vulnmap-protect\<close> (\<open>src/lib/types.ts\<close>) and the world its
  synchronous and network calls act on: a file system with links, the printed lines, the
  requests sent for analytics. The network itself is a parameter: \<open>http\<close> gives for a
  requested URL the error of the request or the status code and the body of the response.
\<close>

section \<open>Types\<close>

record patch_info =
  pi_patchableVersions :: json
  pi_urls :: "json list"

record vuln_pkg =
  vulnId :: string
  packageName :: string

record physical_package =
  fp_packageName :: string
  fp_packageVersion :: json
  fp_path :: string

record patch =
  patchableVersions :: json
  patchDiffs :: "string list"

record vuln_patches =
  vp_vulnId :: string
  vp_patches :: "patch list"

record patched_module =
  pm_vulnId :: string
  pm_packageName :: string
  pm_packageVersion :: json

datatype protect_result =
    NO_VULNMAP_FILE
  | NOTHING_TO_PATCH
  | APPLIED_PATCHES "patched_module list"

record analytics_payload =
  ap_command :: string
  ap_args :: "string list"
  ap_version :: json
  ap_nodeVersion :: string
  ap_protectResult :: protect_result

text \<open>
  What the code throws: an \<open>Error\<close> made from a value, a TypeError, the SyntaxError of
  \<open>JSON.parse\<close>, an error of \<open>fs\<close>, a failed request.
\<close>

datatype protect_error =
    ErrorOf json
  | TypeErr string
  | SyntaxErr
  | FsErr string string
  | NetErr string

section \<open>World and environment\<close>

text \<open>
  A path names a file, a folder with the names in it, or a link to another path. The folders
  a path leads through are already resolved in the map.
\<close>

datatype node =
    FileNode string
  | DirNode "string list"
  | LinkNode string

record pworld =
  nodes :: "string \<Rightarrow> node option"
  can_write :: "string \<Rightarrow> bool"
  out_lines :: "string list"
  err_lines :: "string list"
  posts :: "(string \<times> analytics_payload) list"
  ticks :: nat

record penv =
  argv :: "string list"
  working_dir :: string
  env_api :: "string option"
  env_disable_analytics :: "string option"
  env_config_file :: "string option"
  homedir :: string
  lib_dir :: string
  node_version :: string
  iso_date :: "nat \<Rightarrow> string"
  http :: "json \<Rightarrow> string + (nat \<times> string)"

type_synonym 'a pio = "(protect_error, pworld, 'a) eff"

definition resolve :: "penv \<Rightarrow> string list \<Rightarrow> string" where
  "resolve en ps = path_resolve (working_dir en) ps"

text \<open>\<open>fs.existsSync\<close> follows a link, \<open>fs.lstatSync\<close> does not.\<close>

definition existsSync :: "pworld \<Rightarrow> string \<Rightarrow> bool" where
  "existsSync w p =
     (case nodes w p of None \<Rightarrow> False | Some (LinkNode q) \<Rightarrow> nodes w q \<noteq> None | Some _ \<Rightarrow> True)"

definition lstat_isDirectory :: "pworld \<Rightarrow> string \<Rightarrow> bool" where
  "lstat_isDirectory w p = (case nodes w p of Some (DirNode ns) \<Rightarrow> True | _ \<Rightarrow> False)"

definition lstat_isFile :: "pworld \<Rightarrow> string \<Rightarrow> bool" where
  "lstat_isFile w p = (case nodes w p of Some (FileNode t) \<Rightarrow> True | _ \<Rightarrow> False)"

definition readdir :: "pworld \<Rightarrow> string \<Rightarrow> string list" where
  "readdir w p = (case nodes w p of Some (DirNode ns) \<Rightarrow> ns | _ \<Rightarrow> [])"

definition follow :: "pworld \<Rightarrow> string \<Rightarrow> string" where
  "follow w p = (case nodes w p of Some (LinkNode q) \<Rightarrow> q | _ \<Rightarrow> p)"

definition read_text :: "pworld \<Rightarrow> string \<Rightarrow> protect_error + string" where
  "read_text w p =
     (case nodes w (follow w p) of
        Some (FileNode t) \<Rightarrow> Inr t
      | Some (DirNode ns) \<Rightarrow> Inl (FsErr ''EISDIR'' p)
      | Some (LinkNode q) \<Rightarrow> Inl (FsErr ''ELOOP'' p)
      | None \<Rightarrow> Inl (FsErr ''ENOENT'' p))"

definition readFileSync :: "string \<Rightarrow> string pio" where
  "readFileSync p = (\<lambda>w. (read_text w p, w))"

definition writeFileSync :: "string \<Rightarrow> string \<Rightarrow> unit pio" where
  "writeFileSync p t = (\<lambda>w.
     let q = follow w p in
     if lstat_isDirectory w q then (Inl (FsErr ''EISDIR'' p), w)
     else if can_write w q then (Inr (), w\<lparr>nodes := (nodes w)(q \<mapsto> FileNode t)\<rparr>)
     else (Inl (FsErr ''EACCES'' p), w))"

definition console_log :: "string \<Rightarrow> unit pio" where
  "console_log t = (\<lambda>w. (Inr (), w\<lparr>out_lines := out_lines w @ [t]\<rparr>))"

definition console_warn :: "string \<Rightarrow> unit pio" where
  "console_warn t = (\<lambda>w. (Inr (), w\<lparr>err_lines := err_lines w @ [t]\<rparr>))"

definition date_now :: "penv \<Rightarrow> string pio" where
  "date_now en = (\<lambda>w. (Inr (iso_date en (ticks w)), w\<lparr>ticks := Suc (ticks w)\<rparr>))"

text \<open>\<open>JSON.parse\<close> and the reading of a property, with what they throw.\<close>

definition parse_json :: "string \<Rightarrow> protect_error + json" where
  "parse_json t = (case json_parse t of None \<Rightarrow> Inl SyntaxErr | Some v \<Rightarrow> Inr v)"

definition prop_of :: "json \<Rightarrow> string \<Rightarrow> protect_error + json" where
  "prop_of v k = (case json_prop v k of Inl t \<Rightarrow> Inl (TypeErr t) | Inr x \<Rightarrow> Inr x)"

section \<open>Laws of the calls\<close>

lemma readFileSync_state [simp]: "snd (readFileSync p w) = w"
  by (simp add: readFileSync_def)

lemma keeps_readFileSync [frame_intros]: "keeps P (readFileSync p)"
  by (simp add: keeps_def)

lemma writeFileSync_state:
  "writeFileSync p t w = (Inr u, w') \<Longrightarrow>
     \<not> lstat_isDirectory w (follow w p) \<and> can_write w (follow w p) \<and>
     w' = w\<lparr>nodes := (nodes w)(follow w p \<mapsto> FileNode t)\<rparr>"
  by (auto simp: writeFileSync_def Let_def split: if_splits)

lemma writeFileSync_fail: "writeFileSync p t w = (Inl e, w') \<Longrightarrow> w' = w"
  by (auto simp: writeFileSync_def Let_def split: if_splits)

lemma writeFileSync_exists:
  assumes "writeFileSync p t w = (Inr u, w')"
  shows "existsSync w' p"
  using writeFileSync_state [OF assms]
  by (auto simp: existsSync_def follow_def split: option.splits node.splits)

text \<open>A file that is there stays there: the package never deletes.\<close>

lemma writeFileSync_keeps_exists:
  assumes "existsSync w q"
  shows "existsSync (snd (writeFileSync p t w)) q"
  using assms
  by (auto simp: writeFileSync_def existsSync_def Let_def follow_def split: option.splits node.splits)

lemma keeps_exists_write [frame_intros]: "keeps (\<lambda>w. existsSync w q) (writeFileSync p t)"
  by (simp add: keeps_def writeFileSync_keeps_exists)

lemma keeps_exists_log [frame_intros]: "keeps (\<lambda>w. existsSync w q) (console_log t)"
  by (simp add: keeps_def console_log_def existsSync_def split: option.splits node.splits)

lemma keeps_exists_date [frame_intros]: "keeps (\<lambda>w. existsSync w q) (date_now en)"
  by (simp add: keeps_def date_now_def existsSync_def split: option.splits node.splits)

end
