(* ===== verification/ProtectPolicy.thy ===== *)
theory ProtectPolicy
  imports ProtectWorld JsRegExp
begin

text \<open>
  \<open>utils.ts\<close> and \<open>vulnmap-file.ts\<close>: removing quotes, and the line-based reading of the
  \<open>patch\<close> section of a \<open>.vulnmap\<close> file into pairs of a vulnerability and a package.
\<close>

section \<open>Quotes\<close>

definition strip_ends :: "string \<Rightarrow> string" where
  "strip_ends s = drop 1 (take (length s - 1) s)"

text \<open>
  \<open>substring(1, length - 1)\<close>; on a text of one code unit the arguments are swapped, which
  again gives the empty text.
\<close>

definition unquote :: "char \<Rightarrow> string \<Rightarrow> string" where
  "unquote q s = (if js_startsWith s [q] \<and> js_endsWith s [q] then strip_ends s else s)"

definition deQuote :: "string \<Rightarrow> string" where
  "deQuote s = unquote (CHR 0x27) (unquote (CHR 0x22) s)"

section \<open>Lines of the policy\<close>

text \<open>\<open>/^(\s*)(.*):(?:$| )+(.*)$/i\<close>\<close>

definition line_re :: re where
  "line_re = RSeqs [RBeg, RGrp 1 (RStar (RCls js_ws)), RGrp 2 (RStar RDot), RChr (CHR '':''),
     RPlus (RAlt REnd (RChr (CHR '' ''))), RGrp 3 (RStar RDot), REnd]"

definition line_parts :: "string \<Rightarrow> (string \<times> string \<times> string) option" where
  "line_parts l =
     map_option (\<lambda>m. (the (re_group m 1), the (re_group m 2), the (re_group m 3)))
       (re_exec False line_re (js_trimEnd l))"

definition policy_line :: "string \<Rightarrow> bool" where
  "policy_line l = (l \<noteq> [] \<and> \<not> js_startsWith (js_trimStart l) ''#'')"

text \<open>
  The state of the reduction: whether the \<open>patch\<close> section is being read, the vulnerability
  the next packages belong to, and the object of package names by vulnerability.
\<close>

record policy_state =
  writingPatches :: bool
  writingTo :: "string option"
  ps_acc :: "string list obj"

definition destination_of :: "string \<Rightarrow> string" where
  "destination_of key =
     js_replace_all_in [CHR 0x27, CHR 0x22] [] (js_trim (last (js_split (CHR ''>'') (drop 1 key))))"

definition policy_step ::
  "string \<times> string \<times> string \<Rightarrow> policy_state \<Rightarrow> protect_error + policy_state" where
  "policy_step parts st =
     (case parts of (prefix, key, val) \<Rightarrow>
        if writingPatches st \<and> prefix = [] then Inr (st\<lparr>writingPatches := False\<rparr>)
        else if prefix = [] \<and> key = ''patch'' \<and> val = [] then Inr (st\<lparr>writingPatches := True\<rparr>)
        else if writingPatches st then
          (if length prefix = 2 then
             Inr (st\<lparr>writingTo := Some key, ps_acc := obj_set key [] (ps_acc st)\<rparr>)
           else if js_startsWith key ''-'' then
             (let k = str_of_opt (writingTo st); d = destination_of key in
              case obj_get (ps_acc st) k of
                None \<Rightarrow> Inl (TypeErr ''Cannot read properties of undefined'')
              | Some ds \<Rightarrow>
                  Inr (if d \<in> set ds then st else st\<lparr>ps_acc := obj_set k (ds @ [d]) (ps_acc st)\<rparr>))
           else Inr st)
        else Inr st)"

definition policy_start :: policy_state where
  "policy_start = \<lparr>writingPatches = False, writingTo = None, ps_acc = []\<rparr>"

definition policy_patches :: "string \<Rightarrow> protect_error + string list obj" where
  "policy_patches text =
     bindS (foldS policy_step
              (List.map_filter line_parts (filter policy_line (js_split (CHR 0x0A) text))) policy_start)
       (\<lambda>st. Inr (ps_acc st))"

definition no_package :: protect_error where
  "no_package = ErrorOf (JStr ''should never have no package names for a vulnId in a .vulnmap file'')"

definition many_packages :: protect_error where
  "many_packages =
     ErrorOf (JStr ''should never have more than one package name for a vulnId in a .vulnmap file'')"

definition policy_entry :: "string \<times> string list \<Rightarrow> protect_error + vuln_pkg" where
  "policy_entry e =
     (case snd e of
        [] \<Rightarrow> Inl no_package
      | [p] \<Rightarrow> Inr \<lparr>vulnId = deQuote (js_trim (fst e)), packageName = p\<rparr>
      | _ \<Rightarrow> Inl many_packages)"

definition extractPatchMetadata :: "string \<Rightarrow> protect_error + vuln_pkg list" where
  "extractPatchMetadata text = bindS (policy_patches text) (mapS policy_entry)"

section \<open>The accumulated object\<close>

text \<open>
  Invariant of the reduction: the keys are distinct, a vulnerability being written to has its
  entry, and no package is listed twice under one vulnerability.
\<close>

definition policy_inv :: "policy_state \<Rightarrow> bool" where
  "policy_inv st \<longleftrightarrow> wf_obj (ps_acc st) \<and>
     (\<forall>k. writingTo st = Some k \<longrightarrow> k \<in> set (obj_keys (ps_acc st))) \<and>
     (\<forall>k ds. obj_get (ps_acc st) k = Some ds \<longrightarrow> distinct ds)"

lemma policy_inv_start: "policy_inv policy_start"
  by (simp add: policy_inv_def policy_start_def)

lemma policy_step_inv:
  assumes "policy_inv st" and "policy_step parts st = Inr st'"
  shows "policy_inv st'"
proof -
  obtain a b c where p: "parts = (a, b, c)" by (cases parts) auto
  show ?thesis
    using assms unfolding p policy_step_def policy_inv_def Let_def prod.case
    by (simp split: if_split_asm option.split_asm;
        elim conjE; hypsubst; simp add: ob.ok_put ob.keys_put ob.get_put)
qed

lemma foldS_invariant:
  assumes "\<And>x a a'. I a \<Longrightarrow> f x a = Inr a' \<Longrightarrow> I a'"
  shows "I acc \<Longrightarrow> foldS f xs acc = Inr r \<Longrightarrow> I r"
proof (induction xs arbitrary: acc)
  case Nil
  then show ?case by simp
next
  case (Cons x xs)
  from Cons.prems obtain a where "f x acc = Inr a" "foldS f xs a = Inr r"
    by (auto simp: bindS_Inr_iff)
  with Cons.IH Cons.prems(1) assms show ?case by blast
qed

lemma policy_patches_inv:
  assumes "policy_patches text = Inr ob"
  shows "wf_obj ob" and "obj_get ob k = Some ds \<Longrightarrow> distinct ds"
proof -
  from assms obtain st where f: "foldS policy_step (List.map_filter line_parts
      (filter policy_line (js_split (CHR 0x0A) text))) policy_start = Inr st" and ob: "ob = ps_acc st"
    by (auto simp: policy_patches_def bindS_Inr_iff)
  have "policy_inv st"
    using foldS_invariant [where I = policy_inv, OF _ policy_inv_start f] policy_step_inv by blast
  then show "wf_obj ob" "obj_get ob k = Some ds \<Longrightarrow> distinct ds"
    using ob by (auto simp: policy_inv_def)
qed

section \<open>Lines of a generated policy\<close>

definition policy_word :: "string \<Rightarrow> bool" where
  "policy_word s \<longleftrightarrow> s \<noteq> [] \<and> \<not> js_ws (hd s) \<and> hd s \<noteq> CHR ''#'' \<and> list_all (\<lambda>c. \<not> js_lt c) s"

definition line_tail :: re where
  "line_tail = RSeqs [RPlus (RAlt REnd (RChr (CHR '' ''))), RGrp 3 (RStar RDot), REnd]"

lemma line_re_tail:
  "line_re = RSeq RBeg (RSeq (RGrp 1 (RStar (RCls js_ws))) (RSeq (RGrp 2 (RStar RDot))
     (RSeq (RChr (CHR '':'')) line_tail)))"
  by (simp add: line_re_def line_tail_def)

lemma line_tail_end: "rmatch False line_tail (b, [], cs) Some = Some (b, [], (3, []) # cs)"
  by (simp add: line_tail_def RPlus_def rest_len_def)

lemma js_trimEnd_last: "s = [] \<or> \<not> js_ws (last s) \<Longrightarrow> js_trimEnd s = s"
  by (cases s rule: rev_cases) (auto simp: js_trimEnd_def)

lemma colon_class: "\<not> js_ws (CHR '':'')" "\<not> js_lt (CHR '':'')"
  by (simp_all add: js_ws_def js_lt_def)

text \<open>A key alone on its line: the indentation, the key, no value.\<close>

lemma line_parts_key:
  assumes "list_all js_ws ind" and "policy_word w"
  shows "line_parts (ind @ w @ '':'') = Some (ind, w, [])"
proof -
  let ?s = "ind @ w @ '':''"
  let ?b = "rev w @ rev ind"
  let ?rest = "\<lambda>st. rmatch False (RSeq (RChr (CHR '':'')) line_tail) st Some"
  have key: "rmatch False (RGrp 2 (RStar RDot)) (rev ind, w @ '':'', [(1, ind)]) ?rest =
      Some (CHR '':'' # ?b, [], [(3, []), (2, w), (1, ind)])"
    unfolding RDot_def rmatch.simps(6)
    by (rule star_cls_give_back)
       (use assms(2) in \<open>auto simp: policy_word_def colon_class RChr_def line_tail_end rest_len_def\<close>)
  have "rmatch False (RGrp 1 (RStar (RCls js_ws))) ([], ind @ w @ '':'', [])
      (\<lambda>st. rmatch False (RGrp 2 (RStar RDot)) st ?rest) =
      Some (CHR '':'' # ?b, [], [(3, []), (2, w), (1, ind)])"
    by (rule runs_grp [OF runs_star [OF assms(1)]])
       (use assms(2) key in \<open>auto simp: policy_word_def\<close>)
  then have "rmatch False line_re ([], ?s, []) Some = Some (CHR '':'' # ?b, [], [(3, []), (2, w), (1, ind)])"
    unfolding line_re_tail by simp
  from exec_from_here [OF this] have
    "re_exec False line_re ?s = Some \<lparr>re_before = [], re_text = ?s, re_after = [],
       re_caps = [(3, []), (2, w), (1, ind)]\<rparr>"
    by (simp add: re_exec_def)
  moreover have "js_trimEnd ?s = ?s" by (rule js_trimEnd_last) (simp add: colon_class)
  ultimately show ?thesis by (simp add: line_parts_def re_group_def)
qed

text \<open>A key with a value: the indentation is found, and the key starts where the line does.\<close>

lemma line_parts_value:
  assumes "list_all js_ws ind" and "policy_word w" and "hd w \<noteq> CHR '':''"
    and "d \<noteq> []" and "\<not> js_ws (last d)" and "list_all (\<lambda>c. \<not> js_lt c) d"
  shows "\<exists>k v. line_parts (ind @ w @ '': '' @ d) = Some (ind, k, v) \<and> k \<noteq> [] \<and> hd k = hd w"
proof -
  let ?s = "ind @ w @ '': '' @ d"
  let ?rest = "\<lambda>st. rmatch False (RSeq (RChr (CHR '':'')) line_tail) st Some"
  have "rmatch False (RGrp 3 (RStar RDot)) (b, d, cs) (\<lambda>st. rmatch False (RSeqs [REnd]) st Some) \<noteq> None" for b cs
    unfolding RDot_def rmatch.simps(6)
    using star_cls_some [OF assms(6), of _ b "[]" cs False] by (simp add: rest_len_def)
  moreover have "rmatch False (RStar (RAlt REnd (RChr (CHR '' '')))) (b, d, cs) k \<noteq> None"
    if "k (b, d, cs) \<noteq> None" for b cs k
    using that by (cases d) (auto simp: rest_len_def split: option.splits)
  ultimately have tail: "rmatch False line_tail (b, '' '' @ d, cs) Some \<noteq> None" for b cs
    unfolding line_tail_def RPlus_def RSeqs.simps rmatch.simps(3) using assms(4)
    by (auto simp: RChr_def split: option.splits)
  have "rmatch False (RGrp 2 (RStar RDot)) (rev ind, w @ '': '' @ d, [(1, ind)]) ?rest \<noteq> None"
    unfolding RDot_def rmatch.simps(6)
    by (rule star_cls_some) (use assms(2) tail in \<open>simp_all add: policy_word_def RChr_def\<close>)
  then obtain x where key: "rmatch False (RGrp 2 (RStar RDot)) (rev ind, w @ '': '' @ d, [(1, ind)]) ?rest = Some x"
    by blast
  have "rmatch False (RGrp 1 (RStar (RCls js_ws))) ([], ind @ w @ '': '' @ d, [])
      (\<lambda>st. rmatch False (RGrp 2 (RStar RDot)) st ?rest) = Some x"
    by (rule runs_grp [OF runs_star [OF assms(1)]])
       (use assms(2) key in \<open>auto simp: policy_word_def\<close>)
  then have m: "rmatch False line_re ([], ?s, []) Some = Some x"
    unfolding line_re_tail by simp
  obtain b' a' cs' where xs: "x = (b', a', cs')" by (cases x) auto
  from rmatch_den [OF key] obtain t where
    t1: "rden False (RGrp 2 (RStar RDot)) (rev ind, w @ '': '' @ d, [(1, ind)]) t"
    and t2: "rmatch False (RSeq (RChr (CHR '':'')) line_tail) t Some = Some x" by blast
  from rden_grp [OF t1] obtain k r where k: "w @ '': '' @ d = k @ r" and t: "t = (rev k @ rev ind, r, [(2, k), (1, ind)])"
    by (metis no_grp.simps(5) no_grp_derived(4))
  from t2 t obtain r2 where r: "r = CHR '':'' # r2"
    and l: "rmatch False line_tail (CHR '':'' # rev k @ rev ind, r2, [(2, k), (1, ind)]) Some = Some x"
    by (auto simp: RChr_def split: list.splits if_splits)
  from rmatch_den [OF l] have
    "rden False line_tail (CHR '':'' # rev k @ rev ind, r2, [(2, k), (1, ind)]) x" by auto
  then obtain v where cs: "cs' = [(3, v), (2, k), (1, ind)]"
    using xs unfolding line_tail_def RSeqs.simps
    by (auto elim!: den_seqE den_empE den_endE den_grpE dest!: rden_no_grp)
  have "k \<noteq> [] \<and> hd k = hd w"
    using k r assms(2,3) by (cases k; cases w) (auto simp: policy_word_def)
  moreover have "js_trimEnd ?s = ?s" by (rule js_trimEnd_last) (use assms(4,5) in simp)
  ultimately show ?thesis
    using exec_from_here [OF m [unfolded xs]] cs by (auto simp: line_parts_def re_exec_def re_group_def)
qed

section \<open>Reading back a policy\<close>

text \<open>
  One entry of the \<open>patch\<close> section: the vulnerability, the packages on the way to the
  patched one, the patched package, the date of the patch.
\<close>

record policy_item =
  it_vuln :: string
  it_via :: "string list"
  it_package :: string
  it_date :: string

definition via_text :: "policy_item \<Rightarrow> string" where
  "via_text e = concat (map (\<lambda>q. q @ '' > '') (it_via e)) @ it_package e"

definition item_lines :: "policy_item \<Rightarrow> string list" where
  "item_lines e =
     [''  '' @ it_vuln e @ '':'',
      ''    '' @ (''- '' @ via_text e) @ '':'',
      ''        '' @ ''patched'' @ '': '' @ it_date e]"

definition policy_text :: "policy_item list \<Rightarrow> string" where
  "policy_text es = js_join [CHR 0x0A] (''patch:'' # concat (map item_lines es))"

definition package_name :: "string \<Rightarrow> bool" where
  "package_name p \<longleftrightarrow> p \<noteq> [] \<and> list_all (\<lambda>c. \<not> js_ws c \<and> c \<notin> {CHR ''>'', CHR 0x27, CHR 0x22}) p"

definition wf_item :: "policy_item \<Rightarrow> bool" where
  "wf_item e \<longleftrightarrow> policy_word (it_vuln e) \<and> \<not> is_array_index (it_vuln e) \<and>
     list_all (list_all (\<lambda>c. \<not> js_lt c)) (it_via e) \<and> package_name (it_package e) \<and>
     it_date e \<noteq> [] \<and> list_all (\<lambda>c. \<not> js_ws c) (it_date e)"

lemma lt_ws: "js_lt c \<Longrightarrow> js_ws c"
  by (auto simp: js_lt_def js_ws_def)

lemma ws_lt_free: "list_all (\<lambda>c. \<not> js_ws c) s \<Longrightarrow> list_all (\<lambda>c. \<not> js_lt c) s"
  by (auto simp: list_all_iff dest: lt_ws)

lemma package_name_lt: "package_name p \<Longrightarrow> list_all (\<lambda>c. \<not> js_lt c) p"
  by (auto simp: package_name_def list_all_iff dest: lt_ws)

lemma via_text_lt: "wf_item e \<Longrightarrow> list_all (\<lambda>c. \<not> js_lt c) (via_text e)"
  using package_name_lt [of "it_package e"]
  by (auto simp: wf_item_def via_text_def list_all_iff js_lt_def)

lemma js_split_last: "c \<notin> set v \<Longrightarrow> last (js_split c (u @ c # v)) = v"
  by (simp add: js_split_at js_split_no_sep)

lemma trim_package:
  assumes "package_name p"
  shows "js_trim (CHR '' '' # p) = p"
proof -
  have ws: "\<not> js_ws c" if "c \<in> set p" for c
    using assms that by (simp add: package_name_def list_all_iff)
  have "p \<noteq> []" using assms by (simp add: package_name_def)
  then obtain c q where p: "p = c # q" by (cases p) auto
  have "js_ws (CHR '' '')" by (simp add: js_ws_def)
  with ws [of c] p have "js_trimStart (CHR '' '' # p) = p" by (simp add: js_trimStart_def)
  moreover have "js_trimEnd p = p" using ws [of "last p"] p by (intro js_trimEnd_last) simp
  ultimately show ?thesis by (simp add: js_trim_def)
qed

lemma js_replace_all_in_absent: "\<forall>x\<in>set s. x \<notin> set cs \<Longrightarrow> js_replace_all_in cs r s = s"
  by (induction s) (simp_all add: js_replace_all_in_def)

lemma replace_package: "package_name p \<Longrightarrow> js_replace_all_in [CHR 0x27, CHR 0x22] [] p = p"
  by (rule js_replace_all_in_absent) (simp add: package_name_def list_all_iff)

lemma destination_of_via:
  assumes "wf_item e"
  shows "destination_of (''- '' @ via_text e) = it_package e"
proof -
  have p: "package_name (it_package e)" using assms by (simp add: wf_item_def)
  then have n: "CHR ''>'' \<notin> set (CHR '' '' # it_package e)"
    by (auto simp: package_name_def list_all_iff)
  have "last (js_split (CHR ''>'') ('' '' @ via_text e)) = CHR '' '' # it_package e"
  proof (cases "it_via e" rule: rev_cases)
    case Nil
    then have "'' '' @ via_text e = CHR '' '' # it_package e" by (simp add: via_text_def)
    with js_split_no_sep [OF n] show ?thesis by (simp only: last.simps) simp
  next
    case (snoc qs q)
    then have "'' '' @ via_text e =
        ('' '' @ concat (map (\<lambda>q. q @ '' > '') qs) @ q @ '' '') @ CHR ''>'' # (CHR '' '' # it_package e)"
      by (simp add: via_text_def)
    then show ?thesis by (simp only: js_split_last [OF n])
  qed
  with trim_package [OF p] replace_package [OF p] show ?thesis by (simp add: destination_of_def)
qed

lemma policy_line_word:
  assumes "list_all js_ws ind" "policy_word w"
  shows "policy_line (ind @ w @ r)"
proof -
  have "js_trimStart (ind @ w @ r) = w @ r"
    using assms by (cases w) (auto simp: js_trimStart_def policy_word_def dropWhile_append list_all_iff)
  with assms(2) show ?thesis by (cases w) (auto simp: policy_line_def policy_word_def)
qed

lemma obj_set_again:
  assumes "k \<notin> set (obj_keys ob)"
  shows "obj_set k w (ob @ [(k, v)]) = ob @ [(k, w)]"
proof -
  have "map (\<lambda>(a, b). if a = k then (a, w) else (a, b)) ob = ob"
    using assms by (induction ob) auto
  then show ?thesis by (simp add: obj_set_def obj_keys_def)
qed

text \<open>The three lines of an entry add it to the object.\<close>

lemma policy_item_steps:
  assumes wf: "wf_item e" and st: "writingPatches st" and new: "it_vuln e \<notin> set (obj_keys (ps_acc st))"
  shows "foldS policy_step (List.map_filter line_parts (filter policy_line (item_lines e @ ls))) st =
    foldS policy_step (List.map_filter line_parts (filter policy_line ls))
      (st\<lparr>writingTo := Some (it_vuln e), ps_acc := ps_acc st @ [(it_vuln e, [it_package e])]\<rparr>)"
proof -
  let ?v = "it_vuln e" and ?w = "''- '' @ via_text e"
  have v: "policy_word ?v" using wf by (simp add: wf_item_def)
  have w: "policy_word ?w" using via_text_lt [OF wf] by (simp add: policy_word_def js_ws_def js_lt_def)
  have pw: "policy_word ''patched''" by (simp add: policy_word_def js_ws_def js_lt_def)
  have sp: "list_all js_ws ''  ''" "list_all js_ws ''    ''" "list_all js_ws ''        ''"
    by (simp_all add: js_ws_def)
  from wf have d: "it_date e \<noteq> []" "\<not> js_ws (last (it_date e))" "list_all (\<lambda>c. \<not> js_lt c) (it_date e)"
    by (auto simp: wf_item_def list_all_iff dest: lt_ws)
  obtain k x where third: "line_parts (''        '' @ ''patched'' @ '': '' @ it_date e) = Some (''        '', k, x)"
    and k: "k \<noteq> []" "hd k = CHR ''p''"
    using line_parts_value [OF sp(3) pw _ d] by auto
  have nd: "\<not> js_startsWith k ''-''" using k by (cases k) auto
  note lines = line_parts_key [OF sp(1) v] line_parts_key [OF sp(2) w] third
    policy_line_word [OF sp(1) v] policy_line_word [OF sp(2) w] policy_line_word [OF sp(3) pw]
  have s1: "policy_step (''  '', ?v, []) st = Inr (st\<lparr>writingTo := Some ?v, ps_acc := ps_acc st @ [(?v, [])]\<rparr>)"
    using st new wf by (simp add: policy_step_def obj_set_def wf_item_def)
  have g: "obj_get (ps_acc st @ [(?v, [])]) ?v = Some []"
    using new by (simp add: obj_get_def obj_keys_def map_add_def map_of_eq_None_iff [symmetric] split: option.splits)
  have s2: "policy_step (''    '', ?w, []) (st\<lparr>writingTo := Some ?v, ps_acc := ps_acc st @ [(?v, [])]\<rparr>) =
      Inr (st\<lparr>writingTo := Some ?v, ps_acc := ps_acc st @ [(?v, [it_package e])]\<rparr>)"
    using st g destination_of_via [OF wf] obj_set_again [OF new] by (simp add: policy_step_def Let_def)
  have s3: "writingPatches u \<Longrightarrow> policy_step (''        '', k, x) u = Inr u" for u
    using nd by (simp add: policy_step_def)
  show ?thesis
    unfolding item_lines_def using lines s1 s2 s3 st
    by (simp only: append_Cons append_Nil filter.simps if_True map_filter_simps option.case foldS.simps bindS_simps)
       simp
qed

lemma policy_items_steps:
  "list_all wf_item es \<Longrightarrow> writingPatches st \<Longrightarrow> distinct (map it_vuln es) \<Longrightarrow>
   it_vuln ` set es \<inter> set (obj_keys (ps_acc st)) = {} \<Longrightarrow>
   \<exists>st'. foldS policy_step (List.map_filter line_parts (filter policy_line (concat (map item_lines es)))) st = Inr st' \<and>
     ps_acc st' = ps_acc st @ map (\<lambda>e. (it_vuln e, [it_package e])) es"
proof (induction es arbitrary: st)
  case Nil
  then show ?case by (simp add: List.map_filter_def)
next
  case (Cons e es)
  let ?st = "st\<lparr>writingTo := Some (it_vuln e), ps_acc := ps_acc st @ [(it_vuln e, [it_package e])]\<rparr>"
  have "\<exists>st'. foldS policy_step (List.map_filter line_parts (filter policy_line (concat (map item_lines es)))) ?st = Inr st' \<and>
     ps_acc st' = ps_acc ?st @ map (\<lambda>e. (it_vuln e, [it_package e])) es"
    by (rule Cons.IH) (use Cons.prems in \<open>auto simp: obj_keys_def\<close>)
  moreover have "foldS policy_step (List.map_filter line_parts (filter policy_line (concat (map item_lines (e # es))))) st =
      foldS policy_step (List.map_filter line_parts (filter policy_line (concat (map item_lines es)))) ?st"
    using policy_item_steps [of e st "concat (map item_lines es)"] Cons.prems by simp
  ultimately show ?case by simp
qed

lemma no_newline: "list_all (\<lambda>c. \<not> js_lt c) s \<Longrightarrow> CHR 0x0A \<notin> set s"
  by (auto simp: list_all_iff js_lt_def)

lemma item_lines_newline: "wf_item e \<Longrightarrow> l \<in> set (item_lines e) \<Longrightarrow> CHR 0x0A \<notin> set l"
  using no_newline [OF via_text_lt [of e]] no_newline [of "it_vuln e"] no_newline [OF ws_lt_free, of "it_date e"]
  by (auto simp: item_lines_def wf_item_def policy_word_def)

lemma patch_line_parts: "line_parts ''patch:'' = Some ([], ''patch'', [])"
  using line_parts_key [of "[]" "''patch''"] by (simp add: policy_word_def js_ws_def js_lt_def)

lemma policy_patches_text:
  assumes "list_all wf_item es" and "distinct (map it_vuln es)"
  shows "policy_patches (policy_text es) = Inr (map (\<lambda>e. (it_vuln e, [it_package e])) es)"
proof -
  have "js_split (CHR 0x0A) (policy_text es) = ''patch:'' # concat (map item_lines es)"
    unfolding policy_text_def
    by (rule js_split_join) (use assms(1) item_lines_newline in \<open>auto simp: list_all_iff\<close>)
  moreover have "policy_line ''patch:''"
    by (simp add: policy_line_def js_trimStart_def js_ws_def)
  moreover have "policy_step ([], ''patch'', []) policy_start = Inr (policy_start\<lparr>writingPatches := True\<rparr>)"
    by (simp add: policy_step_def policy_start_def)
  moreover obtain st' where "foldS policy_step (List.map_filter line_parts (filter policy_line (concat (map item_lines es))))
      (policy_start\<lparr>writingPatches := True\<rparr>) = Inr st'"
    "ps_acc st' = map (\<lambda>e. (it_vuln e, [it_package e])) es"
    using policy_items_steps [OF assms(1) _ assms(2), of "policy_start\<lparr>writingPatches := True\<rparr>"]
    by (auto simp: policy_start_def)
  ultimately show ?thesis
    by (simp add: policy_patches_def patch_line_parts)
qed

lemma mapS_all: "(\<And>x. x \<in> set xs \<Longrightarrow> f x = Inr (g x)) \<Longrightarrow> mapS f xs = Inr (map g xs)"
  by (induction xs) simp_all

section \<open>Properties\<close>



text \<open>whatever the policy file holds, the names that are read for a vulnerability are
  distinct, every vulnerability comes once, and a result has one package per vulnerability; a
  vulnerability with no or with two packages is an error, not a result.\<close>

theorem policy_entries:
  assumes "policy_patches text = Inr ob"
  shows "wf_obj ob \<and> (\<forall>(k, ds)\<in>set ob. distinct ds) \<and>
    ((\<exists>r. extractPatchMetadata text = Inr r) \<longleftrightarrow> (\<forall>(k, ds)\<in>set ob. length ds = 1))"
proof -
  have ent: "(\<exists>y. policy_entry e = Inr y) \<longleftrightarrow> length (snd e) = 1" for e
    by (auto simp: policy_entry_def length_Suc_conv split: list.splits)
  have "(\<exists>r. mapS policy_entry ob = Inr r) \<longleftrightarrow> (\<forall>e\<in>set ob. \<exists>y. policy_entry e = Inr y)"
    by (induction ob) (auto simp: bindS_Inr_iff)
  then have iff: "(\<exists>r. extractPatchMetadata text = Inr r) \<longleftrightarrow> (\<forall>(k, ds)\<in>set ob. length ds = 1)"
    using assms ent by (auto simp: extractPatchMetadata_def)
  have "distinct ds" if "(k, ds) \<in> set ob" for k ds
    using policy_patches_inv [OF assms] obj_get_in [OF _ that] by blast
  with iff policy_patches_inv(1) [OF assms] show ?thesis by blast
qed

theorem policy_entries_witness:
  "wf_obj [(''V'', [''a'', ''b''])] \<and> \<not> (\<exists>r. extractPatchMetadata (js_join [CHR 0x0A]
     [''patch:'', ''  V:'', ''    - a:'', ''    - x > b:'', ''    - a:'']) = Inr r)"
proof -
  have "policy_patches (js_join [CHR 0x0A] [''patch:'', ''  V:'', ''    - a:'', ''    - x > b:'', ''    - a:'']) =
      Inr [(''V'', [''a'', ''b''])]"
    by code_simp
  from policy_entries [OF this] show ?thesis by simp
qed

end
