(* ===== verification/ProtectModules.thy ===== *)
theory ProtectModules
  imports ProtectWorld
begin

text \<open>
  \<open>explore-node-modules.ts\<close>: the walk through nested \<open>node_modules\<close> folders that collects the
  installed packages of interest. The recursion follows folders on disk; it has fuel, and a
  result with some fuel is the result with more.
\<close>

definition checkPhysicalModule ::
  "penv \<Rightarrow> pworld \<Rightarrow> string list \<Rightarrow> string \<Rightarrow> protect_error + physical_package option" where
  "checkPhysicalModule en w names folder =
     (if path_base folder \<in> set names then
        (let pj = resolve en [folder, ''package.json''] in
         if existsSync w pj \<and> lstat_isFile w pj then
           bindS (read_text w pj) (\<lambda>t.
           bindS (parse_json t) (\<lambda>v.
           bindS (prop_of v ''name'') (\<lambda>name.
           bindS (prop_of v ''version'') (\<lambda>version.
             (case name of
                JStr n \<Rightarrow>
                  Inr (if n \<in> set names
                       then Some \<lparr>fp_packageName = n, fp_packageVersion = version, fp_path = folder\<rparr>
                       else None)
              | _ \<Rightarrow> Inr None)))))
         else Inr None)
      else Inr None)"

text \<open>A \<open>forEach\<close> whose callback appends to a list and may throw or not return.\<close>

fun collect :: "('a \<Rightarrow> ('e + 'b list) option) \<Rightarrow> 'a list \<Rightarrow> ('e + 'b list) option" where
  "collect f [] = Some (Inr [])"
| "collect f (x # xs) =
     (case f x of
        None \<Rightarrow> None
      | Some (Inl e) \<Rightarrow> Some (Inl e)
      | Some (Inr ys) \<Rightarrow> map_option (map_sum id (\<lambda>zs. ys @ zs)) (collect f xs))"

definition node_modules :: "penv \<Rightarrow> string \<Rightarrow> string" where
  "node_modules en p = resolve en [p, ''node_modules'']"

text \<open>The folders the walk enters below a folder.\<close>

definition sub_modules :: "penv \<Rightarrow> pworld \<Rightarrow> string \<Rightarrow> string list" where
  "sub_modules en w p =
     (let nm = node_modules en p in
      if existsSync w nm \<and> lstat_isDirectory w nm
      then map (\<lambda>q. resolve en [nm, q]) (readdir w nm) else [])"

fun findPhysicalModules ::
  "nat \<Rightarrow> penv \<Rightarrow> pworld \<Rightarrow> string list \<Rightarrow> string \<Rightarrow> (protect_error + physical_package list) option" where
  "findPhysicalModules 0 en w names p = None"
| "findPhysicalModules (Suc n) en w names p =
     (if existsSync w p \<and> lstat_isDirectory w p then
        (case checkPhysicalModule en w names p of
           Inl e \<Rightarrow> Some (Inl e)
         | Inr here \<Rightarrow>
             map_option (map_sum id (\<lambda>ms. (case here of None \<Rightarrow> [] | Some m \<Rightarrow> [m]) @ ms))
               (collect (findPhysicalModules n en w names) (sub_modules en w p)))
      else Some (Inr []))"

section \<open>The walk and the folders it reaches\<close>

text \<open>
  \<open>visited\<close>: the folders the walk enters. \<open>finite_tree\<close>: below a path the nesting ends, as it
  does on a disk, where the walk does not pass links.
\<close>

inductive visited :: "penv \<Rightarrow> pworld \<Rightarrow> string \<Rightarrow> string \<Rightarrow> bool" for en w root where
  visit_root: "lstat_isDirectory w root \<Longrightarrow> visited en w root root"
| visit_sub: "visited en w root p \<Longrightarrow> q \<in> set (sub_modules en w p) \<Longrightarrow> lstat_isDirectory w q \<Longrightarrow>
    visited en w root q"

inductive finite_tree :: "penv \<Rightarrow> pworld \<Rightarrow> string \<Rightarrow> bool" for en w where
  tree: "(\<And>q. lstat_isDirectory w p \<Longrightarrow> q \<in> set (sub_modules en w p) \<Longrightarrow> finite_tree en w q) \<Longrightarrow>
    finite_tree en w p"

lemma visited_dir: "visited en w root p \<Longrightarrow> lstat_isDirectory w p"
  by (induction rule: visited.induct) auto

lemma lstat_dir_exists: "lstat_isDirectory w p \<Longrightarrow> existsSync w p"
  by (auto simp: lstat_isDirectory_def existsSync_def split: option.splits node.splits)

lemma visited_from_sub:
  "visited en w q p \<Longrightarrow> q \<in> set (sub_modules en w root) \<Longrightarrow> lstat_isDirectory w root \<Longrightarrow>
   visited en w root p"
  by (induction rule: visited.induct) (auto intro: visited.intros)

lemma visited_cases:
  "visited en w root p \<Longrightarrow> p = root \<or> (\<exists>q\<in>set (sub_modules en w root). visited en w q p)"
  by (induction rule: visited.induct) (auto intro: visited.intros)

lemma visited_root_dir: "visited en w root p \<Longrightarrow> lstat_isDirectory w root"
  by (induction rule: visited.induct) auto

lemma map_sum_Inr_iff:
  "map_option (map_sum id g) z = Some (Inr r) \<longleftrightarrow> (\<exists>c. z = Some (Inr c) \<and> r = g c)"
  by (cases z) (auto simp: map_sum_def split: sum.splits)

lemma collect_result:
  "collect f xs = Some (Inr r) \<Longrightarrow> \<exists>rs. r = concat rs \<and> list_all2 (\<lambda>x y. f x = Some (Inr y)) xs rs"
proof (induction xs arbitrary: r)
  case Nil
  then show ?case by simp
next
  case (Cons x xs)
  from Cons.prems obtain y where y: "f x = Some (Inr y)"
    by (auto split: option.splits sum.splits)
  with Cons.prems obtain z where z: "collect f xs = Some (Inr z)" and r: "r = y @ z"
    by (auto simp: map_sum_Inr_iff simp del: map_option_eq_Some)
  from Cons.IH [OF z] obtain rs where "z = concat rs" "list_all2 (\<lambda>x y. f x = Some (Inr y)) xs rs"
    by blast
  with y r show ?case by (intro exI [of _ "y # rs"]) simp
qed

lemma collect_set:
  assumes "collect f xs = Some (Inr r)"
  shows "m \<in> set r \<longleftrightarrow> (\<exists>x\<in>set xs. \<exists>y. f x = Some (Inr y) \<and> m \<in> set y)"
proof -
  obtain rs where r: "r = concat rs" and l: "list_all2 (\<lambda>x y. f x = Some (Inr y)) xs rs"
    using collect_result [OF assms] by blast
  from l have "(\<exists>y\<in>set rs. m \<in> set y) \<longleftrightarrow> (\<exists>x\<in>set xs. \<exists>y. f x = Some (Inr y) \<and> m \<in> set y)"
    by (induction rule: list_all2_induct) auto
  with r show ?thesis by simp
qed

lemma collect_all:
  assumes "collect f xs = Some (Inr r)" and "x \<in> set xs"
  obtains y where "f x = Some (Inr y)"
  using collect_result [OF assms(1)] assms(2) by (auto simp: list_all2_conv_all_nth in_set_conv_nth)

lemma collect_mono:
  assumes "\<And>x r. x \<in> set xs \<Longrightarrow> f x = Some r \<Longrightarrow> g x = Some r"
  shows "collect f xs = Some r \<Longrightarrow> collect g xs = Some r"
  using assms
proof (induction xs arbitrary: r)
  case Nil
  then show ?case by simp
next
  case (Cons x xs)
  from Cons.prems(1) obtain v where v: "f x = Some v" by (auto split: option.splits)
  with Cons.prems(2) have g: "g x = Some v" by simp
  show ?case
  proof (cases v)
    case (Inl e)
    with v g Cons.prems(1) show ?thesis by auto
  next
    case (Inr ys)
    with v Cons.prems(1) obtain z where z: "collect f xs = Some z"
      and r: "r = map_sum id (\<lambda>zs. ys @ zs) z" by auto
    have "collect g xs = Some z" by (rule Cons.IH [OF z]) (use Cons.prems(2) in simp)
    with g Inr r show ?thesis by simp
  qed
qed

lemma findPhysicalModules_mono:
  "findPhysicalModules n en w names p = Some r \<Longrightarrow> n \<le> k \<Longrightarrow> findPhysicalModules k en w names p = Some r"
proof (induction n arbitrary: k p r)
  case 0
  then show ?case by simp
next
  case (Suc n)
  from Suc.prems(2) obtain j where k: "k = Suc j" and j: "n \<le> j" by (cases k) auto
  show ?case
  proof (cases "existsSync w p \<and> lstat_isDirectory w p")
    case False
    with Suc.prems(1) k show ?thesis by auto
  next
    case True
    show ?thesis
    proof (cases "checkPhysicalModule en w names p")
      case (Inl e)
      with Suc.prems(1) k True show ?thesis by simp
    next
      case (Inr here)
      with Suc.prems(1) True obtain c where
        c: "collect (findPhysicalModules n en w names) (sub_modules en w p) = Some c"
        and r: "r = map_sum id (\<lambda>ms. (case here of None \<Rightarrow> [] | Some m \<Rightarrow> [m]) @ ms) c"
        by auto
      have "collect (findPhysicalModules j en w names) (sub_modules en w p) = Some c"
        by (rule collect_mono [OF _ c]) (use Suc.IH j in blast)
      with Inr k True r show ?thesis by simp
    qed
  qed
qed

lemma collect_defined:
  assumes "\<And>x. x \<in> set xs \<Longrightarrow> \<exists>r. f x = Some r"
  shows "\<exists>r. collect f xs = Some r"
  using assms
proof (induction xs)
  case Nil
  then show ?case by simp
next
  case (Cons x xs)
  then obtain v r where "f x = Some v" "collect f xs = Some r" by (meson list.set_intros)
  then show ?case by (cases v) auto
qed

text \<open>On a tree of folders the walk ends: there is fuel enough for every path below it.\<close>

lemma findPhysicalModules_ends:
  assumes "finite_tree en w p"
  shows "\<exists>n r. findPhysicalModules n en w names p = Some r"
  using assms
proof (induction rule: finite_tree.induct)
  case (tree p)
  show ?case
  proof (cases "lstat_isDirectory w p")
    case False
    then show ?thesis by (intro exI [of _ "Suc 0"]) simp
  next
    case True
    let ?qs = "sub_modules en w p"
    from tree.IH [OF True] obtain f where
      f: "\<And>q. q \<in> set ?qs \<Longrightarrow> \<exists>r. findPhysicalModules (f q) en w names q = Some r"
      by metis
    let ?n = "Max (f ` set ?qs)"
    have "\<exists>r. findPhysicalModules ?n en w names q = Some r" if "q \<in> set ?qs" for q
      using f [OF that] findPhysicalModules_mono that by (metis List.finite_set Max_ge finite_imageI imageI)
    then obtain c where "collect (findPhysicalModules ?n en w names) ?qs = Some c"
      using collect_defined [of ?qs "findPhysicalModules ?n en w names"] by blast
    then have "\<exists>r. findPhysicalModules (Suc ?n) en w names p = Some r"
      by (simp split: sum.splits)
    then show ?thesis by blast
  qed
qed

text \<open>What the walk returns is what the visited folders hold.\<close>

lemma findPhysicalModules_set:
  "findPhysicalModules n en w names root = Some (Inr ms) \<Longrightarrow>
   m \<in> set ms \<longleftrightarrow> (\<exists>p. visited en w root p \<and> checkPhysicalModule en w names p = Inr (Some m))"
proof (induction n arbitrary: root ms)
  case 0
  then show ?case by simp
next
  case (Suc n)
  show ?case
  proof (cases "lstat_isDirectory w root")
    case False
    with Suc.prems have "ms = []" by simp
    moreover have "\<not> visited en w root p" for p
      using False visited_root_dir [of en w root p] by blast
    ultimately show ?thesis by simp
  next
    case True
    with Suc.prems lstat_dir_exists [OF True] obtain here c where
      h: "checkPhysicalModule en w names root = Inr here"
      and c: "collect (findPhysicalModules n en w names) (sub_modules en w root) = Some (Inr c)"
      and ms: "ms = (case here of None \<Rightarrow> [] | Some m \<Rightarrow> [m]) @ c"
      by (auto simp: map_sum_Inr_iff simp del: map_option_eq_Some split: sum.splits)
    let ?hit = "\<lambda>p. checkPhysicalModule en w names p = Inr (Some m)"
    have "m \<in> set c \<longleftrightarrow> (\<exists>q\<in>set (sub_modules en w root). \<exists>p. visited en w q p \<and> ?hit p)"
      using collect_set [OF c, of m] collect_all [OF c] Suc.IH by (metis option.inject sum.inject(2))
    moreover have "(\<exists>p. visited en w root p \<and> ?hit p) \<longleftrightarrow>
        ?hit root \<or> (\<exists>q\<in>set (sub_modules en w root). \<exists>p. visited en w q p \<and> ?hit p)"
      using visited_cases [of en w root] visited_from_sub [of en w _ _ root] visit_root [OF True, of en] True
      by metis
    ultimately show ?thesis using ms h by (auto split: option.splits)
  qed
qed

section \<open>Properties\<close>

text \<open>C13: on a disk whose folders nest finitely the walk ends, and unless a package file cannot
  be read it returns exactly the packages of interest that lie in a folder it can reach through
  \<open>node_modules\<close> folders.\<close>

theorem walk_complete:
  assumes "finite_tree en w root"
  shows "\<exists>n r. findPhysicalModules n en w names root = Some r \<and>
    (\<forall>ms. r = Inr ms \<longrightarrow>
      (\<forall>m. m \<in> set ms \<longleftrightarrow> (\<exists>p. visited en w root p \<and> checkPhysicalModule en w names p = Inr (Some m))))"
proof -
  from findPhysicalModules_ends [OF assms] obtain n r where
    r: "findPhysicalModules n en w names root = Some r" by blast
  moreover have "m \<in> set ms \<longleftrightarrow> (\<exists>p. visited en w root p \<and> checkPhysicalModule en w names p = Inr (Some m))"
    if "r = Inr ms" for ms m
    by (rule findPhysicalModules_set [OF r [unfolded that]])
  ultimately show ?thesis by blast
qed

text \<open>A project with one installed package.\<close>

definition sample_wenv :: penv where
  "sample_wenv = \<lparr>argv = [], working_dir = ''/'', env_api = None, env_disable_analytics = None,
     env_config_file = None, homedir = ''/h'', lib_dir = ''/p/dist/lib'', node_version = ''v16'',
     iso_date = (\<lambda>_. ''now''), http = (\<lambda>_. Inl ''offline'')\<rparr>"

definition sample_tree :: pworld where
  "sample_tree = \<lparr>nodes = [''/p'' \<mapsto> DirNode [''node_modules''],
       ''/p/node_modules'' \<mapsto> DirNode [''a''],
       ''/p/node_modules/a'' \<mapsto> DirNode [''package.json''],
       ''/p/node_modules/a/package.json'' \<mapsto> FileNode (''{'' @ json_quote ''name'' @ '': '' @ json_quote ''a'' @ '', '' @
          json_quote ''version'' @ '':'' @ json_quote ''1.0.0'' @ ''}'')],
     can_write = (\<lambda>_. True), out_lines = [], err_lines = [], posts = [], ticks = 0\<rparr>"

lemma sample_subs:
  "sub_modules sample_wenv sample_tree ''/p'' = [''/p/node_modules/a'']"
  "sub_modules sample_wenv sample_tree ''/p/node_modules/a'' = []"
  by code_simp+

lemma sample_walk:
  "findPhysicalModules 2 sample_wenv sample_tree [''a''] ''/p'' =
     Some (Inr [\<lparr>fp_packageName = ''a'', fp_packageVersion = JStr ''1.0.0'', fp_path = ''/p/node_modules/a''\<rparr>])"
  by code_simp

lemma sample_finite: "finite_tree sample_wenv sample_tree ''/p''"
proof (rule finite_tree.tree)
  fix q assume "q \<in> set (sub_modules sample_wenv sample_tree ''/p'')"
  then have q: "q = ''/p/node_modules/a''" by (simp add: sample_subs)
  show "finite_tree sample_wenv sample_tree q"
    unfolding q by (rule finite_tree.tree) (simp add: sample_subs)
qed

theorem walk_complete_witness:
  "\<exists>n r. findPhysicalModules n sample_wenv sample_tree [''a''] ''/p'' = Some r \<and>
    (\<forall>ms. r = Inr ms \<longrightarrow>
      (\<forall>m. m \<in> set ms \<longleftrightarrow>
        (\<exists>p. visited sample_wenv sample_tree ''/p'' p \<and>
             checkPhysicalModule sample_wenv sample_tree [''a''] p = Inr (Some m))))"
  by (rule walk_complete [OF sample_finite])

end
