(* ===== verification/ProtectPatch.thy ===== *)
theory ProtectPatch
  imports ProtectWorld JsRegExp
begin

text \<open>
  \<open>patch.ts\<close>: reading the target and the position out of a unified diff, applying its lines to
  the text of a file, and the guarded, flagged application to a file on disk.
\<close>

section \<open>Reading a diff\<close>

definition createOldStylePatchAppliedFlagFilename :: "string \<Rightarrow> string" where
  "createOldStylePatchAppliedFlagFilename vid =
     ''.vulnmap-'' @ js_replace_all_in [CHR '':''] ''-'' vid @ ''.flag''"

text \<open>\<open>/^--- a\//m\<close>\<close>

definition header_re :: re where
  "header_re = RSeq RBeg (RStr ''--- a/'')"

text \<open>\<open>s.slice(s.search(re))\<close>: no match is the index \<open>-1\<close>, which leaves the last code unit.\<close>

definition slice_search :: "string \<Rightarrow> string" where
  "slice_search s =
     (case re_exec True header_re s of
        Some m \<Rightarrow> drop (length (re_before m)) s
      | None \<Rightarrow> drop (length s - 1) s)"

definition patch_content_lines :: "string \<Rightarrow> string list" where
  "patch_content_lines p = js_split (CHR 0x0A) (slice_search p)"

definition extractTargetFilePathFromPatch :: "string \<Rightarrow> string" where
  "extractTargetFilePathFromPatch p = js_replace_first ''--- a/'' [] (hd (patch_content_lines p))"

definition cr :: string where
  "cr = [CHR 0x0D]"

definition getNextLine :: "string option \<Rightarrow> string \<Rightarrow> protect_error + string" where
  "getNextLine cur pl =
     (case cur of
        None \<Rightarrow> Inl (TypeErr ''Cannot read properties of undefined'')
      | Some c \<Rightarrow> Inr (drop 1 pl @ (if js_endsWith c cr \<and> \<not> js_endsWith pl cr then cr else [])))"

definition getPatchType :: "string \<Rightarrow> string" where
  "getPatchType pl = take 1 pl"

text \<open>\<open>/^@@ -(\d*),.*@@/\<close>\<close>

definition hunk_re :: re where
  "hunk_re = RSeqs [RBeg, RStr ''@@ -'', RGrp 1 (RStar (RCls js_digit)), RStr '','',
     RStar RDot, RStr ''@@'']"

section \<open>Applying a diff to a text\<close>

definition line_at :: "string list \<Rightarrow> int \<Rightarrow> string option" where
  "line_at ls i = (if i < 0 then None else js_nth ls (nat i))"

definition splice_out :: "int \<Rightarrow> string list \<Rightarrow> string list" where
  "splice_out i ls = take (nat i) ls @ drop (Suc (nat i)) ls"

definition splice_in :: "int \<Rightarrow> string \<Rightarrow> string list \<Rightarrow> string list" where
  "splice_in i l ls = take (nat i) ls @ l # drop (nat i) ls"

definition mismatch :: "string \<Rightarrow> string \<Rightarrow> protect_error" where
  "mismatch c n = ErrorOf (JStr (''File does not match patch contents.'' @ ''  Expected'' @ [CHR 0x0A] @
     ''    line from local file'' @ [CHR 0x0A] @ ''      '' @ json_quote c @ [CHR 0x0A] @
     ''    to match patch line'' @ [CHR 0x0A] @ ''      '' @ json_quote n @ [CHR 0x0A]))"

text \<open>One line of the hunk; the state is the line number and the lines so far.\<close>

definition patch_line :: "string \<Rightarrow> int \<times> string list \<Rightarrow> protect_error + int \<times> string list" where
  "patch_line pl st =
     (let i = fst st + 1; ls = snd st; cur = line_at ls i in
      bindS (getNextLine cur pl) (\<lambda>next.
        if getPatchType pl = ''-'' then Inr (i, splice_out i ls)
        else if getPatchType pl = ''+'' then Inr (i, splice_in i next ls)
        else if getPatchType pl = '' '' then
          (if cur \<noteq> Some next then Inl (mismatch (the cur) next) else Inr (i, ls))
        else Inr (i, ls)))"

definition invalid_patch :: protect_error where
  "invalid_patch = ErrorOf (JStr ''Invalid patch.'')"

definition patchString :: "string \<Rightarrow> string \<Rightarrow> protect_error + string" where
  "patchString p text =
     (let pls = patch_content_lines p; ls = js_split (CHR 0x0A) text in
      if \<not> truthy (js_nth pls 2) then Inl invalid_patch
      else
        (case re_exec False hunk_re (pls ! 2) of
           None \<Rightarrow> Inl invalid_patch
         | Some m \<Rightarrow>
             (if \<not> truthy (re_group m 1) then Inl invalid_patch
              else
                bindS (foldS patch_line (drop 3 (take (length pls - 2) pls))
                         (int (nat_of_digits (the (re_group m 1))) - 2, ls))
                  (\<lambda>st. Inr (js_join [CHR 0x0A] (snd st))))))"

section \<open>Applying a diff to a file\<close>

definition target_file :: "string \<Rightarrow> string \<Rightarrow> string" where
  "target_file p base = path_join [base, extractTargetFilePathFromPatch p]"

definition flag_path :: "string \<Rightarrow> string" where
  "flag_path t = t @ ''.vulnmap-protect.flag''"

definition orig_flag_path :: "string \<Rightarrow> string" where
  "orig_flag_path t = t @ ''.orig''"

definition applyPatchToFile :: "penv \<Rightarrow> string \<Rightarrow> string \<Rightarrow> string \<Rightarrow> string pio" where
  "applyPatchToFile en p base vid = (\<lambda>w.
     let t = target_file p base in
     if existsSync w (flag_path t) \<or> existsSync w (orig_flag_path t) then ret t w
     else
       bindE (readFileSync t) (\<lambda>text.
       bindE (lift (patchString p text)) (\<lambda>patched.
       bindE (writeFileSync t patched) (\<lambda>_.
       bindE (writeFileSync (flag_path t) []) (\<lambda>_.
       bindE (date_now en) (\<lambda>now.
       bindE (writeFileSync (resolve en [base, createOldStylePatchAppliedFlagFilename vid]) now) (\<lambda>_.
       ret t)))))) w)"

section \<open>The flag\<close>

text \<open>A successful application leaves its flag, so the next one only returns the path.\<close>

lemma applyPatchToFile_flag:
  assumes "applyPatchToFile en p base vid w = (Inr t, w')"
  shows "existsSync w' (flag_path t) \<or> existsSync w' (orig_flag_path t)"
    and "t = target_file p base"
proof -
  let ?t = "target_file p base"
  from assms show t: "t = ?t"
    by (auto simp: applyPatchToFile_def Let_def elim!: bindE_InrE split: if_splits)
  have "ensures (\<lambda>w. existsSync w (flag_path ?t)) (bindE (writeFileSync (flag_path ?t) []) (\<lambda>_.
       bindE (date_now en) (\<lambda>now.
       bindE (writeFileSync (resolve en [base, createOldStylePatchAppliedFlagFilename vid]) now) (\<lambda>_.
       ret ?t))))"
    by (rule ensures_first) (auto simp: ensures_def writeFileSync_exists intro!: frame_intros)
  then have "ensures (\<lambda>w. existsSync w (flag_path ?t))
     (bindE (readFileSync ?t) (\<lambda>text.
       bindE (lift (patchString p text)) (\<lambda>patched.
       bindE (writeFileSync ?t patched) (\<lambda>_.
       bindE (writeFileSync (flag_path ?t) []) (\<lambda>_.
       bindE (date_now en) (\<lambda>now.
       bindE (writeFileSync (resolve en [base, createOldStylePatchAppliedFlagFilename vid]) now) (\<lambda>_.
       ret ?t))))))) "
    by (rule ensures_then [OF ensures_then [OF ensures_then]])
  with assms t show "existsSync w' (flag_path t) \<or> existsSync w' (orig_flag_path t)"
    unfolding applyPatchToFile_def Let_def by (auto dest: ensuresD split: if_splits)
qed

lemma applyPatchToFile_flagged:
  "existsSync w (flag_path (target_file p base)) \<or> existsSync w (orig_flag_path (target_file p base)) \<Longrightarrow>
   applyPatchToFile en p base vid w = (Inr (target_file p base), w)"
  by (simp add: applyPatchToFile_def Let_def)

text \<open>A diff that does not fit, or a file that cannot be read, changes nothing.\<close>

lemma applyPatchToFile_unfit:
  assumes "read_text w (target_file p base) = Inr text" and "patchString p text = Inl e"
  shows "snd (applyPatchToFile en p base vid w) = w"
  using assms
  by (simp add: applyPatchToFile_def Let_def bindE_apply readFileSync_def)

section \<open>Diffs that insert lines\<close>

text \<open>
  The contract of a diff with one hunk: the hunk says which lines it expects and which lines it
  leaves. \<open>patchString\<close> keeps it for the hunks that insert lines only.
\<close>

datatype hunk_line = Ctx string | Ins string | Del string

primrec hunk_text :: "hunk_line \<Rightarrow> string" where
  "hunk_text (Ctx t) = CHR '' '' # t"
| "hunk_text (Ins t) = CHR ''+'' # t"
| "hunk_text (Del t) = CHR ''-'' # t"

primrec line_body :: "hunk_line \<Rightarrow> string" where
  "line_body (Ctx t) = t"
| "line_body (Ins t) = t"
| "line_body (Del t) = t"

primrec in_old :: "hunk_line \<Rightarrow> bool" where
  "in_old (Ctx t) = True"
| "in_old (Ins t) = False"
| "in_old (Del t) = True"

primrec in_new :: "hunk_line \<Rightarrow> bool" where
  "in_new (Ctx t) = True"
| "in_new (Ins t) = True"
| "in_new (Del t) = False"

definition hunk_old :: "string \<Rightarrow> hunk_line list \<Rightarrow> string list" where
  "hunk_old eol hs = map (\<lambda>h. line_body h @ eol) (filter in_old hs)"

definition hunk_new :: "string \<Rightarrow> hunk_line list \<Rightarrow> string list" where
  "hunk_new eol hs = map (\<lambda>h. line_body h @ eol) (filter in_new hs)"

text \<open>A hunk that removes nothing and ends with context.\<close>

definition insertion :: "hunk_line list \<Rightarrow> bool" where
  "insertion hs \<longleftrightarrow> list_all in_new hs \<and> (hs = [] \<or> in_old (last hs))"

text \<open>The text of such a diff: a preamble, the two file lines, the position, the hunk, a trailer.\<close>

definition diff_text ::
  "string \<Rightarrow> string \<Rightarrow> string \<Rightarrow> nat \<Rightarrow> string \<Rightarrow> string \<Rightarrow> hunk_line list \<Rightarrow> string \<Rightarrow> string \<Rightarrow> string" where
  "diff_text pre old_name new_line n span rest hs t1 t2 =
     pre @ js_join [CHR 0x0A]
       ([''--- a/'' @ old_name, new_line, ''@@ -'' @ str_of_nat n @ '','' @ span @ ''@@'' @ rest] @
        map hunk_text hs @ [t1, t2])"

definition eol_free :: "string \<Rightarrow> bool" where
  "eol_free s \<longleftrightarrow> CHR 0x0A \<notin> set s \<and> CHR 0x0D \<notin> set s"

lemma endsWith_cr: "js_endsWith (t @ eol) cr \<longleftrightarrow> eol = cr \<or> (eol = [] \<and> js_endsWith t cr)"
  if "eol \<in> {[], cr}"
  using that by (auto simp: cr_def)

lemma eol_free_cr: "eol_free t \<Longrightarrow> \<not> js_endsWith t cr"
  by (auto simp: eol_free_def js_endsWith_iff cr_def)

lemma eol_free_cr_Cons: "eol_free t \<Longrightarrow> c \<noteq> CHR 0x0D \<Longrightarrow> \<not> js_endsWith (c # t) cr"
  by (auto simp: eol_free_def js_endsWith_iff cr_def Cons_eq_append_conv)

lemma getNextLine_eol:
  assumes "eol \<in> {[], cr}" "eol_free t" "eol_free u" "c \<noteq> CHR 0x0D"
  shows "getNextLine (Some (u @ eol)) (c # t) = Inr (t @ eol)"
  using assms eol_free_cr [OF assms(3)] eol_free_cr_Cons [OF assms(2,4)]
  by (auto simp: getNextLine_def endsWith_cr)

lemma line_at_length [simp]: "line_at (seen @ l # ls) (int (length seen)) = Some l"
  by (simp add: line_at_def js_nth_def)

lemma patch_line_ctx:
  assumes "eol \<in> {[], cr}" "eol_free t"
  shows "patch_line (CHR '' '' # t) (int (length seen) - 1, seen @ (t @ eol) # ls) =
    Inr (int (length seen), seen @ (t @ eol) # ls)"
  using getNextLine_eol [OF assms(1,2,2)]
  by (simp add: patch_line_def Let_def getPatchType_def)

lemma patch_line_ins:
  assumes "eol \<in> {[], cr}" "eol_free t" "eol_free u"
  shows "patch_line (CHR ''+'' # t) (int (length seen) - 1, seen @ (u @ eol) # ls) =
    Inr (int (length seen), seen @ (t @ eol) # (u @ eol) # ls)"
  using getNextLine_eol [OF assms]
  by (simp add: patch_line_def Let_def getPatchType_def splice_in_def)

lemma hunk_old_head:
  assumes "hs \<noteq> []" "in_old (last hs)"
  obtains u ls where "u \<in> line_body ` set hs" and "hunk_old eol hs = (u @ eol) # ls"
proof -
  from assms have "last hs \<in> set (filter in_old hs)" by simp
  then obtain h rest where f: "filter in_old hs = h # rest" by (cases "filter in_old hs") auto
  then have "h \<in> set (filter in_old hs)" by simp
  then have "h \<in> set hs" by simp
  with f that [of "line_body h"] show ?thesis by (simp add: hunk_old_def)
qed

lemma patch_lines_insert:
  assumes "eol \<in> {[], cr}"
  shows "\<forall>h\<in>set hs. eol_free (line_body h) \<Longrightarrow> insertion hs \<Longrightarrow>
    \<exists>i. foldS patch_line (map hunk_text hs) (int (length seen) - 1, seen @ hunk_old eol hs @ ls) =
      Inr (i, seen @ hunk_new eol hs @ ls)"
proof (induction hs arbitrary: seen)
  case Nil
  then show ?case by (simp add: hunk_old_def hunk_new_def)
next
  case (Cons h hs)
  have ends: "insertion hs" and free: "\<forall>h\<in>set hs. eol_free (line_body h)"
    using Cons.prems by (auto simp: insertion_def split: if_splits)
  show ?case
  proof (cases h)
    case (Ctx t)
    from Cons.IH [OF free ends, of "seen @ [t @ eol]"]
    show ?thesis
      using Ctx Cons.prems patch_line_ctx [OF assms, of t seen "hunk_old eol hs @ ls"]
      by (simp add: hunk_old_def hunk_new_def)
  next
    case (Ins t)
    with Cons.prems have "hs \<noteq> []" "in_old (last hs)" by (auto simp: insertion_def split: if_splits)
    then obtain u rs where u: "u \<in> line_body ` set hs" and o: "hunk_old eol hs = (u @ eol) # rs"
      by (rule hunk_old_head)
    have "patch_line (CHR ''+'' # t) (int (length seen) - 1, seen @ (u @ eol) # rs @ ls) =
        Inr (int (length seen), seen @ (t @ eol) # (u @ eol) # rs @ ls)"
      using patch_line_ins [OF assms] Ins Cons.prems(1) free u by auto
    with Cons.IH [OF free ends, of "seen @ [t @ eol]"] o
    show ?thesis using Ins by (simp add: hunk_old_def hunk_new_def)
  next
    case (Del t)
    with Cons.prems(2) show ?thesis by (simp add: insertion_def)
  qed
qed

text \<open>The search finds the file line behind the preamble.\<close>

definition patch_preamble :: "string \<Rightarrow> bool" where
  "patch_preamble pre \<longleftrightarrow> (pre = [] \<or> last pre = CHR 0x0A) \<and> \<not> js_includes pre ''--- a/''"

lemma preamble_no_header:
  assumes "u \<noteq> []" "last u = CHR 0x0A" "\<not> js_includes u ''--- a/''"
  shows "\<not> js_startsWith (u @ r) ''--- a/''"
proof
  assume "js_startsWith (u @ r) ''--- a/''"
  then obtain t where "u @ r = ''--- a/'' @ t" by (auto simp: js_startsWith_iff)
  then obtain z where "''--- a/'' = u @ z \<or> u = ''--- a/'' @ z"
    unfolding append_eq_append_conv2 by metis
  then show False
  proof
    assume h: "''--- a/'' = u @ z"
    have "CHR 0x0A \<in> set u" using assms(1,2) by (metis last_in_set)
    then have "CHR 0x0A \<in> set ''--- a/''" unfolding h by simp
    then show False by simp
  next
    assume "u = ''--- a/'' @ z"
    then have "js_includes u ''--- a/''" unfolding js_includes_iff by (intro exI [of _ "[]"] exI [of _ z]) simp
    with assms(3) show False by simp
  qed
qed

lemma header_match:
  "rmatch True header_re (b, a, cs) Some =
     (if (b = [] \<or> js_lt (hd b)) \<and> js_startsWith a ''--- a/''
      then Some (rev ''--- a/'' @ b, drop 6 a, cs) else None)"
  unfolding header_re_def rmatch.simps prod.case rmatch_RStr by (simp add: numeral_eq_Suc)

lemma header_search:
  assumes "patch_preamble u" and "b = [] \<or> js_lt (hd b) \<or> u \<noteq> []"
  shows "\<exists>m. exec_from True header_re b (u @ ''--- a/'' @ r) = Some m \<and> re_before m = rev b @ u"
  using assms
proof (induction u arbitrary: b)
  case Nil
  have "rmatch True header_re (b, ''--- a/'' @ r, []) Some = Some (rev ''--- a/'' @ b, r, [])"
    using Nil.prems(2) by (simp add: header_match)
  from exec_from_here [OF this] show ?case by simp
next
  case (Cons c u)
  have "\<not> js_startsWith ((c # u) @ ''--- a/'' @ r) ''--- a/''"
    using Cons.prems(1) by (intro preamble_no_header) (auto simp: patch_preamble_def)
  then have "rmatch True header_re (b, c # u @ ''--- a/'' @ r, []) Some = None"
    by (simp add: header_match del: js_startsWith_Cons)
  from exec_from_skip [OF this]
  have e: "exec_from True header_re b (c # u @ ''--- a/'' @ r) =
      exec_from True header_re (c # b) (u @ ''--- a/'' @ r)" .
  have "patch_preamble u" "c # b = [] \<or> js_lt (hd (c # b)) \<or> u \<noteq> []"
    using Cons.prems(1) by (auto simp: patch_preamble_def js_lt_def split: if_splits)
  from Cons.IH [OF this] e show ?case by auto
qed

lemma slice_search_preamble:
  assumes "patch_preamble pre"
  shows "slice_search (pre @ ''--- a/'' @ r) = ''--- a/'' @ r"
  using header_search [OF assms, of "[]" r] by (auto simp: slice_search_def re_exec_def)

lemma rmatch_seq_beg: "rmatch ml (RSeq RBeg q) ([], a, cs) k = rmatch ml q ([], a, cs) k"
  by simp

lemma rmatch_seq_str: "rmatch ml (RSeq (RStr w) q) (b, w @ a, cs) k = rmatch ml q (rev w @ b, a, cs) k"
  by (simp add: rmatch_RStr)

text \<open>The position is the number behind \<open>@@ -\<close>.\<close>

lemma hunk_re_exec:
  assumes "list_all js_digit ds" and "list_all (\<lambda>c. \<not> js_lt c) span"
  shows "\<exists>m. re_exec False hunk_re (''@@ -'' @ ds @ '','' @ span @ ''@@'' @ rest) = Some m \<and>
    re_group m 1 = Some ds"
proof -
  let ?line = "''@@ -'' @ ds @ '','' @ span @ ''@@'' @ rest"
  let ?tail = "RSeqs [RStr '','', RStar RDot, RStr ''@@'']"
  let ?b = "rev ds @ rev ''@@ -''"
  have "rmatch False (RStar RDot) (CHR '','' # ?b, span @ ''@@'' @ rest, [(1, ds)])
      (\<lambda>st. rmatch False (RSeqs [RStr ''@@'']) st Some) \<noteq> None"
    unfolding RDot_def
    by (rule star_cls_some [OF assms(2)]) (simp add: rmatch_RStr del: RStr.simps)
  then obtain x where x: "rmatch False ?tail (?b, '','' @ span @ ''@@'' @ rest, [(1, ds)]) Some = Some x"
    by (auto simp: rmatch_RStr simp del: RStr.simps)
  have "rmatch False (RGrp 1 (RStar (RCls js_digit)))
      (rev ''@@ -'', ds @ '','' @ span @ ''@@'' @ rest, []) (\<lambda>st. rmatch False ?tail st Some) = Some x"
    by (rule runs_grp [OF runs_star [OF assms(1)]]) (use x in \<open>simp_all add: js_digit_def\<close>)
  then have m: "rmatch False hunk_re ([], ?line, []) Some = Some x"
    unfolding hunk_re_def RSeqs.simps(2) [of RBeg] RSeqs.simps(2) [of "RStr ''@@ -''"]
      RSeqs.simps(2) [of "RGrp 1 (RStar (RCls js_digit))"] rmatch_seq_beg rmatch_seq_str
      rmatch.simps(3) [of _ "RGrp 1 (RStar (RCls js_digit))"]
    by simp
  obtain b' a' cs' where xs: "x = (b', a', cs')" by (cases x) auto
  from rmatch_den [OF x] have "rden False ?tail (?b, '','' @ span @ ''@@'' @ rest, [(1, ds)]) x" by auto
  then have "snd (snd x) = [(1, ds)]" by (auto dest!: rden_no_grp)
  with exec_from_here [OF m [unfolded xs]] xs show ?thesis
    by (auto simp: re_exec_def re_group_def)
qed

lemma js_split_lines:
  assumes "\<forall>l\<in>set ls. CHR 0x0A \<notin> set l" and "ls \<noteq> []"
  shows "js_split (CHR 0x0A) (js_join [CHR 0x0A] ls) = ls"
  using assms by (intro js_split_join) auto

lemma js_join_head: "js_join [CHR 0x0A] ((u @ v) # ls) = u @ js_join [CHR 0x0A] (v # ls)"
  by (cases ls) simp_all

lemma patch_content_lines_diff:
  assumes "patch_preamble pre"
    and "\<forall>l\<in>set ((''--- a/'' @ old_name) # ls). CHR 0x0A \<notin> set l"
  shows "patch_content_lines (pre @ js_join [CHR 0x0A] ((''--- a/'' @ old_name) # ls)) =
    (''--- a/'' @ old_name) # ls"
proof -
  have "slice_search (pre @ js_join [CHR 0x0A] ((''--- a/'' @ old_name) # ls)) =
      js_join [CHR 0x0A] ((''--- a/'' @ old_name) # ls)"
    unfolding js_join_head by (rule slice_search_preamble [OF assms(1)])
  with js_split_lines [OF assms(2)] show ?thesis by (simp add: patch_content_lines_def del: js_join.simps)
qed

text \<open>
  A well-formed diff: the preamble comes before the first file line, and no part of it holds a
  line ending. The file holds the lines the hunk expects behind line \<open>n - 1\<close>, with either line
  ending.
\<close>

definition wf_diff :: "string \<Rightarrow> string \<Rightarrow> string \<Rightarrow> string \<Rightarrow> string \<Rightarrow> hunk_line list \<Rightarrow> string \<Rightarrow> string \<Rightarrow> bool" where
  "wf_diff pre old_name new_line span rest hs t1 t2 \<longleftrightarrow>
     patch_preamble pre \<and> eol_free old_name \<and> eol_free new_line \<and> eol_free span \<and> eol_free rest \<and>
     eol_free t1 \<and> eol_free t2 \<and> (\<forall>h\<in>set hs. eol_free (line_body h))"

lemma eol_free_newline: "eol_free s \<Longrightarrow> CHR 0x0A \<notin> set s"
  by (simp add: eol_free_def)

lemma js_lt_iff: "js_lt c \<longleftrightarrow> c = CHR 0x0A \<or> c = CHR 0x0D"
  using of_char_eq_iff [of c "CHR 0x0A", where ?'a = nat] of_char_eq_iff [of c "CHR 0x0D", where ?'a = nat]
  by (auto simp: js_lt_def)

lemma eol_free_lt: "eol_free s \<Longrightarrow> list_all (\<lambda>c. \<not> js_lt c) s"
  by (auto simp: eol_free_def js_lt_iff list_all_iff)

lemma str_of_nat_no_newline: "CHR 0x0A \<notin> set (str_of_nat n)"
  using str_of_nat_digits [of "CHR 0x0A" n] by (auto simp: js_digit_def)

lemma hunk_text_newline: "eol_free (line_body h) \<Longrightarrow> CHR 0x0A \<notin> set (hunk_text h)"
  by (cases h) (auto simp: eol_free_def)

lemma patchString_lines:
  assumes "wf_diff pre old_name new_line span rest hs t1 t2"
    and "foldS patch_line (map hunk_text hs) (int n - 2, js_split (CHR 0x0A) text) = Inr (i, ls)"
  shows "patchString (diff_text pre old_name new_line n span rest hs t1 t2) text = Inr (js_join [CHR 0x0A] ls)"
proof -
  let ?pos = "''@@ -'' @ str_of_nat n @ '','' @ span @ ''@@'' @ rest"
  let ?ls = "[new_line, ?pos] @ map hunk_text hs @ [t1, t2]"
  have "\<forall>l\<in>set ((''--- a/'' @ old_name) # ?ls). CHR 0x0A \<notin> set l"
    using assms(1) str_of_nat_no_newline [of n] hunk_text_newline
    by (auto simp: wf_diff_def dest: eol_free_newline)
  then have lines: "patch_content_lines (pre @ js_join [CHR 0x0A] ((''--- a/'' @ old_name) # ?ls)) =
      (''--- a/'' @ old_name) # ?ls"
    using assms(1) by (intro patch_content_lines_diff) (simp_all only: wf_diff_def)
  have "diff_text pre old_name new_line n span rest hs t1 t2 =
      pre @ js_join [CHR 0x0A] ((''--- a/'' @ old_name) # ?ls)"
    unfolding diff_text_def by (simp only: append_Cons append_Nil)
  with lines have pcl: "patch_content_lines (diff_text pre old_name new_line n span rest hs t1 t2) =
      (''--- a/'' @ old_name) # ?ls"
    by (simp only:)
  have d: "list_all js_digit (str_of_nat n)"
    using str_of_nat_digits [of _ n] by (auto simp: list_all_iff)
  have s: "list_all (\<lambda>c. \<not> js_lt c) span"
    using assms(1) by (intro eol_free_lt) (simp only: wf_diff_def)
  from hunk_re_exec [OF d s] obtain m where
    m: "re_exec False hunk_re ?pos = Some m" and g: "re_group m 1 = Some (str_of_nat n)" by blast
  have cut: "drop 3 (take (length ((''--- a/'' @ old_name) # ?ls) - 2) ((''--- a/'' @ old_name) # ?ls)) =
      map hunk_text hs"
    by simp
  show ?thesis
    unfolding patchString_def Let_def pcl cut
    using m g assms(2) by simp
qed

lemma patchString_insertion:
  assumes wf: "wf_diff pre old_name new_line span rest hs t1 t2" and ins: "insertion hs"
    and eol: "eol \<in> {[], cr}" and n: "length upper = n - 1" "0 < n"
    and nl: "\<forall>l\<in>set (upper @ lower). CHR 0x0A \<notin> set l" "upper @ hunk_old eol hs @ lower \<noteq> []"
  shows "patchString (diff_text pre old_name new_line n span rest hs t1 t2)
      (js_join [CHR 0x0A] (upper @ hunk_old eol hs @ lower)) =
    Inr (js_join [CHR 0x0A] (upper @ hunk_new eol hs @ lower))"
proof -
  have "CHR 0x0A \<notin> set l" if "l \<in> set (hunk_old eol hs)" for l
    using that wf eol by (auto simp: hunk_old_def wf_diff_def cr_def eol_free_def)
  with nl have sp: "js_split (CHR 0x0A) (js_join [CHR 0x0A] (upper @ hunk_old eol hs @ lower)) =
      upper @ hunk_old eol hs @ lower"
    by (intro js_split_lines) auto
  have pos: "int n - 2 = int (length upper) - 1" using n by simp
  from wf obtain i where "foldS patch_line (map hunk_text hs)
      (int (length upper) - 1, upper @ hunk_old eol hs @ lower) = Inr (i, upper @ hunk_new eol hs @ lower)"
    using patch_lines_insert [OF eol _ ins, of upper lower] by (auto simp: wf_diff_def)
  then show ?thesis
    using sp pos by (intro patchString_lines [OF wf]) simp
qed

section \<open>Properties\<close>

text \<open>C11: a diff whose hunk inserts lines between lines of context, applied to a text that holds
  the context at the position the diff names, gives the text with the lines inserted there, with
  the line ending of the text, whatever stands before the first file line of the diff.\<close>

theorem patch_inserts:
  assumes "wf_diff pre old_name new_line span rest hs t1 t2" and "insertion hs"
    and "eol \<in> {[], cr}" and "length upper = n - 1" and "0 < n"
    and "\<forall>l\<in>set (upper @ lower). CHR 0x0A \<notin> set l" and "upper @ hunk_old eol hs @ lower \<noteq> []"
  shows "patchString (diff_text pre old_name new_line n span rest hs t1 t2)
      (js_join [CHR 0x0A] (upper @ hunk_old eol hs @ lower)) =
    Inr (js_join [CHR 0x0A] (upper @ hunk_new eol hs @ lower))"
  by (rule patchString_insertion) (use assms in simp_all)

theorem patch_inserts_witness:
  "patchString (diff_text [CHR ''#'', CHR 0x0A] ''m.js'' ''+++ b/m.js'' 2 ''1 +2,2 '' [] [Ins ''x'', Ctx ''q''] [] [])
      (js_join [CHR 0x0A] ([''p'' @ cr] @ hunk_old cr [Ins ''x'', Ctx ''q''] @ [[]])) =
    Inr (js_join [CHR 0x0A] ([''p'' @ cr] @ hunk_new cr [Ins ''x'', Ctx ''q''] @ [[]]))"
  using patch_inserts [of "[CHR ''#'', CHR 0x0A]" "''m.js''" "''+++ b/m.js''" "''1 +2,2 ''" "[]" "[Ins ''x'', Ctx ''q'']" "[]" "[]"
      cr "[''p'' @ cr]" 2 "[[]]"]
  by (simp add: wf_diff_def patch_preamble_def eol_free_def insertion_def cr_def hunk_old_def)

text \<open>C14: a file that a diff was applied to is never changed again: applying any diff with the
  same target, under whatever vulnerability, returns the path and leaves the disk as it is.\<close>

theorem patch_applied_once:
  assumes "applyPatchToFile en p base vid w = (Inr t, w')"
    and "target_file q base = target_file p base"
  shows "applyPatchToFile en q base other w' = (Inr t, w')"
  using applyPatchToFile_flag [OF assms(1)] applyPatchToFile_flagged [of w' q base en other] assms(2)
  by simp

text \<open>A small disk: one file that a diff with one inserted line fits.\<close>

definition sample_diff :: string where
  "sample_diff = diff_text [] ''m.js'' ''+++ b/m.js'' 2 ''1 +2,2 '' [] [Ins ''x'', Ctx ''q''] [] []"

definition sample_penv :: penv where
  "sample_penv = \<lparr>argv = [], working_dir = ''/'', env_api = None, env_disable_analytics = None,
     env_config_file = None, homedir = ''/h'', lib_dir = ''/p/dist/lib'', node_version = ''v16'',
     iso_date = (\<lambda>_. ''now''), http = (\<lambda>_. Inl ''offline'')\<rparr>"

definition sample_disk :: pworld where
  "sample_disk = \<lparr>nodes = [''/m/m.js'' \<mapsto> FileNode (js_join [CHR 0x0A] [''p'', ''q'', []])],
     can_write = (\<lambda>_. True), out_lines = [], err_lines = [], posts = [], ticks = 0\<rparr>"

lemma sample_patched:
  "fst (applyPatchToFile sample_penv sample_diff ''/m'' ''V1'' sample_disk) = Inr ''/m/m.js''"
  by code_simp

theorem patch_applied_once_witness:
  "\<exists>w'. applyPatchToFile sample_penv sample_diff ''/m'' ''V1'' sample_disk = (Inr ''/m/m.js'', w') \<and>
     applyPatchToFile sample_penv sample_diff ''/m'' ''V2'' w' = (Inr ''/m/m.js'', w')"
proof -
  have "applyPatchToFile sample_penv sample_diff ''/m'' ''V1'' sample_disk =
      (Inr ''/m/m.js'', snd (applyPatchToFile sample_penv sample_diff ''/m'' ''V1'' sample_disk))"
    using sample_patched by (simp add: prod_eq_iff)
  from patch_applied_once [OF this refl] this show ?thesis by blast
qed

text \<open>a diff that removes a line and inserts one in its place is applied wrongly: the new
  line is placed behind the line that followed the removed one.\<close>

theorem patch_replacement_misplaced:
  assumes "wf_diff pre old_name new_line span rest [Del b, Ins d] t1 t2"
    and "length upper = n - 1" and "0 < n"
    and "\<forall>l\<in>set (upper @ [b, c, e] @ lower). eol_free l"
  shows "patchString (diff_text pre old_name new_line n span rest [Del b, Ins d] t1 t2)
      (js_join [CHR 0x0A] (upper @ [b, c, e] @ lower)) =
    Inr (js_join [CHR 0x0A] (upper @ [c, d, e] @ lower))"
proof -
  have sp: "js_split (CHR 0x0A) (js_join [CHR 0x0A] (upper @ [b, c, e] @ lower)) = upper @ [b, c, e] @ lower"
    using assms(4) by (intro js_split_lines) (auto dest: eol_free_newline)
  have pos: "int n - 2 = int (length upper) - 1" using assms(2,3) by simp
  have free: "eol_free b" "eol_free d" "eol_free c" "eol_free e"
    using assms(1,4) by (auto simp: wf_diff_def)
  have one: "patch_line (hunk_text (Del b)) (int (length upper) - 1, upper @ [b, c, e] @ lower) =
      Inr (int (length upper), upper @ [c, e] @ lower)"
    using line_at_length [of upper b "[c, e] @ lower"] getNextLine_eol [of "[]" b b "CHR ''-''"] free
    by (simp add: patch_line_def Let_def getPatchType_def splice_out_def)
  have two: "patch_line (hunk_text (Ins d)) (int (length (upper @ [c])) - 1, (upper @ [c]) @ e # lower) =
      Inr (int (length (upper @ [c])), (upper @ [c]) @ d # e # lower)"
    using patch_line_ins [of "[]" d e "upper @ [c]" lower] free by simp
  show ?thesis
    by (rule patchString_lines [OF assms(1)]) (use sp pos one two in simp)
qed

theorem patch_replacement_misplaced_witness:
  "patchString (diff_text [] ''m.js'' ''+++ b/m.js'' 1 ''1 +1,1 '' [] [Del ''b'', Ins ''d''] [] [])
      (js_join [CHR 0x0A] ([] @ [''b'', ''c'', []] @ [])) =
    Inr (js_join [CHR 0x0A] ([] @ [''c'', ''d'', []] @ []))"
  using patch_replacement_misplaced [of "[]" "''m.js''" "''+++ b/m.js''" "''1 +1,1 ''" "[]" "''b''" "''d''"
      "[]" "[]" "[]" 1 "''c''" "[]" "[]"]
  by (simp add: wf_diff_def patch_preamble_def eol_free_def)

end
