(* ===== verification/ProtectMain.thy ===== *)
theory ProtectMain
  imports ProtectPolicy ProtectModules ProtectPatch "HOL-Library.AList"
begin

text \<open>
  \<open>vulnmap-api.ts\<close>, \<open>fetch-patches.ts\<close>, \<open>analytics.ts\<close> and \<open>index.ts\<close>: the address of the
  API, the download of the patches of every installed vulnerable package, the reporting of the
  outcome, and \<open>protect\<close> itself. A JavaScript \<open>Map\<close> is an association list in insertion order.
\<close>

section \<open>The address of the API\<close>

definition default_api :: string where
  "default_api = ''https://vulnmap.khulnasoft.com/api''"

definition malformed_warning :: string where
  "malformed_warning = ''Malformed VULNMAP_API value. Using default: https://vulnmap.khulnasoft.com/api''"

definition getApiBaseUrl :: "penv \<Rightarrow> string pio" where
  "getApiBaseUrl en =
     (if truthy (env_api en) then
        (let u = the (env_api en) in
         if js_endsWith u ''/api'' then ret u
         else if js_endsWith u ''/api/v1'' then ret (js_replace_first ''/v1'' [] u)
         else bindE (console_warn malformed_warning) (\<lambda>_. ret default_api))
      else ret default_api)"

section \<open>Patches\<close>

definition request :: "penv \<Rightarrow> json \<Rightarrow> (nat \<times> string) pio" where
  "request en url = lift (case http en url of Inl e \<Rightarrow> Inl (NetErr e) | Inr r \<Rightarrow> Inr r)"

definition iter_of :: "json \<Rightarrow> protect_error + json list" where
  "iter_of v = (case json_iter v of None \<Rightarrow> Inl (TypeErr ''is not iterable'') | Some vs \<Rightarrow> Inr vs)"

definition fetch_diffs :: "penv \<Rightarrow> json \<Rightarrow> patch pio" where
  "fetch_diffs en p =
     bindE (lift (bindS (prop_of p ''urls'') iter_of)) (\<lambda>urls.
     bindE (mapE (\<lambda>u. bindE (request en u) (\<lambda>r. ret (snd r))) urls) (\<lambda>ds.
     bindE (lift (prop_of p ''patchableVersions'')) (\<lambda>pv.
     ret \<lparr>patchableVersions = pv, patchDiffs = ds\<rparr>)))"

definition wrong_package :: protect_error where
  "wrong_package = ErrorOf (JStr ''packageName in response not equal to packageName'')"

definition patches_url :: "string \<Rightarrow> string \<Rightarrow> json \<Rightarrow> string" where
  "patches_url base vid pkgVersion =
     base @ ''/v1/patches/'' @ vid @ ''?packageVersion='' @ json_text pkgVersion"

definition fetchPatches :: "penv \<Rightarrow> string \<Rightarrow> string \<Rightarrow> json \<Rightarrow> patch list pio" where
  "fetchPatches en vid pkg pkgVersion =
     bindE (getApiBaseUrl en) (\<lambda>base.
     bindE (request en (JStr (patches_url base vid pkgVersion))) (\<lambda>(status, body).
       if status \<noteq> 200 \<and> status \<noteq> 201 then
         bindE (lift (bindS (parse_json body) (\<lambda>v. prop_of v ''error''))) (\<lambda>e. throw (ErrorOf e))
       else
         bindE (lift (parse_json body)) (\<lambda>v.
         bindE (lift (prop_of v ''packageName'')) (\<lambda>n.
         if \<not> json_same n (JStr pkg) then throw wrong_package
         else
           bindE (lift (bindS (prop_of v ''patches'') iter_of)) (mapE (fetch_diffs en))))))"

definition at_version :: "string \<Rightarrow> json \<Rightarrow> string" where
  "at_version pkg v = pkg @ ''@'' @ json_text v"

type_synonym patch_map = "(string \<times> vuln_patches list) list"

definition add_patches :: "string \<Rightarrow> vuln_patches \<Rightarrow> patch_map \<Rightarrow> patch_map" where
  "add_patches k vp m =
     (case map_of m k of
        Some vps \<Rightarrow> AList.update k (vps @ [vp]) m
      | None \<Rightarrow> AList.update k [vp] m)"

definition getAllPatches ::
  "penv \<Rightarrow> vuln_pkg list \<Rightarrow> (string \<times> json list) list \<Rightarrow> patch_map pio" where
  "getAllPatches en vpns versions =
     foldE (\<lambda>vpn m.
       (case map_of versions (packageName vpn) of
          None \<Rightarrow> ret m
        | Some vs \<Rightarrow>
            foldE (\<lambda>v m.
              bindE (fetchPatches en (vulnId vpn) (packageName vpn) v) (\<lambda>ps.
              ret (add_patches (at_version (packageName vpn) v)
                     \<lparr>vp_vulnId = vulnId vpn, vp_patches = ps\<rparr> m))) vs m)) vpns []"

section \<open>Analytics\<close>

definition package_version :: "penv \<Rightarrow> json pio" where
  "package_version en =
     bindE (readFileSync (resolve en [lib_dir en, ''../../package.json''])) (\<lambda>t.
     lift (bindS (parse_json t) (\<lambda>v. prop_of v ''version'')))"

definition getAnalyticsData :: "penv \<Rightarrow> protect_result \<Rightarrow> analytics_payload pio" where
  "getAnalyticsData en result =
     bindE (package_version en) (\<lambda>v.
     ret \<lparr>ap_command = ''@vulnmap/protect'', ap_args = [], ap_version = v,
          ap_nodeVersion = node_version en, ap_protectResult = result\<rparr>)"

definition getVulnmapConfigFilePath :: "penv \<Rightarrow> string" where
  "getVulnmapConfigFilePath en =
     js_or (env_config_file en) (resolve en [homedir en, ''.config'', ''configstore'', ''vulnmap.json''])"

definition allowAnalytics :: "penv \<Rightarrow> bool pio" where
  "allowAnalytics en = (\<lambda>w.
     catchE
       (bindE
          (if existsSync w (getVulnmapConfigFilePath en) then
             bindE (readFileSync (getVulnmapConfigFilePath en)) (\<lambda>t.
             bindE (lift (parse_json t)) (\<lambda>v.
             bindE (lift (prop_of v ''disable-analytics'')) (\<lambda>d.
             ret (d = JStr ''1'' \<or> d = JNum 1))))
           else ret False)
          (\<lambda>off. ret (\<not> off \<and> \<not> truthy (env_disable_analytics en))))
       (\<lambda>_. ret True) w)"

definition postJson :: "string \<Rightarrow> analytics_payload \<Rightarrow> unit pio" where
  "postJson url d = (\<lambda>w. (Inr (), w\<lparr>posts := posts w @ [(url, d)]\<rparr>))"

text \<open>The outcome of the request is awaited by nobody and a failure of it is swallowed.\<close>

definition sendAnalytics :: "penv \<Rightarrow> protect_result \<Rightarrow> unit pio" where
  "sendAnalytics en result =
     bindE (allowAnalytics en) (\<lambda>ok.
       if \<not> ok then ret ()
       else
         catchE
           (bindE (getApiBaseUrl en) (\<lambda>base.
            bindE (getAnalyticsData en result) (\<lambda>d.
            postJson (base @ ''/v1/analytics/cli'') d)))
           (\<lambda>_. ret ()))"

section \<open>Protect\<close>

definition getHelp :: "penv \<Rightarrow> string pio" where
  "getHelp en = readFileSync (resolve en [lib_dir en, ''../../help.txt''])"

definition getVersion :: "penv \<Rightarrow> json pio" where
  "getVersion en = package_version en"

definition includes_version :: "json list \<Rightarrow> json \<Rightarrow> bool" where
  "includes_version vs v = (\<exists>u\<in>set vs. json_same u v)"

definition add_version :: "physical_package \<Rightarrow> (string \<times> json list) list \<Rightarrow> (string \<times> json list) list" where
  "add_version p m =
     (case map_of m (fp_packageName p) of
        Some vs \<Rightarrow>
          (if includes_version vs (fp_packageVersion p) then m
           else AList.update (fp_packageName p) (vs @ [fp_packageVersion p]) m)
      | None \<Rightarrow> AList.update (fp_packageName p) [fp_packageVersion p] m)"

definition package_versions :: "physical_package list \<Rightarrow> (string \<times> json list) list" where
  "package_versions ps = fold add_version ps []"

definition apply_diffs :: "penv \<Rightarrow> physical_package \<Rightarrow> string \<Rightarrow> patch \<Rightarrow> unit pio" where
  "apply_diffs en fpp vid p =
     foldE (\<lambda>d _.
       bindE (applyPatchToFile en d (fp_path fpp) vid) (\<lambda>t. console_log (''Patched: '' @ t)))
       (patchDiffs p) ()"

definition patch_package ::
  "penv \<Rightarrow> patch_map \<Rightarrow> physical_package \<Rightarrow> patched_module list \<Rightarrow> patched_module list pio" where
  "patch_package en m fpp acc =
     (case map_of m (at_version (fp_packageName fpp) (fp_packageVersion fpp)) of
        None \<Rightarrow> ret acc
      | Some vps \<Rightarrow>
          foldE (\<lambda>vp acc.
            bindE (foldE (\<lambda>p _. apply_diffs en fpp (vp_vulnId vp) p) (vp_patches vp) ()) (\<lambda>_.
            ret (acc @ [\<lparr>pm_vulnId = vp_vulnId vp, pm_packageName = fp_packageName fpp,
                         pm_packageVersion = fp_packageVersion fpp\<rparr>]))) vps acc)"

definition patch_packages :: "penv \<Rightarrow> vuln_pkg list \<Rightarrow> physical_package list \<Rightarrow> unit pio" where
  "patch_packages en vpns found =
     bindE (getAllPatches en vpns (package_versions found)) (\<lambda>m.
       if m = [] then
         bindE (console_log ''Nothing to patch.'') (\<lambda>_. sendAnalytics en NOTHING_TO_PATCH)
       else
         bindE (foldE (patch_package en m) found []) (\<lambda>patched.
         bindE (console_log ''Applied Vulnmap patches.'') (\<lambda>_.
         sendAnalytics en (APPLIED_PATCHES patched))))"

text \<open>The order of the target names is that of their first mention; see \<open>unique_in_order\<close>.\<close>

definition target_names :: "vuln_pkg list \<Rightarrow> string list" where
  "target_names vpns = unique_in_order (map packageName vpns)"

definition protect :: "nat \<Rightarrow> penv \<Rightarrow> string \<Rightarrow> (protect_error, pworld, unit) peff" where
  "protect n en folder = (\<lambda>w.
     if ''--help'' \<in> set (argv en) then liftP (bindE (getHelp en) console_log) w
     else if ''--version'' \<in> set (argv en) then
       liftP (bindE (getVersion en) (\<lambda>v. console_log (json_text v))) w
     else
       (let vf = resolve en [folder, ''.vulnmap''] in
        if \<not> existsSync w vf then
          liftP (bindE (console_log ''No .vulnmap file found.'') (\<lambda>_. sendAnalytics en NO_VULNMAP_FILE)) w
        else
          bindP (liftP (bindE (readFileSync vf) (\<lambda>t. lift (extractPatchMetadata t)))) (\<lambda>vpns.
          bindP (\<lambda>w. map_option (\<lambda>r. (r, w)) (findPhysicalModules n en w (target_names vpns) folder)) (\<lambda>found.
          liftP (patch_packages en vpns found))) w))"

section \<open>What is reported\<close>

definition modules_of :: "patch_map \<Rightarrow> physical_package \<Rightarrow> patched_module list" where
  "modules_of m fpp =
     map (\<lambda>vp. \<lparr>pm_vulnId = vp_vulnId vp, pm_packageName = fp_packageName fpp,
                pm_packageVersion = fp_packageVersion fpp\<rparr>)
       (case map_of m (at_version (fp_packageName fpp) (fp_packageVersion fpp)) of
          None \<Rightarrow> [] | Some vps \<Rightarrow> vps)"

lemma foldE_appends:
  assumes "\<And>x a s r s'. f x a s = (Inr r, s') \<Longrightarrow> r = a @ g x"
  shows "foldE f xs acc s = (Inr r, s') \<Longrightarrow> r = acc @ concat (map g xs)"
proof (induction xs arbitrary: acc s)
  case Nil
  then show ?case by simp
next
  case (Cons x xs)
  from Cons.prems obtain a t where "f x acc s = (Inr a, t)" "foldE f xs a t = (Inr r, s')"
    by (auto elim: bindE_InrE)
  with Cons.IH assms show ?case by (metis append.assoc concat.simps(2) list.simps(9))
qed

lemma patch_package_reports:
  assumes "patch_package en m fpp acc w = (Inr r, w')"
  shows "r = acc @ modules_of m fpp"
proof (cases "map_of m (at_version (fp_packageName fpp) (fp_packageVersion fpp))")
  case None
  with assms show ?thesis by (simp add: patch_package_def modules_of_def)
next
  case (Some vps)
  let ?mod = "\<lambda>vp. \<lparr>pm_vulnId = vp_vulnId vp, pm_packageName = fp_packageName fpp,
                pm_packageVersion = fp_packageVersion fpp\<rparr>"
  have "r = acc @ concat (map (\<lambda>vp. [?mod vp]) vps)"
    by (rule foldE_appends [OF _ assms [unfolded patch_package_def Some option.case]])
       (auto elim!: bindE_InrE)
  with Some show ?thesis by (simp add: modules_of_def)
qed

section \<open>Analytics leave the disk alone\<close>

lemma keeps_readers [frame_intros]: "keeps P (request en u)"
  by (simp add: request_def keeps_lift)

lemma allowAnalytics_quiet: "snd (allowAnalytics en w) = w"
proof -
  have "keeps (\<lambda>s. s = w) (catchE
       (bindE
          (if existsSync w (getVulnmapConfigFilePath en) then
             bindE (readFileSync (getVulnmapConfigFilePath en)) (\<lambda>t.
             bindE (lift (parse_json t)) (\<lambda>v.
             bindE (lift (prop_of v ''disable-analytics'')) (\<lambda>d.
             ret (d = JStr ''1'' \<or> d = JNum 1))))
           else ret False)
          (\<lambda>off. ret (\<not> off \<and> \<not> truthy (env_disable_analytics en))))
       (\<lambda>_. ret True))"
    by (intro frame_intros)
  then show ?thesis by (simp add: keeps_def allowAnalytics_def)
qed

lemma allowAnalytics_total: "\<exists>b. allowAnalytics en w = (Inr b, w)"
proof -
  have "\<exists>b. fst (allowAnalytics en w) = Inr b"
    unfolding allowAnalytics_def catchE_def ret_def by (auto split: prod.splits sum.splits)
  with allowAnalytics_quiet [of en w] show ?thesis by (metis prod.collapse)
qed

text \<open>What the sending may do to the state: print a warning, post one message.\<close>

definition posted :: "protect_result \<Rightarrow> pworld \<Rightarrow> pworld \<Rightarrow> bool" where
  "posted r w w' \<longleftrightarrow> nodes w' = nodes w \<and>
     (posts w' = posts w \<or> (\<exists>url d. posts w' = posts w @ [(url, d)] \<and> ap_protectResult d = r))"

lemma getApiBaseUrl_run:
  obtains base w' where "getApiBaseUrl en w = (Inr base, w')" and "nodes w' = nodes w" and "posts w' = posts w"
proof -
  have "\<exists>base w'. getApiBaseUrl en w = (Inr base, w') \<and> nodes w' = nodes w \<and> posts w' = posts w"
    by (auto simp: getApiBaseUrl_def Let_def console_warn_def bindE_apply)
  with that show ?thesis by blast
qed

lemma package_version_state: "snd (package_version en w) = w"
  by (simp add: package_version_def bindE_apply readFileSync_def split: sum.splits prod.splits)

lemma getAnalyticsData_run:
  "(\<exists>e. getAnalyticsData en r w = (Inl e, w)) \<or>
   (\<exists>d. getAnalyticsData en r w = (Inr d, w) \<and> ap_protectResult d = r)"
  using package_version_state [of en w]
  by (auto simp: getAnalyticsData_def bindE_apply split: sum.splits prod.splits)

lemma sendAnalytics_run: "\<exists>w'. sendAnalytics en r w = (Inr (), w') \<and> posted r w w'"
proof -
  obtain b where b: "allowAnalytics en w = (Inr b, w)" using allowAnalytics_total by blast
  obtain base w1 where api: "getApiBaseUrl en w = (Inr base, w1)" "nodes w1 = nodes w" "posts w1 = posts w"
    by (rule getApiBaseUrl_run)
  show ?thesis
  proof (cases b)
    case False
    with b show ?thesis by (simp add: sendAnalytics_def bindE_apply posted_def)
  next
    case True
    from getAnalyticsData_run [of en r w1] show ?thesis
      using b True api
      by (auto simp: sendAnalytics_def bindE_apply catchE_def postJson_def posted_def)
  qed
qed

section \<open>Properties\<close>

text \<open>reporting the outcome never fails and never touches the disk; it posts at most one
  message, which carries the outcome, and when the user opted out by \<open>VULNMAP_DISABLE_ANALYTICS\<close>
  and the configuration file is absent or readable, it posts none.\<close>

theorem analytics_contained:
  "\<exists>w'. sendAnalytics en r w = (Inr (), w') \<and> posted r w w' \<and>
     (truthy (env_disable_analytics en) \<and>
      (\<not> existsSync w (getVulnmapConfigFilePath en) \<or>
       (\<exists>d. bindS (bindS (read_text w (getVulnmapConfigFilePath en)) parse_json)
              (\<lambda>v. prop_of v ''disable-analytics'') = Inr d)) \<longrightarrow> w' = w)"
proof -
  obtain w' where w': "sendAnalytics en r w = (Inr (), w')" "posted r w w'"
    using sendAnalytics_run by blast
  moreover have "w' = w" if "truthy (env_disable_analytics en)"
    and "\<not> existsSync w (getVulnmapConfigFilePath en) \<or>
       (\<exists>d. bindS (bindS (read_text w (getVulnmapConfigFilePath en)) parse_json)
              (\<lambda>v. prop_of v ''disable-analytics'') = Inr d)"
  proof -
    from that have "allowAnalytics en w = (Inr False, w)"
      by (auto simp: allowAnalytics_def catchE_def bindE_apply readFileSync_def bindS_Inr_iff)
    with w' show ?thesis by (simp add: sendAnalytics_def bindE_apply)
  qed
  ultimately show ?thesis by blast
qed

theorem analytics_contained_witness:
  "\<exists>w'. sendAnalytics (sample_wenv\<lparr>env_disable_analytics := Some ''1''\<rparr>) NOTHING_TO_PATCH sample_tree =
      (Inr (), w') \<and> w' = sample_tree"
proof -
  have "\<not> existsSync sample_tree (getVulnmapConfigFilePath (sample_wenv\<lparr>env_disable_analytics := Some ''1''\<rparr>))"
    by code_simp
  moreover have "truthy (env_disable_analytics (sample_wenv\<lparr>env_disable_analytics := Some ''1''\<rparr>))"
    by simp
  ultimately show ?thesis
    using analytics_contained [of "sample_wenv\<lparr>env_disable_analytics := Some ''1''\<rparr>" NOTHING_TO_PATCH sample_tree]
    by blast
qed

text \<open>a configuration file that is not JSON makes the opt-out ineffective: the message is
  posted although \<open>VULNMAP_DISABLE_ANALYTICS\<close> is set.\<close>

theorem optout_ignored:
  assumes "existsSync w (getVulnmapConfigFilePath en)"
    and "read_text w (getVulnmapConfigFilePath en) = Inr t" and "json_parse t = None"
    and "package_version en w = (Inr v, w)"
  shows "\<exists>w' url d. sendAnalytics en r w = (Inr (), w') \<and> posts w' = posts w @ [(url, d)]"
proof -
  have "allowAnalytics en w = (Inr True, w)"
    using assms by (simp add: allowAnalytics_def catchE_def bindE_apply readFileSync_def parse_json_def)
  moreover obtain base w1 where "getApiBaseUrl en w = (Inr base, w1)" "nodes w1 = nodes w" "posts w1 = posts w"
    by (rule getApiBaseUrl_run)
  moreover from this(2) assms(4) have "package_version en w1 = (Inr v, w1)"
    by (auto simp: package_version_def bindE_apply readFileSync_def read_text_def follow_def
          split: sum.splits option.splits node.splits)
  ultimately show ?thesis
    by (simp add: sendAnalytics_def bindE_apply catchE_def getAnalyticsData_def postJson_def)
qed

text \<open>when the patching of the found packages returns, what is reported is one module per
  found package and vulnerability its version has patches for, in the order of the packages.\<close>

theorem patched_modules_report:
  assumes "foldE (patch_package en m) found [] w = (Inr patched, w')"
  shows "patched = concat (map (modules_of m) found)"
  using foldE_appends [OF patch_package_reports assms] by simp

definition broken_env :: penv where
  "broken_env = sample_wenv\<lparr>env_disable_analytics := Some ''1''\<rparr>"

definition broken_world :: pworld where
  "broken_world = sample_tree\<lparr>nodes :=
     [''/h/.config/configstore/vulnmap.json'' \<mapsto> FileNode ''{'',
      ''/p/package.json'' \<mapsto> FileNode (''{'' @ json_quote ''version'' @ '':1}'')]\<rparr>"

theorem optout_ignored_witness:
  "truthy (env_disable_analytics broken_env) \<and>
   (\<exists>w' url d. sendAnalytics broken_env NOTHING_TO_PATCH broken_world = (Inr (), w') \<and>
      posts w' = posts broken_world @ [(url, d)])"
proof -
  have "existsSync broken_world (getVulnmapConfigFilePath broken_env)"
    "read_text broken_world (getVulnmapConfigFilePath broken_env) = Inr ''{''"
    "json_parse ''{'' = None" "fst (package_version broken_env broken_world) = Inr (JNum 1)"
    "truthy (env_disable_analytics broken_env)"
    by code_simp+
  moreover from this(4) have "package_version broken_env broken_world = (Inr (JNum 1), broken_world)"
    using package_version_state [of broken_env broken_world] by (metis prod.collapse)
  ultimately show ?thesis
    using optout_ignored [of broken_world broken_env "''{''" "JNum 1" NOTHING_TO_PATCH] by blast
qed

definition sample_found :: "physical_package list" where
  "sample_found = [\<lparr>fp_packageName = ''m'', fp_packageVersion = JStr ''1'', fp_path = ''/m''\<rparr>]"

definition sample_patches :: patch_map where
  "sample_patches = [(''m@1'', [\<lparr>vp_vulnId = ''V1'', vp_patches = [\<lparr>patchableVersions = JStr ''1'', patchDiffs = [sample_diff]\<rparr>]\<rparr>,
      \<lparr>vp_vulnId = ''V2'', vp_patches = [\<lparr>patchableVersions = JStr ''1'', patchDiffs = [sample_diff]\<rparr>]\<rparr>])]"

lemma sample_run:
  "fst (foldE (patch_package sample_penv sample_patches) sample_found [] sample_disk) =
     Inr [\<lparr>pm_vulnId = ''V1'', pm_packageName = ''m'', pm_packageVersion = JStr ''1''\<rparr>,
          \<lparr>pm_vulnId = ''V2'', pm_packageName = ''m'', pm_packageVersion = JStr ''1''\<rparr>]"
  by code_simp

theorem patched_modules_report_witness:
  "\<exists>patched. fst (foldE (patch_package sample_penv sample_patches) sample_found [] sample_disk) = Inr patched \<and>
     patched = concat (map (modules_of sample_patches) sample_found)"
proof -
  from sample_run obtain w' patched where
    r: "foldE (patch_package sample_penv sample_patches) sample_found [] sample_disk = (Inr patched, w')"
    by (metis prod.collapse)
  from patched_modules_report [OF this] r show ?thesis by simp
qed

end
