(* ===== verification/Detect.thy ===== *)
theory Detect
  imports ProtectWorld JsRegExp
begin

text \<open>
  \<open>src/lib/package-managers.ts\<close> and \<open>src/lib/detect.ts\<close>: the package managers and manifest
  files the tool knows, and how the package manager of a folder, of a named file or of a
  registry is found. A lookup \<open>key in table\<close> also finds what an object inherits
  (\<open>constructor\<close>, \<open>toString\<close>); those names are outside the model.
\<close>

section \<open>Package managers and manifest files\<close>

datatype package_manager =
    PM_rubygems
  | PM_npm
  | PM_yarn
  | PM_maven
  | PM_pip
  | PM_sbt
  | PM_gradle
  | PM_golangdep
  | PM_govendor
  | PM_gomodules
  | PM_nuget
  | PM_paket
  | PM_composer
  | PM_cocoapods
  | PM_poetry
  | PM_hex
  | PM_unmanaged
  | PM_swift

datatype manifest_file =
    MF_GEMFILE
  | MF_GEMFILE_LOCK
  | MF_GEMSPEC
  | MF_PACKAGE_LOCK_JSON
  | MF_POM_XML
  | MF_JAR
  | MF_WAR
  | MF_BUILD_GRADLE
  | MF_BUILD_GRADLE_KTS
  | MF_BUILD_SBT
  | MF_YARN_LOCK
  | MF_PACKAGE_JSON
  | MF_PIPFILE
  | MF_SETUP_PY
  | MF_REQUIREMENTS_TXT
  | MF_GOPKG_LOCK
  | MF_GO_MOD
  | MF_VENDOR_JSON
  | MF_PROJECT_ASSETS_JSON
  | MF_PACKAGES_CONFIG
  | MF_PROJECT_JSON
  | MF_PAKET_DEPENDENCIES
  | MF_COMPOSER_LOCK
  | MF_PODFILE_LOCK
  | MF_COCOAPODS_PODFILE_YAML
  | MF_COCOAPODS_PODFILE
  | MF_PODFILE
  | MF_POETRY_LOCK
  | MF_MIX_EXS
  | MF_PACKAGE_SWIFT

primrec manager_str :: "package_manager \<Rightarrow> string" where
  "manager_str PM_rubygems = ''rubygems''"
| "manager_str PM_npm = ''npm''"
| "manager_str PM_yarn = ''yarn''"
| "manager_str PM_maven = ''maven''"
| "manager_str PM_pip = ''pip''"
| "manager_str PM_sbt = ''sbt''"
| "manager_str PM_gradle = ''gradle''"
| "manager_str PM_golangdep = ''golangdep''"
| "manager_str PM_govendor = ''govendor''"
| "manager_str PM_gomodules = ''gomodules''"
| "manager_str PM_nuget = ''nuget''"
| "manager_str PM_paket = ''paket''"
| "manager_str PM_composer = ''composer''"
| "manager_str PM_cocoapods = ''cocoapods''"
| "manager_str PM_poetry = ''poetry''"
| "manager_str PM_hex = ''hex''"
| "manager_str PM_unmanaged = ''Unmanaged (C/C++)''"
| "manager_str PM_swift = ''swift''"

primrec manifest_name :: "manifest_file \<Rightarrow> string" where
  "manifest_name MF_GEMFILE = ''Gemfile''"
| "manifest_name MF_GEMFILE_LOCK = ''Gemfile.lock''"
| "manifest_name MF_GEMSPEC = ''.gemspec''"
| "manifest_name MF_PACKAGE_LOCK_JSON = ''package-lock.json''"
| "manifest_name MF_POM_XML = ''pom.xml''"
| "manifest_name MF_JAR = ''.jar''"
| "manifest_name MF_WAR = ''.war''"
| "manifest_name MF_BUILD_GRADLE = ''build.gradle''"
| "manifest_name MF_BUILD_GRADLE_KTS = ''build.gradle.kts''"
| "manifest_name MF_BUILD_SBT = ''build.sbt''"
| "manifest_name MF_YARN_LOCK = ''yarn.lock''"
| "manifest_name MF_PACKAGE_JSON = ''package.json''"
| "manifest_name MF_PIPFILE = ''Pipfile''"
| "manifest_name MF_SETUP_PY = ''setup.py''"
| "manifest_name MF_REQUIREMENTS_TXT = ''requirements.txt''"
| "manifest_name MF_GOPKG_LOCK = ''Gopkg.lock''"
| "manifest_name MF_GO_MOD = ''go.mod''"
| "manifest_name MF_VENDOR_JSON = ''vendor.json''"
| "manifest_name MF_PROJECT_ASSETS_JSON = ''project.assets.json''"
| "manifest_name MF_PACKAGES_CONFIG = ''packages.config''"
| "manifest_name MF_PROJECT_JSON = ''project.json''"
| "manifest_name MF_PAKET_DEPENDENCIES = ''paket.dependencies''"
| "manifest_name MF_COMPOSER_LOCK = ''composer.lock''"
| "manifest_name MF_PODFILE_LOCK = ''Podfile.lock''"
| "manifest_name MF_COCOAPODS_PODFILE_YAML = ''CocoaPods.podfile.yaml''"
| "manifest_name MF_COCOAPODS_PODFILE = ''CocoaPods.podfile''"
| "manifest_name MF_PODFILE = ''Podfile''"
| "manifest_name MF_POETRY_LOCK = ''poetry.lock''"
| "manifest_name MF_MIX_EXS = ''mix.exs''"
| "manifest_name MF_PACKAGE_SWIFT = ''Package.swift''"

primrec supported_package_manager_name :: "package_manager \<Rightarrow> string" where
  "supported_package_manager_name PM_rubygems = ''RubyGems''"
| "supported_package_manager_name PM_npm = ''npm''"
| "supported_package_manager_name PM_yarn = ''Yarn''"
| "supported_package_manager_name PM_maven = ''Maven''"
| "supported_package_manager_name PM_pip = ''pip''"
| "supported_package_manager_name PM_sbt = ''SBT''"
| "supported_package_manager_name PM_gradle = ''Gradle''"
| "supported_package_manager_name PM_golangdep = ''dep (Go)''"
| "supported_package_manager_name PM_gomodules = ''Go Modules''"
| "supported_package_manager_name PM_govendor = ''govendor''"
| "supported_package_manager_name PM_nuget = ''NuGet''"
| "supported_package_manager_name PM_paket = ''Paket''"
| "supported_package_manager_name PM_composer = ''Composer''"
| "supported_package_manager_name PM_cocoapods = ''CocoaPods''"
| "supported_package_manager_name PM_poetry = ''Poetry''"
| "supported_package_manager_name PM_hex = ''Hex''"
| "supported_package_manager_name PM_unmanaged = ''Unmanaged (C/C++)''"
| "supported_package_manager_name PM_swift = ''Swift''"

definition graph_supported :: "package_manager list" where
  "graph_supported =
     [PM_npm, PM_sbt, PM_yarn, PM_rubygems, PM_poetry]"

definition pinning_supported :: "package_manager list" where
  "pinning_supported = [PM_pip]"

text \<open>The table from manifest files to package managers.\<close>

primrec detectable_package_managers :: "manifest_file \<Rightarrow> package_manager" where
  "detectable_package_managers MF_GEMFILE = PM_rubygems"
| "detectable_package_managers MF_GEMFILE_LOCK = PM_rubygems"
| "detectable_package_managers MF_GEMSPEC = PM_rubygems"
| "detectable_package_managers MF_PACKAGE_LOCK_JSON = PM_npm"
| "detectable_package_managers MF_POM_XML = PM_maven"
| "detectable_package_managers MF_JAR = PM_maven"
| "detectable_package_managers MF_WAR = PM_maven"
| "detectable_package_managers MF_BUILD_GRADLE = PM_gradle"
| "detectable_package_managers MF_BUILD_GRADLE_KTS = PM_gradle"
| "detectable_package_managers MF_BUILD_SBT = PM_sbt"
| "detectable_package_managers MF_YARN_LOCK = PM_yarn"
| "detectable_package_managers MF_PACKAGE_JSON = PM_npm"
| "detectable_package_managers MF_PIPFILE = PM_pip"
| "detectable_package_managers MF_SETUP_PY = PM_pip"
| "detectable_package_managers MF_REQUIREMENTS_TXT = PM_pip"
| "detectable_package_managers MF_GOPKG_LOCK = PM_golangdep"
| "detectable_package_managers MF_GO_MOD = PM_gomodules"
| "detectable_package_managers MF_VENDOR_JSON = PM_govendor"
| "detectable_package_managers MF_PROJECT_ASSETS_JSON = PM_nuget"
| "detectable_package_managers MF_PACKAGES_CONFIG = PM_nuget"
| "detectable_package_managers MF_PROJECT_JSON = PM_nuget"
| "detectable_package_managers MF_PAKET_DEPENDENCIES = PM_paket"
| "detectable_package_managers MF_COMPOSER_LOCK = PM_composer"
| "detectable_package_managers MF_PODFILE_LOCK = PM_cocoapods"
| "detectable_package_managers MF_COCOAPODS_PODFILE_YAML = PM_cocoapods"
| "detectable_package_managers MF_COCOAPODS_PODFILE = PM_cocoapods"
| "detectable_package_managers MF_PODFILE = PM_cocoapods"
| "detectable_package_managers MF_POETRY_LOCK = PM_poetry"
| "detectable_package_managers MF_MIX_EXS = PM_hex"
| "detectable_package_managers MF_PACKAGE_SWIFT = PM_swift"

definition all_manifests :: "manifest_file list" where
  "all_manifests =
     [MF_GEMFILE, MF_GEMFILE_LOCK, MF_GEMSPEC, MF_PACKAGE_LOCK_JSON, MF_POM_XML, MF_JAR,
      MF_WAR, MF_BUILD_GRADLE, MF_BUILD_GRADLE_KTS, MF_BUILD_SBT, MF_YARN_LOCK,
      MF_PACKAGE_JSON, MF_PIPFILE, MF_SETUP_PY, MF_REQUIREMENTS_TXT, MF_GOPKG_LOCK, MF_GO_MOD,
      MF_VENDOR_JSON, MF_PROJECT_ASSETS_JSON, MF_PACKAGES_CONFIG, MF_PROJECT_JSON,
      MF_PAKET_DEPENDENCIES, MF_COMPOSER_LOCK, MF_PODFILE_LOCK, MF_COCOAPODS_PODFILE_YAML,
      MF_COCOAPODS_PODFILE, MF_PODFILE, MF_POETRY_LOCK, MF_MIX_EXS, MF_PACKAGE_SWIFT]"

definition DETECTABLE_FILES :: "string list" where
  "DETECTABLE_FILES =
     [''yarn.lock'', ''package-lock.json'', ''package.json'', ''Gemfile'', ''Gemfile.lock'',
      ''pom.xml'', ''build.gradle'', ''build.gradle.kts'', ''build.sbt'', ''Pipfile'',
      ''requirements.txt'', ''Gopkg.lock'', ''go.mod'', ''vendor/vendor.json'',
      ''obj/project.assets.json'', ''project.assets.json'', ''packages.config'',
      ''paket.dependencies'', ''composer.lock'', ''Podfile'', ''Podfile.lock'',
      ''poetry.lock'', ''mix.exs'', ''mix.lock'', ''Package.swift'']"

definition AUTO_DETECTABLE_FILES :: "string list" where
  "AUTO_DETECTABLE_FILES =
     [''package-lock.json'', ''yarn.lock'', ''package.json'', ''Gemfile'', ''Gemfile.lock'',
      ''pom.xml'', ''packages.config'', ''paket.dependencies'', ''project.json'',
      ''project.assets.json'', ''Podfile'', ''Podfile.lock'', ''composer.lock'',
      ''Gopkg.lock'', ''go.mod'', ''vendor.json'', ''Pipfile'', ''requirements.txt'',
      ''build.sbt'', ''build.gradle'', ''build.gradle.kts'', ''poetry.lock'', ''mix.exs'',
      ''mix.lock'', ''Package.swift'']"

section \<open>Detection\<close>

record detect_options =
  opt_packageManager :: "string option"
  opt_docker :: bool
  opt_file :: "string option"
  opt_scanAllUnmanaged :: bool
  opt_registry :: "string option"

datatype detect_error =
    FileNotFound string
  | NoManagerForFile string
  | NoSupportedManifestsFound "string list"

definition isPathToPackageFile :: "string \<Rightarrow> bool" where
  "isPathToPackageFile p = (\<exists>f\<in>set DETECTABLE_FILES. js_endsWith p f)"

definition localFileSuppliedButNotFound :: "penv \<Rightarrow> pworld \<Rightarrow> string \<Rightarrow> string option \<Rightarrow> bool" where
  "localFileSuppliedButNotFound en w root f =
     (truthy f \<and> existsSync w root \<and> \<not> existsSync w (resolve en [root, the f]))"

definition isLocalFolder :: "pworld \<Rightarrow> string \<Rightarrow> bool" where
  "isLocalFolder w root = lstat_isDirectory w root"

text \<open>The loop over the manifest names returns the first that exists.\<close>

definition detectPackageFile :: "penv \<Rightarrow> pworld \<Rightarrow> string \<Rightarrow> string option" where
  "detectPackageFile en w root =
     List.find (\<lambda>f. existsSync w (resolve en [root, f])) DETECTABLE_FILES"

definition ext_re :: "string \<Rightarrow> re" where
  "ext_re e = RSeq (RStr e) REnd"

definition key_step :: "string \<Rightarrow> string \<Rightarrow> string" where
  "key_step e key = (if re_test False (ext_re e) key then e else key)"

definition manifest_key :: "string \<Rightarrow> string" where
  "manifest_key f = key_step ''.war'' (key_step ''.jar'' (key_step ''.gemspec'' (path_base f)))"

definition manager_of_key :: "string \<Rightarrow> package_manager option" where
  "manager_of_key key = map_of (map (\<lambda>m. (manifest_name m, detectable_package_managers m)) all_manifests) key"

definition detectPackageManagerFromFile :: "string \<Rightarrow> detect_error + string" where
  "detectPackageManagerFromFile f =
     (case manager_of_key (manifest_key f) of
        None \<Rightarrow> Inl (NoManagerForFile f)
      | Some m \<Rightarrow> Inr (manager_str m))"

definition detectPackageManagerFromRegistry :: "string \<Rightarrow> string" where
  "detectPackageManagerFromRegistry registry = registry"

text \<open>\<open>None\<close> is the \<open>undefined\<close> of a container scan.\<close>

definition detectPackageManager ::
  "penv \<Rightarrow> pworld \<Rightarrow> string \<Rightarrow> detect_options \<Rightarrow> detect_error + string option" where
  "detectPackageManager en w root ops =
     (if truthy (opt_packageManager ops) then Inr (opt_packageManager ops)
      else if opt_docker ops then Inr None
      else
        bindS
          (if isLocalFolder w root then
             (if truthy (opt_file ops) then
                (if localFileSuppliedButNotFound en w root (opt_file ops) then Inl (FileNotFound (the (opt_file ops)))
                 else bindS (detectPackageManagerFromFile (the (opt_file ops))) (\<lambda>m. Inr (Some m)))
              else if opt_scanAllUnmanaged ops then Inr (Some ''maven'')
              else
                (case detectPackageFile en w root of
                   None \<Rightarrow> Inr None
                 | Some f \<Rightarrow> bindS (detectPackageManagerFromFile f) (\<lambda>m. Inr (Some m))))
           else Inr (Some (detectPackageManagerFromRegistry (js_or (opt_registry ops) ''npm''))))
          (\<lambda>pm. if \<not> truthy pm then Inl (NoSupportedManifestsFound [root]) else Inr pm))"

section \<open>Keys of files\<close>

lemma ext_match: "rmatch False (ext_re e) (b, a, cs) Some \<noteq> None \<longleftrightarrow> a = e"
  by (auto simp: ext_re_def rmatch_RStr js_startsWith_iff)

lemma exec_from_ext: "exec_from False (ext_re e) b a \<noteq> None \<longleftrightarrow> js_endsWith a e"
proof (induction a arbitrary: b)
  case Nil
  have "exec_from False (ext_re e) b [] \<noteq> None \<longleftrightarrow> rmatch False (ext_re e) (b, [], []) Some \<noteq> None"
    by (subst exec_from.simps) (auto split: option.splits)
  then show ?case unfolding ext_match by (auto simp: js_endsWith_iff)
next
  case (Cons c a)
  have "exec_from False (ext_re e) b (c # a) \<noteq> None \<longleftrightarrow>
      rmatch False (ext_re e) (b, c # a, []) Some \<noteq> None \<or> exec_from False (ext_re e) (c # b) a \<noteq> None"
    by (subst exec_from.simps) (auto split: option.splits)
  then show ?case unfolding ext_match Cons.IH by (auto simp: js_endsWith_iff Cons_eq_append_conv)
qed

lemma key_step_iff: "key_step e key = (if js_endsWith key e then e else key)"
  using exec_from_ext [of e "[]" key] by (simp add: key_step_def re_test_def re_exec_def)

lemma all_manifests_all: "m \<in> set all_manifests"
  by (cases m) (simp_all add: all_manifests_def)

lemma manifests_in_table:
  "list_all (\<lambda>m. manager_of_key (manifest_name m) = Some (detectable_package_managers m)) all_manifests"
  "list_all (\<lambda>m. key_step ''.war'' (key_step ''.jar'' (key_step ''.gemspec'' (manifest_name m))) =
     manifest_name m) all_manifests"
  by code_simp+

lemma manager_of_manifest: "manager_of_key (manifest_name m) = Some (detectable_package_managers m)"
  using manifests_in_table(1) all_manifests_all [of m] by (simp only: list_all_iff)

lemma manifest_key_name: "path_base f = manifest_name m \<Longrightarrow> manifest_key f = manifest_name m"
  using manifests_in_table(2) all_manifests_all [of m] by (simp only: list_all_iff manifest_key_def)

lemma detectable_have_manager:
  "list_all (\<lambda>f. f = ''mix.lock'' \<or> manager_of_key (manifest_key f) \<noteq> None) DETECTABLE_FILES"
  by code_simp

lemma mix_lock_none: "manager_of_key (manifest_key ''mix.lock'') = None"
  by code_simp

section \<open>Properties\<close>

text \<open>in a folder without further options the tool takes the first manifest file of its list
  that exists there and gives its package manager, except that a lone \<open>mix.lock\<close>, which is on
  the list, has no package manager and makes the detection fail; with no manifest the folder is
  reported.\<close>

theorem autodetection:
  assumes "isLocalFolder w root" and "\<not> truthy (opt_packageManager ops)" and "\<not> opt_docker ops"
    and "\<not> truthy (opt_file ops)" and "\<not> opt_scanAllUnmanaged ops"
  shows "case List.find (\<lambda>f. existsSync w (resolve en [root, f])) DETECTABLE_FILES of
      None \<Rightarrow> detectPackageManager en w root ops = Inl (NoSupportedManifestsFound [root])
    | Some f \<Rightarrow>
        if f = ''mix.lock'' then detectPackageManager en w root ops = Inl (NoManagerForFile ''mix.lock'')
        else \<exists>m. manager_of_key (manifest_key f) = Some m \<and>
               detectPackageManager en w root ops = Inr (Some (manager_str m))"
proof (cases "List.find (\<lambda>f. existsSync w (resolve en [root, f])) DETECTABLE_FILES")
  case None
  with assms show ?thesis by (simp add: detectPackageManager_def detectPackageFile_def)
next
  case (Some f)
  have run: "detectPackageManager en w root ops =
      bindS (detectPackageManagerFromFile f) (\<lambda>m. if \<not> truthy (Some m) then Inl (NoSupportedManifestsFound [root]) else Inr (Some m))"
    using Some assms
    by (cases "detectPackageManagerFromFile f") (simp_all add: detectPackageManager_def detectPackageFile_def)
  have "manager_str m \<noteq> []" for m by (cases m) simp_all
  moreover have "f \<in> set DETECTABLE_FILES" using Some by (auto simp: find_Some_iff)
  then have "f = ''mix.lock'' \<or> manager_of_key (manifest_key f) \<noteq> None"
    using detectable_have_manager by (simp only: list_all_iff)
  ultimately show ?thesis
    using run mix_lock_none Some by (auto simp: detectPackageManagerFromFile_def)
qed

definition plain_options :: detect_options where
  "plain_options = \<lparr>opt_packageManager = None, opt_docker = False, opt_file = None,
     opt_scanAllUnmanaged = False, opt_registry = None\<rparr>"

definition mix_env :: penv where
  "mix_env = \<lparr>argv = [], working_dir = ''/'', env_api = None, env_disable_analytics = None,
     env_config_file = None, homedir = ''/h'', lib_dir = ''/p'', node_version = ''v16'',
     iso_date = (\<lambda>_. []), http = (\<lambda>_. Inl [])\<rparr>"

definition mix_world :: pworld where
  "mix_world = \<lparr>nodes = [''/r'' \<mapsto> DirNode [''mix.lock''], ''/r/mix.lock'' \<mapsto> FileNode []],
     can_write = (\<lambda>_. True), out_lines = [], err_lines = [], posts = [], ticks = 0\<rparr>"

theorem autodetection_witness:
  "detectPackageManager mix_env mix_world ''/r'' plain_options = Inl (NoManagerForFile ''mix.lock'')"
proof -
  have "List.find (\<lambda>f. existsSync mix_world (resolve mix_env [''/r'', f])) DETECTABLE_FILES = Some ''mix.lock''"
    by code_simp
  moreover have "isLocalFolder mix_world ''/r''" by code_simp
  ultimately show ?thesis
    using autodetection [of mix_world "''/r''" plain_options mix_env] by (simp add: plain_options_def)
qed

text \<open>A file named after a known manifest is given the package manager of the table, in
  whatever folder it lies.\<close>

theorem manifest_file_manager:
  assumes "path_base f = manifest_name m"
  shows "detectPackageManagerFromFile f = Inr (manager_str (detectable_package_managers m))"
  using manifest_key_name [OF assms] manager_of_manifest [of m]
  by (simp add: detectPackageManagerFromFile_def)

theorem manifest_file_manager_witness: "detectPackageManagerFromFile ''a/b/pom.xml'' = Inr ''maven''"
proof -
  have "path_base ''a/b/pom.xml'' = manifest_name MF_POM_XML" by code_simp
  from manifest_file_manager [OF this] show ?thesis by simp
qed

end
