(* ===== verification/LegacyResults.thy ===== *)
theory LegacyResults
  imports FixTypes JsJson
begin

text \<open>
  \<open>src/lib/vulnmap-test/legacy.ts\<close>: the answer of the API for a dependency graph and its
  conversion to the flat list of vulnerabilities per path that the commands print. The
  dependency-graph package and \<open>lodash.values\<close> are parameters (\<open>graph_lib\<close>). An interface is a
  record; \<open>Object.assign\<close> of issue data and computed fields is a record of the two.
\<close>

section \<open>Types\<close>

record pkg =
  pkg_name :: string
  pkg_version :: "string option"

record lg_patch =
  lgp_version :: string
  lgp_id :: string
  lgp_urls :: "string list"
  lgp_modificationTime :: string

record lg_issue_data =
  lgd_id :: string
  lgd_packageName :: string
  lgd_version :: string
  lgd_moduleName :: "string option"
  lgd_below :: string
  lgd_semver :: json
  lgd_patches :: "lg_patch list"
  lgd_isNew :: bool
  lgd_description :: string
  lgd_title :: string
  lgd_severity :: severity
  lgd_fixedIn :: "string list"
  lgd_legalInstructions :: "string option"
  lgd_packageManager :: "string option"
  lgd_from :: "string list option"
  lgd_name :: "string option"

text \<open>An entry of a legacy upgrade path is a text or \<open>false\<close>.\<close>

datatype step = Keep | UpTo string

text \<open>
  An annotated issue: the data of the issue (\<open>undefined\<close> when the answer has none), overridden
  by the fields that depend on the path.
\<close>

record annotated_issue =
  an_data :: "lg_issue_data option"
  an_from :: "string list"
  an_upgradePath :: "step list"
  an_isUpgradable :: bool
  an_isPatchable :: bool
  an_name :: string
  an_version :: "string option"
  an_nearestFixedInVersion :: "string option"

record ignore_settings =
  adminOnly :: bool
  reasonRequired :: bool
  disregardFilesystemIgnores :: bool

record lg_path_item =
  lgi_name :: string
  lgi_version :: string
  lgi_newVersion :: "string option"
  lgi_isDropped :: bool

record lg_upgrade_path =
  lgu_path :: "lg_path_item list"

record lg_fix_info =
  lgf_upgradePaths :: "lg_upgrade_path list option"
  lgf_isPatchable :: bool
  lgf_nearestFixedInVersion :: "string option"

record lg_issue =
  lgs_pkgName :: string
  lgs_pkgVersion :: "string option"
  lgs_issueId :: string
  lgs_fixInfo :: "lg_fix_info option"

record affected_pkg =
  af_pkg :: pkg
  af_issues :: "lg_issue obj"

type_synonym affected_packages = "affected_pkg obj"

text \<open>Of the nested result for binaries only these two fields are read.\<close>

record vulns_part =
  vp_issuesData :: "lg_issue_data obj"
  vp_affectedPkgs :: affected_packages

record docker_part =
  dk_binariesVulns :: "vulns_part option"
  dk_baseImage :: json

record lg_upgrade =
  lg_upgradeTo :: string

record lg_upgrade_vulns = lg_upgrade +
  lg_vulns :: "string list"

record lg_upgrade_remediation = lg_upgrade_vulns +
  lg_upgrades :: "string list"

record lg_pin_remediation = lg_upgrade_vulns +
  lg_isTransitive :: bool

type_synonym lg_patch_object = "string obj"

record lg_patch_remediation =
  lg_paths :: "lg_patch_object list"

record lg_remediation =
  lgr_unresolved :: "lg_issue_data list"
  lgr_upgrade :: "lg_upgrade_remediation obj"
  lgr_patch :: "lg_patch_remediation obj"
  lgr_ignore :: json
  lgr_pin :: "lg_pin_remediation obj"

record depgraph_result = vulns_part +
  dr_docker :: "docker_part option"
  dr_remediation :: "lg_remediation option"

record depgraph_meta =
  mt_isPublic :: bool
  mt_isLicensesEnabled :: bool
  mt_licensesPolicy :: "json option"
  mt_projectId :: "string option"
  mt_ignoreSettings :: "ignore_settings option"
  mt_policy :: string
  mt_org :: string

record depgraph_response =
  rs_result :: depgraph_result
  rs_meta :: "depgraph_meta option"

record legacy_result =
  lr_vulnerabilities :: "annotated_issue list"
  lr_ok :: bool
  lr_dependencyCount :: int
  lr_org :: "string option"
  lr_policy :: "string option"
  lr_isPrivate :: bool
  lr_licensesPolicy :: "json option"
  lr_packageManager :: "string option"
  lr_projectId :: "string option"
  lr_ignoreSettings :: "ignore_settings option"
  lr_docker :: "docker_part option"
  lr_summary :: string
  lr_severityThreshold :: "string option"
  lr_remediation :: "lg_remediation option"

text \<open>
  What the code takes from packages: the own values of an object, the paths of a package to the
  root of the graph, from the package to the root, and the packages of the graph.
\<close>

record graph_lib =
  lib_pkgs :: "affected_packages \<Rightarrow> affected_pkg list"
  lib_issues :: "lg_issue obj \<Rightarrow> lg_issue list"
  pkgPathsToRoot :: "pkg \<Rightarrow> pkg list list"
  getPkgs :: "pkg list"

text \<open>The documented behaviour of \<open>lodash.values\<close> on objects.\<close>

definition lib_ok :: "graph_lib \<Rightarrow> bool" where
  "lib_ok lib \<longleftrightarrow> lib_pkgs lib = obj_values \<and> lib_issues lib = obj_values"

section \<open>Paths\<close>

definition toLegacyPkgId :: "pkg \<Rightarrow> string" where
  "toLegacyPkgId p = pkg_name p @ ''@'' @ js_or (pkg_version p) ''*''"

definition pkgPathToLegacyPath :: "pkg list \<Rightarrow> string list" where
  "pkgPathToLegacyPath ps = map toLegacyPkgId ps"

definition item_pkg :: "lg_path_item \<Rightarrow> pkg" where
  "item_pkg i = \<lparr>pkg_name = lgi_name i, pkg_version = Some (lgi_version i)\<rparr>"

definition legacy_step :: "lg_path_item \<Rightarrow> step" where
  "legacy_step i =
     (if \<not> truthy (lgi_newVersion i) then Keep
      else UpTo (lgi_name i @ ''@'' @ the (lgi_newVersion i)))"

definition toLegacyUpgradePath :: "lg_path_item list \<Rightarrow> step list" where
  "toLegacyUpgradePath ps = map legacy_step (filter (\<lambda>i. \<not> lgi_isDropped i) ps)"

definition getVulnPathString :: "string \<Rightarrow> string list \<Rightarrow> string" where
  "getVulnPathString i ws = i @ ''|'' @ json_array_text ws"

section \<open>Upgrade paths by vulnerable path\<close>

definition add_upgrade_path :: "lg_issue \<Rightarrow> lg_upgrade_path \<Rightarrow> step list obj \<Rightarrow> step list obj" where
  "add_upgrade_path i u m =
     obj_set (getVulnPathString (lgs_issueId i) (pkgPathToLegacyPath (map item_pkg (lgu_path u))))
       (toLegacyUpgradePath (lgu_path u)) m"

definition add_upgrade_paths :: "lg_issue \<Rightarrow> step list obj \<Rightarrow> step list obj" where
  "add_upgrade_paths i m =
     (case lgs_fixInfo i of
        None \<Rightarrow> m
      | Some fi \<Rightarrow>
          (case lgf_upgradePaths fi of None \<Rightarrow> m | Some us \<Rightarrow> fold (add_upgrade_path i) us m))"

definition upgradePathsMap :: "graph_lib \<Rightarrow> affected_packages \<Rightarrow> step list obj" where
  "upgradePathsMap lib pkgs =
     fold (\<lambda>a m. fold add_upgrade_paths (lib_issues lib (af_issues a)) m) (lib_pkgs lib pkgs) []"

section \<open>Annotated issues\<close>

definition can_step :: "step list \<Rightarrow> nat \<Rightarrow> bool" where
  "can_step us n = (case js_nth us n of Some (UpTo t) \<Rightarrow> t \<noteq> [] | _ \<Rightarrow> False)"

definition annotate ::
  "lg_issue_data obj \<Rightarrow> step list obj \<Rightarrow> affected_pkg \<Rightarrow> string list \<Rightarrow> lg_issue \<Rightarrow> string + annotated_issue" where
  "annotate datas m a from_path i =
     (let us = (case obj_get m (getVulnPathString (lgs_issueId i) from_path) of None \<Rightarrow> [] | Some us \<Rightarrow> us) in
      case lgs_fixInfo i of
        None \<Rightarrow> Inl ''Cannot read properties of undefined''
      | Some fi \<Rightarrow> Inr
          \<lparr>an_data = obj_get datas (lgs_issueId i), an_from = from_path, an_upgradePath = us,
           an_isUpgradable = (can_step us 0 \<or> can_step us 1), an_isPatchable = lgf_isPatchable fi,
           an_name = pkg_name (af_pkg a), an_version = pkg_version (af_pkg a),
           an_nearestFixedInVersion = lgf_nearestFixedInVersion fi\<rparr>)"

definition concatS :: "('e + 'a list list) \<Rightarrow> 'e + 'a list" where
  "concatS r = bindS r (\<lambda>xss. Inr (concat xss))"

definition graph_vulns :: "graph_lib \<Rightarrow> depgraph_result \<Rightarrow> string + annotated_issue list" where
  "graph_vulns lib res =
     concatS (mapS (\<lambda>a.
       concatS (mapS (\<lambda>path.
         mapS (annotate (vp_issuesData res) (upgradePathsMap lib (vp_affectedPkgs res)) a (pkgPathToLegacyPath (rev path)))
           (lib_issues lib (af_issues a)))
         (pkgPathsToRoot lib (af_pkg a))))
       (lib_pkgs lib (vp_affectedPkgs res)))"

definition annotate_binary ::
  "lg_issue_data obj \<Rightarrow> affected_pkg \<Rightarrow> lg_issue \<Rightarrow> string + annotated_issue" where
  "annotate_binary datas a i =
     (case lgs_fixInfo i of
        None \<Rightarrow> Inl ''Cannot read properties of undefined''
      | Some fi \<Rightarrow> Inr
          \<lparr>an_data = obj_get datas (lgs_issueId i),
           an_from = [''Upstream'', pkg_name (af_pkg a) @ ''@'' @ str_of_opt (pkg_version (af_pkg a))],
           an_upgradePath = [], an_isUpgradable = False, an_isPatchable = False,
           an_name = pkg_name (af_pkg a), an_version = pkg_version (af_pkg a),
           an_nearestFixedInVersion = lgf_nearestFixedInVersion fi\<rparr>)"

definition binary_vulns :: "graph_lib \<Rightarrow> docker_part option \<Rightarrow> string + annotated_issue list" where
  "binary_vulns lib dk =
     (case dk of
        None \<Rightarrow> Inr []
      | Some d \<Rightarrow>
          (case dk_binariesVulns d of
             None \<Rightarrow> Inr []
           | Some b \<Rightarrow>
               concatS (mapS (\<lambda>a. mapS (annotate_binary (vp_issuesData b) a) (lib_issues lib (af_issues a)))
                 (lib_pkgs lib (vp_affectedPkgs b)))))"

section \<open>Summary\<close>

definition SEVERITIES :: "(severity \<times> nat) list" where
  "SEVERITIES = [(LOW, 1), (MEDIUM, 2), (HIGH, 3), (CRITICAL, 4)]"

text \<open>\<open>word.slice(0, -1) + (ext[last] || last + 's')\<close> for a word with its last code unit.\<close>

definition pl :: "string \<Rightarrow> nat \<Rightarrow> string" where
  "pl word n =
     (if n > 1 then butlast word @ (if last word = CHR ''y'' then ''ies'' else [last word] @ ''s'')
      else word)"

fun index_of :: "'a \<Rightarrow> 'a list \<Rightarrow> nat option" where
  "index_of x [] = None"
| "index_of x (y # ys) = (if x = y then Some 0 else map_option Suc (index_of x ys))"

text \<open>\<open>xs.slice(xs.indexOf(x))\<close>: an absent element gives the last one.\<close>

definition slice_from :: "'a \<Rightarrow> 'a list \<Rightarrow> 'a list" where
  "slice_from x xs = (case index_of x xs of Some k \<Rightarrow> drop k xs | None \<Rightarrow> drop (length xs - 1) xs)"

definition severity_filters :: "string option \<Rightarrow> string list" where
  "severity_filters t =
     (if truthy t then slice_from (the t) (map (\<lambda>s. severity_str (fst s)) SEVERITIES) else [])"

definition getSummary :: "nat \<Rightarrow> string option \<Rightarrow> string" where
  "getSummary n t =
     (let fs = severity_filters t in
      if n = 0 then
        (if fs \<noteq> [] then ''No '' @ js_join '' or '' fs @ '' severity vulnerabilities''
         else ''No known vulnerabilities'')
      else
        str_of_nat n @ (if fs \<noteq> [] then '' '' @ js_join '' or '' fs @ '' severity'' else []) @
        '' vulnerable dependency '' @ pl ''path'' n)"

section \<open>The conversion\<close>

definition convertTestDepGraphResultToLegacy ::
  "graph_lib \<Rightarrow> depgraph_response \<Rightarrow> string option \<Rightarrow> string option \<Rightarrow> string + legacy_result" where
  "convertTestDepGraphResultToLegacy lib res pm threshold =
     (let result = rs_result res; meta = rs_meta res;
          sev = (if threshold = Some ''low'' then None else threshold) in
      bindS (graph_vulns lib result) (\<lambda>gs.
      bindS (binary_vulns lib (dr_docker result)) (\<lambda>bs.
      let vs = gs @ bs in
      Inr \<lparr>lr_vulnerabilities = vs, lr_ok = (length vs = 0),
           lr_dependencyCount = int (length (getPkgs lib)) - 1,
           lr_org = map_option mt_org meta, lr_policy = map_option mt_policy meta,
           lr_isPrivate = (case meta of None \<Rightarrow> True | Some m \<Rightarrow> \<not> mt_isPublic m),
           lr_licensesPolicy = Option.bind meta mt_licensesPolicy, lr_packageManager = pm,
           lr_projectId = Option.bind meta mt_projectId,
           lr_ignoreSettings = Option.bind meta mt_ignoreSettings,
           lr_docker = dr_docker result, lr_summary = getSummary (length vs) sev,
           lr_severityThreshold = sev, lr_remediation = dr_remediation result\<rparr>)))"

section \<open>The map of upgrade paths\<close>

text \<open>
  All upgrade paths of an answer, in the order of the loops: the issue, the path it is for, the
  path in the legacy form.
\<close>

definition issue_entries :: "lg_issue \<Rightarrow> (string \<times> string list \<times> step list) list" where
  "issue_entries i =
     map (\<lambda>u. (lgs_issueId i, pkgPathToLegacyPath (map item_pkg (lgu_path u)), toLegacyUpgradePath (lgu_path u)))
       (case Option.bind (lgs_fixInfo i) lgf_upgradePaths of None \<Rightarrow> [] | Some us \<Rightarrow> us)"

definition upgrade_entries :: "affected_packages \<Rightarrow> (string \<times> string list \<times> step list) list" where
  "upgrade_entries pkgs =
     concat (map (\<lambda>a. concat (map issue_entries (obj_values (af_issues a)))) (obj_values pkgs))"

definition entry_key :: "string \<times> string list \<times> step list \<Rightarrow> string" where
  "entry_key e = getVulnPathString (fst e) (fst (snd e))"

definition put_entry :: "string \<times> string list \<times> step list \<Rightarrow> step list obj \<Rightarrow> step list obj" where
  "put_entry e m = obj_set (entry_key e) (snd (snd e)) m"

lemma fold_concat_map: "fold f (concat (map g xs)) = fold (\<lambda>x. fold f (g x)) xs"
  by (induction xs) simp_all

lemma add_upgrade_paths_entries: "add_upgrade_paths i = fold put_entry (issue_entries i)"
proof
  fix m
  have "fold put_entry (map (\<lambda>u. (lgs_issueId i, pkgPathToLegacyPath (map item_pkg (lgu_path u)),
      toLegacyUpgradePath (lgu_path u))) us) m = fold (add_upgrade_path i) us m" for us
    by (simp add: fold_map comp_def put_entry_def [abs_def] entry_key_def add_upgrade_path_def [abs_def])
  then show "add_upgrade_paths i m = fold put_entry (issue_entries i) m"
    by (simp add: add_upgrade_paths_def issue_entries_def split: option.splits)
qed

lemma add_upgrade_paths_fold: "add_upgrade_paths = (\<lambda>i. fold put_entry (issue_entries i))"
  by (simp add: fun_eq_iff add_upgrade_paths_entries)

lemma upgradePathsMap_entries:
  assumes "lib_ok lib"
  shows "upgradePathsMap lib pkgs = fold (\<lambda>e. obj_set (entry_key e) (snd (snd e))) (upgrade_entries pkgs) []"
proof -
  have p: "put_entry = (\<lambda>e. obj_set (entry_key e) (snd (snd e)))"
    by (simp add: put_entry_def fun_eq_iff)
  show ?thesis
    using assms unfolding p [symmetric] upgrade_entries_def fold_concat_map
    by (simp add: upgradePathsMap_def lib_ok_def add_upgrade_paths_fold)
qed

lemma takeWhile_sep: "c \<notin> set u \<Longrightarrow> takeWhile (\<lambda>x. x \<noteq> c) (u @ c # r) = u"
  by (induction u) auto

text \<open>An issue identifier and a path can be read off their key.\<close>

lemma getVulnPathString_inj:
  assumes "CHR ''|'' \<notin> set i" and "CHR ''|'' \<notin> set j"
  shows "getVulnPathString i p = getVulnPathString j q \<longleftrightarrow> i = j \<and> p = q"
proof
  assume "getVulnPathString i p = getVulnPathString j q"
  then have e: "i @ CHR ''|'' # json_array_text p = j @ CHR ''|'' # json_array_text q"
    by (simp add: getVulnPathString_def)
  have "i = j"
    using arg_cong [OF e, of "takeWhile (\<lambda>c. c \<noteq> CHR ''|'')"] assms by (simp add: takeWhile_sep)
  with e json_array_text_inj show "i = j \<and> p = q" by simp
qed simp

definition plain_ids :: "affected_packages \<Rightarrow> bool" where
  "plain_ids pkgs \<longleftrightarrow> (\<forall>a\<in>set (obj_values pkgs). \<forall>i\<in>set (obj_values (af_issues a)). CHR ''|'' \<notin> set (lgs_issueId i))"

lemma plain_entries: "plain_ids pkgs \<Longrightarrow> e \<in> set (upgrade_entries pkgs) \<Longrightarrow> CHR ''|'' \<notin> set (fst e)"
  by (auto simp: plain_ids_def upgrade_entries_def issue_entries_def)

text \<open>
  Reference: the upgrade path of an issue on a path is the last one the answer gives for this
  issue and this path.
\<close>

definition upgrade_for :: "affected_packages \<Rightarrow> string \<Rightarrow> string list \<Rightarrow> step list" where
  "upgrade_for pkgs i path =
     (case filter (\<lambda>e. fst e = i \<and> fst (snd e) = path) (upgrade_entries pkgs) of
        [] \<Rightarrow> [] | es \<Rightarrow> snd (snd (last es)))"

lemma upgradePathsMap_get:
  assumes "lib_ok lib" and "plain_ids pkgs" and "CHR ''|'' \<notin> set i"
  shows "(case obj_get (upgradePathsMap lib pkgs) (getVulnPathString i path) of None \<Rightarrow> [] | Some us \<Rightarrow> us) =
    upgrade_for pkgs i path"
proof -
  have "filter (\<lambda>e. entry_key e = getVulnPathString i path) (upgrade_entries pkgs) =
      filter (\<lambda>e. fst e = i \<and> fst (snd e) = path) (upgrade_entries pkgs)"
    using plain_entries [OF assms(2)] getVulnPathString_inj [OF _ assms(3)]
    by (intro filter_cong) (auto simp: entry_key_def)
  then show ?thesis
    unfolding upgradePathsMap_entries [OF assms(1)] ob.get_fold_put_last upgrade_for_def
    by (simp split: list.splits)
qed

section \<open>The list of vulnerabilities\<close>

definition annotated ::
  "depgraph_result \<Rightarrow> affected_pkg \<Rightarrow> pkg list \<Rightarrow> lg_issue \<Rightarrow> annotated_issue" where
  "annotated res a path i =
     (let from_path = pkgPathToLegacyPath (rev path);
          us = upgrade_for (vp_affectedPkgs res) (lgs_issueId i) from_path; fi = the (lgs_fixInfo i) in
      \<lparr>an_data = obj_get (vp_issuesData res) (lgs_issueId i), an_from = from_path, an_upgradePath = us,
       an_isUpgradable = (can_step us 0 \<or> can_step us 1), an_isPatchable = lgf_isPatchable fi,
       an_name = pkg_name (af_pkg a), an_version = pkg_version (af_pkg a),
       an_nearestFixedInVersion = lgf_nearestFixedInVersion fi\<rparr>)"

definition have_fix_info :: "affected_packages \<Rightarrow> bool" where
  "have_fix_info pkgs \<longleftrightarrow>
     (\<forall>a\<in>set (obj_values pkgs). \<forall>i\<in>set (obj_values (af_issues a)). lgs_fixInfo i \<noteq> None)"

lemma mapS_Inr: "(\<And>x. x \<in> set xs \<Longrightarrow> f x = Inr (g x)) \<Longrightarrow> mapS f xs = Inr (map g xs)"
  by (induction xs) simp_all

lemma graph_vulns_run:
  assumes lib: "lib_ok lib" and ids: "plain_ids (vp_affectedPkgs res)"
    and fi: "have_fix_info (vp_affectedPkgs res)"
  shows "graph_vulns lib res = Inr (concat (map (\<lambda>a. concat (map (\<lambda>path.
    map (annotated res a path) (obj_values (af_issues a))) (pkgPathsToRoot lib (af_pkg a))))
    (obj_values (vp_affectedPkgs res))))"
proof -
  let ?m = "upgradePathsMap lib (vp_affectedPkgs res)"
  have one: "annotate (vp_issuesData res) ?m a (pkgPathToLegacyPath (rev path)) i = Inr (annotated res a path i)"
    if am: "a \<in> set (obj_values (vp_affectedPkgs res))" and im: "i \<in> set (obj_values (af_issues a))" for a path i
  proof -
    obtain f where f: "lgs_fixInfo i = Some f" using fi [unfolded have_fix_info_def, rule_format, OF am im] by (cases "lgs_fixInfo i") simp_all
    have "CHR ''|'' \<notin> set (lgs_issueId i)"
      using ids [unfolded plain_ids_def, rule_format, OF am im] .
    from upgradePathsMap_get [OF lib ids this] f show ?thesis
      by (simp only: annotate_def annotated_def Let_def option.case option.sel)
  qed
  have "mapS (\<lambda>a. concatS (mapS (\<lambda>path. mapS (annotate (vp_issuesData res) ?m a (pkgPathToLegacyPath (rev path)))
        (obj_values (af_issues a))) (pkgPathsToRoot lib (af_pkg a)))) (obj_values (vp_affectedPkgs res)) =
      Inr (map (\<lambda>a. concat (map (\<lambda>path. map (annotated res a path) (obj_values (af_issues a)))
        (pkgPathsToRoot lib (af_pkg a)))) (obj_values (vp_affectedPkgs res)))"
  proof (rule mapS_Inr)
    fix a assume a: "a \<in> set (obj_values (vp_affectedPkgs res))"
    have "mapS (\<lambda>path. mapS (annotate (vp_issuesData res) ?m a (pkgPathToLegacyPath (rev path)))
        (obj_values (af_issues a))) ps = Inr (map (\<lambda>path. map (annotated res a path) (obj_values (af_issues a))) ps)" for ps
      using one [OF a] by (intro mapS_Inr) blast
    then show "concatS (mapS (\<lambda>path. mapS (annotate (vp_issuesData res) ?m a (pkgPathToLegacyPath (rev path)))
        (obj_values (af_issues a))) (pkgPathsToRoot lib (af_pkg a))) =
      Inr (concat (map (\<lambda>path. map (annotated res a path) (obj_values (af_issues a))) (pkgPathsToRoot lib (af_pkg a))))"
      by (simp add: concatS_def)
  qed
  with lib show ?thesis by (simp add: graph_vulns_def concatS_def lib_ok_def)
qed

definition binaries_fix_info :: "docker_part option \<Rightarrow> bool" where
  "binaries_fix_info dk =
     (case Option.bind dk dk_binariesVulns of None \<Rightarrow> True | Some b \<Rightarrow> have_fix_info (vp_affectedPkgs b))"

lemma binary_vulns_run:
  assumes "lib_ok lib" and "binaries_fix_info dk"
  shows "\<exists>bs. binary_vulns lib dk = Inr bs \<and> (\<forall>v\<in>set bs. an_upgradePath v = [] \<and> \<not> an_isUpgradable v \<and> \<not> an_isPatchable v)"
proof (cases "Option.bind dk dk_binariesVulns")
  case None
  then have "binary_vulns lib dk = Inr []" by (auto simp: binary_vulns_def split: option.splits)
  then show ?thesis by simp
next
  case (Some b)
  then obtain d where d: "dk = Some d" "dk_binariesVulns d = Some b" by (cases dk) auto
  have fi: "have_fix_info (vp_affectedPkgs b)" using assms(2) Some by (simp add: binaries_fix_info_def)
  let ?g = "\<lambda>a i. \<lparr>an_data = obj_get (vp_issuesData b) (lgs_issueId i),
           an_from = [''Upstream'', pkg_name (af_pkg a) @ ''@'' @ str_of_opt (pkg_version (af_pkg a))],
           an_upgradePath = [], an_isUpgradable = False, an_isPatchable = False,
           an_name = pkg_name (af_pkg a), an_version = pkg_version (af_pkg a),
           an_nearestFixedInVersion = lgf_nearestFixedInVersion (the (lgs_fixInfo i))\<rparr>"
  have "annotate_binary (vp_issuesData b) a i = Inr (?g a i)"
    if am: "a \<in> set (obj_values (vp_affectedPkgs b))" and im: "i \<in> set (obj_values (af_issues a))" for a i
    using fi [unfolded have_fix_info_def, rule_format, OF am im]
    by (cases "lgs_fixInfo i") (simp_all add: annotate_binary_def)
  then have "mapS (\<lambda>a. mapS (annotate_binary (vp_issuesData b) a) (obj_values (af_issues a))) (obj_values (vp_affectedPkgs b)) =
      Inr (map (\<lambda>a. map (?g a) (obj_values (af_issues a))) (obj_values (vp_affectedPkgs b)))"
    by (intro mapS_Inr) blast
  with assms(1) d have "binary_vulns lib dk =
      Inr (concat (map (\<lambda>a. map (?g a) (obj_values (af_issues a))) (obj_values (vp_affectedPkgs b))))"
    by (simp add: binary_vulns_def concatS_def lib_ok_def)
  then show ?thesis by (intro exI conjI) auto
qed

section \<open>Properties\<close>


definition sample_item :: "string \<Rightarrow> string \<Rightarrow> string option \<Rightarrow> lg_path_item" where
  "sample_item n v u = \<lparr>lgi_name = n, lgi_version = v, lgi_newVersion = u, lgi_isDropped = False\<rparr>"

definition sample_issue :: lg_issue where
  "sample_issue = \<lparr>lgs_pkgName = ''b'', lgs_pkgVersion = Some ''1'', lgs_issueId = ''V-1'',
     lgs_fixInfo = Some \<lparr>lgf_upgradePaths = Some [\<lparr>lgu_path = [sample_item ''a'' ''1'' (Some ''2''), sample_item ''b'' ''1'' (Some ''3'')]\<rparr>],
       lgf_isPatchable = False, lgf_nearestFixedInVersion = None\<rparr>\<rparr>"

definition sample_response :: depgraph_response where
  "sample_response = \<lparr>rs_result = \<lparr>vp_issuesData = [],
       vp_affectedPkgs = [(''b@1'', \<lparr>af_pkg = \<lparr>pkg_name = ''b'', pkg_version = Some ''1''\<rparr>, af_issues = [(''V-1'', sample_issue)]\<rparr>)],
       dr_docker = None, dr_remediation = None\<rparr>, rs_meta = None\<rparr>"

definition sample_lib :: graph_lib where
  "sample_lib = \<lparr>lib_pkgs = obj_values, lib_issues = obj_values,
     pkgPathsToRoot = (\<lambda>p. [[p, \<lparr>pkg_name = ''a'', pkg_version = Some ''1''\<rparr>]]),
     getPkgs = [\<lparr>pkg_name = ''b'', pkg_version = Some ''1''\<rparr>, \<lparr>pkg_name = ''a'', pkg_version = Some ''1''\<rparr>]\<rparr>"


text \<open>The summary counts the paths and, for a threshold, names exactly the severities at or
  above it, from the lowest to the highest.\<close>

theorem summary_severities:
  "getSummary n (Some (severity_str s)) =
     (let named = js_join '' or '' (map severity_str (filter (\<lambda>t. s \<le> t) [LOW, MEDIUM, HIGH, CRITICAL])) in
      if n = 0 then ''No '' @ named @ '' severity vulnerabilities''
      else str_of_nat n @ '' '' @ named @ '' severity vulnerable dependency '' @ (if n = 1 then ''path'' else ''paths''))"
proof -
  have "severity_filters (Some (severity_str s)) =
      map severity_str (filter (\<lambda>t. s \<le> t) [LOW, MEDIUM, HIGH, CRITICAL])"
    by (cases s) (simp_all add: severity_filters_def slice_from_def SEVERITIES_def less_eq_severity_def)
  moreover have "filter (\<lambda>t. s \<le> t) [LOW, MEDIUM, HIGH, CRITICAL] \<noteq> []"
    by (cases s) (simp_all add: less_eq_severity_def)
  moreover have "pl ''path'' n = (if n = 1 then ''path'' else ''paths'')" if "n \<noteq> 0"
    using that by (simp add: pl_def)
  ultimately show ?thesis by (simp add: getSummary_def Let_def del: filter.simps)
qed

end
