(* ===== verification/FixEntities.thy ===== *)
theory FixEntities
  imports LegacyResults Workspace
begin

text \<open>
  \<open>src/cli/commands/fix/convert-*.ts\<close>: the entities the fix library works on are made from the
  results of a test. The functions of a workspace are those of the theory Workspace, so an
  entity only holds its root. Also \<open>src/lib/vuln-helpers.ts\<close>: what of a test result can be fixed.
\<close>

section \<open>Test results\<close>

text \<open>The fields of an annotated issue that are read, and the test result of one project.\<close>

record vuln_view =
  vv_id :: string
  vv_severity :: severity
  vv_title :: string
  vv_packageName :: string
  vv_version :: string

record project_result =
  pr_vulnerabilities :: "vuln_view list"
  pr_packageManager :: "string option"
  pr_targetFile :: "string option"
  pr_displayTargetFile :: "string option"
  pr_projectName :: "string option"
  pr_policy :: "string option"
  pr_remediation :: "remediation_changes option"

definition empty_fix_info :: fix_info where
  "empty_fix_info = \<lparr>upgradePaths = None, isPatchable = None, nearestFixedInVersion = None\<rparr>"

definition add_vulnerability ::
  "vuln_view \<Rightarrow> issues_data_entry obj \<times> issue list \<Rightarrow> issues_data_entry obj \<times> issue list" where
  "add_vulnerability v acc =
     (obj_set (vv_id v)
        \<lparr>issue_data_id = vv_id v, issue_data_severity = vv_severity v, issue_data_title = vv_title v\<rparr> (fst acc),
      snd acc @ [\<lparr>pkgName = vv_packageName v, pkgVersion = Some (vv_version v), issueId = vv_id v,
                  fixInfo = empty_fix_info\<rparr>])"

definition convertVulnerabilities :: "vuln_view list \<Rightarrow> issues_data_entry obj \<times> issue list" where
  "convertVulnerabilities vs = fold add_vulnerability vs ([], [])"

definition convertLegacyTestResultToNew :: "project_result \<Rightarrow> test_result" where
  "convertLegacyTestResultToNew r =
     (let c = convertVulnerabilities (pr_vulnerabilities r) in
      \<lparr>issues = snd c, issuesData = fst c, depGraphData = JObj [], remediation = pr_remediation r\<rparr>)"

definition no_package_manager :: fix_error where
  "no_package_manager = OtherError ''Only results with packageManagers are supported for conversion''"

text \<open>\<open>a || b\<close> on optional texts, and the empty target object.\<close>

definition or_else :: "string option \<Rightarrow> string option \<Rightarrow> string option" where
  "or_else a b = (if truthy a then a else b)"

definition convertLegacyTestResultToScanResult :: "project_result \<Rightarrow> fix_error + scan_result" where
  "convertLegacyTestResultToScanResult r =
     (if \<not> truthy (pr_packageManager r) then Inl no_package_manager
      else Inr \<lparr>identity = \<lparr>identity_type = the (pr_packageManager r),
                  targetFile = or_else (pr_targetFile r) (pr_displayTargetFile r), identity_args = None\<rparr>,
                facts = [], scan_name = pr_projectName r, policy = pr_policy r,
                scan_target = Some (GitTarget None None)\<rparr>)"

text \<open>The argument is an error or the results of a path.\<close>

definition fix_entity :: "string \<Rightarrow> test_options \<Rightarrow> project_result \<Rightarrow> fix_error + entity" where
  "fix_entity root ops r =
     bindS (convertLegacyTestResultToScanResult r) (\<lambda>s.
     Inr \<lparr>ent_workspace = \<lparr>ws_path = root\<rparr>, scanResult = s,
          testResult = convertLegacyTestResultToNew r, ent_options = ops\<rparr>)"

definition convertLegacyTestResultToFixEntities ::
  "string + project_result list \<Rightarrow> string \<Rightarrow> test_options \<Rightarrow> fix_error + entity list" where
  "convertLegacyTestResultToFixEntities results root ops =
     (case results of Inl e \<Rightarrow> Inr [] | Inr rs \<Rightarrow> mapS (fix_entity root ops) rs)"

section \<open>What can be fixed\<close>

record vuln_flags =
  vf_isUpgradable :: bool
  vf_isPinnable :: bool
  vf_isPatchable :: bool

record helper_remediation =
  hr_upgrade :: "json obj option"
  hr_pin :: "json obj option"
  hr_patch :: "json obj option"

record helper_result =
  hp_remediation :: "helper_remediation option"
  hp_vulnerabilities :: "vuln_flags list option"

definition isVulnUpgradable :: "vuln_flags \<Rightarrow> bool" where
  "isVulnUpgradable v = (vf_isUpgradable v \<or> vf_isPinnable v)"

definition isVulnPatchable :: "vuln_flags \<Rightarrow> bool" where
  "isVulnPatchable v = vf_isPatchable v"

definition isVulnFixable :: "vuln_flags \<Rightarrow> bool" where
  "isVulnFixable v = (isVulnUpgradable v \<or> isVulnPatchable v)"

definition some_keys :: "json obj option \<Rightarrow> bool" where
  "some_keys r = (case r of None \<Rightarrow> False | Some ob \<Rightarrow> obj_keys ob \<noteq> [])"

text \<open>The default of absent vulnerabilities is an object, which has no \<open>some\<close>.\<close>

definition any_vuln :: "(vuln_flags \<Rightarrow> bool) \<Rightarrow> helper_result \<Rightarrow> string + bool" where
  "any_vuln p r =
     (case hp_vulnerabilities r of
        None \<Rightarrow> Inl ''vulnerabilities.some is not a function''
      | Some vs \<Rightarrow> Inr (list_ex p vs))"

definition isUpgradable :: "helper_result \<Rightarrow> string + bool" where
  "isUpgradable r =
     (case hp_remediation r of
        Some m \<Rightarrow> Inr (some_keys (hr_upgrade m) \<or> some_keys (hr_pin m))
      | None \<Rightarrow> any_vuln isVulnUpgradable r)"

definition isPatchableResult :: "helper_result \<Rightarrow> string + bool" where
  "isPatchableResult r =
     (case hp_remediation r of
        Some m \<Rightarrow> Inr (some_keys (hr_patch m))
      | None \<Rightarrow> any_vuln isVulnPatchable r)"

definition isFixable :: "helper_result \<Rightarrow> string + bool" where
  "isFixable r = bindS (isUpgradable r) (\<lambda>u. if u then Inr True else isPatchableResult r)"

text \<open>\<open>xs.some(f)\<close> stops at the first hit.\<close>

fun someS :: "('a \<Rightarrow> 'e + bool) \<Rightarrow> 'a list \<Rightarrow> 'e + bool" where
  "someS f [] = Inr False"
| "someS f (x # xs) = bindS (f x) (\<lambda>b. if b then Inr True else someS f xs)"

definition hasFixes :: "helper_result list \<Rightarrow> string + bool" where
  "hasFixes rs = someS isFixable rs"

definition hasUpgrades :: "helper_result list \<Rightarrow> string + bool" where
  "hasUpgrades rs = someS isUpgradable rs"

definition hasPatches :: "helper_result list \<Rightarrow> string + bool" where
  "hasPatches rs = someS isPatchableResult rs"

section \<open>The issues and their data\<close>

lemma convertVulnerabilities_issues:
  "snd (fold add_vulnerability vs acc) = snd acc @ map (\<lambda>v. \<lparr>pkgName = vv_packageName v,
     pkgVersion = Some (vv_version v), issueId = vv_id v, fixInfo = empty_fix_info\<rparr>) vs"
  by (induction vs arbitrary: acc) (simp_all add: add_vulnerability_def)

definition entry_of :: "vuln_view \<Rightarrow> issues_data_entry" where
  "entry_of v = \<lparr>issue_data_id = vv_id v, issue_data_severity = vv_severity v, issue_data_title = vv_title v\<rparr>"

lemma convertVulnerabilities_data:
  "fst (fold add_vulnerability vs acc) = fold (\<lambda>v. obj_set (vv_id v) (entry_of v)) vs (fst acc)"
  by (induction vs arbitrary: acc) (simp_all add: add_vulnerability_def entry_of_def)

lemma converted_data:
  "issueId i \<in> vv_id ` set vs \<Longrightarrow>
   obj_get (fst (convertVulnerabilities vs)) (issueId i) =
     Some (entry_of (last (filter (\<lambda>v. vv_id v = issueId i) vs)))"
proof -
  assume "issueId i \<in> vv_id ` set vs"
  then have "filter (\<lambda>v. vv_id v = issueId i) vs \<noteq> []" by (auto simp: filter_empty_conv)
  then show ?thesis
    unfolding convertVulnerabilities_def convertVulnerabilities_data ob.get_fold_put_last
    by (auto split: list.splits)
qed

lemma converted_wf: "wf_obj (fst (convertVulnerabilities vs))"
  unfolding convertVulnerabilities_def convertVulnerabilities_data by (rule ob.ok_fold_put) simp

lemma fix_entity_run: "(\<exists>e. fix_entity root ops r = Inr e) \<longleftrightarrow> truthy (pr_packageManager r)"
  by (simp add: fix_entity_def convertLegacyTestResultToScanResult_def)

lemma fix_entity_issues:
  "fix_entity root ops r = Inr e \<Longrightarrow> map issueId (issues (testResult e)) = map vv_id (pr_vulnerabilities r)"
  by (auto simp: fix_entity_def bindS_Inr_iff convertLegacyTestResultToNew_def Let_def
        convertVulnerabilities_def convertVulnerabilities_issues)

lemma fix_entity_type:
  "fix_entity root ops r = Inr e \<Longrightarrow> pr_packageManager r = Some (identity_type (identity (scanResult e)))"
  by (auto simp: fix_entity_def bindS_Inr_iff convertLegacyTestResultToScanResult_def truthy_def
        split: if_splits option.splits)

lemma fix_entity_data:
  assumes "fix_entity root ops r = Inr e"
  shows "wf_obj (issuesData (testResult e))"
    and "i \<in> set (issues (testResult e)) \<Longrightarrow> obj_get (issuesData (testResult e)) (issueId i) =
      Some (entry_of (last (filter (\<lambda>v. vv_id v = issueId i) (pr_vulnerabilities r))))"
proof -
  from assms have t: "testResult e = convertLegacyTestResultToNew r"
    by (auto simp: fix_entity_def bindS_Inr_iff)
  then show "wf_obj (issuesData (testResult e))"
    by (simp add: convertLegacyTestResultToNew_def Let_def converted_wf)
  assume "i \<in> set (issues (testResult e))"
  then have "issueId i \<in> vv_id ` set (pr_vulnerabilities r)"
    using fix_entity_issues [OF assms] by (metis image_eqI set_map)
  from converted_data [OF this] t
  show "obj_get (issuesData (testResult e)) (issueId i) =
      Some (entry_of (last (filter (\<lambda>v. vv_id v = issueId i) (pr_vulnerabilities r))))"
    by (simp add: convertLegacyTestResultToNew_def Let_def)
qed

section \<open>Properties\<close>

text \<open>C17: the results of a path become one entity each, in order, when every result names its
  package manager, and nothing when one does not; an entity has one issue per vulnerability,
  in order, and the data of every issue is found under its identifier, with the severity and the
  title of the last vulnerability that has it.\<close>

theorem fix_entities:
  "((\<exists>es. convertLegacyTestResultToFixEntities (Inr rs) root ops = Inr es) \<longleftrightarrow>
      (\<forall>r\<in>set rs. truthy (pr_packageManager r))) \<and>
   (\<forall>es. convertLegacyTestResultToFixEntities (Inr rs) root ops = Inr es \<longrightarrow>
      map (\<lambda>e. map issueId (issues (testResult e))) es = map (\<lambda>r. map vv_id (pr_vulnerabilities r)) rs \<and>
      map (\<lambda>e. Some (identity_type (identity (scanResult e)))) es = map pr_packageManager rs \<and>
      (\<forall>e\<in>set es. wf_obj (issuesData (testResult e)) \<and>
         (\<forall>i\<in>set (issues (testResult e)). \<exists>r\<in>set rs. obj_get (issuesData (testResult e)) (issueId i) =
            Some (entry_of (last (filter (\<lambda>v. vv_id v = issueId i) (pr_vulnerabilities r)))))))"
proof -
  let ?conv = "\<lambda>es. list_all2 (\<lambda>r e. fix_entity root ops r = Inr e) rs es"
  have run: "convertLegacyTestResultToFixEntities (Inr rs) root ops = Inr es \<longleftrightarrow> ?conv es" for es
    by (simp add: convertLegacyTestResultToFixEntities_def mapS_list_all2)
  have "(\<exists>es. ?conv es) \<longleftrightarrow> (\<forall>r\<in>set rs. truthy (pr_packageManager r))"
  proof (induction rs)
    case (Cons r rs)
    then show ?case using fix_entity_run [of root ops r] by (auto simp: list_all2_Cons1)
  qed simp
  moreover have "map (\<lambda>e. map issueId (issues (testResult e))) es = map (\<lambda>r. map vv_id (pr_vulnerabilities r)) rs"
    and "map (\<lambda>e. Some (identity_type (identity (scanResult e)))) es = map pr_packageManager rs"
    if "?conv es" for es
    using that by (induction rule: list_all2_induct) (auto simp: fix_entity_type fix_entity_issues)
  moreover have "wf_obj (issuesData (testResult e)) \<and>
      (\<forall>i\<in>set (issues (testResult e)). \<exists>r\<in>set rs. obj_get (issuesData (testResult e)) (issueId i) =
        Some (entry_of (last (filter (\<lambda>v. vv_id v = issueId i) (pr_vulnerabilities r)))))"
    if c: "?conv es" and e: "e \<in> set es" for es e
  proof -
    from c e have "\<exists>r\<in>set rs. fix_entity root ops r = Inr e"
      by (induction rule: list_all2_induct) auto
    then obtain r where r: "r \<in> set rs" "fix_entity root ops r = Inr e" by blast
    have "\<exists>r\<in>set rs. obj_get (issuesData (testResult e)) (issueId i) =
        Some (entry_of (last (filter (\<lambda>v. vv_id v = issueId i) (pr_vulnerabilities r))))"
      if "i \<in> set (issues (testResult e))" for i
      using fix_entity_data(2) [OF r(2) that] r(1) by blast
    with fix_entity_data(1) [OF r(2)] show ?thesis by blast
  qed
  ultimately show ?thesis unfolding run by blast
qed

definition sample_view :: vuln_view where
  "sample_view = \<lparr>vv_id = ''V-1'', vv_severity = HIGH, vv_title = ''t'', vv_packageName = ''b'', vv_version = ''1''\<rparr>"

definition sample_project :: project_result where
  "sample_project = \<lparr>pr_vulnerabilities = [sample_view], pr_packageManager = Some ''pip'', pr_targetFile = None,
     pr_displayTargetFile = Some ''requirements.txt'', pr_projectName = None, pr_policy = None, pr_remediation = None\<rparr>"

theorem fix_entities_witness:
  "\<exists>es. convertLegacyTestResultToFixEntities (Inr [sample_project]) ''/p''
       \<lparr>packageManager = None, command = None, dev = None\<rparr> = Inr es \<and>
     map (\<lambda>e. map issueId (issues (testResult e))) es = [[''V-1'']]"
  using fix_entities [of "[sample_project]" "''/p''" "\<lparr>packageManager = None, command = None, dev = None\<rparr>"]
  by (auto simp: sample_project_def sample_view_def)

text \<open>A result is fixable if it is upgradable or patchable; the question fails exactly for a
  result that has neither remediation nor vulnerabilities.\<close>

theorem fixable_answers:
  "((\<exists>e. isFixable r = Inl e) \<longleftrightarrow> hp_remediation r = None \<and> hp_vulnerabilities r = None) \<and>
   (hp_remediation r = None \<and> hp_vulnerabilities r \<noteq> None \<longrightarrow>
      isFixable r = Inr (list_ex isVulnFixable (the (hp_vulnerabilities r))))"
proof -
  have "list_ex isVulnUpgradable vs \<or> list_ex isVulnPatchable vs \<longleftrightarrow> list_ex isVulnFixable vs" for vs
    by (induction vs) (auto simp: isVulnFixable_def)
  then show ?thesis
    by (auto simp: isFixable_def isUpgradable_def isPatchableResult_def any_vuln_def bindS_def split: option.splits)
qed

theorem fixable_answers_witness:
  "isFixable \<lparr>hp_remediation = None, hp_vulnerabilities = Some [\<lparr>vf_isUpgradable = False, vf_isPinnable = True, vf_isPatchable = False\<rparr>]\<rparr> =
     Inr True"
  using fixable_answers [of "\<lparr>hp_remediation = None, hp_vulnerabilities = Some [\<lparr>vf_isUpgradable = False, vf_isPinnable = True, vf_isPatchable = False\<rparr>]\<rparr>"]
  by (simp add: isVulnFixable_def isVulnUpgradable_def)

end
