(* ===== verification/MonitorOptions.thy ===== *)
theory MonitorOptions
  imports JsString Prelude
begin

text \<open>
  The options of \<open>monitor\<close> that are parsed before anything is sent
  (\<open>src/cli/commands/monitor/index.ts\<close>): project attributes and tags. An option that is not
  given is \<open>None\<close>; one that is given without a value is \<open>true\<close>.
\<close>

datatype opt_value = OptTrue | OptText string

record tag =
  tag_key :: string
  tag_value :: string

record project_attributes =
  criticality :: "string list option"
  environment :: "string list option"
  lifecycle :: "string list option"

record monitor_options =
  mo_criticality :: "opt_value option"
  mo_environment :: "opt_value option"
  mo_lifecycle :: "opt_value option"
  mo_project_tags :: "opt_value option"
  mo_tags :: "opt_value option"

datatype validation_error =
    NoValueForAttribute string
  | InvalidAttributeValues string "string list" "string list"
  | BothTagOptions
  | NoValueForTags
  | TagWithoutEquals string

definition PROJECT_CRITICALITY :: "string list" where
  "PROJECT_CRITICALITY = [''critical'', ''high'', ''medium'', ''low'']"

definition PROJECT_ENVIRONMENT :: "string list" where
  "PROJECT_ENVIRONMENT =
     [''frontend'', ''backend'', ''internal'', ''external'', ''mobile'', ''saas'', ''onprem'', ''hosted'', ''distributed'']"

definition PROJECT_LIFECYCLE :: "string list" where
  "PROJECT_LIFECYCLE = [''production'', ''development'', ''sandbox'']"

definition getProjectAttribute ::
  "string \<Rightarrow> string list \<Rightarrow> opt_value option \<Rightarrow> validation_error + string list option" where
  "getProjectAttribute attribute permitted v =
     (case v of
        None \<Rightarrow> Inr None
      | Some OptTrue \<Rightarrow> Inl (NoValueForAttribute attribute)
      | Some (OptText t) \<Rightarrow>
          (if t = [] then Inr (Some [])
           else
             (let vals = js_split (CHR '','') t; extra = filter (\<lambda>x. x \<notin> set permitted) vals in
              if length extra > 0 then Inl (InvalidAttributeValues attribute extra permitted)
              else Inr (Some vals))))"

definition generateProjectAttributes :: "monitor_options \<Rightarrow> validation_error + project_attributes" where
  "generateProjectAttributes ops =
     bindS (getProjectAttribute ''project-business-criticality'' PROJECT_CRITICALITY (mo_criticality ops)) (\<lambda>c.
     bindS (getProjectAttribute ''project-environment'' PROJECT_ENVIRONMENT (mo_environment ops)) (\<lambda>e.
     bindS (getProjectAttribute ''project-lifecycle'' PROJECT_LIFECYCLE (mo_lifecycle ops)) (\<lambda>l.
     Inr \<lparr>criticality = c, environment = e, lifecycle = l\<rparr>)))"

definition parse_tag :: "string \<Rightarrow> validation_error + tag" where
  "parse_tag t =
     (let parts = js_split (CHR ''='') t in
      if length parts \<noteq> 2 then Inl (TagWithoutEquals t)
      else Inr \<lparr>tag_key = parts ! 0, tag_value = parts ! 1\<rparr>)"

definition generateTags :: "monitor_options \<Rightarrow> validation_error + tag list option" where
  "generateTags ops =
     (if mo_project_tags ops = None \<and> mo_tags ops = None then Inr None
      else if mo_project_tags ops \<noteq> None \<and> mo_tags ops \<noteq> None then Inl BothTagOptions
      else
        (case the (if mo_tags ops = None then mo_project_tags ops else mo_tags ops) of
           OptTrue \<Rightarrow> Inl NoValueForTags
         | OptText t \<Rightarrow>
             (if t = [] then Inr (Some [])
              else bindS (mapS parse_tag (js_split (CHR '','') t)) (\<lambda>ts. Inr (Some ts)))))"

definition validateProjectAttributes :: "monitor_options \<Rightarrow> validation_error + unit" where
  "validateProjectAttributes ops = bindS (generateProjectAttributes ops) (\<lambda>_. Inr ())"

definition validateTags :: "monitor_options \<Rightarrow> validation_error + unit" where
  "validateTags ops = bindS (generateTags ops) (\<lambda>_. Inr ())"

section \<open>Round trips\<close>

definition tag_text :: "tag \<Rightarrow> string" where
  "tag_text t = tag_key t @ ''='' @ tag_value t"

definition plain_tag :: "tag \<Rightarrow> bool" where
  "plain_tag t \<longleftrightarrow> list_all (\<lambda>c. c \<noteq> CHR ''='' \<and> c \<noteq> CHR '','') (tag_key t @ tag_value t)"

lemma parse_tag_text: "plain_tag t \<Longrightarrow> parse_tag (tag_text t) = Inr t"
proof -
  assume "plain_tag t"
  then have "CHR ''='' \<notin> set (tag_key t)" "CHR ''='' \<notin> set (tag_value t)"
    by (auto simp: plain_tag_def list_all_iff)
  then have "js_split (CHR ''='') (tag_text t) = [tag_key t, tag_value t]"
    by (simp add: tag_text_def js_split_append js_split_no_sep)
  then show ?thesis by (simp add: parse_tag_def)
qed

lemma tag_text_comma: "plain_tag t \<Longrightarrow> CHR '','' \<notin> set (tag_text t)"
  by (auto simp: plain_tag_def tag_text_def list_all_iff)

lemma mapS_map_inverse: "(\<And>x. x \<in> set xs \<Longrightarrow> f (g x) = Inr x) \<Longrightarrow> mapS f (map g xs) = Inr xs"
  by (induction xs) simp_all

section \<open>Properties\<close>

text \<open>C18: tags printed as \<open>key=value\<close> and joined by commas are read back as they are, through
  either option, and an empty text clears the tags.\<close>

theorem tags_roundtrip:
  assumes "list_all plain_tag ts"
    and "mo_tags ops = Some (OptText (js_join '','' (map tag_text ts))) \<and> mo_project_tags ops = None \<or>
         mo_tags ops = None \<and> mo_project_tags ops = Some (OptText (js_join '','' (map tag_text ts)))"
  shows "generateTags ops = Inr (Some ts)"
proof (cases ts)
  case Nil
  with assms(2) show ?thesis by (auto simp: generateTags_def)
next
  case (Cons t us)
  have "js_split (CHR '','') (js_join '','' (map tag_text ts)) = map tag_text ts"
    by (rule js_split_join) (use assms(1) Cons tag_text_comma in \<open>auto simp: list_all_iff simp del: js_join.simps\<close>)
  moreover have "mapS parse_tag (map tag_text ts) = Inr ts"
    by (rule mapS_map_inverse) (use assms(1) parse_tag_text in \<open>auto simp: list_all_iff\<close>)
  moreover have "js_join '','' (map tag_text ts) \<noteq> []"
    unfolding Cons by (cases us) (simp_all add: tag_text_def)
  ultimately show ?thesis using assms(2) by (elim disjE conjE) (simp_all add: generateTags_def)
qed

theorem tags_roundtrip_witness:
  "generateTags \<lparr>mo_criticality = None, mo_environment = None, mo_lifecycle = None, mo_project_tags = None,
     mo_tags = Some (OptText (js_join '','' (map tag_text [\<lparr>tag_key = ''a'', tag_value = ''1''\<rparr>, \<lparr>tag_key = ''b'', tag_value = []\<rparr>])))\<rparr> =
   Inr (Some [\<lparr>tag_key = ''a'', tag_value = ''1''\<rparr>, \<lparr>tag_key = ''b'', tag_value = []\<rparr>])"
  by (rule tags_roundtrip) (simp_all add: plain_tag_def)

text \<open>an attribute is accepted exactly when it is absent or every part of its text between
  commas is a permitted value; what is accepted joins to the text that was given.\<close>

theorem attribute_values:
  "(\<forall>vs. getProjectAttribute a permitted v = Inr (Some vs) \<longrightarrow>
      set vs \<subseteq> set permitted \<and> v = Some (OptText (js_join '','' vs))) \<and>
   ((\<exists>r. getProjectAttribute a permitted v = Inr r) \<longleftrightarrow>
      (case v of None \<Rightarrow> True | Some OptTrue \<Rightarrow> False
       | Some (OptText t) \<Rightarrow> t = [] \<or> set (js_split (CHR '','') t) \<subseteq> set permitted))"
  by (auto simp: getProjectAttribute_def Let_def filter_empty_conv split: option.splits opt_value.splits if_splits)

theorem attribute_values_witness:
  "getProjectAttribute ''project-lifecycle'' PROJECT_LIFECYCLE (Some (OptText ''sandbox,production'')) =
     Inr (Some [''sandbox'', ''production'']) \<and>
   set [''sandbox'', ''production''] \<subseteq> set PROJECT_LIFECYCLE"
proof -
  have "getProjectAttribute ''project-lifecycle'' PROJECT_LIFECYCLE (Some (OptText ''sandbox,production'')) =
     Inr (Some [''sandbox'', ''production''])"
    by code_simp
  with attribute_values [of "''project-lifecycle''" PROJECT_LIFECYCLE "Some (OptText ''sandbox,production'')"]
  show ?thesis by blast
qed

end
