(* ===== verification/Polling.thy ===== *)
theory Polling
  imports MonitorOptions JsJson
begin

text \<open>
  \<open>src/lib/polling\<close> with what its requests are built from (\<open>is-ci.ts\<close>, \<open>api-token.ts\<close>,
  \<open>assembleQueryString\<close>): asking the server for the outcome of a test or of a monitoring until it
  is there. The server is a parameter: its answer to the \<open>n\<close>-th request. Waiting is recorded.
  The loops have fuel; without an answer no fuel is enough.
\<close>

section \<open>Configuration\<close>

record poll_env =
  pe_api :: string
  pe_org :: "string option"
  pe_project_name :: "string option"
  pe_env_keys :: "string list"
  pe_oauth_token :: "string option"
  pe_docker_token :: "string option"
  pe_config_api :: "string option"
  pe_config_token :: "string option"
  pe_user_api :: "string option"

definition ciEnvs :: "string list" where
  "ciEnvs = [''VULNMAP_CI'', ''CI'', ''CONTINUOUS_INTEGRATION'', ''BUILD_ID'', ''BUILD_NUMBER'',
     ''TEAMCITY_VERSION'', ''TRAVIS'', ''CIRCLECI'', ''JENKINS_URL'', ''HUDSON_URL'', ''bamboo.buildKey'',
     ''PHPCI'', ''GOCD_SERVER_HOST'', ''BUILDKITE'', ''TF_BUILD'', ''SYSTEM_TEAMFOUNDATIONSERVERURI'']"

definition isCI :: "poll_env \<Rightarrow> bool" where
  "isCI en = (\<exists>k\<in>set (pe_env_keys en). k \<in> set ciEnvs)"

definition or_opt :: "string option \<Rightarrow> string option \<Rightarrow> string option" where
  "or_opt a b = (if truthy a then a else b)"

definition api :: "poll_env \<Rightarrow> string option" where
  "api en = or_opt (pe_config_api en) (or_opt (pe_config_token en) (pe_user_api en))"

definition getOAuthToken :: "poll_env \<Rightarrow> string option" where
  "getOAuthToken en = pe_oauth_token en"

definition getDockerToken :: "poll_env \<Rightarrow> string option" where
  "getDockerToken en = pe_docker_token en"

text \<open>What a failed request is rejected with: the status and the message, as far as there are any.\<close>

type_synonym failed_reply = "int option \<times> string option"

datatype poll_error =
    MissingApiTokenError
  | FailedToRunTestError string
  | PollError string
  | InvalidOptions validation_error
  | RequestError failed_reply

definition apiTokenExists :: "poll_env \<Rightarrow> poll_error + string" where
  "apiTokenExists en = (if \<not> truthy (api en) then Inl MissingApiTokenError else Inr (the (api en)))"

definition apiOrOAuthTokenExists :: "poll_env \<Rightarrow> poll_error + string" where
  "apiOrOAuthTokenExists en =
     (if truthy (getOAuthToken en) then Inr (the (getOAuthToken en)) else apiTokenExists en)"

definition getAuthHeader :: "poll_env \<Rightarrow> string" where
  "getAuthHeader en =
     (if truthy (getOAuthToken en) then ''Bearer '' @ the (getOAuthToken en)
      else if truthy (getDockerToken en) then ''Bearer '' @ the (getDockerToken en)
      else ''token '' @ str_of_opt (api en))"

definition someTokenExists :: "poll_env \<Rightarrow> bool" where
  "someTokenExists en =
     (truthy (getOAuthToken en) \<or> truthy (getDockerToken en) \<or> truthy (api en))"

section \<open>Requests\<close>

record poll_options =
  po_org :: "string option"
  po_severityThreshold :: "string option"
  po_ignore_policy :: bool
  po_project_name :: "string option"
  po_monitor :: monitor_options

text \<open>The query; the organisation is \<open>null\<close> when there is none, so the query is never empty.\<close>

record query =
  q_org :: "string option"
  q_severityThreshold :: "string option"
  q_ignorePolicy :: bool
  q_type :: "string option"

definition assembleQueryString :: "poll_env \<Rightarrow> poll_options \<Rightarrow> query" where
  "assembleQueryString en ops =
     \<lparr>q_org = (if truthy (po_org ops) then po_org ops else if truthy (pe_org en) then pe_org en else None),
      q_severityThreshold = (if truthy (po_severityThreshold ops) then po_severityThreshold ops else None),
      q_ignorePolicy = po_ignore_policy ops, q_type = None\<rparr>"

record resolution_meta =
  rm_name :: "string option"
  rm_target :: json
  rm_identity :: json
  rm_policy :: "string option"
  rm_targetReference :: "string option"

record scan_result_view = resolution_meta +
  sv_facts :: json

definition extractResolutionMetaFromScanResult :: "scan_result_view \<Rightarrow> resolution_meta" where
  "extractResolutionMetaFromScanResult s =
     \<lparr>rm_name = rm_name s, rm_target = rm_target s, rm_identity = rm_identity s,
      rm_policy = rm_policy s, rm_targetReference = rm_targetReference s\<rparr>"

text \<open>The two bodies for monitoring also hold the constant method \<open>cli\<close>.\<close>

datatype poll_body =
    NoBody
  | TestBody bool json
  | StartMonitorBody bool json
  | MonitorBody bool "resolution_meta option" "json list" "tag list option" project_attributes "string option"

record poll_request =
  pq_method :: string
  pq_url :: string
  pq_isCI :: bool
  pq_authorization :: string
  pq_query :: query
  pq_body :: poll_body

record poll_world =
  sent :: "poll_request list"
  slept :: "nat list"

type_synonym 'a qio = "(poll_error, poll_world, 'a) eff"

text \<open>\<open>makeRequest\<close>: the answer of the server to the request, which is the next one it gets.\<close>

definition makeRequest :: "(nat \<Rightarrow> poll_request \<Rightarrow> failed_reply + 'r) \<Rightarrow> poll_request \<Rightarrow> 'r qio" where
  "makeRequest server q = (\<lambda>w.
     (case server (length (sent w)) q of Inl e \<Rightarrow> Inl (RequestError e) | Inr r \<Rightarrow> Inr r,
      w\<lparr>sent := sent w @ [q]\<rparr>))"

definition sleep :: "nat \<Rightarrow> unit qio" where
  "sleep ms = (\<lambda>w. (Inr (), w\<lparr>slept := slept w @ [ms]\<rparr>))"

section \<open>Steps of the loops\<close>

text \<open>\<open>None\<close> as the largest number of attempts is \<open>Infinity\<close>.\<close>

definition checkPollingAttempts :: "nat option \<Rightarrow> nat \<Rightarrow> poll_error + unit" where
  "checkPollingAttempts maxAttempts attempts =
     (case maxAttempts of
        None \<Rightarrow> Inr ()
      | Some m \<Rightarrow> if attempts > m then Inl (PollError ''Exceeded Polling maxAttempts'') else Inr ())"

definition delayNextStep :: "nat \<Rightarrow> nat option \<Rightarrow> nat \<Rightarrow> unit qio" where
  "delayNextStep attempts maxAttempts pollInterval =
     bindE (lift (checkPollingAttempts maxAttempts (attempts + 1))) (\<lambda>_. sleep pollInterval)"

definition failed_message :: string where
  "failed_message = ''Failed to process the project. Please run the command again with the `-d` flag and contact support@khulnasoft.khulnasoft.com with the contents of the output''"

definition handleProcessingStatus :: "string option \<Rightarrow> poll_error + unit" where
  "handleProcessingStatus status =
     (if status = Some ''CANCELLED'' \<or> status = Some ''ERROR'' then Inl (FailedToRunTestError failed_message)
      else Inr ())"

section \<open>Tests\<close>

record test_dependencies_result =
  td_issues :: json
  td_issuesData :: json
  td_depGraphData :: json
  td_depsFilePaths :: json
  td_fileSignaturesDetails :: json
  td_vulnerabilities :: json
  td_path :: json
  td_dependencyCount :: json
  td_packageManager :: json
  td_docker :: json
  td_remediation :: json

record test_reply =
  ty_token :: string
  ty_status :: "string option"
  ty_result :: "test_dependencies_result option"

text \<open>The fields that are copied; the two others are not.\<close>

definition pick_result :: "test_dependencies_result \<Rightarrow> test_dependencies_result" where
  "pick_result r = r\<lparr>td_docker := JUndef, td_remediation := JUndef\<rparr>"

definition requestTestPollingToken ::
  "poll_env \<Rightarrow> (nat \<Rightarrow> poll_request \<Rightarrow> failed_reply + test_reply) \<Rightarrow> poll_options \<Rightarrow> bool \<Rightarrow> json \<Rightarrow> test_reply qio" where
  "requestTestPollingToken en server ops isAsync scan =
     makeRequest server
       \<lparr>pq_method = ''POST'', pq_url = pe_api en @ ''/test-dependencies'', pq_isCI = isCI en,
        pq_authorization = getAuthHeader en, pq_query = assembleQueryString en ops,
        pq_body = TestBody isAsync scan\<rparr>"

definition test_poll_request :: "poll_env \<Rightarrow> string \<Rightarrow> string \<Rightarrow> poll_options \<Rightarrow> poll_request" where
  "test_poll_request en token ty ops =
     \<lparr>pq_method = ''GET'', pq_url = pe_api en @ ''/test-dependencies/'' @ token, pq_isCI = isCI en,
      pq_authorization = getAuthHeader en, pq_query = (assembleQueryString en ops)\<lparr>q_type := Some ty\<rparr>,
      pq_body = NoBody\<rparr>"

fun pollingTestWithTokenUntilDone ::
  "nat \<Rightarrow> poll_env \<Rightarrow> (nat \<Rightarrow> poll_request \<Rightarrow> failed_reply + test_reply) \<Rightarrow> string \<Rightarrow> string \<Rightarrow> poll_options \<Rightarrow>
   nat \<Rightarrow> nat \<Rightarrow> nat option \<Rightarrow> (poll_error, poll_world, test_dependencies_result) peff" where
  "pollingTestWithTokenUntilDone 0 en server token ty ops pollInterval attempts maxAttempts = (\<lambda>w. None)"
| "pollingTestWithTokenUntilDone (Suc n) en server token ty ops pollInterval attempts maxAttempts =
     bindP (liftP (makeRequest server (test_poll_request en token ty ops))) (\<lambda>response.
     bindP (liftP (lift (handleProcessingStatus (ty_status response)))) (\<lambda>_.
     (case ty_result response of
        Some r \<Rightarrow> liftP (ret (pick_result r))
      | None \<Rightarrow>
          bindP (liftP (delayNextStep attempts maxAttempts pollInterval)) (\<lambda>_.
          pollingTestWithTokenUntilDone n en server token ty ops pollInterval attempts maxAttempts))))"

section \<open>Monitoring\<close>

record monitor_reply =
  my_token :: string
  my_status :: "string option"
  my_ok :: bool
  my_isMonitored :: bool
  my_rest :: json
  my_pollingTask :: "(nat option \<times> nat) option"

text \<open>A target whose remote URL is empty gets the name of the scan as its remote URL.\<close>

definition fill_remote_url :: "scan_result_view \<Rightarrow> scan_result_view" where
  "fill_remote_url s =
     (case rm_target s of
        JObj ps \<Rightarrow>
          if map_of ps ''remoteUrl'' = Some (JStr [])
          then s\<lparr>rm_target := JObj (obj_set ''remoteUrl'' (case rm_name s of None \<Rightarrow> JUndef | Some n \<Rightarrow> JStr n) ps)\<rparr>
          else s
      | _ \<Rightarrow> s)"

definition scan_json :: "scan_result_view \<Rightarrow> json" where
  "scan_json s =
     JObj [(''name'', case rm_name s of None \<Rightarrow> JUndef | Some n \<Rightarrow> JStr n), (''target'', rm_target s),
       (''identity'', rm_identity s), (''policy'', case rm_policy s of None \<Rightarrow> JUndef | Some p \<Rightarrow> JStr p),
       (''targetReference'', case rm_targetReference s of None \<Rightarrow> JUndef | Some p \<Rightarrow> JStr p), (''facts'', sv_facts s)]"

definition requestMonitorPollingToken ::
  "poll_env \<Rightarrow> (nat \<Rightarrow> poll_request \<Rightarrow> failed_reply + monitor_reply) \<Rightarrow> poll_options \<Rightarrow> bool \<Rightarrow> scan_result_view \<Rightarrow>
   monitor_reply qio" where
  "requestMonitorPollingToken en server ops isAsync scan =
     makeRequest server
       \<lparr>pq_method = ''PUT'', pq_url = pe_api en @ ''/monitor-dependencies'', pq_isCI = isCI en,
        pq_authorization = getAuthHeader en, pq_query = assembleQueryString en ops,
        pq_body = StartMonitorBody isAsync (scan_json (fill_remote_url scan))\<rparr>"

definition monitor_poll_request ::
  "poll_env \<Rightarrow> string \<Rightarrow> bool \<Rightarrow> poll_options \<Rightarrow> resolution_meta option \<Rightarrow> json list \<Rightarrow> poll_error + poll_request" where
  "monitor_poll_request en token isAsync ops meta contributors =
     (let name = or_opt (Option.bind meta rm_name) (or_opt (po_project_name ops) (pe_project_name en)) in
      case generateTags (po_monitor ops) of
        Inl e \<Rightarrow> Inl (InvalidOptions e)
      | Inr tags \<Rightarrow>
          (case generateProjectAttributes (po_monitor ops) of
             Inl e \<Rightarrow> Inl (InvalidOptions e)
           | Inr attributes \<Rightarrow> Inr
               \<lparr>pq_method = ''PUT'', pq_url = pe_api en @ ''/monitor-dependencies/'' @ token, pq_isCI = isCI en,
                pq_authorization = getAuthHeader en, pq_query = assembleQueryString en ops,
                pq_body = MonitorBody isAsync meta contributors tags attributes name\<rparr>))"

fun pollingMonitorWithTokenUntilDone ::
  "nat \<Rightarrow> poll_env \<Rightarrow> (nat \<Rightarrow> poll_request \<Rightarrow> failed_reply + monitor_reply) \<Rightarrow> string \<Rightarrow> bool \<Rightarrow> poll_options \<Rightarrow>
   nat \<Rightarrow> nat \<Rightarrow> nat option \<Rightarrow> resolution_meta option \<Rightarrow> json list \<Rightarrow>
   (poll_error, poll_world, monitor_reply) peff" where
  "pollingMonitorWithTokenUntilDone 0 en server token isAsync ops pollInterval attempts maxAttempts meta cs = (\<lambda>w. None)"
| "pollingMonitorWithTokenUntilDone (Suc n) en server token isAsync ops pollInterval attempts maxAttempts meta cs =
     bindP (liftP (bindE (lift (monitor_poll_request en token isAsync ops meta cs)) (makeRequest server))) (\<lambda>response.
     bindP (liftP (lift (handleProcessingStatus (my_status response)))) (\<lambda>_.
     (if my_ok response \<and> my_isMonitored response then liftP (ret response)
      else
        bindP (liftP (delayNextStep attempts maxAttempts pollInterval)) (\<lambda>_.
        pollingMonitorWithTokenUntilDone n en server token isAsync ops pollInterval attempts maxAttempts meta cs))))"

section \<open>The shape of a polling loop\<close>

text \<open>
  What both loops are: ask, look at the answer, return it, wait or fail. The lemmas hold for
  any such loop.
\<close>

locale polling_loop =
  fixes poll :: "nat \<Rightarrow> ('e, 's, 'a) peff"
    and ask :: "('e, 's, 'r) eff"
    and check :: "'r \<Rightarrow> 'e + unit"
    and outcome :: "'r \<Rightarrow> 'a option"
    and pause :: "('e, 's, unit) eff"
  assumes poll_0: "poll 0 = (\<lambda>s. None)"
    and poll_Suc: "poll (Suc n) = bindP (liftP ask) (\<lambda>r. bindP (liftP (lift (check r))) (\<lambda>_.
        (case outcome r of Some x \<Rightarrow> liftP (ret x) | None \<Rightarrow> bindP (liftP pause) (\<lambda>_. poll n))))"
begin

definition pending :: "'s \<Rightarrow> 's \<Rightarrow> bool" where
  "pending s s' \<longleftrightarrow> (\<exists>r u. ask s = (Inr r, u) \<and> check r = Inr () \<and> outcome r = None \<and> pause u = (Inr (), s'))"

lemma pendingI:
  "ask s = (Inr r, u) \<Longrightarrow> check r = Inr () \<Longrightarrow> outcome r = None \<Longrightarrow> pause u = (Inr (), s') \<Longrightarrow> pending s s'"
  by (auto simp: pending_def)

lemma poll_pending: "pending s s' \<Longrightarrow> poll (Suc n) s = poll n s'"
  by (auto simp: pending_def poll_Suc bindP_def)

lemma poll_done: "ask s = (Inr r, u) \<Longrightarrow> check r = Inr () \<Longrightarrow> outcome r = Some x \<Longrightarrow> poll (Suc n) s = Some (Inr x, u)"
  by (simp add: poll_Suc bindP_def)

lemma poll_failed: "ask s = (Inr r, u) \<Longrightarrow> check r = Inl e \<Longrightarrow> poll (Suc n) s = Some (Inl e, u)"
  by (simp add: poll_Suc bindP_def)

text \<open>A run of states, each pending to the next, uses up one unit of fuel per state.\<close>

lemma poll_run:
  "(\<And>i. i < k \<Longrightarrow> pending (f i) (f (Suc i))) \<Longrightarrow> poll (k + n) (f 0) = poll n (f k)"
proof (induction k arbitrary: n)
  case 0
  then show ?case by simp
next
  case (Suc k)
  have "poll (k + Suc n) (f 0) = poll (Suc n) (f k)" by (rule Suc.IH) (use Suc.prems in simp)
  also have "\<dots> = poll n (f (Suc k))" by (rule poll_pending) (use Suc.prems in simp)
  finally show ?case by simp
qed

lemma poll_forever: "(\<And>i. pending (f i) (f (Suc i))) \<Longrightarrow> poll n (f 0) = None"
  using poll_run [of n f 0] poll_0 by simp

end

lemma case_if_Some: "(case if c then Some r else None of None \<Rightarrow> b | Some x \<Rightarrow> f x) = (if c then f r else b)"
  by simp

interpretation test_poll: polling_loop
  "\<lambda>n. pollingTestWithTokenUntilDone n en server token ty ops pollInterval attempts maxAttempts"
  "makeRequest server (test_poll_request en token ty ops)"
  "\<lambda>r. handleProcessingStatus (ty_status r)"
  "\<lambda>r. map_option pick_result (ty_result r)"
  "delayNextStep attempts maxAttempts pollInterval"
  for en server token ty ops pollInterval attempts maxAttempts
  by unfold_locales (simp_all add: fun_eq_iff bindP_def split: option.splits prod.splits sum.splits)

interpretation monitor_poll: polling_loop
  "\<lambda>n. pollingMonitorWithTokenUntilDone n en server token isAsync ops pollInterval attempts maxAttempts meta cs"
  "bindE (lift (monitor_poll_request en token isAsync ops meta cs)) (makeRequest server)"
  "\<lambda>r. handleProcessingStatus (my_status r)"
  "\<lambda>r. if my_ok r \<and> my_isMonitored r then Some r else None"
  "delayNextStep attempts maxAttempts pollInterval"
  for en server token isAsync ops pollInterval attempts maxAttempts meta cs
  by unfold_locales (simp_all only: pollingMonitorWithTokenUntilDone.simps case_if_Some)

section \<open>States of a waiting poll\<close>

definition asked :: "poll_request \<Rightarrow> nat \<Rightarrow> nat \<Rightarrow> poll_world" where
  "asked q ms k = \<lparr>sent = replicate k q, slept = replicate k ms\<rparr>"

definition within :: "nat \<Rightarrow> nat option \<Rightarrow> bool" where
  "within attempts maxAttempts = (case maxAttempts of None \<Rightarrow> True | Some m \<Rightarrow> attempts < m)"

lemma delay_within:
  "within attempts maxAttempts \<Longrightarrow>
   delayNextStep attempts maxAttempts ms w = (Inr (), w\<lparr>slept := slept w @ [ms]\<rparr>)"
  by (auto simp: delayNextStep_def within_def checkPollingAttempts_def bindE_apply sleep_def split: option.splits)

lemma makeRequest_asked:
  "makeRequest server q (asked q ms k) =
     (case server k q of Inl e \<Rightarrow> Inl (RequestError e) | Inr r \<Rightarrow> Inr r,
      \<lparr>sent = replicate (Suc k) q, slept = replicate k ms\<rparr>)"
  by (simp add: makeRequest_def asked_def replicate_append_same)

definition test_waiting :: "test_reply \<Rightarrow> bool" where
  "test_waiting r \<longleftrightarrow> ty_result r = None \<and> handleProcessingStatus (ty_status r) = Inr ()"

definition monitor_waiting :: "monitor_reply \<Rightarrow> bool" where
  "monitor_waiting r \<longleftrightarrow> \<not> (my_ok r \<and> my_isMonitored r) \<and> handleProcessingStatus (my_status r) = Inr ()"

lemma test_pending:
  assumes "server k (test_poll_request en token ty ops) = Inr r" and "test_waiting r" and "within attempts maxAttempts"
  shows "test_poll.pending server en token ty ops attempts maxAttempts ms
    (asked (test_poll_request en token ty ops) ms k) (asked (test_poll_request en token ty ops) ms (Suc k))"
proof (rule test_poll.pendingI)
  let ?q = "test_poll_request en token ty ops"
  show "makeRequest server ?q (asked ?q ms k) = (Inr r, \<lparr>sent = replicate (Suc k) ?q, slept = replicate k ms\<rparr>)"
    using assms(1) by (simp only: makeRequest_asked sum.case)
  show "handleProcessingStatus (ty_status r) = Inr ()" "map_option pick_result (ty_result r) = None"
    using assms(2) by (simp_all add: test_waiting_def)
  show "delayNextStep attempts maxAttempts ms \<lparr>sent = replicate (Suc k) ?q, slept = replicate k ms\<rparr> =
      (Inr (), asked ?q ms (Suc k))"
    using assms(3) by (simp add: delay_within asked_def replicate_append_same)
qed

lemma monitor_pending:
  assumes "monitor_poll_request en token isAsync ops meta cs = Inr q"
    and "server k q = Inr r" and "monitor_waiting r" and "within attempts maxAttempts"
  shows "monitor_poll.pending en token isAsync ops meta cs server attempts maxAttempts ms (asked q ms k) (asked q ms (Suc k))"
proof (rule monitor_poll.pendingI)
  show "bindE (lift (monitor_poll_request en token isAsync ops meta cs)) (makeRequest server) (asked q ms k) =
      (Inr r, \<lparr>sent = replicate (Suc k) q, slept = replicate k ms\<rparr>)"
    using assms(1,2) by (simp only: makeRequest_asked sum.case lift_Inr bindE_ret)
  show "handleProcessingStatus (my_status r) = Inr ()" "(if my_ok r \<and> my_isMonitored r then Some r else None) = None"
    using assms(3) by (simp_all add: monitor_waiting_def)
  show "delayNextStep attempts maxAttempts ms \<lparr>sent = replicate (Suc k) q, slept = replicate k ms\<rparr> =
      (Inr (), asked q ms (Suc k))"
    using assms(4) by (simp add: delay_within asked_def replicate_append_same)
qed

section \<open>Properties\<close>

text \<open>C16: however small the largest number of attempts, as long as it admits a first one, a test
  whose outcome is there at the \<open>k\<close>-th answer is polled \<open>k + 1\<close> times and its outcome returned;
  the limit does not count the attempts of the loop.\<close>

theorem polling_returns:
  assumes "\<forall>i<k. \<exists>r. server i (test_poll_request en token ty ops) = Inr r \<and> test_waiting r"
    and "server k (test_poll_request en token ty ops) = Inr r" and "ty_result r = Some x"
    and "handleProcessingStatus (ty_status r) = Inr ()" and "within attempts maxAttempts"
  shows "\<exists>w. pollingTestWithTokenUntilDone (k + 1) en server token ty ops ms attempts maxAttempts
      \<lparr>sent = [], slept = []\<rparr> = Some (Inr (pick_result x), w) \<and> length (sent w) = k + 1 \<and> length (slept w) = k"
proof -
  let ?q = "test_poll_request en token ty ops"
  have "test_poll.pending server en token ty ops attempts maxAttempts ms (asked ?q ms i) (asked ?q ms (Suc i))"
    if "i < k" for i
    using assms(1,5) that test_pending by blast
  from test_poll.poll_run [of k _ _ _ _ _ _ _ _ "asked ?q ms", OF this]
  have "pollingTestWithTokenUntilDone (k + 1) en server token ty ops ms attempts maxAttempts (asked ?q ms 0) =
      pollingTestWithTokenUntilDone 1 en server token ty ops ms attempts maxAttempts (asked ?q ms k)" .
  also have "\<dots> = Some (Inr (pick_result x), \<lparr>sent = replicate (Suc k) ?q, slept = replicate k ms\<rparr>)"
    unfolding One_nat_def
    by (rule test_poll.poll_done [where r = r]) (use assms in \<open>simp_all add: makeRequest_asked\<close>)
  finally show ?thesis by (simp add: asked_def)
qed

text \<open>while the server keeps the monitoring pending the poll never returns, with any largest
  number of attempts that admits a first one.\<close>

theorem monitor_polls_forever:
  assumes "monitor_poll_request en token isAsync ops meta cs = Inr q"
    and "\<forall>i. \<exists>r. server i q = Inr r \<and> monitor_waiting r" and "within attempts maxAttempts"
  shows "pollingMonitorWithTokenUntilDone n en server token isAsync ops ms attempts maxAttempts meta cs
      \<lparr>sent = [], slept = []\<rparr> = None"
proof -
  have "monitor_poll.pending en token isAsync ops meta cs server attempts maxAttempts ms (asked q ms i) (asked q ms (Suc i))" for i
    using assms monitor_pending by blast
  from monitor_poll.poll_forever [of _ _ _ _ _ _ _ _ _ _ "asked q ms", OF this] show ?thesis
    by (simp add: asked_def)
qed

definition sample_poll_env :: poll_env where
  "sample_poll_env = \<lparr>pe_api = ''https://api'', pe_org = None, pe_project_name = None, pe_env_keys = [],
     pe_oauth_token = None, pe_docker_token = None, pe_config_api = Some ''t'', pe_config_token = None, pe_user_api = None\<rparr>"

definition sample_poll_options :: poll_options where
  "sample_poll_options = \<lparr>po_org = None, po_severityThreshold = None, po_ignore_policy = False, po_project_name = None,
     po_monitor = \<lparr>mo_criticality = None, mo_environment = None, mo_lifecycle = None, mo_project_tags = None, mo_tags = None\<rparr>\<rparr>"

definition sample_outcome :: test_dependencies_result where
  "sample_outcome = \<lparr>td_issues = JArr [], td_issuesData = JObj [], td_depGraphData = JUndef, td_depsFilePaths = JUndef,
     td_fileSignaturesDetails = JUndef, td_vulnerabilities = JArr [], td_path = JStr ''p'', td_dependencyCount = JNum 1,
     td_packageManager = JUndef, td_docker = JUndef, td_remediation = JUndef\<rparr>"

definition slow_server :: "nat \<Rightarrow> poll_request \<Rightarrow> failed_reply + test_reply" where
  "slow_server i q = Inr \<lparr>ty_token = ''t'', ty_status = Some ''PENDING'',
     ty_result = (if i < 3 then None else Some sample_outcome)\<rparr>"

definition stuck_server :: "nat \<Rightarrow> poll_request \<Rightarrow> failed_reply + monitor_reply" where
  "stuck_server i q = Inr \<lparr>my_token = ''t'', my_status = Some ''PENDING'', my_ok = True, my_isMonitored = False, my_rest = JUndef,
     my_pollingTask = None\<rparr>"

theorem polling_returns_witness:
  "\<exists>w. pollingTestWithTokenUntilDone (3 + 1) sample_poll_env slow_server ''t'' ''npm'' sample_poll_options 500 0 (Some 1)
      \<lparr>sent = [], slept = []\<rparr> = Some (Inr (pick_result sample_outcome), w) \<and> length (sent w) = 3 + 1 \<and> length (slept w) = 3"
  by (rule polling_returns [where r = "\<lparr>ty_token = ''t'', ty_status = Some ''PENDING'', ty_result = Some sample_outcome\<rparr>"])
     (simp_all add: slow_server_def test_waiting_def handleProcessingStatus_def within_def)

theorem monitor_polls_forever_witness:
  "pollingMonitorWithTokenUntilDone 100 sample_poll_env stuck_server ''t'' True sample_poll_options 500 0 (Some 1) None []
      \<lparr>sent = [], slept = []\<rparr> = None"
proof -
  obtain q where q: "monitor_poll_request sample_poll_env ''t'' True sample_poll_options None [] = Inr q"
    by (simp add: monitor_poll_request_def sample_poll_options_def generateTags_def generateProjectAttributes_def
          getProjectAttribute_def Let_def)
  show ?thesis
    by (rule monitor_polls_forever [OF q])
       (simp_all add: stuck_server_def monitor_waiting_def handleProcessingStatus_def within_def)
qed

end
