(* ===== verification/UnmanagedTest.thy ===== *)
theory UnmanagedTest
  imports JsJson JsRegExp
begin

text \<open>
  Testing C and C++ folders without a package manager: \<open>src/lib/ecosystems/resolve-test-facts.ts\<close>
  with the requests of \<open>src/lib/polling/polling-test.ts\<close> and \<open>src/lib/request/promise.ts\<close>,
  the conversions and the organisation lookup of \<open>src/lib/ecosystems/unmanaged/utils.ts\<close>, the
  policy of a folder (\<open>src/lib/policy\<close>) and the filter of ignored issues
  (\<open>src/lib/ecosystems/policy.ts\<close>).

  Parameters: the server (its answer to the n-th request: an error of the connection, or a status
  and a parsed body; a body that is no JSON throws in a callback outside of any promise and is
  not modelled), the package that loads policies, and \<open>lodash.camelcase\<close>. The requests, the
  waiting times and the recorded analytics are the state. The text of the spinner is left out.
\<close>

section \<open>Errors, requests, state\<close>

text \<open>What is thrown: the property \<open>code\<close> (a status, the name of a system error, or none) and \<open>message\<close>.\<close>

datatype err_code = NoCode | NumCode int | StrCode string

record um_error =
  ue_code :: err_code
  ue_message :: "string option"

definition um_err :: "string \<Rightarrow> um_error" where
  "um_err t = \<lparr>ue_code = NoCode, ue_message = Some t\<rparr>"

text \<open>The range of codes that is reported with the message of the error.\<close>

definition hasStatusCodeError :: "um_error \<Rightarrow> bool" where
  "hasStatusCodeError e = (case ue_code e of NumCode c \<Rightarrow> 400 \<le> c \<and> c \<le> 500 | _ \<Rightarrow> False)"

record um_request =
  ur_method :: string
  ur_url :: string
  ur_body :: json

record um_world =
  um_sent :: "um_request list"
  um_waits :: "nat list"
  um_analytics :: "(string \<times> json) list"

type_synonym 'a uio = "(um_error, um_world, 'a) eff"

text \<open>
  A rule of a policy maps paths to what is known of the rule: the time value of its expiry date,
  none when there is no valid date.
\<close>

record ignore_info =
  ig_expires :: "int option"

type_synonym ignore_rule = "ignore_info obj"

record policy_object =
  po_ignore :: "ignore_rule list obj option"

record um_env =
  ux_hidden_url :: string
  ux_rest_url :: string
  ux_api :: string
  ux_camelCase :: "string \<Rightarrow> string"
  ux_server :: "nat \<Rightarrow> um_request \<Rightarrow> um_error + nat \<times> json"
  ux_load_policy :: "string list \<Rightarrow> um_error + policy_object"
  ux_now :: int

definition add_analytics :: "string \<Rightarrow> json \<Rightarrow> unit uio" where
  "add_analytics k v = (\<lambda>w. (Inr (), w\<lparr>um_analytics := um_analytics w @ [(k, v)]\<rparr>))"

definition um_sleep :: "nat \<Rightarrow> unit uio" where
  "um_sleep ms = (\<lambda>w. (Inr (), w\<lparr>um_waits := um_waits w @ [ms]\<rparr>))"

definition send_request :: "um_env \<Rightarrow> um_request \<Rightarrow> (nat \<times> json) uio" where
  "send_request en q = (\<lambda>w.
     (ux_server en (length (um_sent w)) q, w\<lparr>um_sent := um_sent w @ [q]\<rparr>))"

definition field :: "json \<Rightarrow> string \<Rightarrow> um_error + json" where
  "field v k = (case json_prop v k of Inl t \<Rightarrow> Inl (um_err t) | Inr x \<Rightarrow> Inr x)"

definition json_path :: "json \<Rightarrow> string list \<Rightarrow> um_error + json" where
  "json_path v ks = foldS (\<lambda>k v. field v k) ks v"

definition makeRequestRest :: "um_env \<Rightarrow> um_request \<Rightarrow> json uio" where
  "makeRequestRest en q =
     bindE (send_request en q) (\<lambda>(status, body).
       if status = 400 then throw \<lparr>ue_code = NumCode 400, ue_message = None\<rparr>
       else if status \<ge> 401 then throw \<lparr>ue_code = NumCode (int status), ue_message = None\<rparr>
       else ret body)"

definition makeRequestBody :: "um_env \<Rightarrow> um_request \<Rightarrow> json uio" where
  "makeRequestBody en q =
     bindE (send_request en q) (\<lambda>(status, body).
       if status \<noteq> 200 then
         throw \<lparr>ue_code = NumCode (int status),
                ue_message = (case field_opt body ''message'' of JStr t \<Rightarrow> Some t | _ \<Rightarrow> None)\<rparr>
       else ret body)"

section \<open>The three requests of a test\<close>

definition unmanaged_url :: "um_env \<Rightarrow> json \<Rightarrow> string \<Rightarrow> string" where
  "unmanaged_url en org what =
     ux_hidden_url en @ ''/orgs/'' @ json_text org @ ''/unmanaged_ecosystem/'' @ what @
     ''?version=2023-09-01~experimental''"

definition createDepGraph :: "um_env \<Rightarrow> json \<Rightarrow> json \<Rightarrow> json uio" where
  "createDepGraph en hashes org =
     makeRequestRest en \<lparr>ur_method = ''POST'', ur_url = unmanaged_url en org ''depgraphs'', ur_body = hashes\<rparr>"

definition getDepGraph :: "um_env \<Rightarrow> json \<Rightarrow> json \<Rightarrow> json uio" where
  "getDepGraph en i org =
     makeRequestRest en
       \<lparr>ur_method = ''GET'', ur_url = unmanaged_url en org (''depgraphs/'' @ json_text i), ur_body = JUndef\<rparr>"

definition getIssues :: "um_env \<Rightarrow> json \<Rightarrow> json \<Rightarrow> json uio" where
  "getIssues en attributes org =
     makeRequestRest en \<lparr>ur_method = ''POST'', ur_url = unmanaged_url en org ''issues'', ur_body = attributes\<rparr>"

definition submitHashes :: "um_env \<Rightarrow> json \<Rightarrow> json \<Rightarrow> json uio" where
  "submitHashes en hashes org =
     bindE (createDepGraph en hashes org) (\<lambda>r. lift (json_path r [''data'', ''id'']))"

section \<open>Waiting for the dependency graph\<close>

definition poll_interval :: "nat \<Rightarrow> nat" where
  "poll_interval attempts = min (2000 * attempts) 20000"

text \<open>The loop: the milliseconds waited so far and the number of the attempt.\<close>

function poll_graph :: "um_env \<Rightarrow> json \<Rightarrow> json \<Rightarrow> nat \<Rightarrow> nat \<Rightarrow> um_world \<Rightarrow> (um_error + json) \<times> um_world" where
  "poll_graph en i org elapsed attempts w =
     (if elapsed \<le> 1800000 then
        (case getDepGraph en i org w of
           (Inl e, w1) \<Rightarrow> (Inl e, w1)
         | (Inr graph, w1) \<Rightarrow>
             (case json_path graph [''data'', ''attributes''] of
                Inl e \<Rightarrow> (Inl e, w1)
              | Inr attributes \<Rightarrow>
                  (case field attributes ''in_progress'' of
                     Inl e \<Rightarrow> (Inl e, w1)
                   | Inr p \<Rightarrow>
                       if js_true p then
                         (case um_sleep (poll_interval attempts) w1 of
                            (Inl e, w2) \<Rightarrow> (Inl e, w2)
                          | (Inr u, w2) \<Rightarrow>
                              poll_graph en i org (elapsed + poll_interval attempts) (attempts + 1) w2)
                       else (Inr attributes, w1))))
      else (Inl (um_err ''max retries reached''), w))"
  by pat_completeness auto

termination
  by (relation "measure (\<lambda>(en, i, org, elapsed, attempts, w).
        2 * (1800001 - elapsed) + (if attempts = 0 then 1 else 0))")
     (auto simp: poll_interval_def)

declare poll_graph.simps [simp del]

definition pollDepGraphAttributes :: "um_env \<Rightarrow> json \<Rightarrow> json \<Rightarrow> json uio" where
  "pollDepGraphAttributes en i org = poll_graph en i org 0 1"

section \<open>Names of the API as names of the code\<close>

text \<open>The own properties of \<open>Object(v)\<close>.\<close>

definition js_entries :: "json \<Rightarrow> json obj" where
  "js_entries v =
     (case v of
        JObj ps \<Rightarrow> ps
      | JArr vs \<Rightarrow> zip (map str_of_nat [0..<length vs]) vs
      | JStr s \<Rightarrow> zip (map str_of_nat [0..<length s]) (map (\<lambda>c. JStr [c]) s)
      | _ \<Rightarrow> [])"

definition mapKey :: "(string \<Rightarrow> string) \<Rightarrow> json \<Rightarrow> json obj" where
  "mapKey f v = fold (\<lambda>(k, x) ob. obj_set (f k) x ob) (js_entries v) []"

definition convertToCamelCase :: "um_env \<Rightarrow> json \<Rightarrow> json obj" where
  "convertToCamelCase en v = mapKey (ux_camelCase en) v"

definition convertMapCasing :: "um_env \<Rightarrow> json \<Rightarrow> um_error + json obj obj" where
  "convertMapCasing en v =
     (if v \<in> {JUndef, JNull} then Inl (um_err ''Cannot convert undefined or null to object'')
      else Inr (fold (\<lambda>(k, x) ob. obj_set k (convertToCamelCase en x) ob) (js_entries v) []))"

definition convertObjectArrayCasing :: "um_env \<Rightarrow> json list \<Rightarrow> json obj list" where
  "convertObjectArrayCasing en vs = map (convertToCamelCase en) vs"

text \<open>\<open>v.map(f)\<close>: only an array has the method.\<close>

definition map_method :: "json \<Rightarrow> (json \<Rightarrow> um_error + 'a) \<Rightarrow> um_error + 'a list" where
  "map_method v f =
     (case v of
        JArr vs \<Rightarrow> mapS f vs
      | JUndef \<Rightarrow> Inl (um_err ''Cannot read properties of undefined'')
      | JNull \<Rightarrow> Inl (um_err ''Cannot read properties of null'')
      | _ \<Rightarrow> Inl (um_err ''map is not a function''))"

definition prop_or_undef :: "json obj \<Rightarrow> string \<Rightarrow> json" where
  "prop_or_undef ob k = (case obj_get ob k of None \<Rightarrow> JUndef | Some v \<Rightarrow> v)"

definition convert_node :: "um_env \<Rightarrow> json \<Rightarrow> um_error + json" where
  "convert_node en graphNode =
     (let node = convertToCamelCase en graphNode in
      bindS (map_method (prop_or_undef node ''deps'') (\<lambda>d. Inr (JObj (convertToCamelCase en d)))) (\<lambda>deps.
      Inr (JObj (obj_set ''deps'' (JArr deps) node))))"

definition convertDepGraph :: "um_env \<Rightarrow> json \<Rightarrow> um_error + json obj" where
  "convertDepGraph en v =
     (let depGraph = convertToCamelCase en v;
          graph = convertToCamelCase en (prop_or_undef depGraph ''graph'') in
      bindS (map_method (prop_or_undef graph ''nodes'') (convert_node en)) (\<lambda>nodes.
      Inr (obj_set ''graph'' (JObj (obj_set ''nodes'' (JArr nodes) graph)) depGraph)))"

section \<open>The organisation\<close>

primrec find_org :: "json \<Rightarrow> json list \<Rightarrow> um_error + json" where
  "find_org slug [] = Inr (JStr [])"
| "find_org slug (org # orgs) =
     bindS (field org ''slug'') (\<lambda>s.
       if json_same s slug then field org ''id'' else find_org slug orgs)"

definition getOrgIdFromSlug :: "um_env \<Rightarrow> json \<Rightarrow> json uio" where
  "getOrgIdFromSlug en slug =
     bindE (makeRequestBody en \<lparr>ur_method = ''GET'', ur_url = ux_api en @ ''/orgs'', ur_body = JUndef\<rparr>) (\<lambda>res.
     bindE (lift (field res ''orgs'')) (\<lambda>orgs.
     (case json_iter orgs of
        None \<Rightarrow> throw (um_err ''res.orgs is not iterable'')
      | Some os \<Rightarrow> lift (find_org slug os))))"

definition getSelf :: "um_env \<Rightarrow> json uio" where
  "getSelf en =
     makeRequestRest en
       \<lparr>ur_method = ''GET'', ur_url = ux_rest_url en @ ''/self?version=2022-08-12~experimental'', ur_body = JUndef\<rparr>"

definition getOrgDefaultContext :: "um_env \<Rightarrow> json uio" where
  "getOrgDefaultContext en =
     bindE (getSelf en) (\<lambda>self.
       if self \<in> {JUndef, JNull} then ret JUndef
       else lift (json_path self [''data'', ''attributes'', ''default_org_context'']))"

text \<open>\<open>/^[0-9a-f]{8}-[0-9a-f]{4}-[0-9a-f]{4}-[0-9a-f]{4}-[0-9a-f]{12}$/i\<close>\<close>

definition hex_class :: re where
  "hex_class = RCls (\<lambda>c. hex_val c \<noteq> None)"

definition uuid_re :: re where
  "uuid_re = RSeqs ([RBeg] @ replicate 8 hex_class @ [RChr (CHR ''-'')] @ replicate 4 hex_class @ [RChr (CHR ''-'')] @
     replicate 4 hex_class @ [RChr (CHR ''-'')] @ replicate 4 hex_class @ [RChr (CHR ''-'')] @
     replicate 12 hex_class @ [REnd])"

definition isUUID :: "json \<Rightarrow> bool" where
  "isUUID v = re_test False uuid_re (json_text v)"

definition getOrg :: "um_env \<Rightarrow> string option \<Rightarrow> json uio" where
  "getOrg en org =
     bindE
       (if truthy org then ret (JStr (the org))
        else bindE (getOrgDefaultContext en) (\<lambda>d. ret (if js_true d then d else JStr [])))
       (\<lambda>orgId. if isUUID orgId then ret orgId else getOrgIdFromSlug en orgId)"

section \<open>The policy of a folder\<close>

datatype pkg_tree = PkgTree "string option" "(string \<times> pkg_tree) list option"

fun pluck_tree :: "pkg_tree \<Rightarrow> string list" where
  "pluck_tree (PkgTree v ds) =
     (if truthy v then [the v]
      else (case ds of None \<Rightarrow> [] | Some deps \<Rightarrow> concat (map (\<lambda>(n, t). pluck_tree t) deps)))"

definition pluckPolicies :: "pkg_tree option \<Rightarrow> string list" where
  "pluckPolicies pkg = (case pkg of None \<Rightarrow> [] | Some t \<Rightarrow> pluck_tree t)"

definition findAndLoadPolicy ::
  "um_env \<Rightarrow> string \<Rightarrow> string \<Rightarrow> string option \<Rightarrow> pkg_tree option \<Rightarrow> string option \<Rightarrow> policy_object option uio" where
  "findAndLoadPolicy en root scanType policyPath pkg scannedProjectFolder =
     (let first = [js_or policyPath (js_or scannedProjectFolder root)];
          policyLocations =
            (if scanType = ''docker'' then filter (\<lambda>loc. loc \<noteq> root) first
             else if scanType \<in> {''npm'', ''yarn''} then first @ pluckPolicies pkg
             else first) in
      bindE (add_analytics ''policies'' (JNum (int (length policyLocations)))) (\<lambda>_.
      bindE (add_analytics ''policyLocations'' (JArr (map JStr policyLocations))) (\<lambda>_.
        if policyLocations = [] then ret None
        else
          (case ux_load_policy en policyLocations of
             Inr p \<Rightarrow> ret (Some p)
           | Inl err \<Rightarrow>
               if ue_code err \<noteq> StrCode ''ENOENT'' \<and> ue_code err \<noteq> StrCode ''ENOTDIR'' then throw err
               else ret None))))"

section \<open>Ignored issues\<close>

definition issue_id :: "json obj \<Rightarrow> string" where
  "issue_id i = json_text (prop_or_undef i ''issueId'')"

text \<open>
  An issue is dropped when the first of its rules for all resources (\<open>*\<close>) has not expired; a rule
  without a valid date never expires.
\<close>

definition is_ignored :: "int \<Rightarrow> ignore_rule list obj \<Rightarrow> string \<Rightarrow> bool" where
  "is_ignored now rules k =
     (case obj_get rules k of
        None \<Rightarrow> False
      | Some rs \<Rightarrow>
          (case find (\<lambda>r. obj_get r ''*'' \<noteq> None) rs of
             None \<Rightarrow> False
           | Some r \<Rightarrow>
               (case ig_expires (the (obj_get r ''*'')) of
                  None \<Rightarrow> True
                | Some t \<Rightarrow> \<not> t < now)))"

definition filterIgnoredIssues ::
  "int \<Rightarrow> json obj list \<Rightarrow> 'd obj \<Rightarrow> policy_object option \<Rightarrow> json obj list \<times> 'd obj" where
  "filterIgnoredIssues now issues issuesData policy =
     (case Option.bind policy po_ignore of
        None \<Rightarrow> (issues, issuesData)
      | Some rules \<Rightarrow>
          foldl (\<lambda>(kept, d) i.
              if is_ignored now rules (issue_id i) then (kept, obj_delete (issue_id i) d) else (kept @ [i], d))
            ([], issuesData) issues)"

section \<open>The issues of a graph\<close>

record fetched =
  fe_issues :: "json obj list"
  fe_issuesData :: "json obj obj"
  fe_depGraphData :: "json obj"
  fe_dependencyCount :: json
  fe_depsFilePaths :: json
  fe_fileSignaturesDetails :: "json obj obj"

definition convert_issue :: "um_env \<Rightarrow> json \<Rightarrow> json obj" where
  "convert_issue en i =
     (let converted = convertToCamelCase en i in
      obj_set ''fixInfo'' (JObj (convertToCamelCase en (prop_or_undef converted ''fixInfo''))) converted)"

primrec find_root :: "json list \<Rightarrow> um_error + json" where
  "find_root [] = Inr JUndef"
| "find_root (n # ns) =
     bindS (field n ''node_id'') (\<lambda>i. if i = JStr ''root-node'' then Inr n else find_root ns)"

definition json_length :: "json \<Rightarrow> json" where
  "json_length v =
     (case v of JArr vs \<Rightarrow> JNum (int (length vs)) | JStr s \<Rightarrow> JNum (int (length s))
      | JObj ps \<Rightarrow> field_opt v ''length'' | _ \<Rightarrow> JUndef)"

definition fetch_result :: "um_env \<Rightarrow> json \<Rightarrow> um_error + fetched" where
  "fetch_result en response =
     bindS (json_path response [''data'', ''result'']) (\<lambda>result.
     bindS (bindS (field result ''issues'') (\<lambda>v. map_method v (\<lambda>i. Inr (convert_issue en i)))) (\<lambda>issues.
     bindS (bindS (field result ''issues_data'') (convertMapCasing en)) (\<lambda>issuesData.
     bindS (bindS (field result ''dep_graph'') (convertDepGraph en)) (\<lambda>depGraphData.
     bindS (json_path result [''dep_graph'', ''graph'', ''nodes'']) (\<lambda>nodes.
     bindS (case nodes of JArr ns \<Rightarrow> find_root ns | _ \<Rightarrow> Inl (um_err ''find is not a function'')) (\<lambda>root.
     bindS (field result ''deps_file_paths'') (\<lambda>depsFilePaths.
     bindS (bindS (field result ''file_signatures_details'') (convertMapCasing en)) (\<lambda>signatures.
     Inr \<lparr>fe_issues = issues, fe_issuesData = issuesData, fe_depGraphData = depGraphData,
          fe_dependencyCount = json_length (field_opt root ''deps''), fe_depsFilePaths = depsFilePaths,
          fe_fileSignaturesDetails = signatures\<rparr>))))))))"

definition fetchIssues :: "um_env \<Rightarrow> json \<Rightarrow> json \<Rightarrow> json \<Rightarrow> string \<Rightarrow> json \<Rightarrow> fetched uio" where
  "fetchIssues en start_time dep_graph_data component_details target_severity org =
     bindE
       (getIssues en
          (JObj [(''dep_graph'', dep_graph_data), (''start_time'', start_time),
                 (''component_details'', component_details), (''target_severity'', JStr target_severity)]) org)
       (\<lambda>response. lift (fetch_result en response))"

section \<open>Testing the scans\<close>

record um_scan =
  us_facts :: "json list"
  us_analytics :: "(string \<times> json) list option"

record um_result =
  ur_issues :: "json obj list"
  ur_issuesData :: "json obj obj"
  ur_depGraphData :: "json obj"
  ur_depsFilePaths :: json
  ur_fileSignaturesDetails :: "json obj obj"
  ur_vulnerabilities :: "json obj list"
  ur_path :: string
  ur_dependencyCount :: json
  ur_packageManager :: string
  ur_displayTargetFile :: string

definition unmanaged_name :: string where
  "unmanaged_name = ''Unmanaged (C/C++)''"

definition extractAndApplyPluginAnalytics :: "(string \<times> json) list \<Rightarrow> json \<Rightarrow> unit uio" where
  "extractAndApplyPluginAnalytics pluginAnalytics token =
     bindE (if js_true token then add_analytics ''asyncRequestToken'' token else ret ()) (\<lambda>_.
     foldE (\<lambda>(name, d) _. add_analytics name d) pluginAnalytics ())"

text \<open>The issue an entry of the issue data belongs to: the last one with its id.\<close>

definition issues_map :: "json obj list \<Rightarrow> json obj obj" where
  "issues_map issues = fold (\<lambda>i ob. obj_set (issue_id i) i ob) issues []"

definition of_issue :: "json obj obj \<Rightarrow> string \<Rightarrow> string \<Rightarrow> json" where
  "of_issue m k p = (case obj_get m k of None \<Rightarrow> JUndef | Some i \<Rightarrow> prop_or_undef i p)"

definition pkg_coordinate :: "json obj obj \<Rightarrow> string \<Rightarrow> string" where
  "pkg_coordinate m k = json_text (of_issue m k ''pkgName'') @ ''@'' @ json_text (of_issue m k ''pkgVersion'')"

definition fill_issue_data :: "json obj obj \<Rightarrow> string \<Rightarrow> json obj \<Rightarrow> json obj" where
  "fill_issue_data m k d =
     obj_set ''isPatchable'' (JBool False)
     (obj_set ''upgradePath'' (JArr [JBool False])
     (obj_set ''version'' (of_issue m k ''pkgVersion'')
     (obj_set ''packageManager'' (JStr unmanaged_name)
     (obj_set ''name'' (JStr (pkg_coordinate m k))
     (obj_set ''from'' (JArr [JStr (pkg_coordinate m k)]) d)))))"

text \<open>The loop changes the entries of the issue data and lists them as the vulnerabilities.\<close>

definition fill_issues_data :: "json obj list \<Rightarrow> json obj obj \<Rightarrow> json obj obj" where
  "fill_issues_data issues d = map (\<lambda>(k, v). (k, fill_issue_data (issues_map issues) k v)) d"

definition json_count :: "json \<Rightarrow> json" where
  "json_count v = (if json_length v \<in> {JUndef, JNull} then JNum 0 else json_length v)"

definition report_graph :: "json obj list \<Rightarrow> json obj \<Rightarrow> unit uio" where
  "report_graph issues depGraphData =
     (let name = field_opt (prop_or_undef depGraphData ''pkgManager'') ''name'';
          pkgs = prop_or_undef depGraphData ''pkgs'' in
      if pkgs \<in> {JUndef, JNull} then throw (um_err ''Cannot read properties of undefined'')
      else
        extractAndApplyPluginAnalytics
          [(''packageManager'', if name \<in> {JUndef, JNull} then JStr [] else name),
           (''unmanagedDependencyCount'', json_count pkgs),
           (''unmanagedIssuesCount'', JNum (int (length issues)))] JUndef)"

definition scan_outcome :: "um_env \<Rightarrow> string \<Rightarrow> fetched \<Rightarrow> policy_object option \<Rightarrow> um_result" where
  "scan_outcome en path f policy =
     (let issuesData = fill_issues_data (fe_issues f) (fe_issuesData f);
          (kept, keptData) = filterIgnoredIssues (ux_now en) (fe_issues f) issuesData policy in
      \<lparr>ur_issues = kept, ur_issuesData = keptData, ur_depGraphData = fe_depGraphData f,
       ur_depsFilePaths = fe_depsFilePaths f, ur_fileSignaturesDetails = fe_fileSignaturesDetails f,
       ur_vulnerabilities = obj_values issuesData, ur_path = path,
       ur_dependencyCount = fe_dependencyCount f, ur_packageManager = unmanaged_name,
       ur_displayTargetFile = []\<rparr>)"

definition test_unmanaged_scan ::
  "um_env \<Rightarrow> string option \<Rightarrow> json \<Rightarrow> string \<Rightarrow> string \<Rightarrow> um_scan \<Rightarrow> um_result uio" where
  "test_unmanaged_scan en policyPath org target_severity path scan =
     bindE
       (submitHashes en
          (JObj [(''hashes'', case us_facts scan of [] \<Rightarrow> JUndef | f # fs \<Rightarrow> field_opt f ''data'')]) org) (\<lambda>i.
     bindE (case us_analytics scan of None \<Rightarrow> ret () | Some a \<Rightarrow> extractAndApplyPluginAnalytics a i) (\<lambda>_.
     bindE (pollDepGraphAttributes en i org) (\<lambda>attributes.
     bindE (lift (field attributes ''start_time'')) (\<lambda>start_time.
     bindE (lift (field attributes ''dep_graph_data'')) (\<lambda>dep_graph_data.
     bindE (lift (field attributes ''component_details'')) (\<lambda>component_details.
     bindE (fetchIssues en start_time dep_graph_data component_details target_severity org) (\<lambda>f.
     bindE (findAndLoadPolicy en path ''cpp'' policyPath None None) (\<lambda>policy.
     bindE (report_graph (fe_issues f) (fe_depGraphData f)) (\<lambda>_.
     ret (scan_outcome en path f policy))))))))))"

definition scan_error :: "string \<Rightarrow> um_error \<Rightarrow> string option" where
  "scan_error path e =
     (if hasStatusCodeError e then ue_message e
      else Some (''Could not test dependencies '' @ (if path \<noteq> [] then ''in '' @ path else ''.'')))"

type_synonym um_answer = "um_result list \<times> string option list"

definition add_scan ::
  "um_env \<Rightarrow> string option \<Rightarrow> json \<Rightarrow> string \<Rightarrow> string \<Rightarrow> um_scan \<Rightarrow> um_answer \<Rightarrow> um_answer uio" where
  "add_scan en policyPath org target_severity path scan acc =
     catchE
       (bindE (test_unmanaged_scan en policyPath org target_severity path scan) (\<lambda>r.
          ret (fst acc @ [r], snd acc)))
       (\<lambda>e. ret (fst acc, snd acc @ [scan_error path e]))"

definition resolveAndTestFactsUnmanagedDeps ::
  "um_env \<Rightarrow> string option \<Rightarrow> string option \<Rightarrow> string option \<Rightarrow> um_scan list obj \<Rightarrow> um_answer uio" where
  "resolveAndTestFactsUnmanagedDeps en orgOption severityThreshold policyPath scans =
     bindE (getOrg en orgOption) (\<lambda>org.
       if org = JStr [] then ret ([], [Some ''organisation-id missing''])
       else
         foldE (\<lambda>(path, scanResults).
            foldE (add_scan en policyPath org (js_or severityThreshold ''low'') path) scanResults)
           scans ([], []))"

definition resolveAndTestFacts ::
  "um_env \<Rightarrow> string option \<Rightarrow> string option \<Rightarrow> string option \<Rightarrow> um_scan list obj \<Rightarrow> um_answer uio" where
  "resolveAndTestFacts en orgOption severityThreshold policyPath scans =
     catchE (resolveAndTestFactsUnmanagedDeps en orgOption severityThreshold policyPath scans) (\<lambda>error.
       if ue_code error = NumCode 401 \<or> ue_code error = NumCode 403 then
         throw \<lparr>ue_code = ue_code error, ue_message = Some ''Unauthorized request to unmanaged service''\<rparr>
       else throw error)"

section \<open>The wait is bounded\<close>

lemma send_request_world: "send_request en q w = (r, w1) \<Longrightarrow> w1 = w\<lparr>um_sent := um_sent w @ [q]\<rparr>"
  by (simp add: send_request_def)

lemma makeRequestRest_world: "makeRequestRest en q w = (r, w1) \<Longrightarrow> w1 = w\<lparr>um_sent := um_sent w @ [q]\<rparr>"
  by (auto simp: makeRequestRest_def bindE_apply send_request_def split: sum.splits prod.splits if_splits)

lemma getDepGraph_world:
  "getDepGraph en i org w = (r, w1) \<Longrightarrow> \<exists>q. w1 = w\<lparr>um_sent := um_sent w @ [q]\<rparr>"
  unfolding getDepGraph_def using makeRequestRest_world by blast

text \<open>The milliseconds waited before an attempt.\<close>

definition waited :: "nat \<Rightarrow> nat" where
  "waited attempts = (\<Sum>j<attempts. poll_interval j)"

lemma waited_Suc: "waited (Suc a) = waited a + poll_interval a"
  by (simp add: waited_def)

lemma waited_early: "k \<le> 9 \<Longrightarrow> waited (Suc k) = 1000 * k * Suc k"
proof (induction k)
  case 0
  then show ?case by (simp add: waited_def poll_interval_def)
next
  case (Suc k)
  then have "waited (Suc k) = 1000 * k * Suc k" by simp
  with Suc.prems show ?case by (simp add: waited_Suc [of "Suc k"] poll_interval_def algebra_simps)
qed

lemma waited_late: "waited (10 + k) = 90000 + 20000 * k"
proof (induction k)
  case 0
  then show ?case using waited_early [of 9] by simp
next
  case (Suc k)
  then show ?case using waited_Suc [of "10 + k"] by (simp add: poll_interval_def)
qed

lemma waited_mono: "a \<le> b \<Longrightarrow> waited a \<le> waited b"
  by (simp add: waited_def sum_mono2)

lemma waited_95: "waited 95 = 1790000" and waited_96: "waited 96 = 1810000"
  using waited_late [of 85] waited_late [of 86] by simp_all

lemma waited_in_time: "waited a \<le> 1800000 \<longleftrightarrow> a < 96"
  using waited_mono [of a 95] waited_mono [of 96 a] waited_95 waited_96 by (cases "a < 96") auto

lemma poll_graph_bounds:
  "a \<le> 96 \<Longrightarrow> poll_graph en i org (waited a) a w = (r, w') \<Longrightarrow>
   length (um_sent w') + a \<le> length (um_sent w) + 96 \<and>
   sum_list (um_waits w') + waited a \<le> sum_list (um_waits w) + 1810000"
proof (induction "96 - a" arbitrary: a w)
  case 0
  then have "a = 96" by simp
  with 0 show ?case by (simp add: poll_graph.simps waited_96)
next
  case (Suc n)
  then have a: "a < 96" by simp
  with waited_mono [of a 95] have t: "waited a \<le> 1790000" by (simp add: waited_95)
  obtain g w1 where g: "getDepGraph en i org w = (g, w1)" by fastforce
  from getDepGraph_world [OF this] obtain q where w1: "w1 = w\<lparr>um_sent := um_sent w @ [q]\<rparr>" by blast
  show ?case
  proof (cases "r = Inl (um_err ''max retries reached'') \<or> w' \<noteq> w1")
    case True
    then have "poll_graph en i org (waited (Suc a)) (Suc a)
        (w1\<lparr>um_waits := um_waits w1 @ [poll_interval a]\<rparr>) = (r, w') \<or> w' = w1"
      using Suc.prems(2) a t g
      by (subst (asm) poll_graph.simps)
         (auto simp: waited_Suc um_sleep_def split: sum.splits if_splits)
    then show ?thesis
    proof
      assume p: "poll_graph en i org (waited (Suc a)) (Suc a)
        (w1\<lparr>um_waits := um_waits w1 @ [poll_interval a]\<rparr>) = (r, w')"
      from Suc.hyps(2) have n: "n = 96 - Suc a" by simp
      from Suc.hyps(1) [OF n _ p] a w1 show ?thesis by (simp add: waited_Suc)
    next
      assume "w' = w1"
      with w1 a t show ?thesis by simp
    qed
  next
    case False
    with w1 a t show ?thesis by simp
  qed
qed

text \<open>A server that is never ready is asked 95 times.\<close>

lemma poll_graph_busy:
  assumes busy: "\<And>n q. ux_server en n q = Inr (200, JObj [(''data'', JObj [(''attributes'', JObj [(''in_progress'', JBool True)])])])"
  shows "a \<le> 96 \<Longrightarrow> poll_graph en i org (waited a) a w = (r, w') \<Longrightarrow>
    r = Inl (um_err ''max retries reached'') \<and> length (um_sent w') + a = length (um_sent w) + 96"
proof (induction "96 - a" arbitrary: a w)
  case 0
  then have "a = 96" by simp
  with 0 show ?case by (simp add: poll_graph.simps waited_96)
next
  case (Suc n)
  then have a: "a < 96" by simp
  with waited_mono [of a 95] have t: "waited a \<le> 1790000" by (simp add: waited_95)
  obtain q where g: "getDepGraph en i org w =
      (Inr (JObj [(''data'', JObj [(''attributes'', JObj [(''in_progress'', JBool True)])])]), w\<lparr>um_sent := um_sent w @ [q]\<rparr>)"
    by (auto simp: getDepGraph_def makeRequestRest_def bindE_apply send_request_def busy)
  have p: "poll_graph en i org (waited (Suc a)) (Suc a)
      (w\<lparr>um_sent := um_sent w @ [q], um_waits := um_waits w @ [poll_interval a]\<rparr>) = (r, w')"
    using Suc.prems(2) t
    by (subst (asm) poll_graph.simps)
       (simp add: g json_path_def field_def json_prop_def js_true_def um_sleep_def waited_Suc)
  from Suc.hyps(2) have n: "n = 96 - Suc a" by simp
  from Suc.hyps(1) [OF n _ p] a show ?case by simp
qed

definition busy_answer :: json where
  "busy_answer = JObj [(''data'', JObj [(''attributes'', JObj [(''in_progress'', JBool True)])])]"

text \<open>Waiting for the dependency graph ends. Whatever the server answers, at most 95 requests are sent and at
  most 1810000 milliseconds (30 minutes and one interval) are waited; a server that stays busy is asked exactly 95
  times before the error that the retries are used up.\<close>

theorem depgraph_polls:
  assumes "pollDepGraphAttributes en i org w = (r, w')"
  shows "length (um_sent w') \<le> length (um_sent w) + 95 \<and>
    sum_list (um_waits w') \<le> sum_list (um_waits w) + 1810000 \<and>
    ((\<forall>n q. ux_server en n q = Inr (200, busy_answer)) \<longrightarrow>
      r = Inl (um_err ''max retries reached'') \<and> length (um_sent w') = length (um_sent w) + 95)"
proof -
  have p: "poll_graph en i org (waited 1) 1 w = (r, w')"
    using assms by (simp add: pollDepGraphAttributes_def waited_def poll_interval_def)
  have "r = Inl (um_err ''max retries reached'') \<and> length (um_sent w') = length (um_sent w) + 95"
    if "\<forall>n q. ux_server en n q = Inr (200, busy_answer)"
    using poll_graph_busy [OF _ _ p] that by (simp add: busy_answer_def)
  with poll_graph_bounds [OF _ p] show ?thesis by simp
qed

definition sample_um_env :: "(nat \<Rightarrow> um_request \<Rightarrow> um_error + nat \<times> json) \<Rightarrow> um_env" where
  "sample_um_env server =
     \<lparr>ux_hidden_url = ''https://api/hidden'', ux_rest_url = ''https://api/rest'', ux_api = ''https://api/v1'',
      ux_camelCase = (\<lambda>k. case obj_get [(''issue_id'', ''issueId''), (''pkg_name'', ''pkgName''),
          (''pkg_version'', ''pkgVersion''), (''pkg_manager'', ''pkgManager'')] k of None \<Rightarrow> k | Some c \<Rightarrow> c),
      ux_server = server, ux_load_policy = (\<lambda>_. Inl \<lparr>ue_code = StrCode ''ENOENT'', ue_message = None\<rparr>), ux_now = 1700000000000\<rparr>"

definition um_start :: um_world where
  "um_start = \<lparr>um_sent = [], um_waits = [], um_analytics = []\<rparr>"

theorem depgraph_polls_witness:
  "length (um_sent (snd (pollDepGraphAttributes (sample_um_env (\<lambda>n q. Inr (200, busy_answer)))
      (JStr ''1'') (JStr ''o'') um_start))) = 95"
  using depgraph_polls [of "sample_um_env (\<lambda>n q. Inr (200, busy_answer))" "JStr ''1''" "JStr ''o''" um_start,
      OF surjective_pairing]
  by (simp add: sample_um_env_def um_start_def)

section \<open>Every scan is answered\<close>

lemma test_unmanaged_scan_outcome:
  assumes "test_unmanaged_scan en pp org sev path scan w = (Inr r, w')"
  shows "\<exists>f policy. r = scan_outcome en path f policy"
  using assms unfolding test_unmanaged_scan_def by (elim bindE_InrE) auto

lemma scan_outcome_path [simp]: "ur_path (scan_outcome en path f policy) = path"
  by (simp add: scan_outcome_def Let_def split: prod.splits)

lemma add_scan_effect:
  "\<exists>a w'. add_scan en pp org sev path scan acc w = (Inr a, w') \<and>
     ((\<exists>r. ur_path r = path \<and> a = (fst acc @ [r], snd acc)) \<or> (\<exists>e. a = (fst acc, snd acc @ [scan_error path e])))"
proof (cases "test_unmanaged_scan en pp org sev path scan w")
  case (Pair x w1)
  show ?thesis
  proof (cases x)
    case (Inl e)
    with Pair show ?thesis by (auto simp: add_scan_def catchE_def bindE_apply)
  next
    case (Inr r)
    with Pair test_unmanaged_scan_outcome [of en pp org sev path scan w r w1] have "ur_path r = path" by auto
    with Pair Inr show ?thesis by (auto simp: add_scan_def catchE_def bindE_apply)
  qed
qed

definition answers_for :: "nat \<Rightarrow> string set \<Rightarrow> um_answer \<Rightarrow> bool" where
  "answers_for n paths a \<longleftrightarrow> length (fst a) + length (snd a) = n \<and> ur_path ` set (fst a) \<subseteq> paths"

lemma answers_forI:
  assumes "answers_for n ps acc" and "path \<in> ps"
  shows "\<exists>a w'. add_scan en pp org sev path scan acc w = (Inr a, w') \<and> answers_for (Suc n) ps a"
  using add_scan_effect [of en pp org sev path scan acc w] assms by (fastforce simp: answers_for_def)

lemma answers_for_mono: "answers_for n ps a \<Longrightarrow> ps \<subseteq> qs \<Longrightarrow> answers_for n qs a"
  by (auto simp: answers_for_def)

lemma folder_answered:
  assumes "answers_for n ps acc" and "path \<in> ps"
  shows "\<exists>a w'. foldE (add_scan en pp org sev path) scans acc w = (Inr a, w') \<and> answers_for (n + length scans) ps a"
proof -
  have "\<exists>a' t'. add_scan en pp org sev path x a t = (Inr a', t') \<and> answers_for (n + length (ys @ [x])) ps a'"
    if "answers_for (n + length ys) ps a" for ys x a t
    using answers_forI [OF that assms(2)] by simp
  with assms(1) foldE_total [where I = "\<lambda>ys a. answers_for (n + length ys) ps a" and f = "add_scan en pp org sev path"]
  show ?thesis by simp
qed

lemma folders_answered:
  "\<exists>a w'. foldE (\<lambda>(path, ss). foldE (add_scan en pp org sev path) ss) scans ([], []) w = (Inr a, w') \<and>
     answers_for (\<Sum>(p, ss)\<leftarrow>scans. length ss) (fst ` set scans) a"
proof -
  let ?I = "\<lambda>ys a. answers_for (\<Sum>(p, ss)\<leftarrow>ys. length ss) (fst ` set ys) a"
  let ?f = "\<lambda>(path, ss). foldE (add_scan en pp org sev path) ss"
  have "\<exists>a' t'. ?f x a t = (Inr a', t') \<and> ?I (ys @ [x]) a'" if "?I ys a" for ys x a t
  proof -
    obtain p ss where x: "x = (p, ss)" by fastforce
    from that have "answers_for (\<Sum>(p, ss)\<leftarrow>ys. length ss) (fst ` set (ys @ [x])) a"
      by (rule answers_for_mono) auto
    from folder_answered [OF this, of p en pp org sev ss t] x show ?thesis by simp
  qed
  moreover have "?I [] ([], [])" by (simp add: answers_for_def)
  ultimately show ?thesis using foldE_total [where I = ?I and f = ?f] by blast
qed

text \<open>C19: Once the organisation is known, testing never throws and every scan is answered: the results and the
  errors together are as many as the scans, and every result carries the path of one of the tested folders.\<close>

theorem every_scan_answered:
  assumes "getOrg en orgOption w = (Inr org, w1)" and "org \<noteq> JStr []"
  shows "\<exists>results errors w'.
    resolveAndTestFacts en orgOption sev pp scans w = (Inr (results, errors), w') \<and>
    length results + length errors = (\<Sum>(p, ss)\<leftarrow>scans. length ss) \<and>
    ur_path ` set results \<subseteq> fst ` set scans"
  using folders_answered [of en pp org "js_or sev ''low''" scans w1] assms
  by (auto simp: resolveAndTestFacts_def resolveAndTestFactsUnmanagedDeps_def catchE_def bindE_apply answers_for_def)

section \<open>What an error of the server becomes\<close>

lemma submitHashes_refused:
  assumes "\<forall>n q. ux_server en n q = Inr (status, body)" and "400 \<le> status"
  shows "\<exists>w'. submitHashes en hashes org w = (Inl \<lparr>ue_code = NumCode (int status), ue_message = None\<rparr>, w')"
  using assms
  by (auto simp: submitHashes_def createDepGraph_def makeRequestRest_def bindE_apply send_request_def)

lemma add_scan_refused:
  assumes "\<forall>n q. ux_server en n q = Inr (status, body)" and "400 \<le> status"
  shows "\<exists>w'. add_scan en pp org sev path scan acc w =
    (Inr (fst acc, snd acc @ [scan_error path \<lparr>ue_code = NumCode (int status), ue_message = None\<rparr>]), w')"
proof -
  let ?h = "JObj [(''hashes'', case us_facts scan of [] \<Rightarrow> JUndef | f # fs \<Rightarrow> field_opt f ''data'')]"
  obtain w' where "submitHashes en ?h org w = (Inl \<lparr>ue_code = NumCode (int status), ue_message = None\<rparr>, w')"
    using submitHashes_refused [OF assms, of ?h org w] by blast
  then show ?thesis by (simp add: add_scan_def test_unmanaged_scan_def catchE_def bindE_apply)
qed

lemma folder_refused:
  assumes "\<forall>n q. ux_server en n q = Inr (status, body)" and "400 \<le> status"
  shows "\<exists>w'. foldE (add_scan en pp org sev path) ss acc w =
    (Inr (fst acc, snd acc @ replicate (length ss) (scan_error path \<lparr>ue_code = NumCode (int status), ue_message = None\<rparr>)), w')"
proof (induction ss arbitrary: acc w)
  case Nil
  then show ?case by simp
next
  case (Cons s ss)
  obtain w1 where "add_scan en pp org sev path s acc w =
      (Inr (fst acc, snd acc @ [scan_error path \<lparr>ue_code = NumCode (int status), ue_message = None\<rparr>]), w1)"
    using add_scan_refused [OF assms] by blast
  with Cons.IH [of "(fst acc, snd acc @ [scan_error path \<lparr>ue_code = NumCode (int status), ue_message = None\<rparr>])" w1]
  show ?case by (simp add: bindE_apply)
qed

lemma folders_refused:
  assumes "\<forall>n q. ux_server en n q = Inr (status, body)" and "400 \<le> status"
  shows "\<exists>w'. foldE (\<lambda>(path, ss). foldE (add_scan en pp org sev path) ss) scans acc w =
    (Inr (fst acc, snd acc @ concat (map (\<lambda>(p, ss). replicate (length ss)
       (scan_error p \<lparr>ue_code = NumCode (int status), ue_message = None\<rparr>)) scans)), w')"
proof (induction scans arbitrary: acc w)
  case Nil
  then show ?case by simp
next
  case (Cons x scans)
  obtain p ss where x: "x = (p, ss)" by fastforce
  obtain w1 where "foldE (add_scan en pp org sev p) ss acc w =
      (Inr (fst acc, snd acc @ replicate (length ss) (scan_error p \<lparr>ue_code = NumCode (int status), ue_message = None\<rparr>)), w1)"
    using folder_refused [OF assms] by blast
  with Cons.IH [of "(fst acc, snd acc @ replicate (length ss)
      (scan_error p \<lparr>ue_code = NumCode (int status), ue_message = None\<rparr>))" w1] x
  show ?case by (simp add: bindE_apply)
qed

text \<open>When the server refuses every request of a test with one status, every scan gets an error, but for the
  statuses 400 to 500 (authentication failures among them) the reported message is undefined, because the REST client
  rejects without a message; the failure to authenticate is not reported as such.\<close>

theorem refused_scans:
  assumes "isUUID (JStr org)" and "org \<noteq> []"
    and "\<forall>n q. ux_server en n q = Inr (status, body)" and "400 \<le> status"
  shows "\<exists>w'. resolveAndTestFacts en (Some org) sev pp scans w =
    (Inr ([], concat (map (\<lambda>(p, ss). replicate (length ss)
       (if status \<le> 500 then None
        else Some (''Could not test dependencies '' @ (if p \<noteq> [] then ''in '' @ p else ''.'')))) scans)), w')"
proof -
  have e: "scan_error p \<lparr>ue_code = NumCode (int status), ue_message = None\<rparr> =
      (if status \<le> 500 then None
       else Some (''Could not test dependencies '' @ (if p \<noteq> [] then ''in '' @ p else ''.'')))" for p
    using assms(4) by (simp add: scan_error_def hasStatusCodeError_def)
  have "getOrg en (Some org) w = (Inr (JStr org), w)"
    using assms(1,2) by (simp add: getOrg_def truthy_def)
  with folders_refused [OF assms(3,4), of pp "JStr org" "js_or sev ''low''" scans "([], [])" w] assms(2)
  show ?thesis
    by (auto simp: resolveAndTestFacts_def resolveAndTestFactsUnmanagedDeps_def catchE_def bindE_apply e)
qed

section \<open>Ignored issues\<close>

lemma filter_loop:
  "foldl (\<lambda>(kept, d) i.
      if is_ignored now rules (issue_id i) then (kept, obj_delete (issue_id i) d) else (kept @ [i], d)) (kept, d) issues =
   (kept @ filter (\<lambda>i. \<not> is_ignored now rules (issue_id i)) issues,
    fold (\<lambda>i d. if is_ignored now rules (issue_id i) then obj_delete (issue_id i) d else d) issues d)"
  by (induction issues arbitrary: kept d) auto

lemma deleted_data:
  "obj_get (fold (\<lambda>i d. if is_ignored now rules (issue_id i) then obj_delete (issue_id i) d else d) issues d) k =
   (if is_ignored now rules k \<and> k \<in> issue_id ` set issues then None else obj_get d k)"
  by (induction issues arbitrary: d) (auto simp: obj_get_delete)

text \<open>Filtering by the policy drops exactly the issues with a rule for all resources that has not expired, drops
  the data of exactly those, and leaves the data of every kept issue in place; without ignore rules it is the
  identity.\<close>

theorem ignored_issues:
  "(case Option.bind policy po_ignore of
      None \<Rightarrow> filterIgnoredIssues now issues d policy = (issues, d)
    | Some rules \<Rightarrow>
        (let (kept, d') = filterIgnoredIssues now issues d policy in
         kept = filter (\<lambda>i. \<not> is_ignored now rules (issue_id i)) issues \<and>
         (\<forall>k. obj_get d' k = (if is_ignored now rules k \<and> k \<in> issue_id ` set issues then None else obj_get d k)) \<and>
         map (\<lambda>i. obj_get d' (issue_id i)) kept = map (\<lambda>i. obj_get d (issue_id i)) kept))"
  by (auto simp: filterIgnoredIssues_def filter_loop deleted_data split: option.splits)

definition sample_um_org :: string where
  "sample_um_org = ''01234567-89ab-cdef-0123-456789ABCDEF''"

lemma sample_um_org_uuid: "isUUID (JStr sample_um_org)" "sample_um_org \<noteq> []"
  by code_simp+

definition sample_scans :: "um_scan list obj" where
  "sample_scans = [(''lib'', [\<lparr>us_facts = [], us_analytics = None\<rparr>, \<lparr>us_facts = [], us_analytics = None\<rparr>])]"

theorem every_scan_answered_witness:
  "\<exists>results errors w'.
    resolveAndTestFacts (sample_um_env (\<lambda>n q. Inr (200, busy_answer))) (Some sample_um_org) None None sample_scans um_start =
      (Inr (results, errors), w') \<and> length results + length errors = 2"
  using every_scan_answered [of "sample_um_env (\<lambda>n q. Inr (200, busy_answer))" "Some sample_um_org" um_start
      "JStr sample_um_org" um_start None None sample_scans] sample_um_org_uuid
  by (auto simp: getOrg_def truthy_def sample_scans_def)

theorem refused_scans_witness:
  "\<exists>w'. resolveAndTestFacts (sample_um_env (\<lambda>n q. Inr (401, JUndef))) (Some sample_um_org) None None sample_scans um_start =
      (Inr ([], [None, None]), w')"
  using refused_scans [OF sample_um_org_uuid, of "sample_um_env (\<lambda>n q. Inr (401, JUndef))" 401 JUndef None None
      sample_scans um_start]
  by (simp add: sample_um_env_def sample_scans_def numeral_2_eq_2)

end
