(* ===== verification/FindFiles.thy ===== *)
theory FindFiles
  imports Detect
begin

text \<open>
  \<open>src/lib/find-files.ts\<close>: the search for manifest files below a folder. \<open>lodash\<close> is a
  parameter (\<open>ff_lib\<close>) with its documented behaviour \<open>ff_lib_ok\<close>. The number of levels is
  \<open>levelsDeep + 1\<close>, so zero stands for any negative depth, and the recursion is structural in it.
  The debug messages are left out, except that two of them read a property and may throw.
\<close>

section \<open>Data\<close>

record found_file =
  ff_path :: string
  ff_dir :: string
  ff_base :: string
  ff_manager :: "string option"

record ff_lib =
  ff_sortBy_dir :: "found_file list \<Rightarrow> found_file list"
  ff_groupBy :: "(found_file \<Rightarrow> string) \<Rightarrow> found_file list \<Rightarrow> found_file list obj"

text \<open>
  \<open>sortBy\<close> permutes its argument; \<open>groupBy\<close> has one entry per key that occurs, with the
  elements of that key in their order.
\<close>

definition ff_lib_ok :: "ff_lib \<Rightarrow> bool" where
  "ff_lib_ok lib \<longleftrightarrow>
     (\<forall>xs. mset (ff_sortBy_dir lib xs) = mset xs) \<and>
     (\<forall>f xs. wf_obj (ff_groupBy lib f xs) \<and>
        (\<forall>k. obj_get (ff_groupBy lib f xs) k =
           (if k \<in> f ` set xs then Some (filter (\<lambda>x. f x = k) xs) else None)))"

datatype find_error =
    FF_type_error string
  | FF_fs_error string string
  | FF_error string find_error

section \<open>Which manifest of several\<close>

definition detectProjectTypeFromFile :: "string \<Rightarrow> string option" where
  "detectProjectTypeFromFile f =
     (case detectPackageManagerFromFile f of
        Inl e \<Rightarrow> None
      | Inr m \<Rightarrow> if m \<in> {''yarn'', ''npm''} then Some ''node'' else Some m)"

definition shouldSkipAddingFile :: "penv \<Rightarrow> string \<Rightarrow> string \<Rightarrow> string list \<Rightarrow> bool" where
  "shouldSkipAddingFile en packageManager filePath filteredFiles =
     (packageManager = ''gradle'' \<and> filePath \<noteq> [] \<and>
      (\<exists>targetFile\<in>set filteredFiles.
         (js_endsWith targetFile ''build.gradle'' \<or> js_endsWith targetFile ''build.gradle.kts'') \<and>
         \<not> js_startsWith (path_relative (working_dir en) (path_dir targetFile) filePath) ''../''))"

text \<open>The first file with one of the names; the message that is printed reads its path, if it exists or not.\<close>

definition first_named :: "string list \<Rightarrow> found_file list \<Rightarrow> find_error + string option" where
  "first_named names fs =
     (case filter (\<lambda>f. ff_base f \<in> set names) fs of
        [] \<Rightarrow> Inl (FF_type_error ''Cannot read properties of undefined (reading path)'')
      | f # gs \<Rightarrow> Inr (Some (ff_path f)))"

definition preferred :: "(string \<times> string list) list" where
  "preferred =
     [(''node'', [''package-lock.json'', ''yarn.lock'']),
      (''rubygems'', [''Gemfile.lock'']),
      (''cocoapods'', [''Podfile'']),
      (''pip'', [''Pipfile'']),
      (''gradle'', [''build.gradle'']),
      (''poetry'', [''pyproject.toml'']),
      (''hex'', [''mix.exs''])]"

definition chooseBestManifest :: "found_file list \<Rightarrow> string \<Rightarrow> find_error + string option" where
  "chooseBestManifest fs projectType =
     (case map_of preferred projectType of None \<Rightarrow> Inr None | Some names \<Rightarrow> first_named names fs)"

text \<open>The body of the inner loop, for the files of one package manager in one folder.\<close>

definition choose_step ::
  "penv \<Rightarrow> string \<times> found_file list \<Rightarrow> string list \<Rightarrow> find_error + string list" where
  "choose_step en g filteredFiles =
     (case g of (packageManager, fs) \<Rightarrow>
        bindS (if length fs \<le> 1 then Inr (Some (ff_path (hd fs))) else chooseBestManifest fs packageManager)
          (\<lambda>choice. case choice of
             None \<Rightarrow> Inr filteredFiles
           | Some p \<Rightarrow>
               if (length fs \<le> 1 \<or> p \<noteq> []) \<and> \<not> shouldSkipAddingFile en packageManager (ff_path (hd fs)) filteredFiles
               then Inr (filteredFiles @ [p]) else Inr filteredFiles))"

definition manager_key :: "found_file \<Rightarrow> string" where
  "manager_key f = str_of_opt (ff_manager f)"

definition folder_step :: "penv \<Rightarrow> ff_lib \<Rightarrow> string \<times> found_file list \<Rightarrow> string list \<Rightarrow> find_error + string list" where
  "folder_step en lib g filteredFiles =
     foldS (choose_step en)
       (ff_groupBy lib manager_key (filter (\<lambda>f. truthy (ff_manager f)) (snd g))) filteredFiles"

definition describe_file :: "string \<Rightarrow> found_file" where
  "describe_file p =
     \<lparr>ff_path = p, ff_dir = path_dir p, ff_base = path_base p, ff_manager = detectProjectTypeFromFile p\<rparr>"

definition filterForDefaultManifests ::
  "penv \<Rightarrow> ff_lib \<Rightarrow> pworld \<Rightarrow> string list \<Rightarrow> find_error + string list" where
  "filterForDefaultManifests en lib w files =
     (if length files \<le> 1 then Inr files
      else
        (let beforeSort = map describe_file (filter (\<lambda>p. existsSync w p) (filter (\<lambda>p. p \<noteq> []) files));
             foundFiles = ff_groupBy lib ff_dir (ff_sortBy_dir lib beforeSort) in
         foldS (folder_step en lib) foundFiles []))"

section \<open>The search\<close>

definition ignoreFolders :: "string list" where
  "ignoreFolders = [''node_modules'', ''.build'']"

definition with_ignored :: "string list \<Rightarrow> string list" where
  "with_ignored ignore = ignore @ filter (\<lambda>f. f \<notin> set ignore) ignoreFolders"

definition findFile :: "string \<Rightarrow> string list \<Rightarrow> string option" where
  "findFile p names = (if names \<noteq> [] then (if path_base p \<in> set names then Some p else None) else Some p)"

definition getStats :: "pworld \<Rightarrow> string \<Rightarrow> find_error + node" where
  "getStats w p =
     (case nodes w (follow w p) of None \<Rightarrow> Inl (FF_fs_error ''ENOENT'' p) | Some nd \<Rightarrow> Inr nd)"

definition readDirectory :: "pworld \<Rightarrow> string \<Rightarrow> find_error + string list" where
  "readDirectory w p =
     (case nodes w (follow w p) of
        Some (DirNode ns) \<Rightarrow> Inr ns
      | Some nd \<Rightarrow> Inl (FF_fs_error ''ENOTDIR'' p)
      | None \<Rightarrow> Inl (FF_fs_error ''ENOENT'' p))"

text \<open>The rejection that is passed on is the first one; \<open>Promise.all\<close> lists the results in order.\<close>

definition findInDirectory ::
  "(string \<Rightarrow> find_error + string list \<times> string list) \<Rightarrow> penv \<Rightarrow> pworld \<Rightarrow> string list \<Rightarrow> string \<Rightarrow>
   find_error + string list \<times> string list" where
  "findInDirectory find_child en w ignore p =
     bindS (readDirectory w p) (\<lambda>files.
     bindS (mapS (\<lambda>f. if existsSync w (resolve en [p, f]) then find_child (resolve en [p, f]) else Inr ([], []))
              (filter (\<lambda>f. f \<notin> set ignore) files)) (\<lambda>found.
     Inr (concat (map fst found), concat (map snd found))))"

fun find_files ::
  "nat \<Rightarrow> penv \<Rightarrow> ff_lib \<Rightarrow> pworld \<Rightarrow> string list \<Rightarrow> string list \<Rightarrow> string \<Rightarrow> find_error + string list \<times> string list" where
  "find_files 0 en lib w ignore names p = Inr ([], [])"
| "find_files (Suc levels) en lib w ignore names p =
     (if js_endsWith p ''node_modules'' \<or> js_endsWith p ''/.build'' then Inr ([], [])
      else
        map_sum (FF_error p) id
          (bindS (getStats w p) (\<lambda>fileStats.
           bindS (case fileStats of
                    DirNode ns \<Rightarrow>
                      findInDirectory (find_files levels en lib w (with_ignored ignore) names) en w (with_ignored ignore) p
                  | FileNode t \<Rightarrow> Inr (case findFile p names of None \<Rightarrow> ([], []) | Some f \<Rightarrow> ([f], [f]))
                  | LinkNode q \<Rightarrow> Inr ([], []))
             (\<lambda>(found, foundAll).
              bindS (filterForDefaultManifests en lib w found) (\<lambda>files. Inr (files, foundAll))))))"

section \<open>One manifest per folder and package manager\<close>

text \<open>The folder of a file and the kind of project it stands for.\<close>

definition manifest_kind :: "string \<Rightarrow> string \<times> string option" where
  "manifest_kind p = (path_dir p, detectProjectTypeFromFile p)"

text \<open>The kinds of project for which a folder with several manifests has a default one; gradle files may be skipped.\<close>

definition represented_kinds :: "string list" where
  "represented_kinds = [''node'', ''rubygems'', ''cocoapods'', ''pip'', ''poetry'', ''hex'']"

lemma represented_preferred: "m \<in> set represented_kinds \<Longrightarrow> map_of preferred m \<noteq> None \<and> m \<noteq> ''gradle''"
  by (auto simp: represented_kinds_def preferred_def)

lemma first_named_in: "first_named names fs = Inr x \<Longrightarrow> \<exists>f\<in>set fs. x = Some (ff_path f)"
  by (auto simp: first_named_def dest: filter_eq_ConsD split: list.splits)

lemma chooseBest_in: "chooseBestManifest fs m = Inr (Some p) \<Longrightarrow> \<exists>f\<in>set fs. p = ff_path f"
  using first_named_in by (fastforce simp: chooseBestManifest_def split: option.splits)

text \<open>What a step does with the files of one kind.\<close>

definition kind_group :: "string \<Rightarrow> string \<times> found_file list \<Rightarrow> bool" where
  "kind_group d g \<longleftrightarrow> snd g \<noteq> [] \<and>
     (\<forall>f\<in>set (snd g). manifest_kind (ff_path f) = (d, Some (fst g)) \<and> ff_path f \<noteq> [])"

lemma choose_step_effect:
  assumes "choose_step en g acc = Inr r" and "kind_group d g"
  shows "r = acc \<or> (\<exists>f\<in>set (snd g). r = acc @ [ff_path f])"
    and "fst g \<in> set represented_kinds \<Longrightarrow> r \<noteq> acc"
proof -
  obtain m fs where g: "g = (m, fs)" by fastforce
  from assms(2) g have fs: "fs \<noteq> []" "\<And>f. f \<in> set fs \<Longrightarrow> ff_path f \<noteq> []" by (auto simp: kind_group_def)
  from fs(1) have hd: "hd fs \<in> set fs" by simp
  from assms(1) obtain choice where
    c: "(if length fs \<le> 1 then Inr (Some (ff_path (hd fs))) else chooseBestManifest fs m) = Inr choice"
    and r: "(case choice of None \<Rightarrow> (Inr acc :: find_error + string list)
      | Some p \<Rightarrow> if (length fs \<le> 1 \<or> p \<noteq> []) \<and> \<not> shouldSkipAddingFile en m (ff_path (hd fs)) acc
          then Inr (acc @ [p]) else Inr acc) = Inr r"
    unfolding choose_step_def g prod.case bindS_Inr_iff by blast
  have in_fs: "\<exists>f\<in>set fs. p = ff_path f" if "choice = Some p" for p
    using c that hd chooseBest_in [of fs m p] by (auto split: if_splits)
  from r in_fs show "r = acc \<or> (\<exists>f\<in>set (snd g). r = acc @ [ff_path f])"
    by (auto simp: g split: option.splits if_splits)
  assume m: "fst g \<in> set represented_kinds"
  then have "map_of preferred m \<noteq> None" "m \<noteq> ''gradle''" using represented_preferred g by auto
  with c obtain p where p: "choice = Some p"
    by (auto simp: chooseBestManifest_def first_named_def split: if_splits list.splits)
  with in_fs fs have "p \<noteq> []" by auto
  with r p \<open>m \<noteq> ''gradle''\<close> show "r \<noteq> acc" by (auto simp: shouldSkipAddingFile_def)
qed

lemma choose_loop:
  assumes "foldS (choose_step en) gs acc = Inr r" and "distinct (map fst gs)" and "\<And>g. g \<in> set gs \<Longrightarrow> kind_group d g"
  shows "\<exists>ps. r = acc @ ps \<and> distinct (map manifest_kind ps) \<and>
    manifest_kind ` set ps \<subseteq> Pair d ` Some ` fst ` set gs \<and>
    set ps \<subseteq> ff_path ` \<Union> ((set \<circ> snd) ` set gs) \<and>
    (\<forall>m. m \<in> set represented_kinds \<longrightarrow> m \<in> fst ` set gs \<longrightarrow> (d, Some m) \<in> manifest_kind ` set ps)"
  using assms
proof (induction gs arbitrary: acc)
  case Nil
  then show ?case by auto
next
  case (Cons g gs)
  from Cons.prems(1) obtain a where a: "choose_step en g acc = Inr a" "foldS (choose_step en) gs a = Inr r"
    by (auto simp: bindS_Inr_iff)
  have kg: "kind_group d g" using Cons.prems(3) by simp
  from Cons.IH [OF a(2)] Cons.prems(2,3) obtain ps where
    ps: "r = a @ ps" "distinct (map manifest_kind ps)" "manifest_kind ` set ps \<subseteq> Pair d ` Some ` fst ` set gs"
      "set ps \<subseteq> ff_path ` \<Union> ((set \<circ> snd) ` set gs)"
      "\<forall>m. m \<in> set represented_kinds \<longrightarrow> m \<in> fst ` set gs \<longrightarrow> (d, Some m) \<in> manifest_kind ` set ps" by auto
  from choose_step_effect(1) [OF a(1) kg] show ?case
  proof
    assume "a = acc"
    with ps choose_step_effect(2) [OF a(1) kg] show ?thesis by (intro exI [of _ ps]) (auto simp: image_Un)
  next
    assume "\<exists>f\<in>set (snd g). a = acc @ [ff_path f]"
    then obtain f where f: "f \<in> set (snd g)" "a = acc @ [ff_path f]" by blast
    with kg have k: "manifest_kind (ff_path f) = (d, Some (fst g))" by (auto simp: kind_group_def)
    moreover have "(d, Some (fst g)) \<notin> Pair d ` Some ` fst ` set gs" using Cons.prems(2) by auto
    ultimately show ?thesis using ps f by (intro exI [of _ "ff_path f # ps"]) (auto simp: image_Un)
  qed
qed

text \<open>The files of one folder.\<close>

definition folder_group :: "string \<times> found_file list \<Rightarrow> bool" where
  "folder_group g \<longleftrightarrow>
     (\<forall>f\<in>set (snd g). f = describe_file (ff_path f) \<and> ff_dir f = fst g \<and> ff_path f \<noteq> [])"

lemma groupBy_facts:
  assumes "ff_lib_ok lib"
  shows "distinct (map fst (ff_groupBy lib f xs))"
    and "fst ` set (ff_groupBy lib f xs) = f ` set xs"
    and "(k, fs) \<in> set (ff_groupBy lib f xs) \<Longrightarrow> fs = filter (\<lambda>x. f x = k) xs \<and> fs \<noteq> []"
proof -
  let ?g = "ff_groupBy lib f xs"
  have ok: "wf_obj ?g" "\<And>k. obj_get ?g k = (if k \<in> f ` set xs then Some (filter (\<lambda>x. f x = k) xs) else None)"
    using assms by (auto simp: ff_lib_ok_def)
  from ok(1) show d: "distinct (map fst ?g)" by (simp add: wf_obj_def obj_keys_def)
  have "dom (map_of ?g) = f ` set xs"
    using ok(2) by (auto simp: obj_get_def dom_def split: if_splits)
  then show "fst ` set ?g = f ` set xs" by (simp add: dom_map_of_conv_image_fst)
  assume "(k, fs) \<in> set ?g"
  then have "obj_get ?g k = Some fs" using d by (simp add: obj_get_def)
  with ok(2) [of k] show "fs = filter (\<lambda>x. f x = k) xs \<and> fs \<noteq> []"
    by (auto simp: filter_empty_conv split: if_splits)
qed

lemma manager_truthy: "detectProjectTypeFromFile p = Some m \<Longrightarrow> m \<noteq> []"
proof -
  have "manager_str q \<noteq> []" for q by (cases q) auto
  then show "detectProjectTypeFromFile p = Some m \<Longrightarrow> m \<noteq> []"
    by (auto simp: detectProjectTypeFromFile_def detectPackageManagerFromFile_def split: sum.splits option.splits if_splits)
qed

lemma described_kind: "f = describe_file (ff_path f) \<Longrightarrow> manifest_kind (ff_path f) = (ff_dir f, ff_manager f)"
  by (metis describe_file_def found_file.select_convs(2,4) manifest_kind_def)

text \<open>Every kind of project with a default manifest that occurs in the folder has a manifest in the list.\<close>

definition represented_in :: "string list \<Rightarrow> string \<times> found_file list \<Rightarrow> bool" where
  "represented_in ps g \<longleftrightarrow>
     (\<forall>f\<in>set (snd g). \<forall>m\<in>set represented_kinds.
        ff_manager f = Some m \<longrightarrow> (fst g, Some m) \<in> manifest_kind ` set ps)"

lemma represented_mono: "represented_in ps g \<Longrightarrow> set ps \<subseteq> set qs \<Longrightarrow> represented_in qs g"
  unfolding represented_in_def by blast

lemma folder_step_effect:
  assumes lib: "ff_lib_ok lib" and run: "folder_step en lib g acc = Inr r" and g: "folder_group g"
  shows "\<exists>ps. r = acc @ ps \<and> distinct (map manifest_kind ps) \<and> fst ` manifest_kind ` set ps \<subseteq> {fst g} \<and>
    set ps \<subseteq> ff_path ` set (snd g) \<and>
    represented_in ps g"
proof -
  let ?fs = "filter (\<lambda>f. truthy (ff_manager f)) (snd g)"
  let ?gs = "ff_groupBy lib manager_key ?fs"
  have k: "kind_group (fst g) h" if h: "h \<in> set ?gs" for h
  proof -
    from h have h': "(fst h, snd h) \<in> set ?gs" by simp
    from groupBy_facts(3) [OF lib h'] have h2: "snd h = filter (\<lambda>f. manager_key f = fst h) ?fs" "snd h \<noteq> []"
      by blast+
    have "manifest_kind (ff_path f) = (fst g, Some (fst h)) \<and> ff_path f \<noteq> []" if f: "f \<in> set (snd h)" for f
      using f g h2(1) described_kind [of f]
      by (auto simp: folder_group_def manager_key_def truthy_def str_of_opt_def split: option.splits)
    with h2(2) show ?thesis by (simp add: kind_group_def)
  qed
  from choose_loop [OF run [unfolded folder_step_def] groupBy_facts(1) [OF lib] k] obtain ps where
    ps: "r = acc @ ps" "distinct (map manifest_kind ps)"
      "manifest_kind ` set ps \<subseteq> Pair (fst g) ` Some ` fst ` set ?gs"
      "set ps \<subseteq> ff_path ` \<Union> ((set \<circ> snd) ` set ?gs)"
      "\<forall>m. m \<in> set represented_kinds \<longrightarrow> m \<in> fst ` set ?gs \<longrightarrow> (fst g, Some m) \<in> manifest_kind ` set ps"
    by blast
  have "\<Union> ((set \<circ> snd) ` set ?gs) \<subseteq> set (snd g)"
    using groupBy_facts(3) [OF lib] by fastforce
  with ps(4) have s: "set ps \<subseteq> ff_path ` set (snd g)" by blast
  have "(fst g, Some m) \<in> manifest_kind ` set ps"
    if "f \<in> set (snd g)" "m \<in> set represented_kinds" "ff_manager f = Some m" for f m
  proof -
    from that have "f \<in> set ?fs" "manager_key f = m"
      by (auto simp: truthy_def represented_kinds_def manager_key_def str_of_opt_def)
    then have "m \<in> fst ` set ?gs" using groupBy_facts(2) [OF lib, of manager_key ?fs] by auto
    with ps(5) that(2) show ?thesis by blast
  qed
  then have "represented_in ps g" unfolding represented_in_def by blast
  with ps(1,2) s ps(3) show ?thesis by (intro exI [of _ ps]) auto
qed

lemma folders_loop:
  assumes lib: "ff_lib_ok lib"
  shows "foldS (folder_step en lib) gs acc = Inr r \<Longrightarrow> distinct (map fst gs) \<Longrightarrow> list_all folder_group gs \<Longrightarrow>
    \<exists>ps. r = acc @ ps \<and> distinct (map manifest_kind ps) \<and> fst ` manifest_kind ` set ps \<subseteq> fst ` set gs \<and>
      set ps \<subseteq> ff_path ` \<Union> ((set \<circ> snd) ` set gs) \<and> list_all (represented_in ps) gs"
proof (induction gs arbitrary: acc)
  case Nil
  then show ?case by auto
next
  case (Cons g gs)
  from Cons.prems(1) obtain a where a: "folder_step en lib g acc = Inr a" "foldS (folder_step en lib) gs a = Inr r"
    by (auto simp: bindS_Inr_iff)
  have g: "folder_group g" using Cons.prems(3) by simp
  from folder_step_effect [OF lib a(1) g] obtain ps where
    ps: "a = acc @ ps" "distinct (map manifest_kind ps)" "fst ` manifest_kind ` set ps \<subseteq> {fst g}"
      "set ps \<subseteq> ff_path ` set (snd g)" "represented_in ps g" by auto
  from Cons.IH [OF a(2)] Cons.prems(2,3) obtain qs where
    qs: "r = a @ qs" "distinct (map manifest_kind qs)" "fst ` manifest_kind ` set qs \<subseteq> fst ` set gs"
      "set qs \<subseteq> ff_path ` \<Union> ((set \<circ> snd) ` set gs)" "list_all (represented_in qs) gs" by auto
  have "fst g \<notin> fst ` set gs" using Cons.prems(2) by simp
  have no: "False" if "x \<in> manifest_kind ` set ps" "x \<in> manifest_kind ` set qs" for x
  proof -
    have "fst x \<in> {fst g}" by (rule subsetD [OF ps(3)], rule imageI, rule that(1))
    moreover have "fst x \<in> fst ` set gs" by (rule subsetD [OF qs(3)], rule imageI, rule that(2))
    ultimately show False using \<open>fst g \<notin> fst ` set gs\<close> by simp
  qed
  then have "manifest_kind ` set ps \<inter> manifest_kind ` set qs = {}" by blast
  then have d: "distinct (map manifest_kind (ps @ qs))" using ps(2) qs(2) by simp
  have f: "fst ` manifest_kind ` set (ps @ qs) \<subseteq> fst ` set (g # gs)"
    using ps(3) qs(3) by (simp add: image_Un) blast
  have s: "set (ps @ qs) \<subseteq> ff_path ` \<Union> ((set \<circ> snd) ` set (g # gs))"
    using ps(4) qs(4) by (simp add: image_Un) blast
  have c: "list_all (represented_in (ps @ qs)) (g # gs)"
    using represented_mono [OF ps(5), of "ps @ qs"] qs(5) represented_mono [of qs _ "ps @ qs"]
    by (auto simp: list_all_iff)
  show ?case using ps(1) qs(1) d f s c by (intro exI [of _ "ps @ qs"]) simp
qed

definition relevant_files :: "pworld \<Rightarrow> string list \<Rightarrow> found_file list" where
  "relevant_files w files = map describe_file (filter (\<lambda>p. existsSync w p) (filter (\<lambda>p. p \<noteq> []) files))"

lemma sorted_set: "ff_lib_ok lib \<Longrightarrow> set (ff_sortBy_dir lib xs) = set xs"
  unfolding ff_lib_ok_def using mset_eq_setD by blast

lemma describe_path [simp]: "ff_path (describe_file p) = p" "ff_dir (describe_file p) = path_dir p"
  "ff_base (describe_file p) = path_base p" "ff_manager (describe_file p) = detectProjectTypeFromFile p"
  by (simp_all add: describe_file_def)

lemma folder_groups:
  assumes "ff_lib_ok lib" and "g \<in> set (ff_groupBy lib ff_dir (ff_sortBy_dir lib (relevant_files w files)))"
  shows "folder_group g"
    and "set (snd g) = {f \<in> set (relevant_files w files). ff_dir f = fst g}"
proof -
  have g': "(fst g, snd g) \<in> set (ff_groupBy lib ff_dir (ff_sortBy_dir lib (relevant_files w files)))"
    using assms(2) by simp
  from groupBy_facts(3) [OF assms(1) g'] sorted_set [OF assms(1)]
  show s: "set (snd g) = {f \<in> set (relevant_files w files). ff_dir f = fst g}" by auto
  show "folder_group g" unfolding folder_group_def s by (auto simp: relevant_files_def)
qed

lemma filter_default_effect:
  assumes lib: "ff_lib_ok lib" and run: "filterForDefaultManifests en lib w files = Inr out"
  shows "set out \<subseteq> set files" and "distinct (map manifest_kind out)"
    and "\<And>f d m. f \<in> set files \<Longrightarrow> f \<noteq> [] \<Longrightarrow> existsSync w f \<Longrightarrow> manifest_kind f = (d, Some m) \<Longrightarrow>
      m \<in> set represented_kinds \<Longrightarrow> (d, Some m) \<in> manifest_kind ` set out"
proof -
  let ?gs = "ff_groupBy lib ff_dir (ff_sortBy_dir lib (relevant_files w files))"
  have all: "set out \<subseteq> set files \<and> distinct (map manifest_kind out) \<and>
      (\<forall>f d m. f \<in> set files \<longrightarrow> f \<noteq> [] \<longrightarrow> existsSync w f \<longrightarrow> manifest_kind f = (d, Some m) \<longrightarrow>
        m \<in> set represented_kinds \<longrightarrow> (d, Some m) \<in> manifest_kind ` set out)"
  proof (cases "length files \<le> 1")
    case True
    then obtain "out = files" using run by (simp add: filterForDefaultManifests_def)
    with True show ?thesis by (cases files) (auto simp: image_iff)
  next
    case False
    then have l: "foldS (folder_step en lib) ?gs [] = Inr out"
      using run by (simp add: filterForDefaultManifests_def relevant_files_def Let_def)
    have fg: "list_all folder_group ?gs" using folder_groups(1) [OF lib] by (auto simp: list_all_iff)
    from folders_loop [OF lib l groupBy_facts(1) [OF lib] fg] obtain ps where
      ps: "out = ps" "distinct (map manifest_kind ps)" "set ps \<subseteq> ff_path ` \<Union> ((set \<circ> snd) ` set ?gs)"
        "list_all (represented_in ps) ?gs" by auto
    have "\<Union> ((set \<circ> snd) ` set ?gs) \<subseteq> set (relevant_files w files)"
      using folder_groups(2) [OF lib] by auto
    then have "set ps \<subseteq> ff_path ` set (relevant_files w files)" using ps(3) by blast
    also have "\<dots> \<subseteq> set files" by (auto simp: relevant_files_def)
    finally have s: "set ps \<subseteq> set files" .
    have "(d, Some m) \<in> manifest_kind ` set ps"
      if f: "f \<in> set files" "f \<noteq> []" "existsSync w f" "manifest_kind f = (d, Some m)" "m \<in> set represented_kinds" for f d m
    proof -
      have r: "describe_file f \<in> set (relevant_files w files)" using f by (auto simp: relevant_files_def)
      have d: "ff_dir (describe_file f) = d" "ff_manager (describe_file f) = Some m"
        using f(4) by (simp_all add: manifest_kind_def)
      have "ff_dir (describe_file f) \<in> ff_dir ` set (ff_sortBy_dir lib (relevant_files w files))"
        unfolding sorted_set [OF lib] using r by (rule imageI)
      then have "d \<in> fst ` set ?gs" by (simp only: groupBy_facts(2) [OF lib] d(1))
      then obtain fs where g: "(d, fs) \<in> set ?gs" by fastforce
      with folder_groups(2) [OF lib g] r d have "describe_file f \<in> set (snd (d, fs))" by simp
      moreover from ps(4) g have "represented_in ps (d, fs)" by (auto simp: list_all_iff)
      ultimately show ?thesis using f(5) d(2) unfolding represented_in_def by (metis fst_conv)
    qed
    with ps(1,2) s show ?thesis by auto
  qed
  show "set out \<subseteq> set files" by (rule conjunct1 [OF all])
  show "distinct (map manifest_kind out)" by (rule conjunct1 [OF conjunct2 [OF all]])
  show "\<And>f d m. f \<in> set files \<Longrightarrow> f \<noteq> [] \<Longrightarrow> existsSync w f \<Longrightarrow> manifest_kind f = (d, Some m) \<Longrightarrow>
      m \<in> set represented_kinds \<Longrightarrow> (d, Some m) \<in> manifest_kind ` set out"
    by (rule conjunct2 [OF conjunct2 [OF all], rule_format])
qed

section \<open>The names the tool searches for\<close>

text \<open>Of two manifests with names from the list and for one kind of project, one is the default manifest.\<close>

definition auto_kind_list :: "(string \<times> string option) list" where
  "auto_kind_list =
     [(''package-lock.json'', Some ''node''), (''yarn.lock'', Some ''node''), (''package.json'', Some ''node''),
      (''Gemfile'', Some ''rubygems''), (''Gemfile.lock'', Some ''rubygems''), (''pom.xml'', Some ''maven''),
      (''packages.config'', Some ''nuget''), (''paket.dependencies'', Some ''paket''),
      (''project.json'', Some ''nuget''), (''project.assets.json'', Some ''nuget''),
      (''Podfile'', Some ''cocoapods''), (''Podfile.lock'', Some ''cocoapods''),
      (''composer.lock'', Some ''composer''), (''Gopkg.lock'', Some ''golangdep''),
      (''go.mod'', Some ''gomodules''), (''vendor.json'', Some ''govendor''), (''Pipfile'', Some ''pip''),
      (''requirements.txt'', Some ''pip''), (''build.sbt'', Some ''sbt''), (''build.gradle'', Some ''gradle''),
      (''build.gradle.kts'', Some ''gradle''), (''poetry.lock'', Some ''poetry''), (''mix.exs'', Some ''hex''),
      (''mix.lock'', None), (''Package.swift'', Some ''swift'')]"

lemma auto_kind_list: "map (\<lambda>a. (a, detectProjectTypeFromFile a)) AUTO_DETECTABLE_FILES = auto_kind_list"
  by code_simp

lemma filter_by_table: "filter (\<lambda>a. P a (f a)) xs = map fst (filter (\<lambda>(a, k). P a k) (map (\<lambda>a. (a, f a)) xs))"
  by (induction xs) auto

lemma auto_kind_counts:
  "list_all (\<lambda>(m, names). length (filter (\<lambda>(a, k). k = Some m \<and> a \<notin> set names) auto_kind_list) \<le> 1) preferred"
  by code_simp

lemma auto_kind_table:
  "list_all (\<lambda>(m, names). length (filter (\<lambda>a. detectProjectTypeFromFile a = Some m \<and> a \<notin> set names)
     AUTO_DETECTABLE_FILES) \<le> 1) preferred"
  using auto_kind_counts unfolding filter_by_table [of "\<lambda>a k. k = Some _ \<and> a \<notin> _"] auto_kind_list by simp

lemma auto_kinds:
  assumes "a \<in> set AUTO_DETECTABLE_FILES" "b \<in> set AUTO_DETECTABLE_FILES" "a \<noteq> b"
    and "detectProjectTypeFromFile a = Some m" "detectProjectTypeFromFile b = Some m"
    and "map_of preferred m = Some names"
  shows "a \<in> set names \<or> b \<in> set names"
proof (rule ccontr)
  assume n: "\<not> (a \<in> set names \<or> b \<in> set names)"
  let ?xs = "filter (\<lambda>a. detectProjectTypeFromFile a = Some m \<and> a \<notin> set names) AUTO_DETECTABLE_FILES"
  have "(m, names) \<in> set preferred" using assms(6) by (rule map_of_SomeD)
  with auto_kind_table have "length ?xs \<le> 1" unfolding list_all_iff by blast
  moreover have "{a, b} \<subseteq> set ?xs" using assms n by simp
  then have "card {a, b} \<le> length ?xs" by (meson List.finite_set card_length card_mono le_trans)
  ultimately show False using assms(3) by simp
qed

lemma auto_plain: "list_all (\<lambda>a. sep \<notin> set a) AUTO_DETECTABLE_FILES"
  by code_simp

lemma kind_of_base:
  assumes "path_base f \<in> set AUTO_DETECTABLE_FILES"
  shows "detectProjectTypeFromFile f = detectProjectTypeFromFile (path_base f)"
proof -
  from assms auto_plain have "sep \<notin> set (path_base f)" unfolding list_all_iff by blast
  then have "path_base (path_base f) = path_base f" by simp
  then have "manifest_key (path_base f) = manifest_key f" by (simp add: manifest_key_def)
  then show ?thesis
    by (simp add: detectProjectTypeFromFile_def detectPackageManagerFromFile_def split: option.splits)
qed

lemma foldS_total:
  assumes "\<And>x acc. x \<in> set xs \<Longrightarrow> \<exists>a. f x acc = Inr a"
  shows "\<exists>r. foldS f xs acc = Inr r"
  using assms
proof (induction xs arbitrary: acc)
  case Nil
  then show ?case by simp
next
  case (Cons x xs)
  from Cons.prems [of x acc] obtain a where "f x acc = Inr a" by auto
  with Cons.IH [of a] Cons.prems show ?case by auto
qed

lemma choose_step_total:
  assumes "length fs \<le> 1 \<or> (\<forall>names. map_of preferred m = Some names \<longrightarrow> (\<exists>f\<in>set fs. ff_base f \<in> set names))"
  shows "\<exists>a. choose_step en (m, fs) acc = Inr a"
proof -
  have "\<exists>c. (if length fs \<le> 1 then Inr (Some (ff_path (hd fs))) else chooseBestManifest fs m) = Inr c"
    using assms
    by (auto simp: chooseBestManifest_def first_named_def filter_empty_conv split: option.splits list.splits)
  then show ?thesis by (auto simp: choose_step_def split: option.splits)
qed

lemma distinct_map_mset: "mset xs = mset ys \<Longrightarrow> distinct (map h xs) = distinct (map h ys)"
  by (rule mset_eq_imp_distinct_iff) (simp add: mset_map)

lemma two_of_distinct:
  assumes "distinct (map h xs)" and "\<not> length xs \<le> 1"
  obtains a b where "a \<in> set xs" "b \<in> set xs" "h a \<noteq> h b"
proof -
  from assms(2) obtain a b ys where "xs = a # b # ys"
    by (cases xs; cases "tl xs") auto
  with assms(1) that [of a b] show ?thesis by auto
qed

lemma folder_step_total:
  assumes lib: "ff_lib_ok lib"
    and auto: "\<And>f. f \<in> set (snd g) \<Longrightarrow> ff_base f \<in> set AUTO_DETECTABLE_FILES \<and>
      ff_manager f = detectProjectTypeFromFile (ff_base f)"
    and dist: "distinct (map ff_base (snd g))"
  shows "\<exists>a. folder_step en lib g acc = Inr a"
  unfolding folder_step_def
proof (rule foldS_total)
  fix h acc
  let ?fs = "filter (\<lambda>f. truthy (ff_manager f)) (snd g)"
  assume h: "h \<in> set (ff_groupBy lib manager_key ?fs)"
  obtain m fs where mf: "h = (m, fs)" by fastforce
  from groupBy_facts(3) [OF lib h [unfolded mf]] have fs: "fs = filter (\<lambda>f. manager_key f = m) ?fs" by blast
  have m: "ff_manager f = Some m \<and> f \<in> set (snd g)" if "f \<in> set fs" for f
    using that unfolding fs by (auto simp: manager_key_def truthy_def str_of_opt_def split: option.splits)
  have d: "distinct (map ff_base fs)" unfolding fs using dist by (simp add: distinct_map_filter)
  have "\<exists>f\<in>set fs. ff_base f \<in> set names" if n: "map_of preferred m = Some names" and l: "\<not> length fs \<le> 1" for names
  proof -
    from two_of_distinct [OF d l] obtain a b where ab: "a \<in> set fs" "b \<in> set fs" "ff_base a \<noteq> ff_base b" .
    from auto m [OF ab(1)] m [OF ab(2)] have k: "ff_base a \<in> set AUTO_DETECTABLE_FILES" "ff_base b \<in> set AUTO_DETECTABLE_FILES"
      "detectProjectTypeFromFile (ff_base a) = Some m" "detectProjectTypeFromFile (ff_base b) = Some m" by metis+
    from auto_kinds [OF k(1,2) ab(3) k(3,4) n] ab show ?thesis by blast
  qed
  then show "\<exists>a. choose_step en h acc = Inr a" unfolding mf by (intro choose_step_total) blast
qed

lemma filter_default_total:
  assumes lib: "ff_lib_ok lib" and auto: "path_base ` set files \<subseteq> set AUTO_DETECTABLE_FILES"
    and dist: "distinct (map (\<lambda>f. (path_dir f, path_base f)) files)"
  shows "\<exists>out. filterForDefaultManifests en lib w files = Inr out"
proof -
  let ?s = "ff_sortBy_dir lib (relevant_files w files)"
  let ?gs = "ff_groupBy lib ff_dir ?s"
  have "distinct (map (\<lambda>f. (ff_dir f, ff_base f)) (relevant_files w files))"
    using dist by (simp add: relevant_files_def o_def distinct_map_filter)
  moreover have "mset ?s = mset (relevant_files w files)" using lib by (simp add: ff_lib_ok_def)
  ultimately have ds: "distinct (map (\<lambda>f. (ff_dir f, ff_base f)) ?s)" using distinct_map_mset by blast
  have "\<exists>a. folder_step en lib g acc = Inr a" if g: "g \<in> set ?gs" for g acc
  proof (rule folder_step_total [OF lib])
    have g': "(fst g, snd g) \<in> set ?gs" using g by simp
    have sg: "snd g = filter (\<lambda>f. ff_dir f = fst g) ?s" using groupBy_facts(3) [OF lib g'] by blast
    have "distinct (map (\<lambda>f. (ff_dir f, ff_base f)) (snd g))" unfolding sg by (rule distinct_map_filter [OF ds])
    moreover have "map (\<lambda>f. (ff_dir f, ff_base f)) (snd g) = map (Pair (fst g)) (map ff_base (snd g))"
      unfolding sg by simp
    ultimately show "distinct (map ff_base (snd g))" by (metis distinct_map)
    fix f assume "f \<in> set (snd g)"
    then obtain p where p: "p \<in> set files" "f = describe_file p"
      unfolding folder_groups(2) [OF lib g] by (auto simp: relevant_files_def)
    with auto have "path_base p \<in> set AUTO_DETECTABLE_FILES" by blast
    with p(2) show "ff_base f \<in> set AUTO_DETECTABLE_FILES \<and> ff_manager f = detectProjectTypeFromFile (ff_base f)"
      by (simp add: kind_of_base)
  qed
  then have "\<exists>r. foldS (folder_step en lib) ?gs [] = Inr r" by (rule foldS_total)
  then show ?thesis
    by (auto simp: filterForDefaultManifests_def relevant_files_def Let_def)
qed

section \<open>What the search returns\<close>

text \<open>
  The files the search is meant to reach from a path within a number of levels: with one of the
  names, not below a folder that is ignored, and behind links as well.
\<close>

definition searched :: "string \<Rightarrow> bool" where
  "searched p \<longleftrightarrow> \<not> js_endsWith p ''node_modules'' \<and> \<not> js_endsWith p ''/.build''"

inductive reaches :: "penv \<Rightarrow> pworld \<Rightarrow> string list \<Rightarrow> string list \<Rightarrow> nat \<Rightarrow> string \<Rightarrow> string \<Rightarrow> bool"
  for en w ban names where
  reach_file: "searched p \<Longrightarrow> nodes w (follow w p) = Some (FileNode t) \<Longrightarrow> names = [] \<or> path_base p \<in> set names \<Longrightarrow>
    reaches en w ban names (Suc n) p p"
| reach_below: "searched p \<Longrightarrow> nodes w (follow w p) = Some (DirNode ns) \<Longrightarrow> f \<in> set ns \<Longrightarrow> f \<notin> set ban \<Longrightarrow>
    existsSync w (resolve en [p, f]) \<Longrightarrow> reaches en w ban names n (resolve en [p, f]) q \<Longrightarrow>
    reaches en w ban names (Suc n) p q"

inductive_cases reaches_0E: "reaches en w ban names 0 p q"

lemma reaches_Suc:
  "reaches en w ban names (Suc n) p q \<longleftrightarrow> searched p \<and>
     ((\<exists>t. nodes w (follow w p) = Some (FileNode t) \<and> q = p \<and> (names = [] \<or> path_base p \<in> set names)) \<or>
      (\<exists>ns f. nodes w (follow w p) = Some (DirNode ns) \<and> f \<in> set ns \<and> f \<notin> set ban \<and>
         existsSync w (resolve en [p, f]) \<and> reaches en w ban names n (resolve en [p, f]) q))"
  by (subst reaches.simps) auto

lemma reaches_exists: "reaches en w ban names n p q \<Longrightarrow> existsSync w q"
  by (induction rule: reaches.induct) (auto simp: existsSync_def follow_def split: option.splits node.splits)

lemma resolve_nonempty: "resolve en ps \<noteq> []"
  by (simp add: resolve_def path_resolve_def Let_def)

lemma reaches_nonempty: "reaches en w ban names n p q \<Longrightarrow> p \<noteq> [] \<Longrightarrow> q \<noteq> []"
  by (induction rule: reaches.induct) (auto simp: resolve_nonempty)

lemma with_ignored_twice [simp]: "with_ignored (with_ignored ignore) = with_ignored ignore"
  by (auto simp: with_ignored_def ignoreFolders_def)

lemma map_sum_InrD: "map_sum g id z = Inr r \<Longrightarrow> z = Inr r"
  by (cases z) auto

lemma mapS_results:
  "mapS f xs = Inr ys \<Longrightarrow> ys = map (\<lambda>x. projr (f x)) xs \<and> (\<forall>x\<in>set xs. f x = Inr (projr (f x)))"
  by (induction xs arbitrary: ys) (auto simp: bindS_Inr_iff)

text \<open>What one level adds to the levels below it.\<close>

definition answer_ok :: "penv \<Rightarrow> pworld \<Rightarrow> string list \<Rightarrow> string list \<Rightarrow> nat \<Rightarrow> string \<Rightarrow> string list \<times> string list \<Rightarrow> bool" where
  "answer_ok en w ban names n p r \<longleftrightarrow>
     set (snd r) = {q. reaches en w ban names n p q} \<and> set (fst r) \<subseteq> set (snd r) \<and>
     distinct (map manifest_kind (fst r)) \<and>
     (\<forall>q d m. q \<in> set (snd r) \<longrightarrow> manifest_kind q = (d, Some m) \<longrightarrow> m \<in> set represented_kinds \<longrightarrow>
        (d, Some m) \<in> manifest_kind ` set (fst r))"

lemma filtered_ok:
  assumes lib: "ff_lib_ok lib" and run: "filterForDefaultManifests en lib w found = Inr files"
    and all: "set foundAll = {q. reaches en w ban names n p q}" and p: "p \<noteq> []"
    and sub: "set found \<subseteq> set foundAll"
    and rep: "\<And>q d m. q \<in> set foundAll \<Longrightarrow> manifest_kind q = (d, Some m) \<Longrightarrow> m \<in> set represented_kinds \<Longrightarrow>
      (d, Some m) \<in> manifest_kind ` set found"
  shows "answer_ok en w ban names n p (files, foundAll)"
proof -
  note f = filter_default_effect [OF lib run]
  have "(d, Some m) \<in> manifest_kind ` set files"
    if q: "q \<in> set foundAll" "manifest_kind q = (d, Some m)" "m \<in> set represented_kinds" for q d m
  proof -
    from rep [OF q] obtain g where g: "g \<in> set found" "manifest_kind g = (d, Some m)" by auto
    with sub all have r: "reaches en w ban names n p g" by blast
    from f(3) [OF g(1) reaches_nonempty [OF r p] reaches_exists [OF r] g(2) q(3)] show ?thesis .
  qed
  with f(1,2) sub all show ?thesis unfolding answer_ok_def by auto
qed

lemma directory_ok:
  assumes run: "findInDirectory child en w ban p = Inr (found, foundAll)"
    and dir: "nodes w (follow w p) = Some (DirNode ns)"
    and child: "\<And>f r. existsSync w (resolve en [p, f]) \<Longrightarrow> child (resolve en [p, f]) = Inr r \<Longrightarrow>
      answer_ok en w ban names n (resolve en [p, f]) r"
  shows "set foundAll = {q. \<exists>f. f \<in> set ns \<and> f \<notin> set ban \<and> existsSync w (resolve en [p, f]) \<and>
      reaches en w ban names n (resolve en [p, f]) q}"
    and "set found \<subseteq> set foundAll"
    and "q \<in> set foundAll \<Longrightarrow> manifest_kind q = (d, Some m) \<Longrightarrow> m \<in> set represented_kinds \<Longrightarrow>
      (d, Some m) \<in> manifest_kind ` set found"
proof -
  let ?fs = "filter (\<lambda>f. f \<notin> set ban) ns"
  let ?get = "\<lambda>f. if existsSync w (resolve en [p, f]) then child (resolve en [p, f]) else Inr ([], [])"
  from run dir obtain rs where rs: "mapS ?get ?fs = Inr rs" "found = concat (map fst rs)" "foundAll = concat (map snd rs)"
    by (auto simp: findInDirectory_def readDirectory_def bindS_Inr_iff)
  from mapS_results [OF rs(1)] have r: "rs = map (\<lambda>f. projr (?get f)) ?fs" "\<forall>f\<in>set ?fs. ?get f = Inr (projr (?get f))"
    by blast+
  have ok: "answer_ok en w ban names n (resolve en [p, f]) (projr (?get f))"
    if "f \<in> set ?fs" "existsSync w (resolve en [p, f])" for f
  proof -
    from r(2) that(1) have "?get f = Inr (projr (?get f))" by blast
    with that(2) have "child (resolve en [p, f]) = Inr (projr (?get f))" by simp
    then show ?thesis by (rule child [OF that(2)])
  qed
  have none: "projr (?get f) = ([], [])" if "\<not> existsSync w (resolve en [p, f])" for f
    using that by simp
  have ins: "q \<in> set foundAll \<longleftrightarrow> (\<exists>f\<in>set ?fs. q \<in> set (snd (projr (?get f))))"
    and infnd: "q \<in> set found \<longleftrightarrow> (\<exists>f\<in>set ?fs. q \<in> set (fst (projr (?get f))))" for q
    unfolding rs(2,3) r(1) by auto
  show "set foundAll = {q. \<exists>f. f \<in> set ns \<and> f \<notin> set ban \<and> existsSync w (resolve en [p, f]) \<and>
      reaches en w ban names n (resolve en [p, f]) q}" (is "_ = ?R")
  proof (intro set_eqI)
    fix q
    have "q \<in> set (snd (projr (?get f))) \<longleftrightarrow>
        existsSync w (resolve en [p, f]) \<and> reaches en w ban names n (resolve en [p, f]) q" if "f \<in> set ?fs" for f
      using ok [OF that] none [of f] unfolding answer_ok_def by (cases "existsSync w (resolve en [p, f])") simp_all
    with ins [of q] show "q \<in> set foundAll \<longleftrightarrow> q \<in> ?R" by auto
  qed
  have sub: "set (fst (projr (?get f))) \<subseteq> set (snd (projr (?get f)))" if "f \<in> set ?fs" for f
  proof (cases "existsSync w (resolve en [p, f])")
    case True
    from ok [OF that True] show ?thesis unfolding answer_ok_def by blast
  next
    case False
    then show ?thesis by simp
  qed
  with ins infnd show "set found \<subseteq> set foundAll" by blast
  assume q: "q \<in> set foundAll" "manifest_kind q = (d, Some m)" "m \<in> set represented_kinds"
  then obtain f where f: "f \<in> set ?fs" "q \<in> set (snd (projr (?get f)))" using ins by blast
  then have "existsSync w (resolve en [p, f])" using none [of f] by (cases "existsSync w (resolve en [p, f])") simp_all
  from ok [OF f(1) this] f(2) q(2,3) have "(d, Some m) \<in> manifest_kind ` set (fst (projr (?get f)))"
    unfolding answer_ok_def by blast
  with infnd f(1) show "(d, Some m) \<in> manifest_kind ` set found" by blast
qed

lemma find_files_ok:
  assumes lib: "ff_lib_ok lib"
  shows "find_files n en lib w ignore names p = Inr r \<Longrightarrow> p \<noteq> [] \<Longrightarrow>
    answer_ok en w (with_ignored ignore) names n p r"
proof (induction n arbitrary: ignore p r)
  case 0
  then have "r = ([], [])" by simp
  then show ?case by (auto simp: answer_ok_def elim: reaches_0E)
next
  case (Suc n)
  let ?ban = "with_ignored ignore"
  show ?case
  proof (cases "searched p")
    case False
    with Suc.prems(1) have "r = ([], [])" by (auto simp: searched_def)
    with False show ?thesis by (simp add: answer_ok_def reaches_Suc)
  next
    case True
    with Suc.prems(1) obtain st found foundAll files where
      st: "nodes w (follow w p) = Some st" and
      body: "(case st of
          DirNode ns \<Rightarrow> findInDirectory (find_files n en lib w ?ban names) en w ?ban p
        | FileNode t \<Rightarrow> Inr (case findFile p names of None \<Rightarrow> ([], []) | Some f \<Rightarrow> ([f], [f]))
        | LinkNode q \<Rightarrow> Inr ([], [])) = Inr (found, foundAll)" and
      fl: "filterForDefaultManifests en lib w found = Inr files" and r: "r = (files, foundAll)"
      by (auto simp: searched_def getStats_def bindS_Inr_iff dest!: map_sum_InrD split: option.splits)
    show ?thesis
      unfolding r
    proof (rule filtered_ok [OF lib fl _ Suc.prems(2)])
      show "set foundAll = {q. reaches en w ?ban names (Suc n) p q}"
        and "set found \<subseteq> set foundAll"
        and "\<And>q d m. q \<in> set foundAll \<Longrightarrow> manifest_kind q = (d, Some m) \<Longrightarrow> m \<in> set represented_kinds \<Longrightarrow>
          (d, Some m) \<in> manifest_kind ` set found"
      proof (atomize (full), cases st)
        case (DirNode ns)
        with body have d: "findInDirectory (find_files n en lib w ?ban names) en w ?ban p = Inr (found, foundAll)" by simp
        have c: "answer_ok en w ?ban names n (resolve en [p, f]) r"
          if "find_files n en lib w ?ban names (resolve en [p, f]) = Inr r" for f r
          using Suc.IH [OF that resolve_nonempty] by simp
        note dir = directory_ok [OF d st [unfolded DirNode] c]
        show "set foundAll = {q. reaches en w ?ban names (Suc n) p q} \<and> set found \<subseteq> set foundAll \<and>
          (\<forall>q d m. q \<in> set foundAll \<longrightarrow> manifest_kind q = (d, Some m) \<longrightarrow> m \<in> set represented_kinds \<longrightarrow>
            (d, Some m) \<in> manifest_kind ` set found)"
          using dir st DirNode True by (simp add: reaches_Suc)
      qed (use body st True in \<open>auto simp: findFile_def reaches_Suc split: option.splits if_splits\<close>)
    qed
  qed
qed

section \<open>Properties\<close>

text \<open>C20: Whenever the search returns, the second list holds exactly the files it is meant to reach (with one of the
  names, within the number of levels, outside of ignored folders); the first list is a part of it with at most one
  manifest per folder and kind of project, and every kind of project with a default manifest that occurs in a folder
  keeps one there.\<close>

theorem search_complete:
  assumes "ff_lib_ok lib" and "p \<noteq> []" and "find_files n en lib w ignore names p = Inr (files, foundAll)"
  shows "set foundAll = {q. reaches en w (with_ignored ignore) names n p q} \<and> set files \<subseteq> set foundAll \<and>
    distinct (map manifest_kind files) \<and>
    (\<forall>q d m. q \<in> set foundAll \<longrightarrow> manifest_kind q = (d, Some m) \<longrightarrow> m \<in> set represented_kinds \<longrightarrow>
       (d, Some m) \<in> manifest_kind ` set files)"
  using find_files_ok [OF assms(1,3,2)] unfolding answer_ok_def fst_conv snd_conv .

text \<open>For files with the names the tool searches for, no two of them with the same folder and name, the choice of
  the default manifests never throws (for other names it can: the chosen file is read before it is known to exist); it
  returns some of the files, at most one per folder and kind of project, and one for every kind with a default
  manifest.\<close>

theorem default_manifests:
  assumes "ff_lib_ok lib" and "path_base ` set files \<subseteq> set AUTO_DETECTABLE_FILES"
    and "distinct (map (\<lambda>f. (path_dir f, path_base f)) files)"
  shows "\<exists>out. filterForDefaultManifests en lib w files = Inr out \<and> set out \<subseteq> set files \<and>
    distinct (map manifest_kind out) \<and>
    (\<forall>f d m. f \<in> set files \<longrightarrow> f \<noteq> [] \<longrightarrow> existsSync w f \<longrightarrow> manifest_kind f = (d, Some m) \<longrightarrow>
       m \<in> set represented_kinds \<longrightarrow> (d, Some m) \<in> manifest_kind ` set out)"
proof -
  from filter_default_total [OF assms] obtain out where o: "filterForDefaultManifests en lib w files = Inr out" by blast
  note e = filter_default_effect [OF assms(1) o]
  show ?thesis by (intro exI [of _ out] conjI allI impI) (fact o, fact e(1), fact e(2), rule e(3))
qed

section \<open>A search\<close>

fun dir_le :: "string \<Rightarrow> string \<Rightarrow> bool" where
  "dir_le [] t = True"
| "dir_le (c # s) [] = False"
| "dir_le (c # s) (d # t) = ((of_char c :: int) < of_char d \<or> c = d \<and> dir_le s t)"

fun insert_by_dir :: "found_file \<Rightarrow> found_file list \<Rightarrow> found_file list" where
  "insert_by_dir f [] = [f]"
| "insert_by_dir f (g # gs) = (if dir_le (ff_dir f) (ff_dir g) then f # g # gs else g # insert_by_dir f gs)"

definition group_files :: "(found_file \<Rightarrow> string) \<Rightarrow> found_file list \<Rightarrow> found_file list obj" where
  "group_files f xs =
     fold (\<lambda>x ob. obj_set (f x) ((case obj_get ob (f x) of None \<Rightarrow> [] | Some ys \<Rightarrow> ys) @ [x]) ob) xs []"

definition sample_ff_lib :: ff_lib where
  "sample_ff_lib = \<lparr>ff_sortBy_dir = (\<lambda>xs. foldr insert_by_dir xs []), ff_groupBy = group_files\<rparr>"

lemma mset_insert_by_dir: "mset (insert_by_dir f fs) = add_mset f (mset fs)"
  by (induction fs) auto

lemma group_files_get:
  "obj_get (group_files f xs) k = (if k \<in> f ` set xs then Some (filter (\<lambda>x. f x = k) xs) else None)"
  and group_files_wf: "wf_obj (group_files f xs)"
proof (induction xs arbitrary: k rule: rev_induct)
  case Nil
  { case 1 then show ?case by (simp add: group_files_def obj_get_def)
  next case 2 then show ?case by (simp add: group_files_def wf_obj_def obj_keys_def) }
next
  case (snoc x xs)
  have s: "group_files f (xs @ [x]) =
      obj_set (f x) ((case obj_get (group_files f xs) (f x) of None \<Rightarrow> [] | Some ys \<Rightarrow> ys) @ [x]) (group_files f xs)"
    by (simp add: group_files_def)
  have g: "obj_get (group_files f xs) j = (if j \<in> f ` set xs then Some (filter (\<lambda>x. f x = j) xs) else None)" for j
    by (rule snoc(1))
  have c: "(case obj_get (group_files f xs) j of None \<Rightarrow> [] | Some ys \<Rightarrow> ys) = filter (\<lambda>y. f y = j) xs" for j
    using filter_empty_conv [of "\<lambda>y. f y = j" xs] by (auto simp: g)
  { case 1 show ?case
      unfolding s c by (auto simp: ob.get_put g filter_empty_conv)
  next case 2 show ?case unfolding s by (rule ob.ok_put [OF snoc(2)]) }
qed

lemma sample_ff_lib_ok: "ff_lib_ok sample_ff_lib"
proof -
  have "mset (foldr insert_by_dir xs []) = mset xs" for xs
    by (induction xs) (auto simp: mset_insert_by_dir)
  then show ?thesis by (simp add: ff_lib_ok_def sample_ff_lib_def group_files_get group_files_wf)
qed

text \<open>The evaluation of keys by suffixes instead of patterns.\<close>

declare key_step_iff [code]

definition sample_folder :: pworld where
  "sample_folder =
     \<lparr>nodes = [''/p'' \<mapsto> DirNode [''package.json'', ''yarn.lock'', ''node_modules'', ''sub'', ''notes''],
       ''/p/package.json'' \<mapsto> FileNode [], ''/p/yarn.lock'' \<mapsto> FileNode [], ''/p/notes'' \<mapsto> FileNode [],
       ''/p/node_modules'' \<mapsto> DirNode [''package.json''],
       ''/p/node_modules/package.json'' \<mapsto> FileNode [],
       ''/p/sub'' \<mapsto> DirNode [''pom.xml''], ''/p/sub/pom.xml'' \<mapsto> FileNode []],
      can_write = (\<lambda>_. True), out_lines = [], err_lines = [], posts = [], ticks = 0\<rparr>"

definition sample_search_env :: penv where
  "sample_search_env = \<lparr>argv = [], working_dir = ''/'', env_api = None, env_disable_analytics = None,
     env_config_file = None, homedir = ''/h'', lib_dir = ''/l'', node_version = ''v16'',
     iso_date = (\<lambda>_. ''now''), http = (\<lambda>_. Inl ''offline'')\<rparr>"

definition sample_names :: "string list" where
  "sample_names = [''package.json'', ''yarn.lock'', ''pom.xml'']"

lemma sample_search:
  "find_files 3 sample_search_env sample_ff_lib sample_folder [] sample_names ''/p'' =
     Inr ([''/p/yarn.lock'', ''/p/sub/pom.xml''], [''/p/package.json'', ''/p/yarn.lock'', ''/p/sub/pom.xml''])"
  by code_simp

theorem search_complete_witness:
  "reaches sample_search_env sample_folder (with_ignored []) sample_names 3 ''/p'' ''/p/sub/pom.xml'' \<and>
   \<not> reaches sample_search_env sample_folder (with_ignored []) sample_names 3 ''/p'' ''/p/notes''"
proof -
  have p: "''/p'' \<noteq> []" by simp
  have "set [''/p/package.json'', ''/p/yarn.lock'', ''/p/sub/pom.xml''] =
      {q. reaches sample_search_env sample_folder (with_ignored []) sample_names 3 ''/p'' q}"
    by (rule conjunct1 [OF search_complete [OF sample_ff_lib_ok p sample_search]])
  then have "reaches sample_search_env sample_folder (with_ignored []) sample_names 3 ''/p'' q \<longleftrightarrow>
      q \<in> set [''/p/package.json'', ''/p/yarn.lock'', ''/p/sub/pom.xml'']" for q by blast
  then show ?thesis by simp
qed

theorem default_manifests_witness:
  "\<exists>out. filterForDefaultManifests sample_search_env sample_ff_lib sample_folder [''/p/package.json'', ''/p/yarn.lock''] = Inr out \<and>
     set out \<subseteq> {''/p/package.json'', ''/p/yarn.lock''}"
proof -
  have a: "path_base ` set [''/p/package.json'', ''/p/yarn.lock''] \<subseteq> set AUTO_DETECTABLE_FILES"
    "distinct (map (\<lambda>f. (path_dir f, path_base f)) [''/p/package.json'', ''/p/yarn.lock''])"
    by code_simp+
  from default_manifests [OF sample_ff_lib_ok a, of sample_search_env sample_folder] show ?thesis
    by (elim exE conjE) (intro exI conjI, assumption, simp)
qed

text \<open>Two manifests of one kind without a default one, such as two files of nuget, are both left out.\<close>

lemma nuget_left_out:
  "filterForDefaultManifests sample_search_env sample_ff_lib
     (sample_folder\<lparr>nodes := (\<lambda>p. Some (FileNode []))\<rparr>) [''/p/packages.config'', ''/p/project.json''] = Inr []"
  by code_simp

end
