(* ===== verification/CliArgs.thy ===== *)
theory CliArgs
  imports JsJson
begin

text \<open>
  The command line of the tool: \<open>src/src/cli/args.ts\<close> (the words after the script become one object of
  options, the command, its method) and \<open>src/src/cli/modes.ts\<close> (\<open>vulnmap container test\<close>), with the table of
  \<open>src/src/cli/commands/index.js\<close>.

  The options are one object: the positional words are its property \<open>_\<close> and the words after \<open>--\<close> its property
  \<open>_doubleDashArgs\<close>, so an option of that name overwrites them and a later \<open>push\<close> throws. The options
  object pushes itself to its own positional words; \<open>IOptions\<close> is that reference.

  Parameters: the package \<open>abbrev\<close> (the table of the abbreviations of a list of words), the text of an
  inherited method of an object, \<open>process.env.DEBUG\<close> and the path for container images. Not modelled: the
  line that logs the result.
\<close>

section \<open>Values\<close>

text \<open>\<open>Number(s)\<close>: exact decimals, without the rounding to a double. \<open>Dec m e\<close> stands for \<open>m * 10 ^ e\<close>.\<close>

datatype js_num = NaN | Infinite bool | Dec int int

definition radix_digits :: "nat \<Rightarrow> string \<Rightarrow> js_num" where
  "radix_digits b s =
     (if s \<noteq> [] \<and> list_all (\<lambda>c. case hex_val c of Some n \<Rightarrow> n < b | None \<Rightarrow> False) s
      then Dec (foldl (\<lambda>n c. n * int b + int (the (hex_val c))) 0 s) 0
      else NaN)"

definition decimal_literal :: "bool \<Rightarrow> string \<Rightarrow> js_num" where
  "decimal_literal neg s =
     (let ip = takeWhile js_digit s;
          s1 = dropWhile js_digit s;
          frac = js_startsWith s1 ''.'';
          fp = (if frac then takeWhile js_digit (drop 1 s1) else []);
          s2 = (if frac then dropWhile js_digit (drop 1 s1) else s1);
          ex = (s2 \<noteq> [] \<and> hd s2 \<in> {CHR ''e'', CHR ''E''});
          s3 = (if ex then drop 1 s2 else s2);
          eneg = (ex \<and> js_startsWith s3 ''-'');
          s4 = (if ex \<and> s3 \<noteq> [] \<and> hd s3 \<in> {CHR ''+'', CHR ''-''} then drop 1 s3 else s3);
          ep = (if ex then takeWhile js_digit s4 else []);
          s5 = (if ex then dropWhile js_digit s4 else s4);
          m = int (nat_of_digits (ip @ fp));
          e = int (nat_of_digits ep) in
      if ip @ fp = [] \<or> (ex \<and> ep = []) \<or> s5 \<noteq> [] then NaN
      else Dec (if neg then - m else m) ((if eneg then - e else e) - int (length fp)))"

definition js_number :: "string \<Rightarrow> js_num" where
  "js_number text =
     (let s = js_trim text;
          signed = (s \<noteq> [] \<and> hd s \<in> {CHR ''+'', CHR ''-''});
          neg = js_startsWith s ''-'';
          t = (if signed then drop 1 s else s) in
      if s = [] then Dec 0 0
      else if js_startsWith s ''0x'' \<or> js_startsWith s ''0X'' then radix_digits 16 (drop 2 s)
      else if js_startsWith s ''0o'' \<or> js_startsWith s ''0O'' then radix_digits 8 (drop 2 s)
      else if js_startsWith s ''0b'' \<or> js_startsWith s ''0B'' then radix_digits 2 (drop 2 s)
      else if t = ''Infinity'' then Infinite neg
      else decimal_literal neg t)"

definition positive_number :: "js_num \<Rightarrow> bool" where
  "positive_number n = (case n of NaN \<Rightarrow> False | Infinite neg \<Rightarrow> \<not> neg | Dec m e \<Rightarrow> m > 0)"

text \<open>
  A positional word is a string, an inherited member of an object that was taken for a command, the options
  themselves, or \<open>undefined\<close> (after \<open>pop\<close> on an empty list).
\<close>

datatype arg_item = IStr string | IMember | IOptions | IUndef

datatype arg_value = ABool bool | AStr string | ANum js_num | AList "arg_item list"

text \<open>A method of a list is called on another value.\<close>

datatype type_error = TypeError

type_synonym argv = "arg_value obj"

primrec arg_truthy :: "arg_value \<Rightarrow> bool" where
  "arg_truthy (ABool b) = b"
| "arg_truthy (AStr s) = (s \<noteq> [])"
| "arg_truthy (ANum n) = (case n of NaN \<Rightarrow> False | Infinite neg \<Rightarrow> True | Dec m e \<Rightarrow> m \<noteq> 0)"
| "arg_truthy (AList xs) = True"

definition option_set :: "argv \<Rightarrow> string \<Rightarrow> bool" where
  "option_set argv k = (case obj_get argv k of Some v \<Rightarrow> arg_truthy v | None \<Rightarrow> False)"

text \<open>Assigning a boolean or a string to \<open>__proto__\<close> has no effect.\<close>

definition put_option :: "string \<Rightarrow> arg_value \<Rightarrow> argv \<Rightarrow> argv" where
  "put_option k v argv = (if k = ''__proto__'' then argv else obj_set k v argv)"

record cli_env =
  ce_abbrev :: "string list \<Rightarrow> string obj"
  ce_member_text :: "string \<Rightarrow> string"
  ce_debug :: "string option"
  ce_image_path :: "string option"

text \<open>The names every object inherits.\<close>

definition object_members :: "string list" where
  "object_members =
     [''constructor'', ''__defineGetter__'', ''__defineSetter__'', ''hasOwnProperty'', ''__lookupGetter__'',
      ''__lookupSetter__'', ''isPrototypeOf'', ''propertyIsEnumerable'', ''toString'', ''valueOf'',
      ''__proto__'', ''toLocaleString'']"

section \<open>Tables\<close>

definition option_words :: "string list" where
  "option_words = [''copy'', ''version'', ''debug'', ''help'', ''quiet'', ''interactive'', ''dev'']"

definition option_aliases :: "cli_env \<Rightarrow> string obj" where
  "option_aliases env =
     obj_set ''p'' ''prune-repeated-subdependencies''
       (obj_set ''t'' ''test'' (obj_set ''d'' ''debug'' (ce_abbrev env option_words)))"

definition option_alias :: "cli_env \<Rightarrow> string \<Rightarrow> string option" where
  "option_alias env a =
     (case obj_get (option_aliases env) a of
        Some k \<Rightarrow> Some k
      | None \<Rightarrow> if a \<in> set object_members then Some (ce_member_text env a) else None)"

definition DEBUG_DEFAULT_NAMESPACES :: "string list" where
  "DEBUG_DEFAULT_NAMESPACES =
     [''vulnmap-test'', ''vulnmap'', ''vulnmap-code'', ''vulnmap-iac'', ''vulnmap:find-files'',
      ''vulnmap:run-test'', ''vulnmap:prune'', ''vulnmap-nodejs-plugin'', ''vulnmap-gradle-plugin'',
      ''vulnmap-sbt-plugin'', ''vulnmap-mvn-plugin'', ''vulnmap-yarn-workspaces'']"

definition command_words :: "string list" where
  "command_words =
     [''auth'', ''config'', ''update-exclude-policy'', ''describe'', ''help'', ''ignore'', ''monitor'', ''fix'',
      ''policy'', ''protect'', ''test'', ''version'', ''about'', ''wizard'', ''woof'', ''log4shell'', ''apps'']"

definition command_aliases :: "cli_env \<Rightarrow> string obj" where
  "command_aliases env = obj_set ''t'' ''test'' (ce_abbrev env command_words)"

definition SupportedCliCommands :: "string list" where
  "SupportedCliCommands =
     [''version'', ''about'', ''help'', ''test'', ''monitor'', ''fix'', ''protect'', ''policy'', ''ignore'',
      ''wizard'', ''woof'', ''log4shell'', ''apps'', ''drift'', ''describe'', ''update-exclude-policy'']"

definition argumentsToTransform :: "string list" where
  "argumentsToTransform =
     [''package-manager'', ''packages-folder'', ''severity-threshold'', ''strict-out-of-sync'',
      ''all-sub-projects'', ''sub-project'', ''gradle-sub-project'', ''skip-unresolved'', ''scan-all-unmanaged'',
      ''fail-on'', ''all-projects'', ''yarn-workspaces'', ''maven-aggregate-project'', ''detection-depth'',
      ''init-script'', ''integration-name'', ''integration-version'', ''prune-repeated-subdependencies'',
      ''dry-run'', ''sequential'', ''gradle-normalize-deps'']"

text \<open>\<open>dash.replace(/-[a-z]/g, m => m[1].toUpperCase())\<close>\<close>

definition lower_letter :: "char \<Rightarrow> bool" where
  "lower_letter c = (97 \<le> (of_char c :: int) \<and> (of_char c :: int) \<le> 122)"

definition upper_of :: "char \<Rightarrow> char" where
  "upper_of c = char_of ((of_char c :: nat) - 32)"

fun dashToCamelCase :: "string \<Rightarrow> string" where
  "dashToCamelCase (c # d # s) =
     (if c = CHR ''-'' \<and> lower_letter d then upper_of d # dashToCamelCase s
      else c # dashToCamelCase (d # s))"
| "dashToCamelCase s = s"

section \<open>Modes\<close>

record mode_data =
  md_allowed :: "string list"
  md_option :: string

definition modes :: "mode_data obj" where
  "modes =
     [(''unmanaged'', \<lparr>md_allowed = [''test'', ''monitor''], md_option = ''unmanaged''\<rparr>),
      (''container'', \<lparr>md_allowed = [''test'', ''monitor''], md_option = ''docker''\<rparr>),
      (''iac'', \<lparr>md_allowed = [''test'', ''update-exclude-policy'', ''describe''], md_option = ''iac''\<rparr>),
      (''code'', \<lparr>md_allowed = [''test''], md_option = ''code''\<rparr>)]"

definition mode_of :: "arg_item option \<Rightarrow> (string \<times> mode_data) option" where
  "mode_of m = (case m of Some (IStr s) \<Rightarrow> map_option (Pair s) (obj_get modes s) | _ \<Rightarrow> None)"

definition isValidMode :: "arg_item option \<Rightarrow> bool" where
  "isValidMode m = (mode_of m \<noteq> None)"

definition isValidCommand :: "cli_env \<Rightarrow> mode_data \<Rightarrow> arg_item option \<Rightarrow> bool" where
  "isValidCommand env md command =
     (case command of
        Some (IStr c) \<Rightarrow> c \<in> set (obj_keys (ce_abbrev env (md_allowed md)))
      | _ \<Rightarrow> False)"

text \<open>The property \<open>_\<close>, a TypeError when an option has replaced the list: every run then ends in one, if not at
  the first read then at the last \<open>push\<close>.\<close>

definition positional :: "argv \<Rightarrow> type_error + arg_item list" where
  "positional argv =
     (case obj_get argv ''_'' of Some (AList xs) \<Rightarrow> Inr xs | _ \<Rightarrow> Inl TypeError)"

definition set_positional :: "arg_item list \<Rightarrow> argv \<Rightarrow> argv" where
  "set_positional xs argv = obj_set ''_'' (AList xs) argv"

definition shift_positional :: "argv \<Rightarrow> type_error + arg_item option \<times> argv" where
  "shift_positional argv =
     bindS (positional argv) (\<lambda>xs. Inr (js_nth xs 0, set_positional (drop 1 xs) argv))"

definition unshift_positional :: "arg_item \<Rightarrow> argv \<Rightarrow> type_error + argv" where
  "unshift_positional x argv = bindS (positional argv) (\<lambda>xs. Inr (set_positional (x # xs) argv))"

definition push_option :: "string \<Rightarrow> arg_item \<Rightarrow> argv \<Rightarrow> type_error + argv" where
  "push_option k x argv =
     (case obj_get argv k of
        Some (AList xs) \<Rightarrow> Inr (obj_set k (AList (xs @ [x])) argv)
      | _ \<Rightarrow> Inl TypeError)"

definition displayModeHelp :: "cli_env \<Rightarrow> arg_item option \<Rightarrow> argv \<Rightarrow> type_error + argv" where
  "displayModeHelp env mode argv =
     (case mode_of mode of
        None \<Rightarrow> Inr argv
      | Some (m, md) \<Rightarrow>
          bindS (positional argv) (\<lambda>xs.
            if \<not> isValidCommand env md (js_nth xs 0) \<or> option_set argv ''help''
            then Inr (obj_set ''help'' (AStr m) argv) else Inr argv))"

definition parseMode :: "cli_env \<Rightarrow> arg_item option \<Rightarrow> argv \<Rightarrow> type_error + arg_item option \<times> argv" where
  "parseMode env mode argv =
     (case mode_of mode of
        None \<Rightarrow> Inr (mode, argv)
      | Some (m, md) \<Rightarrow>
          bindS (positional argv) (\<lambda>xs.
            if isValidCommand env md (js_nth xs 0)
            then shift_positional (obj_set (md_option md) (ABool True) argv)
            else Inr (mode, argv)))"

section \<open>args.ts\<close>

definition arg_step :: "cli_env \<Rightarrow> string \<Rightarrow> argv \<Rightarrow> type_error + argv" where
  "arg_step env arg argv =
     (if option_set argv ''_doubleDashArgs'' then push_option ''_doubleDashArgs'' (IStr arg) argv
      else if arg = ''--'' then Inr (obj_set ''_doubleDashArgs'' (AList []) argv)
      else if js_startsWith arg ''-'' then
        (let a = drop 1 arg in
         (case option_alias env a of
            Some k \<Rightarrow> Inr (put_option k (ABool True) argv)
          | None \<Rightarrow>
              (if js_startsWith a ''-'' then
                 (let b = drop 1 a in
                  if CHR ''='' \<notin> set b then Inr (put_option b (ABool True) argv)
                  else (let parts = js_split (CHR ''='') b in
                        Inr (put_option (hd parts) (AStr (js_join ''='' (tl parts))) argv)))
               else Inr (put_option a (ABool True) argv))))
      else push_option ''_'' (IStr arg) argv)"

text \<open>\<open>-d\<close>: the namespaces that are enabled, in front of those of the environment.\<close>

definition enabled_debug :: "cli_env \<Rightarrow> argv \<Rightarrow> string option" where
  "enabled_debug env argv =
     (if option_set argv ''debug'' then
        Some (js_join '','' DEBUG_DEFAULT_NAMESPACES @
          (if truthy (ce_debug env) then '','' @ the (ce_debug env) else []))
      else ce_debug env)"

definition item_truthy :: "arg_item option \<Rightarrow> bool" where
  "item_truthy m = (case m of None \<Rightarrow> False | Some IUndef \<Rightarrow> False | Some (IStr s) \<Rightarrow> s \<noteq> [] | Some _ \<Rightarrow> True)"

text \<open>The first word; it stays among the positional ones when help is asked for.\<close>

definition take_command :: "argv \<Rightarrow> type_error + arg_item option \<times> argv" where
  "take_command argv =
     bindS (positional argv) (\<lambda>xs.
       if option_set argv ''help''
       then Inr (if item_truthy (js_nth xs 0) then js_nth xs 0 else Some (IStr []), argv)
       else shift_positional argv)"

text \<open>\<open>cli.aliases[command]\<close>: \<open>undefined\<close> is looked up by that name, an inherited name finds a member.\<close>

definition command_alias :: "cli_env \<Rightarrow> arg_item option \<Rightarrow> arg_item option" where
  "command_alias env command =
     (let k = (case command of Some (IStr s) \<Rightarrow> Some s | None \<Rightarrow> Some ''undefined'' | _ \<Rightarrow> None) in
      case Option.bind k (obj_get (command_aliases env)) of
        Some t \<Rightarrow> if t = [] then command else Some (IStr t)
      | None \<Rightarrow>
          (case command of
             Some (IStr s) \<Rightarrow> if s \<in> set object_members then Some IMember else command
           | _ \<Rightarrow> command))"

definition special_command :: "argv \<Rightarrow> arg_item option \<Rightarrow> arg_item option" where
  "special_command argv command =
     (if option_set argv ''about'' then Some (IStr ''about'')
      else if option_set argv ''version'' then Some (IStr ''version'') else command)"

definition help_command ::
  "arg_item option \<Rightarrow> argv \<Rightarrow> type_error + arg_item option \<times> argv" where
  "help_command command argv =
     (if \<not> item_truthy command \<or> option_set argv ''help'' \<or> command = Some (IStr ''help'') then
        (let argv1 =
           (if obj_get argv ''help'' = Some (ABool True) \<or> command = Some (IStr ''help'')
            then obj_set ''help'' (AStr ''help'') argv else argv) in
         bindS (positional argv1) (\<lambda>xs.
           if xs \<noteq> [] then Inr (Some (IStr ''help''), argv1)
           else map_sum id (Pair (Some (IStr ''help'')))
             (unshift_positional
               (if item_truthy command \<and> obj_get argv1 ''help'' = Some (AStr ''help'') then the command
                else (case obj_get argv1 ''help'' of
                        Some (AStr h) \<Rightarrow> if h = [] then IStr ''help'' else IStr h
                      | _ \<Rightarrow> IStr ''help'')) argv1)))
      else Inr (command, argv))"

text \<open>\<open>config:set x=y\<close> becomes the command \<open>config\<close> with the words \<open>set\<close> and \<open>x=y\<close>.\<close>

definition config_command :: "arg_item option \<Rightarrow> argv \<Rightarrow> type_error + string \<times> argv" where
  "config_command command argv =
     (case command of
        Some (IStr c) \<Rightarrow>
          (if js_startsWith c ''config:'' then
             (let tmp = js_split (CHR '':'') c in
              map_sum id (Pair (hd tmp)) (unshift_positional (IStr (tmp ! 1)) argv))
           else Inr (c, argv))
      | _ \<Rightarrow> Inl TypeError)"

text \<open>\<open>cli[command]\<close>: the table of the commands also has the property \<open>aliases\<close>.\<close>

datatype cli_method = MCommand string | MAliases | MMember | MLegacyErrors

definition command_method :: "string \<Rightarrow> cli_method option" where
  "command_method command =
     (if command \<in> set command_words then Some (MCommand command)
      else if command = ''aliases'' then Some MAliases
      else if command \<in> set object_members then Some MMember
      else None)"

definition find_method :: "string \<Rightarrow> argv \<Rightarrow> type_error + cli_method \<times> argv" where
  "find_method command argv =
     (case command_method command of
        Some m \<Rightarrow> Inr (m, argv)
      | None \<Rightarrow> map_sum id (Pair MLegacyErrors) (push_option ''_'' (IStr command) argv))"

text \<open>The options are appended to the words of a supported command (\<open>in\<close> finds inherited names too).\<close>

definition pass_options :: "string \<Rightarrow> argv \<Rightarrow> type_error + argv" where
  "pass_options command argv =
     (if command \<in> set SupportedCliCommands \<or> command \<in> set object_members
      then push_option ''_'' IOptions argv else Inr argv)"

definition transform_arg :: "string \<Rightarrow> argv \<Rightarrow> argv" where
  "transform_arg dashedArg argv =
     (if option_set argv dashedArg then
        (let camelCased = dashToCamelCase dashedArg in
         if camelCased = dashedArg then argv
         else obj_delete dashedArg (obj_set camelCased (the (obj_get argv dashedArg)) argv))
      else argv)"

text \<open>\<open>Number(v)\<close> of an option.\<close>

definition value_number :: "arg_value \<Rightarrow> js_num" where
  "value_number v =
     (case v of
        ABool b \<Rightarrow> Dec (if b then 1 else 0) 0
      | AStr s \<Rightarrow> js_number s
      | ANum n \<Rightarrow> n
      | AList _ \<Rightarrow> NaN)"

definition number_depth :: "argv \<Rightarrow> argv" where
  "number_depth argv =
     (case obj_get argv ''detectionDepth'' of
        Some v \<Rightarrow> obj_set ''detectionDepth'' (ANum (value_number v)) argv
      | None \<Rightarrow> argv)"

text \<open>An option that is given is on unless its text is \<open>false\<close>.\<close>

definition flag_from :: "string \<Rightarrow> string \<Rightarrow> argv \<Rightarrow> argv" where
  "flag_from k target argv =
     (case obj_get argv k of
        Some v \<Rightarrow> obj_set target (ABool (v \<noteq> AStr ''false'')) argv
      | None \<Rightarrow> argv)"

definition rename_option :: "string \<times> string \<Rightarrow> argv \<Rightarrow> argv" where
  "rename_option = (\<lambda>(k, target) argv.
     if option_set argv k then obj_delete k (obj_set target (the (obj_get argv k)) argv) else argv)"

definition option_renames :: "(string \<times> string) list" where
  "option_renames = [(''gradleSubProject'', ''subProject''), (''container'', ''docker'')]"

definition normalize_options :: "cli_env \<Rightarrow> argv \<Rightarrow> argv" where
  "normalize_options env argv =
     fold rename_option option_renames
       (flag_from ''strictOutOfSync'' ''strictOutOfSync''
         (flag_from ''skipUnresolved'' ''allowMissing''
           (number_depth (fold transform_arg argumentsToTransform argv))))"

record cli_args =
  ca_command :: string
  ca_method :: cli_method
  ca_options :: argv
  ca_debug :: "string option"
  ca_ignore_ca :: bool

definition args :: "cli_env \<Rightarrow> string list \<Rightarrow> type_error + cli_args" where
  "args env rawArgv =
     bindS (foldS (arg_step env) (drop 2 rawArgv) [(''_'', AList [])]) (\<lambda>argv.
     bindS (take_command argv) (\<lambda>(command, argv1).
     bindS (displayModeHelp env command argv1) (\<lambda>argv2.
     bindS (parseMode env command argv2) (\<lambda>(command3, argv3).
     bindS (help_command (special_command argv3 (command_alias env command3)) argv3) (\<lambda>(command4, argv4).
     bindS (config_command command4 argv4) (\<lambda>(command5, argv5).
     bindS (find_method command5 argv5) (\<lambda>(m, argv6).
     bindS (pass_options command5
         (if truthy (ce_image_path env) then obj_set ''imageSavePath'' (AStr (the (ce_image_path env))) argv6
          else argv6)) (\<lambda>argv7.
     (let options = normalize_options env argv7 in
      Inr \<lparr>ca_command = command5, ca_method = m, ca_options = options,
           ca_debug = enabled_debug env argv, ca_ignore_ca = option_set options ''insecure''\<rparr>)))))))))"

section \<open>modes.ts: validation\<close>

datatype mode_error = ModeUsage string | UnsupportedCombination "string list"

text \<open>\<open>text.replace(/, ([^,]*)$/, ' or $1')\<close>\<close>

fun replace_last_comma :: "string \<Rightarrow> string" where
  "replace_last_comma [] = []"
| "replace_last_comma (c # s) =
     (if js_startsWith (c # s) '', '' \<and> CHR '','' \<notin> set (drop 1 s) then '' or '' @ drop 1 s
      else c # replace_last_comma s)"

definition item_text :: "arg_item option \<Rightarrow> string" where
  "item_text m =
     (case m of
        Some (IStr s) \<Rightarrow> s | Some IOptions \<Rightarrow> ''[object Object]'' | _ \<Rightarrow> [])"

definition modeValidation :: "cli_env \<Rightarrow> string \<Rightarrow> arg_item list \<Rightarrow> mode_error + unit" where
  "modeValidation env mode commands =
     (case obj_get modes mode of
        None \<Rightarrow> Inr ()
      | Some md \<Rightarrow>
          if length commands \<le> 1 then
            Inl (ModeUsage (''use vulnmap '' @ mode @ '' with '' @
              replace_last_comma (js_join '', '' (md_allowed md))))
          else if \<not> isValidCommand env md (js_nth commands 0) then
            Inl (UnsupportedCombination [mode, item_text (js_nth commands 0)])
          else Inr ())"

section \<open>What the options are\<close>

text \<open>
  The documented behaviour of \<open>abbrev\<close>: every word stands for itself, and every entry takes a
  beginning of a word to that word.
\<close>

definition abbrev_entry :: "string list \<Rightarrow> string \<times> string \<Rightarrow> bool" where
  "abbrev_entry ws = (\<lambda>(k, w). w \<in> set ws \<and> js_startsWith w k)"

definition abbrev_ok :: "cli_env \<Rightarrow> bool" where
  "abbrev_ok env =
     (\<forall>ws. list_all (\<lambda>w. obj_get (ce_abbrev env ws) w = Some w) ws \<and>
           list_all (abbrev_entry ws) (ce_abbrev env ws))"

text \<open>The words of a command line, and how they are written.\<close>

datatype cli_word = WPath string | WFlag string | WValue string string

primrec print_word :: "cli_word \<Rightarrow> string" where
  "print_word (WPath p) = p"
| "print_word (WFlag k) = ''--'' @ k"
| "print_word (WValue k v) = ''--'' @ k @ ''='' @ v"

definition reserved_keys :: "string list" where
  "reserved_keys = [''_'', ''_doubleDashArgs'', ''__proto__'', ''help'', ''version'', ''about'']"

definition ordinary_key :: "string \<Rightarrow> bool" where
  "ordinary_key k = (k \<noteq> [] \<and> CHR ''='' \<notin> set k \<and> k \<notin> set reserved_keys)"

primrec ordinary_word :: "cli_word \<Rightarrow> bool" where
  "ordinary_word (WPath p) = (\<not> js_startsWith p ''-'')"
| "ordinary_word (WFlag k) = ordinary_key k"
| "ordinary_word (WValue k v) = ordinary_key k"

primrec word_entry :: "cli_word \<Rightarrow> (string \<rightharpoonup> arg_value)" where
  "word_entry (WPath p) = Map.empty"
| "word_entry (WFlag k) = [k \<mapsto> ABool True]"
| "word_entry (WValue k v) = [k \<mapsto> AStr v]"

primrec word_path :: "cli_word \<Rightarrow> string list" where
  "word_path (WPath p) = [p]"
| "word_path (WFlag k) = []"
| "word_path (WValue k v) = []"

text \<open>The value of an option is the last one given.\<close>

primrec given :: "cli_word list \<Rightarrow> (string \<rightharpoonup> arg_value)" where
  "given [] = Map.empty"
| "given (w # ws) = word_entry w ++ given ws"

definition touched_keys :: "string list" where
  "touched_keys =
     argumentsToTransform @ map dashToCamelCase argumentsToTransform @
     [''_'', ''_doubleDashArgs'', ''detectionDepth'', ''allowMissing'', ''strictOutOfSync'',
      ''gradleSubProject'', ''subProject'', ''container'', ''docker'', ''imageSavePath'']"

lemma abbrev_word: "abbrev_ok env \<Longrightarrow> w \<in> set ws \<Longrightarrow> obj_get (ce_abbrev env ws) w = Some w"
  by (simp add: abbrev_ok_def list_all_iff)

lemma abbrev_value:
  assumes "abbrev_ok env" "obj_get (ce_abbrev env ws) k = Some w"
  shows "w \<in> set ws \<and> js_startsWith w k"
proof -
  have "list_all (abbrev_entry ws) (ce_abbrev env ws)" using assms(1) by (simp add: abbrev_ok_def)
  with obj_get_SomeD [OF assms(2)] show ?thesis by (auto simp: list_all_iff abbrev_entry_def)
qed

lemma no_dash_words: "list_all (\<lambda>w. \<not> js_startsWith w ''-'') (option_words @ object_members)"
  by code_simp

lemma option_alias_dash:
  assumes "abbrev_ok env"
  shows "option_alias env (CHR ''-'' # k) = None"
proof -
  have "obj_get (ce_abbrev env option_words) (CHR ''-'' # k) = None"
  proof (rule ccontr)
    assume "obj_get (ce_abbrev env option_words) (CHR ''-'' # k) \<noteq> None"
    then obtain w where "obj_get (ce_abbrev env option_words) (CHR ''-'' # k) = Some w" by auto
    from abbrev_value [OF assms this] no_dash_words show False
      by (auto simp: list_all_iff js_startsWith_iff)
  qed
  moreover have "CHR ''-'' # k \<notin> set object_members"
    using no_dash_words by (auto simp: list_all_iff js_startsWith_iff)
  ultimately show ?thesis by (simp add: option_alias_def option_aliases_def ob.get_put)
qed

subsection \<open>The words of a line\<close>

lemma option_set_get: "option_set argv k = (case obj_get argv k of Some v \<Rightarrow> arg_truthy v | None \<Rightarrow> False)"
  by (simp add: option_set_def)

lemma positional_iff: "positional argv = Inr xs \<longleftrightarrow> obj_get argv ''_'' = Some (AList xs)"
  by (auto simp: positional_def split: option.splits arg_value.splits)

lemma arg_step_word:
  assumes "abbrev_ok env" "ordinary_word w"
    and "obj_get argv ''_'' = Some (AList xs)" "obj_get argv ''_doubleDashArgs'' = None"
  shows "\<exists>argv'. arg_step env (print_word w) argv = Inr argv' \<and>
           obj_get argv' = (obj_get argv ++ word_entry w)(''_'' \<mapsto> AList (xs @ map IStr (word_path w)))"
proof (cases w)
  case (WPath p)
  then have "p \<noteq> ''--''" using assms(2) by (auto simp: js_startsWith_iff)
  with WPath assms show ?thesis
    by (auto simp: arg_step_def option_set_def push_option_def ob.get_put)
next
  case (WFlag k)
  then show ?thesis using assms option_alias_dash [OF assms(1), of k]
    by (auto simp: arg_step_def option_set_def put_option_def ob.get_put ordinary_key_def reserved_keys_def
          js_startsWith_Cons fun_eq_iff)
next
  case (WValue k v)
  then have "js_split (CHR ''='') (k @ CHR ''='' # v) = k # js_split (CHR ''='') v"
    using assms(2) by (simp add: js_split_append ordinary_key_def)
  then show ?thesis using assms WValue option_alias_dash [OF assms(1), of "k @ CHR ''='' # v"]
    by (auto simp: arg_step_def option_set_def put_option_def ob.get_put ordinary_key_def reserved_keys_def
          js_startsWith_Cons js_join_split fun_eq_iff)
qed

lemma word_entry_keys:
  "ordinary_word w \<Longrightarrow> word_entry w ''_'' = None \<and> word_entry w ''_doubleDashArgs'' = None"
  by (cases w) (auto simp: ordinary_key_def reserved_keys_def)

lemma words_parse:
  assumes "abbrev_ok env" "list_all ordinary_word ws"
    and "obj_get argv ''_'' = Some (AList xs)" "obj_get argv ''_doubleDashArgs'' = None"
  shows "\<exists>argv'. foldS (arg_step env) (map print_word ws) argv = Inr argv' \<and>
           obj_get argv' = (obj_get argv ++ given ws)(''_'' \<mapsto> AList (xs @ map IStr (concat (map word_path ws))))"
  using assms(2-)
proof (induction ws arbitrary: argv xs)
  case Nil
  then show ?case by (auto simp: fun_eq_iff)
next
  case (Cons w ws)
  obtain a1 where a1: "arg_step env (print_word w) argv = Inr a1"
    "obj_get a1 = (obj_get argv ++ word_entry w)(''_'' \<mapsto> AList (xs @ map IStr (word_path w)))"
    using arg_step_word [OF assms(1), of w argv xs] Cons.prems by auto
  have "obj_get a1 ''_doubleDashArgs'' = None" "obj_get a1 ''_'' = Some (AList (xs @ map IStr (word_path w)))"
    using a1(2) Cons.prems word_entry_keys [of w] by (auto simp: map_add_def)
  moreover have "list_all ordinary_word ws" using Cons.prems by simp
  ultimately have "\<exists>a2. foldS (arg_step env) (map print_word ws) a1 = Inr a2 \<and>
    obj_get a2 = (obj_get a1 ++ given ws)(''_'' \<mapsto> AList ((xs @ map IStr (word_path w)) @ map IStr (concat (map word_path ws))))"
    by (intro Cons.IH)
  then obtain a2 where
    "foldS (arg_step env) (map print_word ws) a1 = Inr a2"
    "obj_get a2 = (obj_get a1 ++ given ws)(''_'' \<mapsto> AList ((xs @ map IStr (word_path w)) @ map IStr (concat (map word_path ws))))"
    by blast
  then show ?case using a1 by (auto simp: fun_eq_iff map_add_def split: option.splits)
qed

lemma rest_parse:
  assumes "obj_get argv ''_doubleDashArgs'' = Some (AList xs)"
  shows "\<exists>argv'. foldS (arg_step env) rest argv = Inr argv' \<and>
           obj_get argv' = (obj_get argv)(''_doubleDashArgs'' \<mapsto> AList (xs @ map IStr rest))"
  using assms
proof (induction rest arbitrary: argv xs)
  case Nil
  then show ?case by auto
next
  case (Cons x rest)
  let ?a = "obj_set ''_doubleDashArgs'' (AList (xs @ [IStr x])) argv"
  have "arg_step env x argv = Inr ?a"
    using Cons.prems by (simp add: arg_step_def option_set_def push_option_def)
  with Cons.IH [of ?a "xs @ [IStr x]"] show ?case by (auto simp: ob.get_put fun_eq_iff)
qed

subsection \<open>The steps after the words\<close>

lemma transform_get:
  "k \<noteq> d \<Longrightarrow> k \<noteq> dashToCamelCase d \<Longrightarrow> obj_get (transform_arg d argv) k = obj_get argv k"
  by (simp add: transform_arg_def Let_def obj_get_delete ob.get_put)

lemma transforms_get:
  "k \<notin> set ds \<Longrightarrow> k \<notin> dashToCamelCase ` set ds \<Longrightarrow> obj_get (fold transform_arg ds argv) k = obj_get argv k"
  by (induction ds arbitrary: argv) (auto simp: transform_get)

lemma number_depth_get: "k \<noteq> ''detectionDepth'' \<Longrightarrow> obj_get (number_depth argv) k = obj_get argv k"
  by (simp add: number_depth_def ob.get_put split: option.split)

lemma flag_from_get: "k \<noteq> t \<Longrightarrow> obj_get (flag_from s t argv) k = obj_get argv k"
  by (simp add: flag_from_def ob.get_put split: option.split)

lemma rename_get: "k \<noteq> s \<Longrightarrow> k \<noteq> t \<Longrightarrow> obj_get (rename_option (s, t) argv) k = obj_get argv k"
  by (simp add: rename_option_def obj_get_delete ob.get_put)

lemma normalize_get:
  assumes "k \<notin> set argumentsToTransform" "k \<notin> dashToCamelCase ` set argumentsToTransform"
    and "k \<notin> {''detectionDepth'', ''allowMissing'', ''strictOutOfSync'', ''gradleSubProject'', ''subProject'',
      ''container'', ''docker''}"
  shows "obj_get (normalize_options env argv) k = obj_get argv k"
  using assms
  by (simp add: normalize_options_def option_renames_def rename_get flag_from_get number_depth_get transforms_get)

lemma list_keys_untouched:
  "''_'' \<notin> set argumentsToTransform \<and> ''_'' \<notin> dashToCamelCase ` set argumentsToTransform \<and>
   ''_doubleDashArgs'' \<notin> set argumentsToTransform \<and> ''_doubleDashArgs'' \<notin> dashToCamelCase ` set argumentsToTransform"
  by code_simp

lemma normalize_lists:
  "obj_get (normalize_options env argv) ''_'' = obj_get argv ''_''"
  "obj_get (normalize_options env argv) ''_doubleDashArgs'' = obj_get argv ''_doubleDashArgs''"
  using list_keys_untouched by (simp_all add: normalize_get)

lemma command_words_plain:
  "list_all (\<lambda>c. obj_get modes c = None \<and> c \<noteq> ''t'' \<and> c \<noteq> [] \<and> \<not> js_startsWith c ''-'' \<and>
     \<not> js_startsWith c ''config:'') command_words"
  by code_simp

lemma command_plain:
  "c \<in> set command_words \<Longrightarrow> obj_get modes c = None \<and> c \<noteq> ''t'' \<and> c \<noteq> [] \<and> \<not> js_startsWith c ''-'' \<and>
     \<not> js_startsWith c ''config:''"
  using command_words_plain by (simp add: list_all_iff)

lemma command_alias_self:
  "abbrev_ok env \<Longrightarrow> c \<in> set command_words \<Longrightarrow> command_alias env (Some (IStr c)) = Some (IStr c)"
  using abbrev_word [of env c command_words] command_plain [of c]
  by (simp add: command_alias_def command_aliases_def ob.get_put)

definition printed_line :: "string \<Rightarrow> cli_word list \<Rightarrow> string list option \<Rightarrow> string list" where
  "printed_line c ws rest =
     c # map print_word ws @ (case rest of None \<Rightarrow> [] | Some r \<Rightarrow> ''--'' # r)"

lemma foldS_append: "foldS f (xs @ ys) acc = bindS (foldS f xs acc) (foldS f ys)"
  by (induction xs arbitrary: acc) (simp_all add: bindS_def split: sum.split)

lemma line_parse:
  assumes "abbrev_ok env" "c \<in> set command_words" "list_all ordinary_word ws"
  shows "\<exists>argv. foldS (arg_step env) (printed_line c ws rest) [(''_'', AList [])] = Inr argv \<and>
           obj_get argv = (given ws)(''_'' \<mapsto> AList (IStr c # map IStr (concat (map word_path ws))),
             ''_doubleDashArgs'' := map_option (\<lambda>r. AList (map IStr r)) rest)"
proof -
  let ?s = "[(''_'', AList [])]"
  have "list_all ordinary_word (WPath c # ws)" using assms(3) command_plain [OF assms(2)] by simp
  from words_parse [OF assms(1) this, of ?s "[]"] obtain a1 where
    a1: "foldS (arg_step env) (map print_word (WPath c # ws)) ?s = Inr a1"
    "obj_get a1 = (obj_get ?s ++ given (WPath c # ws))(''_'' \<mapsto> AList (map IStr (concat (map word_path (WPath c # ws)))))"
    by auto
  have free: "given ws ''_doubleDashArgs'' = None"
    using assms(3) word_entry_keys by (induction ws) (auto simp: map_add_def)
  have get: "obj_get a1 = (given ws)(''_'' \<mapsto> AList (IStr c # map IStr (concat (map word_path ws))))"
    using a1(2) by (auto simp: fun_eq_iff map_add_def split: option.splits)
  show ?thesis
  proof (cases rest)
    case None
    with a1(1) get free show ?thesis by (auto simp: printed_line_def fun_eq_iff)
  next
    case (Some r)
    let ?a = "obj_set ''_doubleDashArgs'' (AList []) a1"
    have line: "printed_line c ws rest = map print_word (WPath c # ws) @ ''--'' # r"
      by (simp add: printed_line_def Some)
    have step: "arg_step env ''--'' a1 = Inr ?a"
      using get free by (simp add: arg_step_def option_set_def)
    obtain a2 where a2: "foldS (arg_step env) r ?a = Inr a2"
      "obj_get a2 = (obj_get ?a)(''_doubleDashArgs'' \<mapsto> AList ([] @ map IStr r))"
      using rest_parse [of ?a "[]" env r] by auto
    have "foldS (arg_step env) (printed_line c ws rest) ?s = Inr a2"
      using a1(1) a2(1) step unfolding line foldS_append by simp
    moreover have "obj_get a2 = (given ws)(''_'' \<mapsto> AList (IStr c # map IStr (concat (map word_path ws))),
        ''_doubleDashArgs'' := map_option (\<lambda>r. AList (map IStr r)) rest)"
      unfolding a2(2) ob.get_put get by (simp add: Some fun_eq_iff)
    ultimately show ?thesis by blast
  qed
qed

lemma given_reserved: "list_all ordinary_word ws \<Longrightarrow> k \<in> set reserved_keys \<Longrightarrow> given ws k = None"
proof (induction ws)
  case (Cons w ws)
  then have "word_entry w k = None" by (cases w) (auto simp: ordinary_key_def)
  with Cons show ?case by (auto simp: map_add_def)
qed simp

lemma printed_line_parsed:
  assumes "abbrev_ok env" "c \<in> set command_words" "c \<in> set SupportedCliCommands" "c \<noteq> ''help''"
    and "list_all ordinary_word ws" "k \<notin> set touched_keys"
  shows "\<exists>r. args env (node # script # printed_line c ws rest) = Inr r \<and>
           ca_command r = c \<and> ca_method r = MCommand c \<and>
           obj_get (ca_options r) ''_'' = Some (AList (map IStr (concat (map word_path ws)) @ [IOptions])) \<and>
           obj_get (ca_options r) ''_doubleDashArgs'' = map_option (\<lambda>w. AList (map IStr w)) rest \<and>
           obj_get (ca_options r) k = given ws k"
proof -
  obtain argv where parse: "foldS (arg_step env) (printed_line c ws rest) [(''_'', AList [])] = Inr argv"
    and get: "obj_get argv = (given ws)(''_'' \<mapsto> AList (IStr c # map IStr (concat (map word_path ws))),
      ''_doubleDashArgs'' := map_option (\<lambda>r. AList (map IStr r)) rest)"
    using line_parse [OF assms(1,2,5), of rest] by blast
  have reserved: "obj_get argv ''help'' = None" "obj_get argv ''version'' = None" "obj_get argv ''about'' = None"
    using given_reserved [OF assms(5)] by (simp_all add: get reserved_keys_def)
  let ?xs = "map IStr (concat (map word_path ws))"
  define a1 where "a1 = set_positional ?xs argv"
  define a2 where "a2 =
    (if truthy (ce_image_path env) then obj_set ''imageSavePath'' (AStr (the (ce_image_path env))) a1 else a1)"
  have g1: "obj_get a1 = (obj_get argv)(''_'' \<mapsto> AList ?xs)"
    by (simp add: a1_def set_positional_def ob.get_put)
  have take: "take_command argv = Inr (Some (IStr c), a1)"
    using reserved get
    by (simp add: take_command_def shift_positional_def positional_def option_set_def js_nth_def a1_def)
  have mode: "mode_of (Some (IStr c)) = None" using command_plain [OF assms(2)] by (simp add: mode_of_def)
  have special: "special_command a1 (Some (IStr c)) = Some (IStr c)"
    using reserved g1 by (simp add: special_command_def option_set_def)
  have help_step: "help_command (Some (IStr c)) a1 = Inr (Some (IStr c), a1)"
    using reserved g1 assms(4) command_plain [OF assms(2)]
    by (simp add: help_command_def option_set_def item_truthy_def)
  have config: "config_command (Some (IStr c)) a1 = Inr (c, a1)"
    using command_plain [OF assms(2)] by (simp add: config_command_def)
  have "find_method c a1 = Inr (MCommand c, a1)" using assms(2) by (simp add: find_method_def command_method_def)
  moreover have "obj_get a2 ''_'' = Some (AList ?xs)" using g1 by (simp add: a2_def ob.get_put)
  then have "pass_options c a2 = Inr (obj_set ''_'' (AList (?xs @ [IOptions])) a2)"
    using assms(3) by (simp add: pass_options_def push_option_def)
  ultimately have run: "\<exists>r. args env (node # script # printed_line c ws rest) = Inr r \<and> ca_command r = c \<and>
      ca_method r = MCommand c \<and>
      ca_options r = normalize_options env (obj_set ''_'' (AList (?xs @ [IOptions])) a2)"
    unfolding args_def
    by (simp add: parse take displayModeHelp_def parseMode_def mode command_alias_self [OF assms(1,2)] special help_step
        config a2_def Let_def split del: if_split)
  have k: "obj_get (normalize_options env a) k = obj_get a k" for a
    using assms(6) by (intro normalize_get) (auto simp: touched_keys_def)
  have "obj_get a2 k = given ws k" "obj_get a2 ''_doubleDashArgs'' = obj_get argv ''_doubleDashArgs''"
    using assms(6) g1 get by (auto simp: a2_def ob.get_put touched_keys_def)
  moreover have "k \<noteq> ''_''" using assms(6) by (auto simp: touched_keys_def)
  ultimately show ?thesis using run get by (auto simp: normalize_lists k ob.get_put)
qed

text \<open>C21: A printed command line is read back: the command is found, the paths are its positional words followed
  by the options, everything behind \<open>--\<close> is passed on verbatim, and every option that has no special meaning
  carries the value that was given last (a value may contain any character, \<open>=\<close> included).\<close>

theorem command_line_roundtrip:
  assumes "abbrev_ok env" "c \<in> set command_words" "c \<in> set SupportedCliCommands" "c \<noteq> ''help''"
    and "list_all ordinary_word ws" "k \<notin> set touched_keys"
  shows "\<exists>r. args env (node # script # printed_line c ws rest) = Inr r \<and>
           ca_command r = c \<and> ca_method r = MCommand c \<and>
           obj_get (ca_options r) ''_'' = Some (AList (map IStr (concat (map word_path ws)) @ [IOptions])) \<and>
           obj_get (ca_options r) ''_doubleDashArgs'' = map_option (\<lambda>w. AList (map IStr w)) rest \<and>
           obj_get (ca_options r) k = given ws k"
  by (rule printed_line_parsed [OF assms])

section \<open>Modes never reach their validation\<close>

lemma mode_tables:
  "list_all (\<lambda>(m, md). m \<noteq> [] \<and> md_option md \<noteq> ''help'' \<and> md_option md \<noteq> ''_'' \<and>
     list_all (\<lambda>w. list_all (\<lambda>(m', _). \<not> js_startsWith w m') modes) (md_allowed md)) modes"
  by code_simp

lemma mode_entry:
  assumes "mode_of c = Some (m, md)"
  shows "c = Some (IStr m) \<and> (m, md) \<in> set modes \<and> m \<noteq> [] \<and> md_option md \<noteq> ''help'' \<and> md_option md \<noteq> ''_''"
proof -
  have "c = Some (IStr m) \<and> (m, md) \<in> set modes"
    using assms obj_get_SomeD [of modes] by (auto simp: mode_of_def split: option.splits arg_item.splits)
  with mode_tables show ?thesis by (auto simp: list_all_iff)
qed

lemma valid_command_no_mode:
  assumes "abbrev_ok env" "(m, md) \<in> set modes" "isValidCommand env md c"
  shows "mode_of c = None"
proof (rule ccontr)
  assume "mode_of c \<noteq> None"
  then obtain m' md' where c: "c = Some (IStr m')" "(m', md') \<in> set modes" using mode_entry by fastforce
  with assms(3) obtain w where "obj_get (ce_abbrev env (md_allowed md)) m' = Some w"
    using obj_key_get by (fastforce simp: isValidCommand_def)
  with abbrev_value [OF assms(1)] have "w \<in> set (md_allowed md)" "js_startsWith w m'" by blast+
  with mode_tables assms(2) c(2) show False by (fastforce simp: list_all_iff)
qed

lemma shift_get:
  assumes "shift_positional argv = Inr (x, argv')"
  shows "\<exists>xs. positional argv = Inr xs \<and> x = js_nth xs 0 \<and> obj_get argv' = (obj_get argv)(''_'' \<mapsto> AList (drop 1 xs))"
  using assms by (auto simp: shift_positional_def bindS_Inr_iff set_positional_def ob.get_put)

lemma mode_or_help:
  assumes "abbrev_ok env" "displayModeHelp env c argv = Inr a1" "parseMode env c a1 = Inr (c', a2)"
  shows "mode_of c' = None \<or> option_set a2 ''help''"
proof (cases "mode_of c")
  case None
  with assms(3) show ?thesis by (simp add: parseMode_def)
next
  case (Some mm)
  then obtain m md where mm: "mode_of c = Some (m, md)" by (cases mm) auto
  note entry = mode_entry [OF mm]
  obtain xs where xs: "positional argv = Inr xs"
    using assms(2) mm by (auto simp: displayModeHelp_def bindS_Inr_iff)
  have pos: "positional a1 = Inr xs"
    using assms(2) mm xs
    by (auto simp: displayModeHelp_def positional_iff ob.get_put split: if_splits)
  have helped: "\<not> isValidCommand env md (js_nth xs 0) \<Longrightarrow> option_set a1 ''help''"
    using assms(2) mm xs entry by (auto simp: displayModeHelp_def option_set_def)
  show ?thesis
  proof (cases "isValidCommand env md (js_nth xs 0)")
    case False
    with assms(3) mm pos helped show ?thesis by (simp add: parseMode_def)
  next
    case True
    with assms(3) mm pos have shift: "shift_positional (obj_set (md_option md) (ABool True) a1) = Inr (c', a2)"
      by (simp add: parseMode_def)
    have "positional (obj_set (md_option md) (ABool True) a1) = Inr xs"
      using pos entry by (auto simp: positional_iff ob.get_put)
    with shift_get [OF shift] have "c' = js_nth xs 0" by simp
    with valid_command_no_mode [OF assms(1), of m md] entry True show ?thesis by simp
  qed
qed

lemma alias_no_mode:
  assumes "abbrev_ok env" "mode_of c = None"
  shows "mode_of (command_alias env c) = None"
proof -
  have "obj_get modes t = None" if "obj_get (command_aliases env) k = Some t" for k t
  proof -
    from that have "t \<in> set command_words"
      using abbrev_value [OF assms(1), of command_words k t]
      by (auto simp: command_aliases_def ob.get_put command_words_def split: if_splits)
    then show ?thesis using command_plain by blast
  qed
  with assms(2) show ?thesis
    by (auto simp: command_alias_def mode_of_def split: option.splits arg_item.splits)
qed

lemma config_head: "js_startsWith c ''config:'' \<Longrightarrow> hd (js_split (CHR '':'') c) = ''config''"
  by (auto simp: js_startsWith_iff hd_js_split)

lemma mode_validation_ok:
  assumes "abbrev_ok env" "args env rawArgv = Inr r"
  shows "modeValidation env (ca_command r) commands = Inr ()"
proof -
  obtain c1 a1 a2 c3 a3 c4 a4 a5 where
    d: "displayModeHelp env c1 a1 = Inr a2" and p: "parseMode env c1 a2 = Inr (c3, a3)"
    and h: "help_command (special_command a3 (command_alias env c3)) a3 = Inr (c4, a4)"
    and c: "config_command c4 a4 = Inr (ca_command r, a5)"
    using assms(2) by (auto simp: args_def bindS_Inr_iff Let_def)
  have plain: "mode_of (special_command a3 (command_alias env c3)) = None" if "mode_of c3 = None"
    using alias_no_mode [OF assms(1) that] by (simp add: special_command_def mode_of_def modes_def)
  have c4: "mode_of c4 = None"
  proof (cases "option_set a3 ''help''")
    case True
    then have "c4 = Some (IStr ''help'')"
      using h by (auto simp: help_command_def Let_def bindS_Inr_iff map_sum_Inr_eq split: if_splits)
    then show ?thesis by (simp add: mode_of_def modes_def)
  next
    case False
    with mode_or_help [OF assms(1) d p] plain have "mode_of (special_command a3 (command_alias env c3)) = None"
      by blast
    with h show ?thesis
      by (auto simp: help_command_def Let_def bindS_Inr_iff map_sum_Inr_eq mode_of_def modes_def split: if_splits)
  qed
  have "obj_get modes (ca_command r) = None"
    using c c4 config_head
    by (auto simp: config_command_def Let_def mode_of_def modes_def map_sum_Inr_eq
          split: option.splits arg_item.splits if_splits)
  then show ?thesis by (simp add: modeValidation_def)
qed

text \<open>The command that \<open>args\<close> returns is never the name of a mode: a mode with a valid command gives that
  command, and a mode without one (or with \<open>--help\<close>) asks for help. So the validation of modes that runs on the
  result, with its two error messages, never rejects anything.\<close>

theorem mode_validation_dead:
  assumes "abbrev_ok env" "args env rawArgv = Inr r"
  shows "modeValidation env (ca_command r) commands = Inr ()"
  by (rule mode_validation_ok [OF assms])

section \<open>Dashed options\<close>

definition renaming :: "string \<Rightarrow> bool" where
  "renaming d = (dashToCamelCase d \<noteq> d)"

lemma transform_tables:
  "distinct argumentsToTransform \<and>
   list_all (\<lambda>d. dashToCamelCase d \<notin> set argumentsToTransform \<or> dashToCamelCase d = d) argumentsToTransform \<and>
   distinct (map dashToCamelCase argumentsToTransform) \<and>
   list_all (\<lambda>d. renaming d \<longrightarrow> d \<notin> {''detectionDepth'', ''allowMissing'', ''strictOutOfSync'', ''gradleSubProject'',
     ''subProject'', ''container'', ''docker''}) argumentsToTransform"
  by code_simp

lemma transform_own:
  "renaming d \<Longrightarrow> obj_get (transform_arg d argv) d = (if option_set argv d then None else obj_get argv d)"
  by (simp add: transform_arg_def renaming_def obj_get_delete)

lemma transform_camel:
  "renaming d \<Longrightarrow> obj_get (transform_arg d argv) (dashToCamelCase d) =
     (if option_set argv d then obj_get argv d else obj_get argv (dashToCamelCase d))"
  by (auto simp: transform_arg_def renaming_def obj_get_delete ob.get_put option_set_def split: option.splits)

text \<open>A loop over distinct dashed names whose new names are fresh treats every name on its own.\<close>

lemma transforms_each:
  assumes "distinct ds" "distinct (map dashToCamelCase ds)"
    and "list_all (\<lambda>d. dashToCamelCase d \<notin> set ds \<or> dashToCamelCase d = d) ds"
    and "d \<in> set ds" "renaming d"
  shows "obj_get (fold transform_arg ds argv) d = (if option_set argv d then None else obj_get argv d) \<and>
    obj_get (fold transform_arg ds argv) (dashToCamelCase d) =
      (if option_set argv d then obj_get argv d else obj_get argv (dashToCamelCase d))"
  using assms
proof (induction ds arbitrary: argv)
  case Nil
  then show ?case by simp
next
  case (Cons x ds)
  have camel: "dashToCamelCase d \<notin> set (x # ds)"
    using Cons.prems(3-5) by (auto simp: list_all_iff renaming_def)
  show ?case
  proof (cases "d = x")
    case True
    have "d \<notin> set ds" "d \<notin> dashToCamelCase ` set ds" "dashToCamelCase d \<notin> dashToCamelCase ` set ds"
      using Cons.prems True by (auto simp: list_all_iff renaming_def)
    then show ?thesis using camel True Cons.prems(5)
      by (simp add: transforms_get transform_own transform_camel)
  next
    case False
    have "d \<noteq> dashToCamelCase x"
      using Cons.prems False by (auto simp: list_all_iff renaming_def)
    moreover have "dashToCamelCase d \<noteq> x" "dashToCamelCase d \<noteq> dashToCamelCase x"
      using camel Cons.prems False by (auto simp: image_iff)
    ultimately have "obj_get (transform_arg x argv) d = obj_get argv d"
      "obj_get (transform_arg x argv) (dashToCamelCase d) = obj_get argv (dashToCamelCase d)"
      using False by (simp_all add: transform_get)
    moreover have "list_all (\<lambda>d. dashToCamelCase d \<notin> set ds \<or> dashToCamelCase d = d) ds"
      using Cons.prems(3) by (auto simp: list_all_iff)
    ultimately show ?thesis using Cons.IH [of "transform_arg x argv"] Cons.prems False
      by (simp add: option_set_def)
  qed
qed

text \<open>Normalizing the options gives every dashed option of the table to the commands under its camel-cased
  name only: the dashed name is gone when it was set, and an option without further conversions has the value it
  was given.\<close>

theorem dashed_options:
  assumes "d \<in> set argumentsToTransform" "renaming d" "option_set argv d"
    and "d \<notin> {''detection-depth'', ''strict-out-of-sync'', ''sub-project'', ''gradle-sub-project''}"
  shows "obj_get (normalize_options env argv) d = None \<and>
         obj_get (normalize_options env argv) (dashToCamelCase d) = obj_get argv d"
proof -
  let ?keys = "{''detectionDepth'', ''allowMissing'', ''strictOutOfSync'', ''gradleSubProject'', ''subProject'',
    ''container'', ''docker''}"
  have "list_all (\<lambda>d. renaming d \<longrightarrow>
      d \<notin> {''detection-depth'', ''strict-out-of-sync'', ''sub-project'', ''gradle-sub-project''} \<longrightarrow>
      dashToCamelCase d \<notin> ?keys) argumentsToTransform"
    by code_simp
  then have "dashToCamelCase d \<notin> ?keys" using assms by (simp add: list_all_iff)
  moreover have "d \<notin> ?keys" using transform_tables assms(1,2) by (auto simp: list_all_iff)
  moreover have "obj_get (normalize_options env argv) k = obj_get (fold transform_arg argumentsToTransform argv) k"
    if "k \<notin> ?keys" for k
    using that
    by (simp add: normalize_options_def option_renames_def rename_get flag_from_get number_depth_get)
  ultimately show ?thesis
    using transforms_each [of argumentsToTransform d argv] transform_tables assms(1-3) by simp
qed

section \<open>Words that are no commands\<close>

text \<open>A word that names an inherited member of every object is taken for an alias, and the run ends in a
  TypeError instead of the message for unknown commands.\<close>

definition sample_cli_env :: cli_env where
  "sample_cli_env =
     \<lparr>ce_abbrev = (\<lambda>ws. map (\<lambda>w. (w, w)) ws), ce_member_text = (\<lambda>k. ''function ''),
      ce_debug = None, ce_image_path = None\<rparr>"

lemma sample_env_ok: "abbrev_ok sample_cli_env"
proof -
  have "map_of (map (\<lambda>w. (w, w)) ws) x = Some x" if "x \<in> set ws" for ws and x :: string
    using that by (induction ws) auto
  then show ?thesis
    by (auto simp: abbrev_ok_def sample_cli_env_def list_all_iff abbrev_entry_def obj_get_def)
qed

lemma no_command_names:
  "list_all (\<lambda>c. c \<noteq> ''t'' \<and> c \<noteq> [] \<and> \<not> js_startsWith c ''-'' \<and> obj_get modes c = None \<and> c \<noteq> ''help'' \<and>
     \<not> js_startsWith c ''config:'' \<and> c \<notin> set command_words \<and> list_all (\<lambda>w. \<not> js_startsWith w c) command_words)
     (''aliases'' # object_members)"
  by code_simp

lemma no_command_name:
  assumes "abbrev_ok env" "c \<in> set (''aliases'' # object_members)"
  shows "c \<noteq> [] \<and> obj_get modes c = None \<and> c \<noteq> ''help'' \<and> \<not> js_startsWith c ''config:'' \<and> c \<notin> set command_words \<and>
    obj_get (command_aliases env) c = None \<and> arg_step env c [(''_'', AList [])] = Inr [(''_'', AList [IStr c])]"
proof -
  note c = no_command_names [unfolded list_all_iff, rule_format, OF assms(2)]
  have "obj_get (ce_abbrev env command_words) c = None"
  proof (rule ccontr)
    assume "obj_get (ce_abbrev env command_words) c \<noteq> None"
    then obtain w where "obj_get (ce_abbrev env command_words) c = Some w" by auto
    with abbrev_value [OF assms(1) this] c show False by (auto simp: list_all_iff)
  qed
  moreover have "c \<noteq> ''--''" using c by (auto simp: js_startsWith_iff)
  moreover have "obj_set ''_'' (AList [IStr c]) [(''_'', AList [])] = [(''_'', AList [IStr c])]"
    by (simp add: obj_set_def)
  ultimately show ?thesis using c
    by (simp add: command_aliases_def ob.get_put arg_step_def option_set_def push_option_def)
qed

lemma single_command:
  assumes "arg_step env c [(''_'', AList [])] = Inr [(''_'', AList [IStr c])]"
    and "c \<noteq> []" "obj_get modes c = None" "c \<noteq> ''help''"
  shows "args env [node, script, c] =
    bindS (help_command (command_alias env (Some (IStr c))) [(''_'', AList [])]) (\<lambda>(command4, argv4).
    bindS (config_command command4 argv4) (\<lambda>(command5, argv5).
    bindS (find_method command5 argv5) (\<lambda>(m, argv6).
    bindS (pass_options command5
      (if truthy (ce_image_path env) then obj_set ''imageSavePath'' (AStr (the (ce_image_path env))) argv6
       else argv6)) (\<lambda>argv7.
     (let options = normalize_options env argv7 in
      Inr \<lparr>ca_command = command5, ca_method = m, ca_options = options,
           ca_debug = enabled_debug env [(''_'', AList [IStr c])],
           ca_ignore_ca = option_set options ''insecure''\<rparr>)))))"
  using assms
  by (simp add: args_def take_command_def option_set_def shift_positional_def positional_def js_nth_def
        set_positional_def obj_set_def displayModeHelp_def parseMode_def mode_of_def special_command_def)

lemma inherited_command_crashes:
  assumes "abbrev_ok env" "c \<in> set object_members"
  shows "args env [node, script, c] = Inl TypeError"
proof -
  have "c \<in> set (''aliases'' # object_members)" using assms(2) by simp
  note c = no_command_name [OF assms(1) this]
  then have "command_alias env (Some (IStr c)) = Some IMember" using assms(2) by (simp add: command_alias_def)
  with c show ?thesis
    by (subst single_command) (simp_all add: help_command_def item_truthy_def option_set_def config_command_def)
qed

lemma aliases_command:
  assumes "abbrev_ok env"
  shows "\<exists>r. args env [node, script, ''aliases''] = Inr r \<and> ca_method r = MAliases"
proof -
  have "''aliases'' \<in> set (''aliases'' # object_members)" by simp
  note c = no_command_name [OF assms this]
  have "''aliases'' \<notin> set object_members \<and> ''aliases'' \<notin> set SupportedCliCommands" by code_simp
  with c show ?thesis
    by (subst single_command)
       (simp_all add: command_alias_def help_command_def item_truthy_def option_set_def config_command_def
          find_method_def command_method_def pass_options_def Let_def)
qed

definition sample_words :: "cli_word list" where
  "sample_words = [WPath ''dir'', WFlag ''json'', WValue ''org'' ''a=b'', WPath ''other'', WValue ''org'' ''c'']"

lemma test_line_parsed:
  "\<exists>r. args sample_cli_env (''node'' # ''cli'' # printed_line ''test'' [] None) = Inr r \<and> ca_command r = ''test''"
proof -
  have "''x'' \<notin> set touched_keys \<and> ''test'' \<in> set command_words \<and> ''test'' \<in> set SupportedCliCommands" by code_simp
  then show ?thesis
    using printed_line_parsed [OF sample_env_ok, of "''test''" "[]" "''x''" "''node''" "''cli''" None] by auto
qed

theorem command_line_roundtrip_witness:
  "\<exists>r. args sample_cli_env (''node'' # ''cli'' # printed_line ''test'' sample_words (Some [''-v'', ''--x''])) = Inr r \<and>
     ca_command r = ''test'' \<and> ca_method r = MCommand ''test'' \<and>
     obj_get (ca_options r) ''_'' = Some (AList (map IStr (concat (map word_path sample_words)) @ [IOptions])) \<and>
     obj_get (ca_options r) ''_doubleDashArgs'' =
       map_option (\<lambda>w. AList (map IStr w)) (Some [''-v'', ''--x'']) \<and>
     obj_get (ca_options r) ''org'' = given sample_words ''org''"
proof -
  have "list_all ordinary_word sample_words \<and> ''org'' \<notin> set touched_keys \<and> ''test'' \<in> set command_words \<and>
      ''test'' \<in> set SupportedCliCommands \<and> ''test'' \<noteq> ''help''"
    by code_simp
  then show ?thesis by (intro command_line_roundtrip sample_env_ok) simp_all
qed

theorem mode_validation_dead_witness:
  "modeValidation sample_cli_env
     (case args sample_cli_env [''node'', ''cli'', ''iac'', ''--json''] of Inr r \<Rightarrow> ca_command r | _ \<Rightarrow> ''iac'') [IOptions]
   = Inr ()"
proof -
  have "\<exists>r. args sample_cli_env [''node'', ''cli'', ''iac'', ''--json''] = Inr r"
    by (simp add: args_def arg_step_def sample_cli_env_def option_set_def push_option_def ob.get_put
        option_alias_def option_aliases_def put_option_def option_words_def obj_get_def [of "map f xs" for f xs]
        object_members_def take_command_def shift_positional_def positional_def set_positional_def js_nth_def
        displayModeHelp_def parseMode_def mode_of_def modes_def isValidCommand_def command_alias_def
        command_aliases_def command_words_def special_command_def help_command_def item_truthy_def
        unshift_positional_def config_command_def find_method_def command_method_def pass_options_def
        SupportedCliCommands_def Let_def)
  then obtain r where "args sample_cli_env [''node'', ''cli'', ''iac'', ''--json''] = Inr r" by blast
  with mode_validation_dead [OF sample_env_ok this] show ?thesis by simp
qed

theorem dashed_options_witness:
  "obj_get (normalize_options sample_cli_env [(''fail-on'', AStr ''all'')]) ''fail-on'' = None \<and>
   obj_get (normalize_options sample_cli_env [(''fail-on'', AStr ''all'')]) (dashToCamelCase ''fail-on'') =
     obj_get [(''fail-on'', AStr ''all'')] ''fail-on''"
proof -
  have "''fail-on'' \<in> set argumentsToTransform \<and> renaming ''fail-on'' \<and>
      option_set [(''fail-on'', AStr ''all'')] ''fail-on''"
    by code_simp
  then show ?thesis by (intro dashed_options) simp_all
qed

end
