(* ===== verification/CliErrors.thy ===== *)
theory CliErrors
  imports CliArgs JsPath
begin

text \<open>
  The errors of the tool and what is done with them: the error classes of \<open>src/src/lib/errors\<close> that the
  entry point uses, the texts of \<open>legacy-errors.js\<close>, the metadata collected for analytics
  (\<open>src/src/lib/analytics/index.ts\<close>), the masking of credentials (\<open>src/src/lib/utils.ts\<close>), and the registered
  alerts (\<open>src/src/lib/alerts.ts\<close>).

  Parameters: the styles of \<open>chalk\<close>, \<open>strip-ansi\<close>, \<open>JSON.stringify\<close> of an error, the text of a stack.
\<close>

section \<open>Errors\<close>

text \<open>The classes that some code tests with \<open>instanceof\<close>; every other class of errors is \<open>PlainError\<close>.\<close>

datatype error_class =
    PlainError | UnsupportedOptionCombination | NoSupportedSastFiles | FormattedCustom
  | InternalServer | BadGateway | ServiceUnavailable

text \<open>What is thrown: an error with its properties, or any other value.\<close>

datatype thrown = TErr error_class "json obj" | TVal json

record styles =
  st_red_bold :: "string \<Rightarrow> string"
  st_yellow :: "string \<Rightarrow> string"
  st_underline :: "string \<Rightarrow> string"
  st_stack :: "string \<Rightarrow> string"

definition err_get :: "thrown \<Rightarrow> string \<Rightarrow> json" where
  "err_get e k =
     (case e of
        TErr c ps \<Rightarrow> (case obj_get ps k of Some v \<Rightarrow> v | None \<Rightarrow> JUndef)
      | TVal v \<Rightarrow> field_opt v k)"

text \<open>\<open>new CustomError(message)\<close> of a class, with the code and the message for the user.\<close>

definition custom_error :: "styles \<Rightarrow> error_class \<Rightarrow> string \<Rightarrow> string \<Rightarrow> json \<Rightarrow> json \<Rightarrow> thrown" where
  "custom_error st c name message code userMessage =
     TErr c [(''name'', JStr name), (''message'', JStr message), (''stack'', JStr (st_stack st message)), (''code'', code),
       (''strCode'', JUndef), (''innerError'', JUndef), (''userMessage'', userMessage)]"

definition CustomError :: "styles \<Rightarrow> string \<Rightarrow> thrown" where
  "CustomError st message = custom_error st PlainError ''CustomError'' message JUndef JUndef"

definition user_error :: "styles \<Rightarrow> string \<Rightarrow> string \<Rightarrow> thrown" where
  "user_error st name message = custom_error st PlainError name message (JNum 422) (JStr message)"

definition UnsupportedOptionCombinationError :: "styles \<Rightarrow> string list \<Rightarrow> thrown" where
  "UnsupportedOptionCombinationError st options =
     (let text = ''The following option combination is not currently supported: '' @ js_join '' + '' options in
      custom_error st UnsupportedOptionCombination ''UnsupportedOptionCombinationError'' text (JNum 422) (JStr text))"

primrec insert_string :: "string \<Rightarrow> string list \<Rightarrow> string list" where
  "insert_string x [] = [x]"
| "insert_string x (y # ys) = (if string_le x y then x # y # ys else y # insert_string x ys)"

definition string_sort :: "string list \<Rightarrow> string list" where
  "string_sort xs = foldr insert_string xs []"

definition MissingOptionError :: "styles \<Rightarrow> string \<Rightarrow> string list \<Rightarrow> thrown" where
  "MissingOptionError st option required =
     user_error st ''MissingOptionError'' (''The '' @ option @ '' option can only be use in combination with '' @
       js_join '' or '' (string_sort required) @ ''.'')"

definition ExcludeFlagBadInputError :: "styles \<Rightarrow> thrown" where
  "ExcludeFlagBadInputError st =
     user_error st ''ExcludeFlagBadInputError'' ''Empty --exclude argument. Did you mean --exclude=subdirectory ?''"

definition ExcludeFlagInvalidInputError :: "styles \<Rightarrow> thrown" where
  "ExcludeFlagInvalidInputError st =
     user_error st ''ExcludeFlagInvalidInputError'' (''The --exclude argument must be a comma separated list of directory or file names '' @
       ''and cannot contain a path.'')"

definition FileFlagBadInputError :: "styles \<Rightarrow> thrown" where
  "FileFlagBadInputError st = user_error st ''FileFlagBadInputError'' ''Empty --file argument. Did you mean --file=path/to/file ?''"

definition InvalidDetectionDepthValue :: "styles \<Rightarrow> thrown" where
  "InvalidDetectionDepthValue st =
     user_error st ''InvalidDetectionDepthValue'' ''Unsupported value for --detection-depth flag. Expected a positive integer.''"

definition JsonFileOutputBadInputError :: "styles \<Rightarrow> thrown" where
  "JsonFileOutputBadInputError st =
     user_error st ''JsonFileOutputBadInputError'' ''Empty --json-file-output argument. Did you mean --file=path/to/output-file.json ?''"

definition SarifFileOutputEmptyError :: "styles \<Rightarrow> thrown" where
  "SarifFileOutputEmptyError st =
     user_error st ''SarifFileOutputEmptyError'' ''Empty --sarif-file-output argument. Did you mean --file=path/to/output-file.json ?''"

definition MissingTargetFileError :: "styles \<Rightarrow> string \<Rightarrow> thrown" where
  "MissingTargetFileError st path =
     user_error st ''CustomError'' (''Not a recognised option did you mean --file='' @ path @ ''? '' @
       ''Check other options by running vulnmap --help'')"

definition unsupported_manifests :: string where
  "unsupported_manifests = ''Could not detect supported target files in''"

definition NoSupportedManifestsFoundError :: "styles \<Rightarrow> string list \<Rightarrow> thrown" where
  "NoSupportedManifestsFoundError st atLocations =
     user_error st ''CustomError'' (unsupported_manifests @ '' '' @ js_join '', '' atLocations @ ''.'' @ [CHR 10] @
       ''Please see our documentation for supported languages and target files: '' @
       st_underline st ''https://vulnmap.co/udVgQ'' @ '' and make sure you are in the right directory.'')"

text \<open>\<open>legacy-errors.js\<close>: the method of an unknown command.\<close>

definition unknown_command :: "styles \<Rightarrow> string \<Rightarrow> thrown" where
  "unknown_command st command =
     (let text = ''Unknown command '' @ [CHR 0x22] @ command @ [CHR 0x22] in
      TErr PlainError [(''name'', JStr ''Error''), (''message'', JStr text), (''stack'', JStr (st_stack st text)),
        (''code'', JStr ''UNKNOWN_COMMAND'')])"

section \<open>Texts for the user\<close>

definition cli_reTryMessage :: string where
  "cli_reTryMessage =
     ''Tip: Re-run in debug mode to see more information: DEBUG=*vulnmap* <COMMAND>''"

definition cli_contactSupportMessage :: string where
  "cli_contactSupportMessage = ''If the issue persists contact support@khulnasoft.khulnasoft.com''"

definition errorMessageWithRetry :: "string \<Rightarrow> string" where
  "errorMessageWithRetry message =
     message @ [CHR 10] @ cli_reTryMessage @ [CHR 10] @ cli_contactSupportMessage"

definition legacy_texts :: "string \<Rightarrow> string obj" where
  "legacy_texts api =
     [(''connect'', ''Check your network connection, failed to connect to Vulnmap API''),
      (''endpoint'', ''The Vulnmap API is not available on '' @ api),
      (''auth'', ''Unauthorized: please ensure you are logged in using `vulnmap auth`''),
      (''oldvulnmap'', ''You have an alpha format Vulnmap policy file in this directory. Please remove it.''),
      (''notfound'', ''The package could not be found or does not exist''),
      (''patchfail'', ''Failed to apply patch against %s''),
      (''updatefail'',
        ''Encountered errors while updating dependencies.'' @
        ''If the issue persists please try removing your node_modules '' @
        ''and re-installing the dependencies then trying again.'' @ [CHR 10] @
        '' If you see any WARN messages about permission issues you can try '' @
        ''following advice on: '' @
        ''https://docs.npmjs.com/getting-started/fixing-npm-permissions''),
      (''updatepackage'', ''Upgrade this package to '' @ [CHR 0x22] @ ''%s'' @ [CHR 0x22] @ ''.''),
      (''nodeModules'',
        ''This directory looks like a node project, but is missing the '' @
        ''contents of the node_modules directory.'' @ [CHR 10] @
        '' Please run `npm install` or `yarn install` and re-run your vulnmap command.''),
      (''noApiToken'', ''%s requires an authenticated account. Please run `vulnmap auth` and try again.''),
      (''timeout'', errorMessageWithRetry ''The request has timed out on the server side.''),
      (''policyFile'',
        ''Bad policy file, please use --path=PATH to specify a directory with a .vulnmap file''),
      (''idRequired'', ''id is a required field for `vulnmap ignore`''),
      (''unknownCommand'',
        ''%s'' @ [CHR 10, CHR 10] @ ''Run `vulnmap --help` for a list of available commands.''),
      (''invalidSeverityThreshold'',
        ''Invalid severity threshold, please use one of low | medium | high | critical'')]"

definition legacy_code_names :: "string obj" where
  "legacy_code_names =
     [(''401'', ''auth''), (''403'', ''endpoint''), (''404'', ''notfound''), (''411'', ''endpoint''),
      (''502'', ''timeout''), (''504'', ''timeout''),
      (''ECONNREFUSED'', ''connect''), (''ENOTFOUND'', ''connect''), (''NOT_FOUND'', ''notfound''),
      (''Unauthorized'', ''auth''), (''MISSING_NODE_MODULES'', ''nodeModules''),
      (''OLD_DOTFILE_FORMAT'', ''oldvulnmap''), (''FAIL_PATCH'', ''patchfail''), (''FAIL_UPDATE'', ''updatefail''),
      (''NO_API_TOKEN'', ''noApiToken''), (''UNKNOWN_COMMAND'', ''unknownCommand''),
      (''INVALID_SEVERITY_THRESHOLD'', ''invalidSeverityThreshold'')]"

text \<open>\<open>codes[k] || errors[k]\<close> for the text of a key.\<close>

definition legacy_text :: "string \<Rightarrow> json \<Rightarrow> string option" where
  "legacy_text api k =
     (case Option.bind (obj_get legacy_code_names (json_text k)) (obj_get (legacy_texts api)) of
        Some t \<Rightarrow> Some t
      | None \<Rightarrow> obj_get (legacy_texts api) (json_text k))"

text \<open>\<open>text.replace(/(%s)/g, r)\<close>: the replacement may refer to the match, what is before and what is behind it.\<close>

fun expand_replacement :: "string \<Rightarrow> string \<Rightarrow> string \<Rightarrow> string" where
  "expand_replacement before behind (c # d # r) =
     (if c = CHR ''$'' then
        (if d = CHR ''$'' then CHR ''$'' # expand_replacement before behind r
         else if d = CHR ''&'' then ''%s'' @ expand_replacement before behind r
         else if d = CHR 0x60 then before @ expand_replacement before behind r
         else if d = CHR 0x27 then behind @ expand_replacement before behind r
         else if d = CHR ''1'' then ''%s'' @ expand_replacement before behind r
         else if d = CHR ''0'' \<and> js_startsWith r ''1'' then ''%s'' @ expand_replacement before behind (drop 1 r)
         else c # expand_replacement before behind (d # r))
      else c # expand_replacement before behind (d # r))"
| "expand_replacement before behind r = r"

fun replace_placeholders :: "string \<Rightarrow> string \<Rightarrow> string \<Rightarrow> string" where
  "replace_placeholders seen r (c # d # s) =
     (if c = CHR ''%'' \<and> d = CHR ''s''
      then expand_replacement seen s r @ replace_placeholders (seen @ ''%s'') r s
      else c # replace_placeholders (seen @ [c]) r (d # s))"
| "replace_placeholders seen r s = s"

definition js_or_value :: "json \<Rightarrow> json \<Rightarrow> json" where
  "js_or_value a b = (if js_true a then a else b)"

text \<open>
  \<open>message(error)\<close>: the text, and whether the error is recorded as one with an unknown code. A message for
  the user that is not a string is outside the model.
\<close>

definition legacy_message :: "styles \<Rightarrow> string \<Rightarrow> thrown \<Rightarrow> json \<times> bool" where
  "legacy_message st api e =
     (case e of
        TVal v \<Rightarrow> (v, False)
      | TErr c ps \<Rightarrow>
          (if err_get e ''code'' = JStr ''VULNS'' then (err_get e ''message'', False)
           else
             (let k = js_or_value (err_get e ''code'') (err_get e ''message'');
                  found = (if js_true (err_get e ''userMessage'') then Some (json_text (err_get e ''userMessage''))
                           else legacy_text api k) in
              case found of
                Some t \<Rightarrow>
                  (if c = FormattedCustom then (err_get e ''formattedUserMessage'', False)
                   else (JStr (st_red_bold st
                          (js_trim (replace_placeholders [] (json_text (err_get e ''message'')) t))), False))
              | None \<Rightarrow>
                  (if js_true (err_get e ''code'') then
                     (JStr (''An unknown error occurred. Please run with `-d` and include full trace '' @
                        ''when reporting to Vulnmap''), True)
                   else (err_get e ''message'', False)))))"

section \<open>Alerts\<close>

datatype alert_type = AlertInfo | AlertWarning | AlertError

record alert =
  al_type :: alert_type
  al_name :: string
  al_msg :: string

definition hasAlert :: "alert list \<Rightarrow> string \<Rightarrow> bool" where
  "hasAlert registered name = (\<exists>a\<in>set registered. al_name a = name)"

definition registerAlerts :: "alert list \<Rightarrow> alert list \<Rightarrow> alert list" where
  "registerAlerts alerts registered =
     fold (\<lambda>a registered. if hasAlert registered (al_name a) then registered else registered @ [a]) alerts registered"

definition displayAlerts :: "styles \<Rightarrow> alert list \<Rightarrow> string" where
  "displayAlerts st registered =
     concat (map (\<lambda>a. CHR 10 #
       (case al_type a of AlertWarning \<Rightarrow> st_red_bold st (al_msg a) | _ \<Rightarrow> st_yellow st (al_msg a))) registered)"

section \<open>Analytics metadata\<close>

text \<open>\<open>a + b\<close> of a number \<open>b\<close>: sums of numbers are exact; with any other value the texts are joined (the sum
  of a boolean or \<open>null\<close> is outside the model).\<close>

definition scaled :: "json \<Rightarrow> (int \<times> nat) option" where
  "scaled v = (case v of JNum i \<Rightarrow> Some (i, 0) | JDec m k \<Rightarrow> Some (m, k) | _ \<Rightarrow> None)"

definition is_number :: "json \<Rightarrow> bool" where
  "is_number v = (scaled v \<noteq> None)"

definition js_plus :: "json \<Rightarrow> json \<Rightarrow> json" where
  "js_plus a b =
     (case (scaled a, scaled b) of
        (Some (m, i), Some (n, j)) \<Rightarrow>
          norm_dec (max i j) (m * 10 ^ (max i j - i) + n * 10 ^ (max i j - j))
      | _ \<Rightarrow> JStr (json_text a @ json_text b))"

text \<open>The counters of one type of infrastructure are added to those already there.\<close>

definition merge_metric :: "string \<times> json \<Rightarrow> json obj \<Rightarrow> json obj" where
  "merge_metric = (\<lambda>(metric, x) counters.
     (case obj_get counters metric of
        Some old \<Rightarrow>
          if js_true old \<and> is_number x then obj_set metric (js_plus old x) counters
          else obj_set metric x counters
      | None \<Rightarrow> obj_set metric x counters))"

definition merge_type :: "string \<times> json \<Rightarrow> json obj \<Rightarrow> json obj" where
  "merge_type = (\<lambda>(type, v) types.
     (case (obj_get types type, v) of
        (Some (JObj counters), JObj metrics) \<Rightarrow> obj_set type (JObj (fold merge_metric metrics counters)) types
      | (Some old, _) \<Rightarrow> if js_true old then types else obj_set type v types
      | (None, _) \<Rightarrow> obj_set type v types))"

text \<open>
  \<open>add(key, value)\<close>. Values of \<open>iac-type\<close> are objects of objects; other ones are not merged by the model.
\<close>

definition analytics_add :: "(string \<Rightarrow> string) \<Rightarrow> string \<Rightarrow> json \<Rightarrow> json obj \<Rightarrow> json obj" where
  "analytics_add stripAnsi key value metadata =
     (let v = (case value of JStr s \<Rightarrow> JStr (stripAnsi s) | _ \<Rightarrow> value) in
      case obj_get metadata key of
        None \<Rightarrow> obj_set key v metadata
      | Some old \<Rightarrow>
          (if \<not> js_true old then obj_set key v metadata
           else if key = ''iac-metrics'' then metadata
           else if key = ''iac-type'' then
             (case (old, v) of
                (JObj types, JObj new) \<Rightarrow> obj_set key (JObj (fold merge_type new types)) metadata
              | _ \<Rightarrow> metadata)
           else if is_number v \<and> is_number old then obj_set key (js_plus old v) metadata
           else
             (let xs = (case old of JArr xs \<Rightarrow> xs | _ \<Rightarrow> [old]);
                  ys = (case v of JArr ys \<Rightarrow> ys | _ \<Rightarrow> [v]) in
              obj_set key (JArr (xs @ ys)) metadata)))"

section \<open>What is sent about a command\<close>

text \<open>An argument after \<open>cloneDeep\<close>: a text, a copy of the options, or another value.\<close>

datatype sent_item = SText string | SOptions "arg_value obj" | SOther

definition mask_option :: "string \<Rightarrow> arg_value obj \<Rightarrow> arg_value obj" where
  "mask_option k opts = (if option_set opts k then obj_set k (AStr (k @ ''-set'')) opts else opts)"

definition mask_options :: "arg_value obj \<Rightarrow> arg_value obj" where
  "mask_options opts = mask_option ''password'' (mask_option ''username'' opts)"

text \<open>\<open>obfuscateArgs(options._)\<close> looks at the options only when they are the second element.\<close>

definition obfuscateArgs :: "arg_value obj \<Rightarrow> arg_item list \<Rightarrow> sent_item list" where
  "obfuscateArgs opts xs =
     map (\<lambda>i. case i of
            IStr s \<Rightarrow> SText s
          | IOptions \<Rightarrow> SOptions (if js_nth xs 1 = Some IOptions then mask_options opts else opts)
          | _ \<Rightarrow> SOther) xs"

definition sensitiveFlags :: "string list" where
  "sensitiveFlags = [''tfc-token'', ''azurerm-account-key'', ''fetch-tfstate-headers'']"

definition redact :: "arg_value obj \<Rightarrow> arg_value obj" where
  "redact opts = map (\<lambda>(k, v). if k \<in> set sensitiveFlags then (k, AStr ''REDACTED'') else (k, v)) opts"

text \<open>The list of words is deleted from the copy of the options when they are the last element.\<close>

definition sent_args :: "sent_item list \<Rightarrow> sent_item list" where
  "sent_args xs =
     map (\<lambda>i. case i of
            SOptions opts \<Rightarrow>
              SOptions (redact (if (case last xs of SOptions _ \<Rightarrow> True | _ \<Rightarrow> False)
                                then obj_delete ''_'' opts else opts))
          | _ \<Rightarrow> i) xs"

record sent_data =
  sd_args :: "sent_item list"
  sd_command :: string
  sd_org :: "arg_value option"
  sd_metadata :: "json obj option"

definition addDataAndSend ::
  "bool \<Rightarrow> sent_item list \<Rightarrow> string \<Rightarrow> arg_value option \<Rightarrow> json obj \<Rightarrow> sent_data option" where
  "addDataAndSend allowed xs command org metadata =
     (if allowed then
        Some \<lparr>sd_args = sent_args xs, sd_command = command, sd_org = org,
              sd_metadata = (if metadata = [] then None else Some metadata)\<rparr>
      else None)"

section \<open>What the masks guarantee\<close>

lemma redact_get:
  "obj_get (redact opts) k =
     (if k \<in> set sensitiveFlags then map_option (\<lambda>_. AStr ''REDACTED'') (obj_get opts k) else obj_get opts k)"
  by (induction opts) (auto simp: redact_def)

lemma mask_options_get:
  "obj_get (mask_options opts) k =
     (if k \<in> {''username'', ''password''} \<and> option_set opts k then Some (AStr (k @ ''-set'')) else obj_get opts k)"
  by (auto simp: mask_options_def mask_option_def ob.get_put option_set_def)

text \<open>The options of a command with some words in front of them.\<close>

lemma sent_options:
  "sent_args (obfuscateArgs opts (map IStr ps @ [IOptions])) =
     map SText ps @ [SOptions (redact (obj_delete ''_'' (if length ps = 1 then mask_options opts else opts)))]"
proof -
  have "js_nth (map IStr ps @ [IOptions]) 1 = Some IOptions \<longleftrightarrow> length ps = 1"
    by (cases ps; cases "tl ps") (auto simp: js_nth_def nth_append)
  then show ?thesis by (simp add: obfuscateArgs_def sent_args_def)
qed

text \<open>What is sent for analytics about a command with paths never holds the value of a flag for tokens; but the
  user name and the password of a registry are masked only when there is exactly one path, and are sent as they
  were typed otherwise.\<close>

theorem credentials_masked:
  "\<exists>sent. last (sent_args (obfuscateArgs opts (map IStr ps @ [IOptions]))) = SOptions sent \<and>
     list_all (\<lambda>k. obj_get sent k \<in> {None, Some (AStr ''REDACTED'')}) sensitiveFlags \<and>
     obj_get sent ''password'' =
       (if length ps = 1 \<and> option_set opts ''password'' then Some (AStr ''password-set'')
        else obj_get opts ''password'') \<and>
     obj_get sent ''username'' =
       (if length ps = 1 \<and> option_set opts ''username'' then Some (AStr ''username-set'')
        else obj_get opts ''username'')"
proof -
  have "map_option (\<lambda>_. AStr ''REDACTED'') x \<in> {None, Some (AStr ''REDACTED'')}" for x :: "arg_value option"
    by (cases x) simp_all
  then show ?thesis
    by (auto simp: sent_options redact_get obj_get_delete mask_options_get list_all_iff sensitiveFlags_def)
qed

text \<open>Registered alerts have different names.\<close>

lemma alerts_distinct:
  "distinct (map al_name registered) \<Longrightarrow> distinct (map al_name (registerAlerts alerts registered))"
proof (induction alerts arbitrary: registered)
  case Nil
  then show ?case by (simp add: registerAlerts_def)
next
  case (Cons a alerts)
  then have "distinct (map al_name (if hasAlert registered (al_name a) then registered else registered @ [a]))"
    by (auto simp: hasAlert_def)
  from Cons.IH [OF this] show ?case by (simp add: registerAlerts_def)
qed

end
