(* ===== verification/CliMain.thy ===== *)
theory CliMain
  imports CliErrors Detect
begin

text \<open>
  The entry point of the tool, \<open>src/src/cli/main.ts\<close>: the checks of the options, the run of the command, what
  is printed, saved and reported when it returns or throws, and the exit code; with the projects of a solution
  file (\<open>src/src/lib/sln/index.ts\<close>), the files of results (\<open>src/src/lib/json-file-output.ts\<close>) and the check of
  paths that commands share (\<open>src/src/lib/check-paths.ts\<close>).

  The state is the options object, which the run changes in place, the files and printed lines, the clipboard,
  the metadata for analytics and what was sent, the alerts and the exit code. A command is a parameter: any
  function on this state. Further parameters: \<open>chalk\<close>, \<open>strip-ansi\<close>, \<open>semver.gte\<close>, the texts of an
  error on the console and as JSON, whether a folder can be created. Results are texts, as their types say; the spinner is left out.
\<close>

section \<open>State\<close>

record cli_world =
  cw_options :: "arg_value obj"
  cw_fs :: pworld
  cw_clip :: "string list"
  cw_meta :: "json obj"
  cw_sent :: "sent_data list"
  cw_alerts :: "alert list"
  cw_exit :: "json option"

text \<open>What a command returns: nothing, a text, or the result of a test with its JSON and SARIF texts.\<close>

datatype method_result = RNone | RText string | RTest string string string

type_synonym 'a cio = "(thrown, cli_world, 'a) eff"

record main_env =
  me_styles :: styles
  me_cli :: cli_env
  me_penv :: penv
  me_command :: "string \<Rightarrow> arg_item list \<Rightarrow> method_result cio"
  me_strip :: "string \<Rightarrow> string"
  me_gte :: "string \<Rightarrow> string \<Rightarrow> bool"
  me_mkdir :: "bool \<Rightarrow> string \<Rightarrow> bool"
  me_copy :: "string \<Rightarrow> thrown option"
  me_fs_error :: "protect_error \<Rightarrow> thrown"
  me_stringify :: "thrown \<Rightarrow> string"
  me_error_text :: "protect_error \<Rightarrow> string"
  me_api :: string
  me_erase :: string
  me_allowed :: bool
  me_tap :: bool

definition strip_value :: "main_env \<Rightarrow> json \<Rightarrow> json" where
  "strip_value en v = (case v of JStr s \<Rightarrow> JStr (me_strip en s) | _ \<Rightarrow> v)"

definition on_fs :: "(pworld \<Rightarrow> pworld) \<Rightarrow> unit cio" where
  "on_fs f = (\<lambda>w. (Inr (), w\<lparr>cw_fs := f (cw_fs w)\<rparr>))"

definition log_line :: "string \<Rightarrow> unit cio" where
  "log_line t = on_fs (\<lambda>f. f\<lparr>out_lines := out_lines f @ [t]\<rparr>)"

definition error_line :: "string \<Rightarrow> unit cio" where
  "error_line t = on_fs (\<lambda>f. f\<lparr>err_lines := err_lines f @ [t]\<rparr>)"

definition get_world :: "cli_world cio" where
  "get_world = (\<lambda>w. (Inr w, w))"

definition set_options :: "arg_value obj \<Rightarrow> unit cio" where
  "set_options opts = (\<lambda>w. (Inr (), w\<lparr>cw_options := opts\<rparr>))"

definition add_meta :: "main_env \<Rightarrow> string \<Rightarrow> json \<Rightarrow> unit cio" where
  "add_meta en key v = (\<lambda>w. (Inr (), w\<lparr>cw_meta := analytics_add (me_strip en) key v (cw_meta w)\<rparr>))"

definition copy_text :: "main_env \<Rightarrow> string \<Rightarrow> unit cio" where
  "copy_text en t = (\<lambda>w.
     (case me_copy en t of Some e \<Rightarrow> (Inl e, w) | None \<Rightarrow> (Inr (), w\<lparr>cw_clip := cw_clip w @ [t]\<rparr>)))"

definition option_items :: "arg_value obj \<Rightarrow> arg_item list" where
  "option_items opts = (case obj_get opts ''_'' of Some (AList xs) \<Rightarrow> xs | _ \<Rightarrow> [])"

definition send_data :: "main_env \<Rightarrow> string \<Rightarrow> unit cio" where
  "send_data en command = (\<lambda>w.
     (Inr (), w\<lparr>cw_sent := cw_sent w @
        (case addDataAndSend (me_allowed en) (obfuscateArgs (cw_options w) (option_items (cw_options w))) command
            (obj_get (cw_options w) ''org'') (cw_meta w) of
           Some d \<Rightarrow> [d] | None \<Rightarrow> [])\<rparr>))"

section \<open>Files of results\<close>

definition MIN_VERSION_FOR_MKDIR_RECURSIVE :: string where
  "MIN_VERSION_FOR_MKDIR_RECURSIVE = ''10.12.0''"

definition createDirectory :: "main_env \<Rightarrow> string \<Rightarrow> bool cio" where
  "createDirectory en dir =
     bindE get_world (\<lambda>w.
       if existsSync (cw_fs w) dir then ret True
       else if me_mkdir en (me_gte en (node_version (me_penv en)) MIN_VERSION_FOR_MKDIR_RECURSIVE) dir then
         bindE (on_fs (\<lambda>f. f\<lparr>nodes := (nodes f)(dir \<mapsto> DirNode [])\<rparr>)) (\<lambda>_. ret True)
       else
         bindE (error_line (me_error_text en (FsErr ''mkdir'' dir))) (\<lambda>_.
         bindE (error_line (''could not create directory '' @ dir)) (\<lambda>_. ret False)))"

definition writeContentsToFileSwallowingErrors :: "main_env \<Rightarrow> string \<Rightarrow> string \<Rightarrow> unit cio" where
  "writeContentsToFileSwallowingErrors en file contents =
     bindE get_world (\<lambda>w.
       case writeFileSync file (contents @ [CHR 10]) (cw_fs w) of
         (Inr _, f) \<Rightarrow> on_fs (\<lambda>_. f)
       | (Inl e, f) \<Rightarrow> error_line (me_error_text en e))"

definition saveJsonToFileCreatingDirectoryIfRequired :: "main_env \<Rightarrow> string \<Rightarrow> string \<Rightarrow> unit cio" where
  "saveJsonToFileCreatingDirectoryIfRequired en file contents =
     bindE (createDirectory en (path_dir file)) (\<lambda>ok.
       if ok then writeContentsToFileSwallowingErrors en file contents else ret ())"

definition getFullPath :: "main_env \<Rightarrow> string \<Rightarrow> string" where
  "getFullPath en p = (if path_abs p then p else path_join [working_dir (me_penv en), p])"

definition saveJsonResultsToFile :: "main_env \<Rightarrow> string \<Rightarrow> string \<Rightarrow> unit cio" where
  "saveJsonResultsToFile en text file =
     (if file = [] then error_line ''empty jsonOutputFile''
      else saveJsonToFileCreatingDirectoryIfRequired en file text)"

definition type_error_thrown :: "main_env \<Rightarrow> thrown" where
  "type_error_thrown en =
     TErr PlainError [(''name'', JStr ''TypeError''), (''message'', JStr ''TypeError''), (''stack'', JStr (st_stack (me_styles en) ''TypeError''))]"

definition saveResultsToFile :: "main_env \<Rightarrow> string \<Rightarrow> string \<Rightarrow> unit cio" where
  "saveResultsToFile en outputType results =
     bindE get_world (\<lambda>w.
       let outputFile = obj_get (cw_options w) (outputType @ ''-file-output'') in
       if option_set (cw_options w) (outputType @ ''-file-output'') \<and> results \<noteq> [] then
         (case outputFile of
            Some (AStr p) \<Rightarrow> saveJsonResultsToFile en (me_strip en results) (getFullPath en p)
          | _ \<Rightarrow> throw (type_error_thrown en))
       else ret ())"

section \<open>Running the command\<close>

text \<open>The method is called with the positional words; the one for unknown commands looks at the first of them.\<close>

definition run_method :: "main_env \<Rightarrow> cli_method \<Rightarrow> arg_item list \<Rightarrow> method_result cio" where
  "run_method en m items =
     (case m of
        MCommand c \<Rightarrow> me_command en c items
      | MLegacyErrors \<Rightarrow> throw (unknown_command (me_styles en)
          (case items of IStr s # _ \<Rightarrow> s | IOptions # _ \<Rightarrow> ''[object Object]'' | _ \<Rightarrow> ''undefined''))
      | _ \<Rightarrow> throw (type_error_thrown en))"

definition result_text :: "method_result \<Rightarrow> string" where
  "result_text r = (case r of RNone \<Rightarrow> [] | RText t \<Rightarrow> t | RTest t j s \<Rightarrow> t)"

definition print_result :: "main_env \<Rightarrow> string \<Rightarrow> unit cio" where
  "print_result en result =
     bindE get_world (\<lambda>w.
       if result \<noteq> [] \<and> \<not> option_set (cw_options w) ''quiet'' then
         (if option_set (cw_options w) ''copy'' then
            bindE (copy_text en result) (\<lambda>_. log_line ''Result copied to clipboard'')
          else log_line result)
       else ret ())"

definition runCommand :: "main_env \<Rightarrow> string \<Rightarrow> cli_method \<Rightarrow> unit cio" where
  "runCommand en command m =
     bindE get_world (\<lambda>w0.
     bindE (run_method en m (option_items (cw_options w0))) (\<lambda>r.
     bindE (send_data en command) (\<lambda>_.
       if r = RNone \<or> r = RText [] then ret ()
       else
         bindE (print_result en (result_text r)) (\<lambda>_.
           if command = ''test'' then
             (case r of
                RTest t json sarif \<Rightarrow>
                  bindE (saveResultsToFile en ''json'' json) (\<lambda>_. saveResultsToFile en ''sarif'' sarif)
              | _ \<Rightarrow> throw (type_error_thrown en))
           else ret ()))))"

section \<open>Handling an error\<close>

definition EXIT_VULNS_FOUND :: int where "EXIT_VULNS_FOUND = 1"
definition EXIT_ERROR :: int where "EXIT_ERROR = 2"
definition EXIT_NO_SUPPORTED_PROJECTS_DETECTED :: int where "EXIT_NO_SUPPORTED_PROJECTS_DETECTED = 3"

definition NoFilesToScanError :: int where "NoFilesToScanError = 1010"

text \<open>An error that wraps another one shows the data of the innermost.\<close>

definition err_set :: "string \<Rightarrow> json \<Rightarrow> thrown \<Rightarrow> thrown" where
  "err_set k v e =
     (case e of
        TErr c ps \<Rightarrow> TErr c (obj_set k v ps)
      | TVal (JObj ps) \<Rightarrow> TVal (JObj (obj_set k v ps))
      | _ \<Rightarrow> e)"

definition use_nested :: "string \<times> string \<Rightarrow> thrown \<Rightarrow> thrown" where
  "use_nested = (\<lambda>(nested, k) e. err_set k (js_or_value (err_get e nested) (err_get e k)) e)"

definition unwrap_nested :: "thrown \<Rightarrow> thrown" where
  "unwrap_nested e =
     (if (case e of TErr _ _ \<Rightarrow> True | TVal (JObj _) \<Rightarrow> True | TVal (JArr _) \<Rightarrow> True | _ \<Rightarrow> False)
      then fold use_nested
        [(''nestedStack'', ''stack''), (''nestedUserMessage'', ''userMessage''), (''nestedCode'', ''code''),
         (''nestedStrCode'', ''strCode''), (''nestedUserMessage'', ''userMessage'')] e
      else e)"

text \<open>\<open>error.message?.includes(...)\<close>: numbers and booleans have no such method.\<close>

definition message_includes :: "main_env \<Rightarrow> json \<Rightarrow> string \<Rightarrow> thrown + bool" where
  "message_includes en v t =
     (case v of
        JStr s \<Rightarrow> Inr (js_includes s t)
      | JArr vs \<Rightarrow> Inr (JStr t \<in> set vs)
      | JUndef \<Rightarrow> Inr False
      | JNull \<Rightarrow> Inr False
      | _ \<Rightarrow> Inl (type_error_thrown en))"

definition is_class :: "thrown \<Rightarrow> error_class \<Rightarrow> bool" where
  "is_class e c = (case e of TErr c' _ \<Rightarrow> c' = c | TVal _ \<Rightarrow> False)"

definition vulns_found :: "thrown \<Rightarrow> bool" where
  "vulns_found e = (err_get e ''code'' = JStr ''VULNS'')"

text \<open>The exit code, and the command under which the run is recorded.\<close>

definition error_outcome ::
  "main_env \<Rightarrow> string \<Rightarrow> arg_value obj \<Rightarrow> thrown \<Rightarrow> thrown + json \<times> string" where
  "error_outcome en command opts e =
     (if command = ''test'' \<and> option_set opts ''unmanaged'' then
        Inr (if vulns_found e then JNum EXIT_VULNS_FOUND else err_get e ''code'', ''bad-command'')
      else
        bindS (message_includes en (err_get e ''message'') unsupported_manifests) (\<lambda>noManifests.
          Inr (if vulns_found e then (JNum EXIT_VULNS_FOUND, command)
               else if noManifests \<or> is_class e NoSupportedSastFiles \<or>
                   err_get e ''code'' = JNum NoFilesToScanError
               then (JNum EXIT_NO_SUPPORTED_PROJECTS_DETECTED, ''bad-command'')
               else (JNum EXIT_ERROR, ''bad-command''))))"

definition print_error :: "main_env \<Rightarrow> thrown \<Rightarrow> unit cio" where
  "print_error en e =
     bindE get_world (\<lambda>w.
       let opts = cw_options w in
       if option_set opts ''debug'' \<and> \<not> option_set opts ''json'' then
         log_line (json_text (if vulns_found e then err_get e ''message'' else err_get e ''stack''))
       else if option_set opts ''json'' \<and> \<not> is_class e UnsupportedOptionCombination then
         log_line (json_text (if vulns_found e then err_get e ''message''
           else strip_value en (js_or_value (err_get e ''json'') (err_get e ''stack''))))
       else if option_set opts ''quiet'' then ret ()
       else
         (case legacy_message (me_styles en) (me_api en) e of
            (t, unknown) \<Rightarrow>
              bindE (if unknown then add_meta en ''unknown-error-code'' (JStr (me_stringify en e)) else ret ()) (\<lambda>_.
                if option_set opts ''copy'' then
                  bindE (copy_text en (json_text t)) (\<lambda>_. log_line ''Result copied to clipboard'')
                else
                  bindE (if js_startsWith (json_text (err_get e ''code'')) ''AUTH_''
                         then log_line (me_erase en) else ret ()) (\<lambda>_.
                    log_line (json_text t)))))"

definition saved_text :: "json \<Rightarrow> string" where
  "saved_text v = (case v of JStr s \<Rightarrow> s | _ \<Rightarrow> [])"

definition report_error :: "main_env \<Rightarrow> string \<Rightarrow> thrown \<Rightarrow> unit cio" where
  "report_error en command e =
     (if \<not> vulns_found e \<and> \<not> js_true (err_get e ''stack'') then
        bindE (add_meta en ''error'' (JBool True)) (\<lambda>_. add_meta en ''command'' (JStr command))
      else
        bindE (add_meta en ''error-message''
          (if vulns_found e then JStr ''Vulnerabilities found'' else err_get e ''message'')) (\<lambda>_.
        bindE (add_meta en ''error''
          (if vulns_found e then err_get e ''jsonNoVulns'' else err_get e ''stack'')) (\<lambda>_.
        bindE (add_meta en ''error-code'' (err_get e ''code'')) (\<lambda>_.
        bindE (add_meta en ''error-details'' (err_get e ''innerError'')) (\<lambda>_.
        bindE (add_meta en ''error-str-code'' (err_get e ''strCode'')) (\<lambda>_.
          add_meta en ''command'' (JStr command)))))))"

definition handleError :: "main_env \<Rightarrow> string \<Rightarrow> thrown \<Rightarrow> json cio" where
  "handleError en command err =
     (let e = unwrap_nested err in
      bindE get_world (\<lambda>w.
      bindE (lift (error_outcome en command (cw_options w) e)) (\<lambda>(exitCode, reported).
      bindE (print_error en e) (\<lambda>_.
      bindE (saveResultsToFile en ''json'' (saved_text (err_get e ''jsonStringifiedResults''))) (\<lambda>_.
      bindE (saveResultsToFile en ''sarif'' (saved_text (err_get e ''sarifStringifiedResults''))) (\<lambda>_.
      bindE (report_error en command e) (\<lambda>_.
      bindE (send_data en reported) (\<lambda>_.
        ret exitCode))))))))"

section \<open>Solution files\<close>

text \<open>The text before and behind the first occurrence of a word.\<close>

fun find_word :: "string \<Rightarrow> string \<Rightarrow> (string \<times> string) option" where
  "find_word p [] = (if p = [] then Some ([], []) else None)"
| "find_word p (c # s) =
     (if js_startsWith (c # s) p then Some ([], drop (length p) (c # s))
      else map_option (\<lambda>(a, b). (c # a, b)) (find_word p s))"

lemma find_word_shorter: "find_word p s = Some (a, b) \<Longrightarrow> length a + length p + length b = length s"
proof (induction s arbitrary: a)
  case Nil
  then show ?case by (auto split: if_splits)
next
  case (Cons c s)
  show ?case
  proof (cases "js_startsWith (c # s) p")
    case True
    then obtain t where t: "c # s = p @ t" by (auto simp: js_startsWith_iff)
    then have "Suc (length s) = length p + length t" by (metis length_Cons length_append)
    with True Cons.prems show ?thesis by auto
  next
    case False
    with Cons show ?thesis by auto
  qed
qed

text \<open>All matches of \<open>/Project[\s\S]*?EndProject/g\<close>.\<close>

function project_scopes :: "string \<Rightarrow> string list" where
  "project_scopes s =
     (case find_word ''Project'' s of
        None \<Rightarrow> []
      | Some (_, r) \<Rightarrow>
          (case find_word ''EndProject'' r of
             None \<Rightarrow> []
           | Some (inner, r') \<Rightarrow> (''Project'' @ inner @ ''EndProject'') # project_scopes r'))"
  by pat_completeness auto
termination
  by (relation "measure length") (auto dest!: find_word_shorter)

declare project_scopes.simps [simp del]

definition scope_path :: "string \<Rightarrow> string option" where
  "scope_path scope =
     (case js_nth (js_split (CHR '','') scope) 1 of
        None \<Rightarrow> None
      | Some arg \<Rightarrow>
          (if arg = [] then None
           else (let p = filter (\<lambda>c. c \<noteq> CHR 0x22) (js_trim arg) in if p = [] then None else Some p)))"

definition project_dir :: "string \<Rightarrow> string" where
  "project_dir p = path_dir (map (\<lambda>c. if c = CHR 0x5C then sep else c) p)"

definition plain_error :: "main_env \<Rightarrow> string \<Rightarrow> thrown" where
  "plain_error en message =
     TErr PlainError [(''name'', JStr ''Error''), (''message'', JStr message),
       (''stack'', JStr (st_stack (me_styles en) message))]"

definition load_sln_file :: "main_env \<Rightarrow> pworld \<Rightarrow> string \<Rightarrow> thrown + string" where
  "load_sln_file en f p =
     (if \<not> existsSync f p then Inl (plain_error en (''File not found: '' @ p))
      else map_sum (me_fs_error en) id (read_text f p))"

definition parsePathsFromSln :: "main_env \<Rightarrow> pworld \<Rightarrow> string \<Rightarrow> thrown + string list" where
  "parsePathsFromSln en f slnFile =
     map_sum id (\<lambda>text. map project_dir (List.map_filter scope_path (project_scopes text)))
       (load_sln_file en f (resolve (me_penv en) [slnFile]))"

definition addProjectFoldersToArgs :: "arg_value obj \<Rightarrow> string list \<Rightarrow> arg_value obj" where
  "addProjectFoldersToArgs opts folders =
     (let xs = option_items opts in
      set_positional (butlast xs @ map IStr folders @ [if xs = [] then IUndef else last xs]) opts)"

definition updateArgs :: "main_env \<Rightarrow> pworld \<Rightarrow> arg_value obj \<Rightarrow> thrown + arg_value obj" where
  "updateArgs en f opts =
     (case obj_get opts ''file'' of
        Some (AStr file) \<Rightarrow>
          (if file = [] then Inl (FileFlagBadInputError (me_styles en))
           else
             bindS (parsePathsFromSln en f file) (\<lambda>projectFolders.
               (let folders = filter (\<lambda>d. detectPackageFile (me_penv en) f d \<noteq> None)
                      (map (\<lambda>p. resolve (me_penv en) [path_dir file, p]) projectFolders) in
                if folders = [] then Inl (NoSupportedManifestsFoundError (me_styles en) projectFolders)
                else Inr (addProjectFoldersToArgs (obj_delete ''file'' opts) folders))))
      | _ \<Rightarrow> Inl (FileFlagBadInputError (me_styles en)))"

section \<open>Checking the options\<close>

definition unsupportedAllProjectsCombinations :: "string obj" where
  "unsupportedAllProjectsCombinations =
     [(''project-name'', ''project-name''), (''file'', ''file''), (''yarnWorkspaces'', ''yarn-workspaces''),
      (''packageManager'', ''package-manager''), (''docker'', ''docker''),
      (''allSubProjects'', ''all-sub-projects'')]"

definition unsupportedYarnWorkspacesCombinations :: "string obj" where
  "unsupportedYarnWorkspacesCombinations =
     [(''project-name'', ''project-name''), (''file'', ''file''), (''packageManager'', ''package-manager''),
      (''docker'', ''docker''), (''allSubProjects'', ''all-sub-projects'')]"

definition reject :: "bool \<Rightarrow> thrown \<Rightarrow> thrown + unit" where
  "reject b e = (if b then Inl e else Inr ())"

definition reject_combination ::
  "styles \<Rightarrow> arg_value obj \<Rightarrow> string \<Rightarrow> string obj \<Rightarrow> thrown + unit" where
  "reject_combination st opts with_option combinations =
     (case find (option_set opts) (obj_keys combinations) of
        None \<Rightarrow> Inr ()
      | Some k \<Rightarrow> Inl (UnsupportedOptionCombinationError st
          [the (obj_get unsupportedAllProjectsCombinations k), with_option]))"

definition validateUnsupportedOptionCombinations :: "styles \<Rightarrow> arg_value obj \<Rightarrow> thrown + unit" where
  "validateUnsupportedOptionCombinations st opts =
     bindS (reject (option_set opts ''scanAllUnmanaged'' \<and> option_set opts ''file'')
       (UnsupportedOptionCombinationError st [''file'', ''scan-all-unmanaged''])) (\<lambda>_.
     bindS (if option_set opts ''allProjects''
            then reject_combination st opts ''all-projects'' unsupportedAllProjectsCombinations else Inr ()) (\<lambda>_.
     bindS (if option_set opts ''yarnWorkspaces''
            then reject_combination st opts ''yarn-workspaces'' unsupportedYarnWorkspacesCombinations
            else Inr ()) (\<lambda>_.
       if option_set opts ''exclude'' then
         bindS (reject (\<not> (option_set opts ''allProjects'' \<or> option_set opts ''yarnWorkspaces''))
           (MissingOptionError st ''--exclude'' [''--yarn-workspaces'', ''--all-projects''])) (\<lambda>_.
         (case obj_get opts ''exclude'' of
            Some (AStr x) \<Rightarrow> reject (sep \<in> set x) (ExcludeFlagInvalidInputError st)
          | _ \<Rightarrow> Inl (ExcludeFlagBadInputError st)))
       else Inr ())))"

definition validateUnsupportedSarifCombinations ::
  "styles \<Rightarrow> string \<Rightarrow> arg_value obj \<Rightarrow> thrown + unit" where
  "validateUnsupportedSarifCombinations st command opts =
     bindS (reject (option_set opts ''json-file-output'' \<and> command \<noteq> ''test'')
       (UnsupportedOptionCombinationError st [command, ''json-file-output''])) (\<lambda>_.
     bindS (reject (option_set opts ''sarif'' \<and> command \<noteq> ''test'')
       (UnsupportedOptionCombinationError st [command, ''sarif''])) (\<lambda>_.
     bindS (reject (option_set opts ''sarif'' \<and> option_set opts ''json'')
       (UnsupportedOptionCombinationError st [command, ''sarif'', ''json''])) (\<lambda>_.
     reject (option_set opts ''sarif-file-output'' \<and> command \<noteq> ''test'')
       (UnsupportedOptionCombinationError st [command, ''sarif-file-output'']))))"

definition validateOutputFile :: "arg_value obj \<Rightarrow> string \<Rightarrow> thrown \<Rightarrow> thrown + unit" where
  "validateOutputFile opts outputType e =
     (case obj_get opts (outputType @ ''-file-output'') of
        None \<Rightarrow> Inr ()
      | Some (AStr s) \<Rightarrow>
          reject (s = [] \<or> s = [CHR 0x27, CHR 0x27] \<or> s = [CHR 0x22, CHR 0x22]) e
      | Some _ \<Rightarrow> Inl e)"

text \<open>\<open>depth <= 0 || Number.isNaN(depth)\<close>\<close>

definition bad_depth :: "arg_value \<Rightarrow> bool" where
  "bad_depth v =
     (v = ANum NaN \<or> (case value_number v of NaN \<Rightarrow> False | Infinite neg \<Rightarrow> neg | Dec m e \<Rightarrow> m \<le> 0))"

definition mode_thrown :: "styles \<Rightarrow> mode_error \<Rightarrow> thrown" where
  "mode_thrown st m =
     (case m of
        ModeUsage t \<Rightarrow> CustomError st t
      | UnsupportedCombination xs \<Rightarrow> UnsupportedOptionCombinationError st xs)"

text \<open>The checks before the option \<open>file\<close> is looked at.\<close>

definition check_options :: "main_env \<Rightarrow> string \<Rightarrow> arg_value obj \<Rightarrow> thrown + unit" where
  "check_options en command opts =
     (let st = me_styles en in
      bindS (map_sum (mode_thrown st) id (modeValidation (me_cli en) command (option_items opts))) (\<lambda>_.
      bindS (validateUnsupportedOptionCombinations st opts) (\<lambda>_.
      bindS (reject (option_set opts ''group-issues'' \<and> option_set opts ''iac'')
        (UnsupportedOptionCombinationError st
          [''--group-issues is currently not supported for Vulnmap IaC.''])) (\<lambda>_.
      bindS (reject (option_set opts ''group-issues'' \<and> \<not> option_set opts ''json'' \<and>
          \<not> option_set opts ''json-file-output'')
        (UnsupportedOptionCombinationError st
          [''JSON output is required to use --group-issues, try adding --json.''])) (\<lambda>_.
      reject (option_set opts ''mavenAggregateProject'' \<and> option_set opts ''project-name'')
        (UnsupportedOptionCombinationError st [''maven-aggregate-project'', ''project-name'']))))))"

text \<open>The option \<open>file\<close>: a solution file is replaced by the folders of its projects.\<close>

definition use_file_option :: "main_env \<Rightarrow> pworld \<Rightarrow> arg_value obj \<Rightarrow> thrown + arg_value obj" where
  "use_file_option en f opts =
     (case obj_get opts ''file'' of
        Some (AStr file) \<Rightarrow>
          (if js_endsWith file ''.sln'' then
             bindS (reject (option_set opts ''project-name'')
               (UnsupportedOptionCombinationError (me_styles en) [''file=*.sln'', ''project-name''])) (\<lambda>_.
               updateArgs en f opts)
           else Inr opts)
      | Some (ABool b) \<Rightarrow> Inl (FileFlagBadInputError (me_styles en))
      | _ \<Rightarrow> Inr opts)"

definition check_outputs :: "main_env \<Rightarrow> string \<Rightarrow> arg_value obj \<Rightarrow> thrown + unit" where
  "check_outputs en command opts =
     (let st = me_styles en in
      bindS (reject (case obj_get opts ''detectionDepth'' of Some v \<Rightarrow> bad_depth v | None \<Rightarrow> False)
        (InvalidDetectionDepthValue st)) (\<lambda>_.
      bindS (validateUnsupportedSarifCombinations st command opts) (\<lambda>_.
      bindS (validateOutputFile opts ''json'' (JsonFileOutputBadInputError st)) (\<lambda>_.
        validateOutputFile opts ''sarif'' (SarifFileOutputEmptyError st)))))"

section \<open>main\<close>

definition MIN_RUNTIME :: string where
  "MIN_RUNTIME = ''14.0.0''"

definition runtime_supported :: "main_env \<Rightarrow> string \<Rightarrow> bool" where
  "runtime_supported en v = me_gte en v MIN_RUNTIME"

definition set_exit :: "json \<Rightarrow> unit cio" where
  "set_exit c = (\<lambda>w. (Inr (), w\<lparr>cw_exit := Some c\<rparr>))"

definition try_command :: "main_env \<Rightarrow> string \<Rightarrow> cli_method \<Rightarrow> unit cio" where
  "try_command en command m =
     bindE get_world (\<lambda>w.
     bindE (lift (check_options en command (cw_options w))) (\<lambda>_.
     bindE (lift (use_file_option en (cw_fs w) (cw_options w))) (\<lambda>opts.
     bindE (set_options opts) (\<lambda>_.
     bindE (lift (check_outputs en command opts)) (\<lambda>_.
       runCommand en command m)))))"

text \<open>\<open>process.exit\<close> ends the run for an unsupported runtime.\<close>

definition main :: "main_env \<Rightarrow> string \<Rightarrow> cli_method \<Rightarrow> unit cio" where
  "main en command m =
     (if \<not> runtime_supported en (node_version (me_penv en)) then
        bindE (error_line (''Node.js version '' @ node_version (me_penv en) @ '' is an unsupported Node.js '' @
          ''runtime! Supported runtime range is '' @ [CHR 0x27] @ ''>= '' @ MIN_RUNTIME @ [CHR 0x27])) (\<lambda>_.
        bindE (error_line (''Please upgrade your Node.js runtime. The last version of Vulnmap CLI that '' @
          ''supports Node.js v8 is v1.454.0.'')) (\<lambda>_.
          set_exit (JNum EXIT_ERROR)))
      else
        bindE (catchE (bindE (try_command en command m) (\<lambda>_. ret None))
          (\<lambda>e. bindE (handleError en command e) (\<lambda>c. ret (Some c)))) (\<lambda>failed.
        bindE get_world (\<lambda>w.
        bindE (if \<not> option_set (cw_options w) ''json'' \<and> displayAlerts (me_styles en) (cw_alerts w) \<noteq> []
               then error_line (displayAlerts (me_styles en) (cw_alerts w)) else ret ()) (\<lambda>_.
          (case failed of
             Some c \<Rightarrow> if me_tap en then ret () else set_exit c
           | None \<Rightarrow> ret ())))))"

section \<open>Paths given to commands\<close>

fun check_paths :: "styles \<Rightarrow> arg_value obj \<Rightarrow> nat \<Rightarrow> arg_item list \<Rightarrow> thrown + unit" where
  "check_paths st opts n [] = Inr ()"
| "check_paths st opts n (IStr p # paths) =
     (if isPathToPackageFile p then Inl (MissingTargetFileError st p)
      else if Suc n > 1 \<and> option_set opts ''project-name''
      then Inl (UnsupportedOptionCombinationError st [''multiple paths'', ''project-name''])
      else check_paths st opts (Suc n) paths)"
| "check_paths st opts n (_ # paths) = check_paths st opts n paths"

definition checkOSSPaths :: "styles \<Rightarrow> arg_item list \<Rightarrow> arg_value obj \<Rightarrow> thrown + unit" where
  "checkOSSPaths st paths opts = check_paths st opts 0 paths"

section \<open>Exit codes\<close>

lemma get_world_apply [simp]: "get_world w = (Inr w, w)"
  by (simp add: get_world_def)

lemma bind_get_world [simp]: "bindE get_world f w = f w w"
  by (simp add: bindE_apply)

definition no_projects :: "main_env \<Rightarrow> thrown \<Rightarrow> bool" where
  "no_projects en e =
     (message_includes en (err_get e ''message'') unsupported_manifests = Inr True \<or>
      is_class e NoSupportedSastFiles \<or> err_get e ''code'' = JNum NoFilesToScanError)"

lemma error_outcome_code:
  assumes "error_outcome en command opts e = Inr (c, r)"
  shows "c = (if vulns_found e then JNum 1
              else if command = ''test'' \<and> option_set opts ''unmanaged'' then err_get e ''code''
              else if no_projects en e then JNum 3 else JNum 2)"
  using assms
  by (auto simp: error_outcome_def bindS_Inr_iff no_projects_def EXIT_VULNS_FOUND_def EXIT_ERROR_def
        EXIT_NO_SUPPORTED_PROJECTS_DETECTED_def split: if_splits)

lemma handleError_code:
  assumes "handleError en command e w = (Inr c, w')"
  shows "\<exists>r. error_outcome en command (cw_options w) (unwrap_nested e) = Inr (c, r)"
proof -
  let ?e = "unwrap_nested e"
  obtain p where p: "error_outcome en command (cw_options w) ?e = Inr p"
    using assms by (auto simp: handleError_def Let_def bindE_apply split: sum.splits)
  have "fst p = c"
    using assms
    by (auto simp: handleError_def Let_def p elim!: bindE_InrE split: prod.splits)
  with p show ?thesis by (cases p) auto
qed

lemma exit_error_line: "cw_exit (snd (error_line t w)) = cw_exit w"
  by (simp add: error_line_def on_fs_def)

lemma run_exit_code:
  assumes "runtime_supported en (node_version (me_penv en))" "\<not> me_tap en" "main en command m w = (Inr (), w')"
  shows "case try_command en command m w of
      (Inr _, w1) \<Rightarrow> cw_exit w' = cw_exit w1
    | (Inl e, w1) \<Rightarrow> cw_exit w' = Some
        (let e' = unwrap_nested e in
         if vulns_found e' then JNum 1
         else if command = ''test'' \<and> option_set (cw_options w1) ''unmanaged'' then err_get e' ''code''
         else if no_projects en e' then JNum 3 else JNum 2)"
proof -
  obtain r w1 where run: "try_command en command m w = (r, w1)" by fastforce
  show ?thesis
  proof (cases r)
    case (Inr u)
    then have "cw_exit w' = cw_exit w1"
      using assms run exit_error_line [of _ w1]
      by (auto simp: main_def catchE_def bindE_apply error_line_def on_fs_def split: if_splits)
    with Inr run show ?thesis by simp
  next
    case (Inl e)
    obtain c w2 where h: "handleError en command e w1 = (Inr c, w2)" and "cw_exit w' = Some c"
      using assms run Inl
      by (auto simp: main_def catchE_def bindE_apply error_line_def on_fs_def set_exit_def
            split: if_splits sum.splits prod.splits)
    obtain reported where "error_outcome en command (cw_options w1) (unwrap_nested e) = Inr (c, reported)"
      using handleError_code [OF h] by blast
    from error_outcome_code [OF this] \<open>cw_exit w' = Some c\<close> Inl run show ?thesis by (simp add: Let_def)
  qed
qed

text \<open>C22: The exit code of a run: a run that fails for vulnerabilities exits with 1, one that finds no supported
  project with 3, any other failing run with 2, and a run that does not fail keeps the code its command has set;
  only a failing test of unmanaged folders exits with the code of its error, whatever that is.\<close>

theorem exit_codes:
  assumes "runtime_supported en (node_version (me_penv en))" "\<not> me_tap en" "main en command m w = (Inr (), w')"
  shows "case try_command en command m w of
      (Inr _, w1) \<Rightarrow> cw_exit w' = cw_exit w1
    | (Inl e, w1) \<Rightarrow> cw_exit w' = Some
        (let e' = unwrap_nested e in
         if vulns_found e' then JNum 1
         else if command = ''test'' \<and> option_set (cw_options w1) ''unmanaged'' then err_get e' ''code''
         else if no_projects en e' then JNum 3 else JNum 2)"
  using assms by (rule run_exit_code)

section \<open>The command runs on compatible options only\<close>

definition compatible :: "arg_value obj \<Rightarrow> bool" where
  "compatible opts =
     (let on = option_set opts in
      \<not> (on ''scanAllUnmanaged'' \<and> on ''file'') \<and>
      (on ''allProjects'' \<longrightarrow>
        \<not> on ''project-name'' \<and> \<not> on ''file'' \<and> \<not> on ''yarnWorkspaces'' \<and> \<not> on ''packageManager'' \<and> \<not> on ''docker'' \<and>
        \<not> on ''allSubProjects'') \<and>
      (on ''yarnWorkspaces'' \<longrightarrow>
        \<not> on ''project-name'' \<and> \<not> on ''file'' \<and> \<not> on ''packageManager'' \<and> \<not> on ''docker'' \<and> \<not> on ''allSubProjects'') \<and>
      (on ''exclude'' \<longrightarrow>
        (on ''allProjects'' \<or> on ''yarnWorkspaces'') \<and>
        (\<exists>x. obj_get opts ''exclude'' = Some (AStr x) \<and> sep \<notin> set x)) \<and>
      (on ''group-issues'' \<longrightarrow> \<not> on ''iac'' \<and> (on ''json'' \<or> on ''json-file-output'')) \<and>
      \<not> (on ''mavenAggregateProject'' \<and> on ''project-name''))"

lemma reject_ok [simp]: "reject b e = Inr () \<longleftrightarrow> \<not> b"
  by (simp add: reject_def)

lemma bindS_unit: "bindS m (\<lambda>_. n) = Inr () \<longleftrightarrow> m = Inr () \<and> n = Inr ()"
  by (cases m) auto

lemma reject_combination_ok:
  "reject_combination st opts o1 combinations = Inr () \<longleftrightarrow>
     list_all (\<lambda>k. \<not> option_set opts k) (obj_keys combinations)"
proof -
  have "find (option_set opts) (obj_keys combinations) = None \<longleftrightarrow>
      list_all (\<lambda>k. \<not> option_set opts k) (obj_keys combinations)"
    by (auto simp: find_None_iff list_all_iff)
  then show ?thesis by (cases "find (option_set opts) (obj_keys combinations)") (simp_all add: reject_combination_def)
qed

lemma exclude_ok:
  "(case obj_get opts ''exclude'' of
      Some (AStr x) \<Rightarrow> reject (sep \<in> set x) e1 | _ \<Rightarrow> Inl e2) = Inr () \<longleftrightarrow>
   (\<exists>x. obj_get opts ''exclude'' = Some (AStr x) \<and> sep \<notin> set x)"
  by (auto split: option.splits arg_value.splits)

lemma combinations_ok:
  "validateUnsupportedOptionCombinations st opts = Inr () \<longleftrightarrow>
     \<not> (option_set opts ''scanAllUnmanaged'' \<and> option_set opts ''file'') \<and>
     (option_set opts ''allProjects'' \<longrightarrow>
        list_all (\<lambda>k. \<not> option_set opts k) (obj_keys unsupportedAllProjectsCombinations)) \<and>
     (option_set opts ''yarnWorkspaces'' \<longrightarrow>
        list_all (\<lambda>k. \<not> option_set opts k) (obj_keys unsupportedYarnWorkspacesCombinations)) \<and>
     (option_set opts ''exclude'' \<longrightarrow>
        (option_set opts ''allProjects'' \<or> option_set opts ''yarnWorkspaces'') \<and>
        (\<exists>x. obj_get opts ''exclude'' = Some (AStr x) \<and> sep \<notin> set x))"
  unfolding validateUnsupportedOptionCombinations_def bindS_unit
  by (simp add: reject_combination_ok bindS_unit exclude_ok)

lemma check_options_ok:
  assumes "modeValidation (me_cli en) command (option_items opts) = Inr ()"
  shows "check_options en command opts = Inr () \<longleftrightarrow> compatible opts"
  unfolding check_options_def Let_def bindS_unit combinations_ok compatible_def
  by (auto simp: assms unsupportedAllProjectsCombinations_def unsupportedYarnWorkspacesCombinations_def)

text \<open>For a command line that was parsed, the checks pass exactly for compatible options; with other options
  the run ends in an error before anything is changed, printed or sent, and the command does not run.\<close>

theorem incompatible_options_rejected:
  assumes "abbrev_ok (me_cli en)" "args (me_cli en) rawArgv = Inr r"
  shows "check_options en (ca_command r) (cw_options w) = Inr () \<and> compatible (cw_options w) \<or>
    \<not> compatible (cw_options w) \<and> (\<exists>e. try_command en (ca_command r) m w = (Inl e, w))"
proof -
  have ok: "check_options en (ca_command r) (cw_options w) = Inr () \<longleftrightarrow> compatible (cw_options w)"
    by (intro check_options_ok mode_validation_ok [OF assms])
  show ?thesis
  proof (cases "check_options en (ca_command r) (cw_options w)")
    case (Inl e)
    then have "try_command en (ca_command r) m w = (Inl e, w)" by (simp add: try_command_def)
    with Inl ok show ?thesis by auto
  next
    case (Inr u)
    with ok show ?thesis by simp
  qed
qed

section \<open>Solution files are read back\<close>

record sln_project =
  sp_type :: string
  sp_name :: string
  sp_path :: string
  sp_id :: string

definition quoted :: "string \<Rightarrow> string" where
  "quoted t = CHR 0x22 # t @ [CHR 0x22]"

definition project_line :: "sln_project \<Rightarrow> string" where
  "project_line p =
     ''('' @ quoted (sp_type p) @ '') = '' @ quoted (sp_name p) @ '', '' @ quoted (sp_path p) @ '', '' @ quoted (sp_id p)"

definition print_project :: "sln_project \<Rightarrow> string" where
  "print_project p = ''Project'' @ project_line p @ CHR 10 # ''EndProject''"

definition sln_text :: "string \<Rightarrow> sln_project list \<Rightarrow> string \<Rightarrow> string" where
  "sln_text header ps tail =
     header @ CHR 10 # concat (map (\<lambda>p. print_project p @ [CHR 10]) ps) @ tail"

definition plain_project :: "sln_project \<Rightarrow> bool" where
  "plain_project p =
     (CHR '','' \<notin> set (sp_type p @ sp_name p @ sp_path p) \<and> CHR 0x22 \<notin> set (sp_path p) \<and> sp_path p \<noteq> [] \<and>
      \<not> js_includes (project_line p) ''EndProject'')"

lemma includes_behind: "js_includes v p \<Longrightarrow> js_includes (u @ v) p"
  by (induction u) auto

lemma startsWith_before: "js_startsWith (u @ x # v) p \<Longrightarrow> x \<notin> set p \<Longrightarrow> js_startsWith u p"
proof (induction p arbitrary: u)
  case (Cons c p)
  then show ?case by (cases u) auto
qed simp

lemma includes_around: "js_includes (u @ x # v) p \<Longrightarrow> x \<notin> set p \<Longrightarrow> js_includes u p \<or> js_includes v p"
proof (induction u)
  case Nil
  then show ?case by (cases p) auto
next
  case (Cons c u)
  from Cons.prems(1) consider "js_startsWith ((c # u) @ x # v) p" | "js_includes (u @ x # v) p" by auto
  then show ?case
  proof cases
    case 1
    from startsWith_before [OF this Cons.prems(2)] show ?thesis by simp
  next
    case 2
    from Cons.IH [OF this Cons.prems(2)] show ?thesis by auto
  qed
qed

lemma find_word_at:
  assumes "x \<notin> set p" "p \<noteq> []"
  shows "\<not> js_includes a p \<Longrightarrow> find_word p (a @ x # p @ b) = Some (a @ [x], b)"
proof (induction a)
  case Nil
  obtain c q where "p = c # q" using assms(2) by (cases p) auto
  with assms(1) show ?case by (auto simp: js_startsWith_iff)
next
  case (Cons c a)
  have "\<not> js_startsWith (c # a @ x # p @ b) p"
    using startsWith_before [of "c # a" x "p @ b" p] Cons.prems assms(1) by auto
  with Cons show ?case by simp
qed

lemma find_word_none: "\<not> js_includes s p \<Longrightarrow> find_word p s = None"
  by (induction s) (auto split: if_splits)

lemma find_word_suffix: "find_word p s = Some (a, r) \<Longrightarrow> \<exists>u. s = u @ r"
proof (induction s arbitrary: a)
  case (Cons c s)
  show ?case
  proof (cases "js_startsWith (c # s) p")
    case True
    with Cons.prems have "r = drop (length p) (c # s)" by simp
    then have "c # s = take (length p) (c # s) @ r" by (simp only: append_take_drop_id)
    then show ?thesis by blast
  next
    case False
    with Cons.prems obtain a' where "find_word p s = Some (a', r)" by auto
    from Cons.IH [OF this] show ?thesis by (metis append_Cons)
  qed
qed (auto split: if_splits)

lemma project_scopes_none:
  assumes "\<not> js_includes s ''EndProject''"
  shows "project_scopes s = []"
proof (cases "find_word ''Project'' s")
  case None
  then show ?thesis by (simp add: project_scopes.simps)
next
  case (Some ar)
  obtain a r where ar: "find_word ''Project'' s = Some (a, r)" using Some by (cases ar) auto
  from find_word_suffix [OF this] obtain u where "s = u @ r" by blast
  then have "\<not> js_includes r ''EndProject''"
    using assms includes_behind by blast
  from find_word_none [OF this] ar show ?thesis by (subst project_scopes.simps) simp
qed

lemma project_scopes_text:
  assumes "list_all plain_project ps" "\<not> js_includes tail ''EndProject''"
  shows "\<not> js_includes header ''Project'' \<Longrightarrow>
    project_scopes (sln_text header ps tail) = map print_project ps"
  using assms(1)
proof (induction ps arbitrary: header)
  case Nil
  have "\<not> js_includes header ''EndProject''"
    using Nil by (auto simp: js_includes_iff) (metis append_Cons append_assoc append_Nil)
  with assms(2) have "\<not> js_includes (header @ CHR 10 # tail) ''EndProject''"
    using includes_around [of header "CHR 10" tail "''EndProject''"] by auto
  then show ?case by (simp add: sln_text_def project_scopes_none)
next
  case (Cons p ps)
  let ?rest = "sln_text [] ps tail"
  have whole: "sln_text header (p # ps) tail =
      header @ CHR 10 # ''Project'' @ project_line p @ CHR 10 # ''EndProject'' @ ?rest"
    by (simp add: sln_text_def print_project_def)
  have f1: "find_word ''Project'' (sln_text header (p # ps) tail) =
      Some (header @ [CHR 10], project_line p @ CHR 10 # ''EndProject'' @ ?rest)"
    unfolding whole using Cons.prems(1) by (intro find_word_at) auto
  have f2: "find_word ''EndProject'' (project_line p @ CHR 10 # ''EndProject'' @ ?rest) =
      Some (project_line p @ [CHR 10], ?rest)"
    using Cons.prems(2) by (intro find_word_at) (auto simp: plain_project_def)
  have "project_scopes ?rest = map print_project ps"
    using Cons.prems(2) by (intro Cons.IH) (auto simp: js_includes_iff)
  then show ?case
    by (subst project_scopes.simps) (simp add: f1 f2 [simplified] print_project_def del: find_word.simps)
qed

lemma trim_quoted: "js_trim (CHR '' '' # quoted t) = quoted t"
  by (simp add: js_trim_def js_trimStart_def js_trimEnd_def quoted_def js_ws_def)

lemma scope_path_print:
  assumes "plain_project p"
  shows "scope_path (print_project p) = Some (sp_path p)"
proof -
  let ?a = "''Project('' @ quoted (sp_type p) @ '') = '' @ quoted (sp_name p)"
  let ?b = "'' '' @ quoted (sp_path p)"
  let ?c = "'' '' @ quoted (sp_id p) @ CHR 10 # ''EndProject''"
  have a: "CHR '','' \<notin> set ?a" and b: "CHR '','' \<notin> set ?b"
    using assms by (auto simp: plain_project_def quoted_def)
  have "print_project p = ?a @ CHR '','' # ?b @ CHR '','' # ?c"
    by (simp add: print_project_def project_line_def)
  then have "js_split (CHR '','') (print_project p) = ?a # ?b # js_split (CHR '','') ?c"
    using js_split_append [OF a, of "?b @ CHR '','' # ?c"] js_split_append [OF b, of ?c] by simp
  then have "js_nth (js_split (CHR '','') (print_project p)) 1 = Some ?b"
    by (simp add: js_nth_def)
  moreover have "filter (\<lambda>c. c \<noteq> CHR 0x22) (quoted (sp_path p)) = sp_path p"
    using assms by (auto simp: quoted_def plain_project_def filter_id_conv)
  ultimately show ?thesis
    using assms trim_quoted [of "sp_path p"] by (simp add: scope_path_def plain_project_def)
qed

lemma map_filter_all: "(\<And>x. x \<in> set xs \<Longrightarrow> f x = Some (g x)) \<Longrightarrow> List.map_filter f xs = map g xs"
  by (induction xs) (auto simp: List.map_filter_def)

text \<open>C23: A run with a printed solution file goes on with exactly the folders of its projects that hold a
  supported manifest: they stand in front of the options among the words, in the order of the file, and the
  option \<open>file\<close> is gone; without any such folder the run is rejected.\<close>

theorem solution_projects:
  assumes "obj_get opts ''file'' = Some (AStr file)" "file \<noteq> []"
    and "load_sln_file en f (resolve (me_penv en) [file]) = Inr (sln_text header ps tail)"
    and "list_all plain_project ps" "\<not> js_includes header ''Project''" "\<not> js_includes tail ''EndProject''"
    and "option_items opts = xs @ [IOptions]"
  shows "updateArgs en f opts =
    (let dirs = map (\<lambda>p. resolve (me_penv en) [path_dir file, project_dir (sp_path p)]) ps;
         folders = filter (\<lambda>d. detectPackageFile (me_penv en) f d \<noteq> None) dirs in
     if folders = []
     then Inl (NoSupportedManifestsFoundError (me_styles en) (map (\<lambda>p. project_dir (sp_path p)) ps))
     else Inr (set_positional (xs @ map IStr folders @ [IOptions]) (obj_delete ''file'' opts)))"
proof -
  have "List.map_filter scope_path (map print_project ps) = map sp_path ps"
    using assms(4) scope_path_print map_filter_all [of ps "scope_path \<circ> print_project" sp_path]
    by (simp add: list_all_iff List.map_filter_def comp_def filter_map)
  then have "parsePathsFromSln en f file = Inr (map (\<lambda>p. project_dir (sp_path p)) ps)"
    using assms(3) project_scopes_text [OF assms(4,6,5)] by (simp add: parsePathsFromSln_def comp_def)
  moreover have "option_items (obj_delete ''file'' opts) = xs @ [IOptions]"
    using assms(7) by (simp add: option_items_def obj_get_delete)
  ultimately show ?thesis using assms(1,2)
    by (auto simp: updateArgs_def addProjectFoldersToArgs_def comp_def Let_def)
qed

section \<open>Samples\<close>

definition sample_styles :: styles where
  "sample_styles = \<lparr>st_red_bold = id, st_yellow = id, st_underline = id, st_stack = (\<lambda>t. ''Error: '' @ t)\<rparr>"

definition sample_main_penv :: penv where
  "sample_main_penv =
     \<lparr>argv = [], working_dir = ''/w'', env_api = None, env_disable_analytics = None, env_config_file = None,
      homedir = ''/h'', lib_dir = ''/l'', node_version = ''18.0.0'', iso_date = (\<lambda>_. []),
      http = (\<lambda>_. Inl [])\<rparr>"

text \<open>A command that finds vulnerabilities.\<close>

definition sample_error :: thrown where
  "sample_error =
     TErr PlainError [(''code'', JStr ''VULNS''), (''message'', JStr ''found''), (''stack'', JStr ''s'')]"

definition sample_command :: "string \<Rightarrow> arg_item list \<Rightarrow> method_result cio" where
  "sample_command c items = throw sample_error"

definition sample_main_env :: main_env where
  "sample_main_env =
     \<lparr>me_styles = sample_styles, me_cli = sample_cli_env, me_penv = sample_main_penv, me_command = sample_command,
      me_strip = id, me_gte = (\<lambda>_ _. True), me_mkdir = (\<lambda>_ _. True), me_copy = (\<lambda>_. None),
      me_fs_error = (\<lambda>_. TVal JNull), me_stringify = (\<lambda>_. []), me_error_text = (\<lambda>_. []),
      me_api = ''api'', me_erase = [], me_allowed = True, me_tap = False\<rparr>"

definition sample_sln :: string where
  "sample_sln = sln_text ''Solution'' [\<lparr>sp_type = ''T'', sp_name = ''a'', sp_path = ''a/a.csproj'', sp_id = ''I''\<rparr>] ''Global''"

definition sample_fs :: pworld where
  "sample_fs = \<lparr>nodes = [''/w/x.sln'' \<mapsto> FileNode sample_sln, ''/w/a/packages.config'' \<mapsto> FileNode []],
     can_write = (\<lambda>_. True), out_lines = [], err_lines = [], posts = [], ticks = 0\<rparr>"

definition sample_cli_world :: "arg_value obj \<Rightarrow> cli_world" where
  "sample_cli_world opts = \<lparr>cw_options = opts, cw_fs = sample_fs, cw_clip = [], cw_meta = [], cw_sent = [],
     cw_alerts = [], cw_exit = None\<rparr>"

definition sample_main_opts :: "arg_value obj" where
  "sample_main_opts = [(''_'', AList [IOptions])]"

lemma sample_try:
  "try_command sample_main_env ''test'' (MCommand ''test'') (sample_cli_world sample_main_opts) =
     (Inl sample_error,
      sample_cli_world sample_main_opts)"
  by (simp add: try_command_def bindE_apply check_options_def modeValidation_def modes_def
      validateUnsupportedOptionCombinations_def option_set_def sample_main_opts_def sample_cli_world_def reject_def
      use_file_option_def set_options_def check_outputs_def validateUnsupportedSarifCombinations_def
      validateOutputFile_def runCommand_def run_method_def sample_main_env_def sample_command_def Let_def)

lemma sample_unwrapped:
  "unwrap_nested sample_error =
     TErr PlainError [(''code'', JStr ''VULNS''), (''message'', JStr ''found''), (''stack'', JStr ''s''),
       (''userMessage'', JUndef), (''strCode'', JUndef)]"
  by (simp add: sample_error_def unwrap_nested_def use_nested_def err_get_def err_set_def js_or_value_def js_true_def
      obj_set_def is_array_index_def js_digit_def)

lemma sample_handled:
  "\<exists>w'. handleError sample_main_env ''test'' sample_error (sample_cli_world sample_main_opts) = (Inr (JNum 1), w')"
  by (simp add: handleError_def sample_unwrapped error_outcome_def vulns_found_def err_get_def message_includes_def
      print_error_def sample_cli_world_def sample_main_opts_def option_set_def legacy_message_def log_line_def on_fs_def
      saveResultsToFile_def saved_text_def report_error_def add_meta_def send_data_def bindE_apply
      EXIT_VULNS_FOUND_def Let_def split: prod.split)

lemma sample_main:
  "\<exists>w'. main sample_main_env ''test'' (MCommand ''test'') (sample_cli_world sample_main_opts) = (Inr (), w')"
proof -
  obtain w1 where
    "handleError sample_main_env ''test'' sample_error (sample_cli_world sample_main_opts) = (Inr (JNum 1), w1)"
    using sample_handled by blast
  moreover have "runtime_supported sample_main_env (node_version (me_penv sample_main_env)) \<and> \<not> me_tap sample_main_env"
    by (simp add: runtime_supported_def sample_main_env_def)
  ultimately show ?thesis
    by (simp add: main_def catchE_def bindE_apply sample_try set_exit_def error_line_def on_fs_def)
qed

theorem exit_codes_witness:
  "\<exists>w'. main sample_main_env ''test'' (MCommand ''test'') (sample_cli_world sample_main_opts) = (Inr (), w') \<and>
     cw_exit w' = Some (JNum 1)"
proof -
  obtain w' where run:
    "main sample_main_env ''test'' (MCommand ''test'') (sample_cli_world sample_main_opts) = (Inr (), w')"
    using sample_main by blast
  have "runtime_supported sample_main_env (node_version (me_penv sample_main_env)) \<and> \<not> me_tap sample_main_env"
    by (simp add: runtime_supported_def sample_main_env_def)
  with exit_codes [OF _ _ run] have "cw_exit w' = Some (JNum 1)"
    by (simp add: sample_try sample_unwrapped err_get_def vulns_found_def)
  with run show ?thesis by blast
qed

text \<open>A parsed line with options that exclude each other.\<close>

theorem incompatible_options_rejected_witness:
  "\<exists>e. try_command sample_main_env ''test'' (MCommand ''test'')
     (sample_cli_world [(''_'', AList [IOptions]), (''allProjects'', ABool True), (''file'', AStr ''pom.xml'')]) =
     (Inl e, sample_cli_world [(''_'', AList [IOptions]), (''allProjects'', ABool True), (''file'', AStr ''pom.xml'')])"
proof -
  let ?w = "sample_cli_world [(''_'', AList [IOptions]), (''allProjects'', ABool True), (''file'', AStr ''pom.xml'')]"
  have cli: "me_cli sample_main_env = sample_cli_env" by (simp add: sample_main_env_def)
  have "\<exists>r. args sample_cli_env (''node'' # ''cli'' # printed_line ''test'' [] None) = Inr r \<and> ca_command r = ''test''"
    using test_line_parsed by blast
  then obtain r where r: "args (me_cli sample_main_env) (''node'' # ''cli'' # printed_line ''test'' [] None) = Inr r"
    "ca_command r = ''test''" unfolding cli by blast
  have "abbrev_ok (me_cli sample_main_env)" unfolding cli by (rule sample_env_ok)
  from incompatible_options_rejected [OF this r(1), of ?w "MCommand ''test''"] r(2)
  have "compatible (cw_options ?w) \<or> (\<exists>e. try_command sample_main_env ''test'' (MCommand ''test'') ?w = (Inl e, ?w))"
    by auto
  moreover have "\<not> compatible (cw_options ?w)"
    by (simp add: compatible_def sample_cli_world_def option_set_def)
  ultimately show ?thesis by blast
qed

theorem solution_projects_witness:
  "updateArgs sample_main_env sample_fs [(''_'', AList [IStr ''d'', IOptions]), (''file'', AStr ''x.sln'')] =
     Inr (set_positional [IStr ''d'', IStr ''/w/a'', IOptions]
       (obj_delete ''file'' [(''_'', AList [IStr ''d'', IOptions]), (''file'', AStr ''x.sln'')]))"
proof -
  let ?opts = "[(''_'', AList [IStr ''d'', IOptions]), (''file'', AStr ''x.sln'')]"
  let ?ps = "[\<lparr>sp_type = ''T'', sp_name = ''a'', sp_path = ''a/a.csproj'', sp_id = ''I''\<rparr>]"
  have paths: "resolve (me_penv sample_main_env) [''x.sln''] = ''/w/x.sln'' \<and>
      resolve (me_penv sample_main_env) [path_dir ''x.sln'', project_dir ''a/a.csproj''] = ''/w/a''"
    by code_simp
  have "resolve sample_main_penv [''/w/a'', ''packages.config''] = ''/w/a/packages.config'' \<and>
      ''packages.config'' \<in> set DETECTABLE_FILES"
    by code_simp
  then have "detectPackageFile (me_penv sample_main_env) sample_fs ''/w/a'' \<noteq> None"
    by (auto simp: detectPackageFile_def find_None_iff sample_main_env_def existsSync_def sample_fs_def)
  moreover have "load_sln_file sample_main_env sample_fs ''/w/x.sln'' = Inr (sln_text ''Solution'' ?ps ''Global'')"
    by (simp add: load_sln_file_def existsSync_def read_text_def follow_def sample_fs_def sample_sln_def)
  moreover have "list_all plain_project ?ps \<and> \<not> js_includes ''Solution'' ''Project'' \<and>
      \<not> js_includes ''Global'' ''EndProject''"
    by (simp add: plain_project_def project_line_def quoted_def)
  ultimately show ?thesis
    using solution_projects [of ?opts "''x.sln''" sample_main_env sample_fs "''Solution''" ?ps "''Global''" "[IStr ''d'']"]
      paths
    by (simp add: option_items_def)
qed

end
