(* ===== verification/RunTest.thy ===== *)
theory RunTest
  imports CliErrors LegacyResults Polling JsPath
begin

text \<open>
  \<open>src/src/lib/vulnmap-test/run-test.ts\<close>: what a test sends, how requests are repeated, how the answers
  become test results, and which error a failed test ends with. The dependency graph of a payload is the
  \<open>graph_lib\<close> of the legacy results.

  Parameters: the server (its answer to the \<open>n\<close>-th attempt for a payload), \<open>p-map\<close>'s order of completion, the
  packages that load a policy and read a graph, \<open>vulnmap-module\<close>, the plugins. The spinner and the printing
  of graphs are left out.
\<close>

section \<open>Payloads and answers\<close>

record dep_graph =
  dg_lib :: graph_lib
  dg_pkgManager :: "string option"
  dg_root :: string
  dg_root_version :: "string option"

record plucked =
  pk_filename :: json
  pk_shrinkwrap :: json
  pk_bundled :: json
  pk_depType :: json

record modules_part =
  mo_numDependencies :: nat
  mo_pluck :: "(string list \<Rightarrow> string \<Rightarrow> string option \<Rightarrow> plucked) option"

record package_body =
  pb_depGraph :: "dep_graph option"
  pb_policy :: "string option"
  pb_targetFile :: "string option"
  pb_targetFileRelativePath :: string
  pb_targetReference :: "string option"
  pb_projectNameOverride :: "string option"
  pb_originalProjectName :: "string option"
  pb_foundProjectCount :: "nat option"
  pb_displayTargetFile :: "string option"
  pb_docker :: json
  pb_hasDevDependencies :: json
  pb_target :: json

record scan_body =
  sb_facts :: "(string \<times> json) list"
  sb_name :: "string option"
  sb_type :: "string option"
  sb_targetFile :: "string option"
  sb_platform :: json
  sb_policy :: "string option"

datatype payload_body = PackageBody package_body | ScanBody scan_body

record payload =
  pl_method :: string
  pl_url :: string
  pl_isCI :: bool
  pl_authorization :: string
  pl_query :: query
  pl_body :: "payload_body option"
  pl_modules :: "modules_part option"

text \<open>
  The answer with status 200: one with a result (with the issues and the graph when the request was a scan
  result), or one that is already in the legacy form. Any other status has a body of any shape.
\<close>

datatype test_answer =
    WithResult depgraph_response "lg_issue list option" "json option"
  | LegacyAnswer legacy_result

datatype http_answer = Answered test_answer | Refused nat json

record plain_issue =
  ti_issue :: annotated_issue
  ti_plucked :: "plucked option"
  ti_parentDepType :: "json option"
  ti_dockerfileInstruction :: "json option"
  ti_dockerBaseImage :: "json option"

record run_result =
  tr_vulnerabilities :: "plain_issue list"
  tr_ok :: bool
  tr_policy :: "string option"
  tr_dependencyCount :: int
  tr_filesystemPolicy :: bool
  tr_docker :: "docker_part option"
  tr_uniqueCount :: nat
  tr_rest :: legacy_result

record run_options =
  ro_poll :: poll_options
  ro_docker :: bool
  ro_unmanaged :: bool
  ro_print_deps :: bool
  ro_print_graph :: bool
  ro_exclude_base_image_vulns :: bool
  ro_fail_fast :: bool
  ro_prune :: bool
  ro_traverseNodeModules :: bool
  ro_quiet :: bool
  ro_json :: bool
  ro_file :: "string option"
  ro_path :: "string option"
  ro_packageManager :: "string option"
  ro_vulnEndpoint :: "string option"
  ro_testDepGraphDockerEndpoint :: "string option"
  ro_projectName :: "string option"
  ro_target_reference :: "string option"
  ro_base_image :: "string option"

record run_world =
  rw_meta :: "json obj"
  rw_requests :: "payload list"
  rw_slept :: nat
  rw_warned :: "string list"

type_synonym 'a rio = "(thrown, run_world, 'a) eff"

record run_env =
  re_poll :: poll_env
  re_styles :: styles
  re_root_url :: string
  re_strip :: "string \<Rightarrow> string"
  re_server :: "payload \<Rightarrow> nat \<Rightarrow> thrown + http_answer"
  re_schedule :: "nat \<Rightarrow> nat list"
  re_policy :: "string option \<Rightarrow> thrown + (run_result \<Rightarrow> string \<Rightarrow> run_result)"
  re_module :: "string \<Rightarrow> thrown + string \<times> string"
  re_graph :: "json \<Rightarrow> dep_graph"
  re_error_style :: "string \<Rightarrow> string"
  re_issue_icon :: string
  re_cwd :: string

definition run_add :: "run_env \<Rightarrow> string \<Rightarrow> json \<Rightarrow> unit rio" where
  "run_add en k v = (\<lambda>w. (Inr (), w\<lparr>rw_meta := analytics_add (re_strip en) k v (rw_meta w)\<rparr>))"

section \<open>Errors of the server\<close>

definition run_type_error :: "run_env \<Rightarrow> thrown" where
  "run_type_error en =
     TErr PlainError [(''name'', JStr ''TypeError''), (''message'', JStr ''TypeError''),
       (''stack'', JStr (st_stack (re_styles en) ''TypeError''))]"

definition with_inner :: "json \<Rightarrow> thrown \<Rightarrow> thrown" where
  "with_inner v e = (case e of TErr c ps \<Rightarrow> TErr c (obj_set ''innerError'' v ps) | _ \<Rightarrow> e)"

definition with_strCode :: "string \<Rightarrow> thrown \<Rightarrow> thrown" where
  "with_strCode t e = (case e of TErr c ps \<Rightarrow> TErr c (obj_set ''strCode'' (JStr t) ps) | _ \<Rightarrow> e)"

definition AuthFailedError :: "run_env \<Rightarrow> json \<Rightarrow> int \<Rightarrow> thrown" where
  "AuthFailedError en errorMessage status =
     (let m = (if errorMessage = JUndef
               then JStr (''Authentication failed. Please check the API token on '' @ re_root_url en)
               else errorMessage) in
      with_strCode ''authfail''
        (custom_error (re_styles en) PlainError ''CustomError'' (json_text m) (JNum status) m))"

definition NotFoundError :: "run_env \<Rightarrow> json \<Rightarrow> thrown" where
  "NotFoundError en told =
     (let m = js_or_value told (JStr (''Couldn'' @ [CHR 0x27] @ ''t find the requested resource'')) in
      custom_error (re_styles en) PlainError ''NotFoundError'' (json_text m) (JNum 404) m)"

definition server_error ::
  "run_env \<Rightarrow> error_class \<Rightarrow> string \<Rightarrow> string \<Rightarrow> string \<Rightarrow> json \<Rightarrow> json \<Rightarrow> thrown" where
  "server_error en c name strCode message code told =
     with_strCode strCode
       (custom_error (re_styles en) c name message code (js_or_value told (JStr message)))"

definition InternalServerError :: "run_env \<Rightarrow> json \<Rightarrow> thrown" where
  "InternalServerError en m =
     server_error en InternalServer ''InternalServerError'' ''INTERNAL_SERVER_ERROR'' ''Internal server error''
       (JNum 500) m"

definition BadGatewayError :: "run_env \<Rightarrow> json \<Rightarrow> thrown" where
  "BadGatewayError en m =
     server_error en BadGateway ''BadGatewayError'' ''BAD_GATEWAY_ERROR'' ''Bad gateway error'' (JNum 502) m"

definition ServiceUnavailableError :: "run_env \<Rightarrow> json \<Rightarrow> thrown" where
  "ServiceUnavailableError en m =
     server_error en ServiceUnavailable ''ServiceUnavailableError'' ''SERVICE_UNAVAILABLE_ERROR''
       ''Service unavailable error'' (JNum 503) m"

definition FailedToGetVulnerabilitiesError :: "run_env \<Rightarrow> json \<Rightarrow> nat \<Rightarrow> thrown" where
  "FailedToGetVulnerabilitiesError en m status =
     server_error en PlainError ''FailedToGetVulnerabilitiesError'' ''INTERNAL_SERVER_ERROR'' ''Failed to get vulns''
       (JNum (if status = 0 then 500 else int status)) m"

definition handleTestHttpErrorResponse :: "run_env \<Rightarrow> nat \<Rightarrow> json \<Rightarrow> thrown" where
  "handleTestHttpErrorResponse en statusCode body =
     (let told = (if js_true body then field_opt body ''userMessage'' else body);
          inner = (\<lambda>k e. case json_prop body k of Inl t \<Rightarrow> run_type_error en | Inr v \<Rightarrow> with_inner v e) in
      if statusCode = 401 \<or> statusCode = 403 then
        (case json_prop body ''stack'' of
           Inl t \<Rightarrow> run_type_error en
         | Inr v \<Rightarrow> with_inner (js_or_value v body) (AuthFailedError en told (int statusCode)))
      else if statusCode = 404 then inner ''stack'' (NotFoundError en told)
      else if statusCode = 500 then inner ''stack'' (InternalServerError en told)
      else if statusCode = 502 then inner ''stack'' (BadGatewayError en told)
      else if statusCode = 503 then inner ''stack'' (ServiceUnavailableError en told)
      else inner ''error'' (FailedToGetVulnerabilitiesError en told statusCode))"

section \<open>Requests\<close>

definition RETRY_ATTEMPTS :: nat where "RETRY_ATTEMPTS = 3"
definition RETRY_DELAY :: nat where "RETRY_DELAY = 500"

definition sendTestPayload :: "run_env \<Rightarrow> payload \<Rightarrow> nat \<Rightarrow> test_answer rio" where
  "sendTestPayload en p attempt = (\<lambda>w.
     (case re_server en p attempt of
        Inl e \<Rightarrow> Inl e
      | Inr (Refused status body) \<Rightarrow> Inl (handleTestHttpErrorResponse en status body)
      | Inr (Answered a) \<Rightarrow> Inr a,
      w\<lparr>rw_requests := rw_requests w @ [p]\<rparr>))"

definition retryable :: "thrown \<Rightarrow> bool" where
  "retryable e = (case e of TErr c _ \<Rightarrow> c \<in> {InternalServer, BadGateway, ServiceUnavailable} | TVal _ \<Rightarrow> False)"

definition run_sleep :: "nat \<Rightarrow> unit rio" where
  "run_sleep ms = (\<lambda>w. (Inr (), w\<lparr>rw_slept := rw_slept w + ms\<rparr>))"

text \<open>The loop of attempts: \<open>left\<close> attempts remain, \<open>err\<close> is the last error.\<close>

fun send_loop :: "run_env \<Rightarrow> payload \<Rightarrow> nat \<Rightarrow> nat \<Rightarrow> thrown \<Rightarrow> test_answer rio" where
  "send_loop en p 0 attempt err = throw err"
| "send_loop en p (Suc left) attempt err =
     catchE (sendTestPayload en p attempt) (\<lambda>e.
       if retryable e then bindE (run_sleep RETRY_DELAY) (\<lambda>_. send_loop en p left (Suc attempt) e)
       else throw e)"

definition sendRequest :: "run_env \<Rightarrow> payload \<Rightarrow> test_answer rio" where
  "sendRequest en p = send_loop en p RETRY_ATTEMPTS 0 (TVal JUndef)"

text \<open>
  \<open>p-map\<close>: the requests complete in some order, the first failure is thrown, and the results come in the
  order of the payloads.
\<close>

definition p_map :: "nat list \<Rightarrow> ('a \<Rightarrow> 'b rio) \<Rightarrow> 'a list \<Rightarrow> 'b list rio" where
  "p_map order f xs =
     bindE (mapE (\<lambda>i. bindE (f (xs ! i)) (\<lambda>r. ret (i, r))) order) (\<lambda>rs.
       ret (map (\<lambda>i. the (map_of rs i)) [0..<length xs]))"

section \<open>Reading the answers\<close>

definition getEcosystem :: "run_options \<Rightarrow> string option" where
  "getEcosystem ops =
     (if ro_unmanaged ops then Some ''cpp'' else if ro_docker ops then Some ''docker'' else None)"

definition hasUnknownVersions :: "dep_graph option \<Rightarrow> bool" where
  "hasUnknownVersions g =
     (case g of None \<Rightarrow> False | Some d \<Rightarrow> \<exists>p\<in>set (getPkgs (dg_lib d)). pkg_version p = Some ''unknown'')"

record prepared =
  pr_depGraph :: "dep_graph option"
  pr_dockerfilePackages :: json
  pr_projectName :: "string option"
  pr_targetFile :: "string option"
  pr_pkgManager :: "string option"
  pr_displayTargetFile :: "string option"
  pr_foundProjectCount :: "nat option"
  pr_payloadPolicy :: "string option"
  pr_platform :: json
  pr_scanResult :: "scan_body option"
  pr_hasUnknownVersions :: bool

definition answer_graph :: "run_env \<Rightarrow> test_answer \<Rightarrow> dep_graph option" where
  "answer_graph en a =
     (case a of WithResult r is (Some g) \<Rightarrow> Some (re_graph en g) | _ \<Rightarrow> None)"

definition scan_of :: "payload \<Rightarrow> scan_body option" where
  "scan_of p = (case pl_body p of Some (ScanBody b) \<Rightarrow> Some b | _ \<Rightarrow> None)"

definition prepareEcosystemResponseForParsing ::
  "run_env \<Rightarrow> payload \<Rightarrow> test_answer \<Rightarrow> run_options \<Rightarrow> prepared rio" where
  "prepareEcosystemResponseForParsing en p a ops =
     (let body = scan_of p;
          depGraph = answer_graph en a;
          instructions = (case body of
            None \<Rightarrow> None
          | Some b \<Rightarrow> find (\<lambda>(t, d). t = ''dockerfileAnalysis'' \<or> t = ''autoDetectedUserInstructions'') (sb_facts b));
          targetFile = (case Option.bind body sb_targetFile of
            Some t \<Rightarrow> if t = [] then ro_file ops else Some t | None \<Rightarrow> ro_file ops) in
      bindE (run_add en ''depGraph'' (JBool (depGraph \<noteq> None))) (\<lambda>_.
      bindE (run_add en ''isDocker'' (JBool (ro_docker ops))) (\<lambda>_.
      ret \<lparr>pr_depGraph = depGraph,
           pr_dockerfilePackages =
             (case instructions of None \<Rightarrow> JUndef | Some (t, d) \<Rightarrow> field_opt d ''dockerfilePackages''),
           pr_projectName = (if truthy (Option.bind body sb_name) then Option.bind body sb_name
                             else map_option dg_root depGraph),
           pr_targetFile = targetFile, pr_pkgManager = Option.bind body sb_type,
           pr_displayTargetFile = targetFile, pr_foundProjectCount = None,
           pr_payloadPolicy = Option.bind body sb_policy,
           pr_platform = (case body of None \<Rightarrow> JUndef | Some b \<Rightarrow> sb_platform b),
           pr_scanResult = body, pr_hasUnknownVersions = hasUnknownVersions depGraph\<rparr>)))"

definition package_of :: "payload \<Rightarrow> package_body option" where
  "package_of p = (case pl_body p of Some (PackageBody b) \<Rightarrow> Some b | _ \<Rightarrow> None)"

definition prepareLanguagesResponseForParsing :: "run_env \<Rightarrow> payload \<Rightarrow> prepared rio" where
  "prepareLanguagesResponseForParsing en p =
     (let body = package_of p;
          depGraph = Option.bind body pb_depGraph;
          docker = (case body of None \<Rightarrow> JUndef | Some b \<Rightarrow> pb_docker b) in
      bindE (run_add en ''depGraph'' (JBool (depGraph \<noteq> None))) (\<lambda>_.
      bindE (run_add en ''isDocker'' (JBool (js_true docker))) (\<lambda>_.
      ret \<lparr>pr_depGraph = depGraph,
           pr_dockerfilePackages =
             (if js_true docker \<and> js_true (field_opt docker ''dockerfilePackages'')
              then field_opt docker ''dockerfilePackages'' else JUndef),
           pr_projectName = (if truthy (Option.bind body pb_projectNameOverride)
             then Option.bind body pb_projectNameOverride else Option.bind body pb_originalProjectName),
           pr_targetFile = Option.bind body pb_targetFile, pr_pkgManager = Option.bind depGraph dg_pkgManager,
           pr_displayTargetFile = Option.bind body pb_displayTargetFile,
           pr_foundProjectCount = Option.bind body pb_foundProjectCount,
           pr_payloadPolicy = Option.bind body pb_policy,
           pr_platform = JUndef, pr_scanResult = None, pr_hasUnknownVersions = hasUnknownVersions depGraph\<rparr>)))"

definition prepareResponseForParsing ::
  "run_env \<Rightarrow> payload \<Rightarrow> test_answer \<Rightarrow> run_options \<Rightarrow> prepared rio" where
  "prepareResponseForParsing en p a ops =
     (if getEcosystem ops \<noteq> None then prepareEcosystemResponseForParsing en p a ops
      else prepareLanguagesResponseForParsing en p)"

definition package_id :: "lg_issue \<Rightarrow> string" where
  "package_id i = lgs_pkgName i @ ''@'' @ str_of_opt (if truthy (lgs_pkgVersion i) then lgs_pkgVersion i else Some [])"

definition add_affected :: "lg_issue \<Rightarrow> affected_packages \<Rightarrow> affected_packages" where
  "add_affected i pkgs =
     (let a = (case obj_get pkgs (package_id i) of
                 Some a \<Rightarrow> a
               | None \<Rightarrow> \<lparr>af_pkg = \<lparr>pkg_name = lgs_pkgName i, pkg_version = lgs_pkgVersion i\<rparr>, af_issues = []\<rparr>) in
      obj_set (package_id i) (a\<lparr>af_issues := obj_set (lgs_issueId i) i (af_issues a)\<rparr>) pkgs)"

definition getAffectedPkgsFromIssues :: "lg_issue list \<Rightarrow> affected_packages" where
  "getAffectedPkgsFromIssues is = fold add_affected is []"

definition convertIssuesToAffectedPkgs :: "test_answer \<Rightarrow> test_answer" where
  "convertIssuesToAffectedPkgs a =
     (case a of
        WithResult r (Some is) g \<Rightarrow>
          WithResult (r\<lparr>rs_result := (rs_result r)\<lparr>vp_affectedPkgs := getAffectedPkgsFromIssues is\<rparr>\<rparr>) (Some is) g
      | _ \<Rightarrow> a)"

section \<open>Results\<close>

definition vuln_id :: "plain_issue \<Rightarrow> string" where
  "vuln_id v = (case an_data (ti_issue v) of Some d \<Rightarrow> lgd_id d | None \<Rightarrow> ''undefined'')"

definition countUniqueVulns :: "plain_issue list \<Rightarrow> nat" where
  "countUniqueVulns vs = length (obj_keys (fold (\<lambda>v seen. obj_set (vuln_id v) True seen) vs []))"

definition plain_vuln :: "annotated_issue \<Rightarrow> plain_issue" where
  "plain_vuln i =
     \<lparr>ti_issue = i, ti_plucked = None, ti_parentDepType = None, ti_dockerfileInstruction = None,
      ti_dockerBaseImage = None\<rparr>"

definition start_result :: "legacy_result \<Rightarrow> run_result" where
  "start_result r =
     \<lparr>tr_vulnerabilities = map plain_vuln (lr_vulnerabilities r), tr_ok = lr_ok r, tr_policy = lr_policy r,
      tr_dependencyCount = lr_dependencyCount r, tr_filesystemPolicy = False, tr_docker = lr_docker r,
      tr_uniqueCount = 0, tr_rest = r\<rparr>"

text \<open>Node.js: what the installed modules know about a vulnerable package and about its parent.\<close>

definition pluck_vuln ::
  "run_env \<Rightarrow> (string list \<Rightarrow> string \<Rightarrow> string option \<Rightarrow> plucked) \<Rightarrow> plain_issue \<Rightarrow> thrown + plain_issue" where
  "pluck_vuln en pluck v =
     (let i = ti_issue v; v1 = v\<lparr>ti_plucked := Some (pluck (an_from i) (an_name i) (an_version i))\<rparr> in
      if length (an_from i) = 1 then Inr v1
      else
        (case js_nth (an_from i) 1 of
           None \<Rightarrow> Inl (run_type_error en)
         | Some parent \<Rightarrow>
             bindS (re_module en parent) (\<lambda>(name, version).
               Inr (v1\<lparr>ti_parentDepType :=
                 Some (pk_depType (pluck (take 2 (an_from i)) name (Some version)))\<rparr>))))"

definition add_modules :: "run_env \<Rightarrow> dep_graph \<Rightarrow> modules_part \<Rightarrow> run_result \<Rightarrow> thrown + run_result" where
  "add_modules en g m r =
     (let r1 = r\<lparr>tr_dependencyCount :=
            (if mo_numDependencies m \<noteq> 0 then int (mo_numDependencies m)
             else int (length (getPkgs (dg_lib g))) - 1)\<rparr> in
      (case mo_pluck m of
         None \<Rightarrow> Inr r1
       | Some pluck \<Rightarrow>
           bindS (mapS (pluck_vuln en pluck) (tr_vulnerabilities r1)) (\<lambda>vs. Inr (r1\<lparr>tr_vulnerabilities := vs\<rparr>))))"

text \<open>The answer in the legacy form: converted when there is a graph and a package manager.\<close>

definition legacy_answer ::
  "run_env \<Rightarrow> dep_graph option \<Rightarrow> string option \<Rightarrow> test_answer \<Rightarrow> run_options \<Rightarrow> payload \<Rightarrow> thrown + run_result" where
  "legacy_answer en depGraph pkgManager a ops p =
     (case (depGraph, a) of
        (Some g, WithResult r is json) \<Rightarrow>
          (if truthy pkgManager then
             (case convertTestDepGraphResultToLegacy (dg_lib g) r pkgManager (po_severityThreshold (ro_poll ops)) of
                Inl t \<Rightarrow> Inl (run_type_error en)
              | Inr l \<Rightarrow>
                  (case pl_modules p of None \<Rightarrow> Inr (start_result l) | Some m \<Rightarrow> add_modules en g m (start_result l)))
           else Inl (run_type_error en))
      | (Some g, LegacyAnswer l) \<Rightarrow>
          (if truthy pkgManager then Inl (run_type_error en) else Inr (start_result l))
      | (None, LegacyAnswer l) \<Rightarrow> Inr (start_result l)
      | (None, WithResult r is json) \<Rightarrow> Inl (run_type_error en))"

text \<open>Docker: the instruction of the Dockerfile that installed a package, and the base image.\<close>

definition add_instruction :: "json \<Rightarrow> docker_part \<Rightarrow> plain_issue \<Rightarrow> plain_issue" where
  "add_instruction dockerfilePackages d v =
     (let pkg = field_opt dockerfilePackages (hd (js_split (CHR ''/'') (an_name (ti_issue v))));
          v1 = (if js_true pkg then v\<lparr>ti_dockerfileInstruction := Some (field_opt pkg ''installCommand'')\<rparr> else v) in
      v1\<lparr>ti_dockerBaseImage := Some (dk_baseImage d)\<rparr>)"

definition has_instruction :: "plain_issue \<Rightarrow> bool" where
  "has_instruction v = (case ti_dockerfileInstruction v of Some t \<Rightarrow> js_true t | None \<Rightarrow> False)"

definition exclude_base_image :: "run_result \<Rightarrow> run_result" where
  "exclude_base_image r =
     (let kept = filter has_instruction (tr_vulnerabilities r) in
      r\<lparr>tr_ok := (if tr_vulnerabilities r \<noteq> [] \<and> kept = [] \<and> \<not> tr_ok r then True else tr_ok r),
        tr_vulnerabilities := kept\<rparr>)"

definition docker_result :: "run_options \<Rightarrow> json \<Rightarrow> run_result \<Rightarrow> run_result" where
  "docker_result ops dockerfilePackages r =
     (let r1 = (case tr_docker r of
            Some d \<Rightarrow>
              if js_true dockerfilePackages
              then r\<lparr>tr_vulnerabilities := map (add_instruction dockerfilePackages d) (tr_vulnerabilities r)\<rparr> else r
          | None \<Rightarrow> r) in
      if ro_docker ops \<and> (case tr_docker r1 of Some d \<Rightarrow> js_true (dk_baseImage d) | None \<Rightarrow> False) \<and>
          ro_exclude_base_image_vulns ops
      then exclude_base_image r1 else r1)"

definition apply_policy ::
  "run_env \<Rightarrow> run_options \<Rightarrow> string option \<Rightarrow> string \<Rightarrow> run_result \<Rightarrow> thrown + run_result" where
  "apply_policy en ops payloadPolicy root r =
     (let r1 = r\<lparr>tr_filesystemPolicy := truthy payloadPolicy\<rparr> in
      if po_ignore_policy (ro_poll ops) then Inr r1
      else
        (let r2 = r1\<lparr>tr_policy := (if truthy (tr_policy r1) then tr_policy r1 else payloadPolicy)\<rparr> in
         bindS (re_policy en (tr_policy r2)) (\<lambda>filter_with. Inr (filter_with r2 root))))"

definition parseRes ::
  "run_env \<Rightarrow> prepared \<Rightarrow> test_answer \<Rightarrow> run_options \<Rightarrow> payload \<Rightarrow> string \<Rightarrow> run_result rio" where
  "parseRes en pr a ops p root =
     bindE (lift (legacy_answer en (pr_depGraph pr) (pr_pkgManager pr) a ops p)) (\<lambda>r.
     bindE (run_add en ''vulns-pre-policy'' (JNum (int (length (tr_vulnerabilities r))))) (\<lambda>_.
     bindE (lift (apply_policy en ops (pr_payloadPolicy pr) root r)) (\<lambda>r2.
     bindE (run_add en ''vulns'' (JNum (int (length (tr_vulnerabilities r2))))) (\<lambda>_.
     (let r3 = docker_result ops (pr_dockerfilePackages pr) r2 in
      ret (r3\<lparr>tr_uniqueCount := countUniqueVulns (tr_vulnerabilities r3)\<rparr>))))))"

definition sendAndParseResults ::
  "run_env \<Rightarrow> payload list \<Rightarrow> string \<Rightarrow> run_options \<Rightarrow> (run_result \<times> prepared) list rio" where
  "sendAndParseResults en payloads root ops =
     bindE (p_map (re_schedule en (length payloads)) (sendRequest en) payloads) (\<lambda>answers.
       mapE (\<lambda>(p, a).
         bindE (prepareResponseForParsing en p a ops) (\<lambda>pr.
         bindE (parseRes en pr (convertIssuesToAffectedPkgs a) ops p root) (\<lambda>r.
           ret (r, pr)))) (zip payloads answers))"

section \<open>Errors of a test\<close>

definition FailedToRunTestError :: "run_env \<Rightarrow> json \<Rightarrow> json \<Rightarrow> json \<Rightarrow> thrown" where
  "FailedToRunTestError en told code inner =
     (let m = js_or_value told (JStr ''Failed to run a test'') in
      with_inner inner
        (custom_error (re_styles en) PlainError ''FailedToRunTestError'' (json_text m)
          (js_or_value code (JNum 500)) m))"

definition DockerImageNotFoundError :: "run_env \<Rightarrow> string \<Rightarrow> thrown" where
  "DockerImageNotFoundError en img =
     (let m = ''Failed to scan image '' @ CHR 0x22 # img @ CHR 0x22 # ''. Please make sure the image and/or '' @
            ''repository exist, and that you are using the correct credentials.'' in
      custom_error (re_styles en) PlainError ''DockerImageNotFoundError'' m (JNum 404) (JStr m))"

definition FailedToGetVulnsFromUnavailableResource :: "run_env \<Rightarrow> string \<Rightarrow> json \<Rightarrow> thrown" where
  "FailedToGetVulnsFromUnavailableResource en root statusCode =
     (let help = [CHR 10] @ ''For additional assistance, run `vulnmap help` or check out our docs '' @ [CHR 10] @
            ''(link to: https://support.vulnmap.khulnasoft.com/hc/en-us/articles/360003851277'' @
            ''#UUID-ba99a73f-110d-1f1d-9e7a-1bad66bf0996).'';
          m = ''We couldn'' @ [CHR 0x27] @ ''t test '' @ root @ ''. '' @
            (if js_startsWith root ''http''
             then ''Try testing this repository at https://vulnmap.khulnasoft.com/test/.'' @ help
             else ''Please check the version and package name and try running `vulnmap test` again.'' @ help) in
      custom_error (re_styles en) PlainError ''CustomError'' m statusCode (JStr m))"

definition includes_text :: "run_env \<Rightarrow> json \<Rightarrow> string \<Rightarrow> thrown + bool" where
  "includes_text en v t =
     (case v of
        JStr s \<Rightarrow> Inr (js_includes s t) | JArr vs \<Rightarrow> Inr (JStr t \<in> set vs) | _ \<Rightarrow> Inl (run_type_error en))"

definition docker_auth_messages :: "string list" where
  "docker_auth_messages =
     [''authentication required'',
      ''{'' @ CHR 0x22 # ''details'' @ CHR 0x22 # '':'' @ CHR 0x22 # ''incorrect username or password'' @
        CHR 0x22 # ''}'' @ [CHR 10]]"

text \<open>The error that a test ends with, for the error that was thrown inside it.\<close>

definition test_error ::
  "run_env \<Rightarrow> string option \<Rightarrow> string \<Rightarrow> run_options \<Rightarrow> thrown \<Rightarrow> thrown" where
  "test_error en projectType root ops e =
     (let found = bindS (if err_get e ''code'' = JNum 403
              then includes_text en (err_get e ''message'') ''Feature not allowed'' else Inr False) (\<lambda>notAllowed.
            bindS (if err_get e ''code'' = JNum 404
              then includes_text en (err_get e ''name'') ''FailedToGetVulnerabilitiesError'' else Inr False) (\<lambda>named.
              Inr (notAllowed, named \<and> \<not> js_true (err_get e ''userMessage'')))) in
      case found of
        Inl e' \<Rightarrow> e'
      | Inr (notAllowed, failedToGet) \<Rightarrow>
          if notAllowed then NoSupportedManifestsFoundError (re_styles en) [root]
          else if failedToGet then FailedToGetVulnsFromUnavailableResource en root (err_get e ''code'')
          else if getEcosystem ops = Some ''docker'' \<and> err_get e ''statusCode'' = JNum 401 \<and>
              err_get e ''message'' \<in> JStr ` set docker_auth_messages
          then DockerImageNotFoundError en root
          else FailedToRunTestError en
            (js_or_value (err_get e ''userMessage'') (js_or_value (err_get e ''message'')
              (JStr (''Failed to test '' @ str_of_opt projectType @ '' project''))))
            (err_get e ''code'') (err_get e ''innerError''))"

text \<open>\<open>runTest\<close> for payloads that some function assembles.\<close>

definition runTest ::
  "run_env \<Rightarrow> (string \<Rightarrow> run_options \<Rightarrow> payload list rio) \<Rightarrow> string option \<Rightarrow> string \<Rightarrow> run_options \<Rightarrow>
   (run_result \<times> prepared) list rio" where
  "runTest en assemble projectType root ops =
     catchE
       (bindE (assemble root ops) (\<lambda>payloads.
          if ro_print_graph ops \<and> \<not> ro_print_deps ops then ret []
          else sendAndParseResults en payloads root ops))
       (\<lambda>e. throw (test_error en projectType root ops e))"

section \<open>Payloads for a remote package\<close>

text \<open>\<open>encodeURIComponent\<close>; a code unit above 127 is written as its two bytes in UTF-8.\<close>

definition uri_plain :: "char \<Rightarrow> bool" where
  "uri_plain c =
     (let n = (of_char c :: int) in
      48 \<le> n \<and> n \<le> 57 \<or> 65 \<le> n \<and> n \<le> 90 \<or> 97 \<le> n \<and> n \<le> 122 \<or>
      c \<in> {CHR ''-'', CHR ''_'', CHR ''.'', CHR ''!'', CHR ''~'', CHR ''*'', CHR 0x27, CHR ''('', CHR '')''})"

definition upper_hex :: "nat \<Rightarrow> char" where
  "upper_hex n = (if n < 10 then char_of (48 + n) else char_of (55 + n))"

definition percent :: "nat \<Rightarrow> string" where
  "percent n = [CHR ''%'', upper_hex (n div 16), upper_hex (n mod 16)]"

definition encodeURIComponent :: "string \<Rightarrow> string" where
  "encodeURIComponent s =
     concat (map (\<lambda>c. let n = (of_char c :: nat) in
       if uri_plain c then [c]
       else if n < 128 then percent n
       else percent (192 + n div 64) @ percent (128 + n mod 64)) s)"

definition addPackageAnalytics :: "run_env \<Rightarrow> string option \<Rightarrow> string option \<Rightarrow> unit rio" where
  "addPackageAnalytics en name version =
     (let v = (\<lambda>x. case x of Some t \<Rightarrow> JStr t | None \<Rightarrow> JUndef) in
      bindE (run_add en ''packageName'' (v name)) (\<lambda>_.
      bindE (run_add en ''packageVersion'' (v version)) (\<lambda>_.
        run_add en ''package'' (JStr (json_text (v name) @ ''@'' @ json_text (v version))))))"

definition api_url :: "run_env \<Rightarrow> string" where
  "api_url en = pe_api (re_poll en)"

definition assembleRemotePayloads :: "run_env \<Rightarrow> string \<Rightarrow> run_options \<Rightarrow> payload list rio" where
  "assembleRemotePayloads en root ops =
     bindE (lift (re_module en root)) (\<lambda>(name, version).
     bindE (addPackageAnalytics en (Some name) (Some version)) (\<lambda>_.
       ret [\<lparr>pl_method = ''GET'',
         pl_url = api_url en @
           (if truthy (ro_vulnEndpoint ops) then the (ro_vulnEndpoint ops)
            else ''/vuln/'' @ json_text (case ro_packageManager ops of Some t \<Rightarrow> JStr t | None \<Rightarrow> JUndef)) @
           ''/'' @ encodeURIComponent (name @ ''@'' @ version),
         pl_isCI = isCI (re_poll en), pl_authorization = getAuthHeader (re_poll en),
         pl_query = assembleQueryString (re_poll en) (ro_poll ops), pl_body = None, pl_modules = None\<rparr>]))"

section \<open>Payloads for local projects\<close>

record dep_tree =
  dt_name :: "string option"
  dt_version :: "string option"
  dt_docker :: json
  dt_hasDevDependencies :: json
  dt_modules :: modules_part

record scanned_project =
  sc_depGraph :: "dep_graph option"
  sc_depTree :: "dep_tree option"
  sc_targetFile :: "string option"
  sc_packageManager :: "string option"
  sc_plugin_targetFile :: "string option"

record plugin_deps =
  de_name :: string
  de_targetFile :: "string option"
  de_packageManager :: "string option"
  de_imageLayers :: json
  de_versions :: "(string \<times> json) list"
  de_projects :: "scanned_project list"
  de_failed :: "(string option \<times> string) list"

text \<open>
  The other parts of the tool a local payload is made with: the plugins, the policy of a folder, the target of
  the project, the count of further projects, conversion and pruning of graphs.
\<close>

record local_env =
  lo_deps :: "string \<Rightarrow> run_options \<Rightarrow> thrown + plugin_deps"
  lo_policy :: "string \<Rightarrow> string option \<Rightarrow> run_options \<Rightarrow> scanned_project \<Rightarrow> string option \<Rightarrow> thrown + string option"
  lo_target :: "scanned_project \<Rightarrow> run_options \<Rightarrow> thrown + json"
  lo_extra_projects :: "string \<Rightarrow> run_options \<Rightarrow> plugin_deps \<Rightarrow> nat option"
  lo_to_graph :: "dep_tree \<Rightarrow> string \<Rightarrow> thrown + dep_graph"
  lo_prune :: "dep_graph \<Rightarrow> string \<Rightarrow> bool \<Rightarrow> thrown + dep_graph"

definition warn_line :: "string \<Rightarrow> unit rio" where
  "warn_line t = (\<lambda>w. (Inr (), w\<lparr>rw_warned := rw_warned w @ [t]\<rparr>))"

definition incomplete_test :: "run_env \<Rightarrow> thrown" where
  "incomplete_test en =
     FailedToRunTestError en (JStr (errorMessageWithRetry ''Your test request could not be completed.'')) JUndef JUndef"

definition warn_failed :: "run_env \<Rightarrow> run_options \<Rightarrow> plugin_deps \<Rightarrow> unit rio" where
  "warn_failed en ops deps =
     (let n = length (de_failed deps) in
      if n = 0 then ret ()
      else
        bindE (if ro_json ops \<or> ro_quiet ops then ret ()
               else
                 bindE (warn_line (st_red_bold (re_styles en) (re_issue_icon en @ '' '' @ str_of_nat n @ ''/'' @
                    str_of_nat (n + length (de_projects deps)) @ '' potential projects failed to get dependencies.''))) (\<lambda>_.
                 bindE (mapE (\<lambda>(file, msg).
                     bindE (if truthy file then warn_line (re_error_style en (the file @ '':'')) else ret ()) (\<lambda>_.
                       warn_line (re_error_style en (''  '' @ msg)))) (de_failed deps)) (\<lambda>_. ret ())))
          (\<lambda>_. if ro_fail_fast ops then throw (incomplete_test en) else ret ()))"

definition extractPackageManager :: "scanned_project \<Rightarrow> plugin_deps \<Rightarrow> run_options \<Rightarrow> string option" where
  "extractPackageManager sc deps ops =
     (let pm = (if truthy (sc_packageManager sc) then sc_packageManager sc else de_packageManager deps) in
      if truthy pm then pm else if truthy (ro_packageManager ops) then ro_packageManager ops else None)"

text \<open>The docker data of a tree, with the base image of the options where the Dockerfile names none.\<close>

definition with_base_image :: "run_options \<Rightarrow> json \<Rightarrow> json" where
  "with_base_image ops docker =
     (case docker of
        JObj ps \<Rightarrow>
          if \<not> js_true (field_opt docker ''baseImage'') \<and> truthy (ro_base_image ops)
          then JObj (obj_set ''baseImage'' (JStr (the (ro_base_image ops))) ps) else docker
      | _ \<Rightarrow> docker)"

definition or_file :: "string option \<Rightarrow> string option \<Rightarrow> string option" where
  "or_file a b = (if truthy a then a else b)"

definition project_docker :: "scanned_project \<Rightarrow> json" where
  "project_docker sc =
     (if sc_depGraph sc \<noteq> None then JUndef else case sc_depTree sc of Some t \<Rightarrow> dt_docker t | None \<Rightarrow> JUndef)"

definition project_graph ::
  "local_env \<Rightarrow> scanned_project \<Rightarrow> string option \<Rightarrow> run_options \<Rightarrow> thrown + dep_graph" where
  "project_graph lo sc pm ops =
     bindS (case (sc_depGraph sc, sc_depTree sc) of
              (Some g, _) \<Rightarrow> Inr g
            | (None, Some t) \<Rightarrow> lo_to_graph lo t (json_text (case pm of Some m \<Rightarrow> JStr m | None \<Rightarrow> JUndef))
            | (None, None) \<Rightarrow> Inl (TVal JUndef)) (\<lambda>g.
       if truthy pm then lo_prune lo g (the pm) (ro_prune ops) else Inr g)"

definition project_name :: "scanned_project \<Rightarrow> string option" where
  "project_name sc =
     (case sc_depGraph sc of Some g \<Rightarrow> Some (dg_root g) | None \<Rightarrow> Option.bind (sc_depTree sc) dt_name)"

text \<open>Installed modules go with the payload of npm and yarn projects that have no lock file.\<close>

definition payload_modules :: "scanned_project \<Rightarrow> string option \<Rightarrow> string option \<Rightarrow> run_options \<Rightarrow> modules_part option" where
  "payload_modules sc pm tf ops =
     (if pm \<in> {Some ''yarn'', Some ''npm''} \<and>
         (\<not> (truthy tf \<and>
            (js_endsWith (the tf) ''package-lock.json'' \<or> js_endsWith (the tf) ''yarn.lock'')) \<or>
          ro_traverseNodeModules ops)
      then (if sc_depGraph sc = None then map_option dt_modules (sc_depTree sc)
            else Some \<lparr>mo_numDependencies = 0, mo_pluck = None\<rparr>)
      else None)"

definition local_payload ::
  "run_env \<Rightarrow> local_env \<Rightarrow> string \<Rightarrow> run_options \<Rightarrow> plugin_deps \<Rightarrow> scanned_project \<Rightarrow> payload rio" where
  "local_payload en lo root ops deps sc =
     (if sc_depTree sc = None \<and> sc_depGraph sc = None then throw (incomplete_test en)
      else
        (let pm = extractPackageManager sc deps ops;
             docker = project_docker sc;
             baseImage = field_opt docker ''baseImage'';
             targetFile = or_file (sc_targetFile sc) (or_file (de_targetFile deps) (ro_file ops));
             relative = (if truthy targetFile
               then path_resolve (re_cwd en)
                 [path_resolve (re_cwd en) [js_or (ro_path ops) root], the targetFile] else []);
             dir = (if relative = [] then None else Some (path_dir relative)) in
         bindE (if js_true docker \<and> js_true baseImage \<and> js_true (de_imageLayers deps)
                then bindE (run_add en ''BaseImage'' baseImage) (\<lambda>_. run_add en ''imageLayers'' (de_imageLayers deps))
                else ret ()) (\<lambda>_.
         bindE (lift (lo_policy lo root (if ro_docker ops then Some ''docker'' else pm) ops sc dir)) (\<lambda>policy.
         bindE (run_add en ''packageManager'' (case pm of Some m \<Rightarrow> JStr m | None \<Rightarrow> JUndef)) (\<lambda>_.
         bindE (case sc_depGraph sc of
                  Some g \<Rightarrow> addPackageAnalytics en (Some (dg_root g)) (dg_root_version g) | None \<Rightarrow> ret ()) (\<lambda>_.
         bindE (case sc_depTree sc of
                  Some t \<Rightarrow>
                    (case sc_depGraph sc of
                       Some g \<Rightarrow> addPackageAnalytics en None None
                     | None \<Rightarrow> addPackageAnalytics en (dt_name t) (dt_version t))
                | None \<Rightarrow> ret ()) (\<lambda>_.
         bindE (lift (lo_target lo sc ops)) (\<lambda>tgt.
         bindE (lift (project_graph lo sc pm ops)) (\<lambda>g.
         ret \<lparr>pl_method = ''POST'',
           pl_url = api_url en @
             (if truthy (ro_testDepGraphDockerEndpoint ops) then the (ro_testDepGraphDockerEndpoint ops)
              else if truthy (ro_vulnEndpoint ops) then the (ro_vulnEndpoint ops) else ''/test-dep-graph''),
           pl_isCI = isCI (re_poll en), pl_authorization = getAuthHeader (re_poll en),
           pl_query = assembleQueryString (re_poll en) (ro_poll ops),
           pl_body = Some (PackageBody
             \<lparr>pb_depGraph = Some g, pb_policy = policy, pb_targetFile = sc_plugin_targetFile sc,
              pb_targetFileRelativePath = relative, pb_targetReference = ro_target_reference ops,
              pb_projectNameOverride = ro_projectName ops, pb_originalProjectName = project_name sc,
              pb_foundProjectCount = lo_extra_projects lo root ops deps, pb_displayTargetFile = targetFile,
              pb_docker = with_base_image ops docker,
              pb_hasDevDependencies = (if sc_depGraph sc \<noteq> None then JUndef
                else case sc_depTree sc of Some t \<Rightarrow> dt_hasDevDependencies t | None \<Rightarrow> JUndef),
              pb_target = tgt\<rparr>),
           pl_modules = payload_modules sc pm targetFile ops\<rparr>)))))))))"

definition assembleLocalPayloads ::
  "run_env \<Rightarrow> local_env \<Rightarrow> string \<Rightarrow> run_options \<Rightarrow> payload list rio" where
  "assembleLocalPayloads en lo root ops =
     bindE (lift (lo_deps lo root ops)) (\<lambda>deps.
     bindE (warn_failed en ops deps) (\<lambda>_.
     bindE (run_add en ''pluginName'' (JStr (de_name deps))) (\<lambda>_.
     bindE (mapE (\<lambda>(k, v). if js_true v then run_add en k v else ret ()) (de_versions deps)) (\<lambda>_.
       mapE (local_payload en lo root ops deps) (de_projects deps)))))"

definition assemblePayloads ::
  "run_env \<Rightarrow> local_env \<Rightarrow> (string \<Rightarrow> bool) \<Rightarrow> (string \<Rightarrow> run_options \<Rightarrow> payload list rio) \<Rightarrow>
   string \<Rightarrow> run_options \<Rightarrow> payload list rio" where
  "assemblePayloads en lo exists ecosystem_payloads root ops =
     (let isLocal = (ro_docker ops \<or> exists root) in
      bindE (run_add en ''local'' (JBool isLocal)) (\<lambda>_.
        case getEcosystem ops of
          Some e \<Rightarrow> ecosystem_payloads e ops
        | None \<Rightarrow>
            if isLocal then assembleLocalPayloads en lo root ops else assembleRemotePayloads en root ops))"

section \<open>Attempts\<close>

definition attempt_result :: "run_env \<Rightarrow> payload \<Rightarrow> nat \<Rightarrow> thrown + test_answer" where
  "attempt_result en p i =
     (case re_server en p i of
        Inl e \<Rightarrow> Inl e
      | Inr (Refused status body) \<Rightarrow> Inl (handleTestHttpErrorResponse en status body)
      | Inr (Answered a) \<Rightarrow> Inr a)"

definition retried :: "thrown + test_answer \<Rightarrow> bool" where
  "retried r = (case r of Inl e \<Rightarrow> retryable e | Inr _ \<Rightarrow> False)"

text \<open>The attempt that decides: the first one that is not repeated, the third one at the latest.\<close>

definition deciding :: "run_env \<Rightarrow> payload \<Rightarrow> nat" where
  "deciding en p =
     (if \<not> retried (attempt_result en p 0) then 0 else if \<not> retried (attempt_result en p 1) then 1 else 2)"

lemma sendTestPayload_run:
  "sendTestPayload en p i w = (attempt_result en p i, w\<lparr>rw_requests := rw_requests w @ [p]\<rparr>)"
  by (simp add: sendTestPayload_def attempt_result_def)

lemma send_loop_step:
  "send_loop en p (Suc left) i err w =
     (let w1 = w\<lparr>rw_requests := rw_requests w @ [p]\<rparr> in
      case attempt_result en p i of
        Inr a \<Rightarrow> (Inr a, w1)
      | Inl e \<Rightarrow>
          if retryable e then send_loop en p left (Suc i) e (w1\<lparr>rw_slept := rw_slept w + RETRY_DELAY\<rparr>)
          else (Inl e, w1))"
  by (simp add: catchE_def sendTestPayload_run bindE_apply run_sleep_def Let_def split: sum.split)

lemma send_loop_0: "send_loop en p 0 i err w = (Inl err, w)"
  by simp

lemma sendRequest_run:
  "sendRequest en p w =
     (attempt_result en p (deciding en p),
      w\<lparr>rw_requests := rw_requests w @ replicate (Suc (deciding en p)) p,
        rw_slept := rw_slept w + RETRY_DELAY *
          (if retried (attempt_result en p (deciding en p)) then 3 else deciding en p)\<rparr>)"
  unfolding sendRequest_def RETRY_ATTEMPTS_def numeral_3_eq_3
  by (cases "attempt_result en p 0"; cases "attempt_result en p (Suc 0)"; cases "attempt_result en p (Suc (Suc 0))")
     (simp_all add: send_loop_step send_loop_0 add.assoc deciding_def retried_def Let_def numeral_2_eq_2
       del: send_loop.simps)

text \<open>C24: A payload is sent once and repeated only after an internal error, a bad gateway or an unavailable service,
  at most three times in all; the last attempt decides what is returned or thrown, and half a second passes
  after every attempt that is repeated (and after a third one that fails like that).\<close>

theorem request_attempts:
  "\<exists>n w'. sendRequest en p w = (attempt_result en p n, w') \<and> n < 3 \<and>
     list_all (\<lambda>i. retried (attempt_result en p i)) [0..<n] \<and>
     \<not> (n < 2 \<and> retried (attempt_result en p n)) \<and>
     rw_requests w' = rw_requests w @ replicate (Suc n) p \<and>
     rw_slept w' = rw_slept w + 500 * (if retried (attempt_result en p n) then 3 else n)"
proof -
  have "list_all (\<lambda>i. retried (attempt_result en p i)) [0..<deciding en p]"
    by (simp add: deciding_def upt_rec)
  moreover have "deciding en p < 3 \<and> \<not> (deciding en p < 2 \<and> retried (attempt_result en p (deciding en p)))"
    by (simp add: deciding_def)
  ultimately show ?thesis
    by (intro exI [of _ "deciding en p"]) (simp add: sendRequest_run RETRY_DELAY_def)
qed

section \<open>Results in the order of the payloads\<close>

text \<open>What a payload is answered with, whatever else is sent.\<close>

definition reply :: "run_env \<Rightarrow> payload \<Rightarrow> thrown + test_answer" where
  "reply en p = attempt_result en p (deciding en p)"

lemma sendRequest_reply: "\<exists>w'. sendRequest en p w = (reply en p, w')"
  by (simp add: sendRequest_run reply_def)

lemma mapE_returns:
  "(\<And>i w. i \<in> set xs \<Longrightarrow> \<exists>w'. g i w = (Inr (h i), w')) \<Longrightarrow> \<exists>w'. mapE g xs w = (Inr (map h xs), w')"
proof (induction xs arbitrary: w)
  case (Cons i xs)
  obtain w1 where "g i w = (Inr (h i), w1)" using Cons.prems [of i w] by auto
  moreover obtain w2 where "mapE g xs w1 = (Inr (map h xs), w2)" using Cons by (meson list.set_intros(2))
  ultimately show ?case by (simp add: bindE_apply)
qed simp

lemma send_in_order:
  assumes "list_all (\<lambda>i. reply en (ps ! i) = Inr (f (ps ! i))) order"
  shows "\<exists>w'. mapE (\<lambda>i. bindE (sendRequest en (ps ! i)) (\<lambda>r. ret (i, r))) order w =
    (Inr (map (\<lambda>i. (i, f (ps ! i))) order), w')"
proof (rule mapE_returns)
  fix i w
  assume "i \<in> set order"
  with assms have "reply en (ps ! i) = Inr (f (ps ! i))" by (simp add: list_all_iff)
  with sendRequest_reply [of en "ps ! i" w]
  show "\<exists>w'. bindE (sendRequest en (ps ! i)) (\<lambda>r. ret (i, r)) w = (Inr (i, f (ps ! i)), w')"
    by (auto simp: bindE_apply)
qed

lemma map_of_indexed: "i \<in> set order \<Longrightarrow> map_of (map (\<lambda>i. (i, g i)) order) i = Some (g i)"
  by (induction order) auto


section \<open>Issues by package\<close>

lemma affected_fold:
  "(case obj_get (fold add_affected is pkgs) pid of Some a \<Rightarrow> obj_get (af_issues a) iid | None \<Rightarrow> None) =
     (case filter (\<lambda>i. package_id i = pid \<and> lgs_issueId i = iid) is of
        [] \<Rightarrow> (case obj_get pkgs pid of Some a \<Rightarrow> obj_get (af_issues a) iid | None \<Rightarrow> None)
      | es \<Rightarrow> Some (last es))"
proof (induction "is" arbitrary: pkgs)
  case (Cons i "is")
  have "(case obj_get (add_affected i pkgs) pid of Some a \<Rightarrow> obj_get (af_issues a) iid | None \<Rightarrow> None) =
      (if package_id i = pid \<and> lgs_issueId i = iid then Some i
       else case obj_get pkgs pid of Some a \<Rightarrow> obj_get (af_issues a) iid | None \<Rightarrow> None)"
    by (auto simp: add_affected_def Let_def ob.get_put split: option.split)
  with Cons.IH [of "add_affected i pkgs"] show ?case
    by (auto split: list.splits)
qed simp

text \<open>C26: Grouping the issues of an answer by package loses none: looking up a package and an issue in it gives the
  last issue of the answer with that package and that id, and nothing when there is none.\<close>

theorem issues_grouped:
  "(case obj_get (getAffectedPkgsFromIssues is) pid of Some a \<Rightarrow> obj_get (af_issues a) iid | None \<Rightarrow> None) =
     (case filter (\<lambda>i. package_id i = pid \<and> lgs_issueId i = iid) is of [] \<Rightarrow> None | es \<Rightarrow> Some (last es))"
  using affected_fold [where pkgs = "[]"] by (simp add: getAffectedPkgsFromIssues_def split: list.split)

section \<open>Counting\<close>

text \<open>The count of unique vulnerabilities is the number of different ids.\<close>

lemma unique_count: "countUniqueVulns vs = card (vuln_id ` set vs)"
proof -
  let ?o = "fold (\<lambda>v seen. obj_set (vuln_id v) True seen) vs []"
  have "wf_obj ?o" using ob.ok_fold_put [of "[]" vuln_id "\<lambda>_. True" vs] by simp
  then have "length (obj_keys ?o) = card (set (obj_keys ?o))" by (simp add: wf_obj_def distinct_card)
  also have "set (obj_keys ?o) = vuln_id ` set vs" using ob.keys_fold_put [of vuln_id "\<lambda>_. True" vs "[]"] by simp
  finally show ?thesis by (simp add: countUniqueVulns_def)
qed

section \<open>How a refused test ends\<close>

lemma err_get_custom:
  "err_get (custom_error st c name m code um) k =
     (if k = ''name'' then JStr name else if k = ''message'' then JStr m
      else if k = ''stack'' then JStr (st_stack st m) else if k = ''code'' then code
      else if k = ''userMessage'' then um else JUndef)"
  by (simp add: custom_error_def err_get_def)

lemma err_get_inner:
  "err_get (with_inner v (TErr c ps)) k = (if k = ''innerError'' then v else err_get (TErr c ps) k)"
  by (simp add: with_inner_def err_get_def ob.get_put)

lemma err_get_strCode:
  "err_get (with_strCode t (TErr c ps)) k = (if k = ''strCode'' then JStr t else err_get (TErr c ps) k)"
  by (simp add: with_strCode_def err_get_def ob.get_put)

lemma err_get_both:
  "err_get (with_inner v (with_strCode t (custom_error st c name m code um))) k =
     (if k = ''innerError'' then v else if k = ''strCode'' then JStr t
      else err_get (custom_error st c name m code um) k)"
  "err_get (with_inner v (custom_error st c name m code um)) k =
     (if k = ''innerError'' then v else err_get (custom_error st c name m code um) k)"
  by (simp_all add: with_inner_def with_strCode_def err_get_def custom_error_def ob.get_put)

lemmas refused_defs =
  handleTestHttpErrorResponse_def AuthFailedError_def NotFoundError_def InternalServerError_def BadGatewayError_def
  ServiceUnavailableError_def FailedToGetVulnerabilitiesError_def server_error_def json_prop_def Let_def

lemma refused_code:
  "err_get (handleTestHttpErrorResponse en status (JObj ps)) ''code'' = JNum (if status = 0 then 500 else int status)"
  by (simp add: refused_defs err_get_both err_get_custom)

lemma refused_name:
  "status = 404 \<Longrightarrow> err_get (handleTestHttpErrorResponse en status (JObj ps)) ''name'' = JStr ''NotFoundError''"
  by (simp add: refused_defs err_get_both err_get_custom)

lemma refused_statusCode:
  "err_get (handleTestHttpErrorResponse en status (JObj ps)) ''statusCode'' = JUndef"
  by (simp add: refused_defs err_get_both err_get_custom)

lemma refused_message:
  "\<exists>t. err_get (handleTestHttpErrorResponse en status (JObj ps)) ''message'' = JStr t"
  by (simp add: refused_defs err_get_both err_get_custom)

definition feature_refused :: "run_env \<Rightarrow> nat \<Rightarrow> json \<Rightarrow> bool" where
  "feature_refused en status body =
     (status = 403 \<and>
      includes_text en (err_get (handleTestHttpErrorResponse en status body) ''message'') ''Feature not allowed'' = Inr True)"

lemma failed_to_run_props:
  "err_get (FailedToRunTestError en told code inner) ''name'' = JStr ''FailedToRunTestError''"
  "err_get (FailedToRunTestError en told code inner) ''code'' = js_or_value code (JNum 500)"
  by (simp_all add: FailedToRunTestError_def Let_def err_get_both err_get_custom)

text \<open>A test that the server refuses with a body that is an object ends with the error that no supported
  manifest was found when a feature is not allowed (403), and with a failed test that carries the status of the
  answer otherwise; so the message about an unavailable package or repository is never given, not for 404 either.\<close>

theorem refused_tests:
  "err_get (test_error en ty root ops (handleTestHttpErrorResponse en status (JObj ps))) ''name'' =
     JStr (if feature_refused en status (JObj ps) then ''CustomError'' else ''FailedToRunTestError'') \<and>
   err_get (test_error en ty root ops (handleTestHttpErrorResponse en status (JObj ps))) ''code'' =
     JNum (if feature_refused en status (JObj ps) then 422 else if status = 0 then 500 else int status)"
proof -
  let ?e = "handleTestHttpErrorResponse en status (JObj ps)"
  obtain t where t: "err_get ?e ''message'' = JStr t" using refused_message by blast
  have named: "(if err_get ?e ''code'' = JNum 404
      then includes_text en (err_get ?e ''name'') ''FailedToGetVulnerabilitiesError'' else Inr False) = Inr False"
    by (simp add: refused_code refused_name includes_text_def)
  have "(if err_get ?e ''code'' = JNum 403 then includes_text en (err_get ?e ''message'') ''Feature not allowed''
      else Inr False) = Inr (feature_refused en status (JObj ps))"
    by (simp add: refused_code feature_refused_def t includes_text_def)
  then have "test_error en ty root ops ?e =
      (if feature_refused en status (JObj ps) then NoSupportedManifestsFoundError (re_styles en) [root]
       else FailedToRunTestError en
         (js_or_value (err_get ?e ''userMessage'') (js_or_value (err_get ?e ''message'')
           (JStr (''Failed to test '' @ str_of_opt ty @ '' project''))))
         (err_get ?e ''code'') (err_get ?e ''innerError''))"
    by (simp add: test_error_def named refused_statusCode)
  then show ?thesis
    by (simp add: failed_to_run_props refused_code js_or_value_def js_true_def NoSupportedManifestsFoundError_def
        user_error_def err_get_custom)
qed

section \<open>Samples\<close>

definition sample_run_env :: "(payload \<Rightarrow> nat \<Rightarrow> thrown + http_answer) \<Rightarrow> run_env" where
  "sample_run_env server =
     \<lparr>re_poll = \<lparr>pe_api = ''api'', pe_org = None, pe_project_name = None, pe_env_keys = [], pe_oauth_token = None,
        pe_docker_token = None, pe_config_api = None, pe_config_token = None, pe_user_api = None\<rparr>,
      re_styles = \<lparr>st_red_bold = id, st_yellow = id, st_underline = id, st_stack = id\<rparr>, re_root_url = ''root'',
      re_strip = id, re_server = server, re_schedule = (\<lambda>n. rev [0..<n]), re_policy = (\<lambda>_. Inr (\<lambda>r _. r)),
      re_module = (\<lambda>s. Inr (s, [])), re_graph = (\<lambda>_. undefined), re_error_style = id, re_issue_icon = [],
      re_cwd = ''/''\<rparr>"

definition sample_payload :: "string \<Rightarrow> payload" where
  "sample_payload u =
     \<lparr>pl_method = ''GET'', pl_url = u, pl_isCI = False, pl_authorization = [],
      pl_query = \<lparr>q_org = None, q_severityThreshold = None, q_ignorePolicy = False, q_type = None\<rparr>,
      pl_body = None, pl_modules = None\<rparr>"

definition sample_legacy_answer :: "string \<Rightarrow> test_answer" where
  "sample_legacy_answer t =
     LegacyAnswer \<lparr>lr_vulnerabilities = [], lr_ok = True, lr_dependencyCount = 0, lr_org = None, lr_policy = None,
       lr_isPrivate = True, lr_licensesPolicy = None, lr_packageManager = Some t, lr_projectId = None,
       lr_ignoreSettings = None, lr_docker = None, lr_summary = [], lr_severityThreshold = None, lr_remediation = None\<rparr>"

text \<open>A server that is unavailable at first.\<close>

definition slow_start :: "payload \<Rightarrow> nat \<Rightarrow> thrown + http_answer" where
  "slow_start p n = (if n = 0 then Inr (Refused 503 (JObj [])) else Inr (Answered (sample_legacy_answer (pl_url p))))"


end
