(* ===== verification/FormatIssues.thy ===== *)
theory FormatIssues
  imports FixEntities CliErrors
begin

text \<open>
  The text of the issues a test found: \<open>src/lib/formatters/remediation-based-format-issues.ts\<close>,
  \<open>get-severity-value.ts\<close>, \<open>get-vuln-url.ts\<close>, \<open>legal-license-instructions.ts\<close>, and the grouping
  of the vulnerable paths by vulnerability in \<open>lib/formatters/test/format-test-results.ts\<close>. The
  packages \<open>chalk\<close> and \<open>wrap-ansi\<close>, the clock and the parsing of dates, the configured addresses and the
  symbols outside the code units of the model are parameters (\<open>format_env\<close>). A severity is the text the
  server sends.
\<close>

section \<open>Data\<close>

record format_env =
  fe_styles :: styles
  fe_chalk :: "string \<Rightarrow> string \<Rightarrow> string"
  fe_wrap :: "string \<Rightarrow> nat \<Rightarrow> string"
  fe_issue_icon :: string
  fe_valid_icon :: string
  fe_warning_icon :: string
  fe_bullet :: string
  fe_root_url :: string
  fe_vuln_db_url :: string
  fe_time :: "string option \<Rightarrow> int option"
  fe_now :: int

record legal_instruction =
  li_licenseName :: string
  li_legalContent :: string

datatype issue_note = NoteAbsent | NoteFlag bool | NoteText string

record annotated_vuln = vuln_flags +
  av_id :: string
  av_title :: string
  av_type :: "string option"
  av_description :: string
  av_info :: "string option"
  av_name :: string
  av_version :: string
  av_severity :: string
  av_originalSeverity :: "string option"
  av_note :: issue_note
  av_publicationTime :: "string option"
  av_fixedIn :: "string list option"
  av_from :: "string list"
  av_upgradePath :: "step list"
  av_packageManager :: "string option"
  av_dockerfileInstruction :: "string option"
  av_dockerBaseImage :: "string option"
  av_nearestFixedInVersion :: "string option"
  av_legalInstructionsArray :: "legal_instruction list option"

record vuln_metadata =
  vm_id :: string
  vm_title :: string
  vm_description :: string
  vm_type :: "string option"
  vm_name :: string
  vm_info :: "string option"
  vm_severity :: string
  vm_severityValue :: nat
  vm_isNew :: bool
  vm_version :: string
  vm_packageManager :: "string option"

record grouped_vuln =
  gv_list :: "annotated_vuln list"
  gv_metadata :: vuln_metadata
  gv_isIgnored :: bool
  gv_isPatched :: bool
  gv_title :: string
  gv_note :: issue_note
  gv_severity :: string
  gv_originalSeverity :: "string option"
  gv_isNew :: bool
  gv_name :: string
  gv_version :: string
  gv_fixedIn :: "string list option"
  gv_dockerfileInstruction :: "string option"
  gv_dockerBaseImage :: "string option"
  gv_nearestFixedInVersion :: "string option"
  gv_legalInstructionsArray :: "legal_instruction list option"
  gv_isFixable :: bool

record basic_vuln_info =
  bv_type :: "string option"
  bv_title :: string
  bv_severity :: string
  bv_originalSeverity :: "string option"
  bv_isNew :: bool
  bv_name :: string
  bv_version :: string
  bv_fixedIn :: "string list option"
  bv_legalInstructions :: "legal_instruction list option"
  bv_paths :: "string list list"
  bv_note :: issue_note

record top_level_upgrade =
  tu_name :: string
  tu_version :: string

type_synonym upgrades_by_affected = "top_level_upgrade list obj"

datatype show_paths = ShowNone | ShowSome | ShowAll

definition format_type_error :: "format_env \<Rightarrow> thrown" where
  "format_type_error en =
     TErr PlainError [(''name'', JStr ''TypeError''), (''message'', JStr ''TypeError''),
       (''stack'', JStr (st_stack (fe_styles en) ''TypeError''))]"

text \<open>\<open>toUpperCase\<close> of one code unit; the sharp s becomes two.\<close>

definition js_upper_char :: "char \<Rightarrow> string" where
  "js_upper_char c =
     (let n = (of_char c :: nat) in
      if n = 223 then ''SS''
      else if (97 \<le> n \<and> n \<le> 122) \<or> (224 \<le> n \<and> n \<le> 254 \<and> n \<noteq> 247) then [char_of (n - 32)] else [c])"

definition titleCaseText :: "format_env \<Rightarrow> string \<Rightarrow> thrown + string" where
  "titleCaseText en s =
     (case s of [] \<Rightarrow> Inl (format_type_error en) | c # cs \<Rightarrow> Inr (js_upper_char c @ cs))"

definition note_set :: "issue_note \<Rightarrow> bool" where
  "note_set n = (case n of NoteAbsent \<Rightarrow> False | NoteFlag b \<Rightarrow> b | NoteText s \<Rightarrow> s \<noteq> [])"

definition note_text :: "issue_note \<Rightarrow> string" where
  "note_text n =
     (case n of NoteAbsent \<Rightarrow> ''undefined'' | NoteFlag b \<Rightarrow> (if b then ''true'' else ''false'') | NoteText s \<Rightarrow> s)"

section \<open>Severities, addresses, colours\<close>

definition getSeverityValue :: "format_env \<Rightarrow> string \<Rightarrow> thrown + nat" where
  "getSeverityValue en s =
     (case find (\<lambda>(v, n). severity_str v = s) SEVERITIES of None \<Rightarrow> Inl (format_type_error en) | Some (v, n) \<Rightarrow> Inr n)"

definition getVulnerabilityUrl :: "format_env \<Rightarrow> string \<Rightarrow> string" where
  "getVulnerabilityUrl en i =
     (if js_startsWith (js_lower i) ''vulnmap:lic'' then fe_root_url en @ ''/vuln/'' @ i
      else fe_vuln_db_url en @ ''/vuln/'' @ i)"

definition severity_colours :: "string obj" where
  "severity_colours = [(''critical'', ''magenta''), (''high'', ''red''), (''medium'', ''yellow'')]"

definition colorTextBySeverity :: "format_env \<Rightarrow> string \<Rightarrow> string \<Rightarrow> string" where
  "colorTextBySeverity en s t =
     (case obj_get severity_colours (js_lower s) of None \<Rightarrow> t | Some colour \<Rightarrow> fe_chalk en colour t)"

definition indent_by :: "nat \<Rightarrow> string" where
  "indent_by n = [CHR 0x0A] @ replicate n CHR '' ''"

definition formatLegalInstructions :: "format_env \<Rightarrow> legal_instruction list \<Rightarrow> nat \<Rightarrow> string" where
  "formatLegalInstructions en ls padding =
     js_join (indent_by padding)
       (map (\<lambda>l. js_join (indent_by padding) (js_split (CHR 0x0A)
          (fe_wrap en (fe_chalk en ''bold'' (fe_bullet en @ '' for '' @ li_licenseName l @ '': '') @ li_legalContent l) 100))) ls)"

definition PATH_SEPARATOR :: string where "PATH_SEPARATOR = '' > ''"

definition printPath :: "string list \<Rightarrow> nat \<Rightarrow> string" where
  "printPath path from_index = js_join PATH_SEPARATOR (drop from_index path)"

section \<open>One issue\<close>

definition introduced_by :: "format_env \<Rightarrow> show_paths \<Rightarrow> string list list \<Rightarrow> string" where
  "introduced_by en shown paths =
     (let nl = [CHR 0x0A] @ ''    '';
          others = ''and '' @ fe_chalk en ''cyanBright'' (str_of_nat (length paths - 1)) @ '' other path(s)'' in
      if shown = ShowSome \<and> list_ex (\<lambda>p. length p > 1) paths then
        (if length paths = 1 then nl @ ''introduced by '' @ printPath (hd paths) 1
         else nl @ ''introduced by '' @ printPath (hd paths) 1 @ '' '' @ others)
      else if shown = ShowAll then
        nl @ ''introduced by:'' @ concat (map (\<lambda>p. nl @ printPath p 1) (take 1000 paths)) @
        (if length paths > 1000 then nl @ others else [])
      else [])"

definition formatIssue ::
  "format_env \<Rightarrow> string \<Rightarrow> string \<Rightarrow> string \<Rightarrow> bool \<Rightarrow> string \<Rightarrow> string list list \<Rightarrow> show_paths \<Rightarrow> issue_note \<Rightarrow>
   string option \<Rightarrow> legal_instruction list option \<Rightarrow> thrown + string" where
  "formatIssue en vid title sev new vulnerableModule paths shown note originalSeverity legal =
     (let legalText = (case legal of None \<Rightarrow> [] | Some ls \<Rightarrow> formatLegalInstructions en ls 4);
          nl = [CHR 0x0A] @ ''    '' in
      bindS (if truthy originalSeverity \<and> originalSeverity \<noteq> Some sev
             then bindS (titleCaseText en (the originalSeverity)) (\<lambda>t. Inr ('' (originally '' @ t @ '')''))
             else Inr [])
        (\<lambda>original.
      bindS (titleCaseText en sev) (\<lambda>sevText.
        Inr (colorTextBySeverity en sev
               (''  '' @ fe_issue_icon en @ '' '' @ fe_chalk en ''bold'' title @ (if new then '' (new)'' else []) @
                '' ['' @ sevText @ '' Severity'' @ original @ '']'') @
             ''['' @ getVulnerabilityUrl en vid @ '']'' @
             (if vulnerableModule = [] then [] else '' in '' @ fe_chalk en ''bold'' vulnerableModule) @
             introduced_by en shown paths @
             (if legalText = [] then []
              else fe_chalk en ''bold'' (nl @ ''Legal instructions'') @ '':'' @ nl @ legalText) @
             (if note_set note then fe_chalk en ''bold'' (nl @ ''Note'') @ '':'' @ nl @ note_text note else [])))))"

definition name_at_version :: "basic_vuln_info \<Rightarrow> string" where
  "name_at_version b = bv_name b @ ''@'' @ bv_version b"

definition format_basic ::
  "format_env \<Rightarrow> show_paths \<Rightarrow> legal_instruction list option \<Rightarrow> string \<Rightarrow> basic_vuln_info \<Rightarrow> thrown + string" where
  "format_basic en shown legal vid b =
     formatIssue en vid (bv_title b) (bv_severity b) (bv_isNew b) (name_at_version b) (bv_paths b) shown (bv_note b)
       (bv_originalSeverity b) legal"

section \<open>The sections of the report\<close>

definition heading :: "format_env \<Rightarrow> string \<Rightarrow> string \<Rightarrow> string" where
  "heading en style t = fe_chalk en style ([CHR 0x0A] @ t)"

definition constructLicenseText ::
  "format_env \<Rightarrow> show_paths \<Rightarrow> basic_vuln_info obj \<Rightarrow> thrown + string list" where
  "constructLicenseText en shown licenses =
     (if obj_keys licenses = [] then Inr []
      else bindS (mapS (\<lambda>(vid, b).
             bindS (formatIssue en vid (bv_title b) (bv_severity b) (bv_isNew b) (name_at_version b) (bv_paths b) shown
                      (bv_note b) None (bv_legalInstructions b)) (\<lambda>t.
               Inr ([CHR 0x0A] @ t))) licenses)
        (\<lambda>ts. Inr (heading en ''bold.green'' ''License issues:'' # ts)))"

definition patch_text ::
  "format_env \<Rightarrow> show_paths \<Rightarrow> basic_vuln_info obj \<Rightarrow> string \<Rightarrow> thrown + string list" where
  "patch_text en shown infos vid =
     (case obj_get infos vid of
        None \<Rightarrow> Inr []
      | Some b \<Rightarrow>
          if bv_type b = Some ''license'' then Inr []
          else bindS (format_basic en shown None vid b) (\<lambda>t.
            Inr [[CHR 0x0A] @ ''  Patch available for '' @ fe_chalk en ''bold.whiteBright'' (name_at_version b) @ [CHR 0x0A] @ t]))"

definition constructPatchesText ::
  "format_env \<Rightarrow> show_paths \<Rightarrow> lg_patch_remediation obj \<Rightarrow> basic_vuln_info obj \<Rightarrow> thrown + string list" where
  "constructPatchesText en shown patches infos =
     (if obj_keys patches = [] then Inr []
      else bindS (mapS (patch_text en shown infos) (obj_keys patches)) (\<lambda>ts.
        Inr (heading en ''bold.green'' ''Patchable issues:'' # concat ts)))"

text \<open>
  \<open>sort\<close> compares no element of a list with less than two; otherwise every element is compared, and the
  comparison reads its severity value.
\<close>

definition sort_by_severity ::
  "format_env \<Rightarrow> (string \<times> basic_vuln_info) list \<Rightarrow> thrown + (string \<times> basic_vuln_info) list" where
  "sort_by_severity en xs =
     (if length xs \<le> 1 then Inr xs
      else bindS (mapS (\<lambda>x. bindS (getSeverityValue en (bv_severity (snd x))) (\<lambda>v. Inr (v, x))) xs)
        (\<lambda>vs. Inr (map snd (sort_key fst vs))))"

definition known_ids :: "basic_vuln_info obj \<Rightarrow> string list \<Rightarrow> (string \<times> basic_vuln_info) list" where
  "known_ids infos ids = List.map_filter (\<lambda>i. map_option (Pair i) (obj_get infos i)) ids"

definition thisUpgradeFixes ::
  "format_env \<Rightarrow> show_paths \<Rightarrow> string list \<Rightarrow> basic_vuln_info obj \<Rightarrow> thrown + string" where
  "thisUpgradeFixes en shown vulnIds infos =
     bindS (sort_by_severity en (known_ids infos vulnIds)) (\<lambda>xs.
     bindS (mapS (\<lambda>(vid, b). format_basic en shown (Some []) vid b)
              (filter (\<lambda>(vid, b). bv_type b \<noteq> Some ''license'') xs)) (\<lambda>ts.
       Inr (js_join [CHR 0x0A] ts)))"

definition upgrade_heading :: "format_env \<Rightarrow> string \<Rightarrow> string \<Rightarrow> string \<Rightarrow> string" where
  "upgrade_heading en verb dep to =
     [CHR 0x0A] @ ''  '' @ verb @ '' '' @ fe_chalk en ''bold.whiteBright'' dep @ '' to '' @
     fe_chalk en ''bold.whiteBright'' to @ '' to fix''"

definition processUpgrades ::
  "format_env \<Rightarrow> show_paths \<Rightarrow> basic_vuln_info obj \<Rightarrow> (string \<times> 'a lg_upgrade_vulns_scheme) list \<Rightarrow>
   thrown + string list" where
  "processUpgrades en shown infos deps =
     mapS (\<lambda>(dep, d).
       bindS (thisUpgradeFixes en shown (lg_vulns d) infos) (\<lambda>t.
         Inr (upgrade_heading en ''Upgrade'' dep (lg_upgradeTo d) @ [CHR 0x0A] @ t))) deps"

definition constructUpgradesText ::
  "format_env \<Rightarrow> show_paths \<Rightarrow> lg_upgrade_remediation obj \<Rightarrow> basic_vuln_info obj \<Rightarrow> thrown + string list" where
  "constructUpgradesText en shown ups infos =
     (if obj_keys ups = [] then Inr []
      else bindS (processUpgrades en shown infos ups) (\<lambda>ts.
        Inr (heading en ''bold.green'' ''Issues to fix by upgrading:'' # ts)))"

definition suggest_upgrade ::
  "top_level_upgrade \<Rightarrow> string list \<times> string list \<Rightarrow> string list \<times> string list" where
  "suggest_upgrade u acc =
     (let k = tu_name u @ [CHR 0x0A] @ tu_version u in
      if k \<in> set (fst acc) then acc
      else (k # fst acc,
            snd acc @ [''  The issues above can also be fixed by upgrading top-level dependency '' @
                       tu_name u @ '' to '' @ tu_version u]))"

definition suggest_for ::
  "format_env \<Rightarrow> basic_vuln_info obj \<Rightarrow> upgrades_by_affected \<Rightarrow> string \<Rightarrow> string \<Rightarrow>
   string list \<times> string list \<Rightarrow> thrown + (string list \<times> string list)" where
  "suggest_for en infos affected pkg vid acc =
     (case obj_get infos vid of
        None \<Rightarrow> Inl (format_type_error en)
      | Some b \<Rightarrow>
          Inr (fold suggest_upgrade
                 (case obj_get affected (pkg @ ''@'' @ bv_version b) of None \<Rightarrow> [] | Some us \<Rightarrow> us) acc))"

definition pin_text ::
  "format_env \<Rightarrow> show_paths \<Rightarrow> basic_vuln_info obj \<Rightarrow> upgrades_by_affected \<Rightarrow> string \<times> lg_pin_remediation \<Rightarrow>
   thrown + string list" where
  "pin_text en shown infos affected = (\<lambda>(pkg, d).
     bindS (thisUpgradeFixes en shown (lg_vulns d) infos) (\<lambda>t.
     bindS (foldS (suggest_for en infos affected pkg) (lg_vulns d) ([], [])) (\<lambda>acc.
       Inr ([upgrade_heading en ''Pin'' pkg (lg_upgradeTo d), t] @ snd acc))))"

definition constructPinText ::
  "format_env \<Rightarrow> show_paths \<Rightarrow> lg_pin_remediation obj \<Rightarrow> upgrades_by_affected \<Rightarrow> basic_vuln_info obj \<Rightarrow>
   thrown + string list" where
  "constructPinText en shown pins affected infos =
     (if obj_keys pins = [] then Inr []
      else bindS (processUpgrades en shown infos (filter (\<lambda>(k, d). \<not> lg_isTransitive d) pins)) (\<lambda>direct.
           bindS (mapS (pin_text en shown infos affected) (filter (\<lambda>(k, d). lg_isTransitive d) pins)) (\<lambda>pinned.
             Inr (heading en ''bold.green'' ''Issues to fix by upgrading dependencies:'' # direct @ concat pinned))))"

definition unfixable_text ::
  "format_env \<Rightarrow> show_paths \<Rightarrow> basic_vuln_info obj \<Rightarrow> lg_issue_data \<Rightarrow> thrown + string list" where
  "unfixable_text en shown infos issue =
     (case obj_get infos (lgd_id issue) of
        None \<Rightarrow> Inr []
      | Some b \<Rightarrow>
          (let extra = (if lgd_fixedIn issue \<noteq> []
                        then [CHR 0x0A] @ ''  This issue was fixed in versions: '' @
                             fe_chalk en ''bold'' (js_join '', '' (lgd_fixedIn issue))
                        else [CHR 0x0A] @ ''  No upgrade or patch available'') in
           bindS (formatIssue en (lgd_id issue) (lgd_title issue) (severity_str (lgd_severity issue)) (lgd_isNew issue)
                    (lgd_packageName issue @ ''@'' @ lgd_version issue) (bv_paths b) shown (bv_note b)
                    (bv_originalSeverity b) (Some [])) (\<lambda>t.
             Inr [t @ extra])))"

definition constructUnfixableText ::
  "format_env \<Rightarrow> show_paths \<Rightarrow> lg_issue_data list \<Rightarrow> basic_vuln_info obj \<Rightarrow> thrown + string list" where
  "constructUnfixableText en shown open_issues infos =
     (if open_issues = [] then Inr []
      else bindS (mapS (unfixable_text en shown infos) open_issues) (\<lambda>ts.
        if concat ts = [] then Inr []
        else Inr (heading en ''bold.white'' ''Issues with no direct upgrade or patch:'' # concat ts)))"

section \<open>The report\<close>

definition basic_info :: "grouped_vuln \<Rightarrow> basic_vuln_info" where
  "basic_info v =
     \<lparr>bv_type = vm_type (gv_metadata v), bv_title = gv_title v, bv_severity = gv_severity v,
      bv_originalSeverity = gv_originalSeverity v, bv_isNew = gv_isNew v, bv_name = gv_name v,
      bv_version = gv_version v, bv_fixedIn = gv_fixedIn v,
      bv_legalInstructions = gv_legalInstructionsArray v, bv_paths = map av_from (gv_list v), bv_note = gv_note v\<rparr>"

definition add_info ::
  "grouped_vuln \<Rightarrow> basic_vuln_info obj \<times> basic_vuln_info obj \<Rightarrow> basic_vuln_info obj \<times> basic_vuln_info obj" where
  "add_info v acc =
     (if bv_type (basic_info v) = Some ''license''
      then (fst acc, obj_set (vm_id (gv_metadata v)) (basic_info v) (snd acc))
      else (obj_set (vm_id (gv_metadata v)) (basic_info v) (fst acc), snd acc))"

definition add_affected_upgrade ::
  "string \<times> lg_upgrade_remediation \<Rightarrow> upgrades_by_affected \<Rightarrow> upgrades_by_affected" where
  "add_affected_upgrade = (\<lambda>(top, d) affected.
     fold (\<lambda>target m.
       obj_set target
         ((case obj_get m target of None \<Rightarrow> [] | Some us \<Rightarrow> us) @ [\<lparr>tu_name = top, tu_version = lg_upgradeTo d\<rparr>]) m)
       (lg_upgrades d) affected)"

definition pinned_ids :: "lg_pin_remediation obj \<Rightarrow> string list" where
  "pinned_ids pins = concat (map (\<lambda>(k, d). lg_vulns d) pins)"

definition section_of :: "string list \<Rightarrow> string list" where
  "section_of ts = (if ts = [] then [] else [js_join [CHR 0x0A] ts])"

text \<open>The unresolved issues of the remediation are replaced in the caller's object when there are pins.\<close>

definition formatIssuesWithRemediation ::
  "format_env \<Rightarrow> show_paths \<Rightarrow> grouped_vuln list \<Rightarrow> lg_remediation \<Rightarrow> thrown + (string list \<times> lg_remediation)" where
  "formatIssuesWithRemediation en shown vs rem =
     (let infos = fold add_info vs ([], []);
          basic = fst infos; licenses = snd infos;
          pins = lgr_pin rem;
          rem' = (if obj_keys pins = [] then rem
                  else rem\<lparr>lgr_unresolved :=
                         filter (\<lambda>i. lgd_id i \<notin> set (pinned_ids pins)) (lgr_unresolved rem)\<rparr>) in
      bindS (if obj_keys pins = [] then constructUpgradesText en shown (lgr_upgrade rem) basic
             else constructPinText en shown pins (fold add_affected_upgrade (lgr_upgrade rem) []) basic) (\<lambda>upgradeTexts.
      bindS (constructPatchesText en shown (lgr_patch rem) basic) (\<lambda>patchTexts.
      bindS (constructUnfixableText en shown (lgr_unresolved rem') basic) (\<lambda>unfixable.
      bindS (constructLicenseText en shown licenses) (\<lambda>licenseTexts.
        Inr ([[]] @ section_of upgradeTexts @ section_of patchTexts @ section_of unfixable @ section_of licenseTexts,
             rem'))))))"

section \<open>Grouping\<close>

definition isNewVuln :: "format_env \<Rightarrow> annotated_vuln \<Rightarrow> bool" where
  "isNewVuln en v =
     (case fe_time en (av_publicationTime v) of None \<Rightarrow> False | Some t \<Rightarrow> t > fe_now en - 30 * 24 * 60 * 60 * 1000)"

definition metadataForVuln :: "format_env \<Rightarrow> annotated_vuln \<Rightarrow> thrown + vuln_metadata" where
  "metadataForVuln en v =
     bindS (getSeverityValue en (av_severity v)) (\<lambda>value.
       Inr \<lparr>vm_id = av_id v, vm_title = av_title v, vm_description = av_description v, vm_type = av_type v,
            vm_name = av_name v, vm_info = av_info v, vm_severity = av_severity v, vm_severityValue = value,
            vm_isNew = isNewVuln en v, vm_version = av_version v, vm_packageManager = av_packageManager v\<rparr>)"

definition new_group :: "format_env \<Rightarrow> annotated_vuln \<Rightarrow> thrown + grouped_vuln" where
  "new_group en v =
     bindS (metadataForVuln en v) (\<lambda>meta.
       Inr \<lparr>gv_list = [], gv_metadata = meta, gv_isIgnored = False, gv_isPatched = False, gv_title = av_title v,
            gv_note = av_note v, gv_severity = av_severity v, gv_originalSeverity = av_originalSeverity v,
            gv_isNew = isNewVuln en v, gv_name = av_name v, gv_version = av_version v, gv_fixedIn = av_fixedIn v,
            gv_dockerfileInstruction = av_dockerfileInstruction v, gv_dockerBaseImage = av_dockerBaseImage v,
            gv_nearestFixedInVersion = av_nearestFixedInVersion v,
            gv_legalInstructionsArray = av_legalInstructionsArray v, gv_isFixable = False\<rparr>)"

definition add_path :: "annotated_vuln \<Rightarrow> grouped_vuln \<Rightarrow> grouped_vuln" where
  "add_path v g =
     (let g1 = g\<lparr>gv_list := gv_list g @ [v]\<rparr>;
          g2 = (if gv_isFixable g1 then g1 else g1\<lparr>gv_isFixable := isVulnFixable (vuln_flags.truncate v)\<rparr>) in
      if note_set (gv_note g2) then g2 else g2\<lparr>gv_note := NoteFlag (note_set (av_note v))\<rparr>)"

definition add_grouped ::
  "format_env \<Rightarrow> annotated_vuln \<Rightarrow> grouped_vuln obj \<Rightarrow> thrown + grouped_vuln obj" where
  "add_grouped en v m =
     bindS (case obj_get m (av_id v) of Some g \<Rightarrow> Inr g | None \<Rightarrow> new_group en v) (\<lambda>g.
       Inr (obj_set (av_id v) (add_path v g) m))"

definition groupVulnerabilities :: "format_env \<Rightarrow> annotated_vuln list \<Rightarrow> thrown + grouped_vuln obj" where
  "groupVulnerabilities en vs = foldS (add_grouped en) vs []"

section \<open>What a report mentions\<close>

text \<open>A text mentions an issue when it has the address of the issue in brackets.\<close>

definition mentions :: "format_env \<Rightarrow> string \<Rightarrow> string \<Rightarrow> bool" where
  "mentions en vid t = js_includes t (''['' @ getVulnerabilityUrl en vid @ '']'')"

lemma mentions_around: "mentions en vid t \<Longrightarrow> mentions en vid (u @ t @ v)"
  by (auto simp: mentions_def js_includes_iff) (metis append.assoc)

lemma mentions_before: "mentions en vid t \<Longrightarrow> mentions en vid (t @ v)"
  using mentions_around [of en vid t "[]" v] by simp

lemma mentions_after: "mentions en vid t \<Longrightarrow> mentions en vid (u @ t)"
  using mentions_around [of en vid t u "[]"] by simp

lemma mentions_Cons: "mentions en vid t \<Longrightarrow> mentions en vid (c # t)"
  using mentions_after [of en vid t "[c]"] by simp

lemmas mentions_intros = mentions_before mentions_after mentions_Cons

lemma mentions_join: "t \<in> set ts \<Longrightarrow> mentions en vid t \<Longrightarrow> mentions en vid (js_join j ts)"
proof (induction ts)
  case (Cons w ws)
  show ?case
  proof (cases "ws = []")
    case False
    then have "js_join j (w # ws) = w @ j @ js_join j ws" by (rule js_join_Cons)
    with Cons False show ?thesis
      by (auto simp: mentions_before intro: mentions_after [of en vid _ "w @ j", simplified])
  qed (use Cons in simp)
qed simp

lemma mentions_section: "t \<in> set ts \<Longrightarrow> mentions en vid t \<Longrightarrow> list_ex (mentions en vid) (section_of ts)"
  by (auto simp: section_of_def mentions_join)

lemma mapS_hit: "mapS f xs = Inr ys \<Longrightarrow> x \<in> set xs \<Longrightarrow> \<exists>y \<in> set ys. f x = Inr y"
  unfolding mapS_list_all2 list_all2_conv_all_nth in_set_conv_nth by (metis nth_mem)

lemma mapS_fails:
  assumes "x \<in> set xs" "f x = Inl e"
  shows "\<exists>e'. mapS f xs = Inl e'"
proof (cases "mapS f xs")
  case (Inr ys)
  from mapS_hit [OF this assms(1)] assms(2) show ?thesis by auto
qed simp

lemma mentions_here: "mentions en vid (u @ ''['' @ getVulnerabilityUrl en vid @ '']'' @ v)"
  unfolding mentions_def js_includes_iff by (intro exI [of _ u] exI [of _ v]) simp

lemma formatIssue_mentions:
  assumes "formatIssue en vid title sev new module_name paths shown note orig legal = Inr t"
  shows "mentions en vid t"
  using assms unfolding formatIssue_def Let_def bindS_Inr_iff sum.inject
  by (elim exE conjE) (erule subst, rule mentions_here)

lemma sort_by_severity_mset: "sort_by_severity en xs = Inr ys \<Longrightarrow> mset ys = mset xs"
proof (cases "length xs \<le> 1")
  case False
  assume "sort_by_severity en xs = Inr ys"
  with False obtain vs where vs: "mapS (\<lambda>x. bindS (getSeverityValue en (bv_severity (snd x))) (\<lambda>v. Inr (v, x))) xs = Inr vs"
    and ys: "ys = map snd (sort_key fst vs)"
    by (auto simp: sort_by_severity_def bindS_Inr_iff split: if_splits)
  from vs have "map snd vs = xs"
    unfolding mapS_list_all2 by (induction rule: list_all2_induct) (auto simp: bindS_Inr_iff)
  then have "image_mset snd (mset vs) = mset xs" by (metis mset_map)
  then show ?thesis by (simp add: ys)
qed (simp add: sort_by_severity_def)

lemma known_ids_hit: "vid \<in> set ids \<Longrightarrow> obj_get infos vid = Some b \<Longrightarrow> (vid, b) \<in> set (known_ids infos ids)"
  by (force simp: known_ids_def map_filter_def)

lemma fixes_mentioned:
  assumes "thisUpgradeFixes en shown ids infos = Inr t" "vid \<in> set ids"
    and b: "obj_get infos vid = Some b" "bv_type b \<noteq> Some ''license''"
  shows "mentions en vid t"
proof -
  obtain xs ts where xs: "sort_by_severity en (known_ids infos ids) = Inr xs"
    and ts: "mapS (\<lambda>(vid, b). format_basic en shown (Some []) vid b)
              (filter (\<lambda>(vid, b). bv_type b \<noteq> Some ''license'') xs) = Inr ts"
    and t: "t = js_join [CHR 0x0A] ts"
    using assms(1) by (auto simp: thisUpgradeFixes_def bindS_Inr_iff)
  have "(vid, b) \<in> set xs"
    using known_ids_hit [OF assms(2) b(1)] sort_by_severity_mset [OF xs] by (metis set_mset_mset)
  with b(2) have "(vid, b) \<in> set (filter (\<lambda>(vid, b). bv_type b \<noteq> Some ''license'') xs)" by simp
  from mapS_hit [OF ts this] obtain u where "u \<in> set ts" "format_basic en shown (Some []) vid b = Inr u" by auto
  then show ?thesis unfolding t format_basic_def by (auto intro: mentions_join formatIssue_mentions)
qed

text \<open>A section that is made has the text of each of its entries.\<close>

lemma upgrades_mentioned:
  assumes "processUpgrades en shown infos deps = Inr ts" "(dep, d) \<in> set deps" "vid \<in> set (lg_vulns d)"
    and "obj_get infos vid = Some b" "bv_type b \<noteq> Some ''license''"
  shows "list_ex (mentions en vid) ts"
proof -
  from mapS_hit [OF assms(1) [unfolded processUpgrades_def] assms(2)]
  obtain t u where "u \<in> set ts" "thisUpgradeFixes en shown (lg_vulns d) infos = Inr t"
    "u = upgrade_heading en ''Upgrade'' dep (lg_upgradeTo d) @ [CHR 0x0A] @ t"
    by (auto simp: bindS_Inr_iff)
  with fixes_mentioned [of en shown "lg_vulns d" infos t vid b] assms show ?thesis
    by (auto simp: list_ex_iff intro!: bexI [of _ u] mentions_intros)
qed

lemma pins_mentioned:
  assumes "constructPinText en shown pins affected infos = Inr ts" "vid \<in> set (pinned_ids pins)"
    and b: "obj_get infos vid = Some b" "bv_type b \<noteq> Some ''license''"
  shows "list_ex (mentions en vid) ts"
proof -
  obtain pkg d where d: "(pkg, d) \<in> set pins" "vid \<in> set (lg_vulns d)"
    using assms(2) by (auto simp: pinned_ids_def)
  then have "obj_keys pins \<noteq> []" by (auto simp: obj_keys_def)
  with assms(1) obtain direct pinned
    where direct: "processUpgrades en shown infos (filter (\<lambda>(k, d). \<not> lg_isTransitive d) pins) = Inr direct"
      and pinned: "mapS (pin_text en shown infos affected) (filter (\<lambda>(k, d). lg_isTransitive d) pins) = Inr pinned"
      and ts: "ts = heading en ''bold.green'' ''Issues to fix by upgrading dependencies:'' # direct @ concat pinned"
    by (auto simp: constructPinText_def bindS_Inr_iff)
  show ?thesis
  proof (cases "lg_isTransitive d")
    case False
    with d have "(pkg, d) \<in> set (filter (\<lambda>(k, d). \<not> lg_isTransitive d) pins)" by simp
    from upgrades_mentioned [OF direct this d(2) b] show ?thesis by (auto simp: ts)
  next
    case True
    with d have "(pkg, d) \<in> set (filter (\<lambda>(k, d). lg_isTransitive d) pins)" by simp
    from mapS_hit [OF pinned this] obtain h us t where "h # t # us \<in> set pinned"
      and t: "thisUpgradeFixes en shown (lg_vulns d) infos = Inr t"
      by (auto simp: pin_text_def bindS_Inr_iff)
    then have "t \<in> set ts" by (force simp: ts)
    with fixes_mentioned [OF t d(2) b] show ?thesis by (auto simp: list_ex_iff)
  qed
qed

lemma patch_text_mentions:
  assumes "patch_text en shown infos vid = Inr us" "obj_get infos vid = Some b" "bv_type b \<noteq> Some ''license''"
  shows "list_ex (mentions en vid) us"
proof -
  obtain t where t: "format_basic en shown None vid b = Inr t"
    and us: "us = [[CHR 0x0A] @ ''  Patch available for '' @ fe_chalk en ''bold.whiteBright'' (name_at_version b) @ [CHR 0x0A] @ t]"
    using assms by (auto simp: patch_text_def bindS_Inr_iff)
  from t have "mentions en vid t" unfolding format_basic_def by (rule formatIssue_mentions)
  then show ?thesis by (simp add: us mentions_intros)
qed

lemma unfixable_text_mentions:
  assumes "unfixable_text en shown infos issue = Inr us" "obj_get infos (lgd_id issue) = Some b"
  shows "list_ex (mentions en (lgd_id issue)) us"
  using assms by (auto simp: unfixable_text_def bindS_Inr_iff Let_def intro!: mentions_before dest: formatIssue_mentions)

lemma list_ex_concat: "us \<in> set uss \<Longrightarrow> list_ex P us \<Longrightarrow> list_ex P (h # concat uss)"
  by (auto simp: list_ex_iff)

lemma patches_mentioned:
  assumes "constructPatchesText en shown patches infos = Inr ts" "vid \<in> set (obj_keys patches)"
    and b: "obj_get infos vid = Some b" "bv_type b \<noteq> Some ''license''"
  shows "list_ex (mentions en vid) ts"
proof -
  obtain uss where uss: "mapS (patch_text en shown infos) (obj_keys patches) = Inr uss"
    and ts: "ts = heading en ''bold.green'' ''Patchable issues:'' # concat uss"
    using assms(1,2) by (auto simp: constructPatchesText_def bindS_Inr_iff split: if_splits)
  from mapS_hit [OF uss assms(2)] obtain us where "us \<in> set uss" "patch_text en shown infos vid = Inr us" by auto
  then show ?thesis unfolding ts by (blast intro: list_ex_concat patch_text_mentions [OF _ b])
qed

lemma unfixable_mentioned:
  assumes "constructUnfixableText en shown open_issues infos = Inr ts" "issue \<in> set open_issues"
    and b: "obj_get infos (lgd_id issue) = Some b"
  shows "list_ex (mentions en (lgd_id issue)) ts"
proof -
  have "open_issues \<noteq> []" using assms(2) by auto
  with assms(1) obtain uss where uss: "mapS (unfixable_text en shown infos) open_issues = Inr uss"
    and ts: "(if concat uss = [] then Inr []
      else Inr (heading en ''bold.white'' ''Issues with no direct upgrade or patch:'' # concat uss)) = (Inr ts :: thrown + string list)"
    unfolding constructUnfixableText_def by (simp only: if_False bindS_Inr_iff) blast
  from mapS_hit [OF uss assms(2)] obtain us where us: "us \<in> set uss" "unfixable_text en shown infos issue = Inr us" by auto
  have "list_ex (mentions en (lgd_id issue)) us" using us(2) b by (rule unfixable_text_mentions)
  then have hit: "list_ex (mentions en (lgd_id issue)) (h # concat uss)" for h by (rule list_ex_concat [OF us(1)])
  have "concat uss \<noteq> []" using \<open>list_ex _ us\<close> us(1) by (cases us) auto
  with ts have "ts = heading en ''bold.white'' ''Issues with no direct upgrade or patch:'' # concat uss" by (simp split: if_splits)
  with hit show ?thesis by simp
qed

lemma licenses_mentioned:
  assumes "constructLicenseText en shown licenses = Inr ts" "obj_get licenses vid = Some b"
  shows "list_ex (mentions en vid) ts"
proof -
  have b: "(vid, b) \<in> set licenses" using assms(2) by (simp add: obj_get_def map_of_SomeD)
  then have "obj_keys licenses \<noteq> []" by (auto simp: obj_keys_def)
  with assms(1) obtain us where us: "mapS (\<lambda>(vid, b).
       bindS (formatIssue en vid (bv_title b) (bv_severity b) (bv_isNew b) (name_at_version b) (bv_paths b) shown
                (bv_note b) None (bv_legalInstructions b)) (\<lambda>t. Inr ([CHR 0x0A] @ t))) licenses = Inr us"
    and ts: "ts = heading en ''bold.green'' ''License issues:'' # us"
    by (auto simp: constructLicenseText_def bindS_Inr_iff)
  from mapS_hit [OF us b] obtain t where "[CHR 0x0A] @ t \<in> set us" "mentions en vid t"
    by (auto simp: bindS_Inr_iff dest: formatIssue_mentions)
  then show ?thesis unfolding ts list_ex_iff by (metis list.set_intros(2) mentions_after)
qed

section \<open>No issue is left out\<close>

definition group_id :: "grouped_vuln \<Rightarrow> string" where
  "group_id v = vm_id (gv_metadata v)"

definition is_license :: "grouped_vuln \<Rightarrow> bool" where
  "is_license v = (vm_type (gv_metadata v) = Some ''license'')"

lemma infos_split:
  "fold add_info vs (a, b) =
     (fold (\<lambda>v. obj_set (group_id v) (basic_info v)) (filter (\<lambda>v. \<not> is_license v) vs) a,
      fold (\<lambda>v. obj_set (group_id v) (basic_info v)) (filter is_license vs) b)"
  by (induction vs arbitrary: a b) (simp_all add: add_info_def is_license_def group_id_def basic_info_def)

lemma last_info:
  assumes "v \<in> set vs"
  shows "\<exists>u \<in> set vs. obj_get (fold (\<lambda>v. obj_set (group_id v) (basic_info v)) vs []) (group_id v) = Some (basic_info u)"
proof -
  let ?es = "filter (\<lambda>u. group_id u = group_id v) vs"
  have "?es \<noteq> []" using assms by (auto simp: filter_empty_conv)
  then have "last ?es \<in> set vs" by (metis (mono_tags, lifting) filter_is_subset last_in_set subsetD)
  moreover have "obj_get (fold (\<lambda>v. obj_set (group_id v) (basic_info v)) vs []) (group_id v) = Some (basic_info (last ?es))"
    using \<open>?es \<noteq> []\<close> by (simp add: ob.get_fold_put_last split: list.split)
  ultimately show ?thesis by blast
qed

lemma info_of_issue:
  assumes "v \<in> set vs" "\<not> is_license v"
  shows "\<exists>b. obj_get (fst (fold add_info vs ([], []))) (group_id v) = Some b \<and> bv_type b \<noteq> Some ''license''"
  using last_info [of v "filter (\<lambda>v. \<not> is_license v) vs"] assms
  by (auto simp: infos_split is_license_def basic_info_def)

lemma info_of_license:
  assumes "v \<in> set vs" "is_license v"
  shows "\<exists>b. obj_get (snd (fold add_info vs ([], []))) (group_id v) = Some b"
  using last_info [of v "filter is_license vs"] assms by (auto simp: infos_split)

lemma info_absent:
  assumes "vid \<notin> group_id ` set (filter (\<lambda>v. \<not> is_license v) vs)"
  shows "obj_get (fst (fold add_info vs ([], []))) vid = None"
  by (simp add: infos_split ob.get_fold_put_notin [OF assms])

definition upgraded_ids :: "lg_upgrade_remediation obj \<Rightarrow> string list" where
  "upgraded_ids ups = concat (map (\<lambda>(k, d). lg_vulns d) ups)"

text \<open>The sections a report is made of for an issue: the pins when there are any, the upgrades otherwise.\<close>

definition treated :: "lg_remediation \<Rightarrow> grouped_vuln \<Rightarrow> bool" where
  "treated rem v =
     (is_license v \<or>
      group_id v \<in> set (if lgr_pin rem = [] then upgraded_ids (lgr_upgrade rem) else pinned_ids (lgr_pin rem)) \<or>
      group_id v \<in> set (obj_keys (lgr_patch rem)) \<or>
      group_id v \<in> set (map lgd_id (lgr_unresolved rem)))"

lemma obj_keys_Nil_iff: "obj_keys ob = [] \<longleftrightarrow> ob = []"
  by (simp add: obj_keys_def)

lemma upgraded_mentioned:
  assumes "constructUpgradesText en shown ups infos = Inr ts" "vid \<in> set (upgraded_ids ups)"
    and b: "obj_get infos vid = Some b" "bv_type b \<noteq> Some ''license''"
  shows "list_ex (mentions en vid) ts"
proof -
  obtain dep d where d: "(dep, d) \<in> set ups" "vid \<in> set (lg_vulns d)"
    using assms(2) by (auto simp: upgraded_ids_def)
  then have "ups \<noteq> []" by auto
  with assms(1) obtain us where us: "processUpgrades en shown infos ups = Inr us"
    and ts: "ts = heading en ''bold.green'' ''Issues to fix by upgrading:'' # us"
    by (auto simp: constructUpgradesText_def bindS_Inr_iff obj_keys_Nil_iff)
  from upgrades_mentioned [OF us d b] show ?thesis by (simp add: ts)
qed

lemma section_mentions: "list_ex (mentions en vid) ts \<Longrightarrow> list_ex (mentions en vid) (section_of ts)"
  unfolding list_ex_iff [of _ ts] by (auto intro: mentions_section)

lemma report_mentions:
  assumes "formatIssuesWithRemediation en shown vs rem = Inr (texts, rem')"
    and v: "v \<in> set vs" and "treated rem v"
  shows "list_ex (mentions en (group_id v)) texts"
proof -
  let ?infos = "fold add_info vs ([], [])" and ?hit = "list_ex (mentions en (group_id v))"
  let ?rem = "if lgr_pin rem = [] then rem
    else rem\<lparr>lgr_unresolved := filter (\<lambda>i. lgd_id i \<notin> set (pinned_ids (lgr_pin rem))) (lgr_unresolved rem)\<rparr>"
  obtain ups ps us ls
    where ups: "(if lgr_pin rem = [] then constructUpgradesText en shown (lgr_upgrade rem) (fst ?infos)
        else constructPinText en shown (lgr_pin rem) (fold add_affected_upgrade (lgr_upgrade rem) []) (fst ?infos)) = Inr ups"
      and ps: "constructPatchesText en shown (lgr_patch rem) (fst ?infos) = Inr ps"
      and us: "constructUnfixableText en shown (lgr_unresolved ?rem) (fst ?infos) = Inr us"
      and ls: "constructLicenseText en shown (snd ?infos) = Inr ls"
      and texts: "texts = [[]] @ section_of ups @ section_of ps @ section_of us @ section_of ls"
    using assms(1) unfolding formatIssuesWithRemediation_def Let_def bindS_Inr_iff obj_keys_Nil_iff by auto
  have "?hit ups \<or> ?hit ps \<or> ?hit us \<or> ?hit ls"
  proof (cases "is_license v")
    case True
    with info_of_license [OF v] ls show ?thesis by (auto dest: licenses_mentioned)
  next
    case False
    then obtain b where b: "obj_get (fst ?infos) (group_id v) = Some b" "bv_type b \<noteq> Some ''license''"
      using info_of_issue [OF v] by auto
    have pinned: "?hit ups" if "lgr_pin rem \<noteq> []" "group_id v \<in> set (pinned_ids (lgr_pin rem))"
      using that ups b by (auto intro: pins_mentioned)
    have upgraded: "?hit ups" if "lgr_pin rem = []" "group_id v \<in> set (upgraded_ids (lgr_upgrade rem))"
      using that ups b by (auto intro: upgraded_mentioned)
    have open_issue: "?hit us" if i: "i \<in> set (lgr_unresolved ?rem)" "group_id v = lgd_id i" for i
      using unfixable_mentioned [OF us i(1)] b(1) i(2) by simp
    have patched: "?hit ps" if "group_id v \<in> set (obj_keys (lgr_patch rem))"
      using patches_mentioned [OF ps that b] .
    have "?hit us \<or> ?hit ups" if "group_id v \<in> set (map lgd_id (lgr_unresolved rem))"
    proof -
      from that obtain i where i: "i \<in> set (lgr_unresolved rem)" "group_id v = lgd_id i" by auto
      with open_issue [of i] pinned show ?thesis
        by (cases "lgr_pin rem = [] \<or> lgd_id i \<notin> set (pinned_ids (lgr_pin rem))") auto
    qed
    with assms(3) False pinned upgraded patched show ?thesis
      unfolding treated_def by (cases "lgr_pin rem = []") (metis (full_types))+
  qed
  then show ?thesis unfolding texts by (auto dest: section_mentions)
qed

text \<open>When the report is made, it has the address of every issue found that is a license issue or that the
  remediation mentions: among its pins (or its upgrades, when there is no pin), its patches or its unresolved
  issues, also when an issue is unresolved and pinned.\<close>

theorem report_complete:
  assumes "formatIssuesWithRemediation en shown vs rem = Inr (texts, rem')"
    and v: "v \<in> set vs" and "treated rem v"
  shows "list_ex (mentions en (group_id v)) texts"
  using assms by (rule report_mentions)

section \<open>A pin for an issue that is not listed\<close>

lemma foldS_fails:
  "x \<in> set xs \<Longrightarrow> (\<And>acc. f x acc = Inl e) \<Longrightarrow> \<exists>e'. foldS f xs acc = Inl e'"
proof (induction xs arbitrary: acc)
  case (Cons y ys)
  then show ?case by (cases "f y acc") auto
qed simp

lemma pin_text_unlisted:
  assumes "vid \<in> set (lg_vulns d)" "obj_get infos vid = None"
  shows "\<exists>e. pin_text en shown infos affected (pkg, d) = Inl e"
proof -
  have "\<exists>e. foldS (suggest_for en infos affected pkg) (lg_vulns d) ([], []) = Inl e"
    using assms by (intro foldS_fails) (auto simp: suggest_for_def)
  then show ?thesis
    by (cases "thisUpgradeFixes en shown (lg_vulns d) infos") (auto simp: pin_text_def)
qed

text \<open>A pin of a transitive dependency that fixes an issue which is not among the listed ones (the severity
  threshold hides it, or it is a license issue) makes the whole report fail, although the other sections skip
  such issues.\<close>

theorem unlisted_pin_fails:
  assumes "(pkg, d) \<in> set (lgr_pin rem)" "lg_isTransitive d" "vid \<in> set (lg_vulns d)"
    and "vid \<notin> group_id ` set (filter (\<lambda>v. \<not> is_license v) vs)"
  shows "\<exists>e. formatIssuesWithRemediation en shown vs rem = Inl e"
proof -
  let ?infos = "fst (fold add_info vs ([], []))" and ?affected = "fold add_affected_upgrade (lgr_upgrade rem) []"
  have some: "lgr_pin rem \<noteq> []" using assms(1) by auto
  have pinned: "(pkg, d) \<in> set (filter (\<lambda>(k, d). lg_isTransitive d) (lgr_pin rem))" using assms by simp
  obtain e where fails: "pin_text en shown ?infos ?affected (pkg, d) = Inl e"
    using pin_text_unlisted [OF assms(3) info_absent [OF assms(4)]] by blast
  from mapS_fails [of _ _ "pin_text en shown ?infos ?affected", OF pinned fails] obtain e' where "mapS (pin_text en shown ?infos ?affected)
      (filter (\<lambda>(k, d). lg_isTransitive d) (lgr_pin rem)) = Inl e'" ..
  then obtain e2 where "constructPinText en shown (lgr_pin rem) ?affected ?infos = Inl e2"
    unfolding constructPinText_def obj_keys_Nil_iff
    by (cases "processUpgrades en shown ?infos (filter (\<lambda>(k, d). \<not> lg_isTransitive d) (lgr_pin rem))")
       (simp_all only: some if_False bindS_simps)
  then show ?thesis
    unfolding formatIssuesWithRemediation_def Let_def obj_keys_Nil_iff by (simp only: some if_False bindS_simps) blast
qed

section \<open>Grouping loses no path\<close>

lemma add_path_list [simp]: "gv_list (add_path v g) = gv_list g @ [v]"
  by (simp add: add_path_def Let_def)

lemma add_path_fixable [simp]:
  "gv_isFixable (add_path v g) = (gv_isFixable g \<or> isVulnFixable (vuln_flags.truncate v))"
  by (simp add: add_path_def Let_def)

lemma new_group_empty:
  "new_group en v = Inr g \<Longrightarrow> gv_list g = []"
  "new_group en v = Inr g \<Longrightarrow> gv_isFixable g = False"
  by (auto simp: new_group_def bindS_Inr_iff)

definition group_holds :: "annotated_vuln list \<Rightarrow> grouped_vuln option \<Rightarrow> bool" where
  "group_holds vs r =
     (case r of
        None \<Rightarrow> vs = []
      | Some g \<Rightarrow> vs \<noteq> [] \<and> gv_list g = vs \<and> gv_isFixable g = list_ex (\<lambda>v. isVulnFixable (vuln_flags.truncate v)) vs)"

lemma add_grouped_holds:
  assumes "add_grouped en v m = Inr m'" and "group_holds (filter (\<lambda>u. av_id u = i) vs) (obj_get m i)"
  shows "group_holds (filter (\<lambda>u. av_id u = i) (vs @ [v])) (obj_get m' i)"
  using assms
  by (cases "av_id v = i"; cases "obj_get m (av_id v)")
     (auto simp: add_grouped_def bindS_Inr_iff ob.get_put group_holds_def new_group_empty split: option.splits)

lemma grouping_holds:
  "foldS (add_grouped en) vs m = Inr m' \<Longrightarrow> group_holds (filter (\<lambda>u. av_id u = i) us) (obj_get m i) \<Longrightarrow>
   group_holds (filter (\<lambda>u. av_id u = i) (us @ vs)) (obj_get m' i)"
proof (induction vs arbitrary: us m)
  case (Cons v vs)
  then obtain m1 where m1: "add_grouped en v m = Inr m1" "foldS (add_grouped en) vs m1 = Inr m'"
    by (auto simp: bindS_Inr_iff)
  from Cons.IH [OF m1(2) add_grouped_holds [OF m1(1) Cons.prems(2)]] show ?case by simp
qed simp

text \<open>The group of an id holds exactly the vulnerable paths with that id, in their order, there is a group for
  an id only when there is such a path, and a group can be fixed exactly when one of its paths can.\<close>

theorem groups_complete:
  assumes "groupVulnerabilities en vs = Inr m"
  shows "group_holds (filter (\<lambda>u. av_id u = i) vs) (obj_get m i)"
  using grouping_holds [of en vs "[]" m i "[]"] assms by (simp add: groupVulnerabilities_def group_holds_def)

text \<open>Grouping succeeds when every path has a severity the tool knows.\<close>

lemma getSeverityValue_severity: "getSeverityValue en (severity_str s) = Inr (Suc (severity_rank s))"
  by (cases s) (simp_all add: getSeverityValue_def SEVERITIES_def)

lemma add_grouped_returns:
  assumes "av_severity v \<in> range severity_str"
  shows "\<exists>m'. add_grouped en v m = Inr m'"
  using assms
  by (auto simp: add_grouped_def new_group_def metadataForVuln_def getSeverityValue_severity split: option.split)

lemma grouping_returns:
  "list_all (\<lambda>v. av_severity v \<in> range severity_str) vs \<Longrightarrow> \<exists>m'. foldS (add_grouped en) vs m = Inr m'"
proof (induction vs arbitrary: m)
  case (Cons v vs)
  then obtain m1 where "add_grouped en v m = Inr m1" using add_grouped_returns by fastforce
  with Cons show ?case by simp
qed simp

text \<open>A note that only a later path of an issue has becomes the text \<open>true\<close>.\<close>

lemma late_note:
  assumes "\<not> note_set (gv_note g)" "av_note v = NoteText t" "t \<noteq> []"
  shows "note_text (gv_note (add_path v g)) = ''true''"
  using assms by (simp add: add_path_def Let_def note_set_def note_text_def)

text \<open>When all paths are shown, the count of the hidden ones is that of all but one.\<close>

lemma hidden_paths_miscounted:
  assumes "length paths > 1000"
  shows "js_endsWith (introduced_by en ShowAll paths)
    (''and '' @ fe_chalk en ''cyanBright'' (str_of_nat (length paths - 1)) @ '' other path(s)'')"
  using assms by (simp add: introduced_by_def Let_def js_endsWith_iff)

section \<open>Samples\<close>

definition sample_format_env :: format_env where
  "sample_format_env =
     \<lparr>fe_styles = \<lparr>st_red_bold = id, st_yellow = id, st_underline = id, st_stack = id\<rparr>,
      fe_chalk = (\<lambda>style t. t), fe_wrap = (\<lambda>t n. t), fe_issue_icon = ''x'', fe_valid_icon = ''v'',
      fe_warning_icon = ''!'', fe_bullet = ''o'', fe_root_url = ''root'', fe_vuln_db_url = ''db'',
      fe_time = (\<lambda>_. None), fe_now = 0\<rparr>"

definition sample_vuln :: "string \<Rightarrow> string \<Rightarrow> string list \<Rightarrow> annotated_vuln" where
  "sample_vuln i sev path =
     \<lparr>vf_isUpgradable = False, vf_isPinnable = False, vf_isPatchable = True, av_id = i, av_title = ''T'', av_type = None,
      av_description = [], av_info = None, av_name = ''a'', av_version = ''1'', av_severity = sev,
      av_originalSeverity = None, av_note = NoteAbsent, av_publicationTime = None, av_fixedIn = None, av_from = path,
      av_upgradePath = [], av_packageManager = None, av_dockerfileInstruction = None, av_dockerBaseImage = None,
      av_nearestFixedInVersion = None, av_legalInstructionsArray = None\<rparr>"

definition sample_group :: "string \<Rightarrow> grouped_vuln" where
  "sample_group i =
     \<lparr>gv_list = [sample_vuln i ''high'' [''p'', ''a'']],
      gv_metadata = \<lparr>vm_id = i, vm_title = ''T'', vm_description = [], vm_type = None, vm_name = ''a'', vm_info = None,
        vm_severity = ''high'', vm_severityValue = 3, vm_isNew = False, vm_version = ''1'', vm_packageManager = None\<rparr>,
      gv_isIgnored = False, gv_isPatched = False, gv_title = ''T'', gv_note = NoteFlag False, gv_severity = ''high'',
      gv_originalSeverity = None, gv_isNew = False, gv_name = ''a'', gv_version = ''1'', gv_fixedIn = None,
      gv_dockerfileInstruction = None, gv_dockerBaseImage = None, gv_nearestFixedInVersion = None,
      gv_legalInstructionsArray = None, gv_isFixable = True\<rparr>"

definition sample_pin :: lg_pin_remediation where
  "sample_pin = \<lparr>lg_upgradeTo = ''a@2'', lg_vulns = [''V''], lg_isTransitive = True\<rparr>"

definition sample_remediation :: lg_remediation where
  "sample_remediation =
     \<lparr>lgr_unresolved = [], lgr_upgrade = [], lgr_patch = [], lgr_ignore = JUndef,
      lgr_pin = [(''a@1'', sample_pin)]\<rparr>"

definition sample_texts :: "string list" where
  "sample_texts =
     [[], js_join [CHR 0x0A]
       [[CHR 0x0A] @ ''Issues to fix by upgrading dependencies:'',
        [CHR 0x0A] @ ''  Pin a@1 to a@2 to fix'',
        ''  x T [High Severity][db/vuln/V] in a@1'' @ [CHR 0x0A] @ ''    introduced by a'']]"

lemma sample_report:
  "formatIssuesWithRemediation sample_format_env ShowSome [sample_group ''V''] sample_remediation =
     Inr (sample_texts, sample_remediation)"
  by code_simp

theorem report_complete_witness:
  "list_ex (mentions sample_format_env ''V'')
    sample_texts"
proof -
  have "sample_group ''V'' \<in> set [sample_group ''V'']" by simp
  moreover have "treated sample_remediation (sample_group ''V'')"
    by (simp add: treated_def group_id_def sample_group_def sample_remediation_def pinned_ids_def sample_pin_def)
  ultimately have "list_ex (mentions sample_format_env (group_id (sample_group ''V''))) sample_texts"
    by (rule report_complete [OF sample_report])
  then show ?thesis by (simp only: group_id_def sample_group_def grouped_vuln.simps vuln_metadata.simps)
qed

theorem unlisted_pin_fails_witness:
  "\<exists>e. formatIssuesWithRemediation sample_format_env ShowSome [sample_group ''W''] sample_remediation = Inl e"
  by (rule unlisted_pin_fails [of "''a@1''" sample_pin _ "''V''"])
     (simp_all add: sample_pin_def sample_remediation_def group_id_def is_license_def sample_group_def)

theorem groups_complete_witness:
  "\<exists>m. groupVulnerabilities sample_format_env [sample_vuln ''V'' ''high'' [''p'', ''a''], sample_vuln ''V'' ''high'' [''p'', ''b'', ''a'']] = Inr m \<and>
     group_holds [sample_vuln ''V'' ''high'' [''p'', ''a''], sample_vuln ''V'' ''high'' [''p'', ''b'', ''a'']] (obj_get m ''V'')"
proof -
  let ?vs = "[sample_vuln ''V'' ''high'' [''p'', ''a''], sample_vuln ''V'' ''high'' [''p'', ''b'', ''a'']]"
  have "\<exists>m. groupVulnerabilities sample_format_env ?vs = Inr m"
    unfolding groupVulnerabilities_def by (rule grouping_returns) (simp add: sample_vuln_def range_eqI [of _ _ HIGH])
  then obtain m where m: "groupVulnerabilities sample_format_env ?vs = Inr m" ..
  from groups_complete [OF m, of "''V''"] m show ?thesis by (auto simp: sample_vuln_def)
qed

end
