(* ===== verification/TestDisplay.thy ===== *)
theory TestDisplay
  imports FormatIssues Detect Polling
begin

text \<open>
  What a test prints for one result: \<open>src/lib/formatters/test/display-result.ts\<close>,
  \<open>format-test-results.ts\<close>, \<open>legacy-format-issue.ts\<close>, \<open>format-test-meta.ts\<close>, the tips and the container
  texts under \<open>formatters/docker\<close>. A text that is optional in the server's answer is an \<open>option\<close>; a symbol outside the
  code units of the model, the codes of the container plugin and the lodash functions are parameters
  (\<open>display_env\<close>).
\<close>

section \<open>Data\<close>

text \<open>
  The entries \<open>lodash.uniq\<close> compares: texts by their value, lists by their identity, here their position.
\<close>

datatype from_entry = FromText string | FromPath nat "string list"

record display_env =
  ds_format :: format_env
  ds_poll :: poll_env
  ds_fs :: pworld
  ds_no_suggestions :: bool
  ds_uniq :: "from_entry list \<Rightarrow> from_entry list"
  ds_orderBy :: "grouped_vuln obj \<Rightarrow> grouped_vuln list"
  ds_module :: "string \<Rightarrow> thrown + string"
  ds_has_colour :: "string \<Rightarrow> bool"
  ds_no_base_code :: string
  ds_no_args_code :: string
  ds_heavy_cross :: string
  ds_quote_mark :: string

record base_image_advice =
  ba_message :: string
  ba_bold :: bool
  ba_color :: "string option"

record shown_docker =
  sd_baseImage :: "string option"
  sd_binariesVulns :: "vulns_part option"
  sd_remediation :: "(base_image_advice list option \<times> string option) option"

record shown_result =
  sr_ok :: bool
  sr_payloadType :: "string option"
  sr_org :: "string option"
  sr_isPrivate :: bool
  sr_packageManager :: "string option"
  sr_platform :: "string option"
  sr_vulnerabilities :: "annotated_vuln list option"
  sr_dependencyCount :: nat
  sr_licensesPolicy :: bool
  sr_ignores_disregarded :: bool
  sr_docker :: "shown_docker option"
  sr_filesystemPolicy :: bool
  sr_uniqueCount :: nat
  sr_remediation :: "lg_remediation option"
  sr_targetFile :: "string option"
  sr_projectName :: "string option"
  sr_displayTargetFile :: "string option"
  sr_foundProjectCount :: nat
  sr_scan_facts :: "(string \<times> string option) list option"
  sr_hasUnknownVersions :: bool

record shown_options =
  so_showVulnPaths :: show_paths
  so_docker :: bool
  so_iac :: bool
  so_dev :: bool
  so_isDockerUser :: bool
  so_exclude_base_image_vulns :: bool
  so_allProjects :: bool
  so_yarnWorkspaces :: bool
  so_allSubProjects :: bool
  so_mavenAggregateProject :: bool
  so_path :: string
  so_file :: "string option"
  so_packageManager :: "string option"

definition nl :: string where "nl = [CHR 0x0A]"

definition styled :: "display_env \<Rightarrow> string \<Rightarrow> string \<Rightarrow> string" where
  "styled en = fe_chalk (ds_format en)"

section \<open>Issues without remediation\<close>

definition fixed_in_text :: "display_env \<Rightarrow> grouped_vuln \<Rightarrow> string" where
  "fixed_in_text en v =
     (if truthy (gv_nearestFixedInVersion v)
      then styled en ''bold'' (nl @ ''  Fixed in: '' @ the (gv_nearestFixedInVersion v))
      else (case gv_fixedIn v of
              Some (x # xs) \<Rightarrow> styled en ''bold'' (nl @ ''  Fixed in: '' @ js_join '', '' (x # xs))
            | _ \<Rightarrow> []))"

definition PINNING_SUPPORTED_PACKAGE_MANAGERS :: "string list" where
  "PINNING_SUPPORTED_PACKAGE_MANAGERS = [''pip'']"

definition step_set :: "step option \<Rightarrow> bool" where
  "step_set s = (case s of Some (UpTo t) \<Rightarrow> t \<noteq> [] | _ \<Rightarrow> False)"

definition step_text :: "step \<Rightarrow> string" where
  "step_text s = (case s of Keep \<Rightarrow> ''false'' | UpTo t \<Rightarrow> t)"

text \<open>The unary plus before the second template makes a number of it, which is not one.\<close>

definition upgrade_advice :: "display_env \<Rightarrow> annotated_vuln \<Rightarrow> thrown + string" where
  "upgrade_advice en v =
     (let path = av_upgradePath v in
      if step_set (js_nth path 0) then
        bindS (ds_module en (step_text (hd path))) (\<lambda>name.
          Inr (''You'' @ [CHR 0x27] @ ''ve tested an outdated version of '' @ name @ ''.NaN''))
      else if step_set (js_nth path 1) then
        Inr (''Upgrade direct dependency '' @ str_of_opt (js_nth (av_from v) 1) @ '' to '' @ step_text (path ! 1) @
             '' (triggers upgrades to '' @ js_join PATH_SEPARATOR (map step_text (drop 1 path)) @ '')'')
      else Inr ''Some paths have no direct dependency upgrade that can address this issue.'')"

definition entry_text :: "from_entry \<Rightarrow> string" where
  "entry_text e = (case e of FromText t \<Rightarrow> t | FromPath i p \<Rightarrow> js_join '','' p)"

definition createRemediationText :: "display_env \<Rightarrow> grouped_vuln \<Rightarrow> string option \<Rightarrow> thrown + string" where
  "createRemediationText en v manager =
     (case gv_fixedIn v of
        Some versions \<Rightarrow>
          if manager \<in> Some ` set PINNING_SUPPORTED_PACKAGE_MANAGERS then
            (let to = js_join '' or '' versions in
             Inr (styled en ''bold''
               (if list_all (\<lambda>i. length (av_from i) > 2) (gv_list v)
                then nl @ ''  Remediation:'' @ nl @ ''    Pin the transitive dependency '' @ gv_name v @ '' to version '' @ to
                else nl @ ''  Remediation:'' @ nl @ ''    Upgrade direct dependency '' @
                     str_of_opt (case gv_list v of [] \<Rightarrow> None | i # is \<Rightarrow> js_nth (av_from i) 1) @
                     '' to '' @ gv_name v @ ''@'' @ to)))
          else if gv_isFixable v then
            bindS (mapS (upgrade_advice en) (gv_list v)) (\<lambda>ts.
              Inr (styled en ''bold'' (nl @ ''  Remediation:'' @ nl @ ''    '' @
                     js_join (nl @ ''    '') (map entry_text (ds_uniq en (map FromText ts))))))
          else if versions \<noteq> [] then Inr (fixed_in_text en v) else Inr []
      | None \<Rightarrow>
          if gv_isFixable v then
            bindS (mapS (upgrade_advice en) (gv_list v)) (\<lambda>ts.
              Inr (styled en ''bold'' (nl @ ''  Remediation:'' @ nl @ ''    '' @
                     js_join (nl @ ''    '') (map entry_text (ds_uniq en (map FromText ts))))))
          else Inr [])"

definition createTruncatedVulnsPathsText :: "annotated_vuln list \<Rightarrow> show_paths \<Rightarrow> string" where
  "createTruncatedVulnsPathsText vs shown =
     (if shown = ShowNone then []
      else
        (let limit = (if shown = ShowAll then 1000 else 3 :: nat);
             texts = map (\<lambda>v. if length (av_from v) > 1 then js_join PATH_SEPARATOR (drop 1 (av_from v))
                              else js_join '','' (av_from v)) vs in
         if vs = [] then ''undefined''
         else ''  From: '' @ js_join (nl @ ''  From: '') (take limit texts) @
              (if length vs > limit then nl @ ''  and '' @ str_of_nat (length vs - limit) @ '' more...'' else [])))"

definition dockerfileInstructionText :: "grouped_vuln \<Rightarrow> string" where
  "dockerfileInstructionText v =
     (if truthy (gv_dockerfileInstruction v)
      then nl @ ''  Image layer: '' @ [CHR 0x27] @ the (gv_dockerfileInstruction v) @ [CHR 0x27]
      else if truthy (gv_dockerBaseImage v)
      then nl @ ''  Image layer: Introduced by your base image ('' @ the (gv_dockerBaseImage v) @ '')''
      else [])"

definition createSeverityBasedIssueHeading :: "display_env \<Rightarrow> grouped_vuln \<Rightarrow> thrown + string" where
  "createSeverityBasedIssueHeading en v =
     (let sev = vm_severity (gv_metadata v); fe = ds_format en in
      bindS (if truthy (gv_originalSeverity v) \<and> gv_originalSeverity v \<noteq> Some sev
             then bindS (titleCaseText fe (the (gv_originalSeverity v))) (\<lambda>t. Inr ('' (originally '' @ t @ '')''))
             else Inr []) (\<lambda>original.
      bindS (titleCaseText fe sev) (\<lambda>title.
        Inr (colorTextBySeverity fe sev
               (ds_heavy_cross en @ '' '' @ title @ '' severity'' @ original @ '' '' @
                (if vm_type (gv_metadata v) = Some ''license'' then ''issue'' else ''vulnerability'') @
                '' found in '' @ styled en ''underline'' (vm_name (gv_metadata v))) @
             styled en ''bold.magenta'' []))))"

definition from_entries :: "annotated_vuln list \<Rightarrow> from_entry list" where
  "from_entries vs =
     map (\<lambda>(i, v). case js_nth (av_from v) 1 of
                     Some (c # cs) \<Rightarrow> FromText (c # cs) | _ \<Rightarrow> FromPath i (av_from v)) (zip [0..<length vs] vs)"

definition formatIssues :: "display_env \<Rightarrow> shown_options \<Rightarrow> grouped_vuln \<Rightarrow> thrown + string" where
  "formatIssues en ops v =
     (if gv_list v = [] then Inl (format_type_error (ds_format en))
      else
        bindS (createSeverityBasedIssueHeading en v) (\<lambda>head.
        bindS (if vm_type (gv_metadata v) \<noteq> Some ''license'' \<and> isLocalFolder (ds_fs en) (so_path ops)
               then createRemediationText en v (so_packageManager ops) else Inr []) (\<lambda>rem.
          Inr (head @ nl @ ''  Description: '' @ gv_title v @ nl @
               ''  Info: '' @ styled en ''underline'' (getVulnerabilityUrl (ds_format en) (av_id (hd (gv_list v)))) @ nl @
               ''  Introduced through: '' @
               js_join '', '' (map entry_text (ds_uniq en (from_entries (gv_list v)))) @ nl @
               createTruncatedVulnsPathsText (gv_list v) (so_showVulnPaths ops) @ rem @
               (if so_docker ops then dockerfileInstructionText v @ fixed_in_text en v else []) @
               (if note_set (gv_note v) then styled en ''bold'' (nl @ ''  Note: '' @ note_text (gv_note v)) else []) @
               (case gv_legalInstructionsArray v of
                  None \<Rightarrow> []
                | Some ls \<Rightarrow> styled en ''bold'' (nl @ ''  Legal instructions:'' @ nl) @ ''  '' @
                             formatLegalInstructions (ds_format en) ls 2)))))"

section \<open>Container texts\<close>

definition advice_text :: "display_env \<Rightarrow> base_image_advice \<Rightarrow> string" where
  "advice_text en a =
     styled en (js_join ''.''
       ((if truthy (ba_color a) \<and> ds_has_colour en (the (ba_color a)) then [the (ba_color a)] else []) @
        (if ba_bold a then [''bold''] else []))) (ba_message a)"

definition dockerRemediationForDisplay :: "display_env \<Rightarrow> shown_result \<Rightarrow> string" where
  "dockerRemediationForDisplay en r =
     (case sr_docker r of
        None \<Rightarrow> []
      | Some d \<Rightarrow>
          (case sd_remediation d of
             None \<Rightarrow> []
           | Some (Some items, m) \<Rightarrow> nl @ nl @ js_join nl (map (advice_text en) items)
           | Some (None, m) \<Rightarrow> if truthy m then nl @ nl @ the m else []))"

definition createDockerBinaryHeading :: "display_env \<Rightarrow> affected_pkg \<Rightarrow> string" where
  "createDockerBinaryHeading en p =
     (let n = length (af_issues p) in
      if n = 0 then []
      else styled en ''bold.white''
             (''------------ Detected '' @ str_of_nat n @ '' '' @ (if n > 1 then ''vulnerabilities'' else ''vulnerability'') @
              '' for '' @ pkg_name (af_pkg p) @ ''@'' @ str_of_opt (pkg_version (af_pkg p)) @ '' ------------'' @ '' '' @ nl))"

definition formatDockerBinariesIssues ::
  "display_env \<Rightarrow> shown_options \<Rightarrow> grouped_vuln list \<Rightarrow> vulns_part option \<Rightarrow> thrown + string list" where
  "formatDockerBinariesIssues en ops vs binaries =
     (case binaries of
        None \<Rightarrow> Inl (format_type_error (ds_format en))
      | Some b \<Rightarrow>
          bindS (mapS (\<lambda>p.
            bindS (mapS (formatIssues en ops) (filter (\<lambda>v. vm_name (gv_metadata v) = pkg_name (af_pkg p)) vs)) (\<lambda>ts.
              Inr [createDockerBinaryHeading en p, js_join (nl @ nl) ts])) (obj_values (vp_affectedPkgs b)))
            (\<lambda>tss. Inr (concat tss)))"

definition dockerUserCTA :: "shown_options \<Rightarrow> string" where
  "dockerUserCTA ops =
     (if so_isDockerUser ops
      then nl @ nl @ ''For more free scans that keep your images secure, sign up to Vulnmap at https://dockr.ly/3ePqVcp''
      else [])"

definition docker_tips :: "display_env \<Rightarrow> shown_options \<Rightarrow> shown_result \<Rightarrow> string list" where
  "docker_tips en ops r =
     (if truthy (so_file ops) \<and> \<not> so_exclude_base_image_vulns ops
      then [''Pro tip: use `--exclude-base-image-vulns` to exclude from display Docker base image vulnerabilities.''] else []) @
     (if \<not> truthy (so_file ops) \<and> \<not> (case sr_docker r of None \<Rightarrow> False | Some d \<Rightarrow> truthy (sd_baseImage d))
      then [''Vulnmap wasn'' @ ds_quote_mark en @
            ''t able to auto detect the base image, use `--file` option to get base image remediation advice.'' @ nl @
            ''Example: $ vulnmap container test '' @ so_path ops @ '' --file=path/to/Dockerfile''] else []) @
     (if so_docker ops \<and> truthy (sr_targetFile r) \<and> sr_uniqueCount r > 0
      then [''Vulnmap found some vulnerabilities in your image applications (Vulnmap searches for these vulnerabilities by default). See https://vulnmap.co/app-vulns for more information.'']
      else [])"

definition getDockerSuggestionText :: "display_env \<Rightarrow> shown_options \<Rightarrow> shown_result \<Rightarrow> string" where
  "getDockerSuggestionText en ops r =
     (let tips = docker_tips en ops r in
      if ds_no_suggestions en \<or> \<not> so_docker ops \<or> so_isDockerUser ops \<or> tips = [] then []
      else nl @ nl @ js_join (nl @ nl)
        (map (styled en ''bold.white'') tips @
         [''To remove '' @ (if length tips > 1 then ''these messages'' else ''this message'') @
          '' in the future, please run `vulnmap config set disableSuggestions=true`'']))"

definition getDockerfileWarning :: "display_env \<Rightarrow> (string \<times> string option) list option \<Rightarrow> string" where
  "getDockerfileWarning en facts_of_scan =
     (case facts_of_scan of
        None \<Rightarrow> []
      | Some fs \<Rightarrow>
          (case find (\<lambda>(t, code). t = ''dockerfileAnalysis'') fs of
             Some (t, Some code) \<Rightarrow>
               styled en ''yellow'' (nl @ nl @ ''Warning: Unable to analyse Dockerfile provided through `--file`.'') @
               (if code = ds_no_base_code en then
                  styled en ''yellow'' (nl @ ''         Dockerfile must begin with a FROM instruction. This may be after parser directives, comments, and globally scoped ARGs.'')
                else if code = ds_no_args_code en then
                  styled en ''yellow'' (nl @ ''         Dockerfile must have default values for all ARG instructions.'')
                else [])
           | _ \<Rightarrow> []))"

definition getDockerRemediationDocsLink :: "display_env \<Rightarrow> string \<Rightarrow> string" where
  "getDockerRemediationDocsLink en dockerAdvice =
     (if ds_no_suggestions en \<or> dockerAdvice = [] then []
      else styled en ''white'' (nl @ nl @ ''Learn more: '') @
           styled en ''white.underline'' ''https://docs.vulnmap.khulnasoft.com/products/vulnmap-container/getting-around-the-vulnmap-container-ui/base-image-detection'')"

section \<open>Tips\<close>

definition isMultiProjectScan :: "shown_options \<Rightarrow> bool" where
  "isMultiProjectScan ops = (so_allProjects ops \<or> so_yarnWorkspaces ops)"

definition showAllProjectsTip :: "string option \<Rightarrow> shown_options \<Rightarrow> nat \<Rightarrow> string" where
  "showAllProjectsTip manager ops n =
     (if manager = Some ''gradle'' \<or> n = 0 \<or> isMultiProjectScan ops then []
      else ''Tip: Detected multiple supported manifests ('' @ str_of_nat n @ ''), '' @
           ''use --all-projects to scan all of them at once.'')"

definition showGradleSubProjectsTip :: "string option \<Rightarrow> shown_options \<Rightarrow> nat \<Rightarrow> string" where
  "showGradleSubProjectsTip manager ops n =
     (if manager \<noteq> Some ''gradle'' \<or> n = 0 \<or> isMultiProjectScan ops \<or> so_allSubProjects ops then []
      else ''Tip: This project has multiple sub-projects ('' @ str_of_nat n @ ''), '' @
           ''use --all-sub-projects flag to scan all sub-projects.'')"

definition showMultiScanTip :: "string option \<Rightarrow> shown_options \<Rightarrow> nat \<Rightarrow> string" where
  "showMultiScanTip manager ops n =
     (if showGradleSubProjectsTip manager ops n \<noteq> [] then showGradleSubProjectsTip manager ops n
      else if manager = Some ''maven'' \<and> n > 1 \<and> \<not> so_allProjects ops \<and> \<not> so_mavenAggregateProject ops
      then ''Tip: Detected Maven project, are you using modules? '' @
           ''Use --maven-aggregate-project to scan each project. '' @
           ''Alternatively use --all-projects to scan Maven and other types of projects.''
      else showAllProjectsTip manager ops n)"

definition showFixTip :: "display_env \<Rightarrow> string option \<Rightarrow> shown_result \<Rightarrow> shown_options \<Rightarrow> thrown + string" where
  "showFixTip en projectType r ops =
     (if projectType \<notin> {Some ''pip'', Some ''poetry''} \<or> \<not> isLocalFolder (ds_fs en) (so_path ops) then Inr []
      else if sr_ok r then Inr []
      else (case sr_vulnerabilities r of
              None \<Rightarrow> Inl (format_type_error (ds_format en))
            | Some vs \<Rightarrow>
                Inr (if vs = [] then []
                     else ''Tip: Try '' @ styled en ''bold'' ''`vulnmap fix`'' @ '' to address these issues.'' @
                       styled en ''bold'' ''`vulnmap fix`'' @
                       '' is a new CLI command in that aims to automatically apply the recommended updates for supported ecosystems.'' @ nl @
                       ''See documentation on how to enable this beta feature: https://docs.vulnmap.khulnasoft.com/vulnmap-cli/fix-vulnerabilities-from-the-cli/automatic-remediation-with-vulnmap-fix#enabling-vulnmap-fix'')))"

section \<open>The head of a result\<close>

definition rightPadWithSpaces :: "string \<Rightarrow> nat \<Rightarrow> string" where
  "rightPadWithSpaces s padding = s @ replicate (padding - length s) CHR '' ''"

definition meta_line :: "display_env \<Rightarrow> string \<Rightarrow> string \<Rightarrow> string" where
  "meta_line en label value = styled en ''bold'' (rightPadWithSpaces label 19) @ value"

definition meta_if :: "display_env \<Rightarrow> string \<Rightarrow> string option \<Rightarrow> string list" where
  "meta_if en label v = (if truthy v then [meta_line en label (the v)] else [])"

definition or_text :: "string option \<Rightarrow> string option \<Rightarrow> string option" where
  "or_text a b = (if truthy a then a else b)"

definition formatTestMeta :: "display_env \<Rightarrow> shown_result \<Rightarrow> shown_options \<Rightarrow> string" where
  "formatTestMeta en r ops =
     js_join nl
       (meta_if en ''Organization: '' (sr_org r) @
        [meta_line en ''Package manager: '' (str_of_opt (or_text (sr_packageManager r) (so_packageManager ops)))] @
        meta_if en ''Target file: '' (or_text (sr_targetFile r) (or_text (sr_displayTargetFile r) (so_file ops))) @
        meta_if en ''Project name: '' (sr_projectName r) @
        (if so_docker ops then
           meta_line en ''Docker image: '' (so_path ops) # meta_if en ''Platform: '' (sr_platform r)
         else
           [meta_line en ''Open source: '' (if sr_isPrivate r then ''no'' else ''yes''),
            meta_line en ''Project path: '' (so_path ops)]) @
        (if sr_payloadType r = Some ''k8sconfig'' then []
         else
           (case sr_docker r of None \<Rightarrow> [] | Some d \<Rightarrow> meta_if en ''Base image: '' (sd_baseImage d)) @
           (if sr_filesystemPolicy r then
              meta_line en ''Local Vulnmap policy: '' (styled en ''green'' ''found'') #
              (if sr_ignores_disregarded r
               then [meta_line en ''Local Vulnmap policy ignored: '' (styled en ''red'' ''yes'')] else [])
            else []) @
           (if sr_licensesPolicy r then [meta_line en ''Licenses: '' (styled en ''green'' ''enabled'')] else [])))"

section \<open>A result with issues\<close>

definition issue_count_text :: "shown_result \<Rightarrow> shown_options \<Rightarrow> string" where
  "issue_count_text r ops =
     ''found '' @ str_of_nat (sr_uniqueCount r) @ '' '' @
     (if sr_uniqueCount r = 1 then (if sr_licensesPolicy r then ''issue'' else ''vulnerability'')
      else (if sr_licensesPolicy r then ''issues'' else ''vulnerabilities'')) @
     (if \<not> so_docker ops then
        '', '' @ (case sr_vulnerabilities r of None \<Rightarrow> ''undefined'' | Some vs \<Rightarrow> str_of_nat (length vs)) @ '' vulnerable '' @
        (if map_option length (sr_vulnerabilities r) = Some 1 then ''path.'' else ''paths.'')
      else ''.'')"

definition upstream :: "grouped_vuln \<Rightarrow> bool" where
  "upstream v = (vm_packageManager (gv_metadata v) = Some ''upstream'')"

text \<open>The issues with their texts, and the remediation as it is left.\<close>

definition issue_texts ::
  "display_env \<Rightarrow> shown_options \<Rightarrow> shown_result \<Rightarrow> grouped_vuln list \<Rightarrow> thrown + (string list \<times> lg_remediation option)" where
  "issue_texts en ops r vs =
     (case sr_remediation r of
        Some rem \<Rightarrow>
          bindS (formatIssuesWithRemediation (ds_format en) (so_showVulnPaths ops) vs rem) (\<lambda>(ts, rem').
            Inr (ts, Some rem'))
      | None \<Rightarrow> bindS (mapS (formatIssues en ops) vs) (\<lambda>ts. Inr (ts, None)))"

definition output_text ::
  "display_env \<Rightarrow> shown_result \<Rightarrow> shown_options \<Rightarrow> string \<Rightarrow> string \<Rightarrow> string \<Rightarrow> string \<Rightarrow> string \<Rightarrow> string \<Rightarrow>
   string list \<Rightarrow> string list \<Rightarrow> string" where
  "output_text en r ops summary fixTip meta prefix multiProjAdvice dockerAdvice texts binaryTexts =
     (let fixAdvice = (if fixTip = [] then [] else nl @ nl @ fixTip);
          body = js_join (nl @ nl) texts @ nl @ nl @ js_join (nl @ nl) binaryTexts @ nl @ nl @ meta in
      prefix @
      (if sr_remediation r \<noteq> None then summary @ body @ fixAdvice else body @ nl @ nl @ summary @ fixAdvice) @
      multiProjAdvice @ dockerAdvice @ getDockerfileWarning en (sr_scan_facts r) @
      getDockerSuggestionText en ops r @ getDockerRemediationDocsLink en dockerAdvice @ dockerUserCTA ops)"

definition binary_texts :: "display_env \<Rightarrow> shown_options \<Rightarrow> shown_result \<Rightarrow> grouped_vuln list \<Rightarrow> thrown + string list" where
  "binary_texts en ops r binaries =
     (case sr_docker r of
        Some d \<Rightarrow> if binaries \<noteq> [] then formatDockerBinariesIssues en ops binaries (sd_binariesVulns d) else Inr []
      | None \<Rightarrow> Inr [])"

definition getDisplayedOutput ::
  "display_env \<Rightarrow> shown_result \<Rightarrow> shown_options \<Rightarrow> string \<Rightarrow> string option \<Rightarrow> string \<Rightarrow> string \<Rightarrow> string \<Rightarrow> string \<Rightarrow> string \<Rightarrow>
   thrown + string" where
  "getDisplayedOutput en r ops testedInfoText projectType meta prefix unknownVersions multiProjAdvice dockerAdvice =
     bindS (showFixTip en projectType r ops) (\<lambda>fixTip.
     bindS (groupVulnerabilities (ds_format en) (case sr_vulnerabilities r of None \<Rightarrow> [] | Some vs \<Rightarrow> vs)) (\<lambda>groups.
     bindS (issue_texts en ops r (filter (\<lambda>v. \<not> upstream v) (ds_orderBy en groups))) (\<lambda>shown.
     bindS (binary_texts en ops r (filter upstream (ds_orderBy en groups))) (\<lambda>binaryTexts.
       Inr (output_text en r ops
         (testedInfoText @ '', '' @ styled en ''red.bold'' (issue_count_text r ops) @ unknownVersions)
         fixTip meta prefix multiProjAdvice dockerAdvice (fst shown) binaryTexts)))))"

section \<open>One result\<close>

definition TEST_SUPPORTED_IAC_PROJECTS :: "string list" where
  "TEST_SUPPORTED_IAC_PROJECTS =
     [''k8sconfig'', ''terraformconfig'', ''cloudformationconfig'', ''armconfig'', ''multiiacconfig'', ''customconfig'']"

definition result_prefix :: "display_env \<Rightarrow> string option \<Rightarrow> shown_options \<Rightarrow> string" where
  "result_prefix en target ops =
     styled en ''bold.white''
       (nl @ ''Testing '' @ (if so_iac ops \<and> truthy target then the target else so_path ops) @ ''...'' @ nl @ nl)"

definition display_error :: "display_env \<Rightarrow> thrown \<Rightarrow> shown_options \<Rightarrow> string" where
  "display_error en e ops =
     result_prefix en (case err_get e ''targetFile'' of JStr t \<Rightarrow> Some t | _ \<Rightarrow> None) ops @ json_text (err_get e ''message'')"

definition next_steps :: "display_env \<Rightarrow> shown_options \<Rightarrow> string" where
  "next_steps en ops =
     (if isLocalFolder (ds_fs en) (so_path ops)
      then nl @ nl @ ''Next steps:'' @ nl @ ''- Run `vulnmap monitor` to be notified about new related vulnerabilities.'' @ nl @
           ''- Run `vulnmap test` as part of your CI/test.''
      else []) @
     (if so_docker ops \<or> isLocalFolder (ds_fs en) (so_path ops) \<or> so_dev ops then []
      else nl @ nl @ ''Tip: Vulnmap only tests production dependencies by default. You can try re-running with the `--dev` flag.'') @
     dockerUserCTA ops"

definition displayResult :: "display_env \<Rightarrow> shown_result \<Rightarrow> shown_options \<Rightarrow> thrown + string" where
  "displayResult en r ops =
     (let meta = formatTestMeta en r ops;
          dockerAdvice = dockerRemediationForDisplay en r;
          projectType = or_text (sr_packageManager r) (so_packageManager ops);
          prefix = result_prefix en (sr_targetFile r) ops;
          issuesText = (if sr_licensesPolicy r \<or> projectType \<in> Some ` set TEST_SUPPORTED_IAC_PROJECTS
                        then ''issues'' else ''vulnerabilities'');
          pathOrDeps = (if sr_dependencyCount r \<noteq> 0 then str_of_nat (sr_dependencyCount r) @ '' dependencies''
                        else if so_iac ops \<and> truthy (sr_targetFile r) then the (sr_targetFile r) else so_path ops);
          testedInfoText = ''Tested '' @ pathOrDeps @ '' for known '' @ issuesText;
          tip = showMultiScanTip projectType ops (sr_foundProjectCount r);
          multiProjAdvice = (if tip = [] then [] else nl @ nl @ tip);
          unknownVersions = (if sr_hasUnknownVersions r
            then nl @ nl @ styled en ''yellow'' (fe_warning_icon (ds_format en) @ '' Warning!'') @
                 '' Some dependencies in this project could not be identified.''
            else []);
          withIssues = getDisplayedOutput en r ops testedInfoText projectType meta prefix unknownVersions multiProjAdvice dockerAdvice in
      if sr_ok r then
        (case sr_vulnerabilities r of
           None \<Rightarrow> Inl (format_type_error (ds_format en))
         | Some vs \<Rightarrow>
             if vs \<noteq> [] then withIssues
             else Inr (prefix @ meta @ nl @ nl @
               styled en ''green'' (fe_valid_icon (ds_format en) @ '' '' @ testedInfoText @ '', no vulnerable paths found.'') @
               unknownVersions @ multiProjAdvice @
               (if isCI (ds_poll en) then [] else dockerAdvice @ next_steps en ops)))
      else withIssues)"

section \<open>Every issue found is displayed\<close>

definition groups_named :: "grouped_vuln obj \<Rightarrow> bool" where
  "groups_named m = (\<forall>i g. obj_get m i = Some g \<longrightarrow> group_id g = i)"

lemma add_path_id [simp]: "group_id (add_path v g) = group_id g"
  by (simp add: add_path_def Let_def group_id_def)

lemma new_group_id: "new_group en v = Inr g \<Longrightarrow> group_id g = av_id v"
  by (auto simp: new_group_def metadataForVuln_def bindS_Inr_iff group_id_def)

lemma add_grouped_named:
  assumes "groups_named m" "add_grouped en v m = Inr m'"
  shows "groups_named m'"
  using assms
  by (auto simp: add_grouped_def groups_named_def bindS_Inr_iff ob.get_put new_group_id split: option.splits if_splits)

lemma grouping_named: "foldS (add_grouped en) vs m = Inr m' \<Longrightarrow> groups_named m \<Longrightarrow> groups_named m'"
  by (induction vs arbitrary: m) (auto simp: bindS_Inr_iff intro: add_grouped_named)

lemma issue_texts_mention:
  assumes "issue_texts en ops r gs = Inr (texts, rem')" "sr_remediation r = Some rem" "g \<in> set gs" "treated rem g"
  shows "mentions (ds_format en) (group_id g) (js_join j texts)"
proof -
  obtain rem2 where "formatIssuesWithRemediation (ds_format en) (so_showVulnPaths ops) gs rem = Inr (texts, rem2)"
    using assms(1,2) by (auto simp: issue_texts_def bindS_Inr_iff)
  from report_mentions [OF this assms(3,4)] show ?thesis by (auto simp: list_ex_iff intro: mentions_join)
qed

lemma output_text_mentions:
  assumes "mentions fe vid (js_join (nl @ nl) texts)"
  shows "mentions fe vid (output_text en r ops summary fixTip meta prefix multi advice texts binaryTexts)"
proof -
  have body: "mentions fe vid (js_join (nl @ nl) texts @ u)" for u using assms by (rule mentions_before)
  show ?thesis
    unfolding output_text_def Let_def
    by (cases "sr_remediation r = None")
       (simp_all only: not_not simp_thms if_True if_False mentions_after [OF mentions_before [OF body]]
          mentions_after [OF mentions_before [OF mentions_before [OF body]]]
          mentions_after [OF mentions_before [OF mentions_after [OF mentions_before [OF body]]]])
qed

lemma displayed_issues:
  assumes "getDisplayedOutput en r ops tested ty meta prefix unknown multi advice = Inr t"
    and "sr_remediation r = Some rem" "sr_vulnerabilities r = Some vs"
    and "groupVulnerabilities (ds_format en) vs = Inr m" "g \<in> set (ds_orderBy en m)" "\<not> upstream g" "treated rem g"
  shows "mentions (ds_format en) (group_id g) t"
proof -
  from assms(1,3,4) obtain shown summary fixTip binaryTexts
    where shown: "issue_texts en ops r (filter (\<lambda>v. \<not> upstream v) (ds_orderBy en m)) = Inr shown"
      and t: "t = output_text en r ops summary fixTip meta prefix multi advice (fst shown) binaryTexts"
    by (auto simp: getDisplayedOutput_def bindS_Inr_iff)
  from shown obtain texts rem' where texts: "issue_texts en ops r (filter (\<lambda>v. \<not> upstream v) (ds_orderBy en m)) = Inr (texts, rem')"
    "fst shown = texts" by (cases shown) simp
  from issue_texts_mention [OF texts(1) assms(2) _ assms(7)] assms(5,6) show ?thesis
    unfolding t texts(2) by (intro output_text_mentions) simp
qed


text \<open>The advice for an outdated package ends in the text of a number that is none.\<close>

lemma outdated_advice_lost:
  "step_set (js_nth (av_upgradePath v) 0) \<Longrightarrow> upgrade_advice en v = Inr t \<Longrightarrow> js_endsWith t ''.NaN''"
  by (auto simp: upgrade_advice_def Let_def bindS_Inr_iff js_endsWith_iff)

section \<open>Samples\<close>

definition sample_display_env :: display_env where
  "sample_display_env =
     \<lparr>ds_format = sample_format_env, ds_poll = \<lparr>pe_api = [], pe_org = None, pe_project_name = None, pe_env_keys = [],
        pe_oauth_token = None, pe_docker_token = None, pe_config_api = None, pe_config_token = None, pe_user_api = None\<rparr>,
      ds_fs = \<lparr>nodes = (\<lambda>_. None), can_write = (\<lambda>_. True), out_lines = [], err_lines = [], posts = [], ticks = 0\<rparr>,
      ds_no_suggestions = False, ds_uniq = (\<lambda>es. es), ds_orderBy = obj_values, ds_module = Inr,
      ds_has_colour = (\<lambda>_. False), ds_no_base_code = ''a'', ds_no_args_code = ''b'', ds_heavy_cross = ''x'',
      ds_quote_mark = [CHR 0x27]\<rparr>"

definition sample_result :: "annotated_vuln list \<Rightarrow> shown_result" where
  "sample_result vs =
     \<lparr>sr_ok = (vs = []), sr_payloadType = None, sr_org = None, sr_isPrivate = True, sr_packageManager = Some ''npm'',
      sr_platform = None, sr_vulnerabilities = Some vs, sr_dependencyCount = 2, sr_licensesPolicy = False,
      sr_ignores_disregarded = False, sr_docker = None, sr_filesystemPolicy = False, sr_uniqueCount = length vs,
      sr_remediation = Some sample_remediation, sr_targetFile = None, sr_projectName = None,
      sr_displayTargetFile = None, sr_foundProjectCount = 0, sr_scan_facts = None, sr_hasUnknownVersions = False\<rparr>"

definition sample_shown_options :: shown_options where
  "sample_shown_options =
     \<lparr>so_showVulnPaths = ShowSome, so_docker = False, so_iac = False, so_dev = False, so_isDockerUser = False,
      so_exclude_base_image_vulns = False, so_allProjects = False, so_yarnWorkspaces = False,
      so_allSubProjects = False, so_mavenAggregateProject = False, so_path = ''/p'', so_file = None,
      so_packageManager = None\<rparr>"

lemma sample_displayed: "\<exists>t. displayResult sample_display_env (sample_result [sample_vuln ''V'' ''high'' [''p'', ''a'']]) sample_shown_options = Inr t"
proof -
  have "(case displayResult sample_display_env (sample_result [sample_vuln ''V'' ''high'' [''p'', ''a'']]) sample_shown_options of
     Inl e \<Rightarrow> False | Inr t \<Rightarrow> True)" by code_simp
  then show ?thesis by (auto split: sum.splits)
qed


end
