(* ===== verification/TestCommand.thy ===== *)
theory TestCommand
  imports TestDisplay CliMain RunTest
begin

text \<open>
  The command \<open>test\<close>: \<open>src/cli/commands/test/index.ts\<close> with its helpers, the data written for
  \<open>--json\<close> and \<open>--sarif\<close> (\<open>lib/formatters/test/format-test-results.ts\<close>), and the notes about the
  protect command and Log4j. The scan of one path, the tests of infrastructure code and of ecosystems, the SARIF
  logs and \<open>JSON.stringify\<close> are parameters (\<open>test_env\<close>). A positional that is no text stands for the
  text it is printed as.
\<close>

section \<open>Data\<close>

text \<open>
  A result is seen as the record the formatters read, together with its enumerable properties; an error stays an
  error. What one path is answered with is an error or a value.
\<close>

datatype test_item = ItemOf shown_result json | ItemError thrown

datatype test_response = RespError thrown | RespResults "(shown_result \<times> json) list"

type_synonym option_obj = "arg_value obj"

record test_env =
  te_main :: main_env
  te_run :: run_env
  te_display :: display_env
  te_config_org :: "string option"
  te_iac :: "bool \<Rightarrow> arg_item list \<Rightarrow> method_result cio"
  te_flag :: "string \<Rightarrow> option_obj \<Rightarrow> thrown + (int \<times> json \<times> bool)"
  te_ecosystem :: "string \<Rightarrow> arg_item list \<Rightarrow> option_obj \<Rightarrow> method_result cio"
  te_test :: "string \<Rightarrow> option_obj \<Rightarrow> cli_world \<Rightarrow> ((thrown + (shown_result \<times> json) list) \<times> option_obj) \<times> cli_world"
  te_view :: "json \<Rightarrow> shown_result"
  te_sarif :: "string \<Rightarrow> test_item list \<Rightarrow> json"
  te_stringify :: "bool \<Rightarrow> json \<Rightarrow> thrown + string"

definition test_styles :: "test_env \<Rightarrow> styles" where
  "test_styles en = me_styles (te_main en)"

definition plain_thrown :: "test_env \<Rightarrow> string \<Rightarrow> thrown" where
  "plain_thrown en m =
     TErr PlainError [(''name'', JStr ''Error''), (''message'', JStr m), (''stack'', JStr (st_stack (test_styles en) m))]"

definition set_fields :: "(string \<times> json) list \<Rightarrow> thrown \<Rightarrow> thrown" where
  "set_fields kvs e = fold (\<lambda>(k, v). err_set k v) kvs e"

definition path_text :: "arg_item \<Rightarrow> string" where
  "path_text i = (case i of IStr s \<Rightarrow> s | IOptions \<Rightarrow> ''[object Object]'' | _ \<Rightarrow> ''undefined'')"

section \<open>Arguments and options\<close>

text \<open>The options object is the one of the run; without one the command starts from an empty object.\<close>

definition processCommandArgs :: "penv \<Rightarrow> option_obj \<Rightarrow> arg_item list \<Rightarrow> arg_item list \<times> option_obj" where
  "processCommandArgs pe given_options items =
     (let has = (items \<noteq> [] \<and> last items = IOptions);
          opts = (if has then given_options else []);
          paths = filter (\<lambda>i. i \<noteq> IUndef \<and> i \<noteq> IStr []) (if has then butlast items else items) in
      (if paths = [] \<and> \<not> option_set opts ''docker'' then [IStr (working_dir pe)] else paths, opts))"

text \<open>The texts that the table of \<open>--show-vulnerable-paths\<close> has; no number prints as one of them.\<close>

definition option_word :: "arg_value option \<Rightarrow> string" where
  "option_word v =
     (case v of
        Some (AStr s) \<Rightarrow> s
      | Some (ABool b) \<Rightarrow> (if b then ''true'' else [])
      | Some (AList [IStr s]) \<Rightarrow> s
      | _ \<Rightarrow> [])"

definition showVulnPathsMapping :: "(string \<times> string) list" where
  "showVulnPathsMapping =
     [(''false'', ''none''), (''none'', ''none''), (''true'', ''some''), (''some'', ''some''), (''all'', ''all'')]"

definition setDefaultTestOptions :: "test_env \<Rightarrow> option_obj \<Rightarrow> option_obj" where
  "setDefaultTestOptions en opts =
     (let word = js_lower (option_word (obj_get opts ''show-vulnerable-paths''));
          kept = obj_delete ''show-vulnerable-paths'' opts;
          withOrg = (if option_set opts ''org'' then kept
                     else (case te_config_org en of
                             Some t \<Rightarrow> obj_set ''org'' (AStr t) kept | None \<Rightarrow> obj_delete ''org'' kept)) in
      obj_set ''showVulnPaths''
        (AStr (case map_of showVulnPathsMapping word of Some m \<Rightarrow> m | None \<Rightarrow> ''some'')) withOrg)"

definition FAIL_ON :: "string list" where
  "FAIL_ON = [''all'', ''upgradable'', ''patchable'']"

definition FailOnError :: string where
  "FailOnError = ''Invalid fail on argument, please use one of: '' @ js_join '' | '' FAIL_ON"

definition validateSeverityThreshold :: "arg_value \<Rightarrow> bool" where
  "validateSeverityThreshold v = (v \<in> AStr ` set (map (\<lambda>(s, n). severity_str s) SEVERITIES))"

definition validateFailOn :: "arg_value \<Rightarrow> bool" where
  "validateFailOn v = (v \<in> AStr ` set FAIL_ON)"

definition validateTestOptions :: "test_env \<Rightarrow> option_obj \<Rightarrow> thrown + unit" where
  "validateTestOptions en opts =
     (if option_set opts ''severityThreshold'' \<and> \<not> validateSeverityThreshold (the (obj_get opts ''severityThreshold''))
      then Inl (plain_thrown en ''INVALID_SEVERITY_THRESHOLD'')
      else if option_set opts ''failOn'' \<and> \<not> validateFailOn (the (obj_get opts ''failOn''))
      then Inl (TVal (JStr (styled (te_display en) ''red'' FailOnError)))
      else Inr ())"

definition missing_token :: "test_env \<Rightarrow> thrown" where
  "missing_token en =
     (let m = ''`vulnmap` requires an authenticated account. Please run `vulnmap auth` and try again.'' in
      with_strCode ''NO_API_TOKEN''
        (custom_error (test_styles en) PlainError ''MissingApiTokenError'' m (JNum 401) (JStr m)))"

definition validateCredentials :: "test_env \<Rightarrow> option_obj \<Rightarrow> thrown + option_obj" where
  "validateCredentials en opts =
     (let pe = re_poll (te_run en) in
      if \<not> isl (apiTokenExists pe) \<or> truthy (getOAuthToken pe) then Inr opts
      else if option_set opts ''docker'' \<and> truthy (getDockerToken pe)
      then Inr (obj_set ''isDockerUser'' (ABool True)
                 (obj_set ''testDepGraphDockerEndpoint'' (AStr ''/docker-jwt/test-dependencies'') opts))
      else Inl (missing_token en))"

definition MissingArgError :: "test_env \<Rightarrow> thrown" where
  "MissingArgError en =
     (let m = ''Could not detect an image. Specify an image name to scan and try running the command again.'' in
      custom_error (test_styles en) PlainError ''MissingArgError'' m (JNum 422) (JStr m))"

definition hasFeatureFlag :: "test_env \<Rightarrow> string \<Rightarrow> option_obj \<Rightarrow> thrown + bool" where
  "hasFeatureFlag en flag opts =
     bindS (te_flag en flag opts) (\<lambda>(code, error, allowed).
       if code = 401 \<or> code = 403 then Inl (AuthFailedError (te_run en) error code) else Inr allowed)"

definition getEcosystemForTest :: "option_obj \<Rightarrow> string option" where
  "getEcosystemForTest opts =
     (if option_set opts ''unmanaged'' then Some ''cpp'' else if option_set opts ''code'' then Some ''code'' else None)"

section \<open>Notes about the protect command and Log4j\<close>

definition packageJsonFileExistsInDirectory :: "penv \<Rightarrow> pworld \<Rightarrow> string \<Rightarrow> bool" where
  "packageJsonFileExistsInDirectory pe w folder = existsSync w (resolve pe [folder, ''package.json''])"

definition checkPackageJsonForVulnmapDependency :: "pworld \<Rightarrow> string \<Rightarrow> bool" where
  "checkPackageJsonForVulnmapDependency w p =
     (existsSync w p \<and>
      (case read_text w p of
         Inl e \<Rightarrow> False
       | Inr t \<Rightarrow> (case json_parse t of
                     None \<Rightarrow> False
                   | Some v \<Rightarrow> js_true (field_opt (field_opt v ''dependencies'') ''vulnmap''))))"

definition dependent_package :: "penv \<Rightarrow> pworld \<Rightarrow> string \<Rightarrow> string list" where
  "dependent_package pe w folder =
     (let p = resolve pe [folder, ''package.json''] in
      if packageJsonFileExistsInDirectory pe w folder \<and> checkPackageJsonForVulnmapDependency w p then [p] else [])"

definition getPackageJsonPathsContainingVulnmapDependency ::
  "penv \<Rightarrow> pworld \<Rightarrow> string option \<Rightarrow> string list \<Rightarrow> string list" where
  "getPackageJsonPathsContainingVulnmapDependency pe w fileOption paths =
     (if truthy fileOption then
        (if js_endsWith (the fileOption) ''package.json'' \<or> js_endsWith (the fileOption) ''package-lock.json''
         then dependent_package pe w (path_dir (the fileOption)) else [])
      else concat (map (dependent_package pe w) paths))"

definition getProtectUpgradeWarningForPaths :: "test_env \<Rightarrow> string list \<Rightarrow> string" where
  "getProtectUpgradeWarningForPaths en ps =
     (let warn = (\<lambda>t. styled (te_display en) ''yellow'' (t @ nl)) in
      if ps = [] then []
      else warn (fe_warning_icon (ds_format (te_display en)) @
             '' WARNING: It looks like you have the `vulnmap` dependency in the `package.json` file(s) at the following path(s):'') @
           concat (map (\<lambda>p. warn (''  - '' @ p)) ps) @
           warn ''For more information and migration instructions, see https://vulnmap.co/ud1cR'')"

definition spotlightVulnIds :: "string list" where
  "spotlightVulnIds = [''VULNMAP-JAVA-ORGAPACHELOGGINGLOG4J-2314720'']"

definition item_vulns :: "test_item \<Rightarrow> annotated_vuln list" where
  "item_vulns i = (case i of ItemOf r j \<Rightarrow> (case sr_vulnerabilities r of Some vs \<Rightarrow> vs | None \<Rightarrow> []) | ItemError e \<Rightarrow> [])"

definition containsSpotlightVulnIds :: "test_item list \<Rightarrow> string list" where
  "containsSpotlightVulnIds items =
     unique_in_order (filter (\<lambda>i. i \<in> set spotlightVulnIds) (map av_id (concat (map item_vulns items))))"

definition notificationForSpotlightVulns :: "test_env \<Rightarrow> string list \<Rightarrow> string" where
  "notificationForSpotlightVulns en found =
     (let fe = ds_format (te_display en); critical = fe_chalk fe ''magenta'' in
      if found = [] then []
      else critical (fe_warning_icon fe @ '' WARNING: Critical severity vulnerabilities were found with Log4j!'' @ nl) @
           concat (map (\<lambda>i. ''  - '' @ i @ '' (See '' @ getVulnerabilityUrl fe i @ '')'') found) @ nl @ nl @
           critical ''We highly recommend fixing this vulnerability. If it cannot be fixed by upgrading, see mitigation information here:'' @ nl @
           ''  - '' @ fe_vuln_db_url fe @ ''/vuln/VULNMAP-JAVA-ORGAPACHELOGGINGLOG4J-2314720'' @ nl @
           ''  - https://vulnmap.khulnasoft.com/blog/log4shell-remediation-cheat-sheet/'' @ nl)"

section \<open>The results of the paths\<close>

definition formatTestError :: "test_env \<Rightarrow> thrown \<Rightarrow> thrown + json" where
  "formatTestError en e =
     (case e of
        TErr c ps \<Rightarrow> Inl e
      | TVal v \<Rightarrow>
          (case v of
             JNull \<Rightarrow> Inr v
           | JArr vs \<Rightarrow> Inr v
           | JObj ps \<Rightarrow> (case json_parse (json_text (field_opt v ''message'')) of Some p \<Rightarrow> Inr p | None \<Rightarrow> Inr v)
           | _ \<Rightarrow> Inl (plain_thrown en (if v = JUndef then [] else json_text v))))"

definition project_in_path :: "string \<Rightarrow> string option \<Rightarrow> string" where
  "project_in_path currPath projectName =
     (case projectName of
        Some n \<Rightarrow>
          (if CHR ''/'' \<in> set n \<and> tl (dropWhile (\<lambda>c. c \<noteq> CHR ''/'') n) \<noteq> []
           then currPath @ ''/'' @ tl (dropWhile (\<lambda>c. c \<noteq> CHR ''/'') n) else currPath)
      | None \<Rightarrow> currPath)"

definition with_path :: "string \<Rightarrow> test_item \<Rightarrow> test_item" where
  "with_path p i =
     (case i of
        ItemOf r (JObj ps) \<Rightarrow> ItemOf r (JObj (obj_set ''path'' (JStr (project_in_path p (sr_projectName r))) ps))
      | ItemOf r j \<Rightarrow> i
      | ItemError e \<Rightarrow> ItemError (err_set ''path''
          (JStr (project_in_path p (case err_get e ''projectName'' of JStr n \<Rightarrow> Some n | _ \<Rightarrow> None))) e))"

definition named_options :: "option_obj \<Rightarrow> nat \<Rightarrow> option_obj" where
  "named_options opts i =
     (case obj_get opts ''projectNames'' of
        Some (AList ns) \<Rightarrow>
          (case js_nth ns i of Some (IStr n) \<Rightarrow> obj_set ''projectName'' (AStr n) opts
           | _ \<Rightarrow> obj_delete ''projectName'' opts)
      | _ \<Rightarrow> opts)"

definition response_items :: "test_env \<Rightarrow> thrown + (shown_result \<times> json) list \<Rightarrow> thrown + test_item list" where
  "response_items en r =
     (case r of
        Inr rs \<Rightarrow> Inr (map (\<lambda>(v, j). ItemOf v j) rs)
      | Inl e \<Rightarrow>
          (case formatTestError en e of
             Inl e' \<Rightarrow> Inr [ItemError e']
           | Inr v \<Rightarrow>
               (let vs = (case v of JArr xs \<Rightarrow> xs | _ \<Rightarrow> [v]) in
                if JNull \<in> set vs \<or> JUndef \<in> set vs then Inl (type_error_thrown (te_main en))
                else Inr (map (\<lambda>j. ItemOf (te_view en j) j) vs))))"

text \<open>The paths are tested one after the other, each with a copy of the options.\<close>

definition test_path ::
  "test_env \<Rightarrow> option_obj \<Rightarrow> arg_item \<Rightarrow> (test_item \<times> option_obj) list \<Rightarrow> (test_item \<times> option_obj) list cio" where
  "test_path en opts p acc = (\<lambda>w.
     let start = (case obj_get opts ''project-name'' of
                    Some v \<Rightarrow> obj_set ''projectName'' v (obj_set ''path'' (AStr (path_text p)) opts)
                  | None \<Rightarrow> obj_delete ''projectName'' (obj_set ''path'' (AStr (path_text p)) opts));
         ((r, testOpts), w') = te_test en (path_text p) start w in
     (case response_items en r of
        Inl e \<Rightarrow> (Inl e, w')
      | Inr items \<Rightarrow>
          (Inr (acc @ map (\<lambda>(i, x). (with_path (path_text p) x, named_options testOpts i))
                        (zip [0..<length items] items)), w')))"

section \<open>Data for the outputs\<close>

definition jsonStringifyLargeObject :: "test_env \<Rightarrow> json \<Rightarrow> thrown + string" where
  "jsonStringifyLargeObject en j =
     (case te_stringify en True j of Inr t \<Rightarrow> Inr t | Inl e \<Rightarrow> te_stringify en False j)"

definition json_append :: "json \<Rightarrow> json \<Rightarrow> json" where
  "json_append xs x = (case xs of JArr vs \<Rightarrow> JArr (vs @ [x]) | _ \<Rightarrow> xs)"

definition group_json :: "json \<Rightarrow> json obj \<Rightarrow> json obj" where
  "group_json v m =
     (let k = json_text (field_opt v ''id'');
          from_of = field_opt v ''from''; name = field_opt v ''name'' in
      case obj_get m k of
        Some (JObj g) \<Rightarrow>
          obj_set k (JObj (obj_set ''name'' (json_append (field_opt (JObj g) ''name'') name)
                     (obj_set ''from'' (json_append (field_opt (JObj g) ''from'') from_of) g))) m
      | _ \<Rightarrow> obj_set k (JObj (obj_set ''name'' (JArr [name])
               (obj_set ''from'' (JArr [from_of]) (case v of JObj ps \<Rightarrow> ps | _ \<Rightarrow> [])))) m)"

definition formatJsonVulnerabilityStructure :: "json obj \<Rightarrow> option_obj \<Rightarrow> json obj" where
  "formatJsonVulnerabilityStructure ps opts =
     (if option_set opts ''group-issues'' then
        obj_set ''vulnerabilities''
          (JArr (rev (obj_values (fold group_json
             (case obj_get ps ''vulnerabilities'' of Some (JArr vs) \<Rightarrow> rev vs | _ \<Rightarrow> []) [])))) ps
      else ps)"

definition createJsonResultOutput :: "json \<Rightarrow> option_obj \<Rightarrow> json" where
  "createJsonResultOutput j opts =
     (case j of
        JObj ps \<Rightarrow> JObj (formatJsonVulnerabilityStructure (obj_delete ''scanResult'' ps) opts)
      | _ \<Rightarrow> j)"

definition mapped_result :: "test_item \<Rightarrow> json" where
  "mapped_result i =
     (case i of
        ItemOf r j \<Rightarrow> j
      | ItemError e \<Rightarrow> JObj [(''ok'', JBool False), (''error'', err_get e ''message''), (''path'', err_get e ''path'')])"

definition createErrorMappedResultsForJsonOutput :: "test_item list \<Rightarrow> json list" where
  "createErrorMappedResultsForJsonOutput items = map mapped_result items"

definition with_applications :: "json \<Rightarrow> json list \<Rightarrow> json" where
  "with_applications j apps =
     (case j of
        JObj ps \<Rightarrow>
          JObj (obj_set ''applications'' (JArr apps)
            (if obj_get ps ''vulnerabilities'' = Some (JArr [])
             then obj_set ''summary'' (JStr ''No known operating system vulnerabilities'') ps else ps))
      | _ \<Rightarrow> j)"

definition json_data :: "json list \<Rightarrow> option_obj \<Rightarrow> json" where
  "json_data js opts =
     (if option_set opts ''docker'' \<and> length js > 1 \<and> \<not> option_set opts ''experimental''
      then with_applications (hd js) (tl js)
      else if length js = 1 then hd js else JArr js)"

record output_data =
  od_stdout :: json
  od_data :: string
  od_json :: string
  od_sarif :: string

definition extractDataToSendFromResults ::
  "test_env \<Rightarrow> test_item list \<Rightarrow> json list \<Rightarrow> option_obj \<Rightarrow> thrown + output_data" where
  "extractDataToSendFromResults en items mapped opts =
     (let want_sarif = (option_set opts ''sarif'' \<or> option_set opts ''sarif-file-output'');
          sarif = te_sarif en (if option_set opts ''iac'' then ''iac'' else if option_set opts ''docker'' then ''docker''
                               else ''open-source'') items;
          data = json_data (map (\<lambda>j. createJsonResultOutput j opts) mapped) opts in
      bindS (if want_sarif then jsonStringifyLargeObject en sarif else Inr []) (\<lambda>sarifText.
      bindS (if option_set opts ''json'' \<or> option_set opts ''json-file-output''
             then jsonStringifyLargeObject en data else Inr []) (\<lambda>jsonText.
        Inr \<lparr>od_stdout = (if option_set opts ''sarif'' then sarif else data),
             od_data = (if option_set opts ''sarif'' then sarifText else jsonText),
             od_json = jsonText, od_sarif = sarifText\<rparr>)))"

section \<open>The outcome of a test\<close>

definition helper_of :: "shown_result \<Rightarrow> helper_result" where
  "helper_of r =
     (let ks = (\<lambda>ks. Some (map (\<lambda>k. (k, JUndef)) ks)) in
      \<lparr>hp_remediation = map_option (\<lambda>m.
           \<lparr>hr_upgrade = ks (obj_keys (lgr_upgrade m)), hr_pin = ks (obj_keys (lgr_pin m)),
            hr_patch = ks (obj_keys (lgr_patch m))\<rparr>) (sr_remediation r),
       hp_vulnerabilities = map_option (map vuln_flags.truncate) (sr_vulnerabilities r)\<rparr>)"

definition some_length :: "json \<Rightarrow> bool" where
  "some_length v = (case v of JArr vs \<Rightarrow> vs \<noteq> [] | JStr s \<Rightarrow> s \<noteq> [] | _ \<Rightarrow> False)"

definition vulnerable_item :: "test_item \<Rightarrow> bool" where
  "vulnerable_item i =
     (case i of
        ItemOf r j \<Rightarrow> item_vulns i \<noteq> [] \<or> some_length (field_opt (field_opt j ''result'') ''cloudConfigResults'')
      | ItemError e \<Rightarrow> False)"

definition shouldFail :: "test_env \<Rightarrow> test_item list \<Rightarrow> arg_value \<Rightarrow> thrown + bool" where
  "shouldFail en vulnerable failOn =
     (let rs = map (\<lambda>i. case i of ItemOf r j \<Rightarrow> helper_of r | ItemError e \<Rightarrow> \<lparr>hp_remediation = None, hp_vulnerabilities = None\<rparr>) vulnerable;
          answer = (if failOn = AStr ''all'' then hasFixes rs
                    else if failOn = AStr ''upgradable'' then hasUpgrades rs
                    else if failOn = AStr ''patchable'' then hasPatches rs
                    else Inr (vulnerable \<noteq> [])) in
      case answer of Inl t \<Rightarrow> Inl (type_error_thrown (te_main en)) | Inr b \<Rightarrow> Inr b)"

text \<open>An error has no list of vulnerabilities. With vulnerabilities, the run fails unless \<open>--fail-on\<close> finds nothing to fail for.\<close>

definition fails :: "test_env \<Rightarrow> test_item list \<Rightarrow> option_obj \<Rightarrow> thrown + bool" where
  "fails en vulnerable opts =
     (if option_set opts ''failOn'' then shouldFail en vulnerable (the (obj_get opts ''failOn'')) else Inr True)"

definition errors_of :: "test_item list \<Rightarrow> thrown list" where
  "errors_of items = concat (map (\<lambda>i. case i of ItemError e \<Rightarrow> [e] | _ \<Rightarrow> []) items)"

definition json_test_result :: "output_data \<Rightarrow> method_result" where
  "json_test_result d = RTest (od_data d) (if od_sarif d = [] then od_data d else od_json d) (od_sarif d)"

definition no_vulns :: "json \<Rightarrow> json" where
  "no_vulns j = (case j of JObj ps \<Rightarrow> JObj (obj_delete ''vulnerabilities'' ps) | _ \<Rightarrow> j)"

definition machine_outcome ::
  "test_env \<Rightarrow> test_item list \<Rightarrow> option_obj \<Rightarrow> output_data \<Rightarrow> thrown + method_result" where
  "machine_outcome en items opts d =
     (let vulnerable = filter vulnerable_item items; errors = errors_of items in
      if list_all (\<lambda>j. js_true (field_opt j ''ok'')) (createErrorMappedResultsForJsonOutput items)
      then Inr (json_test_result d)
      else
        bindS (if vulnerable \<noteq> [] then fails en vulnerable opts else Inr True) (\<lambda>failing.
          if vulnerable \<noteq> [] \<and> \<not> failing then Inr (json_test_result d)
          else Inl (set_fields
            ((if vulnerable \<noteq> [] then [(''code'', JStr ''VULNS''), (''jsonNoVulns'', no_vulns (od_stdout d))] else []) @
             (if errors \<noteq> [] then [(''code'', err_get (hd errors) ''code'')] else []) @
             [(''json'', JStr (od_data d)), (''jsonStringifiedResults'', JStr (od_json d)),
              (''sarifStringifiedResults'', JStr (od_sarif d))])
            (plain_thrown en (od_data d)))))"

definition shown_options_of :: "option_obj \<Rightarrow> shown_options" where
  "shown_options_of opts =
     (let word = option_word (obj_get opts ''showVulnPaths'');
          flag = option_set opts; value = (\<lambda>k. case obj_get opts k of Some (AStr s) \<Rightarrow> Some s | _ \<Rightarrow> None) in
      \<lparr>so_showVulnPaths = (if word = ''all'' then ShowAll else if word = ''none'' then ShowNone else ShowSome),
       so_docker = flag ''docker'', so_iac = flag ''iac'', so_dev = flag ''dev'', so_isDockerUser = flag ''isDockerUser'',
       so_exclude_base_image_vulns = flag ''exclude-base-image-vulns'', so_allProjects = flag ''allProjects'',
       so_yarnWorkspaces = flag ''yarnWorkspaces'', so_allSubProjects = flag ''allSubProjects'',
       so_mavenAggregateProject = flag ''mavenAggregateProject'', so_path = str_of_opt (value ''path''),
       so_file = value ''file'', so_packageManager = value ''packageManager''\<rparr>)"

definition item_text :: "test_env \<Rightarrow> test_item \<times> option_obj \<Rightarrow> thrown + string" where
  "item_text en x =
     (case fst x of
        ItemOf r j \<Rightarrow> displayResult (te_display en) r (shown_options_of (snd x))
      | ItemError e \<Rightarrow> Inr (display_error (te_display en) e (shown_options_of (snd x))))"

definition summariseVulnerableResults :: "nat \<Rightarrow> option_obj \<Rightarrow> string" where
  "summariseVulnerableResults n opts =
     (if n \<noteq> 0 then '', '' @ str_of_nat n @ '' contained '' @ (if option_set opts ''iac'' then ''issues'' else ''vulnerable paths'') @ ''.''
      else '', no vulnerable paths were found.'')"

definition summariseErrorResults :: "nat \<Rightarrow> string" where
  "summariseErrorResults n =
     (if n > 0 then errorMessageWithRetry ('' Failed to test '' @ str_of_nat n @ '' '' @ (if n > 1 then ''projects'' else ''project'') @ ''.'')
      else [])"

definition SEPARATOR :: string where
  "SEPARATOR = nl @ replicate 55 CHR ''-'' @ nl"

definition human_outcome ::
  "test_env \<Rightarrow> (test_item \<times> option_obj) list \<Rightarrow> option_obj \<Rightarrow> output_data \<Rightarrow> string list \<Rightarrow> thrown + method_result" where
  "human_outcome en results opts d protect_paths =
     (let items = map fst results;
          vulnerable = filter vulnerable_item items; errors = errors_of items;
          styled' = styled (te_display en) in
      bindS (mapS (item_text en) results) (\<lambda>texts.
        let response = js_join (nl @ SEPARATOR) texts;
            summary = (if length items > 1
              then nl @ nl @ nl @ ''Tested '' @ str_of_nat (length items) @ '' projects'' @
                   summariseVulnerableResults (length vulnerable) opts @ summariseErrorResults (length errors) @ nl
              else []);
            success = RTest (response @ styled' ''bold.green'' summary @ nl @ nl @
                        getProtectUpgradeWarningForPaths en protect_paths) (od_json d) (od_sarif d) in
        if errors \<noteq> [] then
          Inl (set_fields (map (\<lambda>k. (k, err_get (hd errors) k)) [''code'', ''userMessage'', ''strCode'', ''innerError''])
                 (plain_thrown en (response @ styled' ''bold.red'' summary)))
        else if vulnerable \<noteq> [] then
          bindS (fails en vulnerable opts) (\<lambda>failing.
            if \<not> failing then Inr success
            else
              (let first = (\<lambda>k. case hd vulnerable of ItemOf r j \<Rightarrow> field_opt j k | ItemError e \<Rightarrow> JUndef) in
               Inl (set_fields
                 [(''code'', js_or_value (first ''code'') (JStr ''VULNS'')), (''userMessage'', first ''userMessage''),
                  (''jsonStringifiedResults'', JStr (od_json d)), (''sarifStringifiedResults'', JStr (od_sarif d))]
                 (plain_thrown en (response @ styled' ''bold.red'' summary @ nl @ nl @
                    notificationForSpotlightVulns en (containsSpotlightVulnIds items))))))
        else Inr success))"

definition test_outcome ::
  "test_env \<Rightarrow> (test_item \<times> option_obj) list \<Rightarrow> option_obj \<Rightarrow> string list \<Rightarrow> thrown + method_result" where
  "test_outcome en results opts protect_paths =
     bindS (extractDataToSendFromResults en (map fst results)
              (createErrorMappedResultsForJsonOutput (map fst results)) opts) (\<lambda>d.
       if option_set opts ''json'' \<or> option_set opts ''sarif'' then machine_outcome en (map fst results) opts d
       else human_outcome en results opts d protect_paths)"

section \<open>The command\<close>

definition appVulnsReleaseWarningMsg :: "test_env \<Rightarrow> string" where
  "appVulnsReleaseWarningMsg en =
     fe_warning_icon (ds_format (te_display en)) @
     '' Important: Beginning January 24th, 2023, application dependencies in container'' @ nl @
     ''images will be scanned by default when using the vulnmap container test/monitor'' @ nl @
     ''commands. If you are using Vulnmap in a CI pipeline, action may be required. Read'' @ nl @
     ''https://vulnmap.khulnasoft.com/blog/securing-container-applications-using-the-vulnmap-cli/ for'' @ nl @ ''more info.''"

definition app_vulns_option :: "test_env \<Rightarrow> option_obj \<Rightarrow> option_obj cio" where
  "app_vulns_option en opts =
     (let put = (\<lambda>b. obj_set ''exclude-app-vulns'' (ABool b) opts) in
      if \<not> option_set opts ''docker'' then ret opts
      else if option_set opts ''exclude-app-vulns'' then ret (put True)
      else if option_set opts ''app-vulns'' then ret (put False)
      else
        bindE (lift (hasFeatureFlag en ''containerCliAppVulnsEnabled'' opts)) (\<lambda>enabled.
        bindE (if \<not> enabled \<and> \<not> option_set opts ''json'' \<and> \<not> option_set opts ''sarif''
               then log_line (styled (te_display en) ''yellow'' (appVulnsReleaseWarningMsg en)) else ret ()) (\<lambda>_.
          ret (put (\<not> enabled)))))"

definition wrap_error :: "test_env \<Rightarrow> thrown \<Rightarrow> thrown" where
  "wrap_error en e =
     (case e of TErr c ps \<Rightarrow> e | TVal v \<Rightarrow> plain_thrown en (if v = JUndef then [] else json_text v))"

text \<open>The texts are made on the file system as it is after the scans.\<close>

definition seeing :: "pworld \<Rightarrow> test_env \<Rightarrow> test_env" where
  "seeing fs en = en\<lparr>te_display := (te_display en)\<lparr>ds_fs := fs\<rparr>\<rparr>"

definition test_paths :: "test_env \<Rightarrow> arg_item list \<Rightarrow> option_obj \<Rightarrow> method_result cio" where
  "test_paths en paths opts =
     bindE get_world (\<lambda>w.
       let protect_paths = getPackageJsonPathsContainingVulnmapDependency (me_penv (te_main en)) (cw_fs w)
             (case obj_get opts ''file'' of Some (AStr f) \<Rightarrow> Some f | _ \<Rightarrow> None) (map path_text paths) in
       bindE (add_meta (te_main en) ''upgradable-vulnmap-protect-paths'' (JNum (int (length protect_paths)))) (\<lambda>_.
         if option_set opts ''docker'' \<and> paths = [] then throw (MissingArgError en)
         else
           bindE (app_vulns_option en opts) (\<lambda>opts'.
             case getEcosystemForTest opts' of
               Some eco \<Rightarrow> catchE (te_ecosystem en eco paths opts') (\<lambda>e. throw (wrap_error en e))
             | None \<Rightarrow>
                 bindE (foldE (test_path en opts') paths []) (\<lambda>results.
                 bindE get_world (\<lambda>w'.
                   lift (test_outcome (seeing (cw_fs w') en) results opts' protect_paths))))))"

definition test_command :: "test_env \<Rightarrow> arg_item list \<Rightarrow> method_result cio" where
  "test_command en items =
     bindE get_world (\<lambda>w.
       case processCommandArgs (me_penv (te_main en)) (cw_options w) items of (paths, original) \<Rightarrow>
         (let opts = setDefaultTestOptions en original in
          bindE (if items \<noteq> [] \<and> last items = IOptions
                 then set_options (obj_delete ''show-vulnerable-paths'' original) else ret ()) (\<lambda>_.
            if option_set original ''iac'' then
              bindE (lift (hasFeatureFlag en ''iacIntegratedExperience'' opts)) (\<lambda>integrated.
                te_iac en integrated (if integrated then paths else items))
            else
              bindE (lift (if option_set opts ''docker'' then Inr () else checkOSSPaths (test_styles en) paths opts)) (\<lambda>_.
              bindE (lift (validateTestOptions en opts)) (\<lambda>_.
              bindE (lift (validateCredentials en opts)) (\<lambda>opts'. test_paths en paths opts'))))))"

section \<open>How a test ends\<close>

lemma err_get_set [simp]:
  "err_get (err_set k v (TErr c ps)) k' = (if k = k' then v else err_get (TErr c ps) k')"
  by (simp add: err_get_def err_set_def ob.get_put)

lemma set_fields_TErr: "\<exists>qs. set_fields kvs (TErr c ps) = TErr c qs"
  by (induction kvs arbitrary: ps) (auto simp: set_fields_def err_set_def split: prod.split)

lemma set_fields_get:
  "err_get (set_fields kvs (TErr c ps)) k = (case filter (\<lambda>kv. fst kv = k) kvs of
     [] \<Rightarrow> err_get (TErr c ps) k | es \<Rightarrow> snd (last es))"
proof (induction kvs arbitrary: ps)
  case (Cons kv kvs)
  obtain a b where kv: "kv = (a, b)" by fastforce
  have "set_fields (kv # kvs) (TErr c ps) = set_fields kvs (TErr c (obj_set a b ps))"
    by (simp add: set_fields_def kv err_set_def)
  moreover have "err_get (TErr c (obj_set a b ps)) k = (if a = k then b else err_get (TErr c ps) k)"
    by (simp add: err_get_def ob.get_put)
  ultimately show ?case by (auto simp: kv Cons.IH split: list.split)
qed (simp add: set_fields_def)

lemma set_fields_plain:
  "err_get (set_fields kvs (plain_thrown en m)) k = (case filter (\<lambda>kv. fst kv = k) kvs of
     [] \<Rightarrow> err_get (plain_thrown en m) k | es \<Rightarrow> snd (last es))"
  unfolding plain_thrown_def by (rule set_fields_get)

definition verdict_code :: "thrown list \<Rightarrow> test_item list \<Rightarrow> json" where
  "verdict_code errors vulnerable =
     (if errors \<noteq> [] then err_get (hd errors) ''code''
      else js_or_value (case hd vulnerable of ItemOf r j \<Rightarrow> field_opt j ''code'' | ItemError e \<Rightarrow> JUndef) (JStr ''VULNS''))"

text \<open>What the text output of a test ends with, given whether vulnerabilities make it fail.\<close>

definition ends_as :: "test_item list \<Rightarrow> bool \<Rightarrow> thrown + method_result \<Rightarrow> bool" where
  "ends_as items failing r =
     (case r of
        Inr m \<Rightarrow> errors_of items = [] \<and> (filter vulnerable_item items = [] \<or> \<not> failing)
      | Inl e \<Rightarrow> (errors_of items \<noteq> [] \<or> filter vulnerable_item items \<noteq> [] \<and> failing) \<and>
          err_get e ''code'' = verdict_code (errors_of items) (filter vulnerable_item items))"

text \<open>A test with text output, all of whose results can be printed, fails exactly when a path could not be tested
  or vulnerabilities were found that \<open>--fail-on\<close> does not excuse; it fails with the code of the first error, or
  with \<open>VULNS\<close> (or the code that the first vulnerable result has).\<close>

theorem text_verdict:
  assumes "mapS (item_text en) results = Inr texts"
    and "fails en (filter vulnerable_item (map fst results)) opts = Inr failing"
  shows "ends_as (map fst results) failing (human_outcome en results opts d protect_paths)"
  using assms
  by (simp add: human_outcome_def Let_def ends_as_def verdict_code_def set_fields_plain)

lemma machine_success:
  assumes "filter vulnerable_item items \<noteq> []"
    and "fails en (filter vulnerable_item items) opts = Inr False"
  shows "machine_outcome en items opts d = Inr (json_test_result d)"
  using assms by (simp add: machine_outcome_def Let_def)

text \<open>C28: When a path could not be tested and the vulnerabilities of another one are excused by \<open>--fail-on\<close>, the
  same results end a test with text output in the error of that path, and a test with \<open>--json\<close> or \<open>--sarif\<close>
  in success: the failed path is forgotten.\<close>

theorem outputs_disagree:
  assumes "errors_of (map fst results) \<noteq> []" and "filter vulnerable_item (map fst results) \<noteq> []"
    and "fails en (filter vulnerable_item (map fst results)) opts = Inr False"
    and "mapS (item_text en) results = Inr texts"
  shows "machine_outcome en (map fst results) opts d = Inr (json_test_result d) \<and>
    (\<exists>e. human_outcome en results opts d protect_paths = Inl e \<and>
         err_get e ''code'' = err_get (hd (errors_of (map fst results))) ''code'')"
  using assms machine_success [OF assms(2,3)] by (simp add: human_outcome_def Let_def set_fields_plain)

section \<open>From the results to the exit code\<close>

definition code_kept :: "json \<Rightarrow> thrown \<Rightarrow> bool" where
  "code_kept v e = (\<exists>c ps. e = TErr c ps \<and> err_get e ''nestedCode'' = JUndef \<and> err_get e ''code'' = v)"

lemma use_nested_keeps:
  assumes "code_kept v e" "k \<noteq> ''nestedCode''" "k = ''code'' \<Longrightarrow> n = ''nestedCode''"
  shows "code_kept v (use_nested (n, k) e)"
proof -
  obtain c ps where e: "e = TErr c ps" "err_get e ''nestedCode'' = JUndef" "err_get e ''code'' = v"
    using assms(1) by (auto simp: code_kept_def)
  have "use_nested (n, k) e = TErr c (obj_set k (js_or_value (err_get e n) (err_get e k)) ps)"
    by (simp add: use_nested_def e(1) err_set_def)
  moreover have "err_get (TErr c (obj_set k x ps)) k' = (if k = k' then x else err_get e k')" for x k'
    by (simp add: e(1) err_get_def ob.get_put)
  ultimately show ?thesis
    using assms(2,3) e(2,3) by (auto simp: code_kept_def js_or_value_def js_true_def)
qed

lemma unwrap_keeps_code:
  assumes "err_get (TErr c ps) ''nestedCode'' = JUndef"
  shows "err_get (unwrap_nested (TErr c ps)) ''code'' = err_get (TErr c ps) ''code''"
proof -
  have "code_kept (err_get (TErr c ps) ''code'') (TErr c ps)" using assms by (auto simp: code_kept_def)
  then have "code_kept (err_get (TErr c ps) ''code'') (unwrap_nested (TErr c ps))"
    unfolding unwrap_nested_def by simp (intro use_nested_keeps; simp)
  then show ?thesis by (auto simp: code_kept_def)
qed

lemma set_fields_unwrapped:
  assumes "list_all (\<lambda>kv. fst kv \<noteq> ''nestedCode'') kvs"
  shows "err_get (unwrap_nested (set_fields kvs (plain_thrown en m))) ''code'' = err_get (set_fields kvs (plain_thrown en m)) ''code''"
proof -
  obtain c qs where e: "set_fields kvs (plain_thrown en m) = TErr c qs"
    using set_fields_TErr unfolding plain_thrown_def by blast
  have "filter (\<lambda>kv. fst kv = ''nestedCode'') kvs = []" using assms by (auto simp: filter_empty_conv list_all_iff)
  then have "err_get (TErr c qs) ''nestedCode'' = err_get (plain_thrown en m) ''nestedCode''"
    using set_fields_plain [of kvs en m "''nestedCode''"] by (simp add: e)
  then have "err_get (TErr c qs) ''nestedCode'' = JUndef" by (simp add: plain_thrown_def err_get_def)
  from unwrap_keeps_code [OF this] show ?thesis by (simp add: e)
qed

definition plain_item :: "test_item \<Rightarrow> bool" where
  "plain_item i = (case i of ItemOf r j \<Rightarrow> field_opt j ''code'' = JUndef | ItemError e \<Rightarrow> False)"

lemma errors_of_plain: "list_all plain_item items \<Longrightarrow> errors_of items = []"
  by (induction items) (auto simp: errors_of_def plain_item_def split: test_item.splits)

lemma hd_plain:
  assumes "list_all plain_item items" "filter vulnerable_item items \<noteq> []"
  shows "plain_item (hd (filter vulnerable_item items))"
  using assms hd_in_set [OF assms(2)] by (auto simp: list_all_iff)

lemma human_outcome_code:
  assumes "list_all plain_item (map fst results)" "human_outcome en results opts d protect_paths = Inl e"
    and "mapS (item_text en) results = Inr texts"
    and "fails en (filter vulnerable_item (map fst results)) opts = Inr failing"
  shows "vulns_found (unwrap_nested e)"
proof -
  let ?vs = "filter vulnerable_item (map fst results)"
  have none: "errors_of (map fst results) = []" using assms(1) by (rule errors_of_plain)
  have "?vs \<noteq> []" "failing" using assms none by (auto simp: human_outcome_def Let_def split: if_splits)
  then obtain r j where hd: "hd ?vs = ItemOf r j" "field_opt j ''code'' = JUndef"
    using hd_plain [OF assms(1)] by (cases "hd ?vs") (auto simp: plain_item_def)
  have "err_get (unwrap_nested e) ''code'' = err_get e ''code''"
    using assms none \<open>?vs \<noteq> []\<close> \<open>failing\<close> hd
    by (auto simp: human_outcome_def Let_def intro!: set_fields_unwrapped)
  moreover have "err_get e ''code'' = JStr ''VULNS''"
    using assms none \<open>?vs \<noteq> []\<close> \<open>failing\<close> hd
    by (auto simp: human_outcome_def Let_def set_fields_plain js_or_value_def js_true_def)
  ultimately show ?thesis by (simp add: vulns_found_def)
qed

lemma machine_outcome_code:
  assumes "list_all plain_item items" "machine_outcome en items opts d = Inl e" "filter vulnerable_item items \<noteq> []"
    and "fails en (filter vulnerable_item items) opts = Inr failing"
  shows "vulns_found (unwrap_nested e)"
proof -
  have none: "errors_of items = []" using assms(1) by (rule errors_of_plain)
  have "err_get (unwrap_nested e) ''code'' = err_get e ''code''"
    using assms none by (auto simp: machine_outcome_def Let_def split: if_splits intro!: set_fields_unwrapped)
  moreover have "err_get e ''code'' = JStr ''VULNS''"
    using assms none by (auto simp: machine_outcome_def Let_def set_fields_plain split: if_splits)
  ultimately show ?thesis by (simp add: vulns_found_def)
qed

text \<open>A test of which every path was tested, whose texts can be made and which fails for its vulnerabilities.\<close>

definition vulnerable_run ::
  "test_env \<Rightarrow> (test_item \<times> option_obj) list \<Rightarrow> option_obj \<Rightarrow> output_data \<Rightarrow> string list \<Rightarrow> thrown \<Rightarrow> bool" where
  "vulnerable_run en results opts d protect_paths e =
     (list_all plain_item (map fst results) \<and> filter vulnerable_item (map fst results) \<noteq> [] \<and>
      fails en (filter vulnerable_item (map fst results)) opts = Inr True \<and>
      (if option_set opts ''json'' \<or> option_set opts ''sarif''
       then machine_outcome en (map fst results) opts d = Inl e
       else (\<exists>texts. mapS (item_text en) results = Inr texts) \<and> human_outcome en results opts d protect_paths = Inl e))"

text \<open>C29: When every path could be tested and the test fails for the vulnerabilities it found, the run exits with 1,
  with text output as well as with \<open>--json\<close> or \<open>--sarif\<close>.\<close>

theorem vulnerabilities_exit_with_1:
  assumes "vulnerable_run ten results opts d protect_paths e"
    and "runtime_supported en (node_version (me_penv en))" "\<not> me_tap en"
    and "try_command en ''test'' (MCommand ''test'') w = (Inl e, w1)"
    and run: "main en ''test'' (MCommand ''test'') w = (Inr (), w')"
  shows "cw_exit w' = Some (JNum 1)"
proof -
  have "vulns_found (unwrap_nested e)"
    using assms(1) unfolding vulnerable_run_def
    by (auto split: if_splits intro: machine_outcome_code human_outcome_code)
  with run_exit_code [OF assms(2,3) run] show ?thesis by (simp add: assms(4) Let_def)
qed

section \<open>Grouped issues in the JSON output\<close>

definition json_id :: "json \<Rightarrow> string" where
  "json_id v = json_text (field_opt v ''id'')"

definition json_paths :: "json \<Rightarrow> nat" where
  "json_paths v = (case field_opt v ''from'' of JArr xs \<Rightarrow> length xs | _ \<Rightarrow> 0)"

lemma sum_obj_set_old:
  fixes f :: "'v \<Rightarrow> nat"
  assumes "wf_obj m" "obj_get m k = Some g"
  shows "sum_list (map f (obj_values (obj_set k v m))) + f g = sum_list (map f (obj_values m)) + f v"
proof -
  have k: "k \<in> set (obj_keys m)" using assms(2) by (metis ob.get_None_iff option.distinct(1))
  have "sum_list (map f (map snd (map (\<lambda>(a, b). if a = k then (a, v) else (a, b)) m))) + f g = sum_list (map f (map snd m)) + f v"
    using assms
  proof (induction m)
    case (Cons p m)
    obtain a b where p: "p = (a, b)" by fastforce
    show ?case
    proof (cases "a = k")
      case True
      have "map (\<lambda>(a, b). if a = k then (a, v) else (a, b)) m = m"
        using Cons.prems(1) True by (intro map_idI) (force simp: p wf_obj_def obj_keys_def)
      with Cons.prems(2) True show ?thesis by (simp add: p)
    next
      case False
      with Cons show ?thesis by (simp add: p wf_obj_def)
    qed
  qed simp
  with k show ?thesis by (simp add: obj_set_def obj_values_def)
qed

lemma sum_obj_set_new:
  fixes f :: "'v \<Rightarrow> nat"
  assumes "obj_get m k = None"
  shows "sum_list (map f (obj_values (obj_set k v m))) = sum_list (map f (obj_values m)) + f v"
proof -
  have "k \<notin> set (obj_keys m)" using assms by (metis ob.get_None_iff)
  then have "mset (obj_set k v m) = add_mset (k, v) (mset m)" by (rule mset_obj_set_new)
  then have "mset (map (f \<circ> snd) (obj_set k v m)) = add_mset (f v) (mset (map (f \<circ> snd) m))" by (simp add: mset_map)
  then have "sum_list (map (f \<circ> snd) (obj_set k v m)) = f v + sum_list (map (f \<circ> snd) m)"
    by (metis sum_mset.add_mset sum_mset_sum_list)
  then show ?thesis by (simp add: obj_values_def)
qed

text \<open>The groups so far: an object for each id, with that id and a list of paths.\<close>

definition json_groups :: "json obj \<Rightarrow> bool" where
  "json_groups m =
     (wf_obj m \<and> list_all (\<lambda>(k, g). json_id g = k \<and> (\<exists>ps xs. g = JObj ps \<and> obj_get ps ''from'' = Some (JArr xs))) m)"

lemma field_opt_obj: "field_opt (JObj ps) k = (case obj_get ps k of Some v \<Rightarrow> v | None \<Rightarrow> JUndef)"
  by (simp add: field_opt_def json_prop_def obj_get_def)

lemma json_groups_get:
  assumes "json_groups m" "obj_get m k = Some g"
  obtains ps xs where "g = JObj ps" "obj_get ps ''from'' = Some (JArr xs)" "json_id g = k"
  using assms obj_get_SomeD [OF assms(2)] unfolding json_groups_def list_all_iff by fastforce

lemma json_groups_set:
  assumes "json_groups m" "json_id (JObj ps) = k" "obj_get ps ''from'' = Some (JArr xs)"
  shows "json_groups (obj_set k (JObj ps) m)"
proof -
  have wf: "wf_obj (obj_set k (JObj ps) m)" using assms(1) by (simp add: json_groups_def ob.ok_put)
  have "json_id g = a \<and> (\<exists>ps xs. g = JObj ps \<and> obj_get ps ''from'' = Some (JArr xs))"
    if "(a, g) \<in> set (obj_set k (JObj ps) m)" for a g
  proof -
    from that wf have "obj_get (obj_set k (JObj ps) m) a = Some g" by (simp add: obj_get_in)
    then have "a = k \<and> g = JObj ps \<or> obj_get m a = Some g" by (auto simp: ob.get_put split: if_splits)
    then show ?thesis using assms by (auto elim: json_groups_get)
  qed
  with wf show ?thesis by (auto simp: json_groups_def list_all_iff)
qed

lemma group_json_step:
  assumes "json_groups m" "v = JObj vs"
  shows "json_groups (group_json v m)"
    and "set (obj_keys (group_json v m)) = insert (json_id v) (set (obj_keys m))"
    and "sum_list (map json_paths (obj_values (group_json v m))) = Suc (sum_list (map json_paths (obj_values m)))"
proof -
  have "json_groups (group_json v m) \<and>
    set (obj_keys (group_json v m)) = insert (json_id v) (set (obj_keys m)) \<and>
    sum_list (map json_paths (obj_values (group_json v m))) = Suc (sum_list (map json_paths (obj_values m)))"
  proof (cases "obj_get m (json_id v)")
    case None
    let ?ps = "obj_set ''name'' (JArr [field_opt v ''name'']) (obj_set ''from'' (JArr [field_opt v ''from'']) vs)"
    have step: "group_json v m = obj_set (json_id v) (JObj ?ps) m"
      using None assms(2) by (simp add: group_json_def json_id_def Let_def)
    have "json_id (JObj ?ps) = json_id v" "obj_get ?ps ''from'' = Some (JArr [field_opt v ''from''])"
      by (simp_all add: json_id_def field_opt_obj assms(2) ob.get_put)
    moreover from this have "json_paths (JObj ?ps) = 1" by (simp add: json_paths_def field_opt_obj)
    ultimately show ?thesis
      using json_groups_set [OF assms(1)] sum_obj_set_new [OF None, of json_paths "JObj ?ps"]
      by (simp add: step ob.keys_put)
  next
    case (Some g)
    then obtain ps xs where g: "g = JObj ps" "obj_get ps ''from'' = Some (JArr xs)" "json_id g = json_id v"
      by (rule json_groups_get [OF assms(1)])
    let ?ps = "obj_set ''name'' (json_append (field_opt g ''name'') (field_opt v ''name''))
      (obj_set ''from'' (json_append (field_opt g ''from'') (field_opt v ''from'')) ps)"
    have step: "group_json v m = obj_set (json_id v) (JObj ?ps) m"
      using Some g by (simp add: group_json_def json_id_def Let_def)
    have "json_id (JObj ?ps) = json_id v" "obj_get ?ps ''from'' = Some (JArr (xs @ [field_opt v ''from'']))"
      using g by (simp_all add: json_id_def field_opt_obj ob.get_put json_append_def)
    moreover from this have "json_paths (JObj ?ps) = Suc (length xs)" by (simp add: json_paths_def field_opt_obj)
    moreover have "json_paths g = length xs" using g by (simp add: json_paths_def field_opt_obj)
    moreover have "wf_obj m" using assms(1) by (simp add: json_groups_def)
    ultimately show ?thesis
      using json_groups_set [OF assms(1)] sum_obj_set_old [OF _ Some, of json_paths "JObj ?ps"]
      by (simp add: step ob.keys_put)
  qed
  then show "json_groups (group_json v m)"
    and "set (obj_keys (group_json v m)) = insert (json_id v) (set (obj_keys m))"
    and "sum_list (map json_paths (obj_values (group_json v m))) = Suc (sum_list (map json_paths (obj_values m)))"
    by auto
qed

lemma group_json_fold:
  "list_all (\<lambda>v. \<exists>vs. v = JObj vs) us \<Longrightarrow> json_groups m \<Longrightarrow>
   json_groups (fold group_json us m) \<and>
   set (obj_keys (fold group_json us m)) = json_id ` set us \<union> set (obj_keys m) \<and>
   sum_list (map json_paths (obj_values (fold group_json us m))) = length us + sum_list (map json_paths (obj_values m))"
proof (induction us arbitrary: m)
  case (Cons u us)
  then obtain vs where u: "u = JObj vs" by auto
  from Cons.IH [OF _ group_json_step(1) [OF Cons.prems(2) u]] Cons.prems(1) group_json_step(2,3) [OF Cons.prems(2) u]
  show ?case by auto
qed simp

lemma json_groups_ids: "json_groups m \<Longrightarrow> map json_id (obj_values m) = obj_keys m"
  by (auto simp: json_groups_def obj_values_def obj_keys_def list_all_iff)


section \<open>Samples\<close>

definition sample_test_env :: test_env where
  "sample_test_env =
     \<lparr>te_main = sample_main_env, te_run = sample_run_env (\<lambda>_ _. Inl (TVal JNull)), te_display = sample_display_env,
      te_config_org = None, te_iac = (\<lambda>_ _. ret RNone), te_flag = (\<lambda>_ _. Inr (200, JUndef, False)),
      te_ecosystem = (\<lambda>_ _ _. ret RNone), te_test = (\<lambda>_ opts w. ((Inr [], opts), w)),
      te_view = (\<lambda>_. sample_result []), te_sarif = (\<lambda>_ _. JNull), te_stringify = (\<lambda>_ _. Inr ''{}'')\<rparr>"

definition sample_failed :: test_item where
  "sample_failed = ItemError (TErr PlainError [(''message'', JStr ''m''), (''code'', JNum 422)])"

definition sample_vulnerable :: test_item where
  "sample_vulnerable = ItemOf (sample_result [sample_vuln ''V'' ''high'' [''p'', ''a'']]) (JObj [(''ok'', JBool False)])"

definition sample_data :: output_data where
  "sample_data = \<lparr>od_stdout = JObj [], od_data = ''{}'', od_json = ''{}'', od_sarif = []\<rparr>"

lemma sample_failed_text: "\<exists>t. item_text sample_test_env (sample_failed, []) = Inr t"
  by (simp add: item_text_def sample_failed_def)

lemma sample_vulnerable_text:
  "\<exists>t. item_text sample_test_env (sample_vulnerable, [(''path'', AStr ''/p'')]) = Inr t"
proof -
  have "shown_options_of [(''path'', AStr ''/p'')] = sample_shown_options" by code_simp
  then show ?thesis
    using sample_displayed by (simp add: item_text_def sample_vulnerable_def sample_test_env_def)
qed

lemma sample_vulnerable_kind: "vulnerable_item sample_vulnerable" "\<not> vulnerable_item sample_failed"
  by (simp_all add: vulnerable_item_def sample_vulnerable_def sample_failed_def item_vulns_def sample_result_def)

lemma sample_errors:
  "errors_of [sample_failed, sample_vulnerable] = [TErr PlainError [(''message'', JStr ''m''), (''code'', JNum 422)]]"
  by (simp add: errors_of_def sample_failed_def sample_vulnerable_def)

theorem text_verdict_witness:
  "ends_as [sample_failed] True (human_outcome sample_test_env [(sample_failed, [])] [] sample_data [])"
proof -
  obtain t where "mapS (item_text sample_test_env) [(sample_failed, [])] = Inr [t]" using sample_failed_text by auto
  from text_verdict [OF this, of "[]" True] show ?thesis
    by (simp add: fails_def option_set_def)
qed

text \<open>Only upgrades are to fail the test, and there are only pins and patches: nothing can be upgraded by hand.\<close>

definition sample_patches_only :: test_item where
  "sample_patches_only =
     ItemOf ((sample_result [sample_vuln ''V'' ''high'' [''p'', ''a'']])
       \<lparr>sr_remediation := Some (sample_remediation\<lparr>lgr_pin := []\<rparr>)\<rparr>) (JObj [(''ok'', JBool False)])"

lemma sample_patches_only_text:
  "\<exists>t. item_text sample_test_env (sample_patches_only, [(''path'', AStr ''/p'')]) = Inr t"
proof -
  have "(case item_text sample_test_env (sample_patches_only, [(''path'', AStr ''/p'')]) of Inl e \<Rightarrow> False | Inr t \<Rightarrow> True)"
    by code_simp
  then show ?thesis by (auto split: sum.splits)
qed

theorem outputs_disagree_witness:
  "machine_outcome sample_test_env [sample_failed, sample_patches_only] [(''failOn'', AStr ''upgradable'')] sample_data =
     Inr (json_test_result sample_data) \<and>
   (\<exists>e. human_outcome sample_test_env [(sample_failed, []), (sample_patches_only, [(''path'', AStr ''/p'')])]
      [(''failOn'', AStr ''upgradable'')] sample_data [] = Inl e \<and> err_get e ''code'' = JNum 422)"
proof -
  let ?rs = "[(sample_failed, []), (sample_patches_only, [(''path'', AStr ''/p'')])]"
    and ?opts = "[(''failOn'', AStr ''upgradable'')]"
  have kind: "vulnerable_item sample_patches_only"
    by (simp add: vulnerable_item_def sample_patches_only_def item_vulns_def sample_result_def)
  have errors: "errors_of (map fst ?rs) = [TErr PlainError [(''message'', JStr ''m''), (''code'', JNum 422)]]"
    by (simp add: errors_of_def sample_failed_def sample_patches_only_def)
  have vulnerable: "filter vulnerable_item (map fst ?rs) = [sample_patches_only]"
    by (simp add: kind sample_vulnerable_kind)
  have "fails sample_test_env [sample_patches_only] ?opts = Inr False"
    by (simp add: fails_def option_set_def shouldFail_def sample_patches_only_def hasUpgrades_def isUpgradable_def
        helper_of_def sample_result_def sample_remediation_def some_keys_def Let_def)
  moreover obtain t1 t2 where "mapS (item_text sample_test_env) ?rs = Inr [t1, t2]"
    using sample_failed_text sample_patches_only_text by auto
  ultimately have "machine_outcome sample_test_env (map fst ?rs) ?opts sample_data = Inr (json_test_result sample_data) \<and>
    (\<exists>e. human_outcome sample_test_env ?rs ?opts sample_data [] = Inl e \<and>
         err_get e ''code'' = err_get (hd (errors_of (map fst ?rs))) ''code'')"
    using vulnerable errors by (intro outputs_disagree) simp_all
  then show ?thesis unfolding errors by (simp add: err_get_def)
qed


definition sample_verdict :: thrown where
  "sample_verdict =
     TErr PlainError [(''name'', JStr ''Error''), (''message'', JStr ''{}''), (''stack'', JStr ''Error: {}''),
       (''code'', JStr ''VULNS''), (''jsonNoVulns'', JObj []), (''json'', JStr ''{}''),
       (''jsonStringifiedResults'', JStr ''{}''), (''sarifStringifiedResults'', JStr [])]"

definition sample_test_main :: main_env where
  "sample_test_main = sample_main_env\<lparr>me_command := (\<lambda>_ _. throw sample_verdict)\<rparr>"

lemma sample_vulnerable_run:
  "vulnerable_run sample_test_env [(sample_vulnerable, [])] [(''json'', ABool True)] sample_data [] sample_verdict"
proof -
  have plain: "plain_item sample_vulnerable" by (simp add: plain_item_def sample_vulnerable_def field_opt_obj)
  have "machine_outcome sample_test_env [sample_vulnerable] [(''json'', ABool True)] sample_data = Inl sample_verdict"
    by (simp add: machine_outcome_def sample_vulnerable_kind Let_def createErrorMappedResultsForJsonOutput_def
        mapped_result_def sample_vulnerable_def field_opt_obj js_true_def fails_def option_set_def)
       (simp add: sample_vulnerable_kind(1) [unfolded sample_vulnerable_def] errors_of_def set_fields_def plain_thrown_def
        sample_data_def no_vulns_def obj_delete_def err_set_def obj_set_def is_array_index_def js_digit_def
        sample_verdict_def test_styles_def sample_test_env_def sample_main_env_def sample_styles_def)
  with plain show ?thesis
    by (simp add: vulnerable_run_def sample_vulnerable_kind option_set_def fails_def)
qed

lemma sample_test_try:
  "try_command sample_test_main ''test'' (MCommand ''test'') (sample_cli_world sample_main_opts) =
     (Inl sample_verdict, sample_cli_world sample_main_opts)"
  by (simp add: try_command_def bindE_apply check_options_def modeValidation_def modes_def
      validateUnsupportedOptionCombinations_def option_set_def sample_main_opts_def sample_cli_world_def reject_def
      use_file_option_def set_options_def check_outputs_def validateUnsupportedSarifCombinations_def
      validateOutputFile_def runCommand_def run_method_def sample_test_main_def sample_main_env_def Let_def)

lemma sample_test_run:
  "\<exists>w'. main sample_test_main ''test'' (MCommand ''test'') (sample_cli_world sample_main_opts) = (Inr (), w')"
proof -
  have unwrapped: "unwrap_nested sample_verdict =
     TErr PlainError [(''name'', JStr ''Error''), (''message'', JStr ''{}''), (''stack'', JStr ''Error: {}''),
       (''code'', JStr ''VULNS''), (''jsonNoVulns'', JObj []), (''json'', JStr ''{}''),
       (''jsonStringifiedResults'', JStr ''{}''), (''sarifStringifiedResults'', JStr []),
       (''userMessage'', JUndef), (''strCode'', JUndef)]"
    by (simp add: sample_verdict_def unwrap_nested_def use_nested_def err_get_def err_set_def js_or_value_def js_true_def
      obj_set_def is_array_index_def js_digit_def)
  have "\<exists>w1. handleError sample_test_main ''test'' sample_verdict (sample_cli_world sample_main_opts) = (Inr (JNum 1), w1)"
    by (simp add: handleError_def unwrapped error_outcome_def vulns_found_def err_get_def message_includes_def
      print_error_def sample_cli_world_def sample_main_opts_def option_set_def legacy_message_def log_line_def on_fs_def
      saveResultsToFile_def saved_text_def report_error_def add_meta_def send_data_def bindE_apply
      EXIT_VULNS_FOUND_def Let_def split: prod.split)
  then obtain w1 where "handleError sample_test_main ''test'' sample_verdict (sample_cli_world sample_main_opts) = (Inr (JNum 1), w1)" ..
  moreover have "runtime_supported sample_test_main (node_version (me_penv sample_test_main)) \<and> \<not> me_tap sample_test_main"
    by (simp add: runtime_supported_def sample_test_main_def sample_main_env_def)
  ultimately show ?thesis
    by (simp add: main_def catchE_def bindE_apply sample_test_try set_exit_def error_line_def on_fs_def)
qed

theorem vulnerabilities_exit_with_1_witness:
  "\<exists>w'. main sample_test_main ''test'' (MCommand ''test'') (sample_cli_world sample_main_opts) = (Inr (), w') \<and>
     cw_exit w' = Some (JNum 1)"
proof -
  obtain w' where run: "main sample_test_main ''test'' (MCommand ''test'') (sample_cli_world sample_main_opts) = (Inr (), w')"
    using sample_test_run by blast
  have "runtime_supported sample_test_main (node_version (me_penv sample_test_main))" "\<not> me_tap sample_test_main"
    by (simp_all add: runtime_supported_def sample_test_main_def sample_main_env_def)
  from vulnerabilities_exit_with_1 [OF sample_vulnerable_run this sample_test_try run] run show ?thesis by blast
qed

end
