(* ===== verification/DepTrees.thy ===== *)
theory DepTrees
  imports UnmanagedTest
begin

text \<open>
  The dependency trees that are monitored and what \<open>src/src/lib/monitor\<close> does to them:
  \<open>count-total-deps-in-tree.ts\<close>, \<open>filter-out-missing-deps.ts\<close>, \<open>drop-empty-deps.ts\<close>, \<open>prune-dep-tree.ts\<close>.
  The dependencies of a node are an object; the value of a key is always a tree. The conversions between
  trees and graphs are parameters. Trees are values: \<open>dropEmptyDeps\<close> and \<open>pruneTree\<close> change their argument in
  place and return it, and nobody reads the old tree afterwards.
\<close>

section \<open>Trees\<close>

text \<open>
  A node: name, version, the policy that its \<open>vulnmap\<close> property names, the two marks of a dependency that is
  missing in the lock file (the property and the label), the docker data, the image, the file it was read from,
  and the dependencies, if it has any property for them.
\<close>

datatype mon_tree = MonTree
  (mt_name: "string option") (mt_version: "string option") (mt_policy: "string option")
  (mt_missing: bool) (mt_missing_label: bool) (mt_docker: json) (mt_image: "string option")
  (mt_targetFile: "string option") (mt_dependencies: "(string \<times> mon_tree) list option")

definition with_deps :: "mon_tree \<Rightarrow> (string \<times> mon_tree) list option \<Rightarrow> mon_tree" where
  "with_deps t ds =
     MonTree (mt_name t) (mt_version t) (mt_policy t) (mt_missing t) (mt_missing_label t) (mt_docker t)
       (mt_image t) (mt_targetFile t) ds"

text \<open>What the search for policies sees of a tree.\<close>

primrec policy_tree :: "mon_tree \<Rightarrow> pkg_tree" where
  "policy_tree (MonTree n v p m l d i f ds) = PkgTree p (map_option (map (map_prod id policy_tree)) ds)"

section \<open>Counting\<close>

primrec countTotalDependenciesInTree :: "mon_tree \<Rightarrow> nat" where
  "countTotalDependenciesInTree (MonTree n v p m l d i f ds) =
     (case map_option (map (map_prod id countTotalDependenciesInTree)) ds of
        None \<Rightarrow> 0
      | Some counts \<Rightarrow> fold (\<lambda>(k, c) count. count + (1 + c)) counts 0)"

section \<open>Dependencies that the lock file does not have\<close>

definition missing_dep :: "mon_tree \<Rightarrow> bool" where
  "missing_dep dep \<longleftrightarrow> mt_missing dep \<or> mt_missing_label dep"

definition dep_label :: "mon_tree \<Rightarrow> string" where
  "dep_label dep = str_of_opt (mt_name dep) @ ''@'' @ str_of_opt (mt_version dep)"

definition filter_step ::
  "string \<times> mon_tree \<Rightarrow> (string \<times> mon_tree) list \<times> string list \<Rightarrow> (string \<times> mon_tree) list \<times> string list" where
  "filter_step kd acc =
     (if missing_dep (snd kd) then (fst acc, snd acc @ [dep_label (snd kd)])
      else (obj_set (fst kd) (snd kd) (fst acc), snd acc))"

definition filterOutMissingDeps :: "mon_tree \<Rightarrow> mon_tree \<times> string list" where
  "filterOutMissingDeps depTree =
     (case mt_dependencies depTree of
        None \<Rightarrow> (depTree, [])
      | Some deps \<Rightarrow>
          (let (kept, missing) = fold filter_step deps ([], []) in (with_deps depTree (Some kept), missing)))"

section \<open>Empty objects of dependencies\<close>

primrec dropEmptyDeps :: "mon_tree \<Rightarrow> mon_tree" where
  "dropEmptyDeps (MonTree n v p m l d i f ds) =
     MonTree n v p m l d i f
       (case map_option (map (map_prod id dropEmptyDeps)) ds of
          None \<Rightarrow> None
        | Some deps \<Rightarrow> if deps = [] then None else Some deps)"

primrec no_empty_deps :: "mon_tree \<Rightarrow> bool" where
  "no_empty_deps (MonTree n v p m l d i f ds) \<longleftrightarrow>
     (case map_option (map (map_prod id no_empty_deps)) ds of
        None \<Rightarrow> True
      | Some oks \<Rightarrow> oks \<noteq> [] \<and> list_all snd oks)"

section \<open>Pruning\<close>

definition pruneTree ::
  "(mon_tree \<Rightarrow> 'p \<Rightarrow> 'e + 'g) \<Rightarrow> ('g \<Rightarrow> 'p \<Rightarrow> 'e + mon_tree) \<Rightarrow> mon_tree \<Rightarrow> 'p \<Rightarrow> 'e + mon_tree" where
  "pruneTree depTreeToGraph graphToDepTree tree packageManagerName =
     bindS (depTreeToGraph tree packageManagerName) (\<lambda>graph.
     bindS (graphToDepTree graph packageManagerName) (\<lambda>prunedTree.
       Inr (with_deps tree (mt_dependencies prunedTree))))"

section \<open>Paths from the root\<close>

text \<open>The dependencies that are counted are the ways from the root to another node.\<close>

primrec tree_paths :: "mon_tree \<Rightarrow> string list list" where
  "tree_paths (MonTree n v p m l d i f ds) =
     (case map_option (map (map_prod id tree_paths)) ds of
        None \<Rightarrow> []
      | Some qs \<Rightarrow> concat (map (\<lambda>(k, ps). [k] # map (\<lambda>q. k # q) ps) qs))"

section \<open>Properties\<close>

lemma fold_count: "fold (\<lambda>(k, c) count. count + (1 + c)) cs (a::nat) = a + sum_list (map (\<lambda>kd. Suc (snd kd)) cs)"
  by (induction cs arbitrary: a) (auto simp: case_prod_beta)

lemma length_tree_paths: "length (tree_paths t) = countTotalDependenciesInTree t"
proof (induction t)
  case (MonTree n v p m l d i f ds)
  show ?case
  proof (cases ds)
    case (Some deps)
    have "map (\<lambda>kd. Suc (length (tree_paths (snd kd)))) deps =
          map (\<lambda>kd. Suc (countTotalDependenciesInTree (snd kd))) deps"
      using MonTree Some by (auto intro!: map_cong)
    from arg_cong [OF this, of sum_list] show ?thesis
      using Some unfolding tree_paths.simps countTotalDependenciesInTree.simps
      by (simp only: option.map option.case fold_count length_concat map_map)
        (simp add: comp_def case_prod_beta)
  qed simp
qed

lemma tree_paths_drop: "tree_paths (dropEmptyDeps t) = tree_paths t"
proof (induction t)
  case (MonTree n v p m l d i f ds)
  show ?case
  proof (cases ds)
    case (Some deps)
    have "map (\<lambda>kd. [fst kd] # map ((#) (fst kd)) (tree_paths (dropEmptyDeps (snd kd)))) deps =
          map (\<lambda>kd. [fst kd] # map ((#) (fst kd)) (tree_paths (snd kd))) deps"
      using MonTree Some by (auto intro!: map_cong)
    from arg_cong [OF this, of concat] show ?thesis
      using Some by (simp add: comp_def case_prod_beta)
  qed simp
qed

lemma no_empty_drop: "no_empty_deps (dropEmptyDeps t)"
proof (induction t)
  case (MonTree n v p m l d i f ds)
  then show ?case by (cases ds) (auto simp: list_all_iff)
qed

lemma drop_no_empty: "no_empty_deps t \<Longrightarrow> dropEmptyDeps t = t"
proof (induction t)
  case (MonTree n v p m l d i f ds)
  show ?case
  proof (cases ds)
    case (Some deps)
    have "dropEmptyDeps (snd kd) = snd kd" if "kd \<in> set deps" for kd
      using MonTree.IH [of deps kd "snd kd"] MonTree.prems Some that
      by (cases kd) (auto simp: list_all_iff)
    then have "map (map_prod id dropEmptyDeps) deps = deps"
      by (intro map_idI) (auto simp: map_prod_def case_prod_beta)
    then show ?thesis
      using MonTree.prems Some by simp
  qed simp
qed

text \<open>Dropping the empty objects of dependencies loses nothing: the ways from the root to a dependency are the
  same, so their count is too, no object of dependencies is empty any more, and doing it again changes
  nothing.
\<close>

theorem drop_keeps_dependencies:
  "tree_paths (dropEmptyDeps t) = tree_paths t \<and>
   countTotalDependenciesInTree (dropEmptyDeps t) = countTotalDependenciesInTree t \<and>
   no_empty_deps (dropEmptyDeps t) \<and> dropEmptyDeps (dropEmptyDeps t) = dropEmptyDeps t"
  by (metis length_tree_paths tree_paths_drop no_empty_drop drop_no_empty)

lemma filter_fold:
  "fold filter_step deps (kept, missing) =
   (fold (\<lambda>kd ob'. obj_set (fst kd) (snd kd) ob') (filter (\<lambda>kd. \<not> missing_dep (snd kd)) deps) kept,
    missing @ map (\<lambda>kd. dep_label (snd kd)) (filter (\<lambda>kd. missing_dep (snd kd)) deps))"
  by (induction deps arbitrary: kept missing) (auto simp: filter_step_def)

lemma filtered_get:
  assumes "wf_obj deps"
  shows "obj_get (fold (\<lambda>kd ob'. obj_set (fst kd) (snd kd) ob') (filter P deps) []) k =
    (case obj_get deps k of Some t \<Rightarrow> if P (k, t) then Some t else None | None \<Rightarrow> None)"
proof (cases "\<exists>t. (k, t) \<in> set deps \<and> P (k, t)")
  case True
  then obtain t where t: "(k, t) \<in> set deps" "P (k, t)" by blast
  have "distinct (map fst (filter P deps))"
    using assms by (simp add: wf_obj_def obj_keys_def distinct_map_filter)
  then have "obj_get (fold (\<lambda>kd ob'. obj_set (fst kd) (snd kd) ob') (filter P deps) []) (fst (k, t)) = Some (snd (k, t))"
    using t by (intro ob.get_fold_put_in) (auto simp: distinct_map)
  with t assms show ?thesis by (simp add: obj_get_in)
next
  case False
  then have "k \<notin> fst ` set (filter P deps)" by auto
  from ob.get_fold_put_notin [OF this, of snd "[]"] have
    "obj_get (fold (\<lambda>kd ob'. obj_set (fst kd) (snd kd) ob') (filter P deps) []) k = None" by simp
  with False show ?thesis
    by (auto simp: obj_get_def [of deps] split: option.splits dest!: map_of_SomeD)
qed

text \<open>C32: What is not in the lock file is told apart from what is: of every dependency of the root either the tree
  still has it, unchanged and under its key, or its name and version are reported as missing, in order; and
  nothing else of the root changes.
\<close>

theorem missing_deps_reported:
  assumes "filterOutMissingDeps t = (t', missing)"
    and "mt_dependencies t = Some deps" and "wf_obj deps"
  shows "\<exists>kept. t' = with_deps t (Some kept) \<and>
      (\<forall>k. obj_get kept k =
         (case obj_get deps k of Some d \<Rightarrow> if missing_dep d then None else Some d | None \<Rightarrow> None)) \<and>
      missing = map dep_label (filter missing_dep (map snd deps))"
proof -
  define kept where "kept = fold (\<lambda>kd ob'. obj_set (fst kd) (snd kd) ob') (filter (\<lambda>kd. \<not> missing_dep (snd kd)) deps) []"
  have "t' = with_deps t (Some kept)"
      "missing = map (\<lambda>kd. dep_label (snd kd)) (filter (\<lambda>kd. missing_dep (snd kd)) deps)"
    using assms(1, 2) by (simp_all add: filterOutMissingDeps_def filter_fold Let_def kept_def)
  then show ?thesis
    using filtered_get [OF assms(3), of "\<lambda>kd. \<not> missing_dep (snd kd)"]
    by (intro exI [of _ kept]) (auto simp: kept_def filter_map comp_def split: option.splits)
qed

definition sample_leaf :: "string \<Rightarrow> bool \<Rightarrow> mon_tree" where
  "sample_leaf n missing = MonTree (Some n) (Some ''1.0.0'') None missing False JUndef None None (Some [])"

definition sample_deps_tree :: mon_tree where
  "sample_deps_tree = MonTree (Some ''app'') (Some ''2.0.0'') None False False JUndef None None
     (Some [(''left-pad'', sample_leaf ''left-pad'' True), (''lodash'', sample_leaf ''lodash'' False)])"

lemma missing_deps_reported_witness:
  "obj_get (the (mt_dependencies (fst (filterOutMissingDeps sample_deps_tree)))) ''lodash'' = Some (sample_leaf ''lodash'' False) \<and>
   snd (filterOutMissingDeps sample_deps_tree) = [''left-pad@1.0.0'']"
proof -
  have "wf_obj (the (mt_dependencies sample_deps_tree))" by (simp add: wf_obj_def sample_deps_tree_def)
  from missing_deps_reported [OF surjective_pairing _ this, of sample_deps_tree]
  show ?thesis
    by (auto simp: sample_deps_tree_def sample_leaf_def with_deps_def missing_dep_def dep_label_def str_of_opt_def)
qed

end
