(* ===== verification/GitContributors.thy ===== *)
theory GitContributors
  imports JsString Prelude
begin

text \<open>
  \<open>src/src/lib/monitor/dev-count-analysis.ts\<close>: who has committed to the repository of the working directory in the
  last days, read from the output of \<open>git log\<close>. \<open>child_process.exec\<close> is a parameter: the error, the output and
  the error output of a command. Times are whole milliseconds.
\<close>

section \<open>Commits\<close>

definition SERIOUS_DELIMITER :: string where
  "SERIOUS_DELIMITER = ''_VULNMAP_SEPARATOR_''"

definition CONTRIBUTING_DEVELOPER_PERIOD_DAYS :: int where "CONTRIBUTING_DEVELOPER_PERIOD_DAYS = 90"

definition MAX_COMMITS_IN_GIT_LOG :: nat where "MAX_COMMITS_IN_GIT_LOG = 500"

text \<open>A column that the line does not have is \<open>undefined\<close>.\<close>

record commit_info =
  authorEmail :: "string option"
  commitTimestamp :: "string option"

record contributor =
  ct_email :: "string option"
  ct_lastCommitDate :: "string option"

text \<open>The statistics of a repository are the list of its commits, the most recent one first.\<close>

type_synonym commit_stats = "commit_info list"

definition empty_stats :: commit_stats where
  "empty_stats = []"

definition addCommitInfo :: "commit_info \<Rightarrow> commit_stats \<Rightarrow> commit_stats" where
  "addCommitInfo info st = st @ [info]"

definition getUniqueAuthorEmails :: "commit_stats \<Rightarrow> string option list" where
  "getUniqueAuthorEmails st = unique_in_order (map authorEmail st)"

definition getUniqueAuthorsCount :: "commit_stats \<Rightarrow> nat" where
  "getUniqueAuthorsCount st = length (getUniqueAuthorEmails st)"

definition getCommitsCount :: "commit_stats \<Rightarrow> nat" where
  "getCommitsCount st = length st"

primrec getMostRecentCommitTimestamp :: "commit_stats \<Rightarrow> string option \<Rightarrow> string option" where
  "getMostRecentCommitTimestamp [] email = Some []"
| "getMostRecentCommitTimestamp (gi # st) email =
     (if authorEmail gi = email then commitTimestamp gi else getMostRecentCommitTimestamp st email)"

definition getRepoContributors :: "commit_stats \<Rightarrow> contributor list" where
  "getRepoContributors st =
     fold (\<lambda>email cs. cs @
         [\<lparr>ct_email = email, ct_lastCommitDate = getMostRecentCommitTimestamp st email\<rparr>])
       (getUniqueAuthorEmails st) []"

section \<open>Reading the log\<close>

text \<open>\<open>text.split(separator)\<close> for a separator that is not empty.\<close>

fun split_word :: "string \<Rightarrow> string \<Rightarrow> string list" where
  "split_word d [] = [[]]"
| "split_word d (c # s) =
     (if d \<noteq> [] \<and> js_startsWith (c # s) d then [] # split_word d (drop (length d - 1) s)
      else (case split_word d s of [] \<Rightarrow> [[c]] | w # ws \<Rightarrow> (c # w) # ws))"

definition parseGitLogLine :: "string \<Rightarrow> commit_info" where
  "parseGitLogLine logLine =
     (let lineComponents = split_word SERIOUS_DELIMITER logLine in
      \<lparr>authorEmail = js_nth lineComponents 2, commitTimestamp = js_nth lineComponents 3\<rparr>)"

text \<open>\<open>split(/\n|\r\n/)\<close>: at a line feed, or at a carriage return with a line feed behind it.\<close>

fun split_lines :: "string \<Rightarrow> string list" where
  "split_lines [] = [[]]"
| "split_lines (c # s) =
     (if c = CHR 10 then [] # split_lines s
      else if c = CHR 13 \<and> js_startsWith s [CHR 10] then [] # split_lines (tl s)
      else (case split_lines s of [] \<Rightarrow> [[c]] | w # ws \<Rightarrow> (c # w) # ws))"

definition separateLines :: "string \<Rightarrow> string list" where
  "separateLines inputText = split_lines (js_trim inputText)"

definition parseGitLog :: "string \<Rightarrow> commit_stats" where
  "parseGitLog gitLog =
     (if js_trim gitLog = [] then empty_stats else map parseGitLogLine (separateLines gitLog))"

section \<open>Running git\<close>

definition getTimestampStartOfContributingDevTimeframe :: "int \<Rightarrow> int \<Rightarrow> int" where
  "getTimestampStartOfContributingDevTimeframe nowUtcEpocMS timespanInDays =
     (let nowUtcEpocS = nowUtcEpocMS div 1000;
          ONE_DAY_IN_SECONDS = 86400;
          lookbackTimespanSeconds = timespanInDays * ONE_DAY_IN_SECONDS in
      nowUtcEpocS - lookbackTimespanSeconds)"

definition int_text :: "int \<Rightarrow> string" where
  "int_text n = (if n < 0 then CHR ''-'' # str_of_nat (nat (- n)) else str_of_nat (nat n))"

definition git_log_command :: "int \<Rightarrow> int \<Rightarrow> string" where
  "git_log_command start end_of_period =
     ''git --no-pager log --pretty=tformat:'' @ [CHR 0x22] @ ''%H'' @ SERIOUS_DELIMITER @ ''%an'' @ SERIOUS_DELIMITER @
     ''%ae'' @ SERIOUS_DELIMITER @ ''%aI'' @ [CHR 0x22] @ '' --after='' @ [CHR 0x22] @ int_text start @ [CHR 0x22] @
     '' --until='' @ [CHR 0x22] @ int_text end_of_period @ [CHR 0x22] @ '' --max-count='' @ str_of_nat MAX_COMMITS_IN_GIT_LOG"

definition runGitLog :: "int \<Rightarrow> int \<Rightarrow> string \<Rightarrow> (string \<Rightarrow> string \<Rightarrow> 'e + string) \<Rightarrow> string" where
  "runGitLog start end_of_period repoPath fnShellout =
     (case fnShellout (git_log_command start end_of_period) repoPath of Inr gitLogStdout \<Rightarrow> gitLogStdout | Inl e \<Rightarrow> [])"

record exec_error =
  xe_message :: string
  xe_code :: "int option"

record shell_out_error =
  so_message :: string
  so_exitCode :: "int option"
  so_stdout :: string
  so_stderr :: string
  so_innerError :: exec_error

definition execShell ::
  "(string \<Rightarrow> string \<Rightarrow> exec_error option \<times> string \<times> string) \<Rightarrow> string \<Rightarrow> string \<Rightarrow> shell_out_error + string" where
  "execShell exec cmd workingDirectory =
     (case exec cmd workingDirectory of
        (Some e, out, err) \<Rightarrow>
          Inl \<lparr>so_message = xe_message e, so_exitCode = xe_code e, so_stdout = out, so_stderr = err, so_innerError = e\<rparr>
      | (None, out, err) \<Rightarrow> Inr (if out \<noteq> [] then out else err))"

definition getContributors ::
  "(string \<Rightarrow> string \<Rightarrow> exec_error option \<times> string \<times> string) \<Rightarrow> int \<Rightarrow> int \<Rightarrow> string \<Rightarrow> contributor list" where
  "getContributors exec endDate periodDays repoPath =
     (let timestampStart = getTimestampStartOfContributingDevTimeframe endDate periodDays;
          gitLogResults = runGitLog timestampStart (endDate div 1000) repoPath (execShell exec) in
      getRepoContributors (parseGitLog gitLogResults))"

section \<open>Splitting what was printed\<close>

lemma split_word_not_empty [simp]: "split_word d s \<noteq> []"
  by (cases s) (auto split: list.splits)

lemma split_lines_not_empty [simp]: "split_lines s \<noteq> []"
  by (cases s) (auto split: list.splits)

text \<open>A column ends where the delimiter begins, if the delimiter does not begin earlier.\<close>

definition clean_column :: "string \<Rightarrow> bool" where
  "clean_column f \<longleftrightarrow> \<not> js_includes (f @ butlast SERIOUS_DELIMITER) SERIOUS_DELIMITER"

lemma split_word_column:
  assumes "d \<noteq> []"
  shows "\<not> js_includes (f @ butlast d) d \<Longrightarrow> split_word d (f @ d @ rest) = f # split_word d rest"
proof (induction f)
  case Nil
  obtain c q where d: "d = c # q" using assms by (cases d) auto
  have "drop (length q) (q @ rest) = rest" by simp
  then show ?case by (simp add: d js_startsWith_iff)
next
  case (Cons c f)
  have "\<not> js_startsWith (c # f @ d @ rest) d"
  proof
    assume "js_startsWith (c # f @ d @ rest) d"
    then have pre: "take (length d) (c # f @ d @ rest) = d"
      by (simp add: js_startsWith_def)
    have whole: "c # f @ d @ rest = (c # f @ butlast d) @ last d # rest"
      using assms by (metis append.assoc append_Cons append_Nil append_butlast_last_id)
    have "take (length d) ((c # f @ butlast d) @ last d # rest) = take (length d) (c # f @ butlast d)"
      by (simp only: take_append) simp
    then have "js_startsWith (c # f @ butlast d) d"
      using pre unfolding js_startsWith_def whole by simp
    with Cons.prems show False by simp
  qed
  moreover have "\<not> js_includes (f @ butlast d) d" using Cons.prems by simp
  ultimately show ?case using Cons.IH by simp
qed

lemma split_word_last: "\<not> js_includes f d \<Longrightarrow> d \<noteq> [] \<Longrightarrow> split_word d f = [f]"
  by (induction f) auto

lemma clean_not_includes: "clean_column f \<Longrightarrow> \<not> js_includes f SERIOUS_DELIMITER"
  unfolding clean_column_def js_includes_iff by (metis append.assoc)

lemma split_lines_plain:
  "list_all (\<lambda>c. \<not> js_lt c) l \<Longrightarrow> split_lines (l @ CHR 10 # r) = l # split_lines r"
  by (induction l) (auto simp: js_lt_def)

lemma split_lines_end: "list_all (\<lambda>c. \<not> js_lt c) l \<Longrightarrow> split_lines l = [l]"
  by (induction l) (auto simp: js_lt_def)

section \<open>The log that git prints\<close>

record git_commit =
  gc_hash :: string
  gc_author :: string
  gc_email :: string
  gc_date :: string

definition git_line :: "git_commit \<Rightarrow> string" where
  "git_line g = gc_hash g @ SERIOUS_DELIMITER @ gc_author g @ SERIOUS_DELIMITER @ gc_email g @ SERIOUS_DELIMITER @ gc_date g"

definition git_log :: "git_commit list \<Rightarrow> string" where
  "git_log gs = concat (map (\<lambda>g. git_line g @ [CHR 10]) gs)"

definition one_line :: "string \<Rightarrow> bool" where
  "one_line s = list_all (\<lambda>c. \<not> js_lt c) s"

definition plain_commit :: "git_commit \<Rightarrow> bool" where
  "plain_commit g \<longleftrightarrow>
     list_all one_line [gc_hash g, gc_author g, gc_email g, gc_date g] \<and>
     list_all clean_column [gc_hash g, gc_author g, gc_email g] \<and>
     \<not> js_includes (gc_date g) SERIOUS_DELIMITER \<and>
     gc_hash g \<noteq> [] \<and> \<not> js_ws (hd (gc_hash g)) \<and> gc_date g \<noteq> [] \<and> \<not> js_ws (last (gc_date g))"

lemma one_line_append [simp]: "one_line (a @ b) \<longleftrightarrow> one_line a \<and> one_line b"
  by (simp add: one_line_def)

lemma one_line_git: "plain_commit g \<Longrightarrow> one_line (git_line g)"
  by (simp add: plain_commit_def git_line_def) (simp add: one_line_def SERIOUS_DELIMITER_def js_lt_def)

lemma parse_git_line:
  assumes "plain_commit g"
  shows "parseGitLogLine (git_line g) = \<lparr>authorEmail = Some (gc_email g), commitTimestamp = Some (gc_date g)\<rparr>"
proof -
  have d: "SERIOUS_DELIMITER \<noteq> []" by (simp add: SERIOUS_DELIMITER_def)
  have "split_word SERIOUS_DELIMITER (git_line g) = [gc_hash g, gc_author g, gc_email g, gc_date g]"
    using assms unfolding git_line_def plain_commit_def clean_column_def
    by (simp add: split_word_column [OF d] split_word_last [OF _ d])
  then show ?thesis by (simp add: parseGitLogLine_def)
qed

lemma split_lines_join:
  "ls \<noteq> [] \<Longrightarrow> list_all one_line ls \<Longrightarrow> split_lines (js_join [CHR 10] ls) = ls"
proof (induction ls rule: induct_list012)
  case (2 x)
  then show ?case by (simp add: one_line_def split_lines_end)
next
  case (3 x y zs)
  then show ?case by (simp add: one_line_def split_lines_plain)
qed simp

lemma js_trim_framed:
  assumes "s \<noteq> []" "\<not> js_ws (hd s)" "\<not> js_ws (last s)"
  shows "js_trim (s @ [CHR 10]) = s"
proof -
  have "js_trimStart (s @ [CHR 10]) = s @ [CHR 10]"
    using assms by (cases s) (auto simp: js_trimStart_def)
  moreover have "dropWhile js_ws (rev s) = rev s"
    using assms by (cases s rule: rev_cases) auto
  moreover have "js_ws (CHR 10)" by (simp add: js_ws_def)
  ultimately show ?thesis by (simp add: js_trim_def js_trimEnd_def)
qed

lemma git_log_join: "gs \<noteq> [] \<Longrightarrow> git_log gs = js_join [CHR 10] (map git_line gs) @ [CHR 10]"
  by (induction gs rule: induct_list012) (auto simp: git_log_def)

lemma git_line_ends:
  assumes "plain_commit g"
  shows "git_line g \<noteq> []" "\<not> js_ws (hd (git_line g))" "\<not> js_ws (last (git_line g))"
  using assms by (auto simp: plain_commit_def git_line_def hd_append last_append)

lemma js_join_ends:
  assumes "ls \<noteq> []" "[] \<notin> set ls"
  shows "js_join d ls \<noteq> []" "hd (js_join d ls) = hd (hd ls)" "last (js_join d ls) = last (last ls)"
  using assms by (induction d ls rule: js_join.induct) (auto simp: hd_append last_append)

lemma parse_git_log:
  assumes "list_all plain_commit gs"
  shows "parseGitLog (git_log gs) =
    map (\<lambda>g. \<lparr>authorEmail = Some (gc_email g), commitTimestamp = Some (gc_date g)\<rparr>) gs"
proof (cases "gs = []")
  case True
  then show ?thesis by (simp add: git_log_def parseGitLog_def js_trim_def js_trimStart_def js_trimEnd_def empty_stats_def)
next
  case False
  let ?ls = "map git_line gs"
  have ne: "?ls \<noteq> []" "[] \<notin> set ?ls"
    using False assms git_line_ends(1) by (fastforce simp: list_all_iff)+
  have "plain_commit (hd gs)" "plain_commit (last gs)" using False assms by (auto simp: list_all_iff)
  then have trim: "js_trim (git_log gs) = js_join [CHR 10] ?ls"
    unfolding git_log_join [OF False] using False js_join_ends [OF ne]
    by (intro js_trim_framed) (auto simp: hd_map last_map git_line_ends)
  have "list_all one_line ?ls" using assms by (auto simp: list_all_iff one_line_git)
  then have "separateLines (git_log gs) = ?ls"
    using ne by (simp add: separateLines_def trim split_lines_join)
  then show ?thesis
    using assms js_join_ends(1) [OF ne] by (auto simp: parseGitLog_def trim list_all_iff parse_git_line)
qed

lemma contributors_map:
  "getRepoContributors st =
   map (\<lambda>e. \<lparr>ct_email = e, ct_lastCommitDate = getMostRecentCommitTimestamp st e\<rparr>) (getUniqueAuthorEmails st)"
proof -
  have "fold (\<lambda>e cs. cs @ [f e]) es acc = acc @ map f es" for f :: "string option \<Rightarrow> contributor" and es acc
    by (induction es arbitrary: acc) auto
  then show ?thesis by (simp add: getRepoContributors_def)
qed

lemma most_recent_find:
  "e \<in> set (map authorEmail st) \<Longrightarrow>
   getMostRecentCommitTimestamp st e = commitTimestamp (the (find (\<lambda>gi. authorEmail gi = e) st))"
  by (induction st) auto

lemma unique_in_order_map_Some: "unique_in_order (map Some xs) = map Some (unique_in_order xs)"
proof -
  have "remdups (map Some ys) = map Some (remdups ys)" for ys :: "'a list"
    by (induction ys) auto
  then show ?thesis by (simp add: unique_in_order_def rev_map)
qed

text \<open>C31: Whoever committed in the period is found: for a log of commits whose columns are single lines without the
  delimiter, as git prints it, the contributors are the addresses of the authors, each once and in the order of
  the log, and each with the date of its first commit in the log, which is the most recent one. The period
  ends at the given time and begins the given number of days earlier.
\<close>

theorem contributors_roundtrip:
  assumes "list_all plain_commit gs"
    and "exec (git_log_command (end_ms div 1000 - days * 86400) (end_ms div 1000)) folder = (None, git_log gs, [])"
  shows "getContributors exec end_ms days folder =
    map (\<lambda>email. \<lparr>ct_email = Some email,
                  ct_lastCommitDate = Some (gc_date (the (find (\<lambda>g. gc_email g = email) gs)))\<rparr>)
      (unique_in_order (map gc_email gs))"
proof -
  let ?c = "\<lambda>g. \<lparr>authorEmail = Some (gc_email g), commitTimestamp = Some (gc_date g)\<rparr>"
  have emails: "getUniqueAuthorEmails (map ?c gs) = map Some (unique_in_order (map gc_email gs))"
    by (simp add: getUniqueAuthorEmails_def comp_def flip: unique_in_order_map_Some)
  have "getMostRecentCommitTimestamp (map ?c gs) (Some e) = Some (gc_date (the (find (\<lambda>g. gc_email g = e) gs)))"
    if "e \<in> set (map gc_email gs)" for e
    using that by (induction gs) auto
  then have "getRepoContributors (map ?c gs) =
    map (\<lambda>email. \<lparr>ct_email = Some email,
                  ct_lastCommitDate = Some (gc_date (the (find (\<lambda>g. gc_email g = email) gs)))\<rparr>)
      (unique_in_order (map gc_email gs))"
    by (simp add: contributors_map emails)
  moreover have "execShell exec (git_log_command (end_ms div 1000 - days * 86400) (end_ms div 1000)) folder =
      Inr (git_log gs)"
    using assms(2) by (simp add: execShell_def)
  ultimately show ?thesis
    using assms(1)
    by (simp add: getContributors_def getTimestampStartOfContributingDevTimeframe_def runGitLog_def parse_git_log)
qed

definition sample_commits :: "git_commit list" where
  "sample_commits =
     [\<lparr>gc_hash = ''c3'', gc_author = ''Ada'', gc_email = ''ada@x.io'', gc_date = ''2024-03-03''\<rparr>,
      \<lparr>gc_hash = ''b2'', gc_author = ''Bob'', gc_email = ''bob@x.io'', gc_date = ''2024-02-02''\<rparr>,
      \<lparr>gc_hash = ''a1'', gc_author = ''Ada'', gc_email = ''ada@x.io'', gc_date = ''2024-01-01''\<rparr>]"

lemma contributors_roundtrip_witness:
  "getContributors (\<lambda>cmd dir. (None, git_log sample_commits, [])) 1710000000000 90 ''/repo'' =
     [\<lparr>ct_email = Some ''ada@x.io'', ct_lastCommitDate = Some ''2024-03-03''\<rparr>,
      \<lparr>ct_email = Some ''bob@x.io'', ct_lastCommitDate = Some ''2024-02-02''\<rparr>]"
proof -
  have "list_all plain_commit sample_commits" by code_simp
  note contributors_roundtrip [OF this, of "\<lambda>cmd dir. (None, git_log sample_commits, [])" 1710000000000 90 "''/repo''"]
  then show ?thesis by (simp add: sample_commits_def unique_in_order_def)
qed

text \<open>A failing \<open>git\<close> is no error: nobody is reported.\<close>

lemma failed_log_no_contributors:
  assumes "\<And>cmd. fst (exec cmd folder) \<noteq> None"
  shows "getContributors exec end_ms days folder = []"
proof -
  have "execShell exec cmd folder \<noteq> Inr t" for cmd t
    using assms [of cmd] by (auto simp: execShell_def split: prod.splits option.splits)
  then have "runGitLog a b folder (execShell exec) = []" for a b
    by (auto simp: runGitLog_def split: sum.splits)
  then show ?thesis
    by (simp add: getContributors_def parseGitLog_def js_trim_def js_trimStart_def js_trimEnd_def empty_stats_def
        contributors_map getUniqueAuthorEmails_def unique_in_order_def)
qed

text \<open>
  A name that holds the delimiter shifts the columns: the address of the contributor is then a part of the name.
\<close>

lemma delimiter_in_name:
  "authorEmail (parseGitLogLine (git_line \<lparr>gc_hash = ''a1'', gc_author = ''x_VULNMAP_SEPARATOR_y'', gc_email = ''a@x.io'', gc_date = ''2024''\<rparr>))
   = Some ''y''"
  by code_simp

end
