(* ===== verification/MonitorLib.thy ===== *)
theory MonitorLib
  imports TestCommand DepTrees GitContributors
begin

text \<open>
  Sending the dependencies of a project to be monitored: \<open>src/src/lib/monitor/index.ts\<close> with its helpers
  (\<open>lib/monitor/utils.ts\<close>, \<open>lib/container/index.ts\<close>), the target a project belongs to
  (\<open>lib/project-metadata\<close>), the pruning of graphs (\<open>lib/prune.ts\<close>) and the errors of these parts.

  Parameters (\<open>mon_env\<close>): the server, \<open>git\<close>, the parsing of URLs by Node.js, \<open>decodeURIComponent\<close>, the package for
  dependency graphs, the printing of a policy and of JSON, the measured times, the machine. The requests and the
  data for analytics are the state.
\<close>

section \<open>Data\<close>

record mon_target =
  tg_remoteUrl :: "string option"
  tg_branch :: "string option"
  tg_image :: "string option"

record scanned_meta =
  sm_imageName :: "string option"
  sm_projectName :: "string option"
  sm_gradleProjectName :: "string option"
  sm_targetFile :: "string option"
  sm_targetRuntime :: "string option"
  sm_platform :: "string option"
  sm_versionBuildInfo :: json

record plugin_meta =
  pm_name :: "string option"
  pm_runtime :: "string option"
  pm_targetFile :: "string option"
  pm_packageManager :: "string option"
  pm_dockerImageId :: "string option"
  pm_allSubProjectNames :: "string list"

record mon_project =
  mp_depGraph :: "dep_graph option"
  mp_depTree :: "mon_tree option"
  mp_meta :: "scanned_meta option"
  mp_targetFile :: "string option"
  mp_packageManager :: "string option"
  mp_plugin :: "plugin_meta option"

record monitor_meta =
  mm_packageManager :: "string option"
  mm_policy_path :: "string option"
  mm_project_name :: "string option"
  mm_isDocker :: bool
  mm_prune :: bool
  mm_remote_repo_url :: "arg_value option"
  mm_targetReference :: "string option"

text \<open>The body of a request: what is known of the run and of the project, and what is monitored.\<close>

record body_meta =
  bm_method :: string
  bm_hostname :: string
  bm_id :: "string option"
  bm_ci :: bool
  bm_pid :: nat
  bm_node :: string
  bm_master :: bool
  bm_name :: "string option"
  bm_version :: "string option"
  bm_org :: "string option"
  bm_pluginName :: "string option"
  bm_pluginRuntime :: "string option"
  bm_missingDeps :: "string list option"
  bm_dockerImageId :: "string option"
  bm_dockerBaseImage :: json
  bm_dockerfileLayers :: json
  bm_projectName :: "string option"
  bm_prePruneDepCount :: "nat option"
  bm_monitorGraph :: bool
  bm_versionBuildInfo :: "string option"
  bm_gradleProjectName :: "string option"
  bm_platform :: "string option"
  bm_targetRuntime :: "string option"

record monitor_body =
  mb_meta :: body_meta
  mb_policy :: "string option"
  mb_package :: "mon_tree option"
  mb_depGraph :: "dep_graph option"
  mb_target :: "mon_target option"
  mb_targetFile :: "string option"
  mb_targetFileRelativePath :: "string option"
  mb_targetReference :: "string option"
  mb_contributors :: "contributor list option"
  mb_projectAttributes :: "project_attributes option"
  mb_tags :: "tag list option"

record mon_request =
  mq_method :: string
  mq_url :: string
  mq_authorization :: string
  mq_body :: monitor_body

record mon_world =
  mw_cli :: cli_world
  mw_requests :: "mon_request list"
  mw_lines :: "string list"

type_synonym 'a mio = "(thrown, mon_world, 'a) eff"

record mon_env =
  mv_run :: run_env
  mv_um :: um_env
  mv_server :: "mon_request \<Rightarrow> thrown + nat \<times> json"
  mv_git :: "string list \<Rightarrow> string option"
  mv_parse_url :: "string \<Rightarrow> string option \<times> string option \<times> string option"
  mv_decode :: "string \<Rightarrow> thrown + string"
  mv_countPaths :: "dep_graph \<Rightarrow> pkg \<Rightarrow> nat"
  mv_graphToTree :: "bool \<Rightarrow> dep_graph \<Rightarrow> string option \<Rightarrow> thrown + mon_tree"
  mv_treeToGraph :: "mon_tree \<Rightarrow> string option \<Rightarrow> thrown + dep_graph"
  mv_policy_text :: "policy_object \<Rightarrow> string"
  mv_stringify :: "json \<Rightarrow> string option"
  mv_toTreeTime :: "dep_graph \<Rightarrow> int"
  mv_toGraphTime :: "dep_graph \<Rightarrow> int"
  mv_hostname :: string
  mv_pid :: nat
  mv_node :: string
  mv_master :: bool
  mv_id :: "string option"
  mv_PRUNE_DEPS_THRESHOLD :: nat
  mv_MAX_PATH_COUNT :: nat

definition mon_add :: "mon_env \<Rightarrow> string \<Rightarrow> json \<Rightarrow> unit mio" where
  "mon_add en k v = (\<lambda>w. (Inr (),
     w\<lparr>mw_cli := (mw_cli w)\<lparr>cw_meta := analytics_add (re_strip (mv_run en)) k v (cw_meta (mw_cli w))\<rparr>\<rparr>))"

definition opt_json :: "string option \<Rightarrow> json" where
  "opt_json v = (case v of None \<Rightarrow> JUndef | Some t \<Rightarrow> JStr t)"

section \<open>Errors\<close>

definition InvalidRemoteUrlError :: "mon_env \<Rightarrow> thrown" where
  "InvalidRemoteUrlError en =
     custom_error (re_styles (mv_run en)) PlainError ''InvalidRemoteUrlError''
       ''Invalid argument provided for --remote-repo-url. Value must be a string.'' JUndef JUndef"

definition TooManyVulnPaths :: "mon_env \<Rightarrow> thrown" where
  "TooManyVulnPaths en =
     (let m = ''Too many vulnerable paths to process the project'' in
      with_strCode ''TOO_MANY_VULN_PATHS''
        (custom_error (re_styles (mv_run en)) PlainError ''TooManyVulnPaths'' m (JNum 413) (JStr m)))"

definition ConnectionTimeoutError :: "mon_env \<Rightarrow> thrown" where
  "ConnectionTimeoutError en =
     custom_error (re_styles (mv_run en)) PlainError ''ConnectionTimeoutError'' ''Connection timeout.'' (JNum 504)
       (JStr ''Connection timeout.'')"

definition MonitorError :: "mon_env \<Rightarrow> nat \<Rightarrow> json \<Rightarrow> thrown" where
  "MonitorError en status message =
     (let errorMessage = (if js_true message then '', response: '' @ json_text message else []);
          code = (if status = 0 then 500 else status) in
      custom_error (re_styles (mv_run en)) PlainError ''MonitorError''
        (''Server returned unexpected error for the monitor request. '' @ ''Status code: '' @ str_of_nat code @ errorMessage)
        (JNum (int status)) message)"

definition missing_api_token :: "mon_env \<Rightarrow> thrown" where
  "missing_api_token en =
     (let m = ''`vulnmap` requires an authenticated account. Please run `vulnmap auth` and try again.'' in
      with_strCode ''NO_API_TOKEN''
        (custom_error (re_styles (mv_run en)) PlainError ''MissingApiTokenError'' m (JNum 401) (JStr m)))"

definition incomplete_monitor :: "mon_env \<Rightarrow> thrown" where
  "incomplete_monitor en =
     FailedToRunTestError (mv_run en) (JStr (errorMessageWithRetry ''Your monitor request could not be completed.''))
       JUndef JUndef"

section \<open>Containers and names\<close>

definition isContainer :: "mon_project \<Rightarrow> bool" where
  "isContainer sp = truthy (Option.bind (mp_meta sp) sm_imageName)"

definition getContainerTargetFile :: "mon_project \<Rightarrow> string option" where
  "getContainerTargetFile sp = mp_targetFile sp"

definition getContainerProjectName :: "mon_project \<Rightarrow> monitor_meta \<Rightarrow> string option" where
  "getContainerProjectName sp meta =
     (if truthy (mm_project_name meta) then mm_project_name meta else Option.bind (mp_meta sp) sm_imageName)"

definition getContainerName :: "mon_project \<Rightarrow> monitor_meta \<Rightarrow> string option" where
  "getContainerName sp meta =
     (let name = (if truthy (mm_project_name meta) then mm_project_name meta
                  else Option.bind (mp_meta sp) sm_imageName) in
      if truthy (mp_targetFile sp) then Some (str_of_opt name @ '':'' @ the (mp_targetFile sp)) else name)"

definition getNameDepTree :: "mon_project \<Rightarrow> mon_tree \<Rightarrow> monitor_meta \<Rightarrow> string option" where
  "getNameDepTree sp depTree meta = (if isContainer sp then getContainerName sp meta else mt_name depTree)"

definition getNameDepGraph :: "mon_project \<Rightarrow> dep_graph \<Rightarrow> monitor_meta \<Rightarrow> string option" where
  "getNameDepGraph sp depGraph meta = (if isContainer sp then getContainerName sp meta else Some (dg_root depGraph))"

definition getMonitoredProjectName :: "mon_project \<Rightarrow> monitor_meta \<Rightarrow> string option" where
  "getMonitoredProjectName sp meta =
     (if isContainer sp then getContainerProjectName sp meta
      else if truthy (mm_project_name meta) \<and> truthy (Option.bind (mp_meta sp) sm_projectName)
      then Option.bind (mp_meta sp) sm_projectName
      else if truthy (Option.bind (mp_meta sp) sm_gradleProjectName) \<and> \<not> truthy (mm_project_name meta)
      then Option.bind (mp_meta sp) sm_gradleProjectName
      else mm_project_name meta)"

definition getMonitoredTargetFile :: "mon_project \<Rightarrow> plugin_meta \<Rightarrow> string option" where
  "getMonitoredTargetFile sp pluginMeta = (if isContainer sp then getContainerTargetFile sp else pm_targetFile pluginMeta)"

section \<open>The target of a project\<close>

definition container_target :: "bool \<Rightarrow> mon_project \<Rightarrow> mon_tree option \<Rightarrow> mon_target option" where
  "container_target isFromContainer sp packageInfo =
     (if \<not> isFromContainer then None
      else Some \<lparr>tg_remoteUrl = None, tg_branch = None,
        tg_image = or_opt (Option.bind (mp_meta sp) sm_imageName)
          (or_opt (Option.bind packageInfo mt_image) (Option.bind packageInfo mt_name))\<rparr>)"

text \<open>\<open>/(.+@)?(.+):(.+$)/\<close>\<close>

definition originRegex :: re where
  "originRegex =
     RSeqs [ROpt (RGrp 1 (RSeq (RPlus RDot) (RChr (CHR ''@'')))), RGrp 2 (RPlus RDot), RChr (CHR '':''),
            RGrp 3 (RSeq (RPlus RDot) REnd)]"

definition remote_of_origin :: "mon_env \<Rightarrow> string \<Rightarrow> string" where
  "remote_of_origin en origin =
     (let (protocol, host, pathname) = mv_parse_url en origin in
      if truthy host \<and> protocol \<in> {Some ''ssh:'', Some ''http:'', Some ''https:''}
      then ''http://'' @ the host @ (case pathname of None \<Rightarrow> [] | Some p \<Rightarrow> p)
      else
        (case re_exec False originRegex origin of
           None \<Rightarrow> origin
         | Some m \<Rightarrow>
             if truthy (re_group m 2) \<and> truthy (re_group m 3)
             then ''http://'' @ the (re_group m 2) @ ''/'' @ the (re_group m 3) else origin))"

text \<open>The two commands run in the folder of the process, for no caller names another.\<close>

definition git_target :: "mon_env \<Rightarrow> bool \<Rightarrow> mon_target option" where
  "git_target en isFromContainer =
     (if isFromContainer then None
      else
        (let origin = map_option js_trim (mv_git en [''remote'', ''get-url'', ''origin'']) in
         Some \<lparr>tg_remoteUrl = (if truthy origin then Some (remote_of_origin en (the origin)) else None),
               tg_branch = map_option js_trim (mv_git en [''rev-parse'', ''--abbrev-ref'', ''HEAD'']),
               tg_image = None\<rparr>))"

definition isGitTarget :: "mon_target option \<Rightarrow> bool" where
  "isGitTarget t = (case t of None \<Rightarrow> False | Some g \<Rightarrow> truthy (tg_branch g) \<or> truthy (tg_remoteUrl g))"

definition getInfo :: "mon_env \<Rightarrow> mon_project \<Rightarrow> monitor_meta \<Rightarrow> mon_tree option \<Rightarrow> thrown + mon_target option" where
  "getInfo en sp meta packageInfo =
     (let isFromContainer = mm_isDocker meta in
      case (case container_target isFromContainer sp packageInfo of
              Some t \<Rightarrow> Some t | None \<Rightarrow> git_target en isFromContainer) of
        None \<Rightarrow> Inr None
      | Some t \<Rightarrow>
          (case mm_remote_repo_url meta of
             None \<Rightarrow> Inr (Some t)
           | Some v \<Rightarrow>
               if \<not> arg_truthy v then Inr (Some t)
               else (case v of AStr u \<Rightarrow> Inr (Some (t\<lparr>tg_remoteUrl := Some u\<rparr>)) | _ \<Rightarrow> Inl (InvalidRemoteUrlError en))))"

section \<open>Pruning of graphs\<close>

definition countPathsToGraphRoot :: "mon_env \<Rightarrow> dep_graph \<Rightarrow> nat" where
  "countPathsToGraphRoot en g = fold (\<lambda>p acc. acc + mv_countPaths en g p) (getPkgs (dg_lib g)) 0"

definition pruneGraph :: "mon_env \<Rightarrow> dep_graph \<Rightarrow> string option \<Rightarrow> bool \<Rightarrow> dep_graph mio" where
  "pruneGraph en depGraph pmgr pruneIsRequired =
     (let prePrunePathsCount = countPathsToGraphRoot en depGraph;
          isDenseGraph = (prePrunePathsCount > mv_PRUNE_DEPS_THRESHOLD en) in
      bindE (mon_add en ''prePrunedPathsCount'' (JNum (int prePrunePathsCount))) (\<lambda>_.
        if isDenseGraph \<or> pruneIsRequired then
          bindE (lift (mv_graphToTree en True depGraph pmgr)) (\<lambda>prunedTree.
          bindE (mon_add en ''prune.graphToTreeDuration'' (JNum (mv_toTreeTime en depGraph))) (\<lambda>_.
          bindE (lift (mv_treeToGraph en prunedTree pmgr)) (\<lambda>prunedGraph.
          bindE (mon_add en ''prune.treeToGraphDuration'' (JNum (mv_toGraphTime en depGraph))) (\<lambda>_.
            let postPrunePathsCount = countPathsToGraphRoot en prunedGraph in
            bindE (mon_add en ''postPrunedPathsCount'' (JNum (int postPrunePathsCount))) (\<lambda>_.
              if postPrunePathsCount > mv_MAX_PATH_COUNT en then throw (TooManyVulnPaths en)
              else ret prunedGraph)))))
        else ret depGraph))"

section \<open>Policy and answer\<close>

definition um_thrown :: "mon_env \<Rightarrow> um_error \<Rightarrow> thrown" where
  "um_thrown en e =
     (let m = (case ue_message e of Some t \<Rightarrow> t | None \<Rightarrow> []) in
      TErr PlainError [(''name'', JStr ''Error''), (''message'', JStr m), (''stack'', JStr (st_stack (re_styles (mv_run en)) m)),
        (''code'', case ue_code e of NoCode \<Rightarrow> JUndef | NumCode n \<Rightarrow> JNum n | StrCode t \<Rightarrow> JStr t)])"

text \<open>The policy of the folder; what its search adds to the analytics is added here.\<close>

definition monitored_policy ::
  "mon_env \<Rightarrow> string \<Rightarrow> string \<Rightarrow> string option \<Rightarrow> mon_tree option \<Rightarrow> string option \<Rightarrow> policy_object option mio" where
  "monitored_policy en root scan_kind policyPath pkg folder =
     (let (r, u) = findAndLoadPolicy (mv_um en) root scan_kind policyPath (map_option policy_tree pkg) folder
            \<lparr>um_sent = [], um_waits = [], um_analytics = []\<rparr> in
      bindE (mapE (\<lambda>(k, v). mon_add en k v) (um_analytics u)) (\<lambda>_.
        case r of Inl e \<Rightarrow> throw (um_thrown en e) | Inr p \<Rightarrow> ret p))"

definition add_branch :: "mon_env \<Rightarrow> mon_target option \<Rightarrow> unit mio" where
  "add_branch en t =
     (if isGitTarget t \<and> truthy (tg_branch (the t))
      then mon_add en ''targetBranch'' (opt_json (tg_branch (the t))) else ret ())"

text \<open>What the three ways of monitoring share: \<open>makeRequest\<close>, and reading the answer.\<close>

definition monitor_answer :: "mon_env \<Rightarrow> nat \<times> json \<Rightarrow> thrown + json" where
  "monitor_answer en ans =
     (let (status, body) = ans in
      if 200 \<le> status \<and> status \<le> 299 then Inr body
      else
        (let userMessage = (if js_true body then field_opt body ''userMessage'' else body) in
         if \<not> js_true userMessage \<and> status = 504 then Inl (ConnectionTimeoutError en)
         else Inl (MonitorError en status userMessage)))"

definition send_monitor :: "mon_env \<Rightarrow> string \<Rightarrow> monitor_body \<Rightarrow> json mio" where
  "send_monitor en url body =
     (let q = \<lparr>mq_method = ''PUT'', mq_url = url, mq_authorization = getAuthHeader (re_poll (mv_run en)), mq_body = body\<rparr> in
      (\<lambda>w. (case mv_server en q of Inl e \<Rightarrow> Inl e | Inr ans \<Rightarrow> monitor_answer en ans,
            w\<lparr>mw_requests := mw_requests w @ [q]\<rparr>)))"

definition monitored_org :: "mon_env \<Rightarrow> thrown + string option" where
  "monitored_org en =
     (case pe_org (re_poll (mv_run en)) of
        Some t \<Rightarrow> if t = [] then Inr None else map_sum id Some (mv_decode en t)
      | None \<Rightarrow> Inr None)"

text \<open>What every body says of the run, of the plugin and of the names.\<close>

definition common_meta ::
  "mon_env \<Rightarrow> string option \<Rightarrow> string option \<Rightarrow> string option \<Rightarrow> plugin_meta \<Rightarrow> string option \<Rightarrow> bool \<Rightarrow> string option \<Rightarrow> body_meta" where
  "common_meta en fallback_id name org pluginMeta projectName monitorGraph version =
     \<lparr>bm_method = ''cli'', bm_hostname = mv_hostname en, bm_id = or_opt (mv_id en) fallback_id,
      bm_ci = isCI (re_poll (mv_run en)), bm_pid = mv_pid en, bm_node = mv_node en, bm_master = mv_master en,
      bm_name = name, bm_version = version, bm_org = org, bm_pluginName = pm_name pluginMeta,
      bm_pluginRuntime = pm_runtime pluginMeta, bm_missingDeps = None, bm_dockerImageId = None,
      bm_dockerBaseImage = JUndef, bm_dockerfileLayers = JUndef, bm_projectName = projectName,
      bm_prePruneDepCount = None, bm_monitorGraph = monitorGraph, bm_versionBuildInfo = None,
      bm_gradleProjectName = None, bm_platform = None, bm_targetRuntime = None\<rparr>"

definition docker_field :: "mon_tree \<Rightarrow> string \<Rightarrow> json" where
  "docker_field t k = (if js_true (mt_docker t) then field_opt (mt_docker t) k else JUndef)"

definition version_info :: "mon_env \<Rightarrow> mon_project \<Rightarrow> string option" where
  "version_info en sp = mv_stringify en (case mp_meta sp of None \<Rightarrow> JUndef | Some m \<Rightarrow> sm_versionBuildInfo m)"

text \<open>What the caller gives beside the project.\<close>

record monitor_args =
  ma_root :: string
  ma_meta :: monitor_meta
  ma_plugin :: plugin_meta
  ma_options :: option_obj
  ma_targetFileRelativePath :: "string option"
  ma_contributors :: "contributor list option"
  ma_projectAttributes :: "project_attributes option"
  ma_tags :: "tag list option"

definition policy_path_of :: "option_obj \<Rightarrow> string option" where
  "policy_path_of opts = (case obj_get opts ''policy-path'' of Some (AStr s) \<Rightarrow> Some s | _ \<Rightarrow> None)"

definition target_dir :: "monitor_args \<Rightarrow> string option" where
  "target_dir a =
     (if truthy (ma_targetFileRelativePath a) then Some (fst (path_parse (the (ma_targetFileRelativePath a)))) else None)"

definition monitor_scan_type :: "monitor_args \<Rightarrow> string" where
  "monitor_scan_type a =
     (if mm_isDocker (ma_meta a) then ''docker'' else str_of_opt (mm_packageManager (ma_meta a)))"

definition body_of ::
  "mon_env \<Rightarrow> monitor_args \<Rightarrow> mon_project \<Rightarrow> body_meta \<Rightarrow> policy_object option \<Rightarrow> mon_target option \<Rightarrow> monitor_body" where
  "body_of en a sp meta pol target =
     \<lparr>mb_meta = meta, mb_policy = map_option (mv_policy_text en) pol, mb_package = None, mb_depGraph = None,
      mb_target = target, mb_targetFile = getMonitoredTargetFile sp (ma_plugin a),
      mb_targetFileRelativePath = ma_targetFileRelativePath a,
      mb_targetReference = mm_targetReference (ma_meta a), mb_contributors = ma_contributors a,
      mb_projectAttributes = ma_projectAttributes a, mb_tags = ma_tags a\<rparr>"

definition monitor_url :: "mon_env \<Rightarrow> monitor_args \<Rightarrow> string" where
  "monitor_url en a = pe_api (re_poll (mv_run en)) @ ''/monitor/'' @ str_of_opt (mm_packageManager (ma_meta a))"

section \<open>Three ways of monitoring\<close>

definition node_project :: "monitor_args \<Rightarrow> bool" where
  "node_project a \<longleftrightarrow> mm_packageManager (ma_meta a) \<in> {Some ''npm'', Some ''yarn''}"

definition monitorDepTree :: "mon_env \<Rightarrow> monitor_args \<Rightarrow> mon_project \<Rightarrow> json mio" where
  "monitorDepTree en a sp =
     (case mp_depTree sp of
        None \<Rightarrow> throw (incomplete_monitor en)
      | Some depTree \<Rightarrow>
          bindE (if mm_prune (ma_meta a) then
                   (let prePruneDepCount = countTotalDependenciesInTree depTree in
                    bindE (mon_add en ''prePruneDepCount'' (JNum (int prePruneDepCount))) (\<lambda>_.
                    bindE (lift (pruneTree (mv_treeToGraph en) (mv_graphToTree en True) depTree
                        (mm_packageManager (ma_meta a)))) (\<lambda>pruned.
                      ret (pruned, Some prePruneDepCount))))
                 else ret (depTree, None)) (\<lambda>(depTree1, prePruneDepCount).
          let (depTree2, treeMissingDeps) =
                (if node_project a then filterOutMissingDeps depTree1 else (depTree1, [])) in
          bindE (monitored_policy en (ma_root a) (monitor_scan_type a) (policy_path_of (ma_options a)) (Some depTree2)
              (target_dir a)) (\<lambda>pol.
          bindE (lift (getInfo en sp (ma_meta a) (Some depTree2))) (\<lambda>target.
          bindE (add_branch en target) (\<lambda>_.
          bindE (lift (monitored_org en)) (\<lambda>org.
            let depTree3 = dropEmptyDeps depTree2;
                meta = common_meta en (mt_name depTree3) (getNameDepTree sp depTree3 (ma_meta a)) org (ma_plugin a)
                  (getMonitoredProjectName sp (ma_meta a)) False (mt_version depTree3) in
            send_monitor en (monitor_url en a)
              ((body_of en a sp
                  (meta\<lparr>bm_missingDeps := Some treeMissingDeps, bm_dockerImageId := pm_dockerImageId (ma_plugin a),
                     bm_dockerBaseImage := docker_field depTree3 ''baseImage'',
                     bm_dockerfileLayers := docker_field depTree3 ''dockerfileLayers'',
                     bm_prePruneDepCount := prePruneDepCount, bm_versionBuildInfo := version_info en sp,
                     bm_gradleProjectName := Option.bind (mp_meta sp) sm_gradleProjectName,
                     bm_platform := Option.bind (mp_meta sp) sm_platform\<rparr>)
                  pol target)\<lparr>mb_package := Some depTree3\<rparr>)))))))"

definition monitorDepGraph :: "mon_env \<Rightarrow> monitor_args \<Rightarrow> mon_project \<Rightarrow> json mio" where
  "monitorDepGraph en a sp =
     bindE (mon_add en ''monitorDepGraph'' (JBool True)) (\<lambda>_.
       case mp_depGraph sp of
         None \<Rightarrow> throw (FailedToRunTestError (mv_run en) (JStr ''Your monitor request could not be completed. '') JUndef JUndef)
       | Some depGraph \<Rightarrow>
           bindE (monitored_policy en (ma_root a) (monitor_scan_type a) (policy_path_of (ma_options a)) None (target_dir a)) (\<lambda>pol.
           bindE (lift (getInfo en sp (ma_meta a) None)) (\<lambda>target.
           bindE (add_branch en target) (\<lambda>_.
           bindE (pruneGraph en depGraph (mm_packageManager (ma_meta a))
               (option_set (ma_options a) ''pruneRepeatedSubdependencies'')) (\<lambda>g.
           bindE (lift (monitored_org en)) (\<lambda>org.
             let meta = common_meta en (Some (dg_root g)) (getNameDepGraph sp g (ma_meta a)) org (ma_plugin a)
                   (getMonitoredProjectName sp (ma_meta a)) True (dg_root_version g) in
             send_monitor en (monitor_url en a @ ''/graph'')
               ((body_of en a sp
                   (meta\<lparr>bm_versionBuildInfo := version_info en sp,
                      bm_gradleProjectName := Option.bind (mp_meta sp) sm_gradleProjectName,
                      bm_targetRuntime := Option.bind (mp_meta sp) sm_targetRuntime\<rparr>)
                   pol target)\<lparr>mb_depGraph := Some g\<rparr>)))))))"

definition monitorDepGraphFromDepTree :: "mon_env \<Rightarrow> monitor_args \<Rightarrow> mon_project \<Rightarrow> json mio" where
  "monitorDepGraphFromDepTree en a sp =
     (case mp_depTree sp of
        None \<Rightarrow> throw (FailedToRunTestError (mv_run en)
          (JStr (errorMessageWithRetry ''Your monitor request could not be completed'')) JUndef JUndef)
      | Some depTree \<Rightarrow>
          bindE (monitored_policy en (ma_root a) (monitor_scan_type a) (policy_path_of (ma_options a)) (Some depTree)
              (target_dir a)) (\<lambda>pol.
          let (depTree1, treeMissingDeps) =
                (if node_project a then map_prod id Some (filterOutMissingDeps depTree) else (depTree, None)) in
          bindE (lift (mv_treeToGraph en depTree1 (mm_packageManager (ma_meta a)))) (\<lambda>depGraph.
          bindE (lift (getInfo en sp (ma_meta a) (Some depTree1))) (\<lambda>target.
          bindE (add_branch en target) (\<lambda>_.
          bindE (if mm_prune (ma_meta a)
                 then bindE (pruneGraph en depGraph (mm_packageManager (ma_meta a)) True) (\<lambda>pruned.
                   ret (pruned, Some (countPathsToGraphRoot en depGraph)))
                 else ret (depGraph, None)) (\<lambda>(prunedGraph, prePruneDepCount).
          bindE (lift (monitored_org en)) (\<lambda>org.
            let meta = common_meta en (mt_name depTree1) (getNameDepGraph sp depGraph (ma_meta a)) org (ma_plugin a)
                  (getMonitoredProjectName sp (ma_meta a)) True (dg_root_version depGraph) in
            send_monitor en (monitor_url en a @ ''/graph'')
              ((body_of en a sp
                  (meta\<lparr>bm_dockerImageId := pm_dockerImageId (ma_plugin a),
                     bm_dockerBaseImage := docker_field depTree1 ''baseImage'',
                     bm_dockerfileLayers := docker_field depTree1 ''dockerfileLayers'',
                     bm_prePruneDepCount := prePruneDepCount, bm_missingDeps := treeMissingDeps\<rparr>)
                  pol target)\<lparr>mb_depGraph := Some prunedGraph\<rparr>))))))))"

definition monitor_project :: "mon_env \<Rightarrow> monitor_args \<Rightarrow> mon_project \<Rightarrow> json mio" where
  "monitor_project en a sp =
     (case apiOrOAuthTokenExists (re_poll (mv_run en)) of
        Inl e \<Rightarrow> throw (missing_api_token en)
      | Inr t \<Rightarrow>
          (let pmgr = mm_packageManager (ma_meta a) in
           bindE (mon_add en ''packageManager'' (opt_json pmgr)) (\<lambda>_.
           bindE (mon_add en ''isDocker'' (JBool (mm_isDocker (ma_meta a)))) (\<lambda>_.
             if mp_depGraph sp \<noteq> None then monitorDepGraph en a sp
             else if pmgr \<in> Some ` manager_str ` set graph_supported
             then monitorDepGraphFromDepTree en a sp
             else monitorDepTree en a sp))))"

section \<open>One request\<close>

definition silent :: "'a mio \<Rightarrow> bool" where
  "silent m \<longleftrightarrow> (\<forall>w. mw_requests (snd (m w)) = mw_requests w)"

text \<open>What a request for monitoring looks like: a tree, or a graph at the address for graphs, never both.\<close>

definition well_formed_request :: "mon_env \<Rightarrow> monitor_args \<Rightarrow> mon_request \<Rightarrow> bool" where
  "well_formed_request en a q \<longleftrightarrow>
     mq_method q = ''PUT'' \<and> mq_authorization q = getAuthHeader (re_poll (mv_run en)) \<and>
     (if mb_depGraph (mq_body q) = None
      then mb_package (mq_body q) \<noteq> None \<and> mq_url q = monitor_url en a
      else mb_package (mq_body q) = None \<and> mq_url q = monitor_url en a @ ''/graph'') \<and>
     bm_monitorGraph (mb_meta (mq_body q)) = (mb_depGraph (mq_body q) \<noteq> None) \<and>
     mb_tags (mq_body q) = ma_tags a \<and> mb_projectAttributes (mq_body q) = ma_projectAttributes a"

definition sender :: "mon_env \<Rightarrow> monitor_args \<Rightarrow> json mio \<Rightarrow> bool" where
  "sender en a m \<longleftrightarrow>
     (\<forall>w. (\<exists>e. fst (m w) = Inl e) \<and> mw_requests (snd (m w)) = mw_requests w \<or>
          (\<exists>q. well_formed_request en a q \<and> mw_requests (snd (m w)) = mw_requests w @ [q] \<and>
               fst (m w) = bindS (mv_server en q) (monitor_answer en)))"

lemma silent_ret [simp]: "silent (ret x)"
  by (simp add: silent_def ret_def)

lemma silent_throw [simp]: "silent (throw e)"
  by (simp add: silent_def throw_def)

lemma silent_lift [simp]: "silent (lift r)"
  by (simp add: silent_def lift_def)

lemma silent_mon_add [simp]: "silent (mon_add en k v)"
  by (simp add: silent_def mon_add_def)

lemma silent_bindE [intro]: "silent m \<Longrightarrow> (\<And>x. silent (f x)) \<Longrightarrow> silent (bindE m f)"
  by (auto simp: silent_def bindE_def split: prod.splits sum.splits) (metis snd_conv)+

lemma silent_mapE: "(\<And>x. silent (f x)) \<Longrightarrow> silent (mapE f xs)"
  by (induction xs) (auto intro!: silent_bindE)

lemma silent_add_branch [simp]: "silent (add_branch en t)"
  by (simp add: add_branch_def)

lemma silent_monitored_policy [simp]: "silent (monitored_policy en root k p t f)"
  by (auto simp: monitored_policy_def split_beta intro!: silent_bindE silent_mapE split: sum.splits)

lemma silent_pruneGraph [simp]: "silent (pruneGraph en g pm b)"
  by (auto simp: pruneGraph_def Let_def intro!: silent_bindE)

lemma sender_throw [simp]: "sender en a (throw e)"
  by (simp add: sender_def throw_def)

lemma sender_bindE:
  assumes "silent m" and "\<And>x. sender en a (f x)"
  shows "sender en a (bindE m f)"
  unfolding sender_def
proof
  fix w
  obtain r w' where m: "m w = (r, w')" by (cases "m w")
  have same: "mw_requests w' = mw_requests w" using assms(1) m unfolding silent_def by (metis snd_conv)
  show "(\<exists>e. fst (bindE m f w) = Inl e) \<and> mw_requests (snd (bindE m f w)) = mw_requests w \<or>
        (\<exists>q. well_formed_request en a q \<and> mw_requests (snd (bindE m f w)) = mw_requests w @ [q] \<and>
             fst (bindE m f w) = bindS (mv_server en q) (monitor_answer en))"
  proof (cases r)
    case (Inl e)
    then show ?thesis using m same by (simp add: bindE_def)
  next
    case (Inr x)
    have "bindE m f w = f x w'" using m Inr by (simp add: bindE_def)
    then show ?thesis using assms(2) [of x] same unfolding sender_def by metis
  qed
qed

lemma sender_send:
  assumes "\<And>auth. well_formed_request en a
      \<lparr>mq_method = ''PUT'', mq_url = url, mq_authorization = getAuthHeader (re_poll (mv_run en)), mq_body = body\<rparr>"
  shows "sender en a (send_monitor en url body)"
  using assms unfolding sender_def send_monitor_def Let_def bindS_def
  by (auto split: sum.splits)

lemma sender_monitorDepTree: "sender en a (monitorDepTree en a sp)"
  unfolding monitorDepTree_def Let_def
  by (auto intro!: sender_bindE sender_send silent_bindE split: option.splits prod.splits
      simp: well_formed_request_def body_of_def common_meta_def)

lemma sender_monitorDepGraph: "sender en a (monitorDepGraph en a sp)"
  unfolding monitorDepGraph_def Let_def
  by (auto intro!: sender_bindE sender_send silent_bindE split: option.splits prod.splits
      simp: well_formed_request_def body_of_def common_meta_def)

lemma sender_monitorDepGraphFromDepTree: "sender en a (monitorDepGraphFromDepTree en a sp)"
  unfolding monitorDepGraphFromDepTree_def Let_def
  by (auto intro!: sender_bindE sender_send silent_bindE split: option.splits prod.splits
      simp: well_formed_request_def body_of_def common_meta_def)

lemma sender_monitor_project: "sender en a (monitor_project en a sp)"
  unfolding monitor_project_def Let_def
  by (auto intro!: sender_bindE split: sum.splits
      simp: sender_monitorDepTree sender_monitorDepGraph sender_monitorDepGraphFromDepTree)

lemma err_get_pairs: "err_get (TErr c ps) k = (case obj_get ps k of Some v \<Rightarrow> v | None \<Rightarrow> JUndef)"
  by (simp add: err_get_def)

lemma monitor_answer_cases:
  "case monitor_answer en (status, body) of
     Inr v \<Rightarrow> v = body \<and> 200 \<le> status \<and> status \<le> 299
   | Inl e \<Rightarrow> err_get e ''code'' = JNum (int status) \<and> (status < 200 \<or> 299 < status)"
  by (auto simp: monitor_answer_def Let_def ConnectionTimeoutError_def MonitorError_def custom_error_def
      err_get_pairs)

text \<open>C33: Monitoring a project sends at most one request, and only one that is well formed: with \<open>PUT\<close>, the
  authorization, the tags and attributes that were asked for, and a tree, or a graph at the address for graphs.
  When none is sent, the project fails. When one is sent, the outcome is that of the server: the body of an
  answer with a status from 200 to 299, and otherwise an error that has the status as its code.
\<close>

theorem monitor_sends_once:
  "case monitor_project en a sp w of (r, w') \<Rightarrow>
     (\<exists>e. r = Inl e) \<and> mw_requests w' = mw_requests w \<or>
     (\<exists>q. well_formed_request en a q \<and> mw_requests w' = mw_requests w @ [q] \<and>
        (case mv_server en q of
           Inl e \<Rightarrow> r = Inl e
         | Inr (status, body) \<Rightarrow>
             if 200 \<le> status \<and> status \<le> 299 then r = Inr body
             else \<exists>e. r = Inl e \<and> err_get e ''code'' = JNum (int status)))"
proof -
  obtain r w' where m: "monitor_project en a sp w = (r, w')" by (cases "monitor_project en a sp w")
  from sender_monitor_project [of en a sp] consider
      "\<exists>e. r = Inl e" "mw_requests w' = mw_requests w"
    | q where "well_formed_request en a q" "mw_requests w' = mw_requests w @ [q]"
        "r = bindS (mv_server en q) (monitor_answer en)"
    unfolding sender_def by (metis m fst_conv snd_conv)
  then show ?thesis
  proof cases
    case 1
    then show ?thesis using m by simp
  next
    case (2 q)
    have "case mv_server en q of Inl e \<Rightarrow> r = Inl e
         | Inr (status, body) \<Rightarrow>
             if 200 \<le> status \<and> status \<le> 299 then r = Inr body
             else \<exists>e. r = Inl e \<and> err_get e ''code'' = JNum (int status)"
    proof (cases "mv_server en q")
      case (Inl e)
      then show ?thesis using 2(3) by (simp add: bindS_def)
    next
      case (Inr ans)
      obtain status body where ans: "ans = (status, body)" by (cases ans)
      have r: "r = monitor_answer en (status, body)" using 2(3) Inr ans by (simp add: bindS_def)
      show ?thesis
        using monitor_answer_cases [where en = en and status = status and body = body] Inr ans
        unfolding r by (cases "monitor_answer en (status, body)") auto
    qed
    with 2(1,2) show ?thesis unfolding m prod.case by blast
  qed
qed

lemma mon_add_bind: "bindE (mon_add en k v) f w = (r, w') \<Longrightarrow> \<exists>w1. f () w1 = (r, w')"
  by (simp add: bindE_def mon_add_def) blast

lemma lift_bind_ok: "bindE (lift m) f w = (Inr r, w') \<Longrightarrow> \<exists>x. f x w = (Inr r, w')"
  by (cases m) (auto simp: bindE_def lift_def)

text \<open>The graph that is sent after pruning is never too large: a graph with more paths than the first limit is
  pruned, and what is left of it, or of a graph that had to be pruned anyway, has at most as many paths as the
  second one; otherwise the project fails.
\<close>

theorem pruned_graph_bounded:
  assumes "pruneGraph en g pm required w = (Inr g', w')"
    and "mv_PRUNE_DEPS_THRESHOLD en \<le> mv_MAX_PATH_COUNT en"
  shows "countPathsToGraphRoot en g' \<le> mv_MAX_PATH_COUNT en"
  using assms unfolding pruneGraph_def Let_def
  by (auto dest!: mon_add_bind lift_bind_ok split: if_splits)

text \<open>An address of a repository in the form of \<open>scp\<close>, and a local path that is taken for one.\<close>

lemma remote_examples:
  assumes "mv_parse_url en ''git@h.io:a/b'' = (None, None, Some ''git@h.io:a/b'')"
    and "mv_parse_url en ''C:/work/repo'' = (Some ''c:'', None, Some ''/work/repo'')"
  shows "remote_of_origin en ''git@h.io:a/b'' = ''http://h.io/a/b''"
    and "remote_of_origin en ''C:/work/repo'' = ''http://C//work/repo''"
proof -
  have "re_group (the (re_exec False originRegex ''git@h.io:a/b'')) 2 = Some ''h.io'' \<and>
      re_group (the (re_exec False originRegex ''git@h.io:a/b'')) 3 = Some ''a/b'' \<and>
      re_exec False originRegex ''git@h.io:a/b'' \<noteq> None" by code_simp
  then show "remote_of_origin en ''git@h.io:a/b'' = ''http://h.io/a/b''"
    using assms(1) by (auto simp: remote_of_origin_def)
  have "re_group (the (re_exec False originRegex ''C:/work/repo'')) 2 = Some ''C'' \<and>
      re_group (the (re_exec False originRegex ''C:/work/repo'')) 3 = Some ''/work/repo'' \<and>
      re_exec False originRegex ''C:/work/repo'' \<noteq> None" by code_simp
  then show "remote_of_origin en ''C:/work/repo'' = ''http://C//work/repo''"
    using assms(2) by (auto simp: remote_of_origin_def)
qed

section \<open>Samples\<close>

definition sample_mon_env :: mon_env where
  "sample_mon_env =
     \<lparr>mv_run = sample_run_env (\<lambda>_ _. Inl (TVal JNull)), mv_um = sample_um_env (\<lambda>n q. Inr (200, JNull)),
      mv_server = (\<lambda>q. Inr (200, JObj [(''id'', JStr ''p1'')])), mv_git = (\<lambda>c. None),
      mv_parse_url = (\<lambda>u. (None, None, None)), mv_decode = Inr, mv_countPaths = (\<lambda>g p. 3),
      mv_graphToTree = (\<lambda>b g pm. Inl (TVal JNull)), mv_treeToGraph = (\<lambda>t pm. Inl (TVal JNull)),
      mv_policy_text = (\<lambda>p. []), mv_stringify = (\<lambda>v. None), mv_toTreeTime = (\<lambda>g. 1), mv_toGraphTime = (\<lambda>g. 1),
      mv_hostname = ''host'', mv_pid = 1, mv_node = ''18.0.0'', mv_master = False, mv_id = None,
      mv_PRUNE_DEPS_THRESHOLD = 40000, mv_MAX_PATH_COUNT = 1500000\<rparr>"

definition sample_graph :: dep_graph where
  "sample_graph =
     \<lparr>dg_lib = \<lparr>lib_pkgs = obj_values, lib_issues = obj_values, pkgPathsToRoot = (\<lambda>p. []),
        getPkgs = [\<lparr>pkg_name = ''a'', pkg_version = None\<rparr>, \<lparr>pkg_name = ''b'', pkg_version = None\<rparr>]\<rparr>,
      dg_pkgManager = Some ''npm'', dg_root = ''a'', dg_root_version = None\<rparr>"

definition sample_mon_world :: mon_world where
  "sample_mon_world = \<lparr>mw_cli = sample_cli_world [], mw_requests = [], mw_lines = []\<rparr>"

lemma pruned_graph_bounded_witness: "countPathsToGraphRoot sample_mon_env sample_graph \<le> 1500000"
proof -
  have "\<exists>w'. pruneGraph sample_mon_env sample_graph (Some ''npm'') False sample_mon_world = (Inr sample_graph, w')"
    by (simp add: pruneGraph_def bindE_def mon_add_def sample_mon_env_def sample_graph_def countPathsToGraphRoot_def)
  then obtain w' where "pruneGraph sample_mon_env sample_graph (Some ''npm'') False sample_mon_world = (Inr sample_graph, w')" ..
  from pruned_graph_bounded [OF this] show ?thesis by (simp add: sample_mon_env_def)
qed

end
