(* ===== verification/PluginDeps.thy ===== *)
theory PluginDeps
  imports MonitorLib FindFiles
begin

text \<open>
  How the dependencies of a folder are found: \<open>src/src/lib/plugins\<close>. \<open>get-deps-from-plugin.ts\<close> looks for manifests or
  asks one plugin, \<open>get-multi-plugin-result.ts\<close> takes the workspaces of Yarn and npm together
  (\<open>nodejs-plugin/*-workspaces-parser.ts\<close>) and asks a plugin for every other manifest, and the
  \<open>convert-*\<close> manifests bring the answers into one form. Of the plugins, that for Node.js
  (\<open>nodejs-plugin\<close>) is here.

  Parameters (\<open>plug_env\<close>): the plugins that are packages of their own, the package that parses lock manifests and the
  one that resolves installed modules, \<open>micromatch\<close>, \<open>lodash\<close> (\<open>ff_lib\<close>). The options of the plugin are
  changed where the code changes them. An option whose value is no text is taken as absent where a text is needed.
\<close>

section \<open>Answers of plugins\<close>

datatype inspect_result =
    SinglePackage plugin_meta "mon_tree option" "dep_graph option" "scanned_meta option"
  | MultiProject plugin_meta "mon_project list"

record failed_scan =
  fs_targetFile :: "string option"
  fs_error :: thrown
  fs_errMessage :: string

record multi_result =
  mr_plugin :: plugin_meta
  mr_scannedProjects :: "mon_project list"
  mr_failedResults :: "failed_scan list option"

datatype lock_version = NpmLockV1 | NpmLockV2 | NpmLockV3 | YarnLockV1 | YarnLockV2 | OtherLock

record parse_options =
  ps_includeDevDeps :: bool
  ps_includeOptionalDeps :: bool
  ps_includePeerDeps :: bool
  ps_strictOutOfSync :: bool
  ps_isRoot :: "bool option"
  ps_rootResolutions :: json

record plug_env =
  pg_mon :: mon_env
  pg_main :: main_env
  pg_ff :: ff_lib
  pg_external :: "string \<Rightarrow> string \<Rightarrow> string option \<Rightarrow> option_obj \<Rightarrow> pworld \<Rightarrow> thrown + inspect_result"
  pg_rubygems :: "string \<Rightarrow> string \<Rightarrow> option_obj \<Rightarrow> pworld \<Rightarrow> thrown + inspect_result"
  pg_lockVersion :: "string \<Rightarrow> thrown + lock_version"
  pg_parseLock :: "lock_version \<Rightarrow> string \<Rightarrow> string \<Rightarrow> parse_options \<Rightarrow> thrown + dep_graph"
  pg_buildTree :: "string \<Rightarrow> string \<Rightarrow> string \<Rightarrow> bool \<Rightarrow> bool \<Rightarrow> pworld \<Rightarrow> thrown + mon_tree"
  pg_resolveDeps :: "string \<Rightarrow> option_obj \<Rightarrow> pworld \<Rightarrow> thrown + mon_tree"
  pg_yarnWorkspaces :: "string \<Rightarrow> thrown + string list"
  pg_isMatch :: "string \<Rightarrow> string list \<Rightarrow> bool"
  pg_json_error :: thrown
  pg_fs_error :: "string \<Rightarrow> string \<Rightarrow> thrown"
  pg_type_error :: thrown

definition pg_pe :: "plug_env \<Rightarrow> penv" where
  "pg_pe en = me_penv (pg_main en)"

definition pg_styles :: "plug_env \<Rightarrow> styles" where
  "pg_styles en = me_styles (pg_main en)"

definition pg_plain :: "plug_env \<Rightarrow> string \<Rightarrow> thrown" where
  "pg_plain en m = plain_error (pg_main en) m"

definition get_fs :: "pworld mio" where
  "get_fs = (\<lambda>w. (Inr (cw_fs (mw_cli w)), w))"

definition print_line :: "string \<Rightarrow> unit mio" where
  "print_line t = (\<lambda>w. (Inr (), w\<lparr>mw_lines := mw_lines w @ [t]\<rparr>))"

definition opt_text :: "option_obj \<Rightarrow> string \<Rightarrow> string option" where
  "opt_text opts k = (case obj_get opts k of Some (AStr s) \<Rightarrow> Some s | _ \<Rightarrow> None)"

definition set_text :: "string \<Rightarrow> string option \<Rightarrow> option_obj \<Rightarrow> option_obj" where
  "set_text k v opts = (case v of Some s \<Rightarrow> obj_set k (AStr s) opts | None \<Rightarrow> obj_delete k opts)"

definition detect_thrown :: "plug_env \<Rightarrow> detect_error \<Rightarrow> thrown" where
  "detect_thrown en e =
     (case e of
        FileNotFound f \<Rightarrow> pg_plain en (''Could not find the specified file: '' @ f @ [CHR 10] @
          ''Please check that it exists and try again.'')
      | NoManagerForFile f \<Rightarrow> pg_plain en (''Could not detect package manager for file: '' @ f)
      | NoSupportedManifestsFound locs \<Rightarrow> NoSupportedManifestsFoundError (pg_styles en) locs)"

primrec find_thrown :: "plug_env \<Rightarrow> find_error \<Rightarrow> thrown" where
  "find_thrown en (FF_type_error t) = pg_type_error en"
| "find_thrown en (FF_fs_error code p) = pg_fs_error en code p"
| "find_thrown en (FF_error p e) =
     pg_plain en (''Error finding manifests in path '' @ [CHR 0x27] @ p @ [CHR 0x27] @ ''.'' @ [CHR 10] @
       json_text (err_get (find_thrown en e) ''message''))"

text \<open>\<open>getFileContents\<close>\<close>

definition getFileContents :: "plug_env \<Rightarrow> pworld \<Rightarrow> string \<Rightarrow> string \<Rightarrow> thrown + string" where
  "getFileContents en w root fileName =
     (let fullPath = resolve (pg_pe en) [root, fileName] in
      if \<not> existsSync w fullPath
      then Inl (pg_plain en (''Manifest '' @ fileName @ '' not found at location: '' @ fileName))
      else map_sum (me_fs_error (pg_main en)) id (read_text w fullPath))"

section \<open>One form for all answers\<close>

definition empty_plugin :: plugin_meta where
  "empty_plugin = \<lparr>pm_name = None, pm_runtime = None, pm_targetFile = None, pm_packageManager = None,
     pm_dockerImageId = None, pm_allSubProjectNames = []\<rparr>"

definition convertScannedProjectsToCustom ::
  "mon_project list \<Rightarrow> plugin_meta \<Rightarrow> string option \<Rightarrow> string option \<Rightarrow> mon_project list" where
  "convertScannedProjectsToCustom projects pluginMeta pmgr tf =
     map (\<lambda>a. a\<lparr>mp_plugin := (case mp_plugin a of None \<Rightarrow> Some pluginMeta | Some p \<Rightarrow> Some p),
                mp_targetFile := or_opt (mp_targetFile a) tf,
                mp_packageManager := or_opt (mp_packageManager a) pmgr\<rparr>) projects"

definition convertMultiResultToMultiCustom ::
  "plugin_meta \<Rightarrow> mon_project list \<Rightarrow> string option \<Rightarrow> string option \<Rightarrow> multi_result" where
  "convertMultiResultToMultiCustom plugin projects pmgr tf =
     \<lparr>mr_plugin = plugin,
      mr_scannedProjects = convertScannedProjectsToCustom projects plugin
        (or_opt (pm_packageManager plugin) pmgr) tf,
      mr_failedResults = None\<rparr>"

definition with_targetFile :: "string option \<Rightarrow> mon_tree \<Rightarrow> mon_tree" where
  "with_targetFile f t =
     (if truthy (mt_targetFile t) then t
      else MonTree (mt_name t) (mt_version t) (mt_policy t) (mt_missing t) (mt_missing_label t) (mt_docker t)
             (mt_image t) f (mt_dependencies t))"

definition convertSingleResultToMultiCustom ::
  "plugin_meta \<Rightarrow> mon_tree option \<Rightarrow> dep_graph option \<Rightarrow> scanned_meta option \<Rightarrow> string option \<Rightarrow> multi_result" where
  "convertSingleResultToMultiCustom plugin depTree depGraph meta pmgr =
     (let pm = (if truthy pmgr then pmgr else pm_packageManager plugin) in
      \<lparr>mr_plugin = plugin,
       mr_scannedProjects =
         [\<lparr>mp_depGraph = depGraph,
           mp_depTree = (if depGraph \<noteq> None then None else map_option (with_targetFile (pm_targetFile plugin)) depTree),
           mp_meta = meta, mp_targetFile = pm_targetFile plugin, mp_packageManager = pm, mp_plugin = Some plugin\<rparr>],
       mr_failedResults = None\<rparr>)"

section \<open>The plugin for Node.js\<close>

definition missing_target_error :: "plug_env \<Rightarrow> string \<Rightarrow> thrown" where
  "missing_target_error en p =
     user_error (pg_styles en) ''CustomError'' (''Not a recognised option did you mean --file='' @ p @ ''? '' @
       ''Check other options by running vulnmap --help'')"

definition generating_tree :: "bool \<Rightarrow> string \<Rightarrow> json" where
  "generating_tree lockFile tf = JObj [(''lockFile'', JBool lockFile), (''targetFile'', JStr tf)]"

definition buildDepGraph ::
  "plug_env \<Rightarrow> pworld \<Rightarrow> string \<Rightarrow> string \<Rightarrow> string \<Rightarrow> lock_version \<Rightarrow> bool \<Rightarrow> bool \<Rightarrow> thrown + dep_graph" where
  "buildDepGraph en w root manifestFilePath lockfilePath lockfileVersion withDev strictOutOfSync =
     (let manifestFileFullPath = resolve (pg_pe en) [root, manifestFilePath];
          lockFileFullPath = resolve (pg_pe en) [root, lockfilePath];
          parse_opts = \<lparr>ps_includeDevDeps = withDev, ps_includeOptionalDeps = True, ps_includePeerDeps = False,
            ps_strictOutOfSync = strictOutOfSync, ps_isRoot = None, ps_rootResolutions = JUndef\<rparr> in
      if \<not> existsSync w manifestFileFullPath
      then Inl (custom_error (pg_styles en) PlainError ''InvalidUserInputError''
        (''Target file package.json not found at '' @ ''location: '' @ manifestFileFullPath) JUndef JUndef)
      else if \<not> existsSync w lockFileFullPath
      then Inl (custom_error (pg_styles en) PlainError ''InvalidUserInputError''
        (''Lockfile not found at location: '' @ lockFileFullPath) JUndef JUndef)
      else
        bindS (map_sum (me_fs_error (pg_main en)) id (read_text w manifestFileFullPath)) (\<lambda>manifest.
        bindS (map_sum (me_fs_error (pg_main en)) id (read_text w lockFileFullPath)) (\<lambda>lockfile.
          if lockfileVersion \<in> {YarnLockV1, YarnLockV2, NpmLockV2, NpmLockV3}
          then pg_parseLock en lockfileVersion manifest lockfile parse_opts
          else Inl (pg_plain en ''Failed to build dep graph from current project''))))"

text \<open>\<open>parse\<close> of \<open>npm-lock-parser.ts\<close>: a tree for the first version of npm's lock file, a graph otherwise.\<close>

definition lock_parse ::
  "plug_env \<Rightarrow> string \<Rightarrow> string \<Rightarrow> option_obj \<Rightarrow> (mon_tree + dep_graph) mio" where
  "lock_parse en root tf opts =
     (let lockFileFullPath = resolve (pg_pe en) [root, tf];
          dir = path_dir lockFileFullPath;
          manifestFileFullPath = resolve (pg_pe en) [dir, ''package.json''];
          shrinkwrapFullPath = resolve (pg_pe en) [dir, ''npm-shrinkwrap.json''];
          strictOutOfSync = (obj_get opts ''strictOutOfSync'' \<noteq> Some (ABool False)) in
      bindE get_fs (\<lambda>w.
        if \<not> existsSync w lockFileFullPath
        then throw (pg_plain en (''Lockfile '' @ tf @ '' not found at location: '' @ lockFileFullPath))
        else if \<not> existsSync w manifestFileFullPath
        then throw (pg_plain en (''Could not find package.json at '' @ manifestFileFullPath @ '' '' @
          ''(lockfile found at '' @ tf @ '')''))
        else if existsSync w shrinkwrapFullPath
        then throw (pg_plain en (''Both `npm-shrinkwrap.json` and `package-lock.json` were found in '' @ dir @ ''.'' @ [CHR 10] @
          ''Please run your command again specifying `--file=package.json` flag.''))
        else
          bindE (mon_add (pg_mon en) ''local'' (JBool True)) (\<lambda>_.
          bindE (mon_add (pg_mon en) ''generating-node-dependency-tree'' (generating_tree True tf)) (\<lambda>_.
          bindE (lift (bindS (map_sum (me_fs_error (pg_main en)) id (read_text w lockFileFullPath)) (pg_lockVersion en)))
            (\<lambda>version.
             if version \<in> {YarnLockV1, YarnLockV2, NpmLockV2, NpmLockV3}
             then lift (map_sum id Inr (buildDepGraph en w root manifestFileFullPath lockFileFullPath version
                    (option_set opts ''dev'') strictOutOfSync))
             else lift (map_sum id Inl (pg_buildTree en root manifestFileFullPath lockFileFullPath
                    (option_set opts ''dev'') strictOutOfSync w)))))))"

text \<open>\<open>{...a, ...b}\<close> of parsed values and \<open>lodash.isempty\<close>.\<close>

definition json_spread :: "json \<Rightarrow> json obj" where
  "json_spread v =
     (case v of
        JObj ps \<Rightarrow> ps
      | JArr vs \<Rightarrow> zip (map str_of_nat [0..<length vs]) vs
      | JStr s \<Rightarrow> zip (map str_of_nat [0..<length s]) (map (\<lambda>c. JStr [c]) s)
      | _ \<Rightarrow> [])"

definition json_isEmpty :: "json \<Rightarrow> bool" where
  "json_isEmpty v = (json_spread v = [])"

text \<open>\<open>JSON.parse\<close>, and reading a property of what it returns.\<close>

definition parse_json :: "plug_env \<Rightarrow> string \<Rightarrow> thrown + json" where
  "parse_json en t = (case json_parse t of Some v \<Rightarrow> Inr v | None \<Rightarrow> Inl (pg_json_error en))"

definition prop_of :: "plug_env \<Rightarrow> json \<Rightarrow> string \<Rightarrow> thrown + json" where
  "prop_of en v k = (case json_prop v k of Inl t \<Rightarrow> Inl (pg_type_error en) | Inr x \<Rightarrow> Inr x)"

definition json_name :: "json \<Rightarrow> string option" where
  "json_name v = (if v = JUndef then None else Some (json_text v))"

definition bare_tree :: "string option \<Rightarrow> string option \<Rightarrow> mon_tree" where
  "bare_tree name version = MonTree name version None False False JUndef None None (Some [])"

text \<open>A project without dependencies needs no installed modules.\<close>

definition empty_project_tree :: "plug_env \<Rightarrow> pworld \<Rightarrow> string \<Rightarrow> string \<Rightarrow> bool \<Rightarrow> thrown + mon_tree option" where
  "empty_project_tree en w root fileName withDev =
     bindS (getFileContents en w root fileName) (\<lambda>content.
     bindS (parse_json en content) (\<lambda>packageJson.
     bindS (prop_of en packageJson ''dependencies'') (\<lambda>deps.
       let dependencies = (if withDev then JObj (obj_merge (json_spread deps)
                             (json_spread (field_opt packageJson ''devDependencies''))) else deps) in
       Inr (if json_isEmpty dependencies
            then Some (bare_tree
              (if js_true (field_opt packageJson ''name'') then json_name (field_opt packageJson ''name'') else Some ''package.json'')
              (json_name (field_opt packageJson ''version'')))
            else None))))"

definition modules_parse :: "plug_env \<Rightarrow> string \<Rightarrow> string \<Rightarrow> option_obj \<Rightarrow> mon_tree mio" where
  "modules_parse en root tf opts =
     (let file0 = opt_text opts ''file'';
          file1 = (if js_endsWith tf ''yarn.lock'' \<and> truthy file0
                   then map_option (js_replace_first ''yarn.lock'' ''package.json'') file0 else file0);
          file2 = (if js_endsWith tf ''package-lock.json'' \<and> truthy file1
                   then map_option (js_replace_first ''package-lock.json'' ''package.json'') file1 else file1);
          opts2 = set_text ''file'' file2 opts in
      case file2 of
        None \<Rightarrow> throw (pg_type_error en)
      | Some f \<Rightarrow>
          (let packageJsonFileName = resolve (pg_pe en) [root, f];
               pmgr = js_or (opt_text opts ''packageManager'') ''npm'';
               folder = path_dir (resolve (pg_pe en) [root, tf]) in
           bindE get_fs (\<lambda>w.
             case empty_project_tree en w root packageJsonFileName (option_set opts ''dev'') of
               Inl e \<Rightarrow> throw (pg_plain en (''Failed to read '' @ packageJsonFileName @ ''. Error: '' @
                 json_text (err_get e ''message'')))
             | Inr (Some t) \<Rightarrow> ret t
             | Inr None \<Rightarrow>
                 if \<not> existsSync w (path_join [folder, ''node_modules''])
                 then throw (pg_plain en (''Missing node_modules folder: we can'' @ [CHR 0x27] @ ''t test '' @
                   ''without dependencies.'' @ [CHR 10] @ ''Please run '' @ [CHR 0x27] @ pmgr @ '' install'' @
                   [CHR 0x27] @ '' first.''))
                 else
                   bindE (mon_add (pg_mon en) ''local'' (JBool True)) (\<lambda>_.
                   bindE (mon_add (pg_mon en) ''generating-node-dependency-tree'' (generating_tree False tf)) (\<lambda>_.
                     lift (pg_resolveDeps en root (obj_set ''noFromArrays'' (ABool True) opts2) w))))))"

definition bare_project :: mon_project where
  "bare_project = \<lparr>mp_depGraph = None, mp_depTree = None, mp_meta = None, mp_targetFile = None,
     mp_packageManager = None, mp_plugin = None\<rparr>"

definition lockfile_plugin :: "plug_env \<Rightarrow> plugin_meta" where
  "lockfile_plugin en =
     empty_plugin\<lparr>pm_name := Some ''vulnmap-nodejs-lockfile-parser'', pm_runtime := Some (node_version (pg_pe en))\<rparr>"

definition add_lock_version :: "plug_env \<Rightarrow> lock_version \<Rightarrow> unit mio" where
  "add_lock_version en v =
     (case v of
        NpmLockV1 \<Rightarrow> mon_add (pg_mon en) ''lockfileVersion'' (JNum 1)
      | YarnLockV1 \<Rightarrow> mon_add (pg_mon en) ''lockfileVersion'' (JNum 1)
      | NpmLockV2 \<Rightarrow> mon_add (pg_mon en) ''lockfileVersion'' (JNum 2)
      | YarnLockV2 \<Rightarrow> mon_add (pg_mon en) ''lockfileVersion'' (JNum 2)
      | NpmLockV3 \<Rightarrow> mon_add (pg_mon en) ''lockfileVersion'' (JNum 3)
      | OtherLock \<Rightarrow> ret ())"

definition node_inspect :: "plug_env \<Rightarrow> string \<Rightarrow> string option \<Rightarrow> option_obj \<Rightarrow> inspect_result mio" where
  "node_inspect en root file opts =
     (if \<not> truthy file then throw (missing_target_error en root)
      else
        (let tf = the file;
             isLockFileBased = (js_endsWith tf ''package-lock.json'' \<or> js_endsWith tf ''yarn.lock'');
             getLockFileDeps = (isLockFileBased \<and> \<not> option_set opts ''traverseNodeModules'') in
         bindE (if getLockFileDeps then lock_parse en root tf opts
                else bindE (modules_parse en root tf opts) (\<lambda>t. ret (Inl t))) (\<lambda>depRes.
         bindE (if isLockFileBased then
                  bindE get_fs (\<lambda>w.
                  bindE (lift (bindS (map_sum (me_fs_error (pg_main en)) id
                      (read_text w (resolve (pg_pe en) [root, tf]))) (pg_lockVersion en))) (add_lock_version en))
                else ret ()) (\<lambda>_.
           ret (MultiProject (lockfile_plugin en)
             [case depRes of
                Inr g \<Rightarrow> bare_project\<lparr>mp_depGraph := Some g\<rparr>
              | Inl t \<Rightarrow> bare_project\<lparr>mp_depTree := Some t\<rparr>])))))"

section \<open>Asking one plugin\<close>

definition external_plugins :: "string list" where
  "external_plugins = [''maven'', ''gradle'', ''sbt'', ''pip'', ''poetry'', ''golangdep'', ''gomodules'', ''govendor'',
     ''nuget'', ''paket'', ''composer'', ''cocoapods'', ''hex'', ''swift'']"

text \<open>The managers in the order of the table of names.\<close>

definition listed_managers :: "package_manager list" where
  "listed_managers = [PM_rubygems, PM_npm, PM_yarn, PM_maven, PM_pip, PM_sbt, PM_gradle, PM_golangdep, PM_gomodules,
     PM_govendor, PM_nuget, PM_paket, PM_composer, PM_cocoapods, PM_poetry, PM_hex, PM_unmanaged, PM_swift]"

definition UnsupportedPackageManagerError :: "plug_env \<Rightarrow> string option \<Rightarrow> thrown" where
  "UnsupportedPackageManagerError en pmgr =
     (let ERROR_MESSAGE = ''Here are our supported package managers:'' @
            js_join '','' (map (\<lambda>m. [CHR 10] @ ''  - '' @ manager_str m @ '' ('' @ supported_package_manager_name m @ '')'')
              listed_managers) @ [CHR 10] @ ''        '' in
      custom_error (pg_styles en) PlainError ''UnsupportedPackageManagerError''
        (''Unsupported package manager '' @ str_of_opt pmgr @ ''.'' @ ERROR_MESSAGE) (JNum 422)
        (JStr (''Unsupported package manager '' @ [CHR 0x27] @ str_of_opt pmgr @ [CHR 0x27, CHR 0x27] @ ''. '' @ ERROR_MESSAGE)))"

text \<open>\<open>loadPlugin\<close> with the \<open>inspect\<close> of the plugin it returns.\<close>

definition load_and_inspect ::
  "plug_env \<Rightarrow> string option \<Rightarrow> string \<Rightarrow> string option \<Rightarrow> option_obj \<Rightarrow> inspect_result mio" where
  "load_and_inspect en pmgr root file opts =
     (if pmgr \<in> {Some ''npm'', Some ''yarn''} then node_inspect en root file opts
      else if pmgr = Some ''rubygems'' then
        (if \<not> truthy file then throw (missing_target_error en root)
         else bindE get_fs (\<lambda>w. lift (pg_rubygems en root (the file) opts w)))
      else if pmgr \<in> Some ` set external_plugins
      then bindE get_fs (\<lambda>w. lift (pg_external en (the pmgr) root file opts w))
      else throw (UnsupportedPackageManagerError en pmgr))"

text \<open>
  \<open>ModuleInfo(plugin, options.policy).inspect\<close>: with a policy in the options the package of the answer is read,
  which an answer with several projects does not have. What is written into the package nobody reads.
\<close>

definition getSinglePluginResult ::
  "plug_env \<Rightarrow> string \<Rightarrow> option_obj \<Rightarrow> string option \<Rightarrow> inspect_result mio" where
  "getSinglePluginResult en root opts file =
     (let pluginOptions = (case obj_get opts ''_doubleDashArgs'' of
            Some v \<Rightarrow> obj_merge [(''args'', v)] opts | None \<Rightarrow> opts) in
      bindE (load_and_inspect en (opt_text opts ''packageManager'') root (or_opt file (opt_text opts ''file''))
          pluginOptions) (\<lambda>info.
        if option_set opts ''policy'' \<and> (case info of SinglePackage p t g m \<Rightarrow> t = None | MultiProject p sps \<Rightarrow> True)
        then throw (pg_type_error en) else ret info))"

section \<open>Workspaces\<close>

record ws_settings =
  wss_strictOutOfSync :: "bool option"
  wss_dev :: bool
  wss_yarnWorkspaces :: bool

text \<open>
  What the loop over the folders keeps: the workspaces each manifest defines, the manifest a manifest belongs to,
  the content of the last root manifest, the projects.
\<close>

record ws_state =
  wst_map :: "json obj"
  wst_files :: "string obj"
  wst_manifest :: json
  wst_projects :: "mon_project list"

definition no_backslash :: "string \<Rightarrow> string" where
  "no_backslash p = map (\<lambda>c. if c = CHR 0x5C then sep else c) p"

definition path_dirname :: "string \<Rightarrow> string" where
  "path_dirname p = (if path_dir p = [] then ''.'' else path_dir p)"

text \<open>The workspaces of a manifest: the property if it is true and has a length.\<close>

definition has_length :: "json \<Rightarrow> bool" where
  "has_length v = (case v of JArr vs \<Rightarrow> vs \<noteq> [] | JStr s \<Rightarrow> s \<noteq> [] | JObj ps \<Rightarrow> js_true (field_opt v ''length'') | _ \<Rightarrow> False)"

definition npm_getWorkspacesMap :: "plug_env \<Rightarrow> string \<Rightarrow> string \<Rightarrow> json obj" where
  "npm_getWorkspacesMap en content fileName =
     (case bindS (parse_json en content) (\<lambda>v. prop_of en v ''workspaces'') of
        Inl e \<Rightarrow> []
      | Inr ws \<Rightarrow> if js_true ws \<and> has_length ws then [(fileName, ws)] else [])"

definition yarn_getWorkspacesMap :: "plug_env \<Rightarrow> string \<Rightarrow> string \<Rightarrow> json obj" where
  "yarn_getWorkspacesMap en content fileName =
     (case pg_yarnWorkspaces en content of
        Inl e \<Rightarrow> []
      | Inr ws \<Rightarrow> if ws \<noteq> [] then [(fileName, JArr (map JStr ws))] else [])"

definition joined_globs :: "plug_env \<Rightarrow> string \<Rightarrow> json \<Rightarrow> thrown + string list" where
  "joined_globs en workspaceRoot ws =
     (case ws of
        JArr vs \<Rightarrow> mapS (\<lambda>v. case v of
            JStr t \<Rightarrow> Inr (path_join [path_dirname (no_backslash workspaceRoot), t])
          | _ \<Rightarrow> Inl (pg_type_error en)) vs
      | _ \<Rightarrow> Inl (pg_type_error en))"

definition npm_packageJsonBelongsToWorkspace :: "plug_env \<Rightarrow> string \<Rightarrow> string \<Rightarrow> json \<Rightarrow> thrown + bool" where
  "npm_packageJsonBelongsToWorkspace en packageJsonFileName workspaceRoot ws =
     bindS (joined_globs en workspaceRoot ws) (\<lambda>globs.
       Inr (pg_isMatch en (no_backslash packageJsonFileName)
         (map (\<lambda>p. no_backslash (path_normalize (path_join [p, ''package.json'']))) globs)))"

definition yarn_packageJsonBelongsToWorkspace :: "plug_env \<Rightarrow> string \<Rightarrow> string \<Rightarrow> json \<Rightarrow> thrown + bool" where
  "yarn_packageJsonBelongsToWorkspace en packageJsonFileName workspaceRoot ws =
     bindS (joined_globs en workspaceRoot ws) (\<lambda>globs.
       Inr (pg_isMatch en (no_backslash packageJsonFileName)
         (map (\<lambda>p. no_backslash (path_normalize (path_join [p, ''**'']))) globs)))"

text \<open>Whether a manifest is in a workspace, and whether it is the root of one.\<close>

definition match_step ::
  "plug_env \<Rightarrow> (string \<Rightarrow> string \<Rightarrow> json \<Rightarrow> thrown + bool) \<Rightarrow> (string \<Rightarrow> thrown + json) \<Rightarrow> string \<Rightarrow> string \<Rightarrow>
   string \<times> json \<Rightarrow> ws_state \<times> bool \<times> bool \<Rightarrow> thrown + ws_state \<times> bool \<times> bool" where
  "match_step en belongs parse_root packageJsonFileName content rw acc =
     (let (workspaceRoot, ws) = rw; (st, isPackage, isRoot) = acc in
      bindS (belongs packageJsonFileName workspaceRoot ws) (\<lambda>found.
        let st1 = (if found then st\<lparr>wst_files := obj_set packageJsonFileName workspaceRoot (wst_files st)\<rparr> else st) in
        if packageJsonFileName = workspaceRoot
        then bindS (parse_root content) (\<lambda>m. Inr (st1\<lparr>wst_manifest := m\<rparr>, isPackage \<or> found, True))
        else Inr (st1, isPackage \<or> found, isRoot)))"

definition workspace_project :: "plug_env \<Rightarrow> string \<Rightarrow> string \<Rightarrow> string \<Rightarrow> dep_graph \<Rightarrow> mon_project" where
  "workspace_project en pmgr root fileName g =
     bare_project\<lparr>mp_packageManager := Some pmgr,
       mp_targetFile := Some (path_relative (working_dir (pg_pe en)) root fileName), mp_depGraph := Some g,
       mp_plugin := Some (lockfile_plugin en)\<rparr>"

definition root_dir :: "ws_state \<Rightarrow> bool \<Rightarrow> string \<Rightarrow> string" where
  "root_dir st isWorkspacePackage packageJsonFileName =
     path_dirname (if isWorkspacePackage then the (obj_get (wst_files st) packageJsonFileName) else packageJsonFileName)"

definition npm_folder ::
  "plug_env \<Rightarrow> pworld \<Rightarrow> string \<Rightarrow> ws_settings \<Rightarrow> string \<Rightarrow> ws_state \<Rightarrow> thrown + ws_state" where
  "npm_folder en w root settings directory st =
     (let packageJsonFileName = path_join [directory, ''package.json''] in
      bindS (getFileContents en w root packageJsonFileName) (\<lambda>content.
      let st1 = st\<lparr>wst_map := obj_merge (wst_map st) (npm_getWorkspacesMap en content packageJsonFileName)\<rparr> in
      bindS (foldS (match_step en (npm_packageJsonBelongsToWorkspace en) (\<lambda>t. Inr (wst_manifest st))
          packageJsonFileName content) (wst_map st1) (st1, False, False)) (\<lambda>(st2, isPackage, isRoot).
        if \<not> (isPackage \<or> isRoot) then Inr st2
        else
          (case bindS (getFileContents en w root
                  (path_join [root_dir st2 isPackage packageJsonFileName, ''package-lock.json''])) (\<lambda>lock.
                pg_parseLock en NpmLockV2 content lock
                  \<lparr>ps_includeDevDeps = wss_dev settings, ps_includeOptionalDeps = False, ps_includePeerDeps = False,
                   ps_strictOutOfSync = (wss_strictOutOfSync settings = Some True), ps_isRoot = None,
                   ps_rootResolutions = JUndef\<rparr>) of
             Inr g \<Rightarrow> Inr (st2\<lparr>wst_projects := wst_projects st2 @
               [workspace_project en ''npm'' root packageJsonFileName g]\<rparr>)
           | Inl e \<Rightarrow> if wss_yarnWorkspaces settings then Inl e else Inr st2))))"

definition start_ws :: ws_state where
  "start_ws = \<lparr>wst_map = [], wst_files = [], wst_manifest = JObj [], wst_projects = []\<rparr>"

definition manifest_folders :: "plug_env \<Rightarrow> string list \<Rightarrow> string list \<Rightarrow> string list" where
  "manifest_folders en names manifests =
     obj_keys (ff_groupBy (pg_ff en) ff_dir (ff_sortBy_dir (pg_ff en)
       (filter (\<lambda>f. ff_base f \<in> set names) (map describe_file manifests))))"

definition processNpmWorkspaces ::
  "plug_env \<Rightarrow> pworld \<Rightarrow> string \<Rightarrow> ws_settings \<Rightarrow> string list \<Rightarrow> thrown + mon_project list" where
  "processNpmWorkspaces en w root settings manifests =
     (let folders = manifest_folders en [''package.json'', ''package-lock.json''] manifests in
      if wss_yarnWorkspaces settings \<and> folders = []
      then Inl (NoSupportedManifestsFoundError (pg_styles en) [root])
      else map_sum id wst_projects (foldS (npm_folder en w root settings) folders start_ws))"

definition yarn_folder ::
  "plug_env \<Rightarrow> pworld \<Rightarrow> string \<Rightarrow> ws_settings \<Rightarrow> string \<Rightarrow> ws_state \<Rightarrow> thrown + ws_state" where
  "yarn_folder en w root settings directory st =
     (let packageJsonFileName = path_join [directory, ''package.json''];
          strict = (case wss_strictOutOfSync settings of None \<Rightarrow> True | Some b \<Rightarrow> b) in
      bindS (getFileContents en w root packageJsonFileName) (\<lambda>content.
      let st1 = st\<lparr>wst_map := obj_merge (wst_map st) (yarn_getWorkspacesMap en content packageJsonFileName)\<rparr> in
      bindS (foldS (match_step en (yarn_packageJsonBelongsToWorkspace en) (parse_json en)
          packageJsonFileName content) (wst_map st1) (st1, False, False)) (\<lambda>(st2, isPackage, isRoot).
        if \<not> (isPackage \<or> isRoot) then Inr st2
        else
          (case bindS (getFileContents en w root
                  (path_join [root_dir st2 isPackage packageJsonFileName, ''yarn.lock''])) (\<lambda>lock.
                bindS (pg_lockVersion en lock) (\<lambda>version.
                  let parse_opts = \<lparr>ps_includeDevDeps = wss_dev settings, ps_includeOptionalDeps = False,
                        ps_includePeerDeps = False, ps_strictOutOfSync = strict, ps_isRoot = None,
                        ps_rootResolutions = JUndef\<rparr> in
                  if version = YarnLockV1 then pg_parseLock en YarnLockV1 content lock parse_opts
                  else if version = YarnLockV2
                  then pg_parseLock en YarnLockV2 content lock
                    (parse_opts\<lparr>ps_isRoot := Some isRoot,
                       ps_rootResolutions := js_or_value (field_opt (wst_manifest st2) ''resolutions'') (JObj [])\<rparr>)
                  else Inl (pg_plain en ''Failed to build dep graph from current project''))) of
             Inr g \<Rightarrow> Inr (st2\<lparr>wst_projects := wst_projects st2 @
               [workspace_project en ''yarn'' root packageJsonFileName g]\<rparr>)
           | Inl e \<Rightarrow> if wss_yarnWorkspaces settings then Inl e else Inr st2))))"

definition processYarnWorkspaces ::
  "plug_env \<Rightarrow> pworld \<Rightarrow> string \<Rightarrow> ws_settings \<Rightarrow> string list \<Rightarrow> thrown + mon_project list" where
  "processYarnWorkspaces en w root settings manifests =
     (let folders = manifest_folders en [''package.json'', ''yarn.lock''] manifests in
      if wss_yarnWorkspaces settings \<and> folders = []
      then Inl (NoSupportedManifestsFoundError (pg_styles en) [root])
      else map_sum id wst_projects (foldS (yarn_folder en w root settings) folders start_ws))"

text \<open>The manifests that are left for the plugins: not those of a project that a workspace gave.\<close>

definition filterOutProcessed ::
  "plug_env \<Rightarrow> string \<Rightarrow> string \<Rightarrow> mon_project list \<Rightarrow> string list \<Rightarrow> thrown + string list" where
  "filterOutProcessed en lockName root projects manifests =
     bindS (mapS (\<lambda>p. case mp_targetFile p of
              Some f \<Rightarrow> Inr (path_resolve (working_dir (pg_pe en)) [root, f]) | None \<Rightarrow> Inl (pg_type_error en)) projects)
       (\<lambda>scanned. Inr (filter (\<lambda>f.
          let p = path_resolve (working_dir (pg_pe en)) [root, f] in
          path_base p \<notin> {''package.json'', lockName} \<or>
          js_replace_first lockName ''package.json'' p \<notin> set scanned) manifests))"

definition filterOutProcessedYarnWorkspaces ::
  "plug_env \<Rightarrow> string \<Rightarrow> mon_project list \<Rightarrow> string list \<Rightarrow> thrown + string list" where
  "filterOutProcessedYarnWorkspaces en = filterOutProcessed en ''yarn.lock''"

definition filterOutProcessedNpmWorkspaces ::
  "plug_env \<Rightarrow> string \<Rightarrow> mon_project list \<Rightarrow> string list \<Rightarrow> thrown + string list" where
  "filterOutProcessedNpmWorkspaces en = filterOutProcessed en ''package-lock.json''"

definition plugin_settings :: "option_obj \<Rightarrow> ws_settings" where
  "plugin_settings opts =
     \<lparr>wss_strictOutOfSync = (case obj_get opts ''strictOutOfSync'' of Some (ABool b) \<Rightarrow> Some b | _ \<Rightarrow> None),
      wss_dev = option_set opts ''dev'', wss_yarnWorkspaces = False\<rparr>"

definition workspaces_or_none ::
  "thrown + mon_project list \<Rightarrow> (mon_project list \<Rightarrow> thrown + string list) \<Rightarrow> string list \<Rightarrow> mon_project list \<times> string list" where
  "workspaces_or_none found rest manifests =
     (case bindS found (\<lambda>ps. bindS (rest ps) (\<lambda>fs. Inr (ps, fs))) of Inr r \<Rightarrow> r | Inl e \<Rightarrow> ([], manifests))"

definition processYarnWorkspacesProjects ::
  "plug_env \<Rightarrow> pworld \<Rightarrow> string \<Rightarrow> option_obj \<Rightarrow> string list \<Rightarrow> mon_project list \<times> string list" where
  "processYarnWorkspacesProjects en w root opts manifests =
     workspaces_or_none (processYarnWorkspaces en w root (plugin_settings opts) manifests)
       (\<lambda>ps. filterOutProcessedYarnWorkspaces en root ps manifests) manifests"

definition processNpmWorkspacesProjects ::
  "plug_env \<Rightarrow> pworld \<Rightarrow> string \<Rightarrow> option_obj \<Rightarrow> string list \<Rightarrow> mon_project list \<times> string list" where
  "processNpmWorkspacesProjects en w root opts manifests =
     workspaces_or_none (processNpmWorkspaces en w root (plugin_settings opts) manifests)
       (\<lambda>ps. filterOutProcessedNpmWorkspaces en root ps manifests) manifests"

section \<open>Asking a plugin for every manifest\<close>

definition project_names :: "mon_project list \<Rightarrow> arg_value" where
  "project_names projects =
     AList (map (\<lambda>p. case Option.bind (mp_depTree p) mt_name of Some n \<Rightarrow> IStr n | None \<Rightarrow> IUndef) projects)"

record multi_state =
  ms_results :: "mon_project list"
  ms_failed :: "failed_scan list"
  ms_options :: option_obj

definition error_text :: "thrown \<Rightarrow> string" where
  "error_text e =
     (if err_get e ''message'' \<in> {JUndef, JNull} then ''Something went wrong getting dependencies''
      else json_text (err_get e ''message''))"

definition inspect_manifest ::
  "plug_env \<Rightarrow> string \<Rightarrow> string \<Rightarrow> string \<Rightarrow> multi_state \<Rightarrow> multi_state mio" where
  "inspect_manifest en root tf pmgr st =
     (let file = path_relative (working_dir (pg_pe en)) root tf;
          clone = obj_set ''packageManager'' (AStr pmgr) (obj_set ''file'' (AStr file) (ms_options st)) in
      bindE (getSinglePluginResult en root clone (Some file)) (\<lambda>inspectRes.
        let (plugin, projects) = (case inspectRes of
              SinglePackage p t g m \<Rightarrow>
                (p, mr_scannedProjects (convertSingleResultToMultiCustom p t g m (Some pmgr)))
            | MultiProject p sps \<Rightarrow> (p, sps));
            custom = convertMultiResultToMultiCustom plugin projects (Some pmgr) (Some file) in
        ret (st\<lparr>ms_options := obj_set ''projectNames'' (project_names projects) (ms_options st),
                ms_results := ms_results st @ mr_scannedProjects custom\<rparr>)))"

definition scan_manifest :: "plug_env \<Rightarrow> string \<Rightarrow> string \<Rightarrow> multi_state \<Rightarrow> multi_state mio" where
  "scan_manifest en root tf st =
     bindE (lift (map_sum (detect_thrown en) id (detectPackageManagerFromFile (path_base tf)))) (\<lambda>pmgr.
       catchE (inspect_manifest en root tf pmgr st)
         (\<lambda>e. ret (st\<lparr>ms_failed := ms_failed st @
            [\<lparr>fs_targetFile = Some tf, fs_error = e, fs_errMessage = error_text e\<rparr>]\<rparr>)))"

definition getMultiPluginResult ::
  "plug_env \<Rightarrow> string \<Rightarrow> option_obj \<Rightarrow> string list \<Rightarrow> (multi_result \<times> option_obj) mio" where
  "getMultiPluginResult en root opts manifests =
     bindE get_fs (\<lambda>w.
       let (yarnResults, restFromYarn) = processYarnWorkspacesProjects en w root opts manifests;
           (npmResults, unprocessed) = processNpmWorkspacesProjects en w root opts restFromYarn in
       bindE (foldE (scan_manifest en root) unprocessed
           \<lparr>ms_results = yarnResults @ npmResults, ms_failed = [], ms_options = opts\<rparr>) (\<lambda>st.
         if ms_results st = []
         then throw (FailedToRunTestError (mv_run (pg_mon en)) (JStr (errorMessageWithRetry
           (''Failed to get dependencies for all '' @ str_of_nat (length manifests) @ '' potential projects.''))) JUndef JUndef)
         else ret (\<lparr>mr_plugin = empty_plugin\<lparr>pm_name := Some ''custom-auto-detect''\<rparr>,
                    mr_scannedProjects = ms_results st, mr_failedResults = Some (ms_failed st)\<rparr>, ms_options st)))"

section \<open>The dependencies of a folder\<close>

definition gradle_file :: "string \<Rightarrow> bool" where
  "gradle_file f \<longleftrightarrow> js_endsWith f ''build.gradle'' \<or> js_endsWith f ''build.gradle.kts''"

definition warnSomeGradleManifestsNotScanned ::
  "plug_env \<Rightarrow> mon_project list \<Rightarrow> string list \<Rightarrow> string \<Rightarrow> string option" where
  "warnSomeGradleManifestsNotScanned en projects allFilesFound root =
     (let scannedGradleFiles = filter gradle_file (List.map_filter
            (\<lambda>p. let f = or_opt (Option.bind (mp_meta p) sm_targetFile) (mp_targetFile p) in
                 if truthy f then Some (resolve (pg_pe en) [root, the f]) else None) projects);
          detectedGradleFiles = filter gradle_file allFilesFound;
          diff = filter (\<lambda>f. f \<notin> set scannedGradleFiles) detectedGradleFiles in
      if length diff > 0 then
        Some (re_issue_icon (mv_run (pg_mon en)) @ '' '' @ str_of_nat (length diff) @ ''/'' @
          str_of_nat (length detectedGradleFiles) @ '' detected Gradle manifests did not return dependencies. '' @
          ''They may have errored or were not included as part of a multi-project build. You may need to scan '' @
          ''them individually with --file=path/to/file. Run with `-d` for more info.'')
      else None)"

text \<open>
  The levels of folders that are looked at: one more than the depth that is asked for, rounded down; a depth that is no
  finite number never ends the search, and stands for a number of levels no folder has.
\<close>

definition levels_of :: "nat \<Rightarrow> arg_value option \<Rightarrow> nat" where
  "levels_of deepest v =
     (case v of
        None \<Rightarrow> 5
      | Some (ANum (Dec m e)) \<Rightarrow> nat ((if e \<ge> 0 then m * 10 ^ nat e else m div 10 ^ nat (- e)) + 1)
      | _ \<Rightarrow> deepest)"

definition excluded :: "option_obj \<Rightarrow> string list" where
  "excluded opts = (case opt_text opts ''exclude'' of Some t \<Rightarrow> if t = [] then [] else js_split (CHR '','') t | None \<Rightarrow> [])"

definition find_manifests ::
  "plug_env \<Rightarrow> nat \<Rightarrow> string \<Rightarrow> string list \<Rightarrow> string list \<Rightarrow> arg_value option \<Rightarrow> (string list \<times> string list) mio" where
  "find_manifests en deepest root ignore names depth =
     bindE get_fs (\<lambda>w. lift (map_sum (find_thrown en) id
       (find_files (levels_of deepest depth) (pg_pe en) (pg_ff en) w ignore names root)))"

definition yarn_settings :: "option_obj \<Rightarrow> ws_settings" where
  "yarn_settings opts = (plugin_settings opts)\<lparr>wss_yarnWorkspaces := option_set opts ''yarnWorkspaces''\<rparr>"

definition scan_data :: "nat \<Rightarrow> string list \<Rightarrow> string list \<Rightarrow> json \<Rightarrow> string list \<Rightarrow> json" where
  "scan_data n targets managers depth ignore =
     JObj [(''scannedProjects'', JNum (int n)), (''targetFiles'', JArr (map JStr targets)),
           (''packageManagers'', JArr (map JStr managers)), (''levelsDeep'', depth),
           (''ignore'', JArr (map JStr ignore))]"

definition depth_json :: "arg_value option \<Rightarrow> json" where
  "depth_json v =
     (case v of Some (ANum (Dec m e)) \<Rightarrow> if e \<ge> 0 then JNum (m * 10 ^ nat e) else norm_dec (nat (- e)) m | _ \<Rightarrow> JUndef)"

definition scan_all :: "plug_env \<Rightarrow> nat \<Rightarrow> string \<Rightarrow> option_obj \<Rightarrow> (multi_result \<times> option_obj) mio" where
  "scan_all en deepest root opts =
     (let yarn = option_set opts ''yarnWorkspaces'';
          ignore = excluded opts in
      bindE (find_manifests en deepest root ignore (if yarn then [''package.json''] else AUTO_DETECTABLE_FILES)
          (obj_get opts ''detectionDepth'')) (\<lambda>(targets, allFilesFound).
        if targets = [] then throw (NoSupportedManifestsFoundError (pg_styles en) [root])
        else
          (let opts1 = obj_set ''allSubProjects'' (ABool True) opts in
           bindE (if yarn then
                    bindE get_fs (\<lambda>w.
                    bindE (lift (processYarnWorkspaces en w root (yarn_settings opts1) targets)) (\<lambda>ps.
                      ret (\<lparr>mr_plugin = empty_plugin\<lparr>pm_name := Some ''vulnmap-nodejs-yarn-workspaces'',
                                pm_runtime := Some (node_version (pg_pe en))\<rparr>,
                            mr_scannedProjects = ps, mr_failedResults = None\<rparr>, opts1)))
                  else getMultiPluginResult en root opts1 targets) (\<lambda>(inspectRes, opts2).
           bindE (lift (mapS (\<lambda>f. map_sum (detect_thrown en) id (detectPackageManagerFromFile f)) targets)) (\<lambda>managers.
           bindE (mon_add (pg_mon en) (if yarn then ''yarnWorkspaces'' else ''allProjects'')
               (scan_data (length (mr_scannedProjects inspectRes)) targets managers
                 (depth_json (obj_get opts ''detectionDepth'')) ignore)) (\<lambda>_.
             let warning = warnSomeGradleManifestsNotScanned en (mr_scannedProjects inspectRes) allFilesFound root in
             bindE (case warning of
                      Some t \<Rightarrow> if option_set opts2 ''json'' \<or> option_set opts2 ''quiet'' then ret ()
                               else print_line (st_red_bold (pg_styles en) t)
                    | None \<Rightarrow> ret ()) (\<lambda>_.
               ret (inspectRes, opts2))))))))"

definition scan_single :: "plug_env \<Rightarrow> string \<Rightarrow> option_obj \<Rightarrow> (multi_result \<times> option_obj) mio" where
  "scan_single en root opts =
     bindE get_fs (\<lambda>w.
       let opts1 = (if option_set opts ''scanAllUnmanaged'' \<or> truthy (opt_text opts ''file'') then opts
                    else set_text ''file'' (detectPackageFile (pg_pe en) w root) opts);
           pmgr = opt_text opts1 ''packageManager'' in
       if \<not> option_set opts1 ''docker'' \<and> \<not> (truthy (opt_text opts1 ''file'') \<or> truthy pmgr)
       then throw (NoSupportedManifestsFoundError (pg_styles en) (map (\<lambda>c. [c]) root))
       else
         bindE (getSinglePluginResult en root opts1 None) (\<lambda>inspectRes.
           case inspectRes of
             SinglePackage p t g m \<Rightarrow>
               if t = None \<and> g = None
               then throw (pg_plain en (''error getting dependencies from '' @
                 (if option_set opts1 ''docker'' then ''docker'' else str_of_opt pmgr) @
                 '' plugin: neither '' @ [CHR 0x27] @ ''package'' @ [CHR 0x27] @ '' nor '' @ [CHR 0x27] @
                 ''scannedProjects'' @ [CHR 0x27] @ '' were found''))
               else ret (convertSingleResultToMultiCustom p t g m pmgr, opts1)
           | MultiProject p sps \<Rightarrow>
               ret (convertMultiResultToMultiCustom p sps pmgr None,
                 obj_set ''projectNames'' (project_names sps) opts1)))"

definition getDepsFromPlugin :: "plug_env \<Rightarrow> nat \<Rightarrow> string \<Rightarrow> option_obj \<Rightarrow> (multi_result \<times> option_obj) mio" where
  "getDepsFromPlugin en deepest root opts =
     (if option_set opts ''yarnWorkspaces'' \<or> option_set opts ''allProjects''
      then scan_all en deepest root opts else scan_single en root opts)"

definition getExtraProjectCount :: "plug_env \<Rightarrow> string \<Rightarrow> option_obj \<Rightarrow> multi_result \<Rightarrow> nat option mio" where
  "getExtraProjectCount en root opts inspectResult =
     (if option_set opts ''docker'' \<or> option_set opts ''unmanaged'' then ret None
      else if pm_allSubProjectNames (mr_plugin inspectResult) \<noteq> []
      then ret (Some (length (pm_allSubProjectNames (mr_plugin inspectResult))))
      else
        catchE
          (bindE (find_manifests en 0 root [] AUTO_DETECTABLE_FILES None) (\<lambda>(extra, all_found).
             ret (if length extra > 1 then Some (length extra - 1) else None)))
          (\<lambda>e. ret None))"

section \<open>No manifest is lost\<close>

definition complete_project :: "mon_project \<Rightarrow> bool" where
  "complete_project p \<longleftrightarrow> mp_plugin p \<noteq> None \<and> mp_packageManager p \<noteq> None \<and> mp_targetFile p \<noteq> None"

text \<open>What became of a manifest that a plugin was asked for: its projects, or nothing.\<close>

type_synonym manifest_outcome = "string \<times> mon_project list option"

definition outcomes_of ::
  "mon_project list \<Rightarrow> string list \<Rightarrow> multi_state \<Rightarrow> manifest_outcome list \<Rightarrow> bool" where
  "outcomes_of base fs st outs \<longleftrightarrow>
     map fst outs = fs \<and> ms_results st = base @ concat (List.map_filter snd outs) \<and>
     map fs_targetFile (ms_failed st) = map (\<lambda>x. Some (fst x)) (filter (\<lambda>x. snd x = None) outs) \<and>
     (\<forall>ps. Some ps \<in> snd ` set outs \<longrightarrow> list_all complete_project ps)"

lemma or_opt_Some [simp]: "or_opt a (Some b) \<noteq> None"
  by (simp add: or_opt_def truthy_def split: option.splits)

lemma or_opt_truthy: "truthy a \<Longrightarrow> or_opt a b \<noteq> None"
  by (cases a) (auto simp: or_opt_def)

lemma or_opt_right: "b \<noteq> None \<Longrightarrow> or_opt a b \<noteq> None"
  by (cases b) (auto simp: or_opt_Some)

lemma converted_complete:
  "list_all complete_project (mr_scannedProjects (convertMultiResultToMultiCustom p sps (Some m) (Some f)))"
  unfolding convertMultiResultToMultiCustom_def convertScannedProjectsToCustom_def list_all_iff complete_project_def
  by (simp add: or_opt_right del: not_None_eq split: option.split)

lemma outcome_found:
  assumes "outcomes_of base fs st outs" and "list_all complete_project ps"
  shows "outcomes_of base (fs @ [f]) (st\<lparr>ms_options := ops', ms_results := ms_results st @ ps\<rparr>) (outs @ [(f, Some ps)])"
  using assms by (auto simp: outcomes_of_def map_filter_def)

lemma outcome_failed:
  assumes "outcomes_of base fs st outs" and "fs_targetFile x = Some f"
  shows "outcomes_of base (fs @ [f]) (st\<lparr>ms_failed := ms_failed st @ [x]\<rparr>) (outs @ [(f, None)])"
  using assms by (auto simp: outcomes_of_def map_filter_def)

lemma catchE_Inr_cases:
  assumes "catchE m h s = (Inr r, s')"
  obtains "m s = (Inr r, s')" | e s1 where "m s = (Inl e, s1)" "h e s1 = (Inr r, s')"
  using assms by (auto simp: catchE_def split: prod.splits sum.splits)

lemma inspect_manifest_outcome:
  assumes "inspect_manifest en root f pmgr st w = (Inr st', w')" and "outcomes_of base fs st outs"
  shows "\<exists>x. outcomes_of base (fs @ [f]) st' (outs @ [(f, x)])"
proof -
  from assms(1) have "\<exists>p sps ops' fa. st' = st\<lparr>ms_options := ops', ms_results := ms_results st @
      mr_scannedProjects (convertMultiResultToMultiCustom p sps (Some pmgr) (Some fa))\<rparr>"
    unfolding inspect_manifest_def Let_def
    by (elim bindE_InrE) (simp split: inspect_result.splits; blast)
  then show ?thesis using outcome_found [OF assms(2) converted_complete] by blast
qed

lemma scan_manifest_outcome:
  assumes "scan_manifest en root f st w = (Inr st', w')" and "outcomes_of base fs st outs"
  shows "\<exists>x. outcomes_of base (fs @ [f]) st' (outs @ [(f, x)])"
proof -
  from assms(1) obtain pmgr where "catchE (inspect_manifest en root f pmgr st)
         (\<lambda>e. ret (st\<lparr>ms_failed := ms_failed st @
            [\<lparr>fs_targetFile = Some f, fs_error = e, fs_errMessage = error_text e\<rparr>]\<rparr>)) w = (Inr st', w')"
    unfolding scan_manifest_def by (blast dest!: lift_bind_ok)
  then show ?thesis
  proof (rule catchE_Inr_cases)
    assume "inspect_manifest en root f pmgr st w = (Inr st', w')"
    then show ?thesis using inspect_manifest_outcome [OF _ assms(2)] by blast
  next
    fix e s1
    assume "ret (st\<lparr>ms_failed := ms_failed st @
            [\<lparr>fs_targetFile = Some f, fs_error = e, fs_errMessage = error_text e\<rparr>]\<rparr>) s1 = (Inr st', w')"
    then show ?thesis
      using outcome_failed [OF assms(2), of "\<lparr>fs_targetFile = Some f, fs_error = e, fs_errMessage = error_text e\<rparr>" f]
      by auto
  qed
qed

text \<open>What the workspaces took is a project now.\<close>

definition manifest_of :: "plug_env \<Rightarrow> string \<Rightarrow> string \<Rightarrow> string \<Rightarrow> string" where
  "manifest_of en lockName root f =
     js_replace_first lockName ''package.json'' (path_resolve (working_dir (pg_pe en)) [root, f])"

definition taken_by :: "plug_env \<Rightarrow> string \<Rightarrow> string \<Rightarrow> mon_project list \<Rightarrow> string \<Rightarrow> bool" where
  "taken_by en lockName root ps f \<longleftrightarrow>
     (\<exists>p\<in>set ps. \<exists>t. mp_targetFile p = Some t \<and>
        path_resolve (working_dir (pg_pe en)) [root, t] = manifest_of en lockName root f)"

lemma filtered_taken:
  assumes "filterOutProcessed en lockName root ps fs = Inr rest" and "f \<in> set fs"
  shows "f \<in> set rest \<or> taken_by en lockName root ps f"
proof -
  from assms(1) obtain scanned where
    s: "mapS (\<lambda>p. case mp_targetFile p of
         Some f \<Rightarrow> Inr (path_resolve (working_dir (pg_pe en)) [root, f]) | None \<Rightarrow> Inl (pg_type_error en)) ps = Inr scanned"
    and rest: "rest = filter (\<lambda>f.
          let p = path_resolve (working_dir (pg_pe en)) [root, f] in
          path_base p \<notin> {''package.json'', lockName} \<or>
          js_replace_first lockName ''package.json'' p \<notin> set scanned) fs"
    by (auto simp: filterOutProcessed_def bindS_Inr_iff)
  have "\<exists>p\<in>set ps. \<exists>t. mp_targetFile p = Some t \<and> path_resolve (working_dir (pg_pe en)) [root, t] = x"
    if "x \<in> set scanned" for x
    using s that unfolding mapS_list_all2
    by (induction rule: list_all2_induct) (auto split: option.splits)
  with rest assms(2) show ?thesis by (auto simp: taken_by_def manifest_of_def Let_def)
qed

lemma workspaces_taken:
  assumes "workspaces_or_none found (\<lambda>ps. filterOutProcessed en lockName root ps fs) fs = (ps, rest)" and "f \<in> set fs"
  shows "f \<in> set rest \<or> taken_by en lockName root ps f"
  using assms filtered_taken [of en lockName root _ fs rest f]
  by (auto simp: workspaces_or_none_def bindS_Inr_iff split: sum.splits)

lemma foldS_breaks:
  "x \<in> set xs \<Longrightarrow> (\<And>acc. \<exists>e. f x acc = Inl e) \<Longrightarrow> \<exists>e'. foldS f xs acc = Inl e'"
proof (induction xs arbitrary: acc)
  case (Cons y ys)
  show ?case
  proof (cases "f y acc")
    case (Inr z)
    with Cons.prems(2) [of acc] have "x \<noteq> y" by force
    with Cons Inr show ?thesis by simp
  qed simp
qed simp

lemma bind_get_fs: "bindE get_fs f w = f (cw_fs (mw_cli w)) w"
  by (simp add: bindE_def get_fs_def)

lemma multi_outcomes:
  assumes "getMultiPluginResult en root opts manifests w = (Inr (r, opts'), w')"
    and "processYarnWorkspacesProjects en (cw_fs (mw_cli w)) root opts manifests = (ys, rest1)"
    and "processNpmWorkspacesProjects en (cw_fs (mw_cli w)) root opts rest1 = (ns, rest)"
  obtains outs st where "outcomes_of (ys @ ns) rest st outs" "mr_scannedProjects r = ms_results st"
    "mr_failedResults r = Some (ms_failed st)" "opts' = ms_options st" "ms_results st \<noteq> []"
proof -
  from assms(1) obtain st w2 where fold: "foldE (scan_manifest en root) rest
        \<lparr>ms_results = ys @ ns, ms_failed = [], ms_options = opts\<rparr> w = (Inr st, w2)"
    and st: "ms_results st \<noteq> []"
      "r = \<lparr>mr_plugin = empty_plugin\<lparr>pm_name := Some ''custom-auto-detect''\<rparr>,
            mr_scannedProjects = ms_results st, mr_failedResults = Some (ms_failed st)\<rparr>" "opts' = ms_options st"
    unfolding getMultiPluginResult_def Let_def bind_get_fs assms(2, 3) prod.case
    by (elim bindE_InrE) (simp split: if_splits)
  have "\<exists>outs. outcomes_of (ys @ ns) rest st outs"
  proof (rule foldE_invariant [OF fold, where I = "\<lambda>fs a. \<exists>outs. outcomes_of (ys @ ns) fs a outs"])
    show "\<exists>outs. outcomes_of (ys @ ns) [] \<lparr>ms_results = ys @ ns, ms_failed = [], ms_options = opts\<rparr> outs"
      by (intro exI [of _ "[]"]) (simp add: outcomes_of_def map_filter_def)
  next
    fix fs x a a' t t'
    assume "\<exists>outs. outcomes_of (ys @ ns) fs a outs" "scan_manifest en root x a t = (Inr a', t')"
    then show "\<exists>outs. outcomes_of (ys @ ns) (fs @ [x]) a' outs"
      using scan_manifest_outcome by blast
  qed
  with st that show thesis by auto
qed


section \<open>Samples\<close>

definition sample_plug_env :: plug_env where
  "sample_plug_env =
     \<lparr>pg_mon = sample_mon_env, pg_main = sample_main_env, pg_ff = sample_ff_lib,
      pg_external = (\<lambda>pm root f opts w. Inr (MultiProject empty_plugin [bare_project\<lparr>mp_depGraph := Some sample_graph\<rparr>])),
      pg_rubygems = (\<lambda>root f opts w. Inl (TVal JNull)), pg_lockVersion = (\<lambda>t. Inr OtherLock),
      pg_parseLock = (\<lambda>v m l s. Inl (TVal JNull)), pg_buildTree = (\<lambda>r m l d s w. Inl (TVal JNull)),
      pg_resolveDeps = (\<lambda>r opts w. Inl (TVal JNull)), pg_yarnWorkspaces = (\<lambda>t. Inr []), pg_isMatch = (\<lambda>f gs. False),
      pg_json_error = TVal JNull, pg_fs_error = (\<lambda>c p. TVal JNull), pg_type_error = TVal JNull\<rparr>"

lemma sample_folders:
  "manifest_folders sample_plug_env [''package.json'', lockName] [''/w/pom.xml''] = []" if "lockName \<in> {''yarn.lock'', ''package-lock.json''}"
proof -
  have "path_base ''/w/pom.xml'' = ''pom.xml''" by code_simp
  with that show ?thesis
    by (auto simp: manifest_folders_def sample_plug_env_def sample_ff_lib_def group_files_def describe_file_def)
qed

lemma sample_workspaces:
  "processYarnWorkspacesProjects sample_plug_env w ''/w'' [] [''/w/pom.xml''] = ([], [''/w/pom.xml''])"
  "processNpmWorkspacesProjects sample_plug_env w ''/w'' [] [''/w/pom.xml''] = ([], [''/w/pom.xml''])"
  by (simp_all add: processYarnWorkspacesProjects_def processNpmWorkspacesProjects_def workspaces_or_none_def
      processYarnWorkspaces_def processNpmWorkspaces_def sample_folders start_ws_def plugin_settings_def
      filterOutProcessedYarnWorkspaces_def filterOutProcessedNpmWorkspaces_def filterOutProcessed_def Let_def)

lemma sample_multi:
  "\<exists>r opts' w'. getMultiPluginResult sample_plug_env ''/w'' [] [''/w/pom.xml''] sample_mon_world = (Inr (r, opts'), w')"
proof -
  have pom: "detectPackageManagerFromFile (path_base ''/w/pom.xml'') = Inr ''maven''" by code_simp
  have "\<exists>st. inspect_manifest sample_plug_env ''/w'' ''/w/pom.xml'' ''maven''
      \<lparr>ms_results = [], ms_failed = [], ms_options = []\<rparr> sample_mon_world = (Inr st, sample_mon_world) \<and> ms_results st \<noteq> []"
    by (simp add: inspect_manifest_def getSinglePluginResult_def load_and_inspect_def external_plugins_def
        bind_get_fs bindE_apply get_fs_def sample_plug_env_def opt_text_def obj_set_def option_set_def is_array_index_def
        js_digit_def convertMultiResultToMultiCustom_def convertScannedProjectsToCustom_def Let_def)
  then obtain st where "inspect_manifest sample_plug_env ''/w'' ''/w/pom.xml'' ''maven''
      \<lparr>ms_results = [], ms_failed = [], ms_options = []\<rparr> sample_mon_world = (Inr st, sample_mon_world)" "ms_results st \<noteq> []"
    by blast
  then show ?thesis
    by (simp add: getMultiPluginResult_def bind_get_fs sample_workspaces scan_manifest_def pom bindE_apply get_fs_def catchE_def)
qed


section \<open>Three surprises\<close>

text \<open>
  A lock file of Yarn in a folder without a manifest, anywhere below the root, ends the search for workspaces: the
  manifest is read outside of the part whose errors leave one folder out, and then no workspace is found at all.
\<close>

lemma folder_listed:
  assumes "ff_lib_ok (pg_ff en)" and "f \<in> set fs" and "path_base f \<in> set names"
  shows "path_dir f \<in> set (manifest_folders en names fs)"
proof -
  let ?xs = "ff_sortBy_dir (pg_ff en) (filter (\<lambda>f. ff_base f \<in> set names) (map describe_file fs))"
  have "set ?xs = set (filter (\<lambda>f. ff_base f \<in> set names) (map describe_file fs))"
    using assms(1) mset_eq_setD unfolding ff_lib_ok_def by blast
  then have "path_dir f \<in> ff_dir ` set ?xs"
    using assms(2, 3) by (intro image_eqI [of _ _ "describe_file f"]) (simp_all add: describe_file_def)
  then have "obj_get (ff_groupBy (pg_ff en) ff_dir ?xs) (path_dir f) \<noteq> None"
    using assms(1) unfolding ff_lib_ok_def by simp
  then show ?thesis
    unfolding manifest_folders_def ob.get_None_iff by simp
qed

theorem stray_lock_ends_workspaces:
  assumes "ff_lib_ok (pg_ff en)" and "f \<in> set manifests" and "path_base f = ''yarn.lock''"
    and "\<not> existsSync w (resolve (pg_pe en) [root, path_join [path_dir f, ''package.json'']])"
  shows "processYarnWorkspacesProjects en w root opts manifests = ([], manifests)"
proof -
  have "\<exists>e. yarn_folder en w root s (path_dir f) st = Inl e" for s st
    using assms(4) by (simp add: yarn_folder_def getFileContents_def Let_def)
  then have "\<exists>e. foldS (yarn_folder en w root (plugin_settings opts))
      (manifest_folders en [''package.json'', ''yarn.lock''] manifests) start_ws = Inl e"
    using folder_listed [OF assms(1, 2), of "[''package.json'', ''yarn.lock'']"] assms(3)
    by (intro foldS_breaks [of "path_dir f"]) auto
  then obtain e where "foldS (yarn_folder en w root (plugin_settings opts))
      (manifest_folders en [''package.json'', ''yarn.lock''] manifests) start_ws = Inl e" ..
  then have "processYarnWorkspaces en w root (plugin_settings opts) manifests = Inl e"
    by (simp add: processYarnWorkspaces_def plugin_settings_def Let_def)
  then show ?thesis
    by (simp add: processYarnWorkspacesProjects_def workspaces_or_none_def)
qed

text \<open>Without a manifest, the error lists the letters of the folder.\<close>

lemma root_spelled_out:
  assumes "\<not> option_set opts ''scanAllUnmanaged''" "\<not> truthy (opt_text opts ''file'')" "\<not> option_set opts ''docker''"
    and "\<not> truthy (opt_text opts ''packageManager'')"
    and "detectPackageFile (pg_pe en) (cw_fs (mw_cli w)) root = None"
  shows "fst (scan_single en root opts w) = Inl (NoSupportedManifestsFoundError (pg_styles en) (map (\<lambda>c. [c]) root))"
proof -
  have "\<not> option_set (obj_delete ''file'' opts) ''docker''" "\<not> truthy (opt_text (obj_delete ''file'' opts) ''packageManager'')"
    "\<not> truthy (opt_text (obj_delete ''file'' opts) ''file'')"
    using assms(3, 4) by (simp_all add: option_set_def opt_text_def obj_get_delete)
  with assms(1, 2, 5) show ?thesis by (simp add: scan_single_def bind_get_fs set_text_def Let_def)
qed

text \<open>The names kept for the display are those of the last manifest that was scanned.\<close>

lemma names_of_last:
  assumes "inspect_manifest en root f pmgr st w = (Inr st', w')"
  shows "\<exists>projects. obj_get (ms_options st') ''projectNames'' = Some (project_names projects)"
  using assms unfolding inspect_manifest_def Let_def
  by (elim bindE_InrE) (auto split: inspect_result.splits)

lemma stray_lock_ends_workspaces_witness:
  "processYarnWorkspacesProjects sample_plug_env sample_fs ''/w'' [] [''/w/package.json'', ''/w/sub/yarn.lock''] =
     ([], [''/w/package.json'', ''/w/sub/yarn.lock''])"
proof -
  have base: "path_base ''/w/sub/yarn.lock'' = ''yarn.lock''" by code_simp
  have "path_resolve ''/w'' [''/w'', path_join [path_dir ''/w/sub/yarn.lock'', ''package.json'']] = ''/w/sub/package.json''"
    by code_simp
  then have gone: "\<not> existsSync sample_fs (resolve (pg_pe sample_plug_env) [''/w'', path_join [path_dir ''/w/sub/yarn.lock'', ''package.json'']])"
    by (simp add: resolve_def pg_pe_def sample_plug_env_def sample_main_env_def sample_main_penv_def existsSync_def sample_fs_def)
  show ?thesis
    by (rule stray_lock_ends_workspaces [OF _ _ base gone]) (simp_all add: sample_plug_env_def sample_ff_lib_ok)
qed

end
