(* ===== verification/MonitorCommand.thy ===== *)
theory MonitorCommand
  imports PluginDeps
begin

text \<open>
  The command \<open>monitor\<close>: \<open>src/src/cli/commands/monitor/index.ts\<close> with \<open>process-json-monitor.ts\<close>, the text of an
  answer (\<open>lib/formatters/format-monitor-response.ts\<close>) and the printing of a tree (\<open>lib/print-deps.ts\<close>).

  Parameters (\<open>mcmd_env\<close>): the ecosystems, the feature flags, \<open>git\<close>, the clock, \<open>chalk\<close>, \<open>JSON.stringify\<close>, the formatting of
  URLs, three strings of branches of a printed tree. The spinner is left out, and so is the printing of a graph,
  which nobody waits for. An option that is no text counts as absent where a text is needed, and a positional that
  is no text stands for the text it is printed as.
\<close>

section \<open>Data\<close>

datatype monitor_outcome =
    GoodResult string string "string option"
  | BadResult thrown string

primrec outcome_ok :: "monitor_outcome \<Rightarrow> bool" where
  "outcome_ok (GoodResult data p name) = True"
| "outcome_ok (BadResult e p) = False"

record mcmd_env =
  mc_plug :: plug_env
  mc_test :: test_env
  mc_exec :: "string \<Rightarrow> string \<Rightarrow> exec_error option \<times> string \<times> string"
  mc_now :: int
  mc_deepest :: nat
  mc_ecosystem :: "string \<Rightarrow> arg_item list \<Rightarrow> option_obj \<Rightarrow> contributor list \<Rightarrow> string mio"
  mc_bold_white :: "string \<Rightarrow> string"
  mc_warn :: "string \<Rightarrow> string"
  mc_stringify :: "bool \<Rightarrow> json \<Rightarrow> string"
  mc_tree_json :: "mon_tree \<Rightarrow> string"
  mc_format_url :: "string \<Rightarrow> string \<Rightarrow> string"
  mc_branch :: "string \<times> string \<times> string"
  mc_release_warning :: string

definition mc_mon :: "mcmd_env \<Rightarrow> mon_env" where
  "mc_mon en = pg_mon (mc_plug en)"

definition mc_styles :: "mcmd_env \<Rightarrow> styles" where
  "mc_styles en = pg_styles (mc_plug en)"

definition mc_plain :: "mcmd_env \<Rightarrow> string \<Rightarrow> thrown" where
  "mc_plain en m = pg_plain (mc_plug en) m"

definition newline :: string where "newline = [CHR 10]"

definition MON_SEPARATOR :: string where
  "MON_SEPARATOR = newline @ replicate 55 (CHR ''-'') @ newline"

section \<open>The text of an answer\<close>

definition buildManageUrl :: "mcmd_env \<Rightarrow> string option \<Rightarrow> string" where
  "buildManageUrl en org =
     (let leader = (if truthy org then ''/org/'' @ the org else []) in
      mc_format_url en (pe_api (re_poll (mv_run (mc_mon en)))) (leader @ ''/manage''))"

definition text_of_field :: "json \<Rightarrow> string \<Rightarrow> string option" where
  "text_of_field v k = (if js_true (field_opt v k) then Some (json_text (field_opt v k)) else None)"

definition formatMonitorOutput ::
  "mcmd_env \<Rightarrow> string option \<Rightarrow> json \<Rightarrow> option_obj \<Rightarrow> string option \<Rightarrow> nat option \<Rightarrow> string" where
  "formatMonitorOutput en pmgr res opts projectName foundProjectCount =
     (let manageUrl = buildManageUrl en (text_of_field res ''org'');
          multiScanTip = showMultiScanTip pmgr (shown_options_of opts)
            (case foundProjectCount of Some n \<Rightarrow> n | None \<Rightarrow> 0);
          issue_word = (if js_true (field_opt res ''licensesPolicy'') then ''issues'' else ''vulnerabilities'');
          path = json_text (field_opt res ''path'');
          humanReadableName = (if truthy projectName then path @ '' ('' @ the projectName @ '')'' else path);
          strOutput =
            mc_bold_white en (newline @ ''Monitoring '' @ humanReadableName @ ''...'' @ newline @ newline) @
            ''Explore this snapshot at '' @ json_text (field_opt res ''uri'') @ newline @ newline @
            (if multiScanTip \<noteq> [] then multiScanTip @ newline @ newline else []) @
            (if js_true (field_opt res ''isMonitored'')
             then ''Notifications about newly disclosed '' @ issue_word @ '' related '' @
               ''to these dependencies will be emailed to you.'' @ newline
             else st_red_bold (mc_styles en) (''Project is inactive, so notifications are turned '' @
               ''off.'' @ newline @ ''Activate this project here: '' @ manageUrl @ newline @ newline)) @
            (if js_true (field_opt res ''trialStarted'')
             then st_yellow (mc_styles en) (''You'' @ [CHR 0x27] @ ''re over the free plan usage limit, '' @ newline @
               ''and are now on a free 14-day premium trial.'' @ newline @
               ''View plans here: '' @ manageUrl @ newline @ newline)
             else []) in
      if option_set opts ''json''
      then mc_stringify en False
        (JObj (obj_merge (json_spread res) [(''manageUrl'', JStr manageUrl), (''packageManager'', opt_json pmgr)]))
      else strOutput)"

section \<open>Printing a tree\<close>

definition branch_of :: "mcmd_env \<Rightarrow> bool \<Rightarrow> string" where
  "branch_of en is_last = (if is_last then fst (snd (mc_branch en)) else fst (mc_branch en))"

definition deeper :: "mcmd_env \<Rightarrow> string \<Rightarrow> bool \<Rightarrow> string" where
  "deeper en prefix is_last = prefix @ (if is_last then ''   '' else snd (snd (mc_branch en)))"

text \<open>The lines of one entry of the dictionary, for the prefix and for whether it is the last one.\<close>

primrec entry_lines :: "mcmd_env \<Rightarrow> mon_tree \<Rightarrow> string \<Rightarrow> bool \<Rightarrow> string list" where
  "entry_lines en (MonTree n v p m l d i f ds) = (\<lambda>prefix is_last.
     (prefix @ (if prefix \<noteq> [] then branch_of en is_last else []) @ str_of_opt n @ '' @ '' @
        (if truthy v then the v else [])) #
     (case map_option (map (map_prod id (entry_lines en))) ds of
        None \<Rightarrow> []
      | Some entries \<Rightarrow>
          concat (map (\<lambda>(counter, name, lines_of). lines_of (deeper en prefix is_last) (counter = length entries - 1))
            (enumerate 0 entries))))"

definition printDepsForTree :: "mcmd_env \<Rightarrow> (string \<times> mon_tree) list \<Rightarrow> string \<Rightarrow> string list" where
  "printDepsForTree en depDict prefix =
     concat (map (\<lambda>(counter, name, dep). entry_lines en dep prefix (counter = length depDict - 1)) (enumerate 0 depDict))"

definition maybePrintDepTree :: "mcmd_env \<Rightarrow> option_obj \<Rightarrow> mon_tree \<Rightarrow> unit mio" where
  "maybePrintDepTree en opts rootPackage =
     (if option_set opts ''print-deps'' then
        (if option_set opts ''json'' then print_line (mc_tree_json en rootPackage)
         else bindE (mapE print_line (printDepsForTree en [(str_of_opt (mt_name rootPackage), rootPackage)] [])) (\<lambda>_. ret ()))
      else ret ())"

section \<open>Options\<close>

definition ValidationError :: "mcmd_env \<Rightarrow> string \<Rightarrow> thrown" where
  "ValidationError en m = custom_error (mc_styles en) PlainError ''ValidationError'' m JUndef (JStr m)"

definition validation_text :: "validation_error \<Rightarrow> string" where
  "validation_text e =
     (case e of
        NoValueForAttribute a \<Rightarrow> ''--'' @ a @ '' must contain an '' @ [CHR 0x27] @ ''='' @ [CHR 0x27] @
          '' with a comma-separated list of values. To clear all existing values, pass no values i.e. --'' @ a @ ''=''
      | InvalidAttributeValues a extra permitted \<Rightarrow> str_of_nat (length extra) @ '' invalid '' @ a @ '': '' @
          js_join '', '' extra @ ''. '' @ ''Possible values are: '' @ js_join '', '' permitted
      | BothTagOptions \<Rightarrow> ''Only one of --tags or --project-tags may be specified, not both''
      | NoValueForTags \<Rightarrow> ''--project-tags must contain an '' @ [CHR 0x27] @ ''='' @ [CHR 0x27] @
          '' with a comma-separated list of pairs (also separated with an '' @ [CHR 0x27] @ ''='' @ [CHR 0x27] @
          ''). To clear all existing values, pass no values i.e. --project-tags=''
      | TagWithoutEquals t \<Rightarrow> ''The tag '' @ [CHR 0x22] @ t @ [CHR 0x22] @ '' does not have an '' @ [CHR 0x22] @ ''='' @
          [CHR 0x22] @ '' separating the key and value. For example: --project-tag=KEY=VALUE'')"

definition opt_value_of :: "option_obj \<Rightarrow> string \<Rightarrow> opt_value option" where
  "opt_value_of opts k =
     (case obj_get opts k of Some (AStr s) \<Rightarrow> Some (OptText s) | Some v \<Rightarrow> Some OptTrue | None \<Rightarrow> None)"

definition monitor_options_of :: "option_obj \<Rightarrow> monitor_options" where
  "monitor_options_of opts =
     \<lparr>mo_criticality = opt_value_of opts ''project-business-criticality'',
      mo_environment = opt_value_of opts ''project-environment'', mo_lifecycle = opt_value_of opts ''project-lifecycle'',
      mo_project_tags = opt_value_of opts ''project-tags'', mo_tags = opt_value_of opts ''tags''\<rparr>"

definition generateMonitorMeta :: "mcmd_env \<Rightarrow> option_obj \<Rightarrow> string option \<Rightarrow> monitor_meta" where
  "generateMonitorMeta en opts pmgr =
     \<lparr>mm_packageManager = pmgr, mm_policy_path = opt_text opts ''policy-path'',
      mm_project_name = or_opt (opt_text opts ''project-name'') (pe_project_name (re_poll (mv_run (mc_mon en)))),
      mm_isDocker = option_set opts ''docker'', mm_prune = option_set opts ''pruneRepeatedSubdependencies'',
      mm_remote_repo_url = obj_get opts ''remote-repo-url'', mm_targetReference = opt_text opts ''target-reference''\<rparr>"

definition detect_options_of :: "option_obj \<Rightarrow> detect_options" where
  "detect_options_of opts =
     \<lparr>opt_packageManager = opt_text opts ''packageManager'', opt_docker = option_set opts ''docker'',
      opt_file = opt_text opts ''file'', opt_scanAllUnmanaged = option_set opts ''scanAllUnmanaged'',
      opt_registry = opt_text opts ''registry''\<rparr>"

definition getScannedProjectName :: "mon_project \<Rightarrow> string option" where
  "getScannedProjectName p =
     or_opt (Option.bind (mp_meta p) sm_gradleProjectName)
       (or_opt (map_option dg_root (mp_depGraph p)) (Option.bind (mp_depTree p) mt_name))"

definition extractProjectManager :: "mon_project \<Rightarrow> multi_result \<Rightarrow> option_obj \<Rightarrow> string option" where
  "extractProjectManager p r opts =
     (let pm = or_opt (mp_packageManager p) (pm_packageManager (mr_plugin r)) in
      if truthy pm then pm
      else if truthy (opt_text opts ''packageManager'') then opt_text opts ''packageManager'' else None)"

section \<open>One project\<close>

definition MON_SUPPORT :: string where
  "MON_SUPPORT = ''Your monitor request could not be completed. Please email support@khulnasoft.khulnasoft.com''"

definition set_path :: "mcmd_env \<Rightarrow> string \<Rightarrow> json \<Rightarrow> thrown + json" where
  "set_path en p res = (case res of JObj ps \<Rightarrow> Inr (JObj (obj_set ''path'' (JStr p) ps)) | _ \<Rightarrow> Inl (pg_type_error (mc_plug en)))"

definition relative_target :: "mcmd_env \<Rightarrow> string \<Rightarrow> string option \<Rightarrow> mon_project \<Rightarrow> string" where
  "relative_target en path file p =
     (let tFile = or_opt (mp_targetFile p) file in
      if truthy (Option.bind (mp_plugin p) pm_targetFile) then the (Option.bind (mp_plugin p) pm_targetFile)
      else if truthy tFile then path_join [resolve (pg_pe (mc_plug en)) [path], the tFile] else [])"

definition monitor_one ::
  "mcmd_env \<Rightarrow> option_obj \<Rightarrow> contributor list \<Rightarrow> string \<Rightarrow> string option \<Rightarrow> multi_result \<Rightarrow> multi_result \<Rightarrow> mon_project \<Rightarrow>
   monitor_outcome mio" where
  "monitor_one en opts contributors path file inspectResult perProject p =
     (if mp_depGraph p = None \<and> mp_depTree p = None
      then throw (FailedToRunTestError (mv_run (mc_mon en)) (JStr MON_SUPPORT) JUndef JUndef)
      else
        (let pmgr = extractProjectManager p perProject opts;
             projectName = getScannedProjectName p in
         bindE (mon_add (mc_mon en) ''packageManager'' (opt_json pmgr)) (\<lambda>_.
         bindE (case mp_depTree p of Some t \<Rightarrow> maybePrintDepTree en opts t | None \<Rightarrow> ret ()) (\<lambda>_.
         bindE (lift (case mp_plugin p of Some pm \<Rightarrow> Inr pm | None \<Rightarrow> Inl (pg_type_error (mc_plug en)))) (\<lambda>pluginMeta.
         bindE (lift (map_sum (\<lambda>e. ValidationError en (validation_text e)) id
             (generateProjectAttributes (monitor_options_of opts)))) (\<lambda>attributes.
         bindE (lift (map_sum (\<lambda>e. ValidationError en (validation_text e)) id
             (generateTags (monitor_options_of opts)))) (\<lambda>tags.
         bindE (monitor_project (mc_mon en)
             \<lparr>ma_root = path, ma_meta = generateMonitorMeta en opts pmgr, ma_plugin = pluginMeta, ma_options = opts,
              ma_targetFileRelativePath = Some (relative_target en path file p), ma_contributors = Some contributors,
              ma_projectAttributes = Some attributes, ma_tags = tags\<rparr> p) (\<lambda>res.
         bindE (lift (set_path en path res)) (\<lambda>res1.
         bindE (getExtraProjectCount (mc_plug en) path opts inspectResult) (\<lambda>extra.
           ret (GoodResult (formatMonitorOutput en pmgr res1 opts projectName extra) path projectName)))))))))))"

definition monitor_each ::
  "mcmd_env \<Rightarrow> option_obj \<Rightarrow> contributor list \<Rightarrow> string \<Rightarrow> string option \<Rightarrow> multi_result \<Rightarrow> multi_result \<Rightarrow> mon_project \<Rightarrow>
   monitor_outcome list \<Rightarrow> monitor_outcome list mio" where
  "monitor_each en opts contributors path file inspectResult perProject p results =
     catchE (bindE (monitor_one en opts contributors path file inspectResult perProject p) (\<lambda>x. ret (results @ [x])))
       (\<lambda>e. ret (results @ [BadResult e path]))"

section \<open>One path\<close>

definition validateMonitorPath :: "mcmd_env \<Rightarrow> pworld \<Rightarrow> string \<Rightarrow> bool \<Rightarrow> thrown + unit" where
  "validateMonitorPath en w path isDocker =
     (if \<not> existsSync w (resolve (pg_pe (mc_plug en)) [path]) \<and> \<not> isDocker
      then Inl (mc_plain en ([CHR 0x22] @ path @ [CHR 0x22] @ '' is not a valid path for '' @ [CHR 0x22] @
        ''vulnmap monitor'' @ [CHR 0x22]))
      else Inr ())"

definition failed_outcome :: "mcmd_env \<Rightarrow> failed_scan \<Rightarrow> monitor_outcome" where
  "failed_outcome en f =
     BadResult (MonitorError (mc_mon en) 500 (JStr (fs_errMessage f))) (case fs_targetFile f of Some t \<Rightarrow> t | None \<Rightarrow> [])"

text \<open>What is found in a folder: the manifest that stands for it, and the answer of the plugins.\<close>

definition inspect_path :: "mcmd_env \<Rightarrow> option_obj \<Rightarrow> string \<Rightarrow> (string option \<times> multi_result) mio" where
  "inspect_path en opts path =
     bindE get_fs (\<lambda>w.
     bindE (lift (validateMonitorPath en w path (option_set opts ''docker''))) (\<lambda>_.
     bindE (lift (if isMultiProjectScan (shown_options_of opts) \<or> option_set opts ''docker'' then Inr None
                  else map_sum (detect_thrown (mc_plug en)) id
                    (detectPackageManager (pg_pe (mc_plug en)) w path (detect_options_of opts)))) (\<lambda>pmgr.
       let file = (if \<not> option_set opts ''scanAllUnmanaged'' \<and> option_set opts ''docker'' \<and> \<not> truthy (opt_text opts ''file'')
                   then None
                   else or_opt (opt_text opts ''file'') (detectPackageFile (pg_pe (mc_plug en)) w path)) in
       bindE (getDepsFromPlugin (mc_plug en) (mc_deepest en) path
           (set_text ''packageManager'' pmgr (obj_set ''path'' (AStr path) opts))) (\<lambda>(inspectResult, changed_options).
       bindE (mon_add (mc_mon en) ''pluginName'' (opt_json (pm_name (mr_plugin inspectResult)))) (\<lambda>_.
         ret (file, inspectResult))))))"

text \<open>
  Everything that is pushed for one path. The answer of the plugins always has the form for several projects, so it is
  converted as such.
\<close>

definition monitor_path ::
  "mcmd_env \<Rightarrow> option_obj \<Rightarrow> contributor list \<Rightarrow> string \<Rightarrow> monitor_outcome list \<Rightarrow> monitor_outcome list mio" where
  "monitor_path en opts contributors path results =
     catchE
       (bindE (inspect_path en opts path) (\<lambda>(file, inspectResult).
          let perProject = convertMultiResultToMultiCustom (mr_plugin inspectResult) (mr_scannedProjects inspectResult) None None;
              failed = (case mr_failedResults inspectResult of Some fs \<Rightarrow> fs | None \<Rightarrow> []) in
          foldE (monitor_each en opts contributors path file inspectResult perProject) (mr_scannedProjects perProject)
            (results @ map (failed_outcome en) failed)))
       (\<lambda>e. ret (results @ [BadResult e path]))"

section \<open>The output\<close>

definition processJsonMonitorResponse :: "mcmd_env \<Rightarrow> monitor_outcome list \<Rightarrow> thrown + string" where
  "processJsonMonitorResponse en results =
     bindS (mapS (\<lambda>r. case r of
         GoodResult data p name \<Rightarrow>
           bindS (parse_json (mc_plug en) data) (\<lambda>v.
             Inr (if truthy name then (case v of JObj ps \<Rightarrow> JObj (obj_set ''projectName'' (JStr (the name)) ps) | _ \<Rightarrow> v) else v))
       | BadResult e p \<Rightarrow> Inr (JObj [(''ok'', JBool False), (''error'', err_get e ''message''), (''path'', JStr p)])) results)
       (\<lambda>dataToSend.
         let text = mc_stringify en True (if length dataToSend = 1 then hd dataToSend else JArr dataToSend) in
         if list_all outcome_ok results then Inr text
         else Inl (set_fields [(''json'', JStr text)] (mc_plain en text)))"

definition outcome_text :: "mcmd_env \<Rightarrow> monitor_outcome \<Rightarrow> string" where
  "outcome_text en r =
     (case r of
        GoodResult data p name \<Rightarrow> data
      | BadResult e p \<Rightarrow>
          mc_bold_white en (newline @ ''Monitoring '' @ p @ ''...'' @ newline @ newline) @
          (if js_true (err_get e ''userMessage'') then st_red_bold (mc_styles en) (json_text (err_get e ''userMessage''))
           else (case e of
               TVal v \<Rightarrow> if js_true v then json_text (err_get e ''message'') else ''Unknown error occurred.''
             | TErr c ps \<Rightarrow> json_text (err_get e ''message''))))"

definition monitor_output :: "mcmd_env \<Rightarrow> option_obj \<Rightarrow> monitor_outcome list \<Rightarrow> thrown + string" where
  "monitor_output en opts results =
     (if option_set opts ''json'' then processJsonMonitorResponse en results
      else
        (let output = js_join (newline @ MON_SEPARATOR) (map (outcome_text en) results) in
         if list_all outcome_ok results then Inr output else Inl (mc_plain en output)))"

section \<open>The command\<close>

definition container_options :: "mcmd_env \<Rightarrow> option_obj \<Rightarrow> option_obj mio" where
  "container_options en opts =
     (if \<not> option_set opts ''docker'' then ret opts
      else if option_set opts ''exclude-app-vulns'' then ret (obj_set ''exclude-app-vulns'' (ABool True) opts)
      else if option_set opts ''app-vulns'' then ret (obj_set ''exclude-app-vulns'' (ABool False) opts)
      else
        bindE (lift (hasFeatureFlag (mc_test en) ''containerCliAppVulnsEnabled'' opts)) (\<lambda>enabled.
          bindE (if \<not> enabled \<and> \<not> option_set opts ''json'' \<and> \<not> option_set opts ''sarif''
                 then print_line (mc_warn en (mc_release_warning en)) else ret ())
            (\<lambda>_. ret (obj_set ''exclude-app-vulns'' (ABool (\<not> enabled)) opts))))"

definition command_ecosystem :: "option_obj \<Rightarrow> string option" where
  "command_ecosystem opts =
     (if option_set opts ''unmanaged'' then Some ''cpp'' else if option_set opts ''docker'' then Some ''docker'' else None)"

definition with_id :: "option_obj \<Rightarrow> mcmd_env \<Rightarrow> mcmd_env" where
  "with_id opts en =
     (if option_set opts ''id''
      then en\<lparr>mc_plug := (mc_plug en)\<lparr>pg_mon := (mc_mon en)\<lparr>mv_id := opt_text opts ''id''\<rparr>\<rparr>\<rparr> else en)"

definition monitor_run :: "mcmd_env \<Rightarrow> option_obj \<Rightarrow> arg_item list \<Rightarrow> string mio" where
  "monitor_run en opts paths =
     (if option_set opts ''allSubProjects'' \<and> option_set opts ''project-name''
      then throw (mc_plain en ''`--all-sub-projects` is currently not compatible with `--project-name`'')
      else
        bindE (if option_set opts ''docker'' then ret () else lift (checkOSSPaths (mc_styles en) paths opts)) (\<lambda>_.
        if option_set opts ''docker'' \<and> option_set opts ''remote-repo-url''
        then throw (mc_plain en ''`--remote-repo-url` is not supported for container scans'')
        else
          bindE (container_options en opts) (\<lambda>opts1.
          if option_set opts1 ''docker'' \<and> paths = [] then throw (MissingArgError (mc_test en))
          else
            bindE (lift (case apiOrOAuthTokenExists (re_poll (mv_run (mc_mon en))) of
                      Inl e \<Rightarrow> Inl (missing_api_token (mc_mon en)) | Inr t \<Rightarrow> Inr ())) (\<lambda>_.
              let contributors = (if \<not> option_set opts1 ''docker'' \<and> me_allowed (pg_main (mc_plug en))
                    then getContributors (mc_exec en) (mc_now en) CONTRIBUTING_DEVELOPER_PERIOD_DAYS
                           (working_dir (pg_pe (mc_plug en)))
                    else []) in
              case command_ecosystem opts1 of
                Some ecosystem \<Rightarrow> mc_ecosystem en ecosystem paths opts1 contributors
              | None \<Rightarrow>
                  bindE (foldE (\<lambda>p. monitor_path en opts1 contributors (path_text p)) paths []) (\<lambda>results.
                    lift (monitor_output en opts1 results))))))"

definition monitor_command :: "mcmd_env \<Rightarrow> option_obj \<Rightarrow> arg_item list \<Rightarrow> string mio" where
  "monitor_command en given_options items =
     (let (paths, opts) = processCommandArgs (pg_pe (mc_plug en)) given_options items in
      monitor_run (with_id opts en) opts paths)"

section \<open>One outcome for every project\<close>

text \<open>What sends exactly one request when it returns, and at most one when it throws.\<close>

definition sends_one :: "'a mio \<Rightarrow> bool" where
  "sends_one m \<longleftrightarrow>
     (\<forall>w. \<exists>qs. mw_requests (snd (m w)) = mw_requests w @ qs \<and> length qs \<le> 1 \<and>
        (case fst (m w) of Inl e \<Rightarrow> True | Inr x \<Rightarrow> length qs = 1))"

lemma sender_sends_one: "sender en a m \<Longrightarrow> sends_one m"
  unfolding sender_def sends_one_def
proof
  fix w
  assume "\<forall>w. (\<exists>e. fst (m w) = Inl e) \<and> mw_requests (snd (m w)) = mw_requests w \<or>
          (\<exists>q. well_formed_request en a q \<and> mw_requests (snd (m w)) = mw_requests w @ [q] \<and>
               fst (m w) = bindS (mv_server en q) (monitor_answer en))"
  then consider "\<exists>e. fst (m w) = Inl e" "mw_requests (snd (m w)) = mw_requests w"
    | q where "mw_requests (snd (m w)) = mw_requests w @ [q]" by blast
  then show "\<exists>qs. mw_requests (snd (m w)) = mw_requests w @ qs \<and> length qs \<le> 1 \<and>
        (case fst (m w) of Inl e \<Rightarrow> True | Inr x \<Rightarrow> length qs = 1)"
  proof cases
    case 1
    then show ?thesis by (intro exI [of _ "[]"]) auto
  next
    case (2 q)
    then show ?thesis by (intro exI [of _ "[q]"]) (simp split: sum.split)
  qed
qed

lemma sends_one_before:
  assumes "silent m" and "\<And>x. sends_one (f x)"
  shows "sends_one (bindE m f)"
  unfolding sends_one_def
proof
  fix w
  obtain r w1 where m: "m w = (r, w1)" by (cases "m w")
  have same: "mw_requests w1 = mw_requests w" using assms(1) m unfolding silent_def by (metis snd_conv)
  show "\<exists>qs. mw_requests (snd (bindE m f w)) = mw_requests w @ qs \<and> length qs \<le> 1 \<and>
        (case fst (bindE m f w) of Inl e \<Rightarrow> True | Inr x \<Rightarrow> length qs = 1)"
  proof (cases r)
    case (Inl e)
    with m same show ?thesis by (simp add: bindE_def)
  next
    case (Inr x)
    with m same assms(2) [of x] show ?thesis by (simp add: bindE_def sends_one_def) metis
  qed
qed

lemma sends_one_after:
  assumes "sends_one m" and "\<And>x. silent (f x)"
  shows "sends_one (bindE m f)"
  unfolding sends_one_def
proof
  fix w
  obtain r w1 where m: "m w = (r, w1)" by (cases "m w")
  obtain qs where qs: "mw_requests w1 = mw_requests w @ qs" "length qs \<le> 1"
      "case r of Inl e \<Rightarrow> True | Inr x \<Rightarrow> length qs = 1"
    using assms(1) m unfolding sends_one_def by (metis fst_conv snd_conv)
  show "\<exists>qs. mw_requests (snd (bindE m f w)) = mw_requests w @ qs \<and> length qs \<le> 1 \<and>
        (case fst (bindE m f w) of Inl e \<Rightarrow> True | Inr x \<Rightarrow> length qs = 1)"
  proof (cases r)
    case (Inl e)
    with m qs show ?thesis by (auto simp: bindE_def)
  next
    case (Inr x)
    with m qs assms(2) [of x] show ?thesis
      by (intro exI [of _ qs]) (simp add: bindE_def silent_def split: sum.split)
  qed
qed

lemma sends_one_throw: "sends_one (throw e)"
  unfolding sends_one_def by simp

lemma silent_get_fs: "silent get_fs"
  by (simp add: silent_def get_fs_def)

lemma silent_print_line: "silent (print_line t)"
  by (simp add: silent_def print_line_def)

lemma silent_catchE: "silent m \<Longrightarrow> (\<And>e. silent (h e)) \<Longrightarrow> silent (catchE m h)"
  by (auto simp: silent_def catchE_def split: prod.splits sum.splits) (metis snd_conv)+

lemma silent_extra_count: "silent (getExtraProjectCount en root opts r)"
  unfolding getExtraProjectCount_def find_manifests_def
  by (auto intro!: silent_catchE silent_bindE silent_get_fs)

lemma silent_print_tree: "silent (maybePrintDepTree en opts t)"
  unfolding maybePrintDepTree_def by (auto intro!: silent_bindE silent_mapE silent_print_line)

lemma sends_one_send: "(\<And>x. silent (f x)) \<Longrightarrow> sends_one (bindE (monitor_project en a p) f)"
  by (rule sends_one_after [OF sender_sends_one [OF sender_monitor_project]])

lemma sends_one_monitor: "sends_one (monitor_one en opts cs path mf r pr p)"
  unfolding monitor_one_def Let_def
  by (auto intro!: sends_one_throw sends_one_send sends_one_before silent_print_tree silent_extra_count silent_bindE
      split: option.splits)

text \<open>What the loop over the projects of one path does: an outcome for each, a request for each that is monitored.\<close>

definition outcome_path :: "monitor_outcome \<Rightarrow> string" where
  "outcome_path r = (case r of GoodResult data p name \<Rightarrow> p | BadResult e p \<Rightarrow> p)"

lemma monitor_one_path:
  assumes "monitor_one en opts cs path mf r pr p w = (Inr x, w')"
  shows "outcome_ok x \<and> outcome_path x = path"
  using assms unfolding monitor_one_def Let_def
  by (auto elim!: bindE_InrE simp: outcome_path_def split: if_splits)

lemma monitor_each_step:
  "\<exists>x qs w'. monitor_each en opts cs path mf r pr p results w = (Inr (results @ [x]), w') \<and>
     outcome_path x = path \<and> mw_requests w' = mw_requests w @ qs \<and> length qs \<le> 1 \<and>
     (if outcome_ok x then length qs = 1 else True)"
proof -
  obtain a w1 where m: "monitor_one en opts cs path mf r pr p w = (a, w1)"
    by (cases "monitor_one en opts cs path mf r pr p w")
  obtain qs where qs: "mw_requests w1 = mw_requests w @ qs" "length qs \<le> 1"
      "case a of Inl e \<Rightarrow> True | Inr x \<Rightarrow> length qs = 1"
    using sends_one_monitor [of en opts cs path mf r pr p] m unfolding sends_one_def by (metis fst_conv snd_conv)
  show ?thesis
  proof (cases a)
    case (Inl e)
    with m have "monitor_each en opts cs path mf r pr p results w = (Inr (results @ [BadResult e path]), w1)"
      by (simp add: monitor_each_def catchE_def bindE_apply)
    with qs show ?thesis by (intro exI [of _ "BadResult e path"] exI [of _ qs] exI [of _ w1]) (simp add: outcome_path_def)
  next
    case (Inr x)
    with m have "monitor_each en opts cs path mf r pr p results w = (Inr (results @ [x]), w1)"
      by (simp add: monitor_each_def catchE_def bindE_apply)
    with qs Inr monitor_one_path m show ?thesis by (intro exI [of _ x] exI [of _ qs] exI [of _ w1]) auto
  qed
qed

lemma monitor_each_loop:
  "\<exists>xs qs w'. foldE (monitor_each en opts cs path mf r pr) ps results w = (Inr (results @ xs), w') \<and>
     length xs = length ps \<and> list_all (\<lambda>x. outcome_path x = path) xs \<and> mw_requests w' = mw_requests w @ qs \<and>
     length (filter outcome_ok xs) \<le> length qs \<and> length qs \<le> length ps"
proof (induction ps arbitrary: results w)
  case Nil
  show ?case by (intro exI [of _ "[]"] exI [of _ w]) simp
next
  case (Cons p ps)
  obtain x q w1 where step: "monitor_each en opts cs path mf r pr p results w = (Inr (results @ [x]), w1)"
      "outcome_path x = path" "mw_requests w1 = mw_requests w @ q" "length q \<le> 1"
      "if outcome_ok x then length q = 1 else True"
    using monitor_each_step by blast
  obtain xs qs w2 where rest: "foldE (monitor_each en opts cs path mf r pr) ps (results @ [x]) w1 = (Inr ((results @ [x]) @ xs), w2)"
      "length xs = length ps" "list_all (\<lambda>x. outcome_path x = path) xs" "mw_requests w2 = mw_requests w1 @ qs"
      "length (filter outcome_ok xs) \<le> length qs" "length qs \<le> length ps"
    using Cons.IH [of "results @ [x]" w1] by blast
  have "foldE (monitor_each en opts cs path mf r pr) (p # ps) results w = (Inr (results @ x # xs), w2)"
    using step(1) rest(1) by (simp add: bindE_apply)
  with step rest show ?case
    by (intro exI [of _ "x # xs"] exI [of _ "q @ qs"] exI [of _ w2]) (auto split: if_splits)
qed

text \<open>C35: One project that cannot be monitored does not keep the others from it. For a path whose dependencies cannot be
  found there is one failed outcome; otherwise there is a failed outcome for each manifest the plugins failed on
  and then one outcome for each project found, in order, and the loop goes on. Every monitored project has had a
  request of its own, and no project has more than one.
\<close>

theorem monitored_one_by_one:
  "\<exists>outs w'. monitor_path en opts cs path results w = (Inr (results @ outs), w') \<and>
     (case inspect_path en opts path w of
        (Inl e, w1) \<Rightarrow> outs = [BadResult e path] \<and> mw_requests w' = mw_requests w1
      | (Inr (mf, r), w1) \<Rightarrow>
          (\<exists>xs qs. outs = map (failed_outcome en) (case mr_failedResults r of Some fs \<Rightarrow> fs | None \<Rightarrow> []) @ xs \<and>
             length xs = length (mr_scannedProjects r) \<and> list_all (\<lambda>x. outcome_path x = path) xs \<and>
             mw_requests w' = mw_requests w1 @ qs \<and>
             length (filter outcome_ok xs) \<le> length qs \<and> length qs \<le> length (mr_scannedProjects r)))"
proof -
  obtain a w1 where m: "inspect_path en opts path w = (a, w1)" by (cases "inspect_path en opts path w")
  show ?thesis
  proof (cases a)
    case (Inl e)
    with m show ?thesis by (simp add: monitor_path_def catchE_def bindE_apply)
  next
    case (Inr fr)
    obtain mf r where fr: "fr = (mf, r)" by (cases fr)
    let ?pr = "convertMultiResultToMultiCustom (mr_plugin r) (mr_scannedProjects r) None None"
    let ?start = "results @ map (failed_outcome en) (case mr_failedResults r of Some fs \<Rightarrow> fs | None \<Rightarrow> [])"
    obtain xs qs w' where loop: "foldE (monitor_each en opts cs path mf r ?pr) (mr_scannedProjects ?pr) ?start w1 =
          (Inr (?start @ xs), w')" "length xs = length (mr_scannedProjects ?pr)" "list_all (\<lambda>x. outcome_path x = path) xs"
        "mw_requests w' = mw_requests w1 @ qs" "length (filter outcome_ok xs) \<le> length qs"
        "length qs \<le> length (mr_scannedProjects ?pr)"
      using monitor_each_loop [of en opts cs path mf r ?pr "mr_scannedProjects ?pr" ?start w1] by blast
    have n: "length (mr_scannedProjects ?pr) = length (mr_scannedProjects r)"
      by (simp add: convertMultiResultToMultiCustom_def convertScannedProjectsToCustom_def)
    have "monitor_path en opts cs path results w = (Inr (?start @ xs), w')"
      using m Inr fr loop(1) by (simp add: monitor_path_def catchE_def bindE_apply Let_def)
    with m Inr fr loop n show ?thesis by (intro exI [of _ "_ @ xs"] exI [of _ w']) auto
  qed
qed

section \<open>No failure is hidden\<close>

lemma includes_join: "x \<in> set xs \<Longrightarrow> js_includes (js_join d xs) x"
proof (induction d xs rule: js_join.induct)
  case (3 d y z zs)
  show ?case
  proof (cases "x = y")
    case True
    then have "js_join d (y # z # zs) = [] @ x @ (d @ js_join d (z # zs))" by simp
    then show ?thesis unfolding js_includes_iff by blast
  next
    case False
    with 3 have "js_includes (js_join d (z # zs)) x" by auto
    then obtain u v where "js_join d (z # zs) = u @ x @ v" unfolding js_includes_iff by blast
    then have "js_join d (y # z # zs) = (y @ d @ u) @ x @ v" by simp
    then show ?thesis unfolding js_includes_iff by blast
  qed
next
  case (2 d w)
  then have "js_join d [w] = [] @ x @ []" by simp
  then show ?case unfolding js_includes_iff by blast
qed simp

lemma plain_message: "err_get (mc_plain en m) ''message'' = JStr m"
  by (simp add: mc_plain_def pg_plain_def plain_error_def err_get_def)

lemma json_outcome_ok: "processJsonMonitorResponse en results = Inr t \<Longrightarrow> list_all outcome_ok results"
  by (auto simp: processJsonMonitorResponse_def bindS_Inr_iff Let_def split: if_splits)

text \<open>C36: The command does not hide a failure: it returns a text only when every outcome is a good one. Without
  \<open>--json\<close> it fails exactly when some outcome is not, and then, as in the good case, the text holds the text of
  every outcome: what was monitored, and for each failure its path and its message.
\<close>

theorem failures_reported:
  "case monitor_output en opts results of
     Inr t \<Rightarrow> list_all outcome_ok results \<and>
       (if option_set opts ''json'' then True else list_all (\<lambda>x. js_includes t (outcome_text en x)) results)
   | Inl e \<Rightarrow>
       (if option_set opts ''json'' then True
        else list_ex (\<lambda>x. \<not> outcome_ok x) results \<and>
          list_all (\<lambda>x. js_includes (json_text (err_get e ''message'')) (outcome_text en x)) results)"
proof (cases "option_set opts ''json''")
  case True
  then show ?thesis using json_outcome_ok by (auto simp: monitor_output_def split: sum.split)
next
  case False
  have "list_all (\<lambda>x. js_includes (js_join (newline @ MON_SEPARATOR) (map (outcome_text en) results)) (outcome_text en x)) results"
    by (auto simp: list_all_iff intro: includes_join)
  with False show ?thesis
    by (simp add: monitor_output_def Let_def plain_message list_ex_iff list_all_iff split: if_split)
qed

end
