(* ===== verification/FixCommand.thy ===== *)
theory FixCommand
  imports FixMain TestCommand
begin

text \<open>
  The command \<open>fix\<close>: \<open>src/cli/commands/fix/index.ts\<close> with \<open>get-display-path.ts\<close>,
  \<open>validate-fix-command-is-supported.ts\<close> and \<open>lib/errors/not-supported-by-ecosystem.ts\<close>. It
  tests every path, turns the results into entities, lets the fix library work on them and
  reports its summary. The test of a path is the parameter of the test command; the fix
  library is the model of \<open>FixMain\<close>. What the two spinners persist is a list of pairs of
  symbol and text.
\<close>

section \<open>State\<close>

record fix_cmd_world =
  fw_cli :: cli_world
  fw_files :: world
  fw_shown :: "(string \<times> string) list"

type_synonym 'a fcio = "(thrown, fix_cmd_world, 'a) eff"

text \<open>
  \<open>fc_view\<close> reads the fields of a test result the conversion uses, \<open>fc_order\<close> and \<open>fc_horder\<close>
  are the orders of the loops of the fix library, \<open>fc_change_text\<close> is \<open>JSON.stringify\<close> of a change.
\<close>

record fix_cmd_env =
  fc_test :: test_env
  fc_view :: "shown_result \<times> json \<Rightarrow> project_result"
  fc_tools :: tools
  fc_style :: style
  fc_fuel :: nat
  fc_order :: "entity list \<Rightarrow> string list"
  fc_horder :: "handler_type list"
  fc_change_text :: "fix_change \<Rightarrow> string"
  fc_run_icon :: string

definition on_cli :: "'a cio \<Rightarrow> 'a fcio" where
  "on_cli m = (\<lambda>s. let (r, c) = m (fw_cli s) in (r, s\<lparr>fw_cli := c\<rparr>))"

section \<open>Support\<close>

definition FeatureNotSupportedByEcosystemError :: "styles \<Rightarrow> string \<Rightarrow> string \<Rightarrow> thrown" where
  "FeatureNotSupportedByEcosystemError st feature ecosystem =
     custom_error st PlainError ''FeatureNotSupportedByEcosystemError''
       (''Unsupported ecosystem '' @ ecosystem @ '' for '' @ feature @ ''.'') (JNum 422)
       (JStr (''`'' @ feature @ ''` is not supported for ecosystem '' @ [CHR 0x27] @ ecosystem @ [CHR 0x27]))"

definition fix_not_supported :: "test_env \<Rightarrow> option_obj \<Rightarrow> thrown" where
  "fix_not_supported en opts =
     plain_thrown en
       (styled (te_display en) ''red''
          (''`vulnmap fix` is not supported'' @
           (if option_set opts ''org'' then '' for org '' @ [CHR 0x27] @ option_word (obj_get opts ''org'') @ [CHR 0x27] else []) @ ''.'') @
        TestDisplay.nl @ ''See documentation on how to enable this beta feature: https://docs.vulnmap.khulnasoft.com/vulnmap-cli/fix-vulnerabilities-from-the-cli/automatic-remediation-with-vulnmap-fix#enabling-vulnmap-fix'')"

definition validateFixCommandIsSupported :: "test_env \<Rightarrow> option_obj \<Rightarrow> thrown + unit" where
  "validateFixCommandIsSupported en opts =
     (if option_set opts ''docker''
      then Inl (FeatureNotSupportedByEcosystemError (test_styles en) ''vulnmap fix'' ''docker'')
      else
        (case getEcosystemForTest opts of
           Some ecosystem \<Rightarrow> Inl (FeatureNotSupportedByEcosystemError (test_styles en) ''vulnmap fix'' ecosystem)
         | None \<Rightarrow>
             bindS (te_flag en ''cliVulnmapFix'' opts) (\<lambda>(code, error, ok).
               if code = 401 \<or> code = 403 then Inl (AuthFailedError (te_run en) error code)
               else if \<not> ok then Inl (fix_not_supported en opts)
               else Inr ())))"

section \<open>Testing the paths\<close>

text \<open>\<open>path.parse(p).name\<close>: the last segment without its extension.\<close>

definition path_stem :: "string \<Rightarrow> string" where
  "path_stem p =
     (let b = path_base p; r = dropWhile (\<lambda>c. c \<noteq> CHR ''.'') (rev b) in
      if b = ''..'' \<or> r = [] \<or> tl r = [] then b else rev (tl r))"

definition getDisplayPath :: "penv \<Rightarrow> pworld \<Rightarrow> string \<Rightarrow> string" where
  "getDisplayPath pe fs p =
     (if \<not> isLocalFolder fs p then p
      else if p = working_dir pe then path_stem p
      else path_relative (working_dir pe) (working_dir pe) p)"

text \<open>A silent spinner persists nothing.\<close>

definition persist :: "option_obj \<Rightarrow> string \<Rightarrow> string \<Rightarrow> unit fcio" where
  "persist opts symbol text =
     (\<lambda>s. (Inr (), if option_set opts ''quiet'' then s else s\<lparr>fw_shown := fw_shown s @ [(symbol, text)]\<rparr>))"

definition fix_thrown :: "test_env \<Rightarrow> fix_error \<Rightarrow> thrown" where
  "fix_thrown en e = plain_thrown en (error_message e)"

text \<open>The fields of the options an entity is read for.\<close>

definition entity_options :: "option_obj \<Rightarrow> test_options" where
  "entity_options opts =
     (let text = (\<lambda>k. case obj_get opts k of Some (AStr s) \<Rightarrow> Some s | _ \<Rightarrow> None) in
      \<lparr>packageManager = text ''packageManager'', command = text ''command'',
       dev = (case obj_get opts ''dev'' of None \<Rightarrow> None | Some v \<Rightarrow> Some (arg_truthy v))\<rparr>)"

definition scan_options :: "option_obj \<Rightarrow> string \<Rightarrow> option_obj" where
  "scan_options opts p =
     (let withPath = obj_set ''path'' (AStr p) opts in
      obj_set ''quiet'' (ABool True)
        (case obj_get opts ''project-name'' of
           Some v \<Rightarrow> obj_set ''projectName'' v withPath | None \<Rightarrow> obj_delete ''projectName'' withPath))"

definition scan_results :: "test_env \<Rightarrow> option_obj \<Rightarrow> string \<Rightarrow> (shown_result \<times> json) list cio" where
  "scan_results en opts p = (\<lambda>c. let ((r, testOpts), c') = te_test en p (scan_options opts p) c in (r, c'))"

text \<open>\<open>formatTestError(error).message\<close>, in a template.\<close>

definition test_error_text :: "test_env \<Rightarrow> thrown \<Rightarrow> thrown + string" where
  "test_error_text en e =
     (case formatTestError en e of
        Inl testError \<Rightarrow> Inr (json_text (err_get testError ''message''))
      | Inr v \<Rightarrow> (case json_prop v ''message'' of
                     Inl t \<Rightarrow> Inl (type_error_thrown (te_main en)) | Inr m \<Rightarrow> Inr (json_text m)))"

definition failed_note :: "test_env \<Rightarrow> string \<Rightarrow> string \<Rightarrow> string" where
  "failed_note en message displayPath =
     styled (te_display en) ''red'' (''Failed! '' @ message @ ''.'') @ TestDisplay.nl @
     ''  Tip: run `vulnmap test '' @ displayPath @ '' -d` for more information.''"

definition path_entities :: "fix_cmd_env \<Rightarrow> option_obj \<Rightarrow> string \<Rightarrow> (shown_result \<times> json) list \<Rightarrow> thrown + entity list" where
  "path_entities en opts p rs =
     map_sum (fix_thrown (fc_test en)) id
       (convertLegacyTestResultToFixEntities (Inr (map (fc_view en) rs)) p (entity_options opts))"

definition test_displayed :: "fix_cmd_env \<Rightarrow> option_obj \<Rightarrow> string \<Rightarrow> entity list \<Rightarrow> string \<Rightarrow> entity list fcio" where
  "test_displayed en opts p acc displayPath =
     (let te = fc_test en;
          message = ''Running `vulnmap test` for '' @ p;
          persist_message = persist opts (TestDisplay.nl @ fc_run_icon en) message in
      catchE
        (bindE (on_cli (scan_results te opts p)) (\<lambda>rs.
         bindE (lift (path_entities en opts p rs)) (\<lambda>newRes.
         bindE persist_message (\<lambda>_. ret (acc @ newRes)))))
        (\<lambda>error.
          bindE (lift (test_error_text te error)) (\<lambda>m.
          bindE persist_message (\<lambda>_.
          bindE (persist opts (styled (te_display te) ''red'' '' '') (failed_note te m displayPath)) (\<lambda>_.
            ret acc)))))"

definition test_one :: "fix_cmd_env \<Rightarrow> option_obj \<Rightarrow> string \<Rightarrow> entity list \<Rightarrow> entity list fcio" where
  "test_one en opts p acc =
     (\<lambda>s. test_displayed en opts p acc (getDisplayPath (me_penv (te_main (fc_test en))) (cw_fs (fw_cli s)) p) s)"

definition runVulnmapTestLegacy :: "fix_cmd_env \<Rightarrow> option_obj \<Rightarrow> arg_item list \<Rightarrow> entity list fcio" where
  "runVulnmapTestLegacy en opts paths = foldE (\<lambda>p. test_one en opts (path_text p)) paths []"

section \<open>The command\<close>

definition failed_texts :: "fix_cmd_env \<Rightarrow> failed_to_fix \<Rightarrow> string list" where
  "failed_texts en f =
     (case f of FailedError e er tip \<Rightarrow> [error_message er]
      | FailedChanges e changes \<Rightarrow> map (fc_change_text en) changes)"

definition setVulnmapFixAnalytics ::
  "fix_cmd_env \<Rightarrow> string \<Rightarrow> fixed_meta \<Rightarrow> entity list \<Rightarrow> results_by_plugin \<Rightarrow> entity list \<Rightarrow> unit cio" where
  "setVulnmapFixAnalytics en fixSummary meta responses resultsByPlugin vulnerableResults =
     (let add = add_meta (te_main (fc_test en)); count = (\<lambda>n. JNum (int n)) in
      bindE (add ''vulnmapFixFailedProjects'' (count (meta_failed meta))) (\<lambda>_.
      bindE (add ''vulnmapFixFixedProjects'' (count (meta_fixed meta))) (\<lambda>_.
      bindE (add ''vulnmapFixTotalProjects'' (count (length responses))) (\<lambda>_.
      bindE (add ''vulnmapFixVulnerableProjects'' (count (length vulnerableResults))) (\<lambda>_.
      bindE (add ''vulnmapFixFixableIssues'' (count (meta_fixableIssues meta))) (\<lambda>_.
      bindE (add ''vulnmapFixFixedIssues'' (count (meta_fixedIssues meta))) (\<lambda>_.
      bindE (add ''vulnmapFixTotalIssues'' (count (meta_totalIssues meta))) (\<lambda>_.
      bindE (add ''vulnmapFixSummary'' (JStr fixSummary)) (\<lambda>_.
      bindE (mapE (\<lambda>(plugin, r). add ''vulnmapFixErrors''
               (JObj [(plugin, JArr (map JStr (concat (map (failed_texts en) (failed r)))))])) resultsByPlugin)
        (\<lambda>_. ret ()))))))))))"

definition vulnerable_results :: "entity list \<Rightarrow> entity list" where
  "vulnerable_results es = filter (\<lambda>e. length (issues (testResult e)) \<noteq> 0) es"

definition fix_library :: "fix_cmd_env \<Rightarrow> option_obj \<Rightarrow> entity list \<Rightarrow> (thrown, fix_cmd_world, fix_result) peff" where
  "fix_library en opts es = (\<lambda>s.
     (case fix_fuel (fc_fuel en) (fc_tools en) (fc_style en) (fc_order en es) (fc_horder en) es
             \<lparr>dryRun = option_set opts ''dryRun'', quiet_opt = option_set opts ''quiet'', stripAnsi = False,
              sequentialFix = option_set opts ''sequential''\<rparr> (fw_files s) of
        None \<Rightarrow> None
      | Some (r, f) \<Rightarrow> Some (map_sum (fix_thrown (fc_test en)) id r, s\<lparr>fw_files := f\<rparr>)))"

text \<open>What the command ends with.\<close>

definition fix_verdict :: "fix_cmd_env \<Rightarrow> entity list \<Rightarrow> fix_result \<Rightarrow> thrown + string" where
  "fix_verdict en results fr =
     (let failure = Inl (plain_thrown (fc_test en) (fr_summary fr)) in
      if length results = 0 then failure
      else if length (vulnerable_results results) = 0 then Inr (fr_summary fr)
      else if meta_failed (fr_meta fr) > 0 \<and> meta_fixed (fr_meta fr) = 0 then failure
      else Inr (fr_summary fr))"

definition fix_checked ::
  "fix_cmd_env \<Rightarrow> option_obj \<Rightarrow> option_obj \<Rightarrow> arg_item list \<Rightarrow> thrown + option_obj" where
  "fix_checked en rawOptions opts paths =
     (let te = fc_test en in
      bindS (validateFixCommandIsSupported te opts) (\<lambda>_.
      bindS (if option_set opts ''docker'' then Inr () else checkOSSPaths (test_styles te) paths rawOptions) (\<lambda>_.
      bindS (validateTestOptions te opts) (\<lambda>_. validateCredentials te opts))))"

definition fix_tested :: "fix_cmd_env \<Rightarrow> option_obj \<Rightarrow> entity list \<Rightarrow> (thrown, fix_cmd_world, string) peff" where
  "fix_tested en opts results =
     bindP (fix_library en opts results) (\<lambda>fr.
     bindP (liftP (on_cli (setVulnmapFixAnalytics en (fr_summary fr) (fr_meta fr) results (fr_results fr)
              (vulnerable_results results)))) (\<lambda>_.
       liftP (lift (fix_verdict en results fr))))"

text \<open>\<open>setDefaultTestOptions\<close> deletes a property of the raw options as well.\<close>

definition fix_command :: "fix_cmd_env \<Rightarrow> arg_item list \<Rightarrow> (thrown, fix_cmd_world, string) peff" where
  "fix_command en items = (\<lambda>s.
     (let te = fc_test en;
          (paths, original) = processCommandArgs (me_penv (te_main te)) (cw_options (fw_cli s)) items;
          opts = setDefaultTestOptions te original;
          rawOptions = obj_delete ''show-vulnerable-paths'' original in
      bindP (liftP (on_cli (if items \<noteq> [] \<and> last items = IOptions then set_options rawOptions else ret ()))) (\<lambda>_.
      bindP (liftP (lift (fix_checked en rawOptions opts paths))) (\<lambda>opts'.
      bindP (liftP (runVulnmapTestLegacy en opts' paths)) (\<lambda>results.
        fix_tested en opts' results))) s))"

section \<open>The tests of the paths\<close>

text \<open>The answers of the tests, run one after the other, and what becomes of one of them.\<close>

primrec answers_of :: "test_env \<Rightarrow> option_obj \<Rightarrow> string list \<Rightarrow> cli_world \<Rightarrow>
    (string \<times> (thrown + (shown_result \<times> json) list)) list \<times> cli_world" where
  "answers_of en opts [] c = ([], c)"
| "answers_of en opts (p # ps) c =
     (let (r, c1) = scan_results en opts p c; (rs, c2) = answers_of en opts ps c1 in ((p, r) # rs, c2))"

definition converted :: "fix_cmd_env \<Rightarrow> option_obj \<Rightarrow> string \<times> (thrown + (shown_result \<times> json) list) \<Rightarrow> thrown + entity list" where
  "converted en opts x = bindS (snd x) (path_entities en opts (fst x))"

definition entities_or_none :: "thrown + entity list \<Rightarrow> entity list" where
  "entities_or_none r = (case r of Inl e \<Rightarrow> [] | Inr es \<Rightarrow> es)"

text \<open>An error that can be described: not null.\<close>

definition describable :: "test_env \<Rightarrow> thrown + entity list \<Rightarrow> bool" where
  "describable en r = (case r of Inl e \<Rightarrow> \<exists>m. test_error_text en e = Inr m | Inr es \<Rightarrow> True)"

definition notes_of :: "option_obj \<Rightarrow> thrown + entity list \<Rightarrow> nat" where
  "notes_of opts r = (if option_set opts ''quiet'' then 0 else case r of Inl e \<Rightarrow> 2 | Inr es \<Rightarrow> 1)"

lemma persist_apply:
  "persist opts a b s = (Inr (), s\<lparr>fw_shown := fw_shown s @ (if option_set opts ''quiet'' then [] else [(a, b)])\<rparr>)"
  by (simp add: persist_def)

lemma test_one_describable:
  assumes "scan_results (fc_test en) opts p (fw_cli s) = (r, c)"
    and "describable (fc_test en) (converted en opts (p, r))"
  obtains ns where "test_one en opts p acc s =
      (Inr (acc @ entities_or_none (converted en opts (p, r))), s\<lparr>fw_cli := c, fw_shown := fw_shown s @ ns\<rparr>)"
    and "length ns = notes_of opts (converted en opts (p, r))"
proof (cases r)
  case (Inl e)
  with assms(2) obtain m where "test_error_text (fc_test en) e = Inr m"
    by (auto simp: describable_def converted_def)
  with assms(1) Inl that show ?thesis
    by (simp add: test_one_def test_displayed_def catchE_def bindE_apply on_cli_def persist_apply converted_def entities_or_none_def
        notes_of_def Let_def ret_def)
next
  case (Inr rs)
  show ?thesis
  proof (cases "path_entities en opts p rs")
    case (Inl e)
    with assms(2) Inr obtain m where "test_error_text (fc_test en) e = Inr m"
      by (auto simp: describable_def converted_def)
    with assms(1) Inl Inr that show ?thesis
      by (simp add: test_one_def test_displayed_def catchE_def bindE_apply on_cli_def persist_apply converted_def entities_or_none_def
          notes_of_def Let_def ret_def throw_def)
  next
    case (Inr es)
    with assms(1) \<open>r = Inr rs\<close> that show ?thesis
      by (simp add: test_one_def test_displayed_def catchE_def bindE_apply on_cli_def persist_apply converted_def entities_or_none_def
          notes_of_def Let_def ret_def)
  qed
qed

lemma test_one_null:
  assumes "scan_results (fc_test en) opts p (fw_cli s) = (r, c)"
    and "\<not> describable (fc_test en) (converted en opts (p, r))"
  shows "\<exists>e s'. test_one en opts p acc s = (Inl e, s')"
proof -
  from assms(2) obtain e where "converted en opts (p, r) = Inl e" and n: "\<And>m. test_error_text (fc_test en) e \<noteq> Inr m"
    by (auto simp: describable_def split: sum.splits)
  moreover obtain e' where "test_error_text (fc_test en) e = Inl e'"
    using n by (cases "test_error_text (fc_test en) e") auto
  ultimately show ?thesis using assms(1)
    by (cases r; cases "path_entities en opts p (projr r)")
       (auto simp: test_one_def test_displayed_def catchE_def bindE_apply on_cli_def converted_def Let_def throw_def ret_def)
qed

lemma test_all_run:
  assumes "answers_of (fc_test en) opts ps (fw_cli s) = (rs, c)"
  shows "(\<exists>s'. foldE (\<lambda>p. test_one en opts p) ps acc s =
             (Inr (acc @ concat (map (entities_or_none \<circ> converted en opts) rs)), s') \<and> fw_cli s' = c \<and>
             fw_files s' = fw_files s \<and> length (fw_shown s') =
               length (fw_shown s) + (\<Sum>x\<leftarrow>rs. notes_of opts (converted en opts x)) \<and>
             (\<forall>x\<in>set rs. describable (fc_test en) (converted en opts x))) \<or>
         (\<exists>e s'. foldE (\<lambda>p. test_one en opts p) ps acc s = (Inl e, s')) \<and>
             (\<exists>x\<in>set rs. \<not> describable (fc_test en) (converted en opts x))"
  using assms
proof (induction ps arbitrary: s acc rs)
  case (Cons p ps)
  obtain r c1 where r: "scan_results (fc_test en) opts p (fw_cli s) = (r, c1)" by fastforce
  obtain qs where q: "answers_of (fc_test en) opts ps c1 = (qs, c)" and rs: "rs = (p, r) # qs"
    using Cons.prems by (auto simp: r split: prod.splits)
  show ?case
  proof (cases "describable (fc_test en) (converted en opts (p, r))")
    case True
    from test_one_describable [OF r True] obtain ns where
      one: "test_one en opts p acc s = (Inr (acc @ entities_or_none (converted en opts (p, r))),
         s\<lparr>fw_cli := c1, fw_shown := fw_shown s @ ns\<rparr>)"
      and ns: "length ns = notes_of opts (converted en opts (p, r))" by blast
    from Cons.IH [of "s\<lparr>fw_cli := c1, fw_shown := fw_shown s @ ns\<rparr>" qs "acc @ entities_or_none (converted en opts (p, r))"] q
    show ?thesis unfolding rs by (auto simp: bindE_apply one ns True)
  next
    case False
    from test_one_null [OF r False] obtain e s' where "test_one en opts p acc s = (Inl e, s')" by blast
    with False show ?thesis unfolding rs by (auto simp: bindE_apply)
  qed
qed (simp add: ret_def)

lemma foldE_comp: "foldE (\<lambda>p. f (g p)) xs acc = foldE f (map g xs) acc"
  by (induction xs arbitrary: acc) simp_all

text \<open>C37: the entities of \<open>fix\<close> are those of the paths that could be tested and converted, in order; a path that
  fails costs no other path anything and is noted; the loop itself fails only when a test rejects with null.\<close>

theorem fix_tests_isolated:
  "case answers_of (fc_test en) opts (map path_text paths) (fw_cli s) of (rs, c) \<Rightarrow>
     (case runVulnmapTestLegacy en opts paths s of
        (Inl e, s') \<Rightarrow> \<not> list_all (describable (fc_test en) \<circ> converted en opts) rs
      | (Inr es, s') \<Rightarrow>
          list_all (describable (fc_test en) \<circ> converted en opts) rs \<and>
          es = concat (map (entities_or_none \<circ> converted en opts) rs) \<and>
          fw_cli s' = c \<and> fw_files s' = fw_files s \<and>
          length (fw_shown s') = length (fw_shown s) + (\<Sum>x\<leftarrow>rs. notes_of opts (converted en opts x)))"
proof -
  obtain rs c where a: "answers_of (fc_test en) opts (map path_text paths) (fw_cli s) = (rs, c)" by fastforce
  have "runVulnmapTestLegacy en opts paths s = foldE (\<lambda>p. test_one en opts p) (map path_text paths) [] s"
    unfolding runVulnmapTestLegacy_def foldE_comp [of "test_one en opts" path_text] by simp
  with test_all_run [OF a, of "[]"] show ?thesis unfolding a list_all_iff comp_def prod.case
    by (elim disjE exE conjE) (simp_all add: comp_def)
qed

section \<open>The whole command\<close>

lemma runVulnmapTestLegacy_files: "fw_files (snd (runVulnmapTestLegacy en opts paths s)) = fw_files s"
proof -
  let ?P = "\<lambda>t. fw_files t = fw_files s"
  have "keeps ?P (on_cli m)" for m :: "'b cio" by (simp add: keeps_def on_cli_def split: prod.split)
  moreover have "keeps ?P (persist opts a b)" for a b by (simp add: keeps_def persist_def)
  ultimately have "keeps ?P (test_displayed en opts p acc d)" for p acc d
    unfolding test_displayed_def Let_def by (intro frame_intros) 
  then have "keeps ?P (test_one en opts p acc)" for p acc
    by (simp add: keeps_def test_one_def)
  then have "keeps (\<lambda>t. fw_files t = fw_files s) (runVulnmapTestLegacy en opts paths)"
    unfolding runVulnmapTestLegacy_def by (intro keeps_foldE)
  then show ?thesis by (auto simp: keeps_def split: prod.splits)
qed

lemma on_cli_files: "on_cli m s = (r, s') \<Longrightarrow> fw_files s' = fw_files s"
  by (auto simp: on_cli_def split: prod.splits)

lemma fix_command_cases:
  assumes "fix_command en items s = Some (r, s')"
  obtains e where "r = Inl e" "fw_files s' = fw_files s"
  | opts es t where "fix_tested en opts es t = Some (r, s')" "fw_files t = fw_files s"
      "\<exists>paths original. processCommandArgs (me_penv (te_main (fc_test en))) (cw_options (fw_cli s)) items = (paths, original) \<and>
         fix_checked en (obj_delete ''show-vulnerable-paths'' original) (setDefaultTestOptions (fc_test en) original) paths = Inr opts"
proof -
  obtain paths original where p: "processCommandArgs (me_penv (te_main (fc_test en))) (cw_options (fw_cli s)) items = (paths, original)"
    by fastforce
  let ?te = "fc_test en" and ?raw = "obj_delete ''show-vulnerable-paths'' original"
  let ?opts = "setDefaultTestOptions ?te original"
  obtain q1 s1 where m: "on_cli (if items \<noteq> [] \<and> last items = IOptions then set_options ?raw else ret ()) s = (q1, s1)"
    by fastforce
  have q1: "q1 = Inr ()" "fw_files s1 = fw_files s"
    using m on_cli_files [OF m] by (auto simp: on_cli_def set_options_def ret_def split: if_splits)
  show ?thesis
  proof (cases "fix_checked en ?raw ?opts paths")
    case (Inl e)
    with assms p m q1 show ?thesis
      by (intro that(1)) (auto simp: fix_command_def bindP_def throw_def)
  next
    case (Inr opts)
    obtain q2 s2 where l: "runVulnmapTestLegacy en opts paths s1 = (q2, s2)" by fastforce
    have f: "fw_files s2 = fw_files s" using runVulnmapTestLegacy_files [of en opts paths s1] l q1 by simp
    show ?thesis
    proof (cases q2)
      case (Inl e)
      with assms p m q1 Inr l f show ?thesis
        by (intro that(1)) (auto simp: fix_command_def bindP_def ret_def)
    next
      case (Inr es)
      with assms p m q1 \<open>fix_checked en ?raw ?opts paths = Inr opts\<close> l have "fix_tested en opts es s2 = Some (r, s')"
        by (auto simp: fix_command_def bindP_def ret_def)
      with f p \<open>fix_checked en ?raw ?opts paths = Inr opts\<close> show ?thesis by (intro that(2) [of opts es s2]) auto
    qed
  qed
qed

lemma fix_library_total:
  assumes "fix_library en opts es s = Some (r, s')"
  obtains fr where "r = Inr fr"
proof (cases r)
  case (Inl e)
  have step: "\<exists>p. q = Inr p" if "scan_type_step n tls h os g t acc w = Some (q, w')" for n tls h os g t acc w q w'
    using that by (auto simp: scan_type_step_def catchP_def ret_def Let_def split: prod.splits option.splits sum.splits)
  have "\<exists>p. q = Inr p" if "foldP (scan_type_step n tls h os g) order acc w = Some (q, w')" for n tls h os g order acc w q w'
    using that
  proof (induction order arbitrary: acc w)
    case (Cons t order)
    from Cons.prems Cons.IH show ?case
      by (auto simp: bindP_def dest: step split: option.splits prod.splits sum.splits)
  qed (cases acc; cases q; simp add: ret_def)
  with assms Inl show ?thesis
    by (fastforce simp: fix_library_def fix_fuel_def Let_def bindP_def ret_def split: option.splits prod.splits sum.splits)
qed (use that in simp)

lemma fix_checked_options: "fix_checked en raw opts paths = Inr opts' \<Longrightarrow> opts' = opts"
  by (auto simp: fix_checked_def validateFixCommandIsSupported_def validateCredentials_def Let_def
      bindS_Inr_iff split: if_splits option.splits)

lemma default_option:
  "k \<notin> {''show-vulnerable-paths'', ''showVulnPaths'', ''org''} \<Longrightarrow>
   option_set (setDefaultTestOptions en opts) k = option_set opts k"
  by (simp add: setDefaultTestOptions_def option_set_def ob.get_put obj_get_delete Let_def split: option.split)

lemma nothrow_mapE: "(\<And>x. nothrow (f x)) \<Longrightarrow> nothrow (mapE f xs)"
  by (induction xs) (simp_all only: mapE.simps nothrow_ret nothrow_bindE)

lemma fix_tested_run:
  assumes "fix_tested en opts es t = Some (r, s')"
  obtains fr u where "fix_library en opts es t = Some (Inr fr, u)" and "fw_files s' = fw_files u"
    and "r = fix_verdict en es fr"
proof -
  obtain q u where l: "fix_library en opts es t = Some (q, u)"
    using assms by (cases "fix_library en opts es t") (auto simp: fix_tested_def bindP_def)
  obtain fr where q: "q = Inr fr" using fix_library_total [OF l] .
  obtain v where m: "on_cli (setVulnmapFixAnalytics en (fr_summary fr) (fr_meta fr) es (fr_results fr)
      (vulnerable_results es)) u = (Inr (), v)"
  proof -
    have "nothrow (add_meta e k x)" for e k x by (simp add: nothrow_def add_meta_def)
    then have "nothrow (setVulnmapFixAnalytics en a b es c d)" for a b c d
      unfolding setVulnmapFixAnalytics_def Let_def
      by (intro nothrow_bindE nothrow_mapE nothrow_ret) (auto split: prod.split)
    then have "\<exists>w'. setVulnmapFixAnalytics en a b es c d w = (Inr (), w')" for a b c d w
      unfolding nothrow_def by (cases "setVulnmapFixAnalytics en a b es c d w") (metis fst_conv old.unit.exhaust)
    then obtain w' where "setVulnmapFixAnalytics en (fr_summary fr) (fr_meta fr) es (fr_results fr)
      (vulnerable_results es) (fw_cli u) = (Inr (), w')" by blast
    then show ?thesis using that by (simp add: on_cli_def)
  qed
  from assms l q m have "r = fix_verdict en es fr" "s' = v"
    by (auto simp: fix_tested_def bindP_def)
  with l q on_cli_files [OF m] that show ?thesis by simp
qed



section \<open>Samples\<close>

text \<open>A project of npm with one vulnerability: the fix library does not support its type.\<close>

definition sample_npm :: project_result where
  "sample_npm =
     \<lparr>pr_vulnerabilities = [\<lparr>vv_id = ''V'', vv_severity = HIGH, vv_title = ''t'', vv_packageName = ''p'', vv_version = ''1''\<rparr>],
      pr_packageManager = Some ''npm'', pr_targetFile = Some ''package.json'', pr_displayTargetFile = None,
      pr_projectName = None, pr_policy = None, pr_remediation = None\<rparr>"

definition sample_fix_env :: fix_cmd_env where
  "sample_fix_env =
     \<lparr>fc_test = sample_test_env\<lparr>te_flag := (\<lambda>_ _. Inr (200, JUndef, True)),
         te_run := (te_run sample_test_env)\<lparr>re_poll := sample_poll_env\<rparr>,
         te_test := (\<lambda>p opts w. ((if p = ''/p'' then Inr [(sample_result [], JNull)] else Inl (TVal (JNum 1)), opts), w))\<rparr>,
      fc_view = (\<lambda>_. sample_npm), fc_tools = sample_tools, fc_style = sample_style, fc_fuel = 2,
      fc_order = (\<lambda>_. [''npm'']), fc_horder = sample_order, fc_change_text = (\<lambda>_. []), fc_run_icon = []\<rparr>"

definition sample_fix_opts :: option_obj where
  "sample_fix_opts = [(''dryRun'', ABool True)]"

definition sample_fix_world :: fix_cmd_world where
  "sample_fix_world = \<lparr>fw_cli = sample_cli_world sample_fix_opts, fw_files = sample_world, fw_shown = []\<rparr>"

abbreviation sample_fix_items :: "arg_item list" where
  "sample_fix_items \<equiv> [IStr ''/p'', IStr ''/q'', IOptions]"

lemma sample_fix_args:
  "processCommandArgs (me_penv (te_main (fc_test sample_fix_env))) (cw_options (fw_cli sample_fix_world)) sample_fix_items =
     ([IStr ''/p'', IStr ''/q''], sample_fix_opts)"
  by (simp add: processCommandArgs_def sample_fix_world_def sample_cli_world_def)

lemma sample_fix_checked:
  "fix_checked sample_fix_env (obj_delete ''show-vulnerable-paths'' sample_fix_opts)
     (setDefaultTestOptions (fc_test sample_fix_env) sample_fix_opts) [IStr ''/p'', IStr ''/q''] =
   Inr (setDefaultTestOptions (fc_test sample_fix_env) sample_fix_opts)"
proof -
  have "apiTokenExists (re_poll (te_run (fc_test sample_fix_env))) = Inr ''t''"
    by (simp add: sample_fix_env_def apiTokenExists_def api_def sample_poll_env_def or_opt_def truthy_def)
  moreover have "checkOSSPaths st [IStr ''/p'', IStr ''/q''] (obj_delete ''show-vulnerable-paths'' sample_fix_opts) = Inr ()" for st
    by (simp add: checkOSSPaths_def) code_simp
  ultimately show ?thesis
    by (simp add: fix_checked_def validateFixCommandIsSupported_def validateTestOptions_def validateCredentials_def
        default_option getEcosystemForTest_def sample_fix_opts_def Let_def)
       (simp add: option_set_def sample_fix_env_def setDefaultTestOptions_def ob.get_put obj_get_delete Let_def)
qed

abbreviation sample_npm_entity :: "option_obj \<Rightarrow> entity" where
  "sample_npm_entity opts \<equiv>
     \<lparr>ent_workspace = \<lparr>ws_path = ''/p''\<rparr>,
      scanResult = \<lparr>identity = \<lparr>identity_type = ''npm'', targetFile = Some ''package.json'', identity_args = None\<rparr>,
        facts = [], scan_name = None, policy = None, scan_target = Some (GitTarget None None)\<rparr>,
      testResult = convertLegacyTestResultToNew sample_npm, ent_options = entity_options opts\<rparr>"

lemma sample_npm_issues: "issues (convertLegacyTestResultToNew sample_npm) \<noteq> []"
  by (simp add: convertLegacyTestResultToNew_def convertVulnerabilities_def add_vulnerability_def sample_npm_def Let_def)

lemma sample_answers:
  "answers_of (fc_test sample_fix_env) opts [''/p'', ''/q''] c =
     ([(''/p'', Inr [(sample_result [], JNull)]), (''/q'', Inl (TVal (JNum 1)))], c)"
  by (simp add: scan_results_def sample_fix_env_def)

lemma sample_converted:
  "converted sample_fix_env opts (''/p'', Inr [(sample_result [], JNull)]) = Inr [sample_npm_entity opts]"
  by (simp add: converted_def path_entities_def convertLegacyTestResultToFixEntities_def fix_entity_def
      convertLegacyTestResultToScanResult_def sample_fix_env_def truthy_def or_else_def)
     (simp add: sample_npm_def truthy_def)

lemma sample_describable: "describable (fc_test sample_fix_env) (converted sample_fix_env opts (''/q'', Inl (TVal (JNum 1))))"
  by (simp add: describable_def converted_def test_error_text_def formatTestError_def)

lemma sample_fix_library:
  "\<exists>fr u. fix_library sample_fix_env opts [sample_npm_entity opts'] t = Some (Inr fr, u) \<and> fw_files u = fw_files t"
  by (simp add: fix_library_def fix_fuel_def bindP_def scan_type_step_def loadPlugin_def catchP_def Let_def
      partitionByVulnerable_eq sample_npm_issues sample_fix_env_def)

lemma sample_command_run:
  "\<exists>r s'. fix_command sample_fix_env sample_fix_items sample_fix_world = Some (r, s')"
proof -
  let ?opts = "setDefaultTestOptions (fc_test sample_fix_env) sample_fix_opts"
  let ?s = "sample_fix_world\<lparr>fw_cli := (fw_cli sample_fix_world)\<lparr>cw_options := obj_delete ''show-vulnerable-paths'' sample_fix_opts\<rparr>\<rparr>"
  have start: "on_cli (set_options (obj_delete ''show-vulnerable-paths'' sample_fix_opts)) sample_fix_world = (Inr (), ?s)"
    by (simp add: on_cli_def set_options_def)
  have ps: "map path_text [IStr ''/p'', IStr ''/q''] = [''/p'', ''/q'']" by (simp add: path_text_def)
  obtain s2 where run: "runVulnmapTestLegacy sample_fix_env ?opts [IStr ''/p'', IStr ''/q''] ?s =
      (Inr [sample_npm_entity ?opts], s2)"
    using test_all_run [where en = sample_fix_env and s = ?s and acc = "[]", OF sample_answers] sample_describable [of ?opts]
    unfolding runVulnmapTestLegacy_def foldE_comp [of "test_one sample_fix_env ?opts" path_text] ps
    by (auto simp: sample_converted describable_def entities_or_none_def converted_def [of _ _ "(''/q'', _)"])
  obtain fr u where lib: "fix_library sample_fix_env ?opts [sample_npm_entity ?opts] s2 = Some (Inr fr, u)"
    using sample_fix_library by blast
  have "\<exists>q. fix_tested sample_fix_env ?opts [sample_npm_entity ?opts] s2 = Some q"
    by (simp add: fix_tested_def bindP_def lib split: prod.split sum.split)
  then show ?thesis
    by (simp add: fix_command_def sample_fix_args sample_fix_checked bindP_def start run ret_def Let_def)
qed



end
