(* ===== verification/Ecosystems.thy ===== *)
theory Ecosystems
  imports MonitorCommand
begin

text \<open>
  Monitoring what the ecosystem plugins scan (containers, C and C++ folders): \<open>src/lib/ecosystems/monitor.ts\<close>,
  \<open>resolve-monitor-facts.ts\<close>, \<open>plugin-analytics.ts\<close>, \<open>common.ts\<close>, the policy of a scan result (\<open>policy.ts\<close>) and the text of
  an answer that is not in order (\<open>lib/formatters/format-monitor-response.ts\<close>).

  Parameters: the plugins, which are given the options and answer with scan results, and the server. The requests for
  file signatures are polled (\<open>Polling\<close>); their loop has fuel, and None is a loop that has not ended. A scan result that
  the code changes is returned changed.
\<close>

section \<open>Data\<close>

record scan_obj =
  so_view :: scan_result_view
  so_analytics :: "(string \<times> json) list option"

record dependencies_request =
  dr_scan :: scan_obj
  dr_projectName :: "string option"
  dr_tags :: "tag list option"
  dr_attributes :: project_attributes

record eco_request =
  eq_method :: string
  eq_url :: string
  eq_isCI :: bool
  eq_authorization :: string
  eq_org :: "string option"
  eq_body :: dependencies_request

record eco_result =
  ev_response :: json
  ev_path :: string
  ev_scan :: scan_obj

record eco_error =
  ee_error :: string
  ee_path :: string
  ee_scan :: scan_obj

type_synonym eco_answer = "eco_result list \<times> eco_error list"

record eco_world =
  ew_mon :: mon_world
  ew_poll :: poll_world
  ew_requests :: "eco_request list"

type_synonym 'a ecio = "(thrown, eco_world, 'a) eff"

record eco_env =
  ec_cmd :: mcmd_env
  ec_scan :: "string \<Rightarrow> option_obj \<Rightarrow> thrown + scan_obj list"
  ec_server :: "nat \<Rightarrow> eco_request \<Rightarrow> thrown + json"
  ec_poll_server :: "nat \<Rightarrow> poll_request \<Rightarrow> failed_reply + monitor_reply"
  ec_fuel :: nat

definition ec_mon :: "eco_env \<Rightarrow> mon_env" where
  "ec_mon en = mc_mon (ec_cmd en)"

definition ec_conf :: "eco_env \<Rightarrow> poll_env" where
  "ec_conf en = re_poll (mv_run (ec_mon en))"

definition on_mon :: "'a mio \<Rightarrow> 'a ecio" where
  "on_mon m = (\<lambda>s. let (r, w) = m (ew_mon s) in (r, s\<lparr>ew_mon := w\<rparr>))"

text \<open>What the polling rejects with: an object with the status, or an error of a class.\<close>

definition poll_thrown :: "eco_env \<Rightarrow> poll_error \<Rightarrow> thrown" where
  "poll_thrown en e =
     (case e of
        RequestError (c, m) \<Rightarrow>
          TVal (JObj [(''code'', case c of Some n \<Rightarrow> JNum n | None \<Rightarrow> JUndef), (''message'', opt_json m)])
      | MissingApiTokenError \<Rightarrow> missing_api_token (ec_mon en)
      | poll_error.FailedToRunTestError m \<Rightarrow> custom_error (mc_styles (ec_cmd en)) PlainError ''FailedToRunTestError'' m (JNum 500) (JStr m)
      | PollError m \<Rightarrow> mc_plain (ec_cmd en) m
      | InvalidOptions v \<Rightarrow> ValidationError (ec_cmd en) (validation_text v))"

definition on_poll :: "eco_env \<Rightarrow> (poll_error, poll_world, 'a) peff \<Rightarrow> (thrown, eco_world, 'a) peff" where
  "on_poll en m = (\<lambda>s.
     (case m (ew_poll s) of
        None \<Rightarrow> None
      | Some (r, p) \<Rightarrow> Some (map_sum (poll_thrown en) id r, s\<lparr>ew_poll := p\<rparr>)))"

definition send_dependencies :: "eco_env \<Rightarrow> eco_request \<Rightarrow> json ecio" where
  "send_dependencies en q = (\<lambda>s.
     (ec_server en (length (ew_requests s)) q, s\<lparr>ew_requests := ew_requests s @ [q]\<rparr>))"

section \<open>The policy of a scan result\<close>

definition isUnmanagedEcosystem :: "string \<Rightarrow> bool" where
  "isUnmanagedEcosystem ecosystem = (ecosystem = ''cpp'')"

definition scan_path :: "option_obj \<Rightarrow> string" where
  "scan_path opts = (case opt_text opts ''path'' of Some p \<Rightarrow> p | None \<Rightarrow> ''undefined'')"

definition identity_field :: "scan_obj \<Rightarrow> string \<Rightarrow> string option" where
  "identity_field scan k =
     (let v = field_opt (rm_identity (so_view scan)) k in if js_true v then Some (json_text v) else None)"

definition scan_folder :: "eco_env \<Rightarrow> option_obj \<Rightarrow> scan_obj \<Rightarrow> string option" where
  "scan_folder en opts scan =
     map_option (\<lambda>tf. fst (path_parse (path_join [resolve (pg_pe (mc_plug (ec_cmd en))) [scan_path opts], tf])))
       (identity_field scan ''targetFile'')"

definition findAndLoadPolicyForScanResult :: "eco_env \<Rightarrow> option_obj \<Rightarrow> scan_obj \<Rightarrow> policy_object option mio" where
  "findAndLoadPolicyForScanResult en opts scan =
     monitored_policy (ec_mon en) (scan_path opts)
       (if option_set opts ''docker'' then ''docker'' else str_of_opt (identity_field scan ''type''))
       (policy_path_of opts) None (scan_folder en opts scan)"

definition with_policy :: "eco_env \<Rightarrow> policy_object option \<Rightarrow> scan_obj \<Rightarrow> scan_obj" where
  "with_policy en pol scan =
     (case pol of None \<Rightarrow> scan
      | Some p \<Rightarrow> scan\<lparr>so_view := (so_view scan)\<lparr>rm_policy := Some (mv_policy_text (ec_mon en) p)\<rparr>\<rparr>)"

section \<open>One request for a scan result\<close>

definition checked_tags :: "eco_env \<Rightarrow> option_obj \<Rightarrow> thrown + tag list option" where
  "checked_tags en opts =
     map_sum (\<lambda>e. ValidationError (ec_cmd en) (validation_text e)) id (generateTags (monitor_options_of opts))"

definition checked_attributes :: "eco_env \<Rightarrow> option_obj \<Rightarrow> thrown + project_attributes" where
  "checked_attributes en opts =
     map_sum (\<lambda>e. ValidationError (ec_cmd en) (validation_text e)) id (generateProjectAttributes (monitor_options_of opts))"

definition given_name :: "eco_env \<Rightarrow> option_obj \<Rightarrow> string option" where
  "given_name en opts = or_opt (opt_text opts ''project-name'') (pe_project_name (ec_conf en))"

definition generateMonitorDependenciesRequest :: "eco_env \<Rightarrow> option_obj \<Rightarrow> scan_obj \<Rightarrow> dependencies_request mio" where
  "generateMonitorDependenciesRequest en opts scan =
     (let named = scan\<lparr>so_view := (so_view scan)\<lparr>rm_name := or_opt (given_name en opts) (rm_name (so_view scan))\<rparr>\<rparr> in
      bindE (findAndLoadPolicyForScanResult en opts named) (\<lambda>pol.
      bindE (lift (checked_tags en opts)) (\<lambda>tags.
      bindE (lift (checked_attributes en opts)) (\<lambda>attributes.
        ret \<lparr>dr_scan = with_policy en pol named,
             dr_projectName = (if truthy (given_name en opts) then given_name en opts else None),
             dr_tags = tags, dr_attributes = attributes\<rparr>))))"

definition status_of :: "thrown \<Rightarrow> int option" where
  "status_of e = (case err_get e ''code'' of JNum n \<Rightarrow> Some n | _ \<Rightarrow> None)"

text \<open>What both loops do with a request that failed.\<close>

definition failed_request :: "eco_env \<Rightarrow> string \<Rightarrow> scan_obj \<Rightarrow> eco_answer \<Rightarrow> thrown \<Rightarrow> thrown + eco_answer" where
  "failed_request en path scan acc e =
     (case status_of e of
        Some n \<Rightarrow>
          (if n = 401 then Inl (AuthFailedError (mv_run (ec_mon en)) JUndef 401)
           else if 400 \<le> n \<and> n < 500 then Inl (MonitorError (ec_mon en) (nat n) (err_get e ''message''))
           else Inr (fst acc, snd acc @ [\<lparr>ee_error = ''Could not monitor dependencies in '' @ path, ee_path = path, ee_scan = scan\<rparr>]))
      | None \<Rightarrow> Inr (fst acc, snd acc @ [\<lparr>ee_error = ''Could not monitor dependencies in '' @ path, ee_path = path, ee_scan = scan\<rparr>]))"

definition dependencies_payload :: "eco_env \<Rightarrow> option_obj \<Rightarrow> string option \<Rightarrow> dependencies_request \<Rightarrow> eco_request" where
  "dependencies_payload en opts configOrg body =
     \<lparr>eq_method = ''PUT'', eq_url = pe_api (ec_conf en) @ ''/monitor-dependencies'', eq_isCI = isCI (ec_conf en),
      eq_authorization = getAuthHeader (ec_conf en), eq_org = or_opt (opt_text opts ''org'') configOrg, eq_body = body\<rparr>"

definition monitor_scan :: "eco_env \<Rightarrow> option_obj \<Rightarrow> string \<times> scan_obj \<Rightarrow> eco_answer \<Rightarrow> eco_answer ecio" where
  "monitor_scan en opts x acc =
     bindE (on_mon (generateMonitorDependenciesRequest en opts (snd x))) (\<lambda>request.
     bindE (lift (monitored_org (ec_mon en))) (\<lambda>configOrg.
       catchE
         (bindE (send_dependencies en (dependencies_payload en opts configOrg request)) (\<lambda>response.
            ret (fst acc @ [\<lparr>ev_response = response, ev_path = fst x, ev_scan = dr_scan request\<rparr>], snd acc)))
         (\<lambda>e. lift (failed_request en (fst x) (dr_scan request) acc e))))"

text \<open>The two nested loops run over the scan results of every path, in the order of the paths.\<close>

definition all_scans :: "scan_obj list obj \<Rightarrow> (string \<times> scan_obj) list" where
  "all_scans scans = concat (map (\<lambda>(path, results). map (Pair path) results) scans)"

definition monitorDependencies :: "eco_env \<Rightarrow> scan_obj list obj \<Rightarrow> option_obj \<Rightarrow> eco_answer ecio" where
  "monitorDependencies en scans opts = foldE (monitor_scan en opts) (all_scans scans) ([], [])"

section \<open>File signatures\<close>

definition add_plugin_analytics :: "eco_env \<Rightarrow> (string \<times> json) list \<Rightarrow> string \<Rightarrow> unit mio" where
  "add_plugin_analytics en entries token =
     bindE (if token \<noteq> [] then mon_add (ec_mon en) ''asyncRequestToken'' (JStr token) else ret ()) (\<lambda>_.
     bindE (mapE (\<lambda>(name, d). mon_add (ec_mon en) name d) entries) (\<lambda>_. ret ()))"

definition poll_options_of :: "option_obj \<Rightarrow> poll_options" where
  "poll_options_of opts =
     \<lparr>po_org = opt_text opts ''org'', po_severityThreshold = opt_text opts ''severityThreshold'',
      po_ignore_policy = option_set opts ''ignore-policy'', po_project_name = opt_text opts ''project-name'',
      po_monitor = monitor_options_of opts\<rparr>"

definition contributor_json :: "contributor \<Rightarrow> json" where
  "contributor_json c = JObj [(''email'', opt_json (ct_email c)), (''lastCommitDate'', opt_json (ct_lastCommitDate c))]"

text \<open>The final answer as the object that is spread into the result.\<close>

definition reply_json :: "monitor_reply \<Rightarrow> json" where
  "reply_json r =
     JObj (obj_merge [(''token'', JStr (my_token r)), (''status'', opt_json (my_status r)), (''ok'', JBool (my_ok r)),
       (''isMonitored'', JBool (my_isMonitored r))] (json_spread (my_rest r)))"

definition resolve_scan ::
  "eco_env \<Rightarrow> option_obj \<Rightarrow> contributor list \<Rightarrow> string \<times> scan_obj \<Rightarrow> eco_answer \<Rightarrow> (thrown, eco_world, eco_answer) peff" where
  "resolve_scan en opts contributors x acc =
     (let ops = poll_options_of opts;
          scan = (snd x)\<lparr>so_view := fill_remote_url (so_view (snd x))\<rparr> in
      catchP
        (bindP (on_poll en (liftP (requestMonitorPollingToken (ec_conf en) (ec_poll_server en) ops True (so_view (snd x)))))
          (\<lambda>res.
         bindP (liftP (on_mon (case so_analytics scan of
                   None \<Rightarrow> ret () | Some entries \<Rightarrow> add_plugin_analytics en entries (my_token res)))) (\<lambda>_.
         case my_pollingTask res of
           None \<Rightarrow> liftP (throw (pg_type_error (mc_plug (ec_cmd en))))
         | Some (maxAttempts, pollInterval) \<Rightarrow>
             bindP (on_poll en (pollingMonitorWithTokenUntilDone (ec_fuel en) (ec_conf en) (ec_poll_server en) (my_token res)
                 True ops pollInterval 0 maxAttempts (Some (extractResolutionMetaFromScanResult (so_view scan)))
                 (map contributor_json contributors))) (\<lambda>response.
               liftP (ret (fst acc @ [\<lparr>ev_response = reply_json response, ev_path = fst x, ev_scan = scan\<rparr>], snd acc))))))
        (\<lambda>e. liftP (lift (failed_request en (fst x) scan acc e))))"

definition resolveAndMonitorFacts ::
  "eco_env \<Rightarrow> scan_obj list obj \<Rightarrow> option_obj \<Rightarrow> contributor list \<Rightarrow> (thrown, eco_world, eco_answer) peff" where
  "resolveAndMonitorFacts en scans opts contributors =
     foldP (resolve_scan en opts contributors) (all_scans scans) ([], [])"

definition selectAndExecuteMonitorStrategy ::
  "eco_env \<Rightarrow> string \<Rightarrow> scan_obj list obj \<Rightarrow> option_obj \<Rightarrow> contributor list \<Rightarrow> (thrown, eco_world, eco_answer) peff" where
  "selectAndExecuteMonitorStrategy en ecosystem scans opts contributors =
     (if isUnmanagedEcosystem ecosystem then resolveAndMonitorFacts en scans opts contributors
      else liftP (monitorDependencies en scans opts))"

section \<open>Scanning the paths\<close>

definition plugin_scan_error :: "eco_env \<Rightarrow> string \<Rightarrow> string \<Rightarrow> thrown \<Rightarrow> thrown" where
  "plugin_scan_error en ecosystem path e =
     (let message = err_get e ''message'' in
      if ecosystem = ''docker'' \<and>
         (err_get e ''statusCode'' = JNum 401 \<and> message = JStr ''authentication required'' \<or>
          message = JStr ''invalid image format'')
      then DockerImageNotFoundError (mv_run (ec_mon en)) path else e)"

text \<open>The scan results are stored under the path, and the options keep the path that was scanned last.\<close>

definition scan_one ::
  "eco_env \<Rightarrow> string \<Rightarrow> string \<Rightarrow> scan_obj list obj \<times> option_obj \<Rightarrow> (scan_obj list obj \<times> option_obj) ecio" where
  "scan_one en ecosystem path acc =
     (let opts = obj_set ''path'' (AStr path) (snd acc) in
      catchE
        (bindE (lift (ec_scan en ecosystem opts)) (\<lambda>scanResults.
         bindE (on_mon (monitored_policy (ec_mon en) path ''cpp'' (policy_path_of opts) None None)) (\<lambda>pol.
           ret (obj_set path (map (with_policy en pol) scanResults) (fst acc), opts))))
        (\<lambda>e. throw (plugin_scan_error en ecosystem path e)))"

definition monitorEcosystem ::
  "eco_env \<Rightarrow> string \<Rightarrow> arg_item list \<Rightarrow> option_obj \<Rightarrow> contributor list \<Rightarrow> (thrown, eco_world, eco_answer) peff" where
  "monitorEcosystem en ecosystem paths opts contributors =
     bindP (liftP (lift (checked_tags en opts))) (\<lambda>_.
     bindP (liftP (lift (checked_attributes en opts))) (\<lambda>_.
     bindP (liftP (foldE (scan_one en ecosystem) (map path_text paths) ([], opts))) (\<lambda>(scans, opts').
       selectAndExecuteMonitorStrategy en ecosystem scans opts' contributors)))"

section \<open>The output\<close>

definition formatErrorMonitorOutput :: "mcmd_env \<Rightarrow> string option \<Rightarrow> json \<Rightarrow> option_obj \<Rightarrow> string option \<Rightarrow> string" where
  "formatErrorMonitorOutput en pmgr res opts projectName =
     (let path = json_text (field_opt res ''path'');
          humanReadableName = (if truthy projectName then path @ '' ('' @ the projectName @ '')'' else path) in
      if option_set opts ''json''
      then mc_stringify en False (JObj (obj_merge (json_spread res) [(''packageManager'', opt_json pmgr)]))
      else mc_bold_white en (newline @ ''Monitoring '' @ humanReadableName @ ''...'' @ newline @ newline) @ newline @ newline @
           (if pmgr = Some ''maven'' then st_yellow (mc_styles en) ''Detected 0 dependencies (no project created)'' else []))"

definition scan_obj_json :: "scan_obj \<Rightarrow> json" where
  "scan_obj_json s =
     JObj (json_spread (scan_json (so_view s)) @
       (case so_analytics s of None \<Rightarrow> []
        | Some es \<Rightarrow> [(''analytics'', JArr (map (\<lambda>(n, d). JObj [(''name'', JStr n), (''data'', d)]) es))]))"

definition result_json :: "eco_result \<Rightarrow> json" where
  "result_json r =
     JObj (obj_set ''scanResult'' (scan_obj_json (ev_scan r)) (obj_set ''path'' (JStr (ev_path r)) (json_spread (ev_response r))))"

text \<open>The inspection result that is passed on is an empty object, which has no plugin.\<close>

definition no_extra_projects :: "eco_env \<Rightarrow> option_obj \<Rightarrow> thrown + nat option" where
  "no_extra_projects en opts =
     (if option_set opts ''docker'' \<or> option_set opts ''unmanaged'' then Inr None
      else Inl (pg_type_error (mc_plug (ec_cmd en))))"

definition eco_outcome :: "eco_env \<Rightarrow> option_obj \<Rightarrow> eco_result \<Rightarrow> thrown + monitor_outcome" where
  "eco_outcome en opts r =
     (let res = result_json r; ty = identity_field (ev_scan r) ''type'' in
      bindS
        (if js_true (field_opt res ''ok'') then
           bindS (no_extra_projects en opts) (\<lambda>extra.
             Inr (formatMonitorOutput (ec_cmd en) ty res opts (text_of_field res ''projectName'') extra))
         else Inr (formatErrorMonitorOutput (ec_cmd en) ty res opts None))
        (\<lambda>monOutput. Inr (GoodResult monOutput (ev_path r) (text_of_field res ''id''))))"

definition getFormattedMonitorOutput :: "eco_env \<Rightarrow> eco_answer \<Rightarrow> option_obj \<Rightarrow> thrown + string" where
  "getFormattedMonitorOutput en answer opts =
     bindS (mapS (eco_outcome en opts) (fst answer)) (\<lambda>good.
       let results = good @ map (\<lambda>e. BadResult (MonitorError (ec_mon en) 500 (JStr (ee_error e))) (ee_path e)) (snd answer);
           outputString = js_join (newline @ MON_SEPARATOR) (map (outcome_text (ec_cmd en)) results) in
       if list_all outcome_ok results then Inr outputString else Inl (mc_plain (ec_cmd en) outputString))"

text \<open>What the monitor command does for an ecosystem.\<close>

definition ecosystem_run ::
  "eco_env \<Rightarrow> string \<Rightarrow> arg_item list \<Rightarrow> option_obj \<Rightarrow> contributor list \<Rightarrow> (thrown, eco_world, string) peff" where
  "ecosystem_run en ecosystem paths opts contributors =
     bindP (monitorEcosystem en ecosystem paths opts contributors) (\<lambda>answer.
       liftP (lift (getFormattedMonitorOutput en answer
         (case paths of [] \<Rightarrow> opts | _ \<Rightarrow> obj_set ''path'' (AStr (path_text (last paths))) opts))))"

section \<open>Every scan result is answered for\<close>

definition answered_paths :: "eco_answer \<Rightarrow> string multiset" where
  "answered_paths acc = mset (map ev_path (fst acc)) + mset (map ee_path (snd acc))"

lemma failed_request_answers:
  "failed_request en path scan acc e = Inr acc' \<Longrightarrow>
     answered_paths acc' = answered_paths acc + {#path#} \<and> fst acc' = fst acc"
  by (auto simp: failed_request_def answered_paths_def split: option.splits if_splits)

lemma on_mon_requests: "on_mon m s = (r, s') \<Longrightarrow> ew_requests s' = ew_requests s"
  by (auto simp: on_mon_def split: prod.splits)

lemma monitor_scan_step:
  assumes "monitor_scan en opts x acc s = (Inr acc', s')"
  shows "answered_paths acc' = answered_paths acc + {#fst x#}"
    and "length (ew_requests s') = length (ew_requests s) + 1"
proof -
  obtain request s1 where r: "on_mon (generateMonitorDependenciesRequest en opts (snd x)) s = (Inr request, s1)"
    and k: "bindE (lift (monitored_org (ec_mon en))) (\<lambda>configOrg.
       catchE
         (bindE (send_dependencies en (dependencies_payload en opts configOrg request)) (\<lambda>response.
            ret (fst acc @ [\<lparr>ev_response = response, ev_path = fst x, ev_scan = dr_scan request\<rparr>], snd acc)))
         (\<lambda>e. lift (failed_request en (fst x) (dr_scan request) acc e))) s1 = (Inr acc', s')"
    using assms unfolding monitor_scan_def by (rule bindE_InrE)
  from k obtain configOrg where
    "catchE
         (bindE (send_dependencies en (dependencies_payload en opts configOrg request)) (\<lambda>response.
            ret (fst acc @ [\<lparr>ev_response = response, ev_path = fst x, ev_scan = dr_scan request\<rparr>], snd acc)))
         (\<lambda>e. lift (failed_request en (fst x) (dr_scan request) acc e)) s1 = (Inr acc', s')"
    by (auto elim!: bindE_InrE)
  then have "answered_paths acc' = answered_paths acc + {#fst x#} \<and> length (ew_requests s') = length (ew_requests s1) + 1"
    by (auto simp: catchE_def bindE_apply send_dependencies_def ret_def answered_paths_def
        dest: failed_request_answers [unfolded answered_paths_def] split: sum.splits)
  with on_mon_requests [OF r] show "answered_paths acc' = answered_paths acc + {#fst x#}"
    "length (ew_requests s') = length (ew_requests s) + 1" by simp_all
qed

lemma resolve_scan_step:
  assumes "resolve_scan en opts cs x acc s = Some (Inr acc', s')"
  shows "answered_paths acc' = answered_paths acc + {#fst x#}"
proof -
  have *: "answered_paths a = answered_paths acc + {#fst x#}"
    if "catchP (bindP m (\<lambda>res. bindP (n res) (\<lambda>u. case g res of None \<Rightarrow> liftP (throw e)
          | Some (i, j) \<Rightarrow> bindP (p res i j) (\<lambda>response. liftP (ret (fst acc @ [\<lparr>ev_response = f response, ev_path = fst x, ev_scan = sc\<rparr>], snd acc))))))
        (\<lambda>e. liftP (lift (failed_request en (fst x) sc acc e))) s = Some (Inr a, s')"
    for m :: "(thrown, eco_world, 'r) peff" and n :: "'r \<Rightarrow> (thrown, eco_world, unit) peff" and g :: "'r \<Rightarrow> ('i \<times> 'j) option"
      and p :: "'r \<Rightarrow> 'i \<Rightarrow> 'j \<Rightarrow> (thrown, eco_world, 'q) peff" and f e sc a s'
    using that
    by (auto simp: catchP_def bindP_def ret_def throw_def answered_paths_def
        dest: failed_request_answers [unfolded answered_paths_def] split: option.splits prod.splits sum.splits)
  show ?thesis using assms unfolding resolve_scan_def Let_def by (rule *)
qed

lemma strategy_answers:
  assumes "selectAndExecuteMonitorStrategy en eco scans opts cs s = Some (Inr answer, s')"
  shows "answered_paths answer = mset (map fst (all_scans scans))"
    and "\<not> isUnmanagedEcosystem eco \<Longrightarrow> length (ew_requests s') = length (ew_requests s) + length (all_scans scans)"
proof -
  have sum: "(\<Sum>x\<leftarrow>xs. {#fst x#}) = mset (map fst xs)" for xs :: "(string \<times> scan_obj) list"
    by (induction xs) simp_all
  have loop: "answered_paths a = answered_paths acc + mset (map fst xs) \<and>
      length (ew_requests t') = length (ew_requests t) + length xs"
    if "foldE (monitor_scan en opts) xs acc t = (Inr a, t')" for xs acc a t t'
    using that
  proof (induction xs arbitrary: acc t)
    case (Cons x xs)
    from Cons.prems obtain acc1 t1 where
      one: "monitor_scan en opts x acc t = (Inr acc1, t1)" and rest: "foldE (monitor_scan en opts) xs acc1 t1 = (Inr a, t')"
      by (auto elim: bindE_InrE)
    from Cons.IH [OF rest] monitor_scan_step [OF one] show ?case by simp
  qed (simp add: ret_def)
  have "answered_paths answer = mset (map fst (all_scans scans)) \<and>
    (\<not> isUnmanagedEcosystem eco \<longrightarrow> length (ew_requests s') = length (ew_requests s) + length (all_scans scans))"
  proof (cases "isUnmanagedEcosystem eco")
    case True
    with assms have run: "foldP (resolve_scan en opts cs) (all_scans scans) ([], []) s = Some (Inr answer, s')"
      by (simp add: selectAndExecuteMonitorStrategy_def resolveAndMonitorFacts_def)
    have "answered_paths answer = answered_paths ([], []) + (\<Sum>x\<leftarrow>all_scans scans. {#fst x#})"
      by (rule foldP_count [OF resolve_scan_step run])
    with True show ?thesis by (simp add: sum) (simp add: answered_paths_def)
  next
    case False
    with assms have run: "foldE (monitor_scan en opts) (all_scans scans) ([], []) s = (Inr answer, s')"
      by (simp add: selectAndExecuteMonitorStrategy_def monitorDependencies_def)
    from loop [OF run] False show ?thesis by (simp add: answered_paths_def)
  qed
  then show "answered_paths answer = mset (map fst (all_scans scans))"
    and "\<not> isUnmanagedEcosystem eco \<Longrightarrow> length (ew_requests s') = length (ew_requests s) + length (all_scans scans)"
    by simp_all
qed

text \<open>What the scans of the paths leave behind: under every path what its last scan gave, with the policy of the folder.\<close>

definition scanned :: "eco_env \<Rightarrow> string \<Rightarrow> string list \<Rightarrow> scan_obj list obj \<Rightarrow> bool" where
  "scanned en eco paths scans \<longleftrightarrow> set (obj_keys scans) = set paths \<and>
     (\<forall>p\<in>set paths. \<exists>used rs pol. ec_scan en eco used = Inr rs \<and> opt_text used ''path'' = Some p \<and>
        obj_get scans p = Some (map (with_policy en pol) rs))"

lemma scan_one_step:
  assumes "scan_one en eco p acc s = (Inr (scans, opts), s')"
  obtains rs pol where "ec_scan en eco opts = Inr rs" and "opts = obj_set ''path'' (AStr p) (snd acc)"
    and "scans = obj_set p (map (with_policy en pol) rs) (fst acc)"
  using assms
  by (auto simp: scan_one_def Let_def catchE_def bindE_apply ret_def throw_def on_mon_def split: sum.splits prod.splits)

lemma path_option [simp]: "opt_text (obj_set ''path'' (AStr p) opts) ''path'' = Some p"
  by (simp add: opt_text_def ob.get_put)

lemma scan_loop:
  assumes "foldE (scan_one en eco) ps ([], opts) s = (Inr (scans, opts'), s')"
  shows "scanned en eco ps scans" and "ps \<noteq> [] \<Longrightarrow> scan_path opts' = last ps"
proof -
  let ?I = "\<lambda>ys acc. scanned en eco ys (fst acc) \<and> (ys \<noteq> [] \<longrightarrow> scan_path (snd acc) = last ys)"
  have "?I ps (scans, opts')"
  proof (rule foldE_invariant [OF assms])
    show "?I [] ([], opts)" by (simp add: scanned_def)
  next
    fix ys x and a a' :: "scan_obj list obj \<times> option_obj" and t t'
    assume I: "?I ys a" and run: "scan_one en eco x a t = (Inr a', t')"
    obtain c d where a': "a' = (c, d)" by fastforce
    from run [unfolded a'] obtain rs pol where sc: "ec_scan en eco d = Inr rs" and d: "d = obj_set ''path'' (AStr x) (snd a)"
      and c: "c = obj_set x (map (with_policy en pol) rs) (fst a)" by (rule scan_one_step)
    have "\<exists>used rs pol. ec_scan en eco used = Inr rs \<and> opt_text used ''path'' = Some p \<and> obj_get c p = Some (map (with_policy en pol) rs)"
      if "p \<in> set (ys @ [x])" for p
    proof (cases "p = x")
      case True
      with d have "opt_text d ''path'' = Some p" by simp
      with sc c True show ?thesis by (metis ob.get_put_same)
    next
      case False
      with that have "p \<in> set ys" by simp
      with I obtain o' rs' pol' where "ec_scan en eco o' = Inr rs'" "opt_text o' ''path'' = Some p"
        "obj_get (fst a) p = Some (map (with_policy en pol') rs')" unfolding scanned_def by meson
      with False c show ?thesis by (auto simp: ob.get_put)
    qed
    moreover have "set (obj_keys c) = set (ys @ [x])" using I c by (simp add: scanned_def ob.keys_put)
    moreover have "scan_path d = x" using d by (simp add: scan_path_def)
    ultimately show "?I (ys @ [x]) a'" by (simp add: scanned_def a')
  qed
  then show "scanned en eco ps scans" and "ps \<noteq> [] \<Longrightarrow> scan_path opts' = last ps" by simp_all
qed

lemma monitorEcosystem_run:
  assumes "monitorEcosystem en eco paths opts cs s = Some (Inr answer, s')"
  obtains scans opts' t where "foldE (scan_one en eco) (map path_text paths) ([], opts) s = (Inr (scans, opts'), t)"
    and "selectAndExecuteMonitorStrategy en eco scans opts' cs t = Some (Inr answer, s')"
  using assms by (auto simp: monitorEcosystem_def elim!: bindP_SomeE)

text \<open>Outside of C and C++ nothing is polled, and the monitoring always returns.\<close>

lemma ecosystem_returns: "eco \<noteq> ''cpp'' \<Longrightarrow> \<exists>q. monitorEcosystem en eco paths opts cs s = Some q"
  by (simp add: monitorEcosystem_def bindP_def selectAndExecuteMonitorStrategy_def isUnmanagedEcosystem_def
      split: prod.split sum.split)

lemma scan_one_requests:
  "foldE (scan_one en eco) ps acc s = (r, t) \<Longrightarrow> ew_requests t = ew_requests s"
proof -
  have "keeps (\<lambda>u. ew_requests u = ew_requests s) (on_mon m)" for m :: "'x mio"
    by (simp add: keeps_def on_mon_def split: prod.split)
  then have "keeps (\<lambda>u. ew_requests u = ew_requests s) (foldE (scan_one en eco) ps acc)"
    unfolding scan_one_def Let_def by (intro frame_intros)
  then show "foldE (scan_one en eco) ps acc s = (r, t) \<Longrightarrow> ew_requests t = ew_requests s"
    by (auto simp: keeps_def)
qed


text \<open>Whatever path a scan result belongs to, its policy is looked for in the folder of the path that was scanned last.\<close>

theorem policy_of_last_path:
  assumes "foldE (scan_one en eco) ps ([], opts) s = (Inr (scans, opts'), s')" and "ps \<noteq> []"
  shows "findAndLoadPolicyForScanResult en opts' scan =
    monitored_policy (ec_mon en) (last ps) (if option_set opts' ''docker'' then ''docker'' else str_of_opt (identity_field scan ''type''))
      (policy_path_of opts') None
      (map_option (\<lambda>tf. fst (path_parse (path_join [resolve (pg_pe (mc_plug (ec_cmd en))) [last ps], tf])))
         (identity_field scan ''targetFile''))"
  using scan_loop(2) [OF assms] by (simp add: findAndLoadPolicyForScanResult_def scan_folder_def)

section \<open>Success\<close>

lemma formatted_ok:
  assumes "getFormattedMonitorOutput en answer opts = Inr out"
  shows "snd answer = []" and "\<exists>good. mapS (eco_outcome en opts) (fst answer) = Inr good \<and>
      out = js_join (newline @ MON_SEPARATOR) (map (outcome_text (ec_cmd en)) good)"
proof -
  have *: "list_all outcome_ok (map (\<lambda>e. BadResult (f e) (g e)) es) \<longleftrightarrow> es = []" for f g and es :: "eco_error list"
    by (cases es) simp_all
  from assms show "snd answer = []" "\<exists>good. mapS (eco_outcome en opts) (fst answer) = Inr good \<and>
      out = js_join (newline @ MON_SEPARATOR) (map (outcome_text (ec_cmd en)) good)"
    by (auto simp: getFormattedMonitorOutput_def bindS_Inr_iff Let_def * split: if_splits)
qed

text \<open>the command succeeds for an ecosystem only when the server has answered for every scan result of every path, and
  its output is the texts of these answers.\<close>

theorem ecosystem_success:
  assumes "ecosystem_run en eco paths opts cs s = Some (Inr out, s')"
  shows "\<exists>scans rs good opts'. scanned en eco (map path_text paths) scans \<and>
    mset (map ev_path rs) = mset (map fst (all_scans scans)) \<and>
    mapS (eco_outcome en opts') rs = Inr good \<and> map Some (map ev_path rs) = map (\<lambda>g. case g of GoodResult d p n \<Rightarrow> Some p | _ \<Rightarrow> None) good \<and>
    out = js_join (newline @ MON_SEPARATOR) (map (outcome_text (ec_cmd en)) good)"
proof -
  from assms obtain answer t where m: "monitorEcosystem en eco paths opts cs s = Some (Inr answer, t)"
    and f: "getFormattedMonitorOutput en answer
         (case paths of [] \<Rightarrow> opts | _ \<Rightarrow> obj_set ''path'' (AStr (path_text (last paths))) opts) = Inr out"
    unfolding ecosystem_run_def by (auto elim: bindP_SomeE)
  let ?o = "case paths of [] \<Rightarrow> opts | _ \<Rightarrow> obj_set ''path'' (AStr (path_text (last paths))) opts"
  from m obtain scans o' u where
    loop: "foldE (scan_one en eco) (map path_text paths) ([], opts) s = (Inr (scans, o'), u)"
    and run: "selectAndExecuteMonitorStrategy en eco scans o' cs u = Some (Inr answer, t)"
    by (rule monitorEcosystem_run)
  from formatted_ok [OF f] obtain good where none: "snd answer = []"
    and good: "mapS (eco_outcome en ?o) (fst answer) = Inr good"
    and out: "out = js_join (newline @ MON_SEPARATOR) (map (outcome_text (ec_cmd en)) good)" by blast
  have "\<exists>d n. g = GoodResult d (ev_path r) n" if "eco_outcome en ?o r = Inr g" for r g
    using that by (auto simp: eco_outcome_def Let_def bindS_Inr_iff)
  then have "list_all2 (\<lambda>r g. \<exists>d n. g = GoodResult d (ev_path r) n) (fst answer) good"
    using good [unfolded mapS_list_all2] by (auto elim: list_all2_mono)
  then have "map Some (map ev_path (fst answer)) = map (\<lambda>g. case g of GoodResult d p n \<Rightarrow> Some p | _ \<Rightarrow> None) good"
    by (induction rule: list_all2_induct) auto
  moreover have "mset (map ev_path (fst answer)) = mset (map fst (all_scans scans))"
    using strategy_answers(1) [OF run] none by (simp add: answered_paths_def)
  ultimately show ?thesis using scan_loop(1) [OF loop] good out by blast
qed

section \<open>Samples\<close>

definition sample_scan_obj :: scan_obj where
  "sample_scan_obj =
     \<lparr>so_view = \<lparr>rm_name = Some ''n'', rm_target = JUndef, rm_identity = JObj [(''type'', JStr ''apk'')], rm_policy = None,
        rm_targetReference = None, sv_facts = JArr []\<rparr>, so_analytics = None\<rparr>"

definition sample_eco_env :: "(nat \<Rightarrow> eco_request \<Rightarrow> thrown + json) \<Rightarrow> eco_env" where
  "sample_eco_env server =
     \<lparr>ec_cmd =
        \<lparr>mc_plug = sample_plug_env, mc_test = sample_test_env, mc_exec = (\<lambda>_ _. (None, [], [])), mc_now = 0, mc_deepest = 4,
         mc_ecosystem = (\<lambda>_ _ _ _. ret []), mc_bold_white = id, mc_warn = id, mc_stringify = (\<lambda>_ _. ''{}''),
         mc_tree_json = (\<lambda>_. []), mc_format_url = (\<lambda>a b. a @ b), mc_branch = ([], [], []), mc_release_warning = []\<rparr>,
      ec_scan = (\<lambda>_ _. Inr [sample_scan_obj, sample_scan_obj]), ec_server = server,
      ec_poll_server = (\<lambda>_ _. Inl (Some 500, None)), ec_fuel = 3\<rparr>"

definition sample_eco_world :: eco_world where
  "sample_eco_world = \<lparr>ew_mon = sample_mon_world, ew_poll = \<lparr>sent = [], slept = []\<rparr>, ew_requests = []\<rparr>"

abbreviation sample_answering :: "nat \<Rightarrow> eco_request \<Rightarrow> thrown + json" where
  "sample_answering \<equiv> (\<lambda>n q. Inr (JObj [(''ok'', JBool True), (''uri'', JStr ''u''), (''id'', JStr ''i'')]))"

text \<open>An operation that always returns one value.\<close>

definition gives :: "('e, 's, 'a) eff \<Rightarrow> 'a \<Rightarrow> bool" where
  "gives m x \<longleftrightarrow> (\<forall>s. \<exists>s'. m s = (Inr x, s'))"

lemma gives_ret: "gives (ret x) x"
  and gives_lift: "r = Inr x \<Longrightarrow> gives (lift r) x"
  by (simp_all add: gives_def ret_def)

lemma givesE:
  assumes "gives m x"
  obtains s' where "m s = (Inr x, s')"
  using assms unfolding gives_def by blast

lemma gives_bindE:
  assumes "gives m x" "gives (f x) y"
  shows "gives (bindE m f) y"
  unfolding gives_def
proof
  fix s
  obtain t where t: "m s = (Inr x, t)" using assms(1) by (rule givesE)
  obtain u where "f x t = (Inr y, u)" using assms(2) by (rule givesE)
  with t show "\<exists>s'. bindE m f s = (Inr y, s')" by (simp add: bindE_apply)
qed

lemma gives_catchE:
  assumes "gives m x"
  shows "gives (catchE m h) x"
  unfolding gives_def
proof
  fix s
  obtain t where "m s = (Inr x, t)" using assms by (rule givesE)
  then show "\<exists>s'. catchE m h s = (Inr x, s')" by (simp add: catchE_def)
qed

lemma gives_on_mon:
  assumes "gives m x"
  shows "gives (on_mon m) x"
  unfolding gives_def
proof
  fix s :: eco_world
  obtain t where "m (ew_mon s) = (Inr x, t)" using assms by (rule givesE)
  then show "\<exists>s'. on_mon m s = (Inr x, s')" by (simp add: on_mon_def)
qed

lemma gives_mon_adds: "\<exists>us. gives (mapE (\<lambda>(k, v). mon_add en k v) kvs) us"
proof (induction kvs)
  case (Cons kv kvs)
  then obtain us where us: "gives (mapE (\<lambda>(k, v). mon_add en k v) kvs) us" by blast
  have "gives (mon_add en k v) ()" for k v by (simp add: gives_def mon_add_def)
  then have one: "gives (case kv of (k, v) \<Rightarrow> mon_add en k v) ()" by (cases kv) simp
  have "gives (mapE (\<lambda>(k, v). mon_add en k v) (kv # kvs)) (() # us)"
    unfolding mapE.simps by (rule gives_bindE [OF one], rule gives_bindE [OF us], rule gives_ret)
  then show ?case by blast
next
  case Nil
  have "gives (mapE (\<lambda>(k, v). mon_add en k v) []) []" unfolding mapE.simps by (rule gives_ret)
  then show ?case by blast
qed

lemma sample_no_policy: "gives (monitored_policy (ec_mon (sample_eco_env server)) r k p None d) None"
proof -
  obtain u where f: "findAndLoadPolicy (mv_um sample_mon_env) r k p None d um_start = (Inr None, u)"
    by (fastforce simp: findAndLoadPolicy_def Let_def bindE_apply add_analytics_def sample_mon_env_def sample_um_env_def ret_def)
  have "ec_mon (sample_eco_env server) = sample_mon_env"
    by (simp add: ec_mon_def mc_mon_def sample_eco_env_def sample_plug_env_def)
  moreover obtain us where "gives (mapE (\<lambda>(k, v). mon_add sample_mon_env k v) (um_analytics u)) us"
    using gives_mon_adds by blast
  ultimately show ?thesis
    using f by (auto simp: monitored_policy_def um_start_def intro: gives_bindE gives_ret)
qed

abbreviation sample_docker :: option_obj where
  "sample_docker \<equiv> [(''docker'', ABool True)]"

lemma sample_no_tags:
  assumes "\<And>k. k \<in> {''project-business-criticality'', ''project-environment'', ''project-lifecycle'', ''project-tags'', ''tags''} \<Longrightarrow>
    obj_get opts k = None"
  shows "checked_tags en opts = Inr None" "\<exists>a. checked_attributes en opts = Inr a"
  using assms
  by (auto simp: checked_tags_def checked_attributes_def monitor_options_of_def opt_value_of_def generateTags_def
      generateProjectAttributes_def getProjectAttribute_def Let_def)

lemma sample_request:
  assumes "opts = obj_set ''path'' (AStr p) sample_docker"
  shows "\<exists>request. gives (generateMonitorDependenciesRequest (sample_eco_env server) opts sample_scan_obj) request"
proof -
  have "obj_get opts k = None" if "k \<in> {''project-business-criticality'', ''project-environment'', ''project-lifecycle'', ''project-tags'', ''tags''}" for k
    using that by (auto simp: assms ob.get_put)
  from sample_no_tags [OF this] obtain a where
    t: "checked_tags (sample_eco_env server) opts = Inr None" "checked_attributes (sample_eco_env server) opts = Inr a" by blast
  show ?thesis
    unfolding generateMonitorDependenciesRequest_def findAndLoadPolicyForScanResult_def Let_def t
    by (rule exI, rule gives_bindE, rule sample_no_policy, (rule gives_bindE, rule gives_lift, rule refl)+, rule gives_ret)
qed

abbreviation sample_reply :: json where
  "sample_reply \<equiv> JObj [(''ok'', JBool True), (''uri'', JStr ''u''), (''id'', JStr ''i'')]"

lemma sample_monitor_scan:
  assumes "opts = obj_set ''path'' (AStr p) sample_docker"
  shows "\<exists>sc. gives (monitor_scan (sample_eco_env sample_answering) opts (q, sample_scan_obj) acc)
    (fst acc @ [\<lparr>ev_response = sample_reply, ev_path = q, ev_scan = sc\<rparr>], snd acc)"
proof -
  let ?en = "sample_eco_env sample_answering"
  from sample_request [OF assms] obtain request where r: "gives (generateMonitorDependenciesRequest ?en opts sample_scan_obj) request"
    by blast
  have o: "monitored_org (ec_mon ?en) = Inr None"
    by (simp add: monitored_org_def ec_mon_def mc_mon_def sample_eco_env_def sample_plug_env_def sample_mon_env_def sample_run_env_def)
  have s: "gives (send_dependencies ?en pl) sample_reply" for pl
    by (simp add: gives_def send_dependencies_def sample_eco_env_def)
  have "gives (monitor_scan ?en opts (q, sample_scan_obj) acc)
    (fst acc @ [\<lparr>ev_response = sample_reply, ev_path = q, ev_scan = dr_scan request\<rparr>], snd acc)"
    unfolding monitor_scan_def fst_conv snd_conv
    by (rule gives_bindE [OF gives_on_mon [OF r]], rule gives_bindE, rule gives_lift [OF o], rule gives_catchE,
        rule gives_bindE [OF s], rule gives_ret)
  then show ?thesis by blast
qed

lemma sample_scan_one:
  "gives (scan_one (sample_eco_env server) ''docker'' p (scans, opts))
     (obj_set p [sample_scan_obj, sample_scan_obj] scans, obj_set ''path'' (AStr p) opts)"
proof -
  have i: "map (with_policy en None) xs = xs" for en xs by (induction xs) (simp_all add: with_policy_def)
  have sc: "ec_scan (sample_eco_env server) e o' = Inr [sample_scan_obj, sample_scan_obj]" for e o'
    by (simp add: sample_eco_env_def)
  show ?thesis
    unfolding scan_one_def Let_def fst_conv snd_conv
    by (rule gives_catchE, rule gives_bindE, rule gives_lift [OF sc], rule gives_bindE [OF gives_on_mon [OF sample_no_policy]],
        unfold i, rule gives_ret)
qed

lemma sample_ecosystem:
  "\<exists>answer s'. monitorEcosystem (sample_eco_env sample_answering) ''docker'' [IStr ''img''] sample_docker [] sample_eco_world =
     Some (Inr answer, s') \<and> snd answer = [] \<and> (\<forall>r\<in>set (fst answer). ev_response r = sample_reply)"
proof -
  let ?en = "sample_eco_env sample_answering" and ?o = "obj_set ''path'' (AStr ''img'') sample_docker"
  have "obj_get sample_docker k = None" if "k \<in> {''project-business-criticality'', ''project-environment'', ''project-lifecycle'', ''project-tags'', ''tags''}" for k
    using that by auto
  from sample_no_tags [OF this] obtain a where
    t: "checked_tags ?en sample_docker = Inr None" "checked_attributes ?en sample_docker = Inr a" by blast
  let ?scans = "obj_set ''img'' [sample_scan_obj, sample_scan_obj] []"
  obtain t where one: "scan_one ?en ''docker'' ''img'' ([], sample_docker) sample_eco_world = (Inr (?scans, ?o), t)"
    using sample_scan_one by (rule givesE)
  have scan: "foldE (scan_one ?en ''docker'') [''img''] ([], sample_docker) sample_eco_world = (Inr (?scans, ?o), t)"
    by (simp add: bindE_apply one ret_def)
  have all: "all_scans ?scans = [(''img'', sample_scan_obj), (''img'', sample_scan_obj)]"
    by (simp add: all_scans_def obj_set_def is_array_index_def js_digit_def)
  from sample_monitor_scan [OF refl, where q = "''img''" and acc = "([], [])" and p = "''img''"] obtain sc1 where
    one: "gives (monitor_scan ?en ?o (''img'', sample_scan_obj) ([], [])) ([\<lparr>ev_response = sample_reply, ev_path = ''img'', ev_scan = sc1\<rparr>], [])"
    by auto
  from sample_monitor_scan [OF refl, where q = "''img''" and p = "''img''" and
      acc = "([\<lparr>ev_response = sample_reply, ev_path = ''img'', ev_scan = sc1\<rparr>], [])"] obtain sc2 where
    two: "gives (monitor_scan ?en ?o (''img'', sample_scan_obj) ([\<lparr>ev_response = sample_reply, ev_path = ''img'', ev_scan = sc1\<rparr>], []))
      ([\<lparr>ev_response = sample_reply, ev_path = ''img'', ev_scan = sc1\<rparr>, \<lparr>ev_response = sample_reply, ev_path = ''img'', ev_scan = sc2\<rparr>], [])"
    by auto
  let ?answer = "([\<lparr>ev_response = sample_reply, ev_path = ''img'', ev_scan = sc1\<rparr>, \<lparr>ev_response = sample_reply, ev_path = ''img'', ev_scan = sc2\<rparr>], [])"
  have "gives (monitorDependencies ?en ?scans ?o) ?answer"
    unfolding monitorDependencies_def all foldE.simps by (rule gives_bindE [OF one], rule gives_bindE [OF two], rule gives_ret)
  then obtain u where "monitorDependencies ?en ?scans ?o t = (Inr ?answer, u)" by (rule givesE)
  with scan have "monitorEcosystem ?en ''docker'' [IStr ''img''] sample_docker [] sample_eco_world = Some (Inr ?answer, u)"
    by (simp add: monitorEcosystem_def t bindP_def ret_def path_text_def selectAndExecuteMonitorStrategy_def isUnmanagedEcosystem_def)
  then show ?thesis by (intro exI conjI) (assumption, simp_all)
qed


theorem ecosystem_success_witness:
  "\<exists>out s'. ecosystem_run (sample_eco_env sample_answering) ''docker'' [IStr ''img''] sample_docker [] sample_eco_world =
     Some (Inr out, s') \<and> (\<exists>scans (rs :: eco_result list). scanned (sample_eco_env sample_answering) ''docker'' [''img''] scans \<and>
       mset (map ev_path rs) = mset (map fst (all_scans scans)))"
proof -
  let ?en = "sample_eco_env sample_answering" and ?o = "obj_set ''path'' (AStr ''img'') sample_docker"
  obtain answer s' where run: "monitorEcosystem ?en ''docker'' [IStr ''img''] sample_docker [] sample_eco_world = Some (Inr answer, s')"
    and none: "snd answer = []" and ok: "\<forall>r\<in>set (fst answer). ev_response r = sample_reply" using sample_ecosystem by blast
  have good: "\<exists>g. eco_outcome ?en ?o r = Inr g" if "r \<in> set (fst answer)" for r
  proof -
    have "no_extra_projects ?en ?o = Inr None"
      by (simp add: no_extra_projects_def option_set_def ob.get_put arg_truthy_def)
    then show ?thesis by (simp add: eco_outcome_def Let_def)
  qed
  have "\<exists>gs. mapS (eco_outcome ?en ?o) rs = Inr gs" if "\<And>r. r \<in> set rs \<Longrightarrow> \<exists>g. eco_outcome ?en ?o r = Inr g" for rs
    using that by (induction rs) (auto, fastforce)
  with good obtain gs where gs: "mapS (eco_outcome ?en ?o) (fst answer) = Inr gs" by blast
  have "list_all outcome_ok gs"
    using gs [unfolded mapS_list_all2]
    by (induction rule: list_all2_induct) (auto simp: eco_outcome_def Let_def bindS_Inr_iff)
  with gs none have "\<exists>out. getFormattedMonitorOutput ?en answer ?o = Inr out"
    by (simp add: getFormattedMonitorOutput_def Let_def)
  then obtain out where "getFormattedMonitorOutput ?en answer ?o = Inr out" ..
  with run have r: "ecosystem_run ?en ''docker'' [IStr ''img''] sample_docker [] sample_eco_world = Some (Inr out, s')"
    by (simp add: ecosystem_run_def bindP_def path_text_def)
  have p: "map path_text [IStr ''img''] = [''img'']" by (simp add: path_text_def)
  from ecosystem_success [OF r, unfolded p] obtain scans and rs :: "eco_result list" where "scanned ?en ''docker'' [''img''] scans"
    "mset (map ev_path rs) = mset (map fst (all_scans scans))" by blast
  with r show ?thesis by blast
qed

end
