(* ===== verification/Spec2Isabelle.thy ===== *)
theory Spec2Isabelle
  imports FixMain ProtectMain Detect FixEntities Polling UnmanagedTest FindFiles CliMain RunTest FormatIssues TestCommand MonitorCommand FixCommand Ecosystems
begin

text \<open>
  This development models the vulnmap command line tool, a TypeScript program that looks for
  known vulnerabilities in the dependencies of a project. Its parts are

  - the command line tool itself (\<open>src/src\<close>): \<open>cli/main.ts\<close> parses the words of
    the command line, checks the options, runs one command and turns its result or its
    error into output and an exit code. The commands modelled here are \<open>test\<close>,
    \<open>monitor\<close> and \<open>fix\<close>;
  - \<open>lib\<close>, what the commands share: the search for manifests, the choice of a
    package manager, the plugins that build dependency trees and graphs, the requests to
    the server, the conversion of its answers, the texts that are printed;
  - the fix library (\<open>src/packages/vulnmap-fix\<close>), which rewrites requirements files and
    runs pipenv and poetry to upgrade vulnerable packages;
  - protect (\<open>src/packages/vulnmap-protect\<close>), which applies patches to installed packages.

  A test goes from the command (\<open>TestCommand\<close>) through the plugins (\<open>PluginDeps\<close>) and
  the requests (\<open>RunTest\<close>) to the conversion of the answer (\<open>LegacyResults\<close>) and back
  to the text (\<open>TestDisplay\<close>, \<open>FormatIssues\<close>) and the exit code (\<open>CliMain\<close>). The command
  \<open>monitor\<close> (\<open>MonitorCommand\<close>) uses the same plugins and sends each project to the
  server (\<open>MonitorLib\<close>). The results of a test are turned into entities (\<open>FixEntities\<close>),
  which the command \<open>fix\<close> (\<open>FixCommand\<close>) gives to the fix library (\<open>FixMain\<close>,
  \<open>PythonPlugin\<close>).

  Vocabulary.
  - \<open>Prelude\<close>: the effect type of asynchronous, throwing, state-changing code (a function
    from the state to a value or an error, and the state after), sequential loops over it,
    a variant with fuel, the rules that say what an operation leaves alone, general facts
    on lists and options.
  - \<open>JsString\<close>, \<open>JsObject\<close>, \<open>JsJson\<close>, \<open>JsPath\<close>, \<open>JsRegExp\<close>: the standard library as the
    code uses it. A string is a list of 8-bit code units, an object is the list of its own
    properties in the order of \<open>Object.keys\<close>, a value of type any is a \<open>json\<close>, a regular
    expression is a term for a backtracking matcher with the semantics of ECMAScript.

  The fix library.
  - \<open>FixTypes\<close>: \<open>types.ts\<close>, \<open>plugins/types.ts\<close>, the errors. \<open>Workspace\<close>: the files on disk,
    the state of the library. \<open>Tools\<close>: lodash, the TOML parser and the runners of pipenv and
    poetry, as parameters.
  - \<open>Requirements\<close>, \<open>UpdateRequirements\<close>, \<open>Provenance\<close>, \<open>PipRequirements\<close>: the handler of
    requirements files: the parser (parsing and printing is the identity on every text), the
    update of one file (line by line), the files drawn in by \<open>-r\<close> and \<open>-c\<close> (the recursion
    ends on every workspace of ordinary paths, and diverges on a file that requires itself
    by another spelling), the handler (every entity in exactly one list).
  - \<open>HandlerCommon\<close>, \<open>ToolHandlers\<close>, \<open>PythonPlugin\<close>: the handlers of pipenv and poetry and
    the plugin: every entity is answered for, in every order of its loops.
  - \<open>FixOutput\<close>, \<open>FixMain\<close>: the counts and texts of the summary and the entry point.

  Protect: \<open>ProtectWorld\<close> (files with links, analytics), \<open>ProtectPolicy\<close> (the policy file is
  read back as it was printed), \<open>ProtectModules\<close> (the walk over \<open>node_modules\<close> ends on every
  finite tree and finds exactly the reachable packages), \<open>ProtectPatch\<close> (the application of a
  diff), \<open>ProtectMain\<close> (requests, analytics, entry point).

  The tool.
  - \<open>CliArgs\<close> (\<open>args.ts\<close>, \<open>modes.ts\<close>), \<open>CliErrors\<close> (error classes, \<open>legacy-errors.js\<close>),
    \<open>CliMain\<close> (\<open>main.ts\<close>, \<open>sln\<close>, file output): a printed command line is read back, exit
    codes, what the analytics see.
  - \<open>Detect\<close> (\<open>detect.ts\<close>, \<open>package-managers.ts\<close>), \<open>FindFiles\<close> (\<open>find-files.ts\<close>): the
    search returns exactly the reachable files.
  - \<open>Polling\<close>, \<open>UnmanagedTest\<close> (C and C++ folders), \<open>MonitorOptions\<close> (tags and attributes),
    \<open>RunTest\<close> (\<open>run-test.ts\<close>: payloads, at most three attempts each, answers in the order of
    the payloads), \<open>LegacyResults\<close> (\<open>legacy.ts\<close>: the issues of every path, equal to a
    reference definition).
  - \<open>FormatIssues\<close>, \<open>TestDisplay\<close>, \<open>TestCommand\<close>: the texts and the verdict of a test.
  - \<open>DepTrees\<close> (counting, pruning and filtering of trees), \<open>GitContributors\<close>
    (\<open>dev-count-analysis.ts\<close>), \<open>MonitorLib\<close> (\<open>lib/monitor\<close>: at most one request for each
    project), \<open>PluginDeps\<close> (\<open>lib/plugins\<close> but RubyGems: every manifest is in a workspace,
    scanned or reported), \<open>MonitorCommand\<close> (one outcome for each project, failures isolated).
  - \<open>FixCommand\<close>: the command \<open>fix\<close> from its options to its verdict, on the model of the fix
    library: a path that fails costs no other path anything, a dry run changes no file.
  - \<open>Ecosystems\<close>: \<open>lib/ecosystems/monitor.ts\<close> and \<open>resolve-monitor-facts.ts\<close>, what \<open>monitor\<close>
    does with the scan results of containers and of C and C++ folders: each is answered for
    once, and the command succeeds only when none failed.

  Interfaces. \<open>js_dict\<close> (\<open>JsObject\<close>) is the contract of the objects used as dictionaries,
  \<open>store\<close> (\<open>Workspace\<close>) that of reading and writing files, \<open>fix_handler\<close> (\<open>HandlerCommon\<close>)
  what every handler of the fix library promises (each entity in exactly one list, nothing
  written in a dry run) and \<open>polling_loop\<close> (\<open>Polling\<close>) the shape of the loops that wait for the
  server. Each is interpreted on the definitions that model the code.

  How code became definitions. A function of the code is a function of the same name; a
  callback or a loop body that needs a name of its own is a definition beside it. An
  exception is the left value of a sum; a promise that rejects likewise. Every \<open>throw\<close>, every
  early return and every \<open>TypeError\<close> that the inputs of the model can cause is a branch. The
  order of effects is the order of the code; where callbacks run concurrently
  (\<open>p-map\<close>, \<open>Promise.all\<close>), the order of completion is an argument and the theorems hold for
  every order. A field that may be absent is an option, a value of type any a \<open>json\<close>.

  Fuel. Three recursions may not end: \<open>extractProvenance\<close> (require directives),
  \<open>findPhysicalModules\<close> (folders with links) and the polling loops. They take fuel, and not
  returning is None. The theorems give enough fuel where one exists (the number of files and
  directives, the depth of the tree, the number of pending answers and one more); for the
  walk over folders more fuel changes nothing. For polling with an answer that stays pending and for
  a file that requires itself they show that no fuel is enough. The regular
  expressions and the JSON parser take the size of their input as fuel, which always is
  enough; the descent of the search is bounded by the depth the caller gives.

  Parameters, fields of the environment records, stand for code that is not in the
  repository: lodash, chalk and strip-ansi (texts only), abbrev, micromatch, the parsers of
  lock files and of TOML, the plugins of the package managers, the graph package and
  its conversions, the policy package, git and \<open>child_process.exec\<close>, the server, the clock,
  \<open>JSON.stringify\<close> of an arbitrary value, \<open>decodeURIComponent\<close> and \<open>url.parse\<close>. Their laws, where
  a theorem needs one, are named predicates (\<open>tools_ok\<close>, \<open>ff_lib_ok\<close>, \<open>lodash_ok\<close>, ...), and
  the witnesses instantiate them by concrete functions.

  Not modelled.
  - Commands around packages that are not in the repository or around the terminal: \<open>auth\<close>,
    \<open>config\<close>, \<open>help\<close>, \<open>ignore\<close>, \<open>policy\<close>, \<open>apps\<close>, \<open>log4shell\<close>, \<open>describe\<close>; the spinner.
  - The tests of infrastructure code, drift, static code analysis and containers: they run
    other programs or packages, and are parameters of the commands that call them.
  - The loop of \<open>lib/ecosystems/test.ts\<close> for containers (a parameter of the test command); the
    unmanaged tests of the same directory are modelled.
  - The SARIF logs (a parameter of the test command), the HTTP clients, the data of the
    analytics request and the request itself.
  - The plugin for RubyGems, which calls a parser outside the repository; the wrapper that
    downloads the released binary, the alert packages and the build scripts.
  - Text is a list of 8-bit code units, so no statement is made about characters beyond them;
    integers that the code keeps as floating-point numbers are exact.
\<close>

end
